(* ===== verification/Prelude.thy ===== *)
theory Prelude
  imports Main "HOL-Library.Word"
begin

text \<open>
  Shared vocabulary of the development: Go's scalar types as the model reads them
  (bytes, instants, durations, machine words), the error values, the environment a call
  runs in (clock, entropy, storage faults), and the interfaces (locales) that several
  components provide or rely on, each with the lemmas its clients share.
\<close>

section \<open>Lemma collections\<close>

named_theorems go_time \<open>definitions of Go's time arithmetic\<close>
named_theorems db_pres \<open>statements that keep the database well formed\<close>

section \<open>Scalars\<close>

text \<open>
  A Go string and a Go byte slice are both sequences of bytes; HOL's \<open>char\<close> is an
  8-bit byte, so both are \<open>string\<close> and the conversions between them are the identity.
\<close>

type_synonym bytes = string
type_synonym u32 = "32 word"
type_synonym u64 = "64 word"

text \<open>
  A \<open>time.Time\<close> is an instant in nanoseconds from the Unix epoch, a
  \<open>time.Duration\<close> a number of nanoseconds. \<open>time.Time{}\<close> is the first
  instant of year 1 UTC. \<open>Sub\<close> saturates at the limits of a 64-bit duration.
\<close>

type_synonym time = int
type_synonym duration = int

definition second :: duration where
  [go_time]: "second = 1000000000"

definition minute :: duration where
  [go_time]: "minute = 60 * 1000000000"

definition hour :: duration where
  [go_time]: "hour = 3600 * 1000000000"

definition zero_time :: time where
  "zero_time = - 62135596800 * 1000000000"

definition is_zero :: "time \<Rightarrow> bool" where
  "is_zero t \<longleftrightarrow> t = zero_time"

definition unix :: "time \<Rightarrow> int" where
  [go_time]: "unix t = t div 1000000000"

definition unix_milli :: "time \<Rightarrow> int" where
  [go_time]: "unix_milli t = t div 1000000"

definition from_unix_milli :: "int \<Rightarrow> time" where
  [go_time]: "from_unix_milli ms = ms * 1000000"

definition time_sub :: "time \<Rightarrow> time \<Rightarrow> duration" where
  "time_sub t u = max (- (2 ^ 63)) (min (2 ^ 63 - 1) (t - u))"

text \<open>Two's-complement reading of a 64-bit product, as Go's \<open>int64\<close> arithmetic has it.\<close>

definition wrap64 :: "int \<Rightarrow> int" where
  "wrap64 x = sint (word_of_int x :: 64 word)"

lemma unix_milli_from [simp]: "unix_milli (from_unix_milli ms) = ms"
  by (simp add: go_time)

lemma unix_mono: "t \<le> u \<Longrightarrow> unix t \<le> unix u"
  by (simp add: go_time zdiv_mono1)

lemma unix_milli_mono: "t \<le> u \<Longrightarrow> unix_milli t \<le> unix_milli u"
  by (simp add: go_time zdiv_mono1)

lemma time_sub_less: "d \<le> 2 ^ 63 - 1 \<Longrightarrow> time_sub t u < d \<longleftrightarrow> t - u < d \<and> - (2 ^ 63) < d"
  by (auto simp: time_sub_def)

lemma wrap64_id: "- (2 ^ 63) \<le> x \<Longrightarrow> x < 2 ^ 63 \<Longrightarrow> wrap64 x = x"
  by (simp add: wrap64_def sint_sbintrunc' signed_take_bit_int_eq_self)

section \<open>Errors and results\<close>

text \<open>
  gRPC status codes, and the errors the code makes: \<open>Error\<close> is \<open>errors.New\<close>,
  \<open>Errorf f args w\<close> a formatted error with the values printed into it and the
  error wrapped by \<open>%w\<close>, \<open>Status\<close> a gRPC status error. The others are the
  errors the standard library returns: an empty result set, a violated constraint, a
  failing store, a cancelled or expired context, the end of a stream, a failing entropy
  source, and \<open>External\<close> for an error of any other call.
\<close>

datatype code = Canceled_code | Unknown | InvalidArgument | DeadlineExceeded_code | NotFound
  | AlreadyExists | PermissionDenied | ResourceExhausted | FailedPrecondition | Unimplemented
  | Internal | Unavailable | Unauthenticated

datatype error =
    Error string
  | Errorf string "string list" "error option"
  | Status code string
  | NoRows
  | Constraint
  | StorageFailure
  | Canceled
  | DeadlineExceeded
  | EOF
  | EntropyFailure
  | External string

type_synonym 'a result = "error + 'a"

definition ok :: "'a result \<Rightarrow> bool" where
  "ok r = (case r of Inl e \<Rightarrow> False | Inr v \<Rightarrow> True)"

definition status_code :: "error \<Rightarrow> code" where
  "status_code e = (case e of Status c s \<Rightarrow> c | _ \<Rightarrow> Unknown)"

lemma ok_simps [simp]: "\<not> ok (Inl e)" "ok (Inr v)"
  by (simp_all add: ok_def)

lemma ok_iff: "ok r \<longleftrightarrow> (\<exists>v. r = Inr v)"
  by (cases r) auto

text \<open>
  What \<open>err.Error()\<close> prints: the verbs of a format are filled with the printed values, the
  wrapped error's text last. The texts of the store's and the system's own errors are the
  driver's; an empty text stands for them.
\<close>

fun fill_format :: "string \<Rightarrow> string list \<Rightarrow> string" where
  "fill_format [] args = []"
| "fill_format [c] args = [c]"
| "fill_format (c # v # cs) args = (if c = CHR 0x25
     then (case args of [] \<Rightarrow> c # v # fill_format cs [] | x # xs \<Rightarrow> x @ fill_format cs xs)
     else c # fill_format (v # cs) args)"

definition code_text :: "code \<Rightarrow> string" where
  "code_text c = (case c of Canceled_code \<Rightarrow> ''Canceled'' | Unknown \<Rightarrow> ''Unknown'' | InvalidArgument \<Rightarrow> ''InvalidArgument''
     | DeadlineExceeded_code \<Rightarrow> ''DeadlineExceeded'' | NotFound \<Rightarrow> ''NotFound'' | AlreadyExists \<Rightarrow> ''AlreadyExists''
     | PermissionDenied \<Rightarrow> ''PermissionDenied'' | ResourceExhausted \<Rightarrow> ''ResourceExhausted''
     | FailedPrecondition \<Rightarrow> ''FailedPrecondition'' | Unimplemented \<Rightarrow> ''Unimplemented'' | Internal \<Rightarrow> ''Internal''
     | Unavailable \<Rightarrow> ''Unavailable'' | Unauthenticated \<Rightarrow> ''Unauthenticated'')"

fun error_text :: "error \<Rightarrow> string" where
  "error_text (Error s) = s"
| "error_text (Errorf f args None) = fill_format f args"
| "error_text (Errorf f args (Some w)) = fill_format f (args @ [error_text w])"
| "error_text (Status c s) = ''rpc error: code = '' @ code_text c @ '' desc = '' @ s"
| "error_text NoRows = ''sql: no rows in result set''"
| "error_text Canceled = ''context canceled''"
| "error_text DeadlineExceeded = ''context deadline exceeded''"
| "error_text EOF = ''EOF''"
| "error_text (External s) = s"
| "error_text _ = []"

text \<open>A call that may panic, as sending on a closed channel does.\<close>

datatype 'a outcome = Ret 'a | Panic string

definition returns :: "'a outcome \<Rightarrow> bool" where
  "returns x = (case x of Ret v \<Rightarrow> True | Panic s \<Rightarrow> False)"

lemma returns_simps [simp]: "returns (Ret v)" "\<not> returns (Panic s)"
  by (simp_all add: returns_def)

section \<open>The environment of a call\<close>

text \<open>
  What a call reads from outside: \<open>env_clock e i\<close> is its \<open>i\<close>-th reading of the
  clock, \<open>env_rand e k\<close> the bytes of its \<open>k\<close>-th read of the entropy source
  and \<open>env_rand_fails e k\<close> whether that read fails, \<open>env_db_fails e k\<close> whether
  the \<open>k\<close>-th statement it sends to the store (BEGIN and COMMIT included) fails for a
  reason other than its constraints, such as a full disk or a cancelled context.
\<close>

record env =
  env_clock :: "nat \<Rightarrow> time"
  env_rand :: "nat \<Rightarrow> nat \<Rightarrow> char"
  env_rand_fails :: "nat \<Rightarrow> bool"
  env_db_fails :: "nat \<Rightarrow> bool"

definition rand_read :: "env \<Rightarrow> nat \<Rightarrow> nat \<Rightarrow> bytes result" where
  "rand_read e k n = (if env_rand_fails e k then Inl EntropyFailure
     else Inr (map (env_rand e k) [0..<n]))"

text \<open>A quiet environment at a fixed time, for evaluating examples.\<close>

definition calm :: "time \<Rightarrow> env" where
  "calm t = \<lparr>env_clock = (\<lambda>_. t), env_rand = (\<lambda>k i. char_of (16 * k + i + 1)),
     env_rand_fails = (\<lambda>_. False), env_db_fails = (\<lambda>_. False)\<rparr>"

lemma rand_read_length: "rand_read e k n = Inr bs \<Longrightarrow> List.length bs = n"
  by (auto simp: rand_read_def split: if_splits)

lemma rand_read_calm [simp]: "rand_read (calm t) k n = Inr (map (\<lambda>i. char_of (16 * k + i + 1)) [0..<n])"
  by (simp add: rand_read_def calm_def)

lemma calm_simps [simp]:
  "env_clock (calm t) i = t" "\<not> env_rand_fails (calm t) k" "\<not> env_db_fails (calm t) k"
  by (simp_all add: calm_def)

section \<open>Lists and maps\<close>

text \<open>The first element satisfying a predicate, and how updates elsewhere keep it.\<close>

lemma find_Some_mem: "List.find P xs = Some x \<Longrightarrow> x \<in> set xs \<and> P x"
  by (auto simp: find_Some_iff)

lemma find_None_iff': "List.find P xs = None \<longleftrightarrow> (\<forall>x \<in> set xs. \<not> P x)"
  by (auto simp: find_None_iff)

lemma find_unique:
  assumes "x \<in> set xs" "P x" "\<And>y. y \<in> set xs \<Longrightarrow> P y \<Longrightarrow> y = x"
  shows "List.find P xs = Some x"
proof (cases "List.find P xs")
  case None
  then show ?thesis using assms(1,2) by (auto simp: find_None_iff)
next
  case (Some y)
  then have "y \<in> set xs" "P y" by (auto dest: find_Some_mem)
  then show ?thesis using assms(3) Some by simp
qed

lemma distinct_map_inj: "distinct (map f xs) \<Longrightarrow> x \<in> set xs \<Longrightarrow> y \<in> set xs \<Longrightarrow> f x = f y \<Longrightarrow> x = y"
  by (auto simp: distinct_map dest: inj_onD)

lemma filter_eq_distinct: "distinct xs \<Longrightarrow> x \<in> set xs \<Longrightarrow> filter (\<lambda>y. y = x) xs = [x]"
  by (induction xs) (auto simp: filter_empty_conv)

lemma length_filter_unique:
  assumes "distinct (map f xs)" "x \<in> set xs" "P x" "\<And>y. y \<in> set xs \<Longrightarrow> P y \<Longrightarrow> f y = f x"
  shows "List.length (filter P xs) = 1"
proof -
  have "filter P xs = filter (\<lambda>y. y = x) xs"
    using assms by (intro filter_cong) (auto dest: distinct_map_inj)
  moreover have "filter (\<lambda>y. y = x) xs = [x]"
    using assms(1,2) by (simp add: distinct_map filter_eq_distinct)
  ultimately show ?thesis by simp
qed

section \<open>Interfaces shared by several components\<close>

text \<open>
  Things used at most once. A store changes by steps; \<open>key a\<close> is what step \<open>a\<close>
  tries to use up, if anything, and the step reports whether it did. The provider promises that
  a success leaves the key spent, that a spent key is refused, and that no step makes a spent
  key fresh again. The client's fact is that a run of steps uses each key up at most once.
\<close>

fun wins :: "('a \<Rightarrow> 's \<Rightarrow> 's \<times> bool) \<Rightarrow> ('a \<Rightarrow> bool) \<Rightarrow> 'a list \<Rightarrow> 's \<Rightarrow> nat" where
  "wins step P [] s = 0"
| "wins step P (a # as) s = (if P a \<and> snd (step a s) then 1 else 0) + wins step P as (fst (step a s))"

fun run_steps :: "('a \<Rightarrow> 's \<Rightarrow> 's \<times> 'b) \<Rightarrow> 'a list \<Rightarrow> 's \<Rightarrow> 's" where
  "run_steps step [] s = s"
| "run_steps step (a # as) s = run_steps step as (fst (step a s))"

locale one_shot =
  fixes step :: "'a \<Rightarrow> 's \<Rightarrow> 's \<times> bool"
    and key :: "'a \<Rightarrow> 'k option"
    and spent :: "'k \<Rightarrow> 's \<Rightarrow> bool"
    and inv :: "'s \<Rightarrow> bool"
  assumes inv_step: "inv s \<Longrightarrow> inv (fst (step a s))"
    and win_spends: "inv s \<Longrightarrow> snd (step a s) \<Longrightarrow> key a = Some k \<Longrightarrow> spent k (fst (step a s))"
    and spent_blocks: "inv s \<Longrightarrow> spent k s \<Longrightarrow> key a = Some k \<Longrightarrow> \<not> snd (step a s)"
    and spent_stays: "inv s \<Longrightarrow> spent k s \<Longrightarrow> spent k (fst (step a s))"
begin

lemma inv_run: "inv s \<Longrightarrow> inv (run_steps step as s)"
  by (induction as arbitrary: s) (auto intro: inv_step)

lemma spent_run: "inv s \<Longrightarrow> spent k s \<Longrightarrow> spent k (run_steps step as s)"
  by (induction as arbitrary: s) (auto intro: inv_step spent_stays)

lemma spent_never_wins: "inv s \<Longrightarrow> spent k s \<Longrightarrow> wins step (\<lambda>a. key a = Some k) as s = 0"
  by (induction as arbitrary: s) (auto simp: inv_step spent_stays spent_blocks)

lemma at_most_once: "inv s \<Longrightarrow> wins step (\<lambda>a. key a = Some k) as s \<le> 1"
proof (induction as arbitrary: s)
  case (Cons a as)
  have "inv (fst (step a s))" using Cons.prems by (rule inv_step)
  then show ?case
    using Cons win_spends [of s a k] spent_never_wins [of "fst (step a s)" k as] by auto
qed simp

end

text \<open>
  Buffers that never exceed their bound: every step keeps the size within it.
\<close>

locale bounded =
  fixes push :: "'x \<Rightarrow> 'b \<Rightarrow> 'b" and size_of :: "'b \<Rightarrow> nat" and bound :: "'b \<Rightarrow> nat"
  assumes bound_push: "bound (push x b) = bound b"
    and size_push: "size_of b \<le> bound b \<Longrightarrow> size_of (push x b) \<le> bound b"
begin

lemma bound_fold: "bound (fold push xs b) = bound b"
  by (induction xs arbitrary: b) (simp_all add: bound_push)

lemma size_fold: "size_of b \<le> bound b \<Longrightarrow> size_of (fold push xs b) \<le> bound b"
proof (induction xs arbitrary: b)
  case (Cons x xs)
  then show ?case using size_push [of b x] bound_push [of x b] Cons.IH [of "push x b"] by simp
qed simp

end

end
