(* ===== verification/Api.thy ===== *)
theory Api
  imports Prelude
begin

text \<open>
  The messages of \<open>devops.v1\<close> the program reads and writes (generated Go structs in
  \<open>api/devops/v1/devops.pb.go\<close>), with the open enumerations as integers and their named
  constants, and the protocol's hard ceilings of \<open>limits.go\<close>. A \<open>oneof\<close> is a
  datatype; a field the code compares with \<open>nil\<close> is an option. A \<open>float64\<close> is
  its 64-bit pattern.
\<close>

type_synonym float64 = u64

section \<open>Enumerations\<close>

definition ROLE_UNSPECIFIED :: int where "ROLE_UNSPECIFIED = 0"
definition ROLE_VIEWER :: int where "ROLE_VIEWER = 1"
definition ROLE_OPERATOR :: int where "ROLE_OPERATOR = 2"
definition ROLE_ADMIN :: int where "ROLE_ADMIN = 3"

lemmas role_defs = ROLE_UNSPECIFIED_def ROLE_VIEWER_def ROLE_OPERATOR_def ROLE_ADMIN_def

definition JOB_DISPATCHED :: int where "JOB_DISPATCHED = 2"
definition JOB_RUNNING :: int where "JOB_RUNNING = 3"
definition JOB_SUCCEEDED :: int where "JOB_SUCCEEDED = 4"
definition JOB_FAILED :: int where "JOB_FAILED = 5"
definition JOB_CANCELLED :: int where "JOB_CANCELLED = 6"
definition JOB_TIMED_OUT :: int where "JOB_TIMED_OUT = 7"
definition JOB_UNKNOWN_RESULT :: int where "JOB_UNKNOWN_RESULT = 8"
definition JOB_REJECTED :: int where "JOB_REJECTED = 9"

lemmas job_state_defs = JOB_DISPATCHED_def JOB_RUNNING_def JOB_SUCCEEDED_def JOB_FAILED_def
  JOB_CANCELLED_def JOB_TIMED_OUT_def JOB_UNKNOWN_RESULT_def JOB_REJECTED_def

definition SSH_PREPARING :: int where "SSH_PREPARING = 1"
definition SSH_READY :: int where "SSH_READY = 2"
definition SSH_CLOSED :: int where "SSH_CLOSED = 3"
definition SSH_EXPIRED :: int where "SSH_EXPIRED = 4"

lemmas ssh_state_defs = SSH_PREPARING_def SSH_READY_def SSH_CLOSED_def SSH_EXPIRED_def

definition ERR_INVALID_ARGUMENT :: int where "ERR_INVALID_ARGUMENT = 1"
definition ERR_UNSUPPORTED :: int where "ERR_UNSUPPORTED = 9"
definition ERR_DEADLINE_EXCEEDED :: int where "ERR_DEADLINE_EXCEEDED = 10"
definition ERR_INTERNAL :: int where "ERR_INTERNAL = 13"

definition REJECT_NEW :: int where "REJECT_NEW = 1"
definition REJECT :: int where "REJECT = 1"
definition SAFE_BEFORE_START :: int where "SAFE_BEFORE_START = 1"

section \<open>Limits and versions\<close>

record ProtocolLimits =
  MaxMessageBytes :: u32
  MaxOutputBytes :: u32
  MaxOutputChunkBytes :: u32
  MaxMetrics :: u32
  MaxLabelsPerMetric :: u32
  MaxCapabilities :: u32
  MaxQueueDepth :: u32
  MaxReasonBytes :: u32
  MaxCommandBytes :: u32
  MaxUnitBytes :: u32
  MaxPathBytes :: u32
  MaxJobTimeoutSeconds :: u32
  MaxSshTtlSeconds :: u32
  MaxPageSize :: u32

definition DefaultLimits :: ProtocolLimits where
  "DefaultLimits = \<lparr>
     MaxMessageBytes = 4194304,
     MaxOutputBytes = 1048576,
     MaxOutputChunkBytes = 65536,
     MaxMetrics = 4096,
     MaxLabelsPerMetric = 16,
     MaxCapabilities = 128,
     MaxQueueDepth = 256,
     MaxReasonBytes = 2048,
     MaxCommandBytes = 65536,
     MaxUnitBytes = 256,
     MaxPathBytes = 4096,
     MaxJobTimeoutSeconds = 3600,
     MaxSshTtlSeconds = 3600,
     MaxPageSize = 1000\<rparr>"

record VersionRange =
  Minimum :: u32
  Maximum :: u32

record AgentHello =
  hello_agent_id :: string
  hello_protocol :: "VersionRange option"
  hello_capabilities :: "(string \<times> u32) list"
  hello_hostname :: string
  hello_boot_id :: string
  hello_os :: string
  hello_kernel :: string
  hello_architecture :: string
  hello_limits :: "ProtocolLimits option"

record ConnectionState =
  cs_accepted :: bool
  cs_version :: u32
  cs_stream_policy :: int
  cs_job_policy :: int
  cs_limits :: ProtocolLimits

section \<open>Metrics\<close>

text \<open>A label map is \<open>None\<close> for Go's nil map, else its entries in some order.\<close>

record Metric =
  m_name :: string
  m_value :: float64
  m_labels :: "(string \<times> string) list option"

record MetricsSnapshot =
  ms_sampled :: int
  ms_metrics :: "Metric list"

section \<open>Jobs\<close>

record AuthorizationContext =
  az_role :: int
  az_reason :: string
  az_confirmed :: bool

record CleanupRunRequest =
  cr_preview_id :: string
  cr_preview_hash :: bytes
  cr_expires :: int

record RebootRequest =
  rb_target :: string
  rb_confirmation :: string
  rb_expires :: int

record ArbitraryCommand =
  ac_command :: string
  ac_capture :: bool

text \<open>The typed operations with the fields of their requests.\<close>

datatype TypedOperation =
    ProcessList u32
  | ServiceList u32
  | ServiceStatus string
  | ServiceStart string
  | ServiceStop string
  | ServiceRestart string
  | JournalRead string int int u32
  | CleanupPreview "string list"
  | TypedCleanupRun CleanupRunRequest
  | TypedReboot RebootRequest

datatype UnsafeOperation =
    CleanupRun CleanupRunRequest
  | Reboot RebootRequest
  | ArbitraryCommand ArbitraryCommand

text \<open>\<open>Job.Operation\<close>: absent, safe with its (possibly nil) typed operation and retry policy, or unsafe.\<close>

datatype JobOperation =
    NoOperation
  | SafeOperation "TypedOperation option" int
  | UnsafeOperation "UnsafeOperation option"

record Job =
  job_id :: string
  job_actor :: string
  job_agent :: string
  job_created :: int
  job_deadline :: int
  job_authorization :: "AuthorizationContext option"
  job_operation :: JobOperation
  job_state :: int
  job_attempt :: u32
  job_dispatch :: string
  job_idempotency :: string

record ProtocolError =
  pe_code :: int
  pe_message :: string
  pe_retryable :: bool

record JobResult =
  jr_job :: string
  jr_state :: int
  jr_exit :: int
  jr_error :: "ProtocolError option"
  jr_truncated :: bool
  jr_dispatch :: string
  jr_attempt :: u32
  jr_output :: bytes

record CancelJob =
  cj_job :: string
  cj_reason :: string
  cj_deadline :: int
  cj_request :: string

record OutputChunk =
  oc_job :: string
  oc_sequence :: u64
  oc_data :: bytes
  oc_final :: bool

section \<open>SSH\<close>

record PrepareSsh =
  ps_session :: string
  ps_key :: bytes
  ps_expires :: int
  ps_port :: u32
  ps_token :: bytes

record SshReady =
  sr_session :: string
  sr_port :: u32
  sr_host_key :: bytes
  sr_token :: bytes

record SshSession =
  ss_id :: string
  ss_agent :: string
  ss_state :: int
  ss_port :: u32
  ss_expires :: int
  ss_host_key :: bytes

record TunnelFrame =
  tf_session :: string
  tf_token :: bytes
  tf_data :: bytes
  tf_close :: bool

section \<open>Stream messages\<close>

datatype AgentMessage =
    HelloMsg AgentHello
  | HeartbeatMsg int
  | MetricsMsg MetricsSnapshot
  | JobResultMsg JobResult
  | OutputMsg OutputChunk
  | SshReadyMsg SshReady
  | CancelAckMsg string
  | NoPayload

datatype ValidatorMessage =
    ConnectionMsg ConnectionState
  | JobMsg Job
  | CancelMsg CancelJob
  | PrepareSshMsg PrepareSsh
  | CloseSshMsg string
  | OpenTunnelMsg string bytes

end
