(* ===== verification/GoStrings.thy ===== *)
theory GoStrings
  imports Prelude
begin

text \<open>
  The functions of Go's \<open>strings\<close> and \<open>strconv\<close> packages the program uses, on
  byte strings: \<open>HasPrefix\<close>, \<open>Split\<close> and \<open>Join\<close> at a separator of one
  byte, \<open>Fields\<close> and \<open>TrimSpace\<close> (white space is Unicode's, so the encoded
  forms of U+0085, U+00A0, U+1680, U+2000 to U+200A, U+2028, U+2029, U+202F, U+205F and
  U+3000 are recognised; their lead bytes never continue another character, so looking at
  bytes finds exactly the runes that decoding finds), decimal printing and
  \<open>ParseUint\<close>.
\<close>

definition byte :: "char \<Rightarrow> nat" where
  "byte c = of_char c"

lemma byte_less [simp]: "byte c < 256"
  by (simp add: byte_def)

lemma byte_div [simp]: "byte c div 4 < 64" "byte c div 16 < 16" "byte c div 64 < 4"
  using byte_less [of c] by linarith+

lemma byte_inj [simp]: "byte c = byte d \<longleftrightarrow> c = d"
  by (simp add: byte_def)

lemma char_of_byte [simp]: "char_of (byte c) = c"
  by (simp add: byte_def)

lemma byte_char_of [simp]: "byte (char_of n) = n mod 256"
  by (simp add: byte_def)

definition has_prefix :: "string \<Rightarrow> string \<Rightarrow> bool" where
  "has_prefix s p \<longleftrightarrow> take (List.length p) s = p"

lemma has_prefix_append [simp]: "has_prefix (p @ s) p"
  by (simp add: has_prefix_def)

lemma has_prefix_iff: "has_prefix s p \<longleftrightarrow> (\<exists>r. s = p @ r)"
  unfolding has_prefix_def by (metis append_eq_conv_conj append_take_drop_id)

fun split :: "char \<Rightarrow> string \<Rightarrow> string list" where
  "split c [] = [[]]"
| "split c (x # xs) = (if x = c then [] # split c xs
     else (case split c xs of [] \<Rightarrow> [[x]] | p # ps \<Rightarrow> (x # p) # ps))"

fun join :: "string \<Rightarrow> string list \<Rightarrow> string" where
  "join sep [] = []"
| "join sep [x] = x"
| "join sep (x # y # ys) = x @ sep @ join sep (y # ys)"

lemma split_not_Nil [simp]: "split c xs \<noteq> []"
  by (induction xs) (auto split: list.split)

lemma split_no_sep: "c \<notin> set xs \<Longrightarrow> split c xs = [xs]"
  by (induction xs) auto

lemma split_append_sep: "c \<notin> set xs \<Longrightarrow> split c (xs @ c # ys) = xs # split c ys"
  by (induction xs) auto

lemma split_parts_no_sep: "p \<in> set (split c xs) \<Longrightarrow> c \<notin> set p"
  by (induction xs arbitrary: p) (auto split: list.splits if_splits)

lemma join_split: "join [c] (split c xs) = xs"
proof (induction xs)
  case (Cons x xs)
  obtain p ps where sp: "split c xs = p # ps" by (cases "split c xs") auto
  with Cons show ?case by (cases ps) auto
qed simp

lemma split_inject: "split c xs = split c ys \<longleftrightarrow> xs = ys"
  by (metis join_split)

lemma split_pair: "split c s = [a, b] \<longleftrightarrow> s = a @ c # b \<and> c \<notin> set a \<and> c \<notin> set b"
proof
  assume sp: "split c s = [a, b]"
  then have "c \<notin> set a" "c \<notin> set b"
    using split_parts_no_sep [of a c s] split_parts_no_sep [of b c s] by auto
  moreover have "s = join [c] [a, b]" using sp join_split [of c s] by simp
  ultimately show "s = a @ c # b \<and> c \<notin> set a \<and> c \<notin> set b" by simp
qed (simp add: split_append_sep split_no_sep)

text \<open>The number of bytes of the white-space character a string starts with, 0 if none.\<close>

definition space_len :: "string \<Rightarrow> nat" where
  "space_len s = (case map byte (take 3 s) of
      [] \<Rightarrow> 0
    | a # r \<Rightarrow>
        if a \<in> {9, 10, 11, 12, 13, 32} then 1
        else if a = 0xC2 \<and> (take 1 r = [0x85] \<or> take 1 r = [0xA0]) then 2
        else if a = 0xE1 \<and> r = [0x9A, 0x80] then 3
        else if a = 0xE2 \<and> take 1 r = [0x80] \<and> List.length r = 2
          \<and> (0x80 \<le> r ! 1 \<and> r ! 1 \<le> 0x8A \<or> r ! 1 \<in> {0xA8, 0xA9, 0xAF}) then 3
        else if a = 0xE2 \<and> r = [0x81, 0x9F] then 3
        else if a = 0xE3 \<and> r = [0x80, 0x80] then 3
        else 0)"

fun Fields_from :: "string \<Rightarrow> string \<Rightarrow> string list" where
  "Fields_from cur [] = (if cur = [] then [] else [cur])"
| "Fields_from cur (c # cs) = (case space_len (c # cs) of
      0 \<Rightarrow> Fields_from (cur @ [c]) cs
    | Suc n \<Rightarrow> (if cur = [] then [] else [cur]) @ Fields_from [] (drop n cs))"

definition Fields :: "string \<Rightarrow> string list" where
  "Fields s = Fields_from [] s"

fun trim_left :: "string \<Rightarrow> string" where
  "trim_left [] = []"
| "trim_left (c # cs) = (case space_len (c # cs) of 0 \<Rightarrow> c # cs | Suc n \<Rightarrow> trim_left (drop n cs))"

text \<open>The length of the white-space character a string ends with.\<close>

definition space_suffix :: "string \<Rightarrow> nat" where
  "space_suffix s = (case List.find (\<lambda>k. k \<le> List.length s
      \<and> space_len (drop (List.length s - k) s) = k) [1, 2, 3] of None \<Rightarrow> 0 | Some k \<Rightarrow> k)"

function trim_right :: "string \<Rightarrow> string" where
  "trim_right s = (if space_suffix s = 0 \<or> s = [] then s
     else trim_right (take (List.length s - space_suffix s) s))"
  by pat_completeness auto
termination by (relation "measure List.length") auto

declare trim_right.simps [simp del]

definition trim_space :: "string \<Rightarrow> string" where
  "trim_space s = trim_right (trim_left s)"

text \<open>ASCII letters compared without case, as \<open>EqualFold\<close> does for the words used.\<close>

definition fold_case :: "char \<Rightarrow> nat" where
  "fold_case c = (if 65 \<le> byte c \<and> byte c \<le> 90 then byte c + 32 else byte c)"

definition equal_fold :: "string \<Rightarrow> string \<Rightarrow> bool" where
  "equal_fold a b \<longleftrightarrow> map fold_case a = map fold_case b"

definition is_ascii_digit :: "char \<Rightarrow> bool" where
  "is_ascii_digit c \<longleftrightarrow> 48 \<le> byte c \<and> byte c \<le> 57"

fun dec_of_nat :: "nat \<Rightarrow> string" where
  "dec_of_nat n = (if n < 10 then [char_of (48 + n)]
     else dec_of_nat (n div 10) @ [char_of (48 + n mod 10)])"

declare dec_of_nat.simps [simp del]

definition dec_of_int :: "int \<Rightarrow> string" where
  "dec_of_int x = (if x < 0 then CHR ''-'' # dec_of_nat (nat (- x)) else dec_of_nat (nat x))"

definition dec_value :: "string \<Rightarrow> nat" where
  "dec_value s = foldl (\<lambda>n c. 10 * n + (byte c - 48)) 0 s"

text \<open>\<open>ParseUint(s, 10, bits)\<close>: the value and whether there was an error; an out-of-range number yields the largest value.\<close>

definition parse_uint :: "nat \<Rightarrow> string \<Rightarrow> nat \<times> bool" where
  "parse_uint bits s = (if s = [] \<or> \<not> list_all is_ascii_digit s then (0, True)
     else if dec_value s < 2 ^ bits then (dec_value s, False) else (2 ^ bits - 1, True))"

lemma dec_value_snoc [simp]: "dec_value (s @ [c]) = 10 * dec_value s + (byte c - 48)"
  by (simp add: dec_value_def)

lemma digit_char [simp]: "k < (10::nat) \<Longrightarrow> is_ascii_digit (char_of (48 + k))"
  by (simp add: is_ascii_digit_def)

lemma dec_of_nat_digits: "list_all is_ascii_digit (dec_of_nat n) \<and> dec_of_nat n \<noteq> []"
proof (induction n rule: dec_of_nat.induct)
  case (1 n)
  then show ?case
    by (subst dec_of_nat.simps, subst (2) dec_of_nat.simps) auto
qed

lemma dec_value_dec_of_nat [simp]: "dec_value (dec_of_nat n) = n"
proof (induction n rule: dec_of_nat.induct)
  case (1 n)
  show ?case
  proof (cases "n < 10")
    case True
    then show ?thesis by (subst dec_of_nat.simps) (simp add: dec_value_def)
  next
    case False
    with 1 show ?thesis by (subst dec_of_nat.simps) simp
  qed
qed

lemma dec_of_nat_inject [simp]: "dec_of_nat m = dec_of_nat n \<longleftrightarrow> m = n"
  by (metis dec_value_dec_of_nat)

lemma parse_uint_bound: "fst (parse_uint bits s) < 2 ^ bits"
  by (simp add: parse_uint_def)

lemma parse_uint_dec: "n < 2 ^ bits \<Longrightarrow> parse_uint bits (dec_of_nat n) = (n, False)"
  using dec_of_nat_digits [of n] by (simp add: parse_uint_def)

section \<open>Positions and addresses\<close>

fun index_of :: "char \<Rightarrow> string \<Rightarrow> nat option" where
  "index_of c [] = None"
| "index_of c (x # xs) = (if x = c then Some 0 else map_option Suc (index_of c xs))"

definition last_index_of :: "char \<Rightarrow> string \<Rightarrow> nat option" where
  "last_index_of c s = map_option (\<lambda>i. List.length s - 1 - i) (index_of c (rev s))"

text \<open>\<open>strings.Contains\<close>.\<close>

fun contains :: "string \<Rightarrow> string \<Rightarrow> bool" where
  "contains [] p = (p = [])"
| "contains (x # xs) p = (has_prefix (x # xs) p \<or> contains xs p)"

text \<open>\<open>net.SplitHostPort\<close>: the host and the port, or no result for a malformed address.\<close>

definition split_host_port :: "string \<Rightarrow> (string \<times> string) option" where
  "split_host_port s = (case last_index_of (CHR '':'') s of
      None \<Rightarrow> None
    | Some i \<Rightarrow>
        if hd s = CHR ''['' then
          (case index_of (CHR '']'') s of
             None \<Rightarrow> None
           | Some e \<Rightarrow>
               if e + 1 \<noteq> i then None
               else if CHR ''['' \<in> set (drop 1 s) \<or> CHR '']'' \<in> set (drop (e + 1) s) then None
               else Some (take (e - 1) (drop 1 s), drop (i + 1) s))
        else if CHR '':'' \<in> set (take i s) then None
        else if CHR ''['' \<in> set s \<or> CHR '']'' \<in> set s then None
        else Some (take i s, drop (i + 1) s))"

lemma index_of_None: "index_of c s = None \<longleftrightarrow> c \<notin> set s"
  by (induction s) auto

lemma index_of_append: "c \<notin> set s \<Longrightarrow> index_of c (s @ c # t) = Some (List.length s)"
  by (induction s) auto

lemma last_index_of_append: "c \<notin> set t \<Longrightarrow> last_index_of c (s @ c # t) = Some (List.length s)"
  by (simp add: last_index_of_def index_of_append)

lemma split_host_port_plain:
  assumes "CHR '':'' \<notin> set h" "CHR ''['' \<notin> set h" "CHR '']'' \<notin> set h" "h \<noteq> []"
    "CHR '':'' \<notin> set p" "CHR ''['' \<notin> set p" "CHR '']'' \<notin> set p"
  shows "split_host_port (h @ CHR '':'' # p) = Some (h, p)"
proof -
  have "hd (h @ CHR '':'' # p) \<noteq> CHR ''[''" using assms(2,4) by (cases h) auto
  then show ?thesis using assms by (simp add: split_host_port_def last_index_of_append)
qed

lemma contains_iff: "contains s p \<longleftrightarrow> (\<exists>a b. s = a @ p @ b)"
proof (induction s)
  case (Cons x xs)
  have "has_prefix (x # xs) p \<or> contains xs p \<longleftrightarrow> (\<exists>a b. x # xs = a @ p @ b)"
    unfolding has_prefix_iff Cons.IH by (metis append_Cons append_Nil list.exhaust list.inject)
  then show ?case by simp
qed auto

section \<open>Lines\<close>

text \<open>
  \<open>bufio.Scanner\<close> over a byte slice: the lines without their terminators, up to the first one
  of 64 KiB or more, and whether there was such a line. An empty line at the end is no line.
\<close>

definition drop_cr :: "string \<Rightarrow> string" where
  "drop_cr s = (if s \<noteq> [] \<and> last s = CHR 0x0D then butlast s else s)"

definition raw_lines :: "string \<Rightarrow> string list" where
  "raw_lines s = (let ls = split (CHR 0x0A) s in if last ls = [] then butlast ls else ls)"

definition scan_lines :: "string \<Rightarrow> string list \<times> bool" where
  "scan_lines s = (let ls = raw_lines s
     in (map drop_cr (takeWhile (\<lambda>l. List.length l < 65536) ls), \<exists>l \<in> set ls. 65536 \<le> List.length l))"

definition cut :: "char \<Rightarrow> string \<Rightarrow> (string \<times> string) option" where
  "cut c s = (case index_of c s of None \<Rightarrow> None | Some i \<Rightarrow> Some (take i s, drop (Suc i) s))"

definition trim_suffix :: "string \<Rightarrow> string \<Rightarrow> string" where
  "trim_suffix s p = (if has_prefix (rev s) (rev p) then take (List.length s - List.length p) s else s)"

text \<open>Lines written with a newline after each read back as they were.\<close>

definition plain_line :: "string \<Rightarrow> bool" where
  "plain_line l \<longleftrightarrow> CHR 0x0A \<notin> set l \<and> List.length l < 65536 \<and> (l = [] \<or> last l \<noteq> CHR 0x0D)"

definition lines_text :: "string list \<Rightarrow> string" where
  "lines_text ls = (if ls = [] then [] else join [CHR 0x0A] ls @ [CHR 0x0A])"

lemma lines_text_Cons: "lines_text (l # ls) = l @ CHR 0x0A # lines_text ls"
  by (cases ls) (simp_all add: lines_text_def)

lemma split_lines_text: "\<forall>l \<in> set ls. CHR 0x0A \<notin> set l \<Longrightarrow> split (CHR 0x0A) (lines_text ls) = ls @ [[]]"
proof (induction ls)
  case (Cons l ls)
  then show ?case using split_append_sep [of "CHR 0x0A" l "lines_text ls"] by (simp add: lines_text_Cons)
qed (simp add: lines_text_def)

lemma scan_lines_text:
  assumes "\<forall>l \<in> set ls. plain_line l"
  shows "scan_lines (lines_text ls) = (ls, False)"
proof -
  have sp: "split (CHR 0x0A) (lines_text ls) = ls @ [[]]" using assms by (simp add: split_lines_text plain_line_def)
  have tw: "takeWhile (\<lambda>l. List.length l < 65536) ls = ls" using assms by (simp add: plain_line_def)
  have dc: "map drop_cr ls = ls" using assms by (intro map_idI) (auto simp: drop_cr_def plain_line_def)
  show ?thesis using assms by (auto simp: scan_lines_def raw_lines_def Let_def plain_line_def sp tw dc)
qed

lemma scan_lines_long: "\<forall>l \<in> set ls. CHR 0x0A \<notin> set l \<Longrightarrow> l \<in> set ls \<Longrightarrow> 65536 \<le> List.length l \<Longrightarrow>
    snd (scan_lines (lines_text ls))"
  by (auto simp: scan_lines_def raw_lines_def Let_def split_lines_text)

text \<open>A line read has no newline and is short.\<close>

lemma scan_lines_mem: "l \<in> set (fst (scan_lines s)) \<Longrightarrow> CHR 0x0A \<notin> set l \<and> List.length l < 65536"
proof -
  assume "l \<in> set (fst (scan_lines s))"
  then obtain r where r: "r \<in> set (raw_lines s)" "List.length r < 65536" "l = drop_cr r"
    by (auto simp: scan_lines_def Let_def dest: set_takeWhileD)
  have "r \<in> set (split (CHR 0x0A) s)"
    using r(1) by (auto simp: raw_lines_def Let_def dest: in_set_butlastD split: if_splits)
  then have "CHR 0x0A \<notin> set r" by (rule split_parts_no_sep)
  then show ?thesis using r by (auto simp: drop_cr_def dest: in_set_butlastD)
qed

section \<open>Words\<close>

text \<open>A field is a piece of the text it comes from.\<close>

lemma Fields_from_piece: "f \<in> set (Fields_from cur s) \<Longrightarrow> \<exists>a b. cur @ s = a @ f @ b"
proof (induction cur s rule: Fields_from.induct)
  case (1 cur)
  then have "f = cur" by (simp split: if_splits)
  then have "cur @ [] = [] @ f @ []" by simp
  then show ?case by blast
next
  case (2 cur c cs)
  show ?case
  proof (cases "space_len (c # cs)")
    case 0
    then show ?thesis using 2 by simp
  next
    case (Suc n)
    then consider "f = cur" | "f \<in> set (Fields_from [] (drop n cs))" using 2(3) by (auto split: if_splits)
    then show ?thesis
    proof cases
      case 1
      then have "cur @ c # cs = [] @ f @ (c # cs)" by simp
      then show ?thesis by blast
    next
      case 2
      then obtain a b where "drop n cs = a @ f @ b" using "2.IH"(2) [OF Suc] by auto
      then have "cur @ c # cs = (cur @ c # take n cs @ a) @ f @ b" by (metis append.assoc append_Cons append_take_drop_id)
      then show ?thesis by blast
    qed
  qed
qed

lemma Fields_piece: "f \<in> set (Fields s) \<Longrightarrow> \<exists>a b. s = a @ f @ b"
  using Fields_from_piece [of f "[]" s] by (simp add: Fields_def)

text \<open>Characters that are neither white space nor the lead byte of encoded white space.\<close>

definition word_char :: "char \<Rightarrow> bool" where
  "word_char c \<longleftrightarrow> byte c \<notin> {9, 10, 11, 12, 13, 32, 0xC2, 0xE1, 0xE2, 0xE3}"

lemma space_len_word [simp]: "word_char c \<Longrightarrow> space_len (c # cs) = 0"
  by (simp add: space_len_def word_char_def)

lemma Fields_from_word: "list_all word_char w \<Longrightarrow> Fields_from cur (w @ s) = Fields_from (cur @ w) s"
  by (induction w arbitrary: cur) simp_all

lemma Fields_word: "list_all word_char w \<Longrightarrow> w \<noteq> [] \<Longrightarrow> Fields w = [w]"
  using Fields_from_word [of w "[]" "[]"] by (simp add: Fields_def)

lemma Fields_words: "list_all word_char w \<Longrightarrow> w \<noteq> [] \<Longrightarrow> Fields (w @ CHR '' '' # s) = w # Fields s"
  using Fields_from_word [of w "[]" "CHR '' '' # s"] by (simp add: Fields_def space_len_def byte_def)

text \<open>No field has a character of ASCII white space.\<close>

lemma Fields_from_no_space: "f \<in> set (Fields_from cur s) \<Longrightarrow> byte x \<in> {9, 10, 11, 12, 13, 32} \<Longrightarrow> x \<notin> set cur \<Longrightarrow> x \<notin> set f"
proof (induction cur s rule: Fields_from.induct)
  case (2 cur c cs)
  show ?case
  proof (cases "space_len (c # cs)")
    case 0
    then have "x \<noteq> c" using 2(4) by (auto simp: space_len_def split: if_splits)
    then show ?thesis using 2 0 by simp
  next
    case (Suc n)
    then consider "f = cur" | "f \<in> set (Fields_from [] (drop n cs))" using 2(3) by (auto split: if_splits)
    then show ?thesis using 2(2) [OF Suc] 2(4,5) by cases auto
  qed
qed (auto split: if_splits)

lemma Fields_no_space: "f \<in> set (Fields s) \<Longrightarrow> byte x \<in> {9, 10, 11, 12, 13, 32} \<Longrightarrow> x \<notin> set f"
  using Fields_from_no_space [of f "[]" s x] by (simp add: Fields_def)

section \<open>Signed numbers\<close>

text \<open>\<open>ParseInt(s, 10, 64)\<close>, without a value for an error.\<close>

definition parse_int64 :: "string \<Rightarrow> int option" where
  "parse_int64 s = (case s of [] \<Rightarrow> None
    | c # r \<Rightarrow>
       (let neg = (c = CHR ''-''); digits = (if c = CHR ''-'' \<or> c = CHR ''+'' then r else s) in
        if digits = [] \<or> \<not> list_all is_ascii_digit digits then None
        else let v = dec_value digits in
          if (\<not> neg \<and> v \<ge> 2 ^ 63) \<or> (neg \<and> v > 2 ^ 63) then None
          else Some (if neg then - int v else int v)))"

lemma parse_int64_dec:
  assumes "- (2 ^ 63) \<le> x" "x < 2 ^ 63"
  shows "parse_int64 (dec_of_int x) = Some x"
proof (cases "x < 0")
  case True
  have "nat (- x) \<le> 2 ^ 63" using assms by simp
  then show ?thesis using True dec_of_nat_digits [of "nat (- x)"]
    by (simp add: parse_int64_def dec_of_int_def Let_def)
next
  case False
  obtain c r where d: "dec_of_nat (nat x) = c # r" "is_ascii_digit c"
    using dec_of_nat_digits [of "nat x"] by (cases "dec_of_nat (nat x)") auto
  then have "c \<noteq> CHR ''-''" "c \<noteq> CHR ''+''" by (auto simp: is_ascii_digit_def byte_def)
  moreover have "dec_value (c # r) = nat x" "list_all is_ascii_digit (c # r)"
    using d(1) dec_value_dec_of_nat [of "nat x"] dec_of_nat_digits [of "nat x"] by simp_all
  ultimately show ?thesis using False assms d by (simp add: parse_int64_def dec_of_int_def Let_def)
qed

end
