(* ===== verification/Encoding.thy ===== *)
theory Encoding
  imports GoStrings
begin

text \<open>
  Hexadecimal and base64 as \<open>encoding/hex\<close> and \<open>encoding/base64\<close> have them, and
  the interface \<open>codec\<close> of an encoder with its decoder, on which the round trips of
  the components rest.
\<close>

section \<open>The interface of a codec\<close>

locale codec =
  fixes enc :: "'a \<Rightarrow> string" and dec :: "string \<Rightarrow> 'a result"
  assumes dec_enc: "dec (enc x) = Inr x"
begin

lemma enc_inject: "enc x = enc y \<longleftrightarrow> x = y"
  by (metis dec_enc sum.inject(2))

lemma dec_eq: "enc x = s \<Longrightarrow> dec s = Inr x"
  using dec_enc by auto

end

section \<open>Hexadecimal\<close>

definition hex_digit :: "nat \<Rightarrow> char" where
  "hex_digit n = ''0123456789abcdef'' ! n"

definition hex_val :: "char \<Rightarrow> nat option" where
  "hex_val c = (let b = byte c in
     if 48 \<le> b \<and> b \<le> 57 then Some (b - 48)
     else if 97 \<le> b \<and> b \<le> 102 then Some (b - 87)
     else if 65 \<le> b \<and> b \<le> 70 then Some (b - 55)
     else None)"

definition hex_encode :: "bytes \<Rightarrow> string" where
  "hex_encode bs = concat (map (\<lambda>c. [hex_digit (byte c div 16), hex_digit (byte c mod 16)]) bs)"

fun hex_decode :: "string \<Rightarrow> bytes result" where
  "hex_decode [] = Inr []"
| "hex_decode [c] = Inl (External ''hex'')"
| "hex_decode (c # d # s) = (case (hex_val c, hex_val d) of
      (Some h, Some l) \<Rightarrow> (case hex_decode s of Inl e \<Rightarrow> Inl e
         | Inr bs \<Rightarrow> Inr (char_of (16 * h + l) # bs))
    | _ \<Rightarrow> Inl (External ''hex''))"

lemma hex_val_digit [simp]: "n < 16 \<Longrightarrow> hex_val (hex_digit n) = Some n"
proof -
  have "\<forall>k \<in> set [0..<16]. hex_val (hex_digit k) = Some k" by code_simp
  then show "n < 16 \<Longrightarrow> hex_val (hex_digit n) = Some n" by simp
qed

lemma hex_val_less: "hex_val c = Some n \<Longrightarrow> n < 16"
  by (auto simp: hex_val_def Let_def split: if_splits)

lemma hex_encode_simps [simp]:
  "hex_encode [] = []"
  "hex_encode (c # bs) = hex_digit (byte c div 16) # hex_digit (byte c mod 16) # hex_encode bs"
  by (simp_all add: hex_encode_def)

lemma hex_decode_encode: "hex_decode (hex_encode bs) = Inr bs"
proof (induction bs)
  case (Cons c bs)
  have "byte c div 16 < 16" using byte_less [of c] by linarith
  with Cons show ?case by simp
qed simp

interpretation hex: codec hex_encode hex_decode
  by unfold_locales (rule hex_decode_encode)

lemma hex_encode_length [simp]: "List.length (hex_encode bs) = 2 * List.length bs"
  by (induction bs) auto

lemma hex_decode_length: "hex_decode s = Inr bs \<Longrightarrow> List.length s = 2 * List.length bs"
  by (induction s arbitrary: bs rule: hex_decode.induct) (auto split: option.splits sum.splits)

section \<open>Base64\<close>

definition std_alphabet :: string where
  "std_alphabet = ''ABCDEFGHIJKLMNOPQRSTUVWXYZabcdefghijklmnopqrstuvwxyz0123456789+/''"

definition url_alphabet :: string where
  "url_alphabet = ''ABCDEFGHIJKLMNOPQRSTUVWXYZabcdefghijklmnopqrstuvwxyz0123456789-_''"

definition sextet_val :: "string \<Rightarrow> char \<Rightarrow> nat option" where
  "sextet_val alpha c = List.find (\<lambda>k. alpha ! k = c) [0..<64]"

text \<open>Sextets of a byte string; a final group of one or two bytes gives two or three.\<close>

fun sextets :: "bytes \<Rightarrow> nat list" where
  "sextets [] = []"
| "sextets [a] = [byte a div 4, byte a mod 4 * 16]"
| "sextets [a, b] = [byte a div 4, byte a mod 4 * 16 + byte b div 16, byte b mod 16 * 4]"
| "sextets (a # b # c # s) = [byte a div 4, byte a mod 4 * 16 + byte b div 16,
     byte b mod 16 * 4 + byte c div 64, byte c mod 64] @ sextets s"

text \<open>Bytes of a sequence of sextets: a group of one is malformed, the spare bits are dropped.\<close>

fun from_sextets :: "nat list \<Rightarrow> bytes option" where
  "from_sextets [] = Some []"
| "from_sextets [p] = None"
| "from_sextets [p, q] = Some [char_of (p * 4 + q div 16)]"
| "from_sextets [p, q, r] = Some [char_of (p * 4 + q div 16), char_of (q mod 16 * 16 + r div 4)]"
| "from_sextets (p # q # r # t # s) = (case from_sextets s of None \<Rightarrow> None
     | Some bs \<Rightarrow> Some (char_of (p * 4 + q div 16) # char_of (q mod 16 * 16 + r div 4)
         # char_of (r mod 4 * 64 + t) # bs))"

lemma sextets_length: "List.length (sextets bs) = (4 * List.length bs + 2) div 3"
  by (induction bs rule: sextets.induct) simp_all

definition raw_encode :: "string \<Rightarrow> bytes \<Rightarrow> string" where
  "raw_encode alpha bs = map (\<lambda>k. alpha ! k) (sextets bs)"

definition padded_encode :: "string \<Rightarrow> bytes \<Rightarrow> string" where
  "padded_encode alpha bs = raw_encode alpha bs
     @ replicate (case List.length bs mod 3 of 0 \<Rightarrow> 0 | Suc 0 \<Rightarrow> 2 | _ \<Rightarrow> 1) (CHR ''='')"

text \<open>Decoding without padding, which skips carriage returns and line feeds.\<close>

definition raw_decode :: "string \<Rightarrow> string \<Rightarrow> bytes result" where
  "raw_decode alpha s = (let vs = map (sextet_val alpha) (filter (\<lambda>c. byte c \<noteq> 10 \<and> byte c \<noteq> 13) s) in
     if list_all (\<lambda>v. v \<noteq> None) vs
     then (case from_sextets (map the vs) of None \<Rightarrow> Inl (External ''base64'') | Some bs \<Rightarrow> Inr bs)
     else Inl (External ''base64''))"

abbreviation raw_url_encode :: "bytes \<Rightarrow> string" where
  "raw_url_encode \<equiv> raw_encode url_alphabet"

abbreviation raw_url_decode :: "string \<Rightarrow> bytes result" where
  "raw_url_decode \<equiv> raw_decode url_alphabet"

abbreviation raw_std_encode :: "bytes \<Rightarrow> string" where
  "raw_std_encode \<equiv> raw_encode std_alphabet"

abbreviation raw_std_decode :: "string \<Rightarrow> bytes result" where
  "raw_std_decode \<equiv> raw_decode std_alphabet"

text \<open>Packing a remainder above a quotient and taking the parts again.\<close>

lemma unpack: "q < b \<Longrightarrow> (r * b + q) div b = (r::nat)" "q < b \<Longrightarrow> (r * b + q) mod b = q"
  by simp_all

lemma sextets_less: "k \<in> set (sextets bs) \<Longrightarrow> k < 64"
proof (induction bs rule: sextets.induct)
  case (2 a)
  have "byte a mod 4 * 16 < 64" using mod_less_divisor [of 4 "byte a"] by linarith
  with 2 show ?case by auto
next
  case (3 a b)
  have "byte a mod 4 * 16 + byte b div 16 < 64" "byte b mod 16 * 4 < 64"
    using mod_less_divisor [of 4 "byte a"] mod_less_divisor [of 16 "byte b"] byte_div [of b]
    by linarith+
  with 3 show ?case by auto
next
  case (4 a b c s)
  have "byte a mod 4 * 16 + byte b div 16 < 64" "byte b mod 16 * 4 + byte c div 64 < 64"
       "byte c mod 64 < 64"
    using mod_less_divisor [of 4 "byte a"] mod_less_divisor [of 16 "byte b"] byte_div [of b]
      byte_div [of c] by linarith+
  with 4 show ?case by auto
qed simp

lemma from_sextets: "from_sextets (sextets bs) = Some bs"
proof (induction bs rule: sextets.induct)
  case (3 a b)
  show ?case using unpack [OF byte_div(2) [of b]] by simp
next
  case (4 a b c s)
  show ?case using 4 unpack [OF byte_div(2) [of b]] unpack [OF byte_div(3) [of c]] by simp
qed simp_all

definition good_alphabet :: "string \<Rightarrow> bool" where
  "good_alphabet alpha \<longleftrightarrow> (\<forall>k \<in> set [0..<64]. sextet_val alpha (alpha ! k) = Some k
     \<and> byte (alpha ! k) \<noteq> 10 \<and> byte (alpha ! k) \<noteq> 13)"

lemma good_url: "good_alphabet url_alphabet" by code_simp

lemma good_std: "good_alphabet std_alphabet" by code_simp

lemma raw_decode_encode:
  assumes "good_alphabet alpha"
  shows "raw_decode alpha (raw_encode alpha bs) = Inr bs"
proof -
  have "filter (\<lambda>c. byte c \<noteq> 10 \<and> byte c \<noteq> 13) (raw_encode alpha bs) = raw_encode alpha bs"
    using assms by (fastforce simp: raw_encode_def good_alphabet_def dest: sextets_less intro!: filter_True)
  moreover have "map (sextet_val alpha) (raw_encode alpha bs) = map Some (sextets bs)"
    using assms by (auto simp: raw_encode_def good_alphabet_def dest: sextets_less)
  ultimately show ?thesis
    by (simp add: raw_decode_def Let_def list_all_iff comp_def from_sextets)
qed

interpretation b64url: codec raw_url_encode raw_url_decode
  by unfold_locales (rule raw_decode_encode [OF good_url])

interpretation b64: codec raw_std_encode raw_std_decode
  by unfold_locales (rule raw_decode_encode [OF good_std])

lemma raw_encode_chars: "set (raw_encode alpha bs) \<subseteq> (\<lambda>k. alpha ! k) ` {..<64}"
  using sextets_less by (auto simp: raw_encode_def)

lemma no_dot_url: "CHR ''.'' \<notin> set (raw_url_encode bs)"
proof -
  have "\<forall>k \<in> set [0..<64]. url_alphabet ! k \<noteq> CHR ''.''" by code_simp
  then show ?thesis using raw_encode_chars [of url_alphabet bs] by fastforce
qed

section \<open>Cryptographic primitives\<close>

text \<open>
  The keyed and unkeyed digests the code calls: HMAC-SHA-256, SHA-256, and Argon2id with its
  passes, memory, threads and output length. They are parameters: the lemmas hold for any
  functions, and say so where they need the length of an output.
\<close>

record crypto =
  hmac :: "bytes \<Rightarrow> bytes \<Rightarrow> bytes"
  sha256 :: "bytes \<Rightarrow> bytes"
  argon2 :: "bytes \<Rightarrow> bytes \<Rightarrow> nat \<Rightarrow> nat \<Rightarrow> nat \<Rightarrow> nat \<Rightarrow> bytes"

text \<open>Short stand-ins for evaluating examples: outputs of the right length that depend on the input.\<close>

definition toy_crypto :: crypto where
  "toy_crypto = \<lparr>hmac = (\<lambda>k m. take 32 (rev m @ k @ replicate 32 (CHR 0x00))),
     sha256 = (\<lambda>m. take 32 (rev m @ replicate 32 (CHR 0x00))),
     argon2 = (\<lambda>m s t k p n. take n (m @ s @ replicate n (CHR 0x00)))\<rparr>"

end
