(* ===== verification/AuthPolicy.thy ===== *)
theory AuthPolicy
  imports Api Encoding
begin

text \<open>
  \<open>internal/auth\<close>: the CIDR allow lists, the login rate limiter, password hashing, and
  the roles and the actions each fleet method needs.
\<close>

unbundle bit_operations_syntax

section \<open>Addresses and CIDR policies\<close>

text \<open>\<open>netip.Addr\<close> and \<open>netip.Prefix\<close>; an IPv6 address may carry a zone.\<close>

datatype Addr = V4 "32 word" | V6 "128 word" string

record Prefix =
  p_addr :: Addr
  p_bits :: nat

definition unmap :: "Addr \<Rightarrow> Addr" where
  "unmap a = (case a of V4 w \<Rightarrow> V4 w
     | V6 w z \<Rightarrow> if drop_bit 32 w = 0xffff then V4 (ucast w) else V6 w z)"

definition masked :: "Prefix \<Rightarrow> Prefix" where
  "masked p = p\<lparr>p_addr := (case p_addr p of
      V4 w \<Rightarrow> V4 (push_bit (32 - p_bits p) (drop_bit (32 - p_bits p) w))
    | V6 w z \<Rightarrow> V6 (push_bit (128 - p_bits p) (drop_bit (128 - p_bits p) w)) [])\<rparr>"

definition prefix_contains :: "Prefix \<Rightarrow> Addr \<Rightarrow> bool" where
  "prefix_contains p a = (case (p_addr p, a) of
      (V4 n, V4 w) \<Rightarrow> drop_bit (32 - p_bits p) (w XOR n) = 0
    | (V6 n z, V6 w z') \<Rightarrow> z' = [] \<and> drop_bit (128 - p_bits p) (w XOR n) = 0
    | _ \<Rightarrow> False)"

type_synonym CIDRPolicy = "Prefix list"

fun parse_prefixes :: "(string \<Rightarrow> Prefix result) \<Rightarrow> string list \<Rightarrow> CIDRPolicy result" where
  "parse_prefixes pp [] = Inr []"
| "parse_prefixes pp (v # vs) = (case pp v of
      Inl e \<Rightarrow> Inl (Errorf ''invalid CIDR'' [v] (Some e))
    | Inr p \<Rightarrow> (case parse_prefixes pp vs of Inl e \<Rightarrow> Inl e | Inr ps \<Rightarrow> Inr (masked p # ps)))"

definition ParseCIDRs :: "(string \<Rightarrow> Prefix result) \<Rightarrow> string list \<Rightarrow> CIDRPolicy result" where
  "ParseCIDRs pp values = (if values = [] then Inl (Error ''at least one CIDR required'')
     else parse_prefixes pp values)"

definition Allows :: "CIDRPolicy \<Rightarrow> Addr \<Rightarrow> bool" where
  "Allows policy addr = (\<exists>p \<in> set policy. prefix_contains p (unmap addr))"

text \<open>The addresses a prefix names, as a range of numbers.\<close>

definition in_range :: "Prefix \<Rightarrow> Addr \<Rightarrow> bool" where
  "in_range p a = (case (p_addr p, a) of
      (V4 n, V4 w) \<Rightarrow> uint n div 2 ^ (32 - p_bits p) * 2 ^ (32 - p_bits p) \<le> uint w
        \<and> uint w < (uint n div 2 ^ (32 - p_bits p) + 1) * 2 ^ (32 - p_bits p)
    | (V6 n z, V6 w z') \<Rightarrow> z' = [] \<and> uint n div 2 ^ (128 - p_bits p) * 2 ^ (128 - p_bits p) \<le> uint w
        \<and> uint w < (uint n div 2 ^ (128 - p_bits p) + 1) * 2 ^ (128 - p_bits p)
    | _ \<Rightarrow> False)"

lemma uint_shift: "uint (drop_bit k (a :: 'a::len word)) = uint a div 2 ^ k"
proof -
  have "uint (drop_bit k a) = drop_bit k (uint a)"
    by (simp only: unsigned_drop_bit_eq) (simp add: take_bit_int_eq_self)
  then show ?thesis by (simp only: drop_bit_eq_div)
qed

lemma xor_shift_zero:
  fixes a n :: "'a::len word"
  shows "drop_bit k a XOR drop_bit k n = 0 \<longleftrightarrow> uint a div 2 ^ k = uint n div 2 ^ k"
proof -
  have "drop_bit k a XOR drop_bit k n = 0 \<longleftrightarrow> drop_bit k a = drop_bit k n"
    by (auto simp: bit_eq_iff bit_xor_iff)
  also have "\<dots> \<longleftrightarrow> uint (drop_bit k a) = uint (drop_bit k n)"
    by (rule word_uint_eq_iff)
  also have "\<dots> \<longleftrightarrow> uint a div 2 ^ k = uint n div 2 ^ k" by (simp only: uint_shift)
  finally show ?thesis .
qed

lemma div_eq_range: "(0::int) < m \<Longrightarrow> x div m = q \<longleftrightarrow> q * m \<le> x \<and> x < (q + 1) * m"
proof
  assume m: "0 < m" and "x div m = q"
  then show "q * m \<le> x \<and> x < (q + 1) * m"
    using div_mult_mod_eq [of x m] pos_mod_bound [OF m, of x] pos_mod_sign [OF m, of x]
    by (auto simp: algebra_simps)
next
  assume m: "0 < m" and r: "q * m \<le> x \<and> x < (q + 1) * m"
  then have "0 \<le> x - q * m" "x - q * m < m" by (auto simp: algebra_simps)
  then have "(x - q * m) div m = 0" using m by simp
  moreover have "x div m = q + (x - q * m) div m"
    using m div_mult_self1 [of m "x - q * m" q] by simp
  ultimately show "x div m = q" by simp
qed

lemma prefix_contains_range: "prefix_contains p a = in_range p a"
  by (auto simp: prefix_contains_def in_range_def xor_shift_zero div_eq_range split: Addr.splits)

lemma shift_shift:
  fixes n :: "'a::len word"
  shows "uint (push_bit k (drop_bit k n)) div 2 ^ k = uint n div 2 ^ k"
proof -
  have "drop_bit k (push_bit k (drop_bit k n)) = drop_bit k n"
    by (auto simp: bit_eq_iff bit_drop_bit_eq bit_push_bit_iff dest: bit_imp_le_length)
  then show ?thesis by (simp flip: uint_shift)
qed

lemma masked_range: "in_range (masked p) a = in_range p a"
  by (auto simp: in_range_def masked_def shift_shift split: Addr.splits)

lemma parse_prefixes_range:
  "parse_prefixes pp vs = Inr ps \<Longrightarrow>
   (\<exists>p \<in> set ps. in_range p a) \<longleftrightarrow> (\<exists>v \<in> set vs. \<exists>p. pp v = Inr p \<and> in_range p a)"
  by (induction vs arbitrary: ps) (auto simp: masked_range split: sum.splits)

text \<open>A policy parsed from CIDR strings admits exactly the addresses whose IPv4-unmapped
  number lies in the range of one of the strings.\<close>

theorem cidr_allows_ranges:
  "ParseCIDRs pp values = Inr policy \<Longrightarrow>
   Allows policy addr \<longleftrightarrow> (\<exists>v \<in> set values. \<exists>p. pp v = Inr p \<and> in_range p (unmap addr))"
  by (auto simp: ParseCIDRs_def Allows_def prefix_contains_range dest!: parse_prefixes_range split: if_splits)

theorem cidr_allows_ranges_witness:
  "Allows [masked \<lparr>p_addr = V4 0x0A000001, p_bits = 8\<rparr>] (V4 0x0A000007)"
proof -
  let ?pp = "\<lambda>v. if v = ''10.0.0.1/8'' then Inr \<lparr>p_addr = V4 0x0A000001, p_bits = 8\<rparr> else Inl (Error v)"
  have p: "ParseCIDRs ?pp [''10.0.0.1/8''] = Inr [masked \<lparr>p_addr = V4 0x0A000001, p_bits = 8\<rparr>]"
    by (simp add: ParseCIDRs_def)
  have "in_range \<lparr>p_addr = V4 0x0A000001, p_bits = 8\<rparr> (unmap (V4 0x0A000007))" by code_simp
  then show ?thesis using cidr_allows_ranges [OF p] by auto
qed

section \<open>The login rate limiter\<close>

record bucket =
  b_start :: time
  b_count :: int

record RateLimiter =
  rl_limit :: int
  rl_window :: duration
  rl_buckets :: "string \<Rightarrow> bucket option"

definition NewRateLimiter :: "int \<Rightarrow> duration \<Rightarrow> RateLimiter" where
  "NewRateLimiter limit window = \<lparr>rl_limit = limit, rl_window = window, rl_buckets = Map.empty\<rparr>"

definition Allow :: "RateLimiter \<Rightarrow> string \<Rightarrow> time \<Rightarrow> RateLimiter \<times> bool" where
  "Allow l key now =
    (let b0 = (case rl_buckets l key of None \<Rightarrow> \<lparr>b_start = zero_time, b_count = 0\<rparr> | Some b \<Rightarrow> b);
         b = (if is_zero (b_start b0) \<or> time_sub now (b_start b0) \<ge> rl_window l
              then \<lparr>b_start = now, b_count = 0\<rparr> else b0)
     in if b_count b \<ge> rl_limit l then (l, False)
        else (l\<lparr>rl_buckets := (rl_buckets l)(key \<mapsto> b\<lparr>b_count := b_count b + 1\<rparr>)\<rparr>, True))"

text \<open>A run of attempts, and how many of a key's it admits.\<close>

fun admitted :: "string \<Rightarrow> RateLimiter \<Rightarrow> (string \<times> time) list \<Rightarrow> nat" where
  "admitted key l [] = 0"
| "admitted key l ((k, t) # evs) = (if snd (Allow l k t) \<and> k = key then 1 else 0)
     + admitted key (fst (Allow l k t)) evs"

lemma Allow_other: "k \<noteq> key \<Longrightarrow> rl_buckets (fst (Allow l k t)) key = rl_buckets l key"
  by (simp add: Allow_def Let_def)

lemma Allow_params [simp]: "rl_limit (fst (Allow l k t)) = rl_limit l"
  "rl_window (fst (Allow l k t)) = rl_window l"
  by (simp_all add: Allow_def Let_def)

text \<open>What is left of a bucket whose window will not restart within the span considered.\<close>

lemma admitted_current:
  assumes "rl_buckets l key = Some b" "\<not> is_zero (b_start b)"
    "\<And>t. (key, t) \<in> set evs \<Longrightarrow> time_sub t (b_start b) < rl_window l"
  shows "int (admitted key l evs) \<le> max 0 (rl_limit l - b_count b)"
  using assms
proof (induction evs arbitrary: l b)
  case (Cons ev evs)
  obtain k t where ev: "ev = (k, t)" by (cases ev)
  let ?l = "fst (Allow l k t)"
  show ?case
  proof (cases "k = key \<and> b_count b < rl_limit l")
    case True
    then have "Allow l k t = (l\<lparr>rl_buckets := (rl_buckets l)(key \<mapsto> b\<lparr>b_count := b_count b + 1\<rparr>)\<rparr>, True)"
      using Cons.prems ev by (force simp: Allow_def Let_def)
    moreover have "int (admitted key ?l evs) \<le> max 0 (rl_limit ?l - (b_count b + 1))"
      using Cons.IH [of ?l "b\<lparr>b_count := b_count b + 1\<rparr>"] Cons.prems calculation ev by simp
    ultimately show ?thesis using ev True by simp
  next
    case False
    then have "rl_buckets ?l key = Some b" "\<not> (snd (Allow l k t) \<and> k = key)"
      using Cons.prems ev by (auto simp: Allow_other) (force simp: Allow_def Let_def)+
    then show ?thesis
      using Cons.IH [of ?l b] Cons.prems ev by (auto split: prod.splits)
  qed
qed simp

lemma Allow_restart:
  assumes "case rl_buckets l key of None \<Rightarrow> True | Some b \<Rightarrow> is_zero (b_start b) \<or> time_sub t (b_start b) \<ge> rl_window l"
  shows "Allow l key t = (if rl_limit l \<le> 0 then (l, False)
    else (l\<lparr>rl_buckets := (rl_buckets l)(key \<mapsto> \<lparr>b_start = t, b_count = 1\<rparr>)\<rparr>, True))"
  using assms by (auto simp: Allow_def Let_def is_zero_def split: option.splits)

lemma Allow_continue:
  assumes "rl_buckets l key = Some b" "\<not> is_zero (b_start b)" "time_sub t (b_start b) < rl_window l"
  shows "Allow l key t = (if rl_limit l \<le> b_count b then (l, False)
    else (l\<lparr>rl_buckets := (rl_buckets l)(key \<mapsto> b\<lparr>b_count := b_count b + 1\<rparr>)\<rparr>, True))"
  using assms by (auto simp: Allow_def Let_def)

text \<open>The attempts a bucket still admits before its window restarts.\<close>

definition room :: "RateLimiter \<Rightarrow> string \<Rightarrow> int" where
  "room l key = (case rl_buckets l key of None \<Rightarrow> 0 | Some b \<Rightarrow> max 0 (rl_limit l - b_count b))"

lemma admitted_span:
  assumes "\<And>t. (key, t) \<in> set evs \<Longrightarrow> since \<le> t \<and> t - since < rl_window l" "zero_time < since"
  shows "int (admitted key l evs) \<le> room l key + max 0 (rl_limit l)"
  using assms(1)
proof (induction evs arbitrary: l)
  case (Cons ev evs)
  obtain k t where ev: "ev = (k, t)" by (cases ev)
  let ?l = "fst (Allow l k t)"
  have IH: "int (admitted key ?l evs) \<le> room ?l key + max 0 (rl_limit ?l)"
    using Cons.prems by (intro Cons.IH) simp
  show ?case
  proof (cases "k = key")
    case False
    then show ?thesis using IH ev by (simp add: room_def Allow_other split: option.splits)
  next
    case key: True
    show ?thesis
    proof (cases "case rl_buckets l key of None \<Rightarrow> True | Some b \<Rightarrow> is_zero (b_start b) \<or> time_sub t (b_start b) \<ge> rl_window l")
      case True
      have lim: "int (admitted key ?l evs) \<le> max 0 (rl_limit l - 1)" if "0 < rl_limit l"
      proof -
        have t: "since \<le> t" "t - since < rl_window l" using Cons.prems ev key by auto
        have "time_sub t' t < rl_window l" if "(key, t') \<in> set evs" for t'
          using Cons.prems [of t'] that t by (auto simp: time_sub_def)
        then show ?thesis
          using admitted_current [of ?l key "\<lparr>b_start = t, b_count = 1\<rparr>" evs] that t assms(2)
          by (simp add: key Allow_restart [OF True] is_zero_def)
      qed
      then show ?thesis
        using ev key Allow_restart [OF True] IH by (auto simp: room_def split: option.splits)
    next
      case False
      then obtain b where "rl_buckets l key = Some b" "\<not> is_zero (b_start b)" "time_sub t (b_start b) < rl_window l"
        by (auto split: option.splits)
      then show ?thesis
        using ev key IH by (auto simp: room_def Allow_continue)
    qed
  qed
qed (simp add: room_def split: option.split)

text \<open>C20. In any span of time shorter than the window the limiter admits at most twice its
  limit of attempts for one key (whatever the other keys do), and at most its limit when the
  key had no bucket yet.\<close>

theorem rate_limit_span:
  assumes "\<And>t. (key, t) \<in> set evs \<Longrightarrow> since \<le> t \<and> t - since < rl_window l" "zero_time < since"
    "\<And>b. rl_buckets l key = Some b \<Longrightarrow> 0 \<le> b_count b"
  shows "int (admitted key l evs) \<le> 2 * max 0 (rl_limit l)
    \<and> (rl_buckets l key = None \<longrightarrow> int (admitted key l evs) \<le> max 0 (rl_limit l))"
  using admitted_span [where l = l and key = key and evs = evs and since = since] assms
  by (force simp: room_def split: option.splits)

theorem rate_limit_span_witness:
  "int (admitted ''ip'' (NewRateLimiter 2 minute) [(''ip'', 5), (''ip'', 6), (''jp'', 7), (''ip'', 8)]) \<le> 2"
proof -
  have "\<And>t. (''ip'', t) \<in> set [(''ip'', 5), (''ip'', 6), (''jp'', 7), (''ip'', 8)] \<Longrightarrow>
      5 \<le> t \<and> t - 5 < rl_window (NewRateLimiter 2 minute)"
    by (auto simp: NewRateLimiter_def minute_def)
  then show ?thesis
    using rate_limit_span [of "''ip''" "[(''ip'', 5), (''ip'', 6), (''jp'', 7), (''ip'', 8)]" 5 "NewRateLimiter 2 minute"]
    by (simp add: NewRateLimiter_def zero_time_def)
qed

section \<open>Passwords\<close>

text \<open>The stored form: the parameters, the salt and the key.\<close>

definition password_format :: "bytes \<Rightarrow> bytes \<Rightarrow> string" where
  "password_format salt key = ''argon2id$v=19$m=65536,t=3,p=2$'' @ hex_encode salt @ ''$'' @ hex_encode key"

definition HashPassword :: "crypto \<Rightarrow> env \<Rightarrow> nat \<Rightarrow> string \<Rightarrow> string result" where
  "HashPassword c e k password =
    (if List.length password < 16 then Inl (Error ''password must be at least 16 bytes'')
     else case rand_read e k 16 of
       Inl err \<Rightarrow> Inl err
     | Inr salt \<Rightarrow> Inr (password_format salt (argon2 c password salt 3 65536 2 32)))"

definition VerifyPassword :: "crypto \<Rightarrow> string \<Rightarrow> string \<Rightarrow> bool" where
  "VerifyPassword c encoded password =
    (let parts = split (CHR ''$'') encoded in
     if List.length parts \<noteq> 5 \<or> parts ! 0 \<noteq> ''argon2id'' then False
     else case hex_decode (parts ! 3) of
       Inl err \<Rightarrow> False
     | Inr salt \<Rightarrow> (case hex_decode (parts ! 4) of
         Inl err \<Rightarrow> False
       | Inr want \<Rightarrow> argon2 c password salt 3 65536 2 (List.length want) = want))"

lemma hex_no_dollar: "CHR ''$'' \<notin> set (hex_encode bs)"
proof -
  have "\<forall>k \<in> set [0..<16]. hex_digit k \<noteq> CHR ''$''" by code_simp
  then have "\<And>c. hex_digit (byte c div 16) \<noteq> CHR ''$'' \<and> hex_digit (byte c mod 16) \<noteq> CHR ''$''" by simp
  then show ?thesis by (induction bs) (auto simp: eq_commute)
qed

lemma encoded_password_split:
  "split (CHR ''$'') (password_format salt h)
   = [''argon2id'', ''v=19'', ''m=65536,t=3,p=2'', hex_encode salt, hex_encode h]"
  using split_append_sep [OF hex_no_dollar [of salt], of "hex_encode h"]
  by (simp add: password_format_def split_no_sep hex_no_dollar)

lemma VerifyPassword_hash:
  assumes "HashPassword c e k password = Inr encoded"
    "\<And>salt. List.length (argon2 c password salt 3 65536 2 32) = 32"
  shows "VerifyPassword c encoded other \<longleftrightarrow>
    argon2 c other (map (env_rand e k) [0..<16]) 3 65536 2 32
    = argon2 c password (map (env_rand e k) [0..<16]) 3 65536 2 32"
proof -
  define salt where "salt = map (env_rand e k) [0..<16]"
  from assms(1) have enc: "encoded = password_format salt (argon2 c password salt 3 65536 2 32)"
    by (auto simp: HashPassword_def rand_read_def salt_def [symmetric] split: if_splits simp del: upt_rec_numeral)
  show ?thesis
    unfolding VerifyPassword_def Let_def enc encoded_password_split salt_def [symmetric]
    by (simp add: hex.dec_enc assms(2))
qed

lemma HashPassword_accepts:
  "HashPassword c e k password = Inr encoded \<Longrightarrow>
   (\<And>salt. List.length (argon2 c password salt 3 65536 2 32) = 32) \<Longrightarrow> VerifyPassword c encoded password"
  by (simp add: VerifyPassword_hash)

text \<open>A hash made for a password accepts exactly the passwords with the same Argon2id
  key under its salt, the password itself among them; shorter passwords are refused.\<close>

theorem password_round_trip:
  assumes "HashPassword c e k password = Inr encoded"
    "\<And>salt. List.length (argon2 c password salt 3 65536 2 32) = 32"
  shows "VerifyPassword c encoded password \<and> 16 \<le> List.length password
    \<and> (\<forall>other. VerifyPassword c encoded other \<longleftrightarrow>
         argon2 c other (map (env_rand e k) [0..<16]) 3 65536 2 32
         = argon2 c password (map (env_rand e k) [0..<16]) 3 65536 2 32)"
proof -
  have "16 \<le> List.length password"
    using assms(1) by (auto simp: HashPassword_def split: if_splits)
  then show ?thesis using VerifyPassword_hash [OF assms] by blast
qed

theorem password_round_trip_witness:
  "\<exists>h. HashPassword toy_crypto (calm 0) 0 ''0123456789abcdef'' = Inr h
    \<and> VerifyPassword toy_crypto h ''0123456789abcdef''"
proof -
  have "\<And>salt. List.length (argon2 toy_crypto ''0123456789abcdef'' salt 3 65536 2 32) = 32"
    by (simp add: toy_crypto_def)
  moreover have "HashPassword toy_crypto (calm 0) 0 ''0123456789abcdef'' \<noteq> Inl x" for x
    by (simp add: HashPassword_def)
  ultimately show ?thesis
    using password_round_trip [of toy_crypto "calm 0" 0 "''0123456789abcdef''"]
    by (cases "HashPassword toy_crypto (calm 0) 0 ''0123456789abcdef''") auto
qed

section \<open>Roles and methods\<close>

datatype Action = ActionRead | ActionOperate | ActionAdmin

definition required_role :: "Action \<Rightarrow> int" where
  "required_role a = (case a of ActionRead \<Rightarrow> ROLE_VIEWER | ActionOperate \<Rightarrow> ROLE_OPERATOR
     | ActionAdmin \<Rightarrow> ROLE_ADMIN)"

text \<open>Actions in the order of Go's \<open>iota\<close>.\<close>

instantiation Action :: linorder
begin

definition less_eq_Action :: "Action \<Rightarrow> Action \<Rightarrow> bool" where
  "less_eq_Action a b = (required_role a \<le> required_role b)"

definition less_Action :: "Action \<Rightarrow> Action \<Rightarrow> bool" where
  "less_Action a b = (required_role a < required_role b)"

instance
  by standard (auto simp: less_eq_Action_def less_Action_def required_role_def role_defs split: Action.splits)

end

definition Allowed :: "int \<Rightarrow> Action \<Rightarrow> bool" where
  "Allowed role action = (role \<ge> required_role action)"

definition methodActions :: "(string \<times> Action) list" where
  "methodActions = map (\<lambda>(m, a). (''/devops.v1.FleetService/'' @ m, a)) [
     (''ListAgents'', ActionRead), (''GetAgent'', ActionRead), (''GetMetrics'', ActionRead),
     (''StreamJobOutput'', ActionRead), (''ListAudit'', ActionRead), (''ListProcesses'', ActionRead),
     (''ListServices'', ActionRead), (''GetService'', ActionRead), (''ReadLogs'', ActionRead),
     (''StartService'', ActionOperate), (''StopService'', ActionOperate),
     (''RestartService'', ActionOperate), (''PreviewCleanup'', ActionOperate),
     (''RunCleanup'', ActionOperate), (''Reboot'', ActionOperate), (''CancelJob'', ActionOperate),
     (''PrepareSsh'', ActionOperate), (''GetSshSession'', ActionOperate),
     (''CloseSsh'', ActionOperate), (''BridgeSsh'', ActionOperate),
     (''Exec'', ActionAdmin), (''CreateClientInvitation'', ActionAdmin),
     (''ListClientInvitations'', ActionAdmin), (''RevokeClientInvitation'', ActionAdmin),
     (''CreateEnrollmentToken'', ActionAdmin), (''ListEnrollmentTokens'', ActionAdmin),
     (''RevokeEnrollmentToken'', ActionAdmin), (''RevokeAgent'', ActionAdmin),
     (''CreateUser'', ActionAdmin), (''ListUsers'', ActionAdmin), (''SetUserRole'', ActionAdmin),
     (''AddSshKey'', ActionAdmin), (''ListSshKeys'', ActionAdmin), (''DeleteSshKey'', ActionAdmin)]"

definition MethodAllowed :: "string \<Rightarrow> int \<Rightarrow> bool" where
  "MethodAllowed method role = (case map_of methodActions method of
     None \<Rightarrow> False | Some action \<Rightarrow> Allowed role action)"

lemma Allowed_mono: "Allowed role a \<Longrightarrow> role \<le> role' \<Longrightarrow> b \<le> a \<Longrightarrow> Allowed role' b"
  by (simp add: Allowed_def less_eq_Action_def)

lemma MethodAllowed_mono: "MethodAllowed m role \<Longrightarrow> role \<le> role' \<Longrightarrow> MethodAllowed m role'"
  by (auto simp: MethodAllowed_def intro: Allowed_mono split: option.splits)

lemma MethodAllowed_viewer: "MethodAllowed m role \<Longrightarrow> ROLE_VIEWER \<le> role"
  by (auto simp: MethodAllowed_def Allowed_def required_role_def role_defs split: option.splits Action.splits)

lemma MethodAllowed_fleet: "MethodAllowed m role \<Longrightarrow> has_prefix m ''/devops.v1.FleetService/''"
proof -
  assume "MethodAllowed m role"
  then have "m \<in> fst ` set methodActions"
    by (force simp: MethodAllowed_def split: option.splits dest: map_of_SomeD)
  moreover have "\<forall>x \<in> set methodActions. has_prefix (fst x) ''/devops.v1.FleetService/''" by code_simp
  ultimately show ?thesis by blast
qed

end
