(* ===== verification/Store.thy ===== *)
theory Store
  imports Prelude
begin

text \<open>
  The validator's SQLite database: one record per table of \<open>src/migrations\<close>, the
  schema's PRIMARY KEY, UNIQUE and REFERENCES constraints as the predicate \<open>db_ok\<close>, and
  the way \<open>database/sql\<close> runs a statement: it fails for a reason of its own, or it is
  rolled back because its result violates a constraint, or it takes effect and reports the
  rows it changed. A NULL is \<open>None\<close>. Row order is insertion order; a query with ORDER BY
  sorts stably by its key.
\<close>

section \<open>Tables\<close>

record UserRow =
  u_id :: string
  u_username :: string
  u_hash :: bytes
  u_role :: int
  u_disabled :: bool
  u_created :: int

record SshKeyRow =
  k_id :: string
  k_user :: string
  k_public_key :: bytes
  k_label :: string
  k_created :: int

record TokenRow =
  t_id :: string
  t_hash :: bytes
  t_expires :: int
  t_consumed :: "int option"
  t_revoked :: "int option"
  t_created_by :: "string option"

record AgentRow =
  a_id :: string
  a_serial :: "string option"
  a_expires :: "int option"
  a_revoked :: "int option"
  a_hostname :: string
  a_boot_id :: string
  a_metadata :: bytes
  a_created :: int

record ConnRow =
  c_agent :: string
  c_connected :: "int option"
  c_disconnected :: "int option"
  c_stream :: "string option"
  c_state :: string

record JobRow =
  j_id :: string
  j_key :: string
  j_actor :: string
  j_agent :: string
  j_kind :: string
  j_state :: int
  j_reason :: string
  j_created :: int
  j_deadline :: int
  j_attempt :: int
  j_dispatch :: "string option"
  j_capture :: bool
  j_output :: "bytes option"
  j_truncated :: bool

record AuditRow =
  e_id :: string
  e_actor :: "string option"
  e_agent :: "string option"
  e_action :: string
  e_reason :: string
  e_occurred :: int
  e_metadata :: bytes

record SshRow =
  s_id :: string
  s_actor :: string
  s_agent :: string
  s_public_key :: bytes
  s_state :: int
  s_port :: "u32 option"
  s_expires :: int
  s_created :: int
  s_host_key :: "bytes option"

record CurrentRow =
  mc_agent :: string
  mc_sampled :: int
  mc_payload :: bytes

record MinuteRow =
  mm_agent :: string
  mm_bucket :: int
  mm_payload :: bytes

record InvitationRow =
  i_id :: string
  i_hash :: bytes
  i_username :: string
  i_role :: int
  i_address :: string
  i_pin :: string
  i_expires :: int
  i_consumed :: "int option"
  i_revoked :: "int option"
  i_created_by :: "string option"
  i_created :: int

record db =
  users :: "UserRow list"
  ssh_keys :: "SshKeyRow list"
  enrollment_tokens :: "TokenRow list"
  agents :: "AgentRow list"
  connections :: "ConnRow list"
  jobs :: "JobRow list"
  audit_events :: "AuditRow list"
  ssh_sessions :: "SshRow list"
  metrics_current :: "CurrentRow list"
  metrics_minute :: "MinuteRow list"
  client_invitations :: "InvitationRow list"

definition empty_db :: db where
  "empty_db = \<lparr>users = [], ssh_keys = [], enrollment_tokens = [], agents = [], connections = [],
     jobs = [], audit_events = [], ssh_sessions = [], metrics_current = [], metrics_minute = [],
     client_invitations = []\<rparr>"

section \<open>The schema's constraints\<close>

text \<open>UNIQUE over a nullable column compares the values that are not NULL.\<close>

definition unique_opt :: "('r \<Rightarrow> 'k option) \<Rightarrow> 'r list \<Rightarrow> bool" where
  "unique_opt f rows = distinct (List.map_filter f rows)"

definition refers :: "string option \<Rightarrow> string list \<Rightarrow> bool" where
  "refers r keys = (case r of None \<Rightarrow> True | Some k \<Rightarrow> k \<in> set keys)"

definition user_ids :: "db \<Rightarrow> string list" where
  "user_ids d = map u_id (users d)"

definition agent_ids :: "db \<Rightarrow> string list" where
  "agent_ids d = map a_id (agents d)"

definition users_ok :: "db \<Rightarrow> bool" where
  "users_ok d \<longleftrightarrow> distinct (user_ids d) \<and> distinct (map u_username (users d))"

definition ssh_keys_ok :: "db \<Rightarrow> bool" where
  "ssh_keys_ok d \<longleftrightarrow> distinct (map k_id (ssh_keys d))
     \<and> distinct (map (\<lambda>r. (k_user r, k_public_key r)) (ssh_keys d))
     \<and> list_all (\<lambda>r. k_user r \<in> set (user_ids d)) (ssh_keys d)"

definition tokens_ok :: "db \<Rightarrow> bool" where
  "tokens_ok d \<longleftrightarrow> distinct (map t_id (enrollment_tokens d))
     \<and> distinct (map t_hash (enrollment_tokens d))
     \<and> list_all (\<lambda>r. refers (t_created_by r) (user_ids d)) (enrollment_tokens d)"

definition agents_ok :: "db \<Rightarrow> bool" where
  "agents_ok d \<longleftrightarrow> distinct (agent_ids d) \<and> unique_opt a_serial (agents d)"

definition connections_ok :: "db \<Rightarrow> bool" where
  "connections_ok d \<longleftrightarrow> distinct (map c_agent (connections d))
     \<and> unique_opt c_stream (connections d)
     \<and> list_all (\<lambda>r. c_agent r \<in> set (agent_ids d)) (connections d)"

definition jobs_ok :: "db \<Rightarrow> bool" where
  "jobs_ok d \<longleftrightarrow> distinct (map j_id (jobs d)) \<and> unique_opt j_dispatch (jobs d)
     \<and> distinct (map (\<lambda>r. (j_agent r, j_key r)) (jobs d))
     \<and> list_all (\<lambda>r. j_actor r \<in> set (user_ids d) \<and> j_agent r \<in> set (agent_ids d)) (jobs d)"

definition audit_ok :: "db \<Rightarrow> bool" where
  "audit_ok d \<longleftrightarrow> distinct (map e_id (audit_events d))
     \<and> list_all (\<lambda>r. refers (e_actor r) (user_ids d) \<and> refers (e_agent r) (agent_ids d)) (audit_events d)"

definition ssh_ok :: "db \<Rightarrow> bool" where
  "ssh_ok d \<longleftrightarrow> distinct (map s_id (ssh_sessions d)) \<and> unique_opt s_port (ssh_sessions d)
     \<and> list_all (\<lambda>r. s_actor r \<in> set (user_ids d) \<and> s_agent r \<in> set (agent_ids d)) (ssh_sessions d)"

definition metrics_ok :: "db \<Rightarrow> bool" where
  "metrics_ok d \<longleftrightarrow> distinct (map mc_agent (metrics_current d))
     \<and> list_all (\<lambda>r. mc_agent r \<in> set (agent_ids d)) (metrics_current d)
     \<and> distinct (map (\<lambda>r. (mm_agent r, mm_bucket r)) (metrics_minute d))"

definition invitations_ok :: "db \<Rightarrow> bool" where
  "invitations_ok d \<longleftrightarrow> distinct (map i_id (client_invitations d))
     \<and> distinct (map i_hash (client_invitations d))
     \<and> list_all (\<lambda>r. refers (i_created_by r) (user_ids d)) (client_invitations d)"

definition db_ok :: "db \<Rightarrow> bool" where
  "db_ok d \<longleftrightarrow> users_ok d \<and> ssh_keys_ok d \<and> tokens_ok d \<and> agents_ok d \<and> connections_ok d
     \<and> jobs_ok d \<and> audit_ok d \<and> ssh_ok d \<and> metrics_ok d \<and> invitations_ok d"

lemmas table_ok_defs = users_ok_def ssh_keys_ok_def tokens_ok_def agents_ok_def connections_ok_def
  jobs_ok_def audit_ok_def ssh_ok_def metrics_ok_def invitations_ok_def user_ids_def agent_ids_def

lemma refers_append [simp]: "refers r (ks @ [k]) \<longleftrightarrow> refers r ks \<or> r = Some k"
  by (auto simp: refers_def split: option.split)

lemma map_filter_Cons: "List.map_filter f (x # xs)
    = (case f x of None \<Rightarrow> List.map_filter f xs | Some y \<Rightarrow> y # List.map_filter f xs)"
  by (simp add: List.map_filter_def split: option.split)

lemma set_map_filter: "set (List.map_filter f xs) = {y. \<exists>x \<in> set xs. f x = Some y}"
  by (induction xs) (auto simp: List.map_filter_def split: option.splits)

section \<open>Statements\<close>

text \<open>The rows an UPDATE changes, with how many they are; DELETE likewise.\<close>

definition update_rows :: "('r \<Rightarrow> bool) \<Rightarrow> ('r \<Rightarrow> 'r) \<Rightarrow> 'r list \<Rightarrow> 'r list \<times> nat" where
  "update_rows P f rows = (map (\<lambda>r. if P r then f r else r) rows, List.length (filter P rows))"

definition delete_rows :: "('r \<Rightarrow> bool) \<Rightarrow> 'r list \<Rightarrow> 'r list \<times> nat" where
  "delete_rows P rows = (filter (\<lambda>r. \<not> P r) rows, List.length (filter P rows))"

text \<open>\<open>Exec\<close>: a failing store leaves the database as it was, and so does a violated constraint.\<close>

definition sql_exec :: "bool \<Rightarrow> (db \<Rightarrow> db \<times> nat) \<Rightarrow> db \<Rightarrow> db \<times> nat result" where
  "sql_exec fails stmt d = (if fails then (d, Inl StorageFailure)
     else (case stmt d of (d', n) \<Rightarrow> if db_ok d' then (d', Inr n) else (d, Inl Constraint)))"

text \<open>\<open>QueryRow\<close>: the first row, or \<open>ErrNoRows\<close>.\<close>

definition sql_query_row :: "bool \<Rightarrow> ('r \<Rightarrow> bool) \<Rightarrow> 'r list \<Rightarrow> 'r result" where
  "sql_query_row fails P rows = (if fails then Inl StorageFailure
     else (case List.find P rows of None \<Rightarrow> Inl NoRows | Some r \<Rightarrow> Inr r))"

lemma sql_exec_ok [db_pres]: "db_ok d \<Longrightarrow> db_ok (fst (sql_exec f s d))"
  by (auto simp: sql_exec_def split: prod.split)

lemma sql_exec_Inr: "sql_exec f s d = (d', Inr n) \<longleftrightarrow> \<not> f \<and> s d = (d', n) \<and> db_ok d'"
  by (auto simp: sql_exec_def split: prod.split)

lemma sql_exec_Inl: "sql_exec f s d = (d', Inl e) \<Longrightarrow> d' = d"
  by (auto simp: sql_exec_def split: prod.splits if_splits)

lemma sql_query_row_Inr: "sql_query_row f P rows = Inr r \<longleftrightarrow> \<not> f \<and> List.find P rows = Some r"
  by (auto simp: sql_query_row_def split: option.splits)

lemma sql_query_row_mem: "sql_query_row f P rows = Inr r \<Longrightarrow> r \<in> set rows \<and> P r"
  by (auto simp: sql_query_row_Inr dest: find_Some_mem)

lemma update_rows_simps [simp]:
  "fst (update_rows P f rows) = map (\<lambda>r. if P r then f r else r) rows"
  "snd (update_rows P f rows) = List.length (filter P rows)"
  by (simp_all add: update_rows_def)

lemma update_mem: "r \<in> set rows \<Longrightarrow> P r \<Longrightarrow> f r \<in> set (map (\<lambda>r. if P r then f r else r) rows)"
  by (auto intro!: rev_image_eqI)

lemma update_rows_key: "(\<And>r. P r \<Longrightarrow> g (f r) = g r) \<Longrightarrow>
    map g (map (\<lambda>r. if P r then f r else r) rows) = map g rows"
  by (induction rows) auto

lemma map_filter_if: "(\<And>r. P r \<Longrightarrow> g (f r) = g r) \<Longrightarrow>
    List.map_filter g (map (\<lambda>r. if P r then f r else r) rows) = List.map_filter g rows"
  by (induction rows) (auto simp: List.map_filter_def)

lemma unique_opt_map: "unique_opt g (map h rows) = unique_opt (\<lambda>r. g (h r)) rows"
  by (simp add: unique_opt_def List.map_filter_def filter_map comp_def)

lemmas table_map = list.pred_map comp_def unique_opt_map

lemma db_ok_empty: "db_ok empty_db"
  by code_simp

lemma unique_opt_append: "unique_opt f (xs @ [r]) \<longleftrightarrow> unique_opt f xs
    \<and> (\<forall>k. f r = Some k \<longrightarrow> Some k \<notin> f ` set xs)"
  by (auto simp: unique_opt_def List.map_filter_def image_iff split: option.split)
     (metis option.sel option.distinct(1))+

section \<open>Inserting and updating rows that keep the constraints\<close>

lemma db_ok_insert_user:
  assumes "db_ok d"
  shows "db_ok (d\<lparr>users := users d @ [r]\<rparr>) \<longleftrightarrow>
    u_id r \<notin> set (user_ids d) \<and> u_username r \<notin> u_username ` set (users d)"
  using assms by (auto simp: db_ok_def table_ok_defs list_all_iff)

lemma db_ok_insert_job:
  assumes "db_ok d"
  shows "db_ok (d\<lparr>jobs := jobs d @ [r]\<rparr>) \<longleftrightarrow>
    j_id r \<notin> j_id ` set (jobs d) \<and> (j_agent r, j_key r) \<notin> (\<lambda>r. (j_agent r, j_key r)) ` set (jobs d)
    \<and> (\<forall>k. j_dispatch r = Some k \<longrightarrow> Some k \<notin> j_dispatch ` set (jobs d))
    \<and> j_actor r \<in> set (user_ids d) \<and> j_agent r \<in> set (agent_ids d)"
  using assms by (auto simp: db_ok_def table_ok_defs unique_opt_append)

lemma db_ok_insert_audit:
  assumes "db_ok d"
  shows "db_ok (d\<lparr>audit_events := audit_events d @ [r]\<rparr>) \<longleftrightarrow>
    e_id r \<notin> e_id ` set (audit_events d)
    \<and> refers (e_actor r) (user_ids d) \<and> refers (e_agent r) (agent_ids d)"
  using assms by (auto simp: db_ok_def table_ok_defs)

lemma db_ok_insert_ssh:
  assumes "db_ok d"
  shows "db_ok (d\<lparr>ssh_sessions := ssh_sessions d @ [r]\<rparr>) \<longleftrightarrow>
    s_id r \<notin> s_id ` set (ssh_sessions d)
    \<and> (\<forall>p. s_port r = Some p \<longrightarrow> Some p \<notin> s_port ` set (ssh_sessions d))
    \<and> s_actor r \<in> set (user_ids d) \<and> s_agent r \<in> set (agent_ids d)"
  using assms by (auto simp: db_ok_def table_ok_defs unique_opt_append)

lemma db_ok_insert_token:
  assumes "db_ok d"
  shows "db_ok (d\<lparr>enrollment_tokens := enrollment_tokens d @ [r]\<rparr>) \<longleftrightarrow>
    t_id r \<notin> t_id ` set (enrollment_tokens d) \<and> t_hash r \<notin> t_hash ` set (enrollment_tokens d)
    \<and> refers (t_created_by r) (user_ids d)"
  using assms by (auto simp: db_ok_def table_ok_defs)

lemma db_ok_insert_agent:
  assumes "db_ok d"
  shows "db_ok (d\<lparr>agents := agents d @ [r]\<rparr>) \<longleftrightarrow>
    a_id r \<notin> set (agent_ids d) \<and> (\<forall>k. a_serial r = Some k \<longrightarrow> Some k \<notin> a_serial ` set (agents d))"
  using assms
  by (auto simp: db_ok_def table_ok_defs unique_opt_append list_all_iff)

lemma db_ok_insert_invitation:
  assumes "db_ok d"
  shows "db_ok (d\<lparr>client_invitations := client_invitations d @ [r]\<rparr>) \<longleftrightarrow>
    i_id r \<notin> i_id ` set (client_invitations d) \<and> i_hash r \<notin> i_hash ` set (client_invitations d)
    \<and> refers (i_created_by r) (user_ids d)"
  using assms by (auto simp: db_ok_def table_ok_defs)

lemma db_ok_insert_key:
  assumes "db_ok d"
  shows "db_ok (d\<lparr>ssh_keys := ssh_keys d @ [r]\<rparr>) \<longleftrightarrow>
    k_id r \<notin> k_id ` set (ssh_keys d) \<and> k_user r \<in> set (user_ids d)
    \<and> (k_user r, k_public_key r) \<notin> (\<lambda>r. (k_user r, k_public_key r)) ` set (ssh_keys d)"
  using assms by (auto simp: db_ok_def table_ok_defs)

text \<open>An update that keeps the key and reference columns of its table always succeeds.\<close>

lemma db_ok_update_jobs:
  assumes "db_ok d" "\<And>r. P r \<Longrightarrow> j_id (f r) = j_id r \<and> j_key (f r) = j_key r \<and> j_actor (f r) = j_actor r
    \<and> j_agent (f r) = j_agent r \<and> j_dispatch (f r) = j_dispatch r"
  shows "db_ok (d\<lparr>jobs := map (\<lambda>r. if P r then f r else r) (jobs d)\<rparr>)"
proof -
  let ?g = "\<lambda>r. if P r then f r else r"
  have k: "j_id (?g r) = j_id r" "j_key (?g r) = j_key r" "j_actor (?g r) = j_actor r"
       "j_agent (?g r) = j_agent r" "j_dispatch (?g r) = j_dispatch r" for r
    using assms(2) by auto
  then show ?thesis
    using assms(1) by (simp add: db_ok_def table_ok_defs table_map)
qed

lemma db_ok_update_ssh:
  assumes "db_ok d" "\<And>r. P r \<Longrightarrow> s_id (f r) = s_id r \<and> s_actor (f r) = s_actor r
    \<and> s_agent (f r) = s_agent r \<and> (s_port (f r) = s_port r \<or> s_port (f r) = None)"
  shows "db_ok (d\<lparr>ssh_sessions := map (\<lambda>r. if P r then f r else r) (ssh_sessions d)\<rparr>)"
proof -
  let ?g = "\<lambda>r. if P r then f r else r"
  have k: "s_id (?g r) = s_id r" "s_actor (?g r) = s_actor r" "s_agent (?g r) = s_agent r" for r
    using assms(2) by auto
  have sub: "set (List.map_filter s_port (map ?g rs)) \<subseteq> set (List.map_filter s_port rs)" for rs
    using assms(2) by (force simp: set_map_filter)
  have "distinct (List.map_filter s_port rs) \<Longrightarrow> distinct (List.map_filter s_port (map ?g rs))" for rs
  proof (induction rs)
    case (Cons r rs)
    have "s_port (?g r) = s_port r \<or> s_port (?g r) = None" using assms(2) by auto
    then show ?case
      using Cons sub [of rs]
      by (auto simp: map_filter_Cons simp del: list.map set_map split: option.splits)
         (auto simp: map_filter_Cons split: option.splits)
  qed (simp add: List.map_filter_def)
  then show ?thesis
    using assms(1) k by (simp add: db_ok_def table_ok_defs unique_opt_def list.pred_map comp_def)
qed

end
