(* ===== verification/AuthToken.thy ===== *)
theory AuthToken
  imports AuthPolicy Store
begin

text \<open>
  \<open>internal/auth\<close>: signed access tokens, the interceptors every call passes, and the login
  service. The JSON encoding of the claims is a parameter; so are the keyed digest and
  \<open>netip.ParseAddr\<close>.
\<close>

section \<open>Access tokens\<close>

record Claims =
  cl_subject :: string
  cl_role :: int
  cl_issued :: int
  cl_expires :: int
  cl_nonce :: string

record claims_json =
  js_marshal :: "Claims \<Rightarrow> bytes"
  js_unmarshal :: "bytes \<Rightarrow> Claims result"

record Issuer =
  iss_key :: bytes
  iss_ttl :: duration

definition NewIssuer :: "bytes \<Rightarrow> duration \<Rightarrow> Issuer result" where
  "NewIssuer key ttl =
    (if List.length key < 32 then Inl (Error ''token key must be at least 32 bytes'')
     else if ttl \<le> 0 \<or> ttl > hour then Inl (Error ''token TTL must be between zero and one hour'')
     else Inr \<lparr>iss_key = key, iss_ttl = ttl\<rparr>)"

definition sign :: "crypto \<Rightarrow> Issuer \<Rightarrow> string \<Rightarrow> string" where
  "sign c i body = raw_url_encode (hmac c (iss_key i) body)"

definition issued_claims :: "Issuer \<Rightarrow> env \<Rightarrow> nat \<Rightarrow> string \<Rightarrow> int \<Rightarrow> time \<Rightarrow> Claims" where
  "issued_claims i e k subject role now = \<lparr>cl_subject = subject, cl_role = role, cl_issued = unix now,
     cl_expires = unix (now + iss_ttl i), cl_nonce = hex_encode (map (env_rand e k) [0..<16])\<rparr>"

definition Issue :: "crypto \<Rightarrow> claims_json \<Rightarrow> Issuer \<Rightarrow> env \<Rightarrow> nat \<Rightarrow> string \<Rightarrow> int \<Rightarrow> time \<Rightarrow> string result" where
  "Issue c js i e k subject role now =
    (if subject = [] \<or> role = ROLE_UNSPECIFIED then Inl (Error ''subject and role required'')
     else case rand_read e k 16 of
       Inl err \<Rightarrow> Inl err
     | Inr nonce \<Rightarrow>
        (let claims = \<lparr>cl_subject = subject, cl_role = role, cl_issued = unix now,
               cl_expires = unix (now + iss_ttl i), cl_nonce = hex_encode nonce\<rparr>;
             encoded = raw_url_encode (js_marshal js claims)
         in Inr (encoded @ ''.'' @ sign c i encoded)))"

definition Verify :: "crypto \<Rightarrow> claims_json \<Rightarrow> Issuer \<Rightarrow> string \<Rightarrow> time \<Rightarrow> Claims result" where
  "Verify c js i token now =
    (let parts = split (CHR ''.'') token in
     if List.length parts \<noteq> 2 \<or> parts ! 1 \<noteq> sign c i (parts ! 0) then Inl (Error ''invalid access token'')
     else case raw_url_decode (parts ! 0) of
       Inl err \<Rightarrow> Inl (Error ''invalid access token'')
     | Inr body \<Rightarrow> (case js_unmarshal js body of
         Inl err \<Rightarrow> Inl (Error ''invalid access token'')
       | Inr claims \<Rightarrow>
           if cl_expires claims \<le> unix now \<or> cl_issued claims > unix (now + minute)
           then Inl (Error ''access token expired or not yet valid'') else Inr claims))"

lemma Issue_Inr: "Issue c js i e k subject role now = Inr token \<longleftrightarrow>
    subject \<noteq> [] \<and> role \<noteq> ROLE_UNSPECIFIED \<and> \<not> env_rand_fails e k
    \<and> (let body = raw_url_encode (js_marshal js (issued_claims i e k subject role now))
       in token = body @ ''.'' @ sign c i body)"
  by (auto simp: Issue_def issued_claims_def rand_read_def Let_def)

lemma Verify_Inr: "Verify c js i token now = Inr claims \<longleftrightarrow>
    (\<exists>body. CHR ''.'' \<notin> set body \<and> token = body @ ''.'' @ sign c i body
      \<and> (\<exists>raw. raw_url_decode body = Inr raw \<and> js_unmarshal js raw = Inr claims)
      \<and> unix now < cl_expires claims \<and> cl_issued claims \<le> unix (now + minute))"
proof
  assume v: "Verify c js i token now = Inr claims"
  then obtain a b where sp: "split (CHR ''.'') token = [a, b]"
    by (auto simp: Verify_def Let_def numeral_2_eq_2 length_Suc_conv split: if_splits)
  moreover from this v have "b = sign c i a"
    by (auto simp: Verify_def Let_def split: if_splits)
  ultimately have "CHR ''.'' \<notin> set a \<and> token = a @ ''.'' @ sign c i a"
    by (simp add: split_pair)
  moreover have "(\<exists>raw. raw_url_decode a = Inr raw \<and> js_unmarshal js raw = Inr claims)
      \<and> unix now < cl_expires claims \<and> cl_issued claims \<le> unix (now + minute)"
    using v sp by (auto simp: Verify_def Let_def split: if_splits sum.splits)
  ultimately show "\<exists>body. CHR ''.'' \<notin> set body \<and> token = body @ ''.'' @ sign c i body
      \<and> (\<exists>raw. raw_url_decode body = Inr raw \<and> js_unmarshal js raw = Inr claims)
      \<and> unix now < cl_expires claims \<and> cl_issued claims \<le> unix (now + minute)" by blast
next
  assume "\<exists>body. CHR ''.'' \<notin> set body \<and> token = body @ ''.'' @ sign c i body
      \<and> (\<exists>raw. raw_url_decode body = Inr raw \<and> js_unmarshal js raw = Inr claims)
      \<and> unix now < cl_expires claims \<and> cl_issued claims \<le> unix (now + minute)"
  then obtain body raw where b: "CHR ''.'' \<notin> set body" "token = body @ ''.'' @ sign c i body"
    "raw_url_decode body = Inr raw" "js_unmarshal js raw = Inr claims"
    "unix now < cl_expires claims" "cl_issued claims \<le> unix (now + minute)" by blast
  then have "split (CHR ''.'') token = [body, sign c i body]"
    by (simp add: split_pair sign_def no_dot_url)
  then show "Verify c js i token now = Inr claims" using b by (simp add: Verify_def)
qed

text \<open>C25. A token issued to a subject verifies, with the subject's role and identity, exactly
  from a minute before it was issued until it expires, which is the issuer's time to live
  after it was issued.\<close>

theorem issue_verify:
  assumes "Issue c js i e k subject role now = Inr token"
    "\<And>claims. claims = issued_claims i e k subject role now \<Longrightarrow> js_unmarshal js (js_marshal js claims) = Inr claims"
  shows "Verify c js i token later = Inr claims \<longleftrightarrow>
    claims = issued_claims i e k subject role now
    \<and> unix later < unix (now + iss_ttl i) \<and> unix now \<le> unix (later + minute)"
proof -
  let ?claims = "issued_claims i e k subject role now"
  let ?body = "raw_url_encode (js_marshal js ?claims)"
  have tok: "token = ?body @ ''.'' @ sign c i ?body"
    using assms(1) by (simp add: Issue_Inr Let_def)
  have "body @ ''.'' @ sign c i body = token \<Longrightarrow> CHR ''.'' \<notin> set body \<Longrightarrow> body = ?body" for body
    using tok no_dot_url [of "js_marshal js ?claims"] split_append_sep [of "CHR ''.''" body]
      split_append_sep [of "CHR ''.''" ?body] by (metis append_Cons append_Nil list.inject)
  then have "Verify c js i token later = Inr claims \<longleftrightarrow>
      js_unmarshal js (js_marshal js ?claims) = Inr claims
      \<and> unix later < cl_expires claims \<and> cl_issued claims \<le> unix (later + minute)"
    using tok no_dot_url [of "js_marshal js ?claims"] b64url.dec_enc [of "js_marshal js ?claims"]
    unfolding Verify_Inr by (metis sum.inject(2))
  then show ?thesis
    using assms(2) [OF refl] by (auto simp: issued_claims_def)
qed

text \<open>An example encoding of claims, for evaluating witnesses: it keeps only the role and the expiry.\<close>

definition toy_json :: "Claims \<Rightarrow> claims_json" where
  "toy_json claims = \<lparr>js_marshal = (\<lambda>x. ''claims''), js_unmarshal = (\<lambda>b. Inr claims)\<rparr>"

definition demo_issuer :: Issuer where
  "demo_issuer = \<lparr>iss_key = replicate 32 (CHR ''k''), iss_ttl = minute\<rparr>"

definition demo_claims :: Claims where
  "demo_claims = issued_claims demo_issuer (calm 0) 0 ''u'' ROLE_ADMIN 0"

definition demo_token :: string where
  "demo_token = (let body = raw_url_encode ''claims'' in body @ ''.'' @ sign toy_crypto demo_issuer body)"

lemma demo_issue: "Issue toy_crypto (toy_json demo_claims) demo_issuer (calm 0) 0 ''u'' ROLE_ADMIN 0 = Inr demo_token"
  by (simp add: Issue_Inr demo_token_def toy_json_def Let_def role_defs)

theorem issue_verify_witness:
  "Verify toy_crypto (toy_json demo_claims) demo_issuer demo_token (30 * second) = Inr demo_claims"
  using issue_verify [OF demo_issue, of "30 * second" demo_claims]
  by (simp add: toy_json_def demo_claims_def demo_issuer_def go_time)

end
