(* ===== verification/AuthService.thy ===== *)
theory AuthService
  imports AuthToken
begin

text \<open>
  \<open>internal/auth\<close>: what a call's context carries, the peer and role checks of the gRPC
  interceptors, and the login service. A handler is a function of the context; whether it is
  reached shows in the interceptor's result.
\<close>

section \<open>Contexts\<close>

text \<open>
  The parts of a request's context the code reads: the peer's address, the subject and serial
  number of each of its TLS certificates, the \<open>authorization\<close> values of its metadata, and
  the claims an interceptor stored.
\<close>

record ctx =
  cx_peer :: "string option"
  cx_certs :: "(string \<times> string) list option"
  cx_auth :: "string list option"
  cx_claims :: "Claims option"

definition ContextWithClaims :: "ctx \<Rightarrow> Claims \<Rightarrow> ctx" where
  "ContextWithClaims ctx claims = ctx\<lparr>cx_claims := Some claims\<rparr>"

record EndpointPolicies =
  ep_enrollment :: CIDRPolicy
  ep_agent :: CIDRPolicy
  ep_client :: CIDRPolicy

definition peer_host :: "string \<Rightarrow> string" where
  "peer_host address = (case split_host_port address of None \<Rightarrow> address | Some (host, port) \<Rightarrow> host)"

definition peerAddr :: "(string \<Rightarrow> Addr option) \<Rightarrow> ctx \<Rightarrow> Addr result" where
  "peerAddr pa ctx = (case cx_peer ctx of
      None \<Rightarrow> Inl (Error ''peer address missing'')
    | Some address \<Rightarrow> (case pa (peer_host address) of
        None \<Rightarrow> Inl (Error ''invalid peer address'')
      | Some addr \<Rightarrow> Inr (unmap addr)))"

definition endpoint_policy :: "EndpointPolicies \<Rightarrow> string \<Rightarrow> CIDRPolicy option" where
  "endpoint_policy p method =
    (if has_prefix method ''/devops.v1.EnrollmentService/'' then Some (ep_enrollment p)
     else if has_prefix method ''/devops.v1.AgentService/'' then Some (ep_agent p)
     else if has_prefix method ''/devops.v1.AuthService/'' \<or> has_prefix method ''/devops.v1.FleetService/''
       then Some (ep_client p)
     else None)"

definition AuthorizePeer :: "EndpointPolicies \<Rightarrow> (string \<Rightarrow> Addr option) \<Rightarrow> ctx \<Rightarrow> string \<Rightarrow> unit result" where
  "AuthorizePeer p pa ctx method = (case endpoint_policy p method of
      None \<Rightarrow> Inl (Error ''unknown endpoint'')
    | Some policy \<Rightarrow> (case peerAddr pa ctx of
        Inl err \<Rightarrow> Inl err
      | Inr addr \<Rightarrow> if \<not> Allows policy addr then Inl (Error ''peer address denied'') else Inr ()))"

definition ParseBearer :: "string \<Rightarrow> string result" where
  "ParseBearer header = (let parts = Fields header in
     if List.length parts \<noteq> 2 \<or> \<not> equal_fold (parts ! 0) ''Bearer''
     then Inl (Error ''invalid authorization header'') else Inr (parts ! 1))"

definition ParsePort :: "string \<Rightarrow> nat \<times> bool" where
  "ParsePort value = parse_uint 16 value"

text \<open>The claims of the one bearer token in the call's metadata.\<close>

definition bearer_claims :: "crypto \<Rightarrow> claims_json \<Rightarrow> Issuer \<Rightarrow> time \<Rightarrow> ctx \<Rightarrow> Claims result" where
  "bearer_claims c js issuer now ctx = (case cx_auth ctx of
      None \<Rightarrow> Inl (Error ''authorization metadata missing'')
    | Some values \<Rightarrow>
        if List.length values \<noteq> 1 then Inl (Error ''authorization metadata invalid'')
        else (case ParseBearer (hd values) of
          Inl err \<Rightarrow> Inl err
        | Inr token \<Rightarrow> Verify c js issuer token now))"

definition AuthorizeMethod :: "ctx \<Rightarrow> string \<Rightarrow> unit result" where
  "AuthorizeMethod ctx method = (case cx_claims ctx of
      None \<Rightarrow> Inl (Status Unauthenticated ''authentication required'')
    | Some claims \<Rightarrow> if \<not> MethodAllowed method (cl_role claims)
        then Inl (Status PermissionDenied ''role denied'') else Inr ())"

definition AuthenticateFleet :: "crypto \<Rightarrow> claims_json \<Rightarrow> Issuer \<Rightarrow> EndpointPolicies
    \<Rightarrow> (string \<Rightarrow> Addr option) \<Rightarrow> time \<Rightarrow> ctx \<Rightarrow> string \<Rightarrow> ctx result" where
  "AuthenticateFleet c js issuer policies pa now ctx method =
    (case AuthorizePeer policies pa ctx method of
       Inl err \<Rightarrow> Inl err
     | Inr u \<Rightarrow> (case bearer_claims c js issuer now ctx of
         Inl err \<Rightarrow> Inl err
       | Inr claims \<Rightarrow> (case AuthorizeMethod (ContextWithClaims ctx claims) method of
           Inl err \<Rightarrow> Inl err
         | Inr u \<Rightarrow> Inr (ContextWithClaims ctx claims))))"

text \<open>The older single-policy authentication of \<open>interceptor.go\<close>.\<close>

definition AuthenticateContext :: "crypto \<Rightarrow> claims_json \<Rightarrow> Issuer \<Rightarrow> CIDRPolicy
    \<Rightarrow> (string \<Rightarrow> Addr option) \<Rightarrow> time \<Rightarrow> ctx \<Rightarrow> ctx result" where
  "AuthenticateContext c js issuer policy pa now ctx = (case cx_peer ctx of
      None \<Rightarrow> Inl (Error ''peer address missing'')
    | Some address \<Rightarrow> (case pa (peer_host address) of
        None \<Rightarrow> Inl (Error ''peer address denied'')
      | Some addr \<Rightarrow>
          if \<not> Allows policy addr then Inl (Error ''peer address denied'')
          else (case bearer_claims c js issuer now ctx of
            Inl err \<Rightarrow> Inl err
          | Inr claims \<Rightarrow> Inr (ContextWithClaims ctx claims))))"

section \<open>Interceptors\<close>

definition public_methods :: "string list" where
  "public_methods = [''/devops.v1.AuthService/Login'', ''/devops.v1.AuthService/RedeemClientInvitation'',
     ''/devops.v1.EnrollmentService/Enroll'', ''/devops.v1.EnrollmentService/Renew'']"

definition EndpointUnaryInterceptor :: "crypto \<Rightarrow> claims_json \<Rightarrow> Issuer \<Rightarrow> EndpointPolicies
    \<Rightarrow> (string \<Rightarrow> Addr option) \<Rightarrow> env \<Rightarrow> ctx \<Rightarrow> string \<Rightarrow> (ctx \<Rightarrow> 'r result) \<Rightarrow> 'r result" where
  "EndpointUnaryInterceptor c js issuer policies pa e ctx method handler =
    (case AuthorizePeer policies pa ctx method of
       Inl err \<Rightarrow> Inl (Status PermissionDenied ''peer address denied'')
     | Inr u \<Rightarrow>
         if method \<in> set public_methods then handler ctx
         else if has_prefix method ''/devops.v1.FleetService/'' then
           (case AuthenticateFleet c js issuer policies pa (env_clock e 0) ctx method of
              Inl err \<Rightarrow> Inl (Status Unauthenticated ''authentication failed'')
            | Inr authenticated \<Rightarrow> handler authenticated)
         else Inl (Status PermissionDenied ''endpoint denied''))"

definition StreamInterceptor :: "crypto \<Rightarrow> claims_json \<Rightarrow> Issuer \<Rightarrow> EndpointPolicies
    \<Rightarrow> (string \<Rightarrow> Addr option) \<Rightarrow> env \<Rightarrow> ctx \<Rightarrow> string \<Rightarrow> (ctx \<Rightarrow> 'r result) \<Rightarrow> 'r result" where
  "StreamInterceptor c js issuer policies pa e ctx method handler =
    (case AuthorizePeer policies pa ctx method of
       Inl err \<Rightarrow> Inl (Status PermissionDenied ''peer address denied'')
     | Inr u \<Rightarrow>
         if has_prefix method ''/devops.v1.AgentService/'' then handler ctx
         else (case AuthenticateFleet c js issuer policies pa (env_clock e 0) ctx method of
              Inl err \<Rightarrow> Inl (Status Unauthenticated ''authentication failed'')
            | Inr authenticated \<Rightarrow> handler authenticated))"

definition UnaryInterceptor :: "crypto \<Rightarrow> claims_json \<Rightarrow> Issuer \<Rightarrow> CIDRPolicy
    \<Rightarrow> (string \<Rightarrow> Addr option) \<Rightarrow> env \<Rightarrow> ctx \<Rightarrow> string \<Rightarrow> (ctx \<Rightarrow> 'r result) \<Rightarrow> 'r result" where
  "UnaryInterceptor c js issuer policy pa e ctx method handler =
    (case AuthenticateContext c js issuer policy pa (env_clock e 0) ctx of
       Inl err \<Rightarrow> Inl (Status Unauthenticated ''authentication failed'')
     | Inr authenticated \<Rightarrow> (case AuthorizeMethod authenticated method of
         Inl err \<Rightarrow> Inl err
       | Inr u \<Rightarrow> handler authenticated))"

text \<open>What authorises a fleet call: who may be calling, with which token.\<close>

definition fleet_grant :: "crypto \<Rightarrow> claims_json \<Rightarrow> Issuer \<Rightarrow> EndpointPolicies
    \<Rightarrow> (string \<Rightarrow> Addr option) \<Rightarrow> time \<Rightarrow> ctx \<Rightarrow> string \<Rightarrow> Claims \<Rightarrow> bool" where
  "fleet_grant c js issuer policies pa now ctx method claims \<longleftrightarrow>
    (\<exists>address addr header token.
       cx_peer ctx = Some address \<and> pa (peer_host address) = Some addr
       \<and> Allows (ep_client policies) (unmap addr)
       \<and> cx_auth ctx = Some [header] \<and> ParseBearer header = Inr token
       \<and> Verify c js issuer token now = Inr claims
       \<and> MethodAllowed method (cl_role claims))"

lemma AuthorizePeer_Inr: "AuthorizePeer p pa ctx method = Inr u \<longleftrightarrow>
    (\<exists>policy address addr. endpoint_policy p method = Some policy \<and> cx_peer ctx = Some address
       \<and> pa (peer_host address) = Some addr \<and> Allows policy (unmap addr))"
  by (auto simp: AuthorizePeer_def peerAddr_def split: option.splits)

lemma endpoint_policy_fleet:
  "has_prefix method ''/devops.v1.FleetService/'' \<Longrightarrow> endpoint_policy p method = Some (ep_client p)"
  by (auto simp: endpoint_policy_def has_prefix_iff)

lemma bearer_claims_Inr: "bearer_claims c js issuer now ctx = Inr claims \<longleftrightarrow>
    (\<exists>header token. cx_auth ctx = Some [header] \<and> ParseBearer header = Inr token
       \<and> Verify c js issuer token now = Inr claims)"
  by (auto simp: bearer_claims_def length_Suc_conv split: option.splits sum.splits)

lemma AuthenticateFleet_Inr:
  assumes "has_prefix method ''/devops.v1.FleetService/''"
  shows "AuthenticateFleet c js issuer policies pa now ctx method = Inr ctx' \<longleftrightarrow>
    (\<exists>claims. fleet_grant c js issuer policies pa now ctx method claims \<and> ctx' = ctx\<lparr>cx_claims := Some claims\<rparr>)"
proof -
  have "AuthenticateFleet c js issuer policies pa now ctx method = Inr ctx' \<longleftrightarrow>
      AuthorizePeer policies pa ctx method = Inr () \<and> (\<exists>claims.
        bearer_claims c js issuer now ctx = Inr claims \<and> MethodAllowed method (cl_role claims)
        \<and> ctx' = ctx\<lparr>cx_claims := Some claims\<rparr>)"
    by (auto simp: AuthenticateFleet_def AuthorizeMethod_def ContextWithClaims_def split: sum.splits)
  then show ?thesis
    by (auto simp: AuthorizePeer_Inr bearer_claims_Inr endpoint_policy_fleet [OF assms] fleet_grant_def)
qed

lemma fleet_grant_unique:
  "fleet_grant c js issuer policies pa now ctx method x \<Longrightarrow> fleet_grant c js issuer policies pa now ctx method y \<Longrightarrow> x = y"
  by (auto simp: fleet_grant_def)

lemma fleet_not_public: "has_prefix method ''/devops.v1.FleetService/'' \<Longrightarrow> method \<notin> set public_methods"
  by (auto simp: public_methods_def has_prefix_iff)

text \<open>C2. A unary fleet call reaches its handler exactly when the peer's address is allowed for
  clients, the call carries one bearer token that verifies at that moment, and the token's role
  may call the method; the handler then sees the token's claims.\<close>

theorem unary_fleet_gate:
  assumes "has_prefix method ''/devops.v1.FleetService/''"
  shows "EndpointUnaryInterceptor c js issuer policies pa e ctx method handler = Inr r \<longleftrightarrow>
    (\<exists>claims. fleet_grant c js issuer policies pa (env_clock e 0) ctx method claims
       \<and> handler (ctx\<lparr>cx_claims := Some claims\<rparr>) = Inr r)"
proof -
  have peer: "AuthenticateFleet c js issuer policies pa now ctx method = Inr ctx' \<Longrightarrow>
      AuthorizePeer policies pa ctx method = Inr ()" for now ctx'
    by (auto simp: AuthenticateFleet_def split: sum.splits)
  have "EndpointUnaryInterceptor c js issuer policies pa e ctx method handler = Inr r \<longleftrightarrow>
      (\<exists>ctx'. AuthenticateFleet c js issuer policies pa (env_clock e 0) ctx method = Inr ctx'
        \<and> handler ctx' = Inr r)"
    using fleet_not_public [OF assms] assms peer
    by (auto simp: EndpointUnaryInterceptor_def split: sum.splits)
  then show ?thesis by (auto simp: AuthenticateFleet_Inr [OF assms])
qed

text \<open>Deny by default: a method that is neither one of the four public ones nor in the fleet
  table never reaches a handler, whoever calls it and whatever it carries.\<close>

theorem unknown_method_denied:
  assumes "method \<notin> set public_methods" "method \<notin> fst ` set methodActions"
  shows "\<exists>code. code \<in> {PermissionDenied, Unauthenticated} \<and> (\<exists>msg.
    EndpointUnaryInterceptor c js issuer policies pa e ctx method handler = Inl (Status code msg))"
proof -
  have "\<not> MethodAllowed method role" for role
    using assms(2) by (force simp: MethodAllowed_def split: option.splits dest: map_of_SomeD)
  then have "AuthenticateFleet c js issuer policies pa (env_clock e 0) ctx method \<noteq> Inr ctx'" for ctx'
    by (auto simp: AuthenticateFleet_def AuthorizeMethod_def ContextWithClaims_def split: sum.splits)
  then show ?thesis
    using assms(1)
    by (cases "AuthenticateFleet c js issuer policies pa (env_clock e 0) ctx method")
       (auto simp: EndpointUnaryInterceptor_def split: sum.splits)
qed

text \<open>The peer address, token and method used by the witnesses.\<close>

definition demo_ctx :: ctx where
  "demo_ctx = \<lparr>cx_peer = Some ''10.0.0.7:4000'', cx_certs = None,
     cx_auth = Some [''bearer '' @ demo_token], cx_claims = None\<rparr>"

definition demo_parse :: "string \<Rightarrow> Addr option" where
  "demo_parse s = (if s = ''10.0.0.7'' then Some (V4 0x0A000007) else None)"

definition demo_policies :: EndpointPolicies where
  "demo_policies = \<lparr>ep_enrollment = [], ep_agent = [],
     ep_client = [masked \<lparr>p_addr = V4 0x0A000001, p_bits = 8\<rparr>]\<rparr>"

lemma demo_bearer: "ParseBearer (''bearer '' @ demo_token) = Inr demo_token"
  by code_simp

lemma demo_grant: "fleet_grant toy_crypto (toy_json demo_claims) demo_issuer demo_policies demo_parse
    (30 * second) demo_ctx ''/devops.v1.FleetService/Exec'' demo_claims"
proof -
  have "Verify toy_crypto (toy_json demo_claims) demo_issuer demo_token (30 * second) = Inr demo_claims"
    by code_simp
  
  moreover have "demo_parse (peer_host ''10.0.0.7:4000'') = Some (V4 0x0A000007)" by code_simp
  moreover have "Allows (ep_client demo_policies) (unmap (V4 0x0A000007))" by code_simp
  moreover have "MethodAllowed ''/devops.v1.FleetService/Exec'' (cl_role demo_claims)" by code_simp
  ultimately show ?thesis
    using demo_bearer by (auto simp: fleet_grant_def demo_ctx_def)
qed

theorem unary_fleet_gate_witness:
  "EndpointUnaryInterceptor toy_crypto (toy_json demo_claims) demo_issuer demo_policies demo_parse
    (calm (30 * second)) demo_ctx ''/devops.v1.FleetService/Exec'' (\<lambda>x. Inr (cx_claims x)) = Inr (Some demo_claims)"
proof -
  have "has_prefix ''/devops.v1.FleetService/Exec'' ''/devops.v1.FleetService/''" by code_simp
  then show ?thesis
    using unary_fleet_gate [where handler = "\<lambda>x. Inr (cx_claims x)" and e = "calm (30 * second)"] demo_grant by auto
qed

theorem unknown_method_denied_witness:
  "\<exists>code msg. EndpointUnaryInterceptor toy_crypto (toy_json demo_claims) demo_issuer demo_policies demo_parse
    (calm (30 * second)) demo_ctx ''/devops.v1.FleetService/Nope'' (\<lambda>x. Inr (cx_claims x)) = Inl (Status code msg)"
proof -
  have "''/devops.v1.FleetService/Nope'' \<notin> set public_methods" by code_simp
  moreover have "''/devops.v1.FleetService/Nope'' \<notin> fst ` set methodActions" by code_simp
  ultimately show ?thesis
    using unknown_method_denied [where handler = "\<lambda>x. Inr (cx_claims x)"] by blast
qed

end
