(* ===== verification/ServerBase.thy ===== *)
theory ServerBase
  imports AuthService "HOL-Library.Char_ord" "HOL-Library.List_Lexorder"
begin

text \<open>
  What the gRPC handlers of \<open>internal/server\<close> share: random identifiers, page sizes and
  ordered, limited queries.
\<close>

definition randomHex :: "env \<Rightarrow> nat \<Rightarrow> nat \<Rightarrow> string result" where
  "randomHex e k n = (if n = 0 then Inl (Error ''invalid random length'')
     else case rand_read e k n of Inl err \<Rightarrow> Inl err | Inr raw \<Rightarrow> Inr (hex_encode raw))"

lemma randomHex_length: "randomHex e k n = Inr s \<Longrightarrow> List.length s = 2 * n"
  by (auto simp: randomHex_def dest: rand_read_length split: if_splits sum.splits)

lemma randomHex_Inr: "randomHex e k n = Inr s \<longleftrightarrow>
    0 < n \<and> \<not> env_rand_fails e k \<and> s = hex_encode (map (env_rand e k) [0..<n])"
  by (auto simp: randomHex_def rand_read_def)

definition pageSize :: "u32 \<Rightarrow> nat" where
  "pageSize v = (if v = 0 \<or> v > 100 then 100 else unat v)"

definition listLimit :: "u32 \<Rightarrow> nat" where
  "listLimit v = unat (if v = 0 \<or> v > 1000 then 100 else v)"

lemma pageSize_bounds: "1 \<le> pageSize v \<and> pageSize v \<le> 100"
  by (auto simp: pageSize_def not_less word_less_eq_iff_unsigned unat_gt_0 Suc_le_eq unat_eq_0 word_le_nat_alt)

lemma listLimit_bounds: "1 \<le> listLimit v \<and> listLimit v \<le> 1000"
  by (auto simp: listLimit_def not_less Suc_le_eq unat_eq_0 word_le_nat_alt unat_gt_0)

text \<open>
  ORDER BY a key, ascending or descending; text keys compare by their bytes, as SQLite's BINARY
  collation does.
\<close>

definition order_by :: "('r \<Rightarrow> 'k::linorder) \<Rightarrow> 'r list \<Rightarrow> 'r list" where
  "order_by f rows = sort_key f rows"

definition order_by_desc :: "('r \<Rightarrow> int) \<Rightarrow> 'r list \<Rightarrow> 'r list" where
  "order_by_desc f rows = sort_key (\<lambda>r. - f r) rows"

lemma set_order_by [simp]: "set (order_by f rows) = set rows" "set (order_by_desc f rows) = set rows"
  by (simp_all add: order_by_def order_by_desc_def)

lemma sorted_order_by_desc: "sorted_wrt (\<lambda>a b. f b \<le> f a) (order_by_desc f rows)"
  using sorted_sort_key [of "\<lambda>r. - f r" rows] by (simp add: order_by_desc_def sorted_wrt_map)

end
