(* ===== verification/Invitations.thy ===== *)
theory Invitations
  imports ServerBase
begin

text \<open>
  The authentication service: password login (\<open>internal/auth/service.go\<close> and
  \<open>internal/server/auth.go\<close>) and the client invitations
  (\<open>internal/server/client_invitation.go\<close> and \<open>RedeemClientInvitation\<close>).
\<close>

section \<open>Login\<close>

record LoginResponse =
  lr_token :: string
  lr_expires :: int
  lr_role :: int

text \<open>\<open>Service.Issue\<close> reads the clock twice, from index \<open>i\<close>.\<close>

definition ServiceIssue :: "crypto \<Rightarrow> claims_json \<Rightarrow> Issuer \<Rightarrow> env \<Rightarrow> nat \<Rightarrow> nat \<Rightarrow> string \<Rightarrow> int \<Rightarrow> LoginResponse result" where
  "ServiceIssue c js issuer e i k userID role =
    (case Issue c js issuer e k userID role (env_clock e i) of
       Inl err \<Rightarrow> Inl err
     | Inr token \<Rightarrow> (case Verify c js issuer token (env_clock e (i + 1)) of
         Inl err \<Rightarrow> Inl err
       | Inr claims \<Rightarrow> Inr \<lparr>lr_token = token, lr_expires = cl_expires claims * 1000, lr_role = cl_role claims\<rparr>))"

definition ServiceLogin :: "crypto \<Rightarrow> claims_json \<Rightarrow> Issuer \<Rightarrow> env \<Rightarrow> RateLimiter \<Rightarrow> db
    \<Rightarrow> string \<Rightarrow> string \<Rightarrow> string \<Rightarrow> RateLimiter \<times> LoginResponse result" where
  "ServiceLogin c js issuer e limiter d source username password =
    (case Allow limiter source (env_clock e 0) of (limiter', allowed) \<Rightarrow>
      (limiter',
       if \<not> allowed then Inl (Error ''login rate limited'')
       else case sql_query_row (env_db_fails e 0) (\<lambda>r. u_username r = username) (users d) of
         Inl err \<Rightarrow> Inl (Error ''invalid credentials'')
       | Inr row \<Rightarrow>
           if u_disabled row \<or> \<not> VerifyPassword c (u_hash row) password
           then Inl (Error ''invalid credentials'')
           else ServiceIssue c js issuer e 1 0 (u_id row) (u_role row)))"

definition Login :: "crypto \<Rightarrow> claims_json \<Rightarrow> Issuer \<Rightarrow> env \<Rightarrow> RateLimiter \<Rightarrow> db
    \<Rightarrow> ctx \<Rightarrow> string \<Rightarrow> string \<Rightarrow> RateLimiter \<times> LoginResponse result" where
  "Login c js issuer e limiter d ctx username password = (case cx_peer ctx of
      None \<Rightarrow> (limiter, Inl (Status Unauthenticated ''peer unavailable''))
    | Some address \<Rightarrow> (case ServiceLogin c js issuer e limiter d address username password of
        (limiter', Inl err) \<Rightarrow> (limiter', Inl (Status Unauthenticated ''invalid credentials''))
      | (limiter', Inr response) \<Rightarrow> (limiter', Inr response)))"

text \<open>A login succeeds only within the rate limit of the caller's address and for the
  password of a user who is not disabled; the token it returns is that user's, with the role
  stored for the user, and expires when the response says. Every refusal is the same error.\<close>

theorem login_sound:
  assumes "Login c js issuer e limiter d ctx username password = (limiter', res)"
  shows "(case res of
      Inr response \<Rightarrow> (\<exists>address row claims. cx_peer ctx = Some address
        \<and> snd (Allow limiter address (env_clock e 0))
        \<and> row \<in> set (users d) \<and> u_username row = username \<and> \<not> u_disabled row
        \<and> VerifyPassword c (u_hash row) password
        \<and> Issue c js issuer e 0 (u_id row) (u_role row) (env_clock e 1) = Inr (lr_token response)
        \<and> Verify c js issuer (lr_token response) (env_clock e 2) = Inr claims
        \<and> lr_role response = cl_role claims \<and> lr_expires response = cl_expires claims * 1000)
    | Inl err \<Rightarrow> status_code err = Unauthenticated)
    \<and> (\<forall>address. cx_peer ctx = Some address \<longrightarrow> limiter' = fst (Allow limiter address (env_clock e 0)))"
proof (cases "cx_peer ctx")
  case None
  then show ?thesis using assms by (auto simp: Login_def status_code_def)
next
  case (Some address)
  obtain l r where sl: "ServiceLogin c js issuer e limiter d address username password = (l, r)"
    by (cases "ServiceLogin c js issuer e limiter d address username password")
  then have l: "l = fst (Allow limiter address (env_clock e 0))"
    by (auto simp: ServiceLogin_def split: prod.splits)
  show ?thesis
  proof (cases r)
    case (Inl err)
    then show ?thesis using assms Some sl l by (auto simp: Login_def status_code_def)
  next
    case (Inr response)
    with sl obtain row where row: "snd (Allow limiter address (env_clock e 0))"
      "sql_query_row (env_db_fails e 0) (\<lambda>r. u_username r = username) (users d) = Inr row"
      "\<not> u_disabled row" "VerifyPassword c (u_hash row) password"
      "ServiceIssue c js issuer e 1 0 (u_id row) (u_role row) = Inr response"
      by (auto simp: ServiceLogin_def split: prod.splits if_splits sum.splits)
    have mem: "row \<in> set (users d) \<and> u_username row = username"
      using sql_query_row_mem [OF row(2)] by simp
    obtain claims where iv: "Issue c js issuer e 0 (u_id row) (u_role row) (env_clock e 1) = Inr (lr_token response)"
      "Verify c js issuer (lr_token response) (env_clock e 2) = Inr claims"
      "lr_role response = cl_role claims" "lr_expires response = cl_expires claims * 1000"
      using row(5) by (auto simp: ServiceIssue_def numeral_2_eq_2 split: sum.splits)
    have "res = Inr response" "limiter' = l" using assms Some sl Inr by (auto simp: Login_def)
    then show ?thesis using Some l row(1,3,4) mem iv by auto
  qed
qed

theorem login_sound_witness:
  "fst (Login toy_crypto (toy_json demo_claims) demo_issuer (calm 0) (NewRateLimiter 1 minute) empty_db demo_ctx [] [])
    = fst (Allow (NewRateLimiter 1 minute) ''10.0.0.7:4000'' 0)"
  using login_sound [OF prod.collapse [symmetric], where c = toy_crypto and js = "toy_json demo_claims"
    and issuer = demo_issuer and e = "calm 0" and limiter = "NewRateLimiter 1 minute" and d = empty_db
    and ctx = demo_ctx and username = "[]" and password = "[]"]
  by (simp add: demo_ctx_def)

section \<open>Client invitations\<close>

record ClientInvitation =
  ci_id :: string
  ci_secret :: string
  ci_username :: string
  ci_role :: int
  ci_expires :: int
  ci_consumed :: bool
  ci_revoked :: bool
  ci_address :: string
  ci_pin :: string

record CreateClientInvitationRequest =
  iq_username :: string
  iq_role :: int
  iq_ttl :: u32
  iq_address :: string
  iq_pin :: string

definition creator_column :: "string \<Rightarrow> string option" where
  "creator_column subject = (if has_prefix subject ''local:uid:'' then None else Some subject)"

definition CreateClientInvitation :: "crypto \<Rightarrow> env \<Rightarrow> ctx \<Rightarrow> CreateClientInvitationRequest \<Rightarrow> db
    \<Rightarrow> db \<times> ClientInvitation result" where
  "CreateClientInvitation c e ctx r d = (case cx_claims ctx of
      None \<Rightarrow> (d, Inl (Status Unauthenticated ''authentication required''))
    | Some claims \<Rightarrow>
       if iq_username r = [] \<or> iq_role r < ROLE_VIEWER \<or> iq_role r > ROLE_ADMIN \<or> iq_ttl r = 0
         \<or> iq_ttl r > 3600 \<or> iq_address r = [] \<or> iq_pin r = []
       then (d, Inl (Status InvalidArgument ''invalid invitation''))
       else case rand_read e 0 32 of
         Inl err \<Rightarrow> (d, Inl (Status Internal ''entropy unavailable''))
       | Inr secret \<Rightarrow> (case randomHex e 1 16 of
           Inl err \<Rightarrow> (d, Inl (Status Internal ''entropy unavailable''))
         | Inr ident \<Rightarrow>
            (let now = env_clock e 0; expires = now + int (unat (iq_ttl r)) * second;
                 row = \<lparr>i_id = ident, i_hash = sha256 c secret, i_username = iq_username r,
                   i_role = iq_role r, i_address = iq_address r, i_pin = iq_pin r,
                   i_expires = unix_milli expires, i_consumed = None, i_revoked = None,
                   i_created_by = creator_column (cl_subject claims), i_created = unix_milli now\<rparr>
             in case sql_exec (env_db_fails e 0)
                  (\<lambda>d. (d\<lparr>client_invitations := client_invitations d @ [row]\<rparr>, 1)) d of
                  (d', Inl err) \<Rightarrow> (d', Inl (Status AlreadyExists ''invitation exists''))
                | (d', Inr n) \<Rightarrow> (d', Inr \<lparr>ci_id = ident, ci_secret = hex_encode secret,
                    ci_username = iq_username r, ci_role = iq_role r, ci_expires = unix_milli expires,
                    ci_consumed = False, ci_revoked = False, ci_address = iq_address r, ci_pin = iq_pin r\<rparr>))))"

definition ListClientInvitations :: "env \<Rightarrow> db \<Rightarrow> ClientInvitation list result" where
  "ListClientInvitations e d = (if env_db_fails e 0 then Inl StorageFailure
     else Inr (map (\<lambda>r. \<lparr>ci_id = i_id r, ci_secret = [], ci_username = i_username r, ci_role = i_role r,
       ci_expires = i_expires r, ci_consumed = i_consumed r \<noteq> None, ci_revoked = i_revoked r \<noteq> None,
       ci_address = i_address r, ci_pin = i_pin r\<rparr>)
       (take 100 (order_by_desc i_created (client_invitations d)))))"

definition revoke_invitation :: "int \<Rightarrow> string \<Rightarrow> db \<Rightarrow> db \<times> nat" where
  "revoke_invitation now ident d =
    (let u = update_rows (\<lambda>r. i_id r = ident \<and> i_consumed r = None \<and> i_revoked r = None)
       (\<lambda>r. r\<lparr>i_revoked := Some now\<rparr>) (client_invitations d)
     in (d\<lparr>client_invitations := fst u\<rparr>, snd u))"

definition RevokeClientInvitation :: "env \<Rightarrow> string \<Rightarrow> db \<Rightarrow> db \<times> ClientInvitation result" where
  "RevokeClientInvitation e ident d =
    (case sql_exec (env_db_fails e 0) (revoke_invitation (unix_milli (env_clock e 0)) ident) d of
       (d', Inl err) \<Rightarrow> (d', Inl err)
     | (d', Inr n) \<Rightarrow>
         if n \<noteq> 1 then (d', Inl (Status NotFound ''active invitation not found''))
         else (d', Inr \<lparr>ci_id = ident, ci_secret = [], ci_username = [], ci_role = 0, ci_expires = 0,
           ci_consumed = False, ci_revoked = True, ci_address = [], ci_pin = []\<rparr>))"

definition invitation_live :: "bytes \<Rightarrow> int \<Rightarrow> InvitationRow \<Rightarrow> bool" where
  "invitation_live h now r \<longleftrightarrow> i_hash r = h \<and> i_consumed r = None \<and> i_revoked r = None \<and> i_expires r > now"

definition consume_invitation :: "int \<Rightarrow> string \<Rightarrow> db \<Rightarrow> db \<times> nat" where
  "consume_invitation now ident d =
    (let u = update_rows (\<lambda>r. i_id r = ident \<and> i_consumed r = None) (\<lambda>r. r\<lparr>i_consumed := Some now\<rparr>)
       (client_invitations d)
     in (d\<lparr>client_invitations := fst u\<rparr>, snd u))"

definition new_user :: "string \<Rightarrow> string \<Rightarrow> bytes \<Rightarrow> int \<Rightarrow> int \<Rightarrow> UserRow" where
  "new_user ident username hash role created = \<lparr>u_id = ident, u_username = username, u_hash = hash,
     u_role = role, u_disabled = False, u_created = created\<rparr>"

definition insert_user :: "UserRow \<Rightarrow> db \<Rightarrow> db \<times> nat" where
  "insert_user row d = (d\<lparr>users := users d @ [row]\<rparr>, 1)"

text \<open>The transaction of \<open>RedeemClientInvitation\<close>: the new user's id and role, or the error.\<close>

definition redeem_tx :: "env \<Rightarrow> bytes \<Rightarrow> bytes \<Rightarrow> time \<Rightarrow> db \<Rightarrow> db \<times> (string \<times> int) result" where
  "redeem_tx e digest hash now d =
    (if env_db_fails e 0 then (d, Inl (Status Unavailable ''storage unavailable''))
     else case sql_query_row (env_db_fails e 1) (invitation_live digest (unix_milli now)) (client_invitations d) of
       Inl err \<Rightarrow> (d, Inl (Status Unauthenticated ''invalid invitation''))
     | Inr invite \<Rightarrow> (case randomHex e 1 16 of
         Inl err \<Rightarrow> (d, Inl (Status Internal ''entropy unavailable''))
       | Inr userID \<Rightarrow>
          (case sql_exec (env_db_fails e 2)
              (insert_user (new_user userID (i_username invite) hash (i_role invite) (unix_milli now))) d of
             (d1, Inl err) \<Rightarrow> (d, Inl (Status AlreadyExists ''user exists''))
           | (d1, Inr n1) \<Rightarrow>
             (case sql_exec (env_db_fails e 3) (consume_invitation (unix_milli now) (i_id invite)) d1 of
                (d2, Inl err) \<Rightarrow> (d, Inl (Status Unavailable ''storage unavailable''))
              | (d2, Inr n) \<Rightarrow>
                 if n \<noteq> 1 then (d, Inl (Status Unauthenticated ''invalid invitation''))
                 else if env_db_fails e 4 then (d, Inl (Status Unavailable ''storage unavailable''))
                 else (d2, Inr (userID, i_role invite))))))"

definition RedeemClientInvitation :: "crypto \<Rightarrow> claims_json \<Rightarrow> Issuer \<Rightarrow> env \<Rightarrow> string \<Rightarrow> string \<Rightarrow> db
    \<Rightarrow> db \<times> LoginResponse result" where
  "RedeemClientInvitation c js issuer e secret_hex password d = (case hex_decode secret_hex of
      Inl err \<Rightarrow> (d, Inl (Status Unauthenticated ''invalid invitation''))
    | Inr secret \<Rightarrow>
       if List.length secret \<noteq> 32 then (d, Inl (Status Unauthenticated ''invalid invitation''))
       else case HashPassword c e 0 password of
         Inl err \<Rightarrow> (d, Inl (Status InvalidArgument ''invalid password''))
       | Inr hash \<Rightarrow> (case redeem_tx e (sha256 c secret) hash (env_clock e 0) d of
           (d', Inl err) \<Rightarrow> (d', Inl err)
         | (d', Inr (userID, role)) \<Rightarrow> (d', ServiceIssue c js issuer e 1 2 userID role)))"

section \<open>Redemption\<close>

lemma redeem_tx_Inr:
  assumes "redeem_tx e digest hash now d = (d', Inr (userID, role))"
  shows "\<exists>invite. List.find (invitation_live digest (unix_milli now)) (client_invitations d) = Some invite
    \<and> role = i_role invite \<and> randomHex e 1 16 = Inr userID
    \<and> db_ok d' \<and> d' = d\<lparr>users := users d @ [new_user userID (i_username invite) hash role (unix_milli now)],
        client_invitations := map (\<lambda>r. if i_id r = i_id invite \<and> i_consumed r = None
          then r\<lparr>i_consumed := Some (unix_milli now)\<rparr> else r) (client_invitations d)\<rparr>"
proof -
  from assms obtain invite d1 n1 n where
    q: "sql_query_row (env_db_fails e 1) (invitation_live digest (unix_milli now)) (client_invitations d) = Inr invite"
    and u: "randomHex e 1 16 = Inr userID" "role = i_role invite"
    and x: "sql_exec (env_db_fails e 2) (insert_user (new_user userID (i_username invite) hash (i_role invite) (unix_milli now))) d = (d1, Inr n1)"
      "sql_exec (env_db_fails e 3) (consume_invitation (unix_milli now) (i_id invite)) d1 = (d', Inr n)"
    unfolding redeem_tx_def by (simp split: if_splits sum.splits prod.splits)
  show ?thesis
    using q u x by (intro exI [of _ invite])
      (auto simp: sql_query_row_Inr sql_exec_Inr insert_user_def consume_invitation_def Let_def)
qed

lemma redeem_tx_fails: "case redeem_tx e digest hash now d of (d', res) \<Rightarrow> ok res \<or> d' = d"
  unfolding redeem_tx_def by (simp split: sum.split prod.split)

lemma redeem_tx_Inl: "redeem_tx e digest hash now d = (d', Inl err) \<Longrightarrow> d' = d"
  using redeem_tx_fails [where e = e and digest = digest and hash = hash and now = now and d = d] by simp

lemma redeem_tx_ok [db_pres]:
  assumes "db_ok d"
  shows "db_ok (fst (redeem_tx e digest hash now d))"
proof -
  obtain d' res where r: "redeem_tx e digest hash now d = (d', res)" by fastforce
  show ?thesis
  proof (cases res)
    case (Inl err)
    then show ?thesis using redeem_tx_Inl r assms by fastforce
  next
    case (Inr ur)
    obtain userID role where "ur = (userID, role)" by fastforce
    then have "db_ok d'" using redeem_tx_Inr [of e digest hash now d d' userID role] r Inr by blast
    then show ?thesis using r by simp
  qed
qed

text \<open>Redeeming an invitation is all or nothing. Either the database is unchanged, or the
  secret was that of an invitation neither consumed, revoked nor expired, which is now consumed,
  and one new enabled user exists with the invited name, the invited role and the password given;
  no other table changes.\<close>

theorem redeem_all_or_nothing:
  assumes "RedeemClientInvitation c js issuer e secret_hex password d = (d', res)" "d' \<noteq> d"
    "\<And>salt. List.length (argon2 c password salt 3 65536 2 32) = 32"
  shows "\<exists>secret invite row. hex_decode secret_hex = Inr secret \<and> List.length secret = 32
    \<and> invite \<in> set (client_invitations d) \<and> invitation_live (sha256 c secret) (unix_milli (env_clock e 0)) invite
    \<and> u_username row = i_username invite \<and> u_role row = i_role invite \<and> \<not> u_disabled row
    \<and> VerifyPassword c (u_hash row) password
    \<and> d' = d\<lparr>users := users d @ [row],
        client_invitations := map (\<lambda>r. if i_id r = i_id invite \<and> i_consumed r = None
          then r\<lparr>i_consumed := Some (unix_milli (env_clock e 0))\<rparr> else r) (client_invitations d)\<rparr>"
proof -
  from assms(1,2) obtain secret hash userID role where s:
    "hex_decode secret_hex = Inr secret" "List.length secret = 32" "HashPassword c e 0 password = Inr hash"
    "redeem_tx e (sha256 c secret) hash (env_clock e 0) d = (d', Inr (userID, role))"
    by (auto simp: RedeemClientInvitation_def dest: redeem_tx_Inl split: sum.splits prod.splits if_splits)
  from redeem_tx_Inr [OF s(4)] obtain invite where invite:
    "List.find (invitation_live (sha256 c secret) (unix_milli (env_clock e 0))) (client_invitations d) = Some invite"
    "role = i_role invite" "d' = d\<lparr>users := users d @ [new_user userID (i_username invite) hash role (unix_milli (env_clock e 0))],
        client_invitations := map (\<lambda>r. if i_id r = i_id invite \<and> i_consumed r = None
          then r\<lparr>i_consumed := Some (unix_milli (env_clock e 0))\<rparr> else r) (client_invitations d)\<rparr>" by blast
  moreover have "VerifyPassword c hash password"
    using HashPassword_accepts [OF s(3) assms(3)] .
  ultimately show ?thesis
    using s(1,2) find_Some_mem [OF invite(1)]
    by (intro exI [of _ secret] exI [of _ invite]
        exI [of _ "new_user userID (i_username invite) hash role (unix_milli (env_clock e 0))"])
       (auto simp: new_user_def)
qed

definition demo_invited :: db where
  "demo_invited = empty_db\<lparr>client_invitations := [\<lparr>i_id = ''i'', i_hash = sha256 toy_crypto (replicate 32 (CHR ''j'')),
     i_username = ''ann'', i_role = 1, i_address = ''h'', i_pin = ''p'', i_expires = 10, i_consumed = None, i_revoked = None,
     i_created_by = None, i_created = 0\<rparr>]\<rparr>"

lemma demo_redeem: "\<exists>d' user. redeem_tx (calm 0) (sha256 toy_crypto (replicate 32 (CHR ''j''))) hash 0 demo_invited = (d', Inr user)
    \<and> users d' \<noteq> []"
  by (simp add: redeem_tx_def sql_query_row_def demo_invited_def invitation_live_def go_time randomHex_def sql_exec_def
    insert_user_def new_user_def consume_invitation_def update_rows_def empty_db_def db_ok_def table_ok_defs unique_opt_def
    List.map_filter_def refers_def del: upt_rec_numeral)

theorem redeem_all_or_nothing_witness:
  "\<exists>d' res row. RedeemClientInvitation toy_crypto (toy_json demo_claims) demo_issuer (calm 0) (hex_encode (replicate 32 (CHR ''j'')))
      ''0123456789abcdef'' demo_invited = (d', res)
    \<and> users d' = [row] \<and> VerifyPassword toy_crypto (u_hash row) ''0123456789abcdef''"
proof -
  obtain hash where h: "HashPassword toy_crypto (calm 0) 0 ''0123456789abcdef'' = Inr hash"
    by (simp add: HashPassword_def del: upt_rec_numeral)
  obtain d' user where t: "redeem_tx (calm 0) (sha256 toy_crypto (replicate 32 (CHR ''j''))) hash 0 demo_invited = (d', Inr user)"
    "users d' \<noteq> []" using demo_redeem by blast
  have "fst (RedeemClientInvitation toy_crypto (toy_json demo_claims) demo_issuer (calm 0) (hex_encode (replicate 32 (CHR ''j'')))
      ''0123456789abcdef'' demo_invited) = d'"
    using h t(1) by (simp add: RedeemClientInvitation_def hex.dec_enc split_beta)
  then obtain res where r: "RedeemClientInvitation toy_crypto (toy_json demo_claims) demo_issuer (calm 0) (hex_encode (replicate 32 (CHR ''j'')))
      ''0123456789abcdef'' demo_invited = (d', res)" by (metis prod.collapse)
  have u: "users demo_invited = []" by (simp add: demo_invited_def empty_db_def)
  then have "d' \<noteq> demo_invited" using t(2) by auto
  moreover have "\<And>salt. List.length (argon2 toy_crypto ''0123456789abcdef'' salt 3 65536 2 32) = 32" by (simp add: toy_crypto_def)
  ultimately obtain row where "users d' = [row]" "VerifyPassword toy_crypto (u_hash row) ''0123456789abcdef''"
    using redeem_all_or_nothing [OF r] u by auto
  then show ?thesis using r by blast
qed

text \<open>The steps of the invitation store, and what redemption uses up: the hash of its secret.\<close>

datatype invitation_op =
    Invite env ctx CreateClientInvitationRequest
  | RevokeInvite env string
  | Redeem env string string

definition invitation_step :: "crypto \<Rightarrow> claims_json \<Rightarrow> Issuer \<Rightarrow> invitation_op \<Rightarrow> db \<Rightarrow> db \<times> bool" where
  "invitation_step c js issuer a d = (case a of
      Invite e ctx r \<Rightarrow> (fst (CreateClientInvitation c e ctx r d), False)
    | RevokeInvite e ident \<Rightarrow> (fst (RevokeClientInvitation e ident d), False)
    | Redeem e secret password \<Rightarrow>
        (case RedeemClientInvitation c js issuer e secret password d of (d', res) \<Rightarrow> (d', ok res)))"

definition invitation_key :: "crypto \<Rightarrow> invitation_op \<Rightarrow> bytes option" where
  "invitation_key c a = (case a of
      Redeem e secret password \<Rightarrow> (case hex_decode secret of Inl err \<Rightarrow> None | Inr s \<Rightarrow> Some (sha256 c s))
    | _ \<Rightarrow> None)"

definition invitation_spent :: "bytes \<Rightarrow> db \<Rightarrow> bool" where
  "invitation_spent h d \<longleftrightarrow> (\<exists>r \<in> set (client_invitations d). i_hash r = h \<and> i_consumed r \<noteq> None)"

lemma CreateClientInvitation_rows: "\<exists>rs. client_invitations (fst (CreateClientInvitation c e ctx r d)) = client_invitations d @ rs"
  by (auto simp: CreateClientInvitation_def sql_exec_def Let_def split: option.split sum.split prod.split)

lemma CreateClientInvitation_ok [db_pres]: "db_ok d \<Longrightarrow> db_ok (fst (CreateClientInvitation c e ctx r d))"
  by (auto simp: CreateClientInvitation_def sql_exec_def Let_def split: option.split sum.split prod.split)

lemma RevokeClientInvitation_rows: "\<exists>P f. (\<forall>r. i_hash (f r) = i_hash r \<and> i_consumed (f r) = i_consumed r)
    \<and> client_invitations (fst (RevokeClientInvitation e ident d)) = map (\<lambda>r. if P r then f r else r) (client_invitations d)"
proof -
  let ?P = "\<lambda>r. i_id r = ident \<and> i_consumed r = None \<and> i_revoked r = None"
  have "client_invitations (fst (RevokeClientInvitation e ident d)) \<in> {client_invitations d,
      map (\<lambda>r. if ?P r then r\<lparr>i_revoked := Some (unix_milli (env_clock e 0))\<rparr> else r) (client_invitations d)}"
    by (auto simp: RevokeClientInvitation_def sql_exec_def revoke_invitation_def Let_def split: sum.split prod.split)
  then show ?thesis
    by (auto intro: exI [of _ "\<lambda>r. False"] exI [of _ ?P]
        intro!: exI [of _ "\<lambda>r. r\<lparr>i_revoked := Some (unix_milli (env_clock e 0))\<rparr>"])
qed

lemma RevokeClientInvitation_ok [db_pres]: "db_ok d \<Longrightarrow> db_ok (fst (RevokeClientInvitation e ident d))"
  by (auto simp: RevokeClientInvitation_def sql_exec_def Let_def split: sum.split prod.split)

lemma Redeem_cases: "case RedeemClientInvitation c js issuer e secret_hex password d of (d', res) \<Rightarrow> d' = d
    \<or> (\<exists>secret hash. hex_decode secret_hex = Inr secret \<and> d' = fst (redeem_tx e (sha256 c secret) hash (env_clock e 0) d))"
  unfolding RedeemClientInvitation_def by (auto split: sum.split prod.split) (metis fst_conv)+

lemma Redeem_ok [db_pres]:
  assumes "db_ok d"
  shows "db_ok (fst (RedeemClientInvitation c js issuer e secret password d))"
proof -
  obtain d' res where r: "RedeemClientInvitation c js issuer e secret password d = (d', res)" by fastforce
  then have "d' = d \<or> (\<exists>s hash. d' = fst (redeem_tx e (sha256 c s) hash (env_clock e 0) d))"
    using Redeem_cases [where c = c and js = js and issuer = issuer and e = e and secret_hex = secret
        and password = password and d = d] by auto
  then show ?thesis using assms r redeem_tx_ok by auto
qed

text \<open>A successful redemption, and what every redemption does to the invitations.\<close>

lemma Redeem_success: "case RedeemClientInvitation c js issuer e secret_hex password d of (d', res) \<Rightarrow> ok res \<longrightarrow>
    (\<exists>secret hash userID role. hex_decode secret_hex = Inr secret
      \<and> redeem_tx e (sha256 c secret) hash (env_clock e 0) d = (d', Inr (userID, role)))"
  unfolding RedeemClientInvitation_def by (simp split: sum.split prod.split) blast

lemma Redeem_Inr:
  assumes "RedeemClientInvitation c js issuer e secret_hex password d = (d', Inr response)"
  shows "\<exists>secret hash ur. hex_decode secret_hex = Inr secret
    \<and> redeem_tx e (sha256 c secret) hash (env_clock e 0) d = (d', Inr ur)"
  using Redeem_success [where c = c and js = js and issuer = issuer and e = e and secret_hex = secret_hex
      and password = password and d = d] assms by auto

lemma spent_map:
  assumes "invitation_spent k d" "client_invitations d' = map g (client_invitations d)"
    "\<And>r. i_hash (g r) = i_hash r \<and> (i_consumed r \<noteq> None \<longrightarrow> i_consumed (g r) \<noteq> None)"
  shows "invitation_spent k d'"
  using assms unfolding invitation_spent_def by (metis (no_types, lifting) image_eqI image_set)

lemma redeem_tx_spent:
  assumes "redeem_tx e h hash now d = (d', Inr ur)"
  shows "invitation_spent h d' \<and> (\<forall>k. invitation_spent k d \<longrightarrow> invitation_spent k d')"
proof -
  obtain userID role where ur: "ur = (userID, role)" by fastforce
  from redeem_tx_Inr [OF assms [unfolded ur]] obtain invite where
    f: "List.find (invitation_live h (unix_milli now)) (client_invitations d) = Some invite"
    and rows: "client_invitations d' = map (\<lambda>r. if i_id r = i_id invite \<and> i_consumed r = None
          then r\<lparr>i_consumed := Some (unix_milli now)\<rparr> else r) (client_invitations d)" by auto
  have m: "invite \<in> set (client_invitations d)" "i_hash invite = h" "i_consumed invite = None"
    using find_Some_mem [OF f] by (auto simp: invitation_live_def)
  have "(if i_id invite = i_id invite \<and> i_consumed invite = None
      then invite\<lparr>i_consumed := Some (unix_milli now)\<rparr> else invite) \<in> set (client_invitations d')"
    unfolding rows set_map using m(1) by (rule imageI)
  then have "invite\<lparr>i_consumed := Some (unix_milli now)\<rparr> \<in> set (client_invitations d')"
    using m(3) by simp
  then have "invitation_spent h d'"
    using m(2) unfolding invitation_spent_def by (intro bexI) simp_all
  moreover have "invitation_spent k d'" if "invitation_spent k d" for k
    using that rows by (rule spent_map) auto
  ultimately show ?thesis by blast
qed

lemma redeem_keeps_spent:
  assumes "invitation_spent k d"
  shows "invitation_spent k (fst (RedeemClientInvitation c js issuer e secret password d))"
proof -
  have tx: "invitation_spent k (fst (redeem_tx e h hash now d))" for h hash now
  proof -
    obtain d' res where r: "redeem_tx e h hash now d = (d', res)" by fastforce
    then show ?thesis
      using assms redeem_tx_spent [of e h hash now d d'] redeem_tx_Inl [of e h hash now d d'] by (cases res) auto
  qed
  have "RedeemClientInvitation c js issuer e secret password d = (d', res) \<Longrightarrow> invitation_spent k d'" for d' res
    using Redeem_cases [where c = c and js = js and issuer = issuer and e = e and secret_hex = secret
        and password = password and d = d] tx assms by auto
  then show ?thesis by (metis prod.collapse)
qed

lemma spent_not_live:
  assumes "db_ok d" "invitation_spent h d"
  shows "List.find (invitation_live h now) (client_invitations d) = None"
proof -
  have "distinct (map i_hash (client_invitations d))" using assms(1) by (simp add: db_ok_def invitations_ok_def)
  then show ?thesis
    using assms(2) by (auto simp: find_None_iff invitation_spent_def invitation_live_def dest: distinct_map_inj)
qed

lemma redeem_tx_blocked:
  assumes "db_ok d" "invitation_spent h d"
  shows "\<not> ok (snd (redeem_tx e h hash now d))"
proof
  assume "ok (snd (redeem_tx e h hash now d))"
  then obtain d' userID role where "redeem_tx e h hash now d = (d', Inr (userID, role))"
    by (metis ok_iff prod.collapse)
  then show False using redeem_tx_Inr [of e h hash now d d' userID role] spent_not_live [OF assms] by auto
qed

lemma other_steps_keep_spent:
  "invitation_spent k d \<Longrightarrow> invitation_spent k (fst (CreateClientInvitation c e ctx r d))"
  "invitation_spent k d \<Longrightarrow> invitation_spent k (fst (RevokeClientInvitation e ident d))"
proof -
  show "invitation_spent k d \<Longrightarrow> invitation_spent k (fst (CreateClientInvitation c e ctx r d))"
    using CreateClientInvitation_rows [of c e ctx r d] by (auto simp: invitation_spent_def)
  obtain P f where "\<forall>r. i_hash (f r) = i_hash r \<and> i_consumed (f r) = i_consumed r"
    "client_invitations (fst (RevokeClientInvitation e ident d)) = map (\<lambda>r. if P r then f r else r) (client_invitations d)"
    using RevokeClientInvitation_rows by blast
  then show "invitation_spent k d \<Longrightarrow> invitation_spent k (fst (RevokeClientInvitation e ident d))"
    using spent_map [of k d _ "\<lambda>r. if P r then f r else r"] by auto
qed

interpretation invitations: one_shot "invitation_step c js issuer" "invitation_key c" invitation_spent db_ok
  for c js issuer
proof
  fix d :: db and a
  assume ok: "db_ok d"
  show "db_ok (fst (invitation_step c js issuer a d))"
    using ok Redeem_ok [OF ok]
    by (cases a) (simp_all add: invitation_step_def CreateClientInvitation_ok RevokeClientInvitation_ok split: prod.splits,
        metis fst_conv)
  fix k
  show "snd (invitation_step c js issuer a d) \<Longrightarrow> invitation_key c a = Some k \<Longrightarrow>
      invitation_spent k (fst (invitation_step c js issuer a d))"
    by (cases a) (auto simp: invitation_step_def invitation_key_def ok_iff split: prod.splits sum.splits
        dest!: Redeem_Inr dest: redeem_tx_spent)
  show "invitation_spent k d \<Longrightarrow> invitation_key c a = Some k \<Longrightarrow> \<not> snd (invitation_step c js issuer a d)"
    using redeem_tx_blocked [OF ok]
    by (cases a) (auto simp: invitation_step_def invitation_key_def ok_iff split: prod.splits sum.splits
        dest!: Redeem_Inr, metis snd_conv)
  show "invitation_spent k d \<Longrightarrow> invitation_spent k (fst (invitation_step c js issuer a d))"
    using redeem_keeps_spent [of k d]
    by (cases a) (simp_all add: invitation_step_def other_steps_keep_spent split: prod.splits, metis fst_conv)
qed

text \<open>C1. Whatever invitations are created, revoked and redeemed, in any order and with any
  faults, a client invitation is redeemed successfully at most once.\<close>

theorem invitation_at_most_once:
  assumes "db_ok d"
  shows "wins (invitation_step c js issuer) (\<lambda>a. invitation_key c a = Some h) steps d \<le> 1"
  using assms by (rule invitations.at_most_once)

theorem invitation_at_most_once_witness:
  "wins (invitation_step toy_crypto (toy_json demo_claims) demo_issuer)
    (\<lambda>a. invitation_key toy_crypto a = Some (the (invitation_key toy_crypto
       (Redeem (calm 0) (hex_encode (replicate 32 (CHR ''a''))) []))))
    [Redeem (calm 0) (hex_encode (replicate 32 (CHR ''a''))) [], Redeem (calm 0) (hex_encode (replicate 32 (CHR ''a''))) []]
    empty_db \<le> 1"
  by (rule invitation_at_most_once [OF db_ok_empty])

end
