(* ===== verification/Pki.thy ===== *)
theory Pki
  imports AuthPolicy Store
begin

text \<open>
  \<open>internal/pki\<close>: certificates for agents, the one-time enrollment tokens, the registry of
  agent identities, the first administrator and certificate pins. X.509 parsing, signing and PEM
  are parameters.
\<close>

section \<open>Signing an agent's request\<close>

text \<open>What a parsed certificate request says, and the X.509 operations.\<close>

record csr =
  csr_common_name :: string
  csr_signature_ok :: bool
  csr_public_key :: bytes

record certificate =
  ct_serial :: string
  ct_common_name :: string
  ct_not_before :: time
  ct_not_after :: time
  ct_public_key :: bytes

record x509 =
  x_parse_csr :: "bytes \<Rightarrow> csr result"
  x_create :: "certificate \<Rightarrow> bytes result"
  x_pem :: "bytes \<Rightarrow> bytes"

text \<open>A random 128-bit serial number, in hexadecimal without leading zeros.\<close>

definition serial_text :: "bytes \<Rightarrow> string" where
  "serial_text raw = (case dropWhile (\<lambda>c. c = CHR ''0'') (hex_encode raw) of [] \<Rightarrow> ''0'' | s \<Rightarrow> s)"

definition randomSerial :: "env \<Rightarrow> nat \<Rightarrow> string option" where
  "randomSerial e k = (case rand_read e k 16 of Inl err \<Rightarrow> None | Inr raw \<Rightarrow> Some (serial_text raw))"

text \<open>A serial that could not be drawn is nil, and creating the certificate then fails.\<close>

definition SignAgentCSR :: "x509 \<Rightarrow> env \<Rightarrow> nat \<Rightarrow> bytes \<Rightarrow> string \<Rightarrow> time \<Rightarrow> duration \<Rightarrow> (bytes \<times> string) result" where
  "SignAgentCSR x e k csrDER agentID now validity = (case x_parse_csr x csrDER of
      Inl err \<Rightarrow> Inl err
    | Inr csr \<Rightarrow>
       if \<not> csr_signature_ok csr then Inl (External ''signature'')
       else if agentID = [] then Inl (Error ''agent identity required'')
       else if csr_common_name csr \<noteq> [] then Inl (Error ''CSR must not select identity'')
       else (case randomSerial e k of
         None \<Rightarrow> Inl (External ''x509: no SerialNumber given'')
       | Some serial \<Rightarrow> (case x_create x \<lparr>ct_serial = serial, ct_common_name = agentID,
            ct_not_before = now - minute, ct_not_after = now + validity, ct_public_key = csr_public_key csr\<rparr> of
           Inl err \<Rightarrow> Inl err
         | Inr der \<Rightarrow> Inr (x_pem x der, serial))))"

text \<open>A certificate is only ever issued for the identity the validator chose: the request is
  correctly signed and names no subject of its own, and what is signed carries the given agent id,
  the request's key, a fresh serial and the requested validity.\<close>

theorem sign_agent_identity:
  assumes "SignAgentCSR x e k csrDER agentID now validity = Inr (pem, serial)"
  shows "agentID \<noteq> [] \<and> (\<exists>csr der. x_parse_csr x csrDER = Inr csr \<and> csr_signature_ok csr \<and> csr_common_name csr = []
    \<and> x_create x \<lparr>ct_serial = serial, ct_common_name = agentID, ct_not_before = now - minute,
        ct_not_after = now + validity, ct_public_key = csr_public_key csr\<rparr> = Inr der
    \<and> pem = x_pem x der \<and> randomSerial e k = Some serial)"
  using assms by (auto simp: SignAgentCSR_def split: sum.splits if_splits option.splits)

definition toy_x509 :: x509 where
  "toy_x509 = \<lparr>x_parse_csr = (\<lambda>b. Inr \<lparr>csr_common_name = (if b = ''named'' then ''mallory'' else []),
       csr_signature_ok = True, csr_public_key = b\<rparr>),
     x_create = (\<lambda>c. Inr (ct_common_name c @ ct_serial c)), x_pem = (\<lambda>b. ''PEM'' @ b)\<rparr>"

theorem sign_agent_identity_witness:
  "\<exists>pem serial. SignAgentCSR toy_x509 (calm 0) 0 ''key'' ''agent'' 0 hour = Inr (pem, serial)
    \<and> randomSerial (calm 0) 0 = Some serial"
proof -
  obtain pem serial where s: "SignAgentCSR toy_x509 (calm 0) 0 ''key'' ''agent'' 0 hour = Inr (pem, serial)"
    by (simp add: SignAgentCSR_def toy_x509_def randomSerial_def del: upt_rec_numeral)
  then show ?thesis using sign_agent_identity [OF s] by blast
qed

section \<open>Enrollment tokens\<close>

definition token_digest :: "crypto \<Rightarrow> string \<Rightarrow> bytes \<Rightarrow> bytes" where
  "token_digest c token raw = argon2 c token (take 16 raw) 1 32768 1 32"

definition token_ident :: "crypto \<Rightarrow> bytes \<Rightarrow> string" where
  "token_ident c raw = hex_encode (take 16 (sha256 c raw))"

definition insert_token :: "TokenRow \<Rightarrow> db \<Rightarrow> db \<times> nat" where
  "insert_token row d = (d\<lparr>enrollment_tokens := enrollment_tokens d @ [row]\<rparr>, 1)"

definition CreateToken :: "crypto \<Rightarrow> env \<Rightarrow> db \<Rightarrow> string \<Rightarrow> time \<Rightarrow> duration \<Rightarrow> db \<times> string result" where
  "CreateToken c e d creator now ttl =
    (if ttl \<le> 0 then (d, Inl (Error ''TTL must be positive''))
     else case rand_read e 0 32 of
       Inl err \<Rightarrow> (d, Inl err)
     | Inr raw \<Rightarrow>
        (let token = hex_encode raw in
         case sql_exec (env_db_fails e 0) (insert_token \<lparr>t_id = token_ident c raw, t_hash = token_digest c token raw,
              t_expires = unix_milli (now + ttl), t_consumed = None, t_revoked = None,
              t_created_by = (if creator \<noteq> [] then Some creator else None)\<rparr>) d of
           (d', Inl err) \<Rightarrow> (d', Inl err)
         | (d', Inr n) \<Rightarrow> (d', Inr token)))"

definition token_live :: "bytes \<Rightarrow> int \<Rightarrow> TokenRow \<Rightarrow> bool" where
  "token_live h now r \<longleftrightarrow> t_hash r = h \<and> t_consumed r = None \<and> t_revoked r = None \<and> t_expires r \<ge> now"

definition consume_row :: "bytes \<Rightarrow> int \<Rightarrow> db \<Rightarrow> db \<times> nat" where
  "consume_row h now d =
    (let u = update_rows (token_live h now) (\<lambda>r. r\<lparr>t_consumed := Some now\<rparr>) (enrollment_tokens d)
     in (d\<lparr>enrollment_tokens := fst u\<rparr>, snd u))"

text \<open>The digest under which a presented token is looked up.\<close>

definition presented_digest :: "crypto \<Rightarrow> string \<Rightarrow> bytes option" where
  "presented_digest c token = (case hex_decode token of
      Inl err \<Rightarrow> None
    | Inr raw \<Rightarrow> if List.length raw \<noteq> 32 then None else Some (token_digest c token raw))"

definition ConsumeToken :: "crypto \<Rightarrow> env \<Rightarrow> nat \<Rightarrow> db \<Rightarrow> string \<Rightarrow> time \<Rightarrow> db \<times> unit result" where
  "ConsumeToken c e k d token now = (case presented_digest c token of
      None \<Rightarrow> (d, Inl (Error ''invalid enrollment token''))
    | Some h \<Rightarrow> (case sql_exec (env_db_fails e k) (consume_row h (unix_milli now)) d of
        (d', Inl err) \<Rightarrow> (d', Inl err)
      | (d', Inr n) \<Rightarrow> if n \<noteq> 1 then (d', Inl (Error ''invalid or expired enrollment token'')) else (d', Inr ())))"

record TokenItem =
  ti_id :: string
  ti_expires :: int
  ti_consumed :: bool
  ti_revoked :: bool

definition ListTokens :: "env \<Rightarrow> db \<Rightarrow> int \<Rightarrow> TokenItem list result" where
  "ListTokens e d limit = (let limit' = (if limit \<le> 0 \<or> limit > 1000 then 100 else limit) in
     if env_db_fails e 0 then Inl StorageFailure
     else Inr (map (\<lambda>r. \<lparr>ti_id = t_id r, ti_expires = t_expires r, ti_consumed = t_consumed r \<noteq> None,
         ti_revoked = t_revoked r \<noteq> None\<rparr>)
       (take (nat limit') (sort_key (\<lambda>r. - t_expires r) (enrollment_tokens d)))))"

definition revoke_token :: "string \<Rightarrow> int \<Rightarrow> db \<Rightarrow> db \<times> nat" where
  "revoke_token ident now d =
    (let u = update_rows (\<lambda>r. t_id r = ident \<and> t_consumed r = None \<and> t_revoked r = None)
       (\<lambda>r. r\<lparr>t_revoked := Some now\<rparr>) (enrollment_tokens d)
     in (d\<lparr>enrollment_tokens := fst u\<rparr>, snd u))"

definition RevokeToken :: "env \<Rightarrow> db \<Rightarrow> string \<Rightarrow> time \<Rightarrow> db \<times> unit result" where
  "RevokeToken e d ident now = (case sql_exec (env_db_fails e 0) (revoke_token ident (unix_milli now)) d of
      (d', Inl err) \<Rightarrow> (d', Inl err)
    | (d', Inr n) \<Rightarrow> if n \<noteq> 1 then (d', Inl (Error ''join code not found or inactive'')) else (d', Inr ()))"

lemma tokens_distinct: "db_ok d \<Longrightarrow> distinct (map t_hash (enrollment_tokens d))"
  by (simp add: db_ok_def tokens_ok_def)

lemma db_ok_update_tokens:
  assumes "db_ok d" "\<And>r. t_id (f r) = t_id r \<and> t_hash (f r) = t_hash r \<and> t_created_by (f r) = t_created_by r"
  shows "db_ok (d\<lparr>enrollment_tokens := map (\<lambda>r. if P r then f r else r) (enrollment_tokens d)\<rparr>)"
proof -
  have k: "t_id (if P r then f r else r) = t_id r" "t_hash (if P r then f r else r) = t_hash r"
    "t_created_by (if P r then f r else r) = t_created_by r" for r
    using assms(2) by auto
  then show ?thesis using assms(1) by (simp add: db_ok_def table_ok_defs table_map)
qed

text \<open>With well-formed tables the update never violates a constraint.\<close>

lemma ConsumeToken_alt:
  assumes "db_ok d"
  shows "ConsumeToken c e k d token now = (case presented_digest c token of
      None \<Rightarrow> (d, Inl (Error ''invalid enrollment token''))
    | Some h \<Rightarrow> if env_db_fails e k then (d, Inl StorageFailure)
        else if \<exists>r \<in> set (enrollment_tokens d). token_live h (unix_milli now) r
        then (d\<lparr>enrollment_tokens := map (\<lambda>r. if token_live h (unix_milli now) r
            then r\<lparr>t_consumed := Some (unix_milli now)\<rparr> else r) (enrollment_tokens d)\<rparr>, Inr ())
        else (d, Inl (Error ''invalid or expired enrollment token'')))"
proof (cases "presented_digest c token")
  case (Some h)
  let ?P = "token_live h (unix_milli now)" and ?f = "\<lambda>r. r\<lparr>t_consumed := Some (unix_milli now)\<rparr>"
  have ok: "db_ok (d\<lparr>enrollment_tokens := map (\<lambda>r. if ?P r then ?f r else r) (enrollment_tokens d)\<rparr>)"
    by (rule db_ok_update_tokens [OF assms]) simp
  show ?thesis
  proof (cases "\<exists>r \<in> set (enrollment_tokens d). ?P r")
    case True
    then obtain r where r: "r \<in> set (enrollment_tokens d)" "?P r" by blast
    have "List.length (filter ?P (enrollment_tokens d)) = 1"
      using r by (intro length_filter_unique [OF tokens_distinct [OF assms]]) (auto simp: token_live_def)
    then show ?thesis
      using Some ok True by (simp add: ConsumeToken_def sql_exec_def consume_row_def Let_def)
  next
    case False
    then have "update_rows ?P ?f (enrollment_tokens d) = (enrollment_tokens d, 0)"
      by (auto simp: update_rows_def filter_empty_conv intro: map_idI)
    then show ?thesis
      using Some False assms by (simp add: ConsumeToken_def sql_exec_def consume_row_def Let_def)
  qed
qed (simp add: ConsumeToken_def)

definition token_spent :: "bytes \<Rightarrow> db \<Rightarrow> bool" where
  "token_spent h d \<longleftrightarrow> (\<exists>r \<in> set (enrollment_tokens d). t_hash r = h \<and> (t_consumed r \<noteq> None \<or> t_revoked r \<noteq> None))"

datatype token_op =
    MakeToken env string time duration
  | UseToken env string time
  | DropToken env string time

definition token_step :: "crypto \<Rightarrow> token_op \<Rightarrow> db \<Rightarrow> db \<times> bool" where
  "token_step c a d = (case a of
      MakeToken e creator now ttl \<Rightarrow> (fst (CreateToken c e d creator now ttl), False)
    | UseToken e token now \<Rightarrow> (case ConsumeToken c e 0 d token now of (d', res) \<Rightarrow> (d', ok res))
    | DropToken e ident now \<Rightarrow> (fst (RevokeToken e d ident now), False))"

definition token_key :: "crypto \<Rightarrow> token_op \<Rightarrow> bytes option" where
  "token_key c a = (case a of UseToken e token now \<Rightarrow> presented_digest c token | _ \<Rightarrow> None)"

lemma CreateToken_ok [db_pres]: "db_ok d \<Longrightarrow> db_ok (fst (CreateToken c e d creator now ttl))"
  by (auto simp: CreateToken_def sql_exec_def Let_def split: sum.split prod.split)

lemma CreateToken_rows: "\<exists>rs. enrollment_tokens (fst (CreateToken c e d creator now ttl)) = enrollment_tokens d @ rs"
  by (auto simp: CreateToken_def sql_exec_def insert_token_def Let_def split: sum.split prod.split)

lemma ConsumeToken_ok [db_pres]: "db_ok d \<Longrightarrow> db_ok (fst (ConsumeToken c e k d token now))"
  using db_ok_update_tokens [of d "\<lambda>r. r\<lparr>t_consumed := Some (unix_milli now)\<rparr>"]
  by (auto simp: ConsumeToken_alt split: option.split)

lemma RevokeToken_ok [db_pres]: "db_ok d \<Longrightarrow> db_ok (fst (RevokeToken e d ident now))"
  by (auto simp: RevokeToken_def sql_exec_def Let_def split: sum.split prod.split)

lemma token_spent_map:
  assumes "token_spent h d" "enrollment_tokens d' = map g (enrollment_tokens d)"
    "\<And>r. t_hash (g r) = t_hash r \<and> (t_consumed r \<noteq> None \<longrightarrow> t_consumed (g r) \<noteq> None)
      \<and> (t_revoked r \<noteq> None \<longrightarrow> t_revoked (g r) \<noteq> None)"
  shows "token_spent h d'"
proof -
  obtain r where "r \<in> set (enrollment_tokens d)" "t_hash r = h" "t_consumed r \<noteq> None \<or> t_revoked r \<noteq> None"
    using assms(1) by (auto simp: token_spent_def)
  then have "g r \<in> set (enrollment_tokens d')" "t_hash (g r) = h" "t_consumed (g r) \<noteq> None \<or> t_revoked (g r) \<noteq> None"
    using assms(2,3) by auto
  then show ?thesis unfolding token_spent_def by blast
qed

lemma token_spent_consume: "token_spent h d \<Longrightarrow> token_spent h (d\<lparr>enrollment_tokens :=
    map (\<lambda>r. if P r then r\<lparr>t_consumed := Some n\<rparr> else r) (enrollment_tokens d)\<rparr>)"
  by (erule token_spent_map [where g = "\<lambda>r. if P r then r\<lparr>t_consumed := Some n\<rparr> else r"]) auto

lemma RevokeToken_spent: "token_spent h d \<Longrightarrow> token_spent h (fst (RevokeToken e d ident now))"
  using token_spent_map [of h d _ "\<lambda>r. if t_id r = ident \<and> t_consumed r = None \<and> t_revoked r = None
      then r\<lparr>t_revoked := Some (unix_milli now)\<rparr> else r"]
  by (auto simp: RevokeToken_def sql_exec_def revoke_token_def Let_def split: sum.split prod.split)

lemma ConsumeToken_spent:
  assumes "db_ok d" "token_spent h d"
  shows "token_spent h (fst (ConsumeToken c e k d token now))"
  using assms(2) token_spent_consume [OF assms(2)]
  by (auto simp: ConsumeToken_alt [OF assms(1)] split: option.split)

interpretation tokens: one_shot "token_step c" "token_key c" token_spent db_ok
  for c
proof
  fix d :: db and a and h
  assume ok: "db_ok d"
  show "db_ok (fst (token_step c a d))"
    using ok CreateToken_ok ConsumeToken_ok [of d c _ 0] RevokeToken_ok
    by (cases a) (simp_all add: token_step_def split_beta)
  show "token_spent h (fst (token_step c a d))" if "token_spent h d"
    using that RevokeToken_spent ConsumeToken_spent [OF ok that] CreateToken_rows
    by (cases a) (simp_all add: token_step_def split_beta, metis UnCI set_append token_spent_def)
  assume key: "token_key c a = Some h"
  then obtain e token now where a: "a = UseToken e token now" "presented_digest c token = Some h"
    by (auto simp: token_key_def split: token_op.splits)
  show "token_spent h (fst (token_step c a d))" if win: "snd (token_step c a d)"
  proof -
    obtain r where r: "r \<in> set (enrollment_tokens d)" "token_live h (unix_milli now) r" "\<not> env_db_fails e 0"
      using win a by (auto simp: token_step_def ConsumeToken_alt [OF ok] split: if_splits)
    then have "r\<lparr>t_consumed := Some (unix_milli now)\<rparr> \<in> set (enrollment_tokens (fst (token_step c a d)))"
      using a by (auto simp: token_step_def ConsumeToken_alt [OF ok] intro!: rev_image_eqI)
    then show ?thesis using r unfolding token_spent_def token_live_def by (intro bexI) auto
  qed
  show "\<not> snd (token_step c a d)" if sp: "token_spent h d"
  proof -
    have "\<not> token_live h (unix_milli now) r" if "r \<in> set (enrollment_tokens d)" for r
      using sp that tokens_distinct [OF ok] by (auto simp: token_spent_def token_live_def dest: distinct_map_inj)
    then show ?thesis using a by (auto simp: token_step_def ConsumeToken_alt [OF ok])
  qed
qed



end
