(* ===== verification/Identity.thy ===== *)
theory Identity
  imports Pki ServerBase
begin

text \<open>
  \<open>internal/pki/identity.go\<close>, the pins of \<open>internal/pki/credentials.go\<close>, and the
  enrollment service \<open>internal/server/enrollment.go\<close>: who an agent is, how its certificate
  is issued, renewed and checked, and how the first administrator is made.
\<close>

section \<open>The identity registry\<close>

definition insert_agent :: "AgentRow \<Rightarrow> db \<Rightarrow> db \<times> nat" where
  "insert_agent row d = (d\<lparr>agents := agents d @ [row]\<rparr>, 1)"

definition new_agent :: "string \<Rightarrow> string \<Rightarrow> string \<Rightarrow> time \<Rightarrow> time \<Rightarrow> AgentRow" where
  "new_agent ident serial hostname expires created = \<lparr>a_id = ident, a_serial = Some serial,
     a_expires = Some (unix_milli expires), a_revoked = None, a_hostname = hostname, a_boot_id = [],
     a_metadata = ''{}'', a_created = unix_milli created\<rparr>"

definition RegisterIdentity :: "env \<Rightarrow> nat \<Rightarrow> db \<Rightarrow> string \<Rightarrow> string \<Rightarrow> time \<Rightarrow> db \<times> unit result" where
  "RegisterIdentity e k d ident serial expires =
    (if ident = [] \<or> serial = [] then (d, Inl (Error ''agent identity and serial required''))
     else case sql_exec (env_db_fails e k) (insert_agent (new_agent ident serial [] expires (env_clock e 0))) d of
       (d', Inl err) \<Rightarrow> (d', Inl err) | (d', Inr n) \<Rightarrow> (d', Inr ()))"

definition RegisterWithMetadata :: "env \<Rightarrow> nat \<Rightarrow> db \<Rightarrow> string \<Rightarrow> string \<Rightarrow> string \<Rightarrow> time \<Rightarrow> time \<Rightarrow> db \<times> unit result" where
  "RegisterWithMetadata e k d ident serial hostname expires created =
    (if ident = [] \<or> serial = [] then (d, Inl (Error ''agent identity and serial required''))
     else case sql_exec (env_db_fails e k) (insert_agent (new_agent ident serial hostname expires created)) d of
       (d', Inl err) \<Rightarrow> (d', Inl err) | (d', Inr n) \<Rightarrow> (d', Inr ()))"

text \<open>Scanning a NULL expiry or serial into a Go value that cannot hold it is an error.\<close>

definition AuthorizeRenewal :: "env \<Rightarrow> nat \<Rightarrow> db \<Rightarrow> string \<Rightarrow> time \<Rightarrow> unit result" where
  "AuthorizeRenewal e k d ident now =
    (case sql_query_row (env_db_fails e k) (\<lambda>r. a_id r = ident) (agents d) of
       Inl err \<Rightarrow> Inl err
     | Inr r \<Rightarrow> (case a_expires r of
         None \<Rightarrow> Inl (External ''scan'')
       | Some expires \<Rightarrow>
          if a_revoked r \<noteq> None then Inl (Error ''agent revoked'')
          else if expires < unix_milli now then Inl (Error ''agent certificate expired'')
          else Inr ()))"

definition set_certificate :: "string \<Rightarrow> string \<Rightarrow> int \<Rightarrow> db \<Rightarrow> db \<times> nat" where
  "set_certificate ident serial expires d =
    (let u = update_rows (\<lambda>r. a_id r = ident \<and> a_revoked r = None)
       (\<lambda>r. r\<lparr>a_serial := Some serial, a_expires := Some expires\<rparr>) (agents d)
     in (d\<lparr>agents := fst u\<rparr>, snd u))"

definition UpdateCertificate :: "env \<Rightarrow> nat \<Rightarrow> db \<Rightarrow> string \<Rightarrow> string \<Rightarrow> time \<Rightarrow> db \<times> unit result" where
  "UpdateCertificate e k d ident serial expires =
    (case sql_exec (env_db_fails e k) (set_certificate ident serial (unix_milli expires)) d of
       (d', Inl err) \<Rightarrow> (d', Inl err)
     | (d', Inr n) \<Rightarrow> if n \<noteq> 1 then (d', Inl (Error ''agent not active'')) else (d', Inr ()))"

definition set_revoked :: "string \<Rightarrow> int \<Rightarrow> db \<Rightarrow> db \<times> nat" where
  "set_revoked ident now d =
    (let u = update_rows (\<lambda>r. a_id r = ident \<and> a_revoked r = None) (\<lambda>r. r\<lparr>a_revoked := Some now\<rparr>) (agents d)
     in (d\<lparr>agents := fst u\<rparr>, snd u))"

definition RevokeIdentity :: "env \<Rightarrow> nat \<Rightarrow> db \<Rightarrow> string \<Rightarrow> time \<Rightarrow> db \<times> unit result" where
  "RevokeIdentity e k d ident now = (case sql_exec (env_db_fails e k) (set_revoked ident (unix_milli now)) d of
      (d', Inl err) \<Rightarrow> (d', Inl err)
    | (d', Inr n) \<Rightarrow> if n \<noteq> 1 then (d', Inl (Error ''agent not active'')) else (d', Inr ()))"

definition AuthorizeConnection :: "env \<Rightarrow> nat \<Rightarrow> db \<Rightarrow> string \<Rightarrow> string \<Rightarrow> time \<Rightarrow> unit result" where
  "AuthorizeConnection e k d ident serial now =
    (case sql_query_row (env_db_fails e k) (\<lambda>r. a_id r = ident) (agents d) of
       Inl err \<Rightarrow> Inl err
     | Inr r \<Rightarrow> (case (a_serial r, a_expires r) of
         (Some stored, Some expires) \<Rightarrow>
            if a_revoked r \<noteq> None \<or> stored \<noteq> serial \<or> expires < unix_milli now
            then Inl (Error ''agent identity unauthorized'') else Inr ()
       | _ \<Rightarrow> Inl (External ''scan'')))"

section \<open>The first administrator\<close>

definition BootstrapAdmin :: "crypto \<Rightarrow> env \<Rightarrow> db \<Rightarrow> string \<Rightarrow> string \<Rightarrow> time \<Rightarrow> db \<times> unit result" where
  "BootstrapAdmin c e d username password now =
    (if username = [] \<or> List.length password < 16
     then (d, Inl (Error ''bootstrap admin requires username and password of at least 16 bytes''))
     else if env_db_fails e 0 then (d, Inl StorageFailure)
     else if env_db_fails e 1 then (d, Inl StorageFailure)
     else if users d \<noteq> [] then (d, Inl (Error ''bootstrap already completed''))
     else case rand_read e 0 16 of
       Inl err \<Rightarrow> (d, Inl err)
     | Inr salt \<Rightarrow> (case rand_read e 1 16 of
         Inl err \<Rightarrow> (d, Inl err)
       | Inr raw \<Rightarrow>
          (case sql_exec (env_db_fails e 2) (\<lambda>d. (d\<lparr>users := users d @ [\<lparr>u_id = hex_encode raw, u_username = username,
              u_hash = password_format salt (argon2 c password salt 3 65536 2 32),
              u_role = 3, u_disabled = False, u_created = unix_milli now\<rparr>]\<rparr>, 1)) d of
             (d', Inl err) \<Rightarrow> (d, Inl err)
           | (d', Inr n) \<Rightarrow> if env_db_fails e 3 then (d, Inl StorageFailure) else (d', Inr ()))))"

text \<open>Bootstrapping succeeds only on a database without users, and then leaves exactly one: an
  enabled administrator with the given name, whom the given password logs in. It changes nothing
  otherwise, and so cannot succeed twice.\<close>

theorem bootstrap_once:
  assumes "BootstrapAdmin c e d username password now = (d', res)"
    "\<And>salt. List.length (argon2 c password salt 3 65536 2 32) = 32"
  shows "(case res of
      Inl err \<Rightarrow> d' = d
    | Inr u \<Rightarrow> users d = [] \<and> (\<exists>row. d' = d\<lparr>users := [row]\<rparr> \<and> u_username row = username
        \<and> u_role row = ROLE_ADMIN \<and> \<not> u_disabled row \<and> VerifyPassword c (u_hash row) password)
        \<and> (\<forall>e2 username2 password2 now2. \<not> ok (snd (BootstrapAdmin c e2 d' username2 password2 now2))))"
proof (cases res)
  case (Inl err)
  have "case BootstrapAdmin c e d username password now of (d', res) \<Rightarrow> ok res \<or> d' = d"
    unfolding BootstrapAdmin_def by (simp split: sum.split prod.split)
  then show ?thesis using assms(1) Inl by simp
next
  case (Inr u)
  define salt raw where "salt = map (env_rand e 0) [0..<16]" and "raw = map (env_rand e 1) [0..<16]"
  let ?h = "password_format salt (argon2 c password salt 3 65536 2 32)"
  define row where "row = \<lparr>u_id = hex_encode raw, u_username = username, u_hash = ?h, u_role = 3,
    u_disabled = False, u_created = unix_milli now\<rparr>"
  have b: "16 \<le> List.length password" "users d = []" "\<not> env_rand_fails e 0" "d' = d\<lparr>users := [row]\<rparr>"
    using assms(1) Inr
    by (auto simp: BootstrapAdmin_def rand_read_def sql_exec_def salt_def raw_def row_def split: if_splits sum.splits
        simp del: upt_rec_numeral)
  have "HashPassword c e 0 password = Inr ?h"
    using b(1,3) by (simp add: HashPassword_def rand_read_def salt_def del: upt_rec_numeral)
  then have "VerifyPassword c ?h password" by (rule HashPassword_accepts [OF _ assms(2)])
  then have "u_username row = username \<and> u_role row = ROLE_ADMIN \<and> \<not> u_disabled row
      \<and> VerifyPassword c (u_hash row) password"
    by (simp add: row_def role_defs)
  moreover have "users x \<noteq> [] \<Longrightarrow> \<not> ok (snd (BootstrapAdmin c e2 x username2 password2 now2))" for x e2 username2 password2 now2
    by (simp add: BootstrapAdmin_def)
  then have "\<forall>e2 username2 password2 now2. \<not> ok (snd (BootstrapAdmin c e2 d' username2 password2 now2))"
    using b(4) by simp
  ultimately show ?thesis using b(2,4) Inr by auto
qed

lemma db_ok_one_user: "db_ok (empty_db\<lparr>users := [r]\<rparr>)"
  by (simp add: db_ok_def table_ok_defs empty_db_def unique_opt_def)

lemma users_empty_db: "users empty_db = []"
  by (simp add: empty_db_def)

theorem bootstrap_once_witness:
  "\<exists>d'. BootstrapAdmin toy_crypto (calm 0) empty_db ''root'' ''0123456789abcdef'' 0 = (d', Inr ())
    \<and> (\<exists>row. users d' = [row] \<and> VerifyPassword toy_crypto (u_hash row) ''0123456789abcdef'')"
proof -
  have "snd (BootstrapAdmin toy_crypto (calm 0) empty_db ''root'' ''0123456789abcdef'' 0) = Inr ()"
    by (simp add: BootstrapAdmin_def sql_exec_def users_empty_db db_ok_one_user del: upt_rec_numeral)
  then obtain d' where b: "BootstrapAdmin toy_crypto (calm 0) empty_db ''root'' ''0123456789abcdef'' 0 = (d', Inr ())"
    by (metis prod.collapse)
  have "\<And>salt. List.length (argon2 toy_crypto ''0123456789abcdef'' salt 3 65536 2 32) = 32"
    by (simp add: toy_crypto_def)
  then show ?thesis using bootstrap_once [OF b] b by auto
qed

section \<open>Certificate pins\<close>

definition CertificatePin :: "crypto \<Rightarrow> bytes \<Rightarrow> string" where
  "CertificatePin c der = ''sha256/'' @ raw_std_encode (sha256 c der)"

definition VerifyCertificatePin :: "crypto \<Rightarrow> bytes \<Rightarrow> string \<Rightarrow> unit result" where
  "VerifyCertificatePin c der pin = (let got = CertificatePin c der in
     if List.length got \<noteq> List.length pin \<or> got \<noteq> pin then Inl (Error ''validator certificate pin mismatch'')
     else Inr ())"

text \<open>The pin that \<open>clientapi.FetchPinnedCertificate\<close> compares with, from the presented certificate.\<close>

definition client_pin :: "crypto \<Rightarrow> bytes \<Rightarrow> string" where
  "client_pin c der = ''sha256/'' @ padded_encode std_alphabet (sha256 c der)"

text \<open>A pin made for a certificate is accepted for a presented certificate exactly when the two
  have the same SHA-256 digest.\<close>

theorem pin_iff_same_digest:
  "VerifyCertificatePin c presented (CertificatePin c pinned) = Inr () \<longleftrightarrow> sha256 c presented = sha256 c pinned"
  by (auto simp: VerifyCertificatePin_def CertificatePin_def Let_def b64.enc_inject)

text \<open>The client's check can never succeed with the pin the validator publishes: the client
  pads the base64 of the 32-byte digest and the validator does not, so they differ for every
  certificate, the pinned one included.\<close>

theorem client_pin_never_matches:
  assumes "\<And>m. List.length (sha256 c m) = 32"
  shows "client_pin c presented \<noteq> CertificatePin c pinned"
proof
  have len: "List.length (sextets bs) = (4 * List.length bs + 2) div 3" for bs
    by (induction bs rule: sextets.induct) simp_all
  assume "client_pin c presented = CertificatePin c pinned"
  then have "padded_encode std_alphabet (sha256 c presented) = raw_std_encode (sha256 c pinned)"
    by (simp add: client_pin_def CertificatePin_def)
  then have "List.length (padded_encode std_alphabet (sha256 c presented)) = List.length (raw_std_encode (sha256 c pinned))"
    by simp
  then show False
    using assms by (simp add: padded_encode_def raw_encode_def len numeral_2_eq_2)
qed

theorem client_pin_never_matches_witness: "client_pin toy_crypto ''cert'' \<noteq> CertificatePin toy_crypto ''cert''"
  by (rule client_pin_never_matches) (simp add: toy_crypto_def)

section \<open>Enrollment\<close>

record EnrollResponse =
  er_agent :: string
  er_certificate :: bytes
  er_ca :: bytes
  er_expires :: int

definition default_validity :: "duration \<Rightarrow> duration" where
  "default_validity validity = (if validity \<le> 0 then 24 * hour else validity)"

text \<open>\<open>Enroll\<close>: statement 0 consumes the token, 1 inserts the agent.\<close>

definition Enroll :: "crypto \<Rightarrow> x509 \<Rightarrow> bytes \<Rightarrow> env \<Rightarrow> duration \<Rightarrow> db \<Rightarrow> bytes \<Rightarrow> string \<Rightarrow> string
    \<Rightarrow> db \<times> EnrollResponse result" where
  "Enroll c x caPEM e configured d csrDER token hostname = (case x_parse_csr x csrDER of
      Inl err \<Rightarrow> (d, Inl (Status InvalidArgument ''invalid CSR''))
    | Inr csr \<Rightarrow>
       if \<not> csr_signature_ok csr then (d, Inl (Status InvalidArgument ''invalid CSR''))
       else (case ConsumeToken c e 0 d token (env_clock e 0) of
         (d1, Inl err) \<Rightarrow> (d1, Inl (Status PermissionDenied ''invalid enrollment token''))
       | (d1, Inr u) \<Rightarrow>
          (let validity = default_validity configured in
           case randomHex e 0 16 of
             Inl err \<Rightarrow> (d1, Inl (Status Internal ''entropy unavailable''))
           | Inr agentID \<Rightarrow>
              (case SignAgentCSR x e 1 csrDER agentID (env_clock e 1) validity of
                 Inl err \<Rightarrow> (d1, Inl (Status InvalidArgument ''invalid CSR''))
               | Inr (pem, serial) \<Rightarrow>
                  (case RegisterWithMetadata e 1 d1 agentID serial hostname (env_clock e 2 + validity) (env_clock e 3) of
                     (d2, Inl err) \<Rightarrow> (d2, Inl (Status AlreadyExists ''agent identity exists''))
                   | (d2, Inr u) \<Rightarrow> (d2, Inr \<lparr>er_agent = agentID, er_certificate = pem, er_ca = caPEM,
                        er_expires = unix_milli (env_clock e 4 + validity)\<rparr>))))))"

definition mtlsID :: "ctx \<Rightarrow> string result" where
  "mtlsID ctx = (case cx_certs ctx of
      None \<Rightarrow> Inl (Error ''certificate missing'')
    | Some certs \<Rightarrow> (case certs of
        [] \<Rightarrow> Inl (Error ''certificate missing'')
      | (ident, serial) # rest \<Rightarrow> if ident = [] then Inl (Error ''identity missing'') else Inr ident))"

text \<open>\<open>Renew\<close>: statement 0 reads the agent, 1 updates its certificate.\<close>

definition Renew :: "x509 \<Rightarrow> env \<Rightarrow> duration \<Rightarrow> db \<Rightarrow> ctx \<Rightarrow> bytes \<Rightarrow> db \<times> (bytes \<times> int) result" where
  "Renew x e configured d ctx csrDER = (case mtlsID ctx of
      Inl err \<Rightarrow> (d, Inl (Status Unauthenticated ''mTLS identity required''))
    | Inr ident \<Rightarrow> (case AuthorizeRenewal e 0 d ident (env_clock e 0) of
        Inl err \<Rightarrow> (d, Inl (Status PermissionDenied ''renewal denied''))
      | Inr u \<Rightarrow>
         (let validity = default_validity configured in
          case SignAgentCSR x e 0 csrDER ident (env_clock e 1) validity of
            Inl err \<Rightarrow> (d, Inl (Status InvalidArgument ''invalid CSR''))
          | Inr (pem, serial) \<Rightarrow>
             (case UpdateCertificate e 1 d ident serial (env_clock e 2 + validity) of
                (d', Inl err) \<Rightarrow> (d', Inl (Status PermissionDenied ''renewal denied''))
              | (d', Inr u) \<Rightarrow> (d', Inr (pem, unix_milli (env_clock e 3 + validity)))))))"

lemma find_agent:
  assumes "db_ok d" "r \<in> set (agents d)" "a_id r = ident"
  shows "List.find (\<lambda>r. a_id r = ident) (agents d) = Some r"
proof -
  have "distinct (map a_id (agents d))" using assms(1) by (simp add: db_ok_def agents_ok_def agent_ids_def)
  then show ?thesis using assms(2,3) by (intro find_unique) (auto dest: distinct_map_inj)
qed

lemma AuthorizeConnection_row:
  assumes "db_ok d" "r \<in> set (agents d)" "\<not> env_db_fails e k"
  shows "AuthorizeConnection e k d (a_id r) serial now = Inr () \<longleftrightarrow>
    a_revoked r = None \<and> a_serial r = Some serial \<and> (\<exists>x. a_expires r = Some x \<and> unix_milli now \<le> x)"
  using find_agent [OF assms(1,2) refl] assms(3)
  by (auto simp: AuthorizeConnection_def sql_query_row_def split: option.splits)

lemma Enroll_success: "case Enroll c x caPEM e configured d csrDER token hostname of (d', res) \<Rightarrow>
    ok res \<longrightarrow> (\<exists>d1 agentID pem serial. ConsumeToken c e 0 d token (env_clock e 0) = (d1, Inr ())
      \<and> SignAgentCSR x e 1 csrDER agentID (env_clock e 1) (default_validity configured) = Inr (pem, serial)
      \<and> RegisterWithMetadata e 1 d1 agentID serial hostname (env_clock e 2 + default_validity configured) (env_clock e 3) = (d', Inr ())
      \<and> res = Inr \<lparr>er_agent = agentID, er_certificate = pem, er_ca = caPEM,
          er_expires = unix_milli (env_clock e 4 + default_validity configured)\<rparr>)"
  unfolding Enroll_def Let_def by (simp split: sum.split prod.split)

lemma RegisterWithMetadata_Inr: "RegisterWithMetadata e k d ident serial hostname expires created = (d', Inr ()) \<Longrightarrow>
    d' = d\<lparr>agents := agents d @ [new_agent ident serial hostname expires created]\<rparr> \<and> db_ok d' \<and> ident \<noteq> []"
  by (auto simp: RegisterWithMetadata_def insert_agent_def sql_exec_def split: if_splits)

lemma enroll_effect:
  assumes "db_ok d" "Enroll c x caPEM e configured d csrDER token hostname = (d', Inr response)"
  shows "\<exists>h serial. presented_digest c token = Some h \<and> \<not> token_spent h d \<and> token_spent h d'
    \<and> er_agent response \<notin> set (agent_ids d)
    \<and> agents d' = agents d @ [new_agent (er_agent response) serial hostname
        (env_clock e 2 + default_validity configured) (env_clock e 3)]
    \<and> (\<forall>e2 now. \<not> env_db_fails e2 0 \<longrightarrow>
         (AuthorizeConnection e2 0 d' (er_agent response) serial now = Inr ()
          \<longleftrightarrow> unix_milli now \<le> unix_milli (env_clock e 2 + default_validity configured)))"
proof -
  obtain d1 agentID pem serial where s: "ConsumeToken c e 0 d token (env_clock e 0) = (d1, Inr ())"
    "RegisterWithMetadata e 1 d1 agentID serial hostname (env_clock e 2 + default_validity configured) (env_clock e 3) = (d', Inr ())"
    "er_agent response = agentID"
    using Enroll_success [where c = c and x = x and caPEM = caPEM and e = e and configured = configured and d = d
        and csrDER = csrDER and token = token and hostname = hostname] assms(2) by auto
  let ?row = "new_agent agentID serial hostname (env_clock e 2 + default_validity configured) (env_clock e 3)"
  obtain h where h: "presented_digest c token = Some h" using s(1) by (auto simp: ConsumeToken_def split: option.splits)
  have step: "snd (token_step c (UseToken e token (env_clock e 0)) d)" "fst (token_step c (UseToken e token (env_clock e 0)) d) = d1"
    using s(1) by (simp_all add: token_step_def)
  have key: "token_key c (UseToken e token (env_clock e 0)) = Some h" using h by (simp add: token_key_def)
  have sp: "\<not> token_spent h d" "token_spent h d1"
    using tokens.spent_blocks [OF assms(1) _ key] tokens.win_spends [OF assms(1) _ key] step by auto
  have agents1: "agents d1 = agents d"
    using s(1) by (auto simp: ConsumeToken_alt [OF assms(1)] split: option.splits if_splits)
  have d': "d' = d1\<lparr>agents := agents d1 @ [?row]\<rparr>" "db_ok d'"
    using RegisterWithMetadata_Inr [OF s(2)] by auto
  then have "distinct (agent_ids d')" by (simp add: db_ok_def agents_ok_def)
  then have fresh: "agentID \<notin> set (agent_ids d)"
    using d'(1) agents1 by (simp add: agent_ids_def new_agent_def)
  have "?row \<in> set (agents d')" using d'(1) by simp
  from AuthorizeConnection_row [OF d'(2) this]
  have "\<forall>e2 now. \<not> env_db_fails e2 0 \<longrightarrow> (AuthorizeConnection e2 0 d' agentID serial now = Inr ()
      \<longleftrightarrow> unix_milli now \<le> unix_milli (env_clock e 2 + default_validity configured))"
    by (simp add: new_agent_def)
  moreover have "token_spent h d'" using sp(2) d'(1) by (simp add: token_spent_def)
  ultimately show ?thesis using h sp(1) fresh d'(1) agents1 s(3) by auto
qed

text \<open>Enrolling succeeds only with a live token, which it uses up, and makes one new agent, not
  known before, whose certificate then authorises connections under that identity and serial until it
  expires.\<close>

theorem enroll_success:
  assumes "db_ok d" "Enroll c x caPEM e configured d csrDER token hostname = (d', Inr response)"
  shows "\<exists>h serial. presented_digest c token = Some h \<and> \<not> token_spent h d \<and> token_spent h d'
    \<and> er_agent response \<notin> set (agent_ids d)
    \<and> agents d' = agents d @ [new_agent (er_agent response) serial hostname
        (env_clock e 2 + default_validity configured) (env_clock e 3)]
    \<and> (\<forall>e2 now. \<not> env_db_fails e2 0 \<longrightarrow>
         (AuthorizeConnection e2 0 d' (er_agent response) serial now = Inr ()
          \<longleftrightarrow> unix_milli now \<le> unix_milli (env_clock e 2 + default_validity configured)))"
  by (rule enroll_effect [OF assms])

text \<open>The token is used up before the request's subject is checked: a correctly signed request
  that names a subject is refused, and its valid token cannot be used again.\<close>

theorem enroll_burns_token:
  assumes "db_ok d" "x_parse_csr x csrDER = Inr csr" "csr_signature_ok csr" "csr_common_name csr \<noteq> []"
    "presented_digest c token = Some h" "r \<in> set (enrollment_tokens d)" "token_live h (unix_milli (env_clock e 0)) r"
    "\<not> env_db_fails e 0" "\<not> env_rand_fails e 0"
  shows "\<exists>d'. Enroll c x caPEM e configured d csrDER token hostname = (d', Inl (Status InvalidArgument ''invalid CSR''))
    \<and> token_spent h d' \<and> agents d' = agents d"
proof -
  let ?d = "d\<lparr>enrollment_tokens := map (\<lambda>r. if token_live h (unix_milli (env_clock e 0)) r
      then r\<lparr>t_consumed := Some (unix_milli (env_clock e 0))\<rparr> else r) (enrollment_tokens d)\<rparr>"
  have c: "ConsumeToken c e 0 d token (env_clock e 0) = (?d, Inr ())"
    using assms(5-8) by (auto simp: ConsumeToken_alt [OF assms(1)])
  have "randomHex e 0 16 = Inr (hex_encode (map (env_rand e 0) [0..<16]))"
    using assms(9) by (simp add: randomHex_Inr del: upt_rec_numeral)
  then have "Enroll c x caPEM e configured d csrDER token hostname = (?d, Inl (Status InvalidArgument ''invalid CSR''))"
    using c assms(2-4) by (simp add: Enroll_def SignAgentCSR_def Let_def del: upt_rec_numeral)
  moreover have "r\<lparr>t_consumed := Some (unix_milli (env_clock e 0))\<rparr> \<in> set (enrollment_tokens ?d)"
    using update_mem [OF assms(6), of "token_live h (unix_milli (env_clock e 0))"] assms(7) by simp
  then have "token_spent h ?d"
    using assms(7) unfolding token_spent_def
    by (intro bexI [of _ "r\<lparr>t_consumed := Some (unix_milli (env_clock e 0))\<rparr>"]) (simp_all add: token_live_def del: set_map)
  ultimately show ?thesis by simp
qed

end
