(* ===== verification/IdentityFacts.thy ===== *)
theory IdentityFacts
  imports Identity
begin

text \<open>
  More on agents' identities: what a renewal replaces, and that a revocation is final.
\<close>

section \<open>Examples\<close>

definition demo_join :: string where
  "demo_join = hex_encode (replicate 32 (CHR ''j''))"

definition demo_join_digest :: bytes where
  "demo_join_digest = token_digest toy_crypto demo_join (replicate 32 (CHR ''j''))"

definition demo_tokens :: db where
  "demo_tokens = empty_db\<lparr>enrollment_tokens := [\<lparr>t_id = ''t'', t_hash = demo_join_digest, t_expires = 1000,
     t_consumed = None, t_revoked = None, t_created_by = None\<rparr>],
     agents := [\<lparr>a_id = ''a'', a_serial = Some ''1f'', a_expires = Some 1000, a_revoked = None, a_hostname = [],
       a_boot_id = [], a_metadata = [], a_created = 0\<rparr>, \<lparr>a_id = ''b'', a_serial = Some ''2f'', a_expires = Some 1000,
       a_revoked = Some 5, a_hostname = [], a_boot_id = [], a_metadata = [], a_created = 0\<rparr>]\<rparr>"

lemma demo_tokens_ok: "db_ok demo_tokens"
  by (simp add: db_ok_def table_ok_defs demo_tokens_def empty_db_def unique_opt_def List.map_filter_def refers_def)

lemma demo_presented: "presented_digest toy_crypto demo_join = Some demo_join_digest"
  by (simp add: presented_digest_def demo_join_def hex.dec_enc demo_join_digest_def)

lemma demo_token_live: "token_live demo_join_digest 0 (hd (enrollment_tokens demo_tokens))"
  by (simp add: token_live_def demo_tokens_def)

lemma unix_milli_0: "unix_milli 0 = 0"
  by (simp add: go_time)

lemma ok_snd: "ok (snd (p :: db \<times> unit result)) \<Longrightarrow> \<exists>d'. p = (d', Inr ())"
  by (cases p) (auto simp: ok_iff)

lemma demo_csr: "x_parse_csr toy_x509 ''key'' = Inr \<lparr>csr_common_name = [], csr_signature_ok = True, csr_public_key = ''key''\<rparr>"
  by (simp add: toy_x509_def)

lemma demo_consume: "ConsumeToken toy_crypto (calm 0) 0 demo_tokens demo_join 0 = (demo_tokens\<lparr>enrollment_tokens :=
    [(hd (enrollment_tokens demo_tokens))\<lparr>t_consumed := Some 0\<rparr>]\<rparr>, Inr ())"
  unfolding ConsumeToken_alt [OF demo_tokens_ok] demo_presented
  by (simp add: demo_tokens_def token_live_def unix_milli_0)

lemma demo_serial: "\<exists>serial. serial \<notin> {''1f'', ''2f''} \<and> serial \<noteq> [] \<and> randomSerial (calm 0) 1 = Some serial"
proof -
  let ?s = "serial_text (map (\<lambda>i. char_of (16 * 1 + i + 1)) [0..<16])"
  have "?s \<notin> {''1f'', ''2f''} \<and> ?s \<noteq> []" by code_simp
  then show ?thesis by (intro exI [of _ ?s]) (simp add: randomSerial_def del: upt_rec_numeral)
qed

text \<open>With a request that parses and a library that signs, the example's token enrolls an agent.\<close>

lemma demo_enroll:
  assumes "x_parse_csr x ''key'' = Inr \<lparr>csr_common_name = [], csr_signature_ok = True, csr_public_key = ''key''\<rparr>"
    and "\<And>ct. ok (x_create x ct)"
  shows "\<exists>d' response. Enroll toy_crypto x caPEM (calm 0) configured demo_tokens ''key'' demo_join ''host'' = (d', Inr response)"
proof -
  obtain serial where s: "serial \<notin> {''1f'', ''2f''}" "serial \<noteq> []" "randomSerial (calm 0) 1 = Some serial"
    using demo_serial by blast
  let ?ident = "hex_encode (map (env_rand (calm 0) 0) [0..<16])"
  have ident: "?ident \<notin> {''a'', ''b'', []}" by code_simp
  have hex: "randomHex (calm 0) 0 16 = Inr ?ident" by (simp add: randomHex_Inr del: upt_rec_numeral)
  obtain pem where sign: "SignAgentCSR x (calm 0) 1 ''key'' ?ident 0 (default_validity configured) = Inr (pem, serial)"
    using assms ident s(3) by (auto simp: SignAgentCSR_def ok_iff simp del: upt_rec_numeral hex_encode_simps) (metis old.sum.simps(6))
  let ?d = "fst (ConsumeToken toy_crypto (calm 0) 0 demo_tokens demo_join 0)"
  have "db_ok ?d" by (rule ConsumeToken_ok [OF demo_tokens_ok])
  moreover have "agent_ids ?d = [''a'', ''b'']" "a_serial ` set (agents ?d) = {Some ''1f'', Some ''2f''}"
    unfolding demo_consume by (auto simp: demo_tokens_def agent_ids_def)
  ultimately have "ok (snd (RegisterWithMetadata (calm 0) (Suc 0) ?d ?ident serial ''host'' (default_validity configured) 0))"
    using ident s(1,2) by (simp add: RegisterWithMetadata_def sql_exec_def insert_agent_def db_ok_insert_agent new_agent_def)
  then obtain d2 where "RegisterWithMetadata (calm 0) (Suc 0) ?d ?ident serial ''host'' (default_validity configured) 0 = (d2, Inr ())"
    using ok_snd by blast
  then have "ok (snd (Enroll toy_crypto x caPEM (calm 0) configured demo_tokens ''key'' demo_join ''host''))"
    using sign ident hex assms(1) by (simp add: Enroll_def demo_consume Let_def)
  then show ?thesis by (metis ok_iff prod.collapse)
qed

theorem enroll_success_witness:
  "\<exists>d' response. Enroll toy_crypto toy_x509 [] (calm 0) hour demo_tokens ''key'' demo_join ''host'' = (d', Inr response)
    \<and> token_spent demo_join_digest d' \<and> er_agent response \<notin> set (agent_ids demo_tokens)"
proof -
  obtain d' response where en: "Enroll toy_crypto toy_x509 [] (calm 0) hour demo_tokens ''key'' demo_join ''host'' = (d', Inr response)"
  proof -
    have "ok (x_create toy_x509 ct)" for ct by (simp add: toy_x509_def)
    then show ?thesis using that demo_enroll [OF demo_csr] by blast
  qed
  show ?thesis using enroll_success [OF demo_tokens_ok en] demo_presented en by auto
qed

theorem enroll_burns_token_witness:
  "\<exists>d'. Enroll toy_crypto toy_x509 [] (calm 0) hour demo_tokens ''named'' demo_join ''host''
      = (d', Inl (Status InvalidArgument ''invalid CSR'')) \<and> token_spent demo_join_digest d'"
proof -
  have "x_parse_csr toy_x509 ''named'' = Inr \<lparr>csr_common_name = ''mallory'', csr_signature_ok = True, csr_public_key = ''named''\<rparr>"
    by (simp add: toy_x509_def)
  moreover have "hd (enrollment_tokens demo_tokens) \<in> set (enrollment_tokens demo_tokens)"
    by (simp add: demo_tokens_def)
  ultimately show ?thesis
    using enroll_burns_token [where c = toy_crypto and x = toy_x509 and csrDER = "''named''" and token = demo_join
        and e = "calm 0" and caPEM = "[]" and configured = hour and hostname = "''host''"
        and r = "hd (enrollment_tokens demo_tokens)", OF demo_tokens_ok _ _ _ demo_presented]
      demo_token_live by (simp add: unix_milli_0) blast
qed

section \<open>Renewal\<close>

lemma Renew_success: "case Renew x e configured d ctx csrDER of (d', res) \<Rightarrow> if ok res then
    (\<exists>ident pem serial. mtlsID ctx = Inr ident \<and> AuthorizeRenewal e 0 d ident (env_clock e 0) = Inr ()
      \<and> SignAgentCSR x e 0 csrDER ident (env_clock e 1) (default_validity configured) = Inr (pem, serial)
      \<and> UpdateCertificate e 1 d ident serial (env_clock e 2 + default_validity configured) = (d', Inr ()))
    else (d' = d \<or> (\<exists>ident serial expires. d' = fst (UpdateCertificate e 1 d ident serial expires)))"
  unfolding Renew_def Let_def by (simp split: sum.split prod.split) (metis fst_conv)

lemma UpdateCertificate_rows: "agents (fst (UpdateCertificate e k d ident serial expires)) = agents d
    \<or> agents (fst (UpdateCertificate e k d ident serial expires)) = map (\<lambda>r. if a_id r = ident \<and> a_revoked r = None
      then r\<lparr>a_serial := Some serial, a_expires := Some (unix_milli expires)\<rparr> else r) (agents d)"
  by (auto simp: UpdateCertificate_def sql_exec_def set_certificate_def Let_def split: sum.split prod.split)

lemma UpdateCertificate_Inr: "UpdateCertificate e k d ident serial expires = (d', Inr ()) \<Longrightarrow>
    db_ok d' \<and> d' = d\<lparr>agents := map (\<lambda>r. if a_id r = ident \<and> a_revoked r = None
      then r\<lparr>a_serial := Some serial, a_expires := Some (unix_milli expires)\<rparr> else r) (agents d)\<rparr>"
  by (auto simp: UpdateCertificate_def sql_exec_def set_certificate_def Let_def split: if_splits)

text \<open>A renewal is granted only to the agent the TLS layer identified, while it is neither
  revoked nor expired; afterwards exactly the new serial authorises its connections, until the new
  expiry, so the previous certificate is refused as soon as the serials differ.\<close>

theorem renew_replaces_certificate:
  assumes "db_ok d" "Renew x e configured d ctx csrDER = (d', Inr (pem, expires))"
  shows "\<exists>r serial. mtlsID ctx = Inr (a_id r) \<and> r \<in> set (agents d) \<and> a_revoked r = None
    \<and> (\<exists>t. a_expires r = Some t \<and> unix_milli (env_clock e 0) \<le> t)
    \<and> (\<forall>e2 s now. \<not> env_db_fails e2 0 \<longrightarrow> (AuthorizeConnection e2 0 d' (a_id r) s now = Inr ()
         \<longleftrightarrow> s = serial \<and> unix_milli now \<le> unix_milli (env_clock e 2 + default_validity configured)))"
proof -
  obtain ident serial where s: "mtlsID ctx = Inr ident" "AuthorizeRenewal e 0 d ident (env_clock e 0) = Inr ()"
    "UpdateCertificate e 1 d ident serial (env_clock e 2 + default_validity configured) = (d', Inr ())"
    using Renew_success [where x = x and e = e and configured = configured and d = d and ctx = ctx and csrDER = csrDER]
      assms(2) by auto
  obtain r where r: "r \<in> set (agents d)" "a_id r = ident" "a_revoked r = None"
    "\<exists>t. a_expires r = Some t \<and> unix_milli (env_clock e 0) \<le> t"
    using s(2) by (auto simp: AuthorizeRenewal_def sql_query_row_Inr split: sum.splits option.splits if_splits
        dest: find_Some_mem)
  let ?P = "\<lambda>r. a_id r = ident \<and> a_revoked r = None"
  let ?f = "\<lambda>r. r\<lparr>a_serial := Some serial, a_expires := Some (unix_milli (env_clock e 2 + default_validity configured))\<rparr>"
  have d': "db_ok d'" "agents d' = map (\<lambda>r. if ?P r then ?f r else r) (agents d)"
    using UpdateCertificate_Inr [OF s(3)] by auto
  have "?f r \<in> set (agents d')" unfolding d'(2) by (rule update_mem) (use r in auto)
  from AuthorizeConnection_row [OF d'(1) this]
  have "\<not> env_db_fails e2 0 \<Longrightarrow> (AuthorizeConnection e2 0 d' ident t now = Inr ()
      \<longleftrightarrow> t = serial \<and> unix_milli now \<le> unix_milli (env_clock e 2 + default_validity configured))" for e2 t now
    using r by (auto simp: eq_commute)
  then show ?thesis using s(1) r by blast
qed

theorem renew_replaces_certificate_witness:
  "\<exists>d' out serial. Renew toy_x509 (calm 0) hour demo_tokens (demo_ctx\<lparr>cx_certs := Some [(''a'', ''1f'')]\<rparr>) ''key'' = (d', Inr out)
    \<and> AuthorizeConnection (calm 0) 0 d' ''a'' serial 0 = Inr ()"
proof -
  let ?ctx = "demo_ctx\<lparr>cx_certs := Some [(''a'', ''1f'')]\<rparr>"
  let ?s = "serial_text (map (\<lambda>i. char_of (i + 1)) [0..<16])"
  have s: "?s \<notin> {''1f'', ''2f''}" by code_simp
  have "SignAgentCSR toy_x509 (calm 0) 0 ''key'' ''a'' 0 (default_validity hour) = Inr (''PEM'' @ ''a'' @ ?s, ?s)"
    by (simp add: SignAgentCSR_def toy_x509_def randomSerial_def del: upt_rec_numeral)
  moreover have "ok (snd (UpdateCertificate (calm 0) (Suc 0) demo_tokens ''a'' ?s (default_validity hour)))"
    using s by (simp add: UpdateCertificate_def sql_exec_def set_certificate_def update_rows_def demo_tokens_def
      db_ok_def table_ok_defs empty_db_def unique_opt_def List.map_filter_def refers_def del: upt_rec_numeral)
  then obtain d2 where "UpdateCertificate (calm 0) (Suc 0) demo_tokens ''a'' ?s (default_validity hour) = (d2, Inr ())"
    using ok_snd by blast
  moreover have "mtlsID ?ctx = Inr ''a''" by (simp add: mtlsID_def)
  moreover have "AuthorizeRenewal (calm 0) 0 demo_tokens ''a'' 0 = Inr ()"
    by (simp add: AuthorizeRenewal_def sql_query_row_def demo_tokens_def unix_milli_0)
  ultimately have "ok (snd (Renew toy_x509 (calm 0) hour demo_tokens ?ctx ''key''))"
    by (simp add: Renew_def Let_def del: upt_rec_numeral)
  then obtain d' out where re: "Renew toy_x509 (calm 0) hour demo_tokens ?ctx ''key'' = (d', Inr out)"
    by (metis ok_iff prod.collapse)
  have "mtlsID ?ctx = Inr ''a''" by (simp add: mtlsID_def)
  then obtain serial where "AuthorizeConnection (calm 0) 0 d' ''a'' serial 0 = Inr ()"
    using renew_replaces_certificate [OF demo_tokens_ok, of toy_x509 "calm 0" hour ?ctx "''key''" d' "fst out" "snd out"] re
    by (auto simp: default_validity_def go_time)
  then show ?thesis using re by blast
qed

section \<open>Revocation\<close>

definition agent_revoked :: "string \<Rightarrow> db \<Rightarrow> bool" where
  "agent_revoked ident d \<longleftrightarrow> (\<exists>r \<in> set (agents d). a_id r = ident \<and> a_revoked r \<noteq> None)"

datatype identity_op =
    DoEnroll env duration bytes string string
  | DoRenew env duration ctx bytes
  | DoRevoke env string time

definition identity_step :: "crypto \<Rightarrow> x509 \<Rightarrow> identity_op \<Rightarrow> db \<Rightarrow> db \<times> unit" where
  "identity_step c x a d = (case a of
      DoEnroll e validity csrDER token hostname \<Rightarrow> (fst (Enroll c x [] e validity d csrDER token hostname), ())
    | DoRenew e validity ctx csrDER \<Rightarrow> (fst (Renew x e validity d ctx csrDER), ())
    | DoRevoke e ident now \<Rightarrow> (fst (RevokeIdentity e 0 d ident now), ()))"

lemma revoked_grows:
  assumes "agent_revoked ident d" "agents d' = map g (agents d) @ rs"
    "\<And>r. a_id (g r) = a_id r \<and> (a_revoked r \<noteq> None \<longrightarrow> a_revoked (g r) \<noteq> None)"
  shows "agent_revoked ident d'"
proof -
  obtain r where "r \<in> set (agents d)" "a_id r = ident" "a_revoked r \<noteq> None"
    using assms(1) by (auto simp: agent_revoked_def)
  then have "g r \<in> set (agents d')" "a_id (g r) = ident" "a_revoked (g r) \<noteq> None" using assms(2,3) by auto
  then show ?thesis unfolding agent_revoked_def by blast
qed

lemma ConsumeToken_agents: "agents (fst (ConsumeToken c e k d token now)) = agents d"
  by (auto simp: ConsumeToken_def sql_exec_def consume_row_def Let_def split: option.split sum.split prod.split)

lemma RegisterWithMetadata_agents: "\<exists>rs. agents (fst (RegisterWithMetadata e k d ident serial hostname expires created)) = agents d @ rs"
  by (auto simp: RegisterWithMetadata_def sql_exec_def insert_agent_def split: sum.split prod.split)

lemma Enroll_cases: "case Enroll c x caPEM e configured d csrDER token hostname of (d', res) \<Rightarrow>
    d' = d \<or> (\<exists>d1 r1. ConsumeToken c e 0 d token (env_clock e 0) = (d1, r1) \<and> (d' = d1
      \<or> (\<exists>ident serial expires created r2. RegisterWithMetadata e 1 d1 ident serial hostname expires created = (d', r2))))"
  unfolding Enroll_def Let_def by (simp split: sum.split prod.split) blast

lemma Enroll_cases_fst:
  obtains (same) "fst (Enroll c x caPEM e configured d csrDER token hostname) = d"
  | (consumed) "fst (Enroll c x caPEM e configured d csrDER token hostname) = fst (ConsumeToken c e 0 d token (env_clock e 0))"
  | (registered) ident serial expires created where "fst (Enroll c x caPEM e configured d csrDER token hostname)
      = fst (RegisterWithMetadata e 1 (fst (ConsumeToken c e 0 d token (env_clock e 0))) ident serial hostname expires created)"
  using Enroll_cases [where c = c and x = x and caPEM = caPEM and e = e and configured = configured and d = d
        and csrDER = csrDER and token = token and hostname = hostname]
  by (cases "Enroll c x caPEM e configured d csrDER token hostname") (auto, metis fst_conv)

lemma Enroll_agents: "\<exists>rs. agents (fst (Enroll c x caPEM e configured d csrDER token hostname)) = agents d @ rs"
proof (cases rule: Enroll_cases_fst [where c = c and x = x and caPEM = caPEM and e = e and configured = configured
      and d = d and csrDER = csrDER and token = token and hostname = hostname])
  case (registered ident serial expires created)
  then show ?thesis
    using RegisterWithMetadata_agents [of e 1 "fst (ConsumeToken c e 0 d token (env_clock e 0))" ident serial hostname expires created]
    by (simp add: ConsumeToken_agents)
qed (simp_all add: ConsumeToken_agents)

lemma Renew_cases_fst:
  obtains (same) "fst (Renew x e configured d ctx csrDER) = d"
  | (updated) ident serial expires where "fst (Renew x e configured d ctx csrDER) = fst (UpdateCertificate e 1 d ident serial expires)"
proof (cases "Renew x e configured d ctx csrDER")
  case (Pair d' res)
  then show ?thesis
    using Renew_success [where x = x and e = e and configured = configured and d = d and ctx = ctx and csrDER = csrDER] that
    by (cases "ok res") (simp_all, metis fst_conv, blast)
qed

lemma Renew_agents: "\<exists>g. (\<forall>r. a_id (g r) = a_id r \<and> a_revoked (g r) = a_revoked r)
    \<and> agents (fst (Renew x e configured d ctx csrDER)) = map g (agents d)"
proof (cases rule: Renew_cases_fst [where x = x and e = e and configured = configured and d = d and ctx = ctx and csrDER = csrDER])
  case same
  then show ?thesis by (intro exI [of _ "\<lambda>r. r"]) simp
next
  case (updated ident serial expires)
  then show ?thesis
  proof (cases "agents (fst (UpdateCertificate e 1 d ident serial expires)) = agents d")
    case True
    then show ?thesis using updated by (intro exI [of _ "\<lambda>r. r"]) simp
  next
    case False
    then have "agents (fst (UpdateCertificate e 1 d ident serial expires)) = map (\<lambda>r. if a_id r = ident \<and> a_revoked r = None
      then r\<lparr>a_serial := Some serial, a_expires := Some (unix_milli expires)\<rparr> else r) (agents d)"
      using UpdateCertificate_rows [of e 1 d ident serial expires] by blast
    then show ?thesis using updated
      by (intro exI [of _ "\<lambda>r. if a_id r = ident \<and> a_revoked r = None
        then r\<lparr>a_serial := Some serial, a_expires := Some (unix_milli expires)\<rparr> else r"]) simp
  qed
qed

lemma Revoke_agents: "agents (fst (RevokeIdentity e k d ident now)) = agents d
    \<or> agents (fst (RevokeIdentity e k d ident now)) = map (\<lambda>r. if a_id r = ident \<and> a_revoked r = None
      then r\<lparr>a_revoked := Some (unix_milli now)\<rparr> else r) (agents d)"
  by (auto simp: RevokeIdentity_def sql_exec_def set_revoked_def Let_def split: sum.split prod.split)

lemma identity_step_revoked:
  assumes "agent_revoked ident d"
  shows "agent_revoked ident (fst (identity_step c x a d))"
proof (cases a)
  case (DoEnroll e validity csrDER token hostname)
  obtain rs where "agents (fst (Enroll c x [] e validity d csrDER token hostname)) = agents d @ rs"
    using Enroll_agents by blast
  then show ?thesis using DoEnroll assms by (intro revoked_grows [OF assms, of _ "\<lambda>r. r" rs]) (simp_all add: identity_step_def)
next
  case (DoRenew e validity ctx csrDER)
  obtain g where g: "\<forall>r. a_id (g r) = a_id r \<and> a_revoked (g r) = a_revoked r"
    "agents (fst (Renew x e validity d ctx csrDER)) = map g (agents d)"
    using Renew_agents by blast
  then show ?thesis using DoRenew
    by (intro revoked_grows [OF assms, of _ g "[]"]) (simp_all add: identity_step_def)
next
  case (DoRevoke e who now)
  show ?thesis using DoRevoke Revoke_agents [of e 0 d who now] assms
      revoked_grows [OF assms, of "fst (RevokeIdentity e 0 d who now)" "\<lambda>r. if a_id r = who \<and> a_revoked r = None
      then r\<lparr>a_revoked := Some (unix_milli now)\<rparr> else r" "[]"]
    by (auto simp: identity_step_def agent_revoked_def)
qed

lemma identity_step_ok:
  assumes "db_ok d"
  shows "db_ok (fst (identity_step c x a d))"
proof (cases a)
  case (DoEnroll e validity csrDER token hostname)
  have reg: "db_ok d1 \<Longrightarrow> db_ok (fst (RegisterWithMetadata e 1 d1 ident serial hostname expires created))" for d1 ident serial expires created
    by (auto simp: RegisterWithMetadata_def sql_exec_def split: sum.split prod.split)
  have "db_ok (fst (Enroll c x [] e validity d csrDER token hostname))"
    by (cases rule: Enroll_cases_fst [where c = c and x = x and caPEM = "[]" and e = e and configured = validity
      and d = d and csrDER = csrDER and token = token and hostname = hostname])
      (use assms reg ConsumeToken_ok [OF assms] in simp_all)
  then show ?thesis using DoEnroll by (simp add: identity_step_def)
next
  case (DoRenew e validity ctx csrDER)
  have upd: "db_ok (fst (UpdateCertificate e 1 d ident serial expires))" for ident serial expires
    using assms by (auto simp: UpdateCertificate_def sql_exec_def Let_def split: sum.split prod.split)
  have "db_ok (fst (Renew x e validity d ctx csrDER))"
    by (cases rule: Renew_cases_fst [where x = x and e = e and configured = validity and d = d and ctx = ctx and csrDER = csrDER])
      (use assms upd in simp_all)
  then show ?thesis using DoRenew by (simp add: identity_step_def)
next
  case (DoRevoke e who now)
  then show ?thesis using assms
    by (auto simp: identity_step_def RevokeIdentity_def sql_exec_def Let_def split: sum.split prod.split)
qed

text \<open>C8. Revocation is final: once an agent is revoked, no enrollments, renewals and revocations
  whatsoever make any certificate of that identity acceptable again, for connecting or renewing.\<close>

theorem revoked_forever:
  assumes "db_ok d" "agent_revoked ident d"
  shows "AuthorizeConnection e 0 (run_steps (identity_step c x) ops d) ident serial now \<noteq> Inr ()
    \<and> (mtlsID ctx = Inr ident \<longrightarrow> \<not> ok (snd (Renew x e configured (run_steps (identity_step c x) ops d) ctx csrDER)))"
proof -
  have "db_ok (run_steps (identity_step c x) ops d) \<and> agent_revoked ident (run_steps (identity_step c x) ops d)"
    using assms by (induction ops arbitrary: d) (simp_all add: identity_step_ok identity_step_revoked)
  then obtain r where r: "db_ok (run_steps (identity_step c x) ops d)" "r \<in> set (agents (run_steps (identity_step c x) ops d))"
    "a_id r = ident" "a_revoked r \<noteq> None" by (auto simp: agent_revoked_def)
  have f: "List.find (\<lambda>r. a_id r = ident) (agents (run_steps (identity_step c x) ops d)) = Some r"
    by (rule find_agent [OF r(1-3)])
  have "AuthorizeRenewal e 0 (run_steps (identity_step c x) ops d) ident (env_clock e 0) \<noteq> Inr ()"
    using f r(4) by (auto simp: AuthorizeRenewal_def sql_query_row_def split: option.splits)
  then have "mtlsID ctx = Inr ident \<Longrightarrow> \<not> ok (snd (Renew x e configured (run_steps (identity_step c x) ops d) ctx csrDER))"
    by (cases "AuthorizeRenewal e 0 (run_steps (identity_step c x) ops d) ident (env_clock e 0)") (auto simp: Renew_def)
  moreover have "AuthorizeConnection e 0 (run_steps (identity_step c x) ops d) ident serial now \<noteq> Inr ()"
    using f r(4) by (auto simp: AuthorizeConnection_def sql_query_row_def split: option.splits)
  ultimately show ?thesis by blast
qed

theorem revoked_forever_witness:
  "AuthorizeConnection (calm 0) 0 (run_steps (identity_step toy_crypto toy_x509)
    [DoRenew (calm 0) hour (demo_ctx\<lparr>cx_certs := Some [(''b'', ''2f'')]\<rparr>) ''key''] demo_tokens) ''b'' ''2f'' 0 \<noteq> Inr ()"
proof -
  have "agent_revoked ''b'' demo_tokens" by (simp add: agent_revoked_def demo_tokens_def)
  then show ?thesis using revoked_forever [OF demo_tokens_ok] by blast
qed

end
