(* ===== verification/SshSession.thy ===== *)
theory SshSession
  imports Api Store Encoding
begin

text \<open>
  \<open>internal/ssh/session.go\<close>: the SSH sessions of the validator, their loopback ports and
  binding tokens, and the states they go through. The manager's mutex makes \<open>Create\<close> and
  \<open>Ready\<close> one step each; the statements of \<open>Close\<close> and \<open>Reconcile\<close> are single.
  The JSON of the audit record is a parameter.
\<close>

unbundle bit_operations_syntax

section \<open>The manager\<close>

record Manager =
  mg_min :: u32
  mg_max :: u32
  mg_tokens :: "string \<Rightarrow> bytes option"

definition NewManager :: "u32 \<Rightarrow> u32 \<Rightarrow> Manager" where
  "NewManager mn mx = \<lparr>mg_min = mn, mg_max = mx, mg_tokens = Map.empty\<rparr>"

definition randomBytes :: "env \<Rightarrow> nat \<Rightarrow> nat \<Rightarrow> bytes result" where
  "randomBytes e k n = rand_read e k n"

definition random :: "env \<Rightarrow> nat \<Rightarrow> nat \<Rightarrow> string result" where
  "random e k n = (case randomBytes e k n of Inl err \<Rightarrow> Inl err | Inr b \<Rightarrow> Inr (hex_encode b))"

text \<open>The comparison of tokens, which looks at every byte.\<close>

definition equal_tokens :: "bytes \<Rightarrow> bytes \<Rightarrow> bool" where
  "equal_tokens a b = (if List.length a \<noteq> List.length b then False
     else fold (\<lambda>(x, y) v. v OR (byte x XOR byte y)) (zip a b) 0 = 0)"

definition port_count :: "u32 \<Rightarrow> int \<Rightarrow> db \<Rightarrow> nat" where
  "port_count port now d = List.length (filter
     (\<lambda>r. s_port r = Some port \<and> s_state r \<in> {1, 2} \<and> s_expires r > now) (ssh_sessions d))"

lemma unat_suc: "(p :: u32) \<noteq> - 1 \<Longrightarrow> unat (p + 1) = Suc (unat p)"
  by (metis Suc_eq_plus1 add.commute add_neg_numeral_special(7) eq_neg_iff_add_eq_0 unatSuc)

text \<open>\<open>fails port\<close> says whether the query for that port fails.\<close>

function allocatePort :: "(u32 \<Rightarrow> bool) \<Rightarrow> int \<Rightarrow> db \<Rightarrow> u32 \<Rightarrow> u32 \<Rightarrow> u32 result" where
  "allocatePort fails now d port mx =
    (if port > mx then Inl (Error ''no SSH loopback ports available'')
     else if fails port then Inl StorageFailure
     else if port_count port now d = 0 then Inr port
     else if port = - 1 then Inl (Error ''no SSH loopback ports available'')
     else allocatePort fails now d (port + 1) mx)"
  by pat_completeness auto

termination
proof (relation "measure (\<lambda>(fails, now, d, port, mx). Suc (unat mx) - unat port)", goal_cases)
  case (2 fails now d port mx)
  then have "unat port \<le> unat mx" "unat (port + 1) = Suc (unat port)"
    by (simp_all add: not_less word_le_nat_alt unat_suc)
  then show ?case by simp
qed simp

declare allocatePort.simps [simp del]

definition new_session :: "string \<Rightarrow> string \<Rightarrow> string \<Rightarrow> bytes \<Rightarrow> u32 \<Rightarrow> time \<Rightarrow> time \<Rightarrow> SshRow" where
  "new_session ident actor agent key port expires now = \<lparr>s_id = ident, s_actor = actor, s_agent = agent,
     s_public_key = key, s_state = SSH_PREPARING, s_port = Some port, s_expires = unix_milli expires,
     s_created = unix_milli now, s_host_key = None\<rparr>"

definition audit_row :: "string \<Rightarrow> string \<Rightarrow> string \<Rightarrow> string \<Rightarrow> string \<Rightarrow> int \<Rightarrow> bytes \<Rightarrow> AuditRow" where
  "audit_row ident actor agent action reason occurred metadata = \<lparr>e_id = ident, e_actor = Some actor,
     e_agent = Some agent, e_action = action, e_reason = reason, e_occurred = occurred, e_metadata = metadata\<rparr>"

definition insert_session :: "SshRow \<Rightarrow> db \<Rightarrow> db \<times> nat" where
  "insert_session row d = (d\<lparr>ssh_sessions := ssh_sessions d @ [row]\<rparr>, 1)"

definition insert_audit :: "AuditRow \<Rightarrow> db \<Rightarrow> db \<times> nat" where
  "insert_audit row d = (d\<lparr>audit_events := audit_events d @ [row]\<rparr>, 1)"

text \<open>
  \<open>Create\<close>: statement 0 is BEGIN, 1 and 2 the inserts, 3 COMMIT, and 4 + port the query for
  that port. \<open>md\<close> makes the audit record's metadata from session, port and expiry.
\<close>

definition Create :: "(string \<Rightarrow> u32 \<Rightarrow> int \<Rightarrow> bytes) \<Rightarrow> env \<Rightarrow> Manager \<Rightarrow> db \<Rightarrow> string \<Rightarrow> string \<Rightarrow> bytes
    \<Rightarrow> string \<Rightarrow> duration \<Rightarrow> Manager \<times> db \<times> (SshSession \<times> PrepareSsh) result" where
  "Create md e m d actor agent key reason ttl =
    (if actor = [] \<or> agent = [] \<or> key = [] \<or> reason = [] \<or> ttl \<le> 0 \<or> ttl > hour
     then (m, d, Inl (Error ''invalid SSH session request''))
     else let now = env_clock e 0; expires = now + ttl in
     if env_db_fails e 0 then (m, d, Inl StorageFailure)
     else case allocatePort (\<lambda>p. env_db_fails e (4 + unat p)) (unix_milli now) d (mg_min m) (mg_max m) of
       Inl err \<Rightarrow> (m, d, Inl err)
     | Inr port \<Rightarrow> (case random e 0 16 of
         Inl err \<Rightarrow> (m, d, Inl err)
       | Inr ident \<Rightarrow> (case randomBytes e 1 32 of
           Inl err \<Rightarrow> (m, d, Inl err)
         | Inr token \<Rightarrow>
            (case sql_exec (env_db_fails e 1) (insert_session (new_session ident actor agent key port expires now)) d of
               (d1, Inl err) \<Rightarrow> (m, d, Inl err)
             | (d1, Inr n1) \<Rightarrow> (case random e 2 16 of
                 Inl err \<Rightarrow> (m, d, Inl err)
               | Inr auditID \<Rightarrow>
                  (case sql_exec (env_db_fails e 2) (insert_audit (audit_row auditID actor agent ''ssh_session'' reason
                       (unix_milli now) (md ident port (unix_milli expires)))) d1 of
                     (d2, Inl err) \<Rightarrow> (m, d, Inl err)
                   | (d2, Inr n2) \<Rightarrow>
                      if env_db_fails e 3 then (m, d, Inl StorageFailure)
                      else (m\<lparr>mg_tokens := (mg_tokens m)(ident \<mapsto> token)\<rparr>, d2,
                        Inr (\<lparr>ss_id = ident, ss_agent = agent, ss_state = SSH_PREPARING, ss_port = port,
                               ss_expires = unix_milli expires, ss_host_key = []\<rparr>,
                             \<lparr>ps_session = ident, ps_key = key, ps_expires = unix_milli expires,
                               ps_port = port, ps_token = token\<rparr>))))))))"

text \<open>\<open>get\<close>: statement \<open>k\<close> reads the session; a host key given replaces the stored one.\<close>

definition get_session :: "bool \<Rightarrow> db \<Rightarrow> string \<Rightarrow> bytes \<Rightarrow> SshSession result" where
  "get_session fails d ident hostKey =
    (case sql_query_row fails (\<lambda>r. s_id r = ident) (ssh_sessions d) of
       Inl err \<Rightarrow> Inl err
     | Inr r \<Rightarrow> Inr \<lparr>ss_id = s_id r, ss_agent = s_agent r, ss_state = s_state r,
         ss_port = (case s_port r of None \<Rightarrow> 0 | Some p \<Rightarrow> p), ss_expires = s_expires r,
         ss_host_key = (if hostKey = [] then (case s_host_key r of None \<Rightarrow> [] | Some h \<Rightarrow> h) else hostKey)\<rparr>)"

definition mark_ready :: "string \<Rightarrow> bytes \<Rightarrow> int \<Rightarrow> db \<Rightarrow> db \<times> nat" where
  "mark_ready ident hostKey now d =
    (let u = update_rows (\<lambda>r. s_id r = ident \<and> s_state r = 1 \<and> s_expires r > now)
       (\<lambda>r. r\<lparr>s_state := 2, s_host_key := Some hostKey\<rparr>) (ssh_sessions d)
     in (d\<lparr>ssh_sessions := fst u\<rparr>, snd u))"

definition Ready :: "env \<Rightarrow> Manager \<Rightarrow> db \<Rightarrow> string \<Rightarrow> u32 \<Rightarrow> bytes \<Rightarrow> bytes \<Rightarrow> Manager \<times> db \<times> SshSession result" where
  "Ready e m d ident port token hostKey = (case mg_tokens m ident of
      None \<Rightarrow> (m, d, Inl (Error ''SSH session binding mismatch''))
    | Some want \<Rightarrow>
       if \<not> equal_tokens want token then (m, d, Inl (Error ''SSH session binding mismatch''))
       else (case sql_exec (env_db_fails e 0) (mark_ready ident hostKey (unix_milli (env_clock e 0))) d of
         (d', Inl err) \<Rightarrow> (m, d', Inl err)
       | (d', Inr n) \<Rightarrow>
          if n \<noteq> 1 then (m, d', Inl (Error ''SSH session not ready''))
          else (m\<lparr>mg_tokens := (mg_tokens m)(ident := None)\<rparr>, d', get_session (env_db_fails e 1) d' ident hostKey)))"

definition Get :: "env \<Rightarrow> db \<Rightarrow> string \<Rightarrow> SshSession result" where
  "Get e d ident = get_session (env_db_fails e 0) d ident []"

definition Bridge :: "env \<Rightarrow> db \<Rightarrow> string \<Rightarrow> string \<Rightarrow> string result" where
  "Bridge e d ident actor =
    (if ident = [] \<or> actor = [] then Inl (Error ''session and actor required'')
     else case sql_query_row (env_db_fails e 0) (\<lambda>r. s_id r = ident) (ssh_sessions d) of
       Inl err \<Rightarrow> Inl (Error ''SSH session not found'')
     | Inr r \<Rightarrow>
        if s_actor r \<noteq> actor then Inl (Error ''SSH session not owned by actor'')
        else if s_state r \<noteq> SSH_READY then Inl (Error ''SSH session not ready'')
        else if unix_milli (env_clock e 0) \<ge> s_expires r then Inl (Error ''SSH session expired'')
        else Inr (s_agent r))"

definition mark_closed :: "string \<Rightarrow> db \<Rightarrow> db \<times> nat" where
  "mark_closed ident d =
    (let u = update_rows (\<lambda>r. s_id r = ident \<and> s_state r \<in> {1, 2})
       (\<lambda>r. r\<lparr>s_state := 3, s_port := None\<rparr>) (ssh_sessions d)
     in (d\<lparr>ssh_sessions := fst u\<rparr>, snd u))"

definition Close :: "env \<Rightarrow> Manager \<Rightarrow> db \<Rightarrow> string \<Rightarrow> string \<Rightarrow> Manager \<times> db \<times> SshSession result" where
  "Close e m d ident reason =
    (if reason = [] then (m, d, Inl (Error ''close reason required''))
     else let m' = m\<lparr>mg_tokens := (mg_tokens m)(ident := None)\<rparr> in
       (case sql_exec (env_db_fails e 0) (mark_closed ident) d of
          (d', Inl err) \<Rightarrow> (m', d', Inl err)
        | (d', Inr n) \<Rightarrow> (m', d', get_session (env_db_fails e 1) d' ident [])))"

definition mark_expired :: "int \<Rightarrow> db \<Rightarrow> db \<times> nat" where
  "mark_expired now d =
    (let u = update_rows (\<lambda>r. s_state r \<in> {1, 2} \<and> s_expires r \<le> now)
       (\<lambda>r. r\<lparr>s_state := 4, s_port := None\<rparr>) (ssh_sessions d)
     in (d\<lparr>ssh_sessions := fst u\<rparr>, snd u))"

definition Reconcile :: "env \<Rightarrow> Manager \<Rightarrow> db \<Rightarrow> time \<Rightarrow> Manager \<times> db \<times> unit result" where
  "Reconcile e m d now = (case sql_exec (env_db_fails e 0) (mark_expired (unix_milli now)) d of
      (d', Inl err) \<Rightarrow> (m\<lparr>mg_tokens := Map.empty\<rparr>, d', Inl err)
    | (d', Inr n) \<Rightarrow> (m\<lparr>mg_tokens := Map.empty\<rparr>, d', Inr ()))"

section \<open>Ports\<close>

lemma fold_or_zero: "fold (\<lambda>(x, y) v. v OR (byte x XOR byte y)) zs v = 0
    \<longleftrightarrow> v = 0 \<and> (\<forall>(x, y) \<in> set zs. x = y)"
proof (induction zs arbitrary: v)
  case (Cons z zs)
  obtain x y where z: "z = (x, y)" by fastforce
  have "byte x XOR byte y = 0 \<longleftrightarrow> byte x = byte y"
    by (auto simp: bit_eq_iff bit_xor_iff)
  then show ?case using Cons by (auto simp: z or_eq_0_iff)
qed auto

lemma equal_tokens_iff [simp]: "equal_tokens a b \<longleftrightarrow> a = b"
proof (cases "List.length a = List.length b")
  case True
  then have "(\<forall>(x, y) \<in> set (zip a b). x = y) \<longleftrightarrow> a = b"
    by (induction a b rule: list_induct2) auto
  then show ?thesis using True by (simp add: equal_tokens_def fold_or_zero)
qed (auto simp: equal_tokens_def)

text \<open>Port allocation always ends, and returns the lowest port of the range that no
  preparing or ready, unexpired session holds; it reports exhaustion exactly when every port of the
  range is held.\<close>

theorem allocate_lowest_free:
  assumes "\<And>p. \<not> fails p"
  shows "(case allocatePort fails now d mn mx of
      Inr p \<Rightarrow> mn \<le> p \<and> p \<le> mx \<and> port_count p now d = 0 \<and> (\<forall>q. mn \<le> q \<longrightarrow> q < p \<longrightarrow> port_count q now d \<noteq> 0)
    | Inl err \<Rightarrow> err = Error ''no SSH loopback ports available''
        \<and> (\<forall>q. mn \<le> q \<longrightarrow> q \<le> mx \<longrightarrow> port_count q now d \<noteq> 0))"
  using assms
proof (induction fails now d mn mx rule: allocatePort.induct)
  case (1 fails now d port mx)
  have step: "q = port \<or> port + 1 \<le> q" if "port \<le> q" "port \<noteq> - 1" for q
    using that by (metis inc_le order_le_imp_less_or_eq)
  have last: "q = port" if "port \<le> q" "port = - 1" for q
    using that by (simp add: word_order.extremum_uniqueI)
  have up: "port \<le> p" if "port + 1 \<le> p" "port \<noteq> - 1" for p
    using that by (simp add: word_le_nat_alt unat_suc)
  show ?case
  proof (cases "port > mx \<or> port_count port now d = 0 \<or> port = - 1")
    case True
    then show ?thesis using 1(2) last by (subst allocatePort.simps) (auto simp: not_less)
  next
    case False
    then have IH: "case allocatePort fails now d (port + 1) mx of
      Inr p \<Rightarrow> port + 1 \<le> p \<and> p \<le> mx \<and> port_count p now d = 0 \<and> (\<forall>q. port + 1 \<le> q \<longrightarrow> q < p \<longrightarrow> port_count q now d \<noteq> 0)
    | Inl err \<Rightarrow> err = Error ''no SSH loopback ports available''
        \<and> (\<forall>q. port + 1 \<le> q \<longrightarrow> q \<le> mx \<longrightarrow> port_count q now d \<noteq> 0)"
      using 1 by blast
    have "allocatePort fails now d port mx = allocatePort fails now d (port + 1) mx"
      using False 1(2) by (subst allocatePort.simps) simp
    then show ?thesis
      using IH False step up by (auto split: sum.splits)
  qed
qed

text \<open>One port of two is held by a live session; the allocation gives the other.\<close>

definition demo_db :: db where
  "demo_db = empty_db\<lparr>users := [\<lparr>u_id = ''u'', u_username = ''user'', u_hash = [], u_role = 3, u_disabled = False, u_created = 0\<rparr>],
     agents := [\<lparr>a_id = ''a'', a_serial = None, a_expires = None, a_revoked = None, a_hostname = [], a_boot_id = [],
       a_metadata = [], a_created = 0\<rparr>],
     ssh_sessions := [\<lparr>s_id = ''s'', s_actor = ''u'', s_agent = ''a'', s_public_key = ''k'', s_state = 1,
       s_port = Some 22000, s_expires = 100, s_created = 0, s_host_key = None\<rparr>]\<rparr>"

lemma demo_db_ok: "db_ok demo_db"
  by code_simp

theorem allocate_lowest_free_witness:
  "\<exists>p. allocatePort (\<lambda>p. False) 50 demo_db 22000 22001 = Inr p \<and> 22000 \<le> p \<and> p \<le> 22001 \<and> port_count p 50 demo_db = 0"
proof -
  have free: "port_count 22001 50 demo_db = 0" by code_simp
  have "(22000::u32) \<le> 22001" "(22001::u32) \<le> 22001" by simp_all
  then show ?thesis
    using allocate_lowest_free [where fails = "\<lambda>p. False" and now = 50 and d = demo_db and mn = 22000 and mx = 22001]
      free by (auto split: sum.splits)
qed

section \<open>The states of a session\<close>

datatype ssh_op =
    OpCreate env string string bytes string duration
  | OpReady env string u32 bytes bytes
  | OpClose env string string
  | OpReconcile env time

type_synonym ssh_state = "Manager \<times> db"

definition ssh_step :: "(string \<Rightarrow> u32 \<Rightarrow> int \<Rightarrow> bytes) \<Rightarrow> ssh_op \<Rightarrow> ssh_state \<Rightarrow> ssh_state \<times> bool" where
  "ssh_step md a s = (case s of (m, d) \<Rightarrow> (case a of
      OpCreate e actor agent key reason ttl \<Rightarrow>
        (case Create md e m d actor agent key reason ttl of (m', d', res) \<Rightarrow> ((m', d'), False))
    | OpReady e ident port token hostKey \<Rightarrow>
        (case Ready e m d ident port token hostKey of (m', d', res) \<Rightarrow> ((m', d'), ok res))
    | OpClose e ident reason \<Rightarrow> (case Close e m d ident reason of (m', d', res) \<Rightarrow> ((m', d'), False))
    | OpReconcile e now \<Rightarrow> (case Reconcile e m d now of (m', d', res) \<Rightarrow> ((m', d'), False))))"

text \<open>Preparing, ready, closed and expired, and what may follow what.\<close>

definition ssh_next :: "int \<Rightarrow> int \<Rightarrow> bool" where
  "ssh_next s t \<longleftrightarrow> s = t \<or> (s = SSH_PREPARING \<and> t = SSH_READY)
     \<or> (s \<in> {SSH_PREPARING, SSH_READY} \<and> t \<in> {SSH_CLOSED, SSH_EXPIRED})"

text \<open>What a step may do to a row: move its state, give up its port, learn its host key.\<close>

definition row_next :: "SshRow \<Rightarrow> SshRow \<Rightarrow> bool" where
  "row_next r r' \<longleftrightarrow> s_id r' = s_id r \<and> s_actor r' = s_actor r \<and> s_agent r' = s_agent r
     \<and> s_public_key r' = s_public_key r \<and> s_expires r' = s_expires r \<and> s_created r' = s_created r
     \<and> ssh_next (s_state r) (s_state r')
     \<and> (s_port r' = s_port r \<or> s_port r' = None \<and> s_state r' \<in> {SSH_CLOSED, SSH_EXPIRED})"

definition rows_next :: "SshRow list \<Rightarrow> SshRow list \<Rightarrow> bool" where
  "rows_next rs rs' \<longleftrightarrow> (\<exists>new. list_all2 row_next rs (take (List.length rs) rs')
     \<and> rs' = take (List.length rs) rs' @ new \<and> (\<forall>r \<in> set new. s_state r = SSH_PREPARING))"

lemma row_next_refl [simp]: "row_next r r"
  by (simp add: row_next_def ssh_next_def)

lemma rows_next_refl [simp]: "rows_next rs rs"
  by (auto simp: rows_next_def list_all2_same)

lemma rows_next_map:
  assumes "\<And>r. P r \<Longrightarrow> row_next r (f r)"
  shows "rows_next rs (map (\<lambda>r. if P r then f r else r) rs)"
  using assms by (auto simp: rows_next_def list_all2_conv_all_nth)

lemma rows_next_append: "s_state r = SSH_PREPARING \<Longrightarrow> rows_next rs (rs @ [r])"
  by (auto simp: rows_next_def list_all2_same)

lemma Create_cases: "case Create md e m d actor agent key reason ttl of (m', d', res) \<Rightarrow>
    (case res of
       Inl err \<Rightarrow> m' = m \<and> d' = d
     | Inr (sess, prep) \<Rightarrow> (\<exists>port token auditID.
         allocatePort (\<lambda>p. env_db_fails e (4 + unat p)) (unix_milli (env_clock e 0)) d (mg_min m) (mg_max m) = Inr port
         \<and> ss_id sess = ps_session prep \<and> ss_port sess = port \<and> ps_port prep = port \<and> ps_token prep = token
         \<and> List.length token = 32 \<and> 0 < ttl \<and> ttl \<le> hour
         \<and> m' = m\<lparr>mg_tokens := (mg_tokens m)(ss_id sess \<mapsto> token)\<rparr>
         \<and> db_ok d' \<and> d' = d\<lparr>ssh_sessions := ssh_sessions d @ [new_session (ss_id sess) actor agent key port (env_clock e 0 + ttl) (env_clock e 0)],
             audit_events := audit_events d @ [audit_row auditID actor agent ''ssh_session'' reason
               (unix_milli (env_clock e 0)) (md (ss_id sess) port (unix_milli (env_clock e 0 + ttl)))]\<rparr>))"
proof -
  have len: "randomBytes e k n = Inr t \<Longrightarrow> List.length t = n" for k n t
    by (simp add: randomBytes_def rand_read_length)
  show ?thesis
    unfolding Create_def Let_def
    by (simp add: sql_exec_Inr insert_session_def insert_audit_def len split: sum.split prod.split)
      (auto simp: len)
qed

lemma get_session_keeps: "get_session f d ident h = Inr v \<Longrightarrow> \<exists>r. List.find (\<lambda>r. s_id r = ident) (ssh_sessions d) = Some r
    \<and> ss_id v = ident \<and> ss_agent v = s_agent r \<and> ss_state v = s_state r"
  by (auto simp: get_session_def sql_query_row_Inr split: sum.splits dest: find_Some_mem)

lemma Ready_cases: "case Ready e m d ident port token hostKey of (m', d', res) \<Rightarrow>
    (m' = m \<and> d' = d \<and> \<not> ok res)
    \<or> mg_tokens m ident = Some token
      \<and> d' = d\<lparr>ssh_sessions := map (\<lambda>r. if s_id r = ident \<and> s_state r = 1 \<and> s_expires r > unix_milli (env_clock e 0)
           then r\<lparr>s_state := 2, s_host_key := Some hostKey\<rparr> else r) (ssh_sessions d)\<rparr>
      \<and> (ok res \<longrightarrow> m' = m\<lparr>mg_tokens := (mg_tokens m)(ident := None)\<rparr> \<and> List.length (filter (\<lambda>r. s_id r = ident \<and> s_state r = 1
           \<and> s_expires r > unix_milli (env_clock e 0)) (ssh_sessions d)) = 1)"
  unfolding Ready_def
  by (auto simp: sql_exec_def mark_ready_def Let_def split: sum.split prod.split option.split)

lemma Close_cases: "case Close e m d ident reason of (m', d', res) \<Rightarrow> d' = d
    \<or> d' = d\<lparr>ssh_sessions := map (\<lambda>r. if s_id r = ident \<and> s_state r \<in> {1, 2}
         then r\<lparr>s_state := 3, s_port := None\<rparr> else r) (ssh_sessions d)\<rparr>"
  unfolding Close_def Let_def
  by (auto simp: sql_exec_def mark_closed_def Let_def split: sum.split prod.split)

lemma Reconcile_cases: "case Reconcile e m d now of (m', d', res) \<Rightarrow> d' = d
    \<or> d' = d\<lparr>ssh_sessions := map (\<lambda>r. if s_state r \<in> {1, 2} \<and> s_expires r \<le> unix_milli now
         then r\<lparr>s_state := 4, s_port := None\<rparr> else r) (ssh_sessions d)\<rparr>"
  unfolding Reconcile_def
  by (auto simp: sql_exec_def mark_expired_def Let_def split: sum.split prod.split)

text \<open>Every step keeps the database well formed and moves rows only as allowed.\<close>

lemma ssh_step_db:
  "db_ok d \<Longrightarrow> db_ok (snd (fst (ssh_step md a (m, d))))
    \<and> rows_next (ssh_sessions d) (ssh_sessions (snd (fst (ssh_step md a (m, d)))))"
proof (cases a)
  case (OpCreate e actor agent key reason ttl)
  assume ok: "db_ok d"
  obtain m' d' res where r: "Create md e m d actor agent key reason ttl = (m', d', res)" by (metis prod_cases3)
  then show ?thesis
    using ok OpCreate Create_cases [where md = md and e = e and m = m and d = d and actor = actor and agent = agent and key = key
        and reason = reason and ttl = ttl]
    by (auto simp: ssh_step_def new_session_def intro!: rows_next_append split: sum.splits)
next
  case (OpReady e ident port token hostKey)
  assume ok: "db_ok d"
  obtain m' d' res where r: "Ready e m d ident port token hostKey = (m', d', res)" by (metis prod_cases3)
  let ?P = "\<lambda>r. s_id r = ident \<and> s_state r = 1 \<and> s_expires r > unix_milli (env_clock e 0)"
  have "d' = d \<or> d' = d\<lparr>ssh_sessions := map (\<lambda>r. if ?P r then r\<lparr>s_state := 2, s_host_key := Some hostKey\<rparr> else r) (ssh_sessions d)\<rparr>"
    using Ready_cases [where e = e and m = m and d = d and ident = ident and port = port and token = token and hostKey = hostKey] r by auto
  moreover have "db_ok (d\<lparr>ssh_sessions := map (\<lambda>r. if ?P r then r\<lparr>s_state := 2, s_host_key := Some hostKey\<rparr> else r) (ssh_sessions d)\<rparr>)"
    by (rule db_ok_update_ssh [OF ok]) simp
  moreover have "rows_next (ssh_sessions d) (map (\<lambda>r. if ?P r then r\<lparr>s_state := 2, s_host_key := Some hostKey\<rparr> else r) (ssh_sessions d))"
    by (rule rows_next_map) (simp add: row_next_def ssh_next_def ssh_state_defs)
  ultimately show ?thesis using ok OpReady r by (auto simp: ssh_step_def)
next
  case (OpClose e ident reason)
  assume ok: "db_ok d"
  obtain m' d' res where r: "Close e m d ident reason = (m', d', res)" by (metis prod_cases3)
  let ?P = "\<lambda>r. s_id r = ident \<and> s_state r \<in> {1, 2}"
  have "d' = d \<or> d' = d\<lparr>ssh_sessions := map (\<lambda>r. if ?P r then r\<lparr>s_state := 3, s_port := None\<rparr> else r) (ssh_sessions d)\<rparr>"
    using Close_cases [where e = e and m = m and d = d and ident = ident and reason = reason] r by auto
  moreover have "db_ok (d\<lparr>ssh_sessions := map (\<lambda>r. if ?P r then r\<lparr>s_state := 3, s_port := None\<rparr> else r) (ssh_sessions d)\<rparr>)"
    by (rule db_ok_update_ssh [OF ok]) simp
  moreover have "rows_next (ssh_sessions d) (map (\<lambda>r. if ?P r then r\<lparr>s_state := 3, s_port := None\<rparr> else r) (ssh_sessions d))"
    by (rule rows_next_map) (auto simp: row_next_def ssh_next_def ssh_state_defs)
  ultimately show ?thesis using ok OpClose r by (auto simp: ssh_step_def)
next
  case (OpReconcile e now)
  assume ok: "db_ok d"
  obtain m' d' res where r: "Reconcile e m d now = (m', d', res)" by (metis prod_cases3)
  let ?P = "\<lambda>r. s_state r \<in> {1, 2} \<and> s_expires r \<le> unix_milli now"
  have "d' = d \<or> d' = d\<lparr>ssh_sessions := map (\<lambda>r. if ?P r then r\<lparr>s_state := 4, s_port := None\<rparr> else r) (ssh_sessions d)\<rparr>"
    using Reconcile_cases [where e = e and m = m and d = d and now = now] r by auto
  moreover have "db_ok (d\<lparr>ssh_sessions := map (\<lambda>r. if ?P r then r\<lparr>s_state := 4, s_port := None\<rparr> else r) (ssh_sessions d)\<rparr>)"
    by (rule db_ok_update_ssh [OF ok]) simp
  moreover have "rows_next (ssh_sessions d) (map (\<lambda>r. if ?P r then r\<lparr>s_state := 4, s_port := None\<rparr> else r) (ssh_sessions d))"
    by (rule rows_next_map) (auto simp: row_next_def ssh_next_def ssh_state_defs)
  ultimately show ?thesis using ok OpReconcile r by (auto simp: ssh_step_def)
qed

lemma ssh_next_trans: "ssh_next a b \<Longrightarrow> ssh_next b c \<Longrightarrow> ssh_next a c"
  by (auto simp: ssh_next_def ssh_state_defs)

lemma ssh_next_final: "ssh_next a b \<Longrightarrow> a \<in> {SSH_CLOSED, SSH_EXPIRED} \<Longrightarrow> b = a"
  by (auto simp: ssh_next_def ssh_state_defs)

lemma row_next_trans:
  assumes "row_next a b" "row_next b c"
  shows "row_next a c"
proof -
  have st: "ssh_next (s_state a) (s_state c)" "ssh_next (s_state b) (s_state c)"
    using assms ssh_next_trans unfolding row_next_def by blast+
  have "s_port c = s_port a \<or> s_port c = None \<and> s_state c \<in> {SSH_CLOSED, SSH_EXPIRED}"
    using assms ssh_next_final [OF st(2)] unfolding row_next_def by metis
  then show ?thesis using assms st(1) unfolding row_next_def by simp
qed

lemma rows_next_mem:
  assumes "rows_next rs rs'" "r \<in> set rs"
  shows "\<exists>r' \<in> set rs'. row_next r r'"
proof -
  obtain i where i: "i < List.length rs" "rs ! i = r" using assms(2) by (auto simp: in_set_conv_nth)
  have "list_all2 row_next rs (take (List.length rs) rs')" using assms(1) by (auto simp: rows_next_def)
  then have "row_next r (take (List.length rs) rs' ! i)" "i < List.length (take (List.length rs) rs')"
    using i by (auto simp: list_all2_conv_all_nth)
  then show ?thesis by (meson in_set_takeD nth_mem)
qed

lemma ssh_run_row: "db_ok (snd s) \<Longrightarrow> r \<in> set (ssh_sessions (snd s)) \<Longrightarrow>
    \<exists>r' \<in> set (ssh_sessions (snd (run_steps (ssh_step md) ops s))). row_next r r'"
proof (induction ops arbitrary: s r)
  case (Cons a ops)
  let ?s = "fst (ssh_step md a s)"
  have ok: "db_ok (snd ?s)" and nx: "rows_next (ssh_sessions (snd s)) (ssh_sessions (snd ?s))"
    using ssh_step_db [OF Cons.prems(1), of md a "fst s"] by simp_all
  obtain r1 where r1: "r1 \<in> set (ssh_sessions (snd ?s))" "row_next r r1"
    using rows_next_mem [OF nx Cons.prems(2)] by blast
  show ?case using Cons.IH [OF ok r1(1)] row_next_trans [OF r1(2)] by auto
qed (auto intro!: bexI row_next_refl)

text \<open>C5. Whatever sessions are created, made ready, closed and reconciled, in any order and with
  any faults, a session is never forgotten and never changes hands: its owner, agent, key and expiry
  stay, its state only moves from preparing to ready and from either to closed or expired, and its
  port is given up only then.\<close>

theorem ssh_session_lifecycle:
  assumes "db_ok d" "r \<in> set (ssh_sessions d)"
  shows "\<exists>r' \<in> set (ssh_sessions (snd (run_steps (ssh_step md) ops (m, d)))).
    s_id r' = s_id r \<and> s_actor r' = s_actor r \<and> s_agent r' = s_agent r \<and> s_public_key r' = s_public_key r
    \<and> s_expires r' = s_expires r
    \<and> (s_state r' = s_state r \<or> s_state r = SSH_PREPARING \<and> s_state r' = SSH_READY
       \<or> s_state r \<in> {SSH_PREPARING, SSH_READY} \<and> s_state r' \<in> {SSH_CLOSED, SSH_EXPIRED})
    \<and> (s_port r' = s_port r \<or> s_port r' = None \<and> s_state r' \<in> {SSH_CLOSED, SSH_EXPIRED})"
  using ssh_run_row [of "(m, d)" r md ops] assms by (auto simp: row_next_def ssh_next_def)

theorem ssh_session_lifecycle_witness:
  "\<exists>r' \<in> set (ssh_sessions (snd (run_steps (ssh_step (\<lambda>_ _ _. [])) [OpClose (calm 0) ''s'' ''done'', OpReconcile (calm 0) 0]
    (NewManager 1 2, demo_db)))). s_id r' = ''s'' \<and> s_actor r' = ''u''"
proof -
  have "hd (ssh_sessions demo_db) \<in> set (ssh_sessions demo_db)" "s_id (hd (ssh_sessions demo_db)) = ''s''"
    "s_actor (hd (ssh_sessions demo_db)) = ''u''"
    by (simp_all add: demo_db_def)
  then show ?thesis
    using ssh_session_lifecycle [OF demo_db_ok, of "hd (ssh_sessions demo_db)" "\<lambda>_ _ _. []"
        "[OpClose (calm 0) ''s'' ''done'', OpReconcile (calm 0) 0]" "NewManager 1 2"] by metis
qed

text \<open>A session that has left the preparing state, and the readiness that leads there.\<close>

definition ssh_left :: "string \<Rightarrow> ssh_state \<Rightarrow> bool" where
  "ssh_left ident s \<longleftrightarrow> (\<exists>r \<in> set (ssh_sessions (snd s)). s_id r = ident \<and> s_state r \<noteq> SSH_PREPARING)"

definition ssh_key :: "ssh_op \<Rightarrow> string option" where
  "ssh_key a = (case a of OpReady e ident port token hostKey \<Rightarrow> Some ident | _ \<Rightarrow> None)"

lemma length_filter_0: "\<forall>x \<in> set xs. \<not> P x \<Longrightarrow> List.length (filter P xs) = 0"
  by simp

interpretation ssh_ready: one_shot "ssh_step md" ssh_key ssh_left "\<lambda>s. db_ok (snd s)"
  for md
proof
  fix s :: ssh_state and a and k :: string
  obtain m d where s: "s = (m, d)" by fastforce
  assume ok: "db_ok (snd s)"
  note nx = ssh_step_db [of d md a m]
  show "db_ok (snd (fst (ssh_step md a s)))" using nx ok s by simp
  show "ssh_left k (fst (ssh_step md a s))" if left: "ssh_left k s"
  proof -
    obtain r where r: "r \<in> set (ssh_sessions d)" "s_id r = k" "s_state r \<noteq> SSH_PREPARING"
      using left s by (auto simp: ssh_left_def)
    obtain r' where "r' \<in> set (ssh_sessions (snd (fst (ssh_step md a s))))" "row_next r r'"
      using rows_next_mem [OF _ r(1)] nx ok s by fastforce
    then show ?thesis using r by (auto simp: ssh_left_def row_next_def ssh_next_def ssh_state_defs)
  qed
  assume key: "ssh_key a = Some k"
  then obtain e port token hostKey where a: "a = OpReady e k port token hostKey"
    by (auto simp: ssh_key_def split: ssh_op.splits)
  obtain m' d' res where r: "Ready e m d k port token hostKey = (m', d', res)" by (metis prod_cases3)
  let ?P = "\<lambda>r. s_id r = k \<and> s_state r = 1 \<and> s_expires r > unix_milli (env_clock e 0)"
  have step: "ssh_step md a s = ((m', d'), ok res)" using a s r by (simp add: ssh_step_def)
  have win: "ok res \<Longrightarrow> List.length (filter ?P (ssh_sessions d)) = 1
      \<and> d' = d\<lparr>ssh_sessions := map (\<lambda>r. if ?P r then r\<lparr>s_state := 2, s_host_key := Some hostKey\<rparr> else r) (ssh_sessions d)\<rparr>"
    using Ready_cases [where e = e and m = m and d = d and ident = k and port = port and token = token and hostKey = hostKey] r by auto
  show "ssh_left k (fst (ssh_step md a s))" if "snd (ssh_step md a s)"
  proof -
    have w: "List.length (filter ?P (ssh_sessions d)) = 1"
      "d' = d\<lparr>ssh_sessions := map (\<lambda>r. if ?P r then r\<lparr>s_state := 2, s_host_key := Some hostKey\<rparr> else r) (ssh_sessions d)\<rparr>"
      using win that step by simp_all
    then obtain r where r: "r \<in> set (ssh_sessions d)" "?P r"
      using length_filter_0 [of "ssh_sessions d" ?P] by fastforce
    then have "r\<lparr>s_state := 2, s_host_key := Some hostKey\<rparr> \<in> set (ssh_sessions d')"
      using w(2) by (auto intro!: rev_image_eqI)
    then show ?thesis using r step unfolding ssh_left_def by (intro bexI) (auto simp: ssh_state_defs)
  qed
  show "\<not> snd (ssh_step md a s)" if left: "ssh_left k s"
  proof
    assume "snd (ssh_step md a s)"
    then have w: "List.length (filter ?P (ssh_sessions d)) = 1" using win step by simp
    obtain r where r: "r \<in> set (ssh_sessions d)" "s_id r = k" "s_state r \<noteq> 1"
      using left s by (auto simp: ssh_left_def ssh_state_defs)
    have "distinct (map s_id (ssh_sessions d))" using ok s by (simp add: db_ok_def ssh_ok_def)
    then have "\<forall>x \<in> set (ssh_sessions d). \<not> ?P x" using r by (auto dest: distinct_map_inj)
    then show False using w length_filter_0 by fastforce
  qed
qed

text \<open>A session becomes ready at most once: of all the readiness messages that name it, with
  whatever tokens, at most one is ever accepted.\<close>

theorem ssh_ready_at_most_once:
  assumes "db_ok d"
  shows "wins (ssh_step md) (\<lambda>a. ssh_key a = Some ident) ops (m, d) \<le> 1"
  using assms by (intro ssh_ready.at_most_once) simp

theorem ssh_ready_at_most_once_witness:
  "wins (ssh_step md) (\<lambda>a. ssh_key a = Some ''s'') [OpReady (calm 0) ''s'' 1 ''t'' [], OpReady (calm 0) ''s'' 1 ''t'' []]
    (NewManager 1 2\<lparr>mg_tokens := [''s'' \<mapsto> ''t'']\<rparr>, demo_db) \<le> 1"
  by (rule ssh_ready_at_most_once [OF demo_db_ok])

section \<open>Who may bridge\<close>

text \<open>A bridge is granted exactly to the actor who created the session, while it is ready and
  not yet expired, and leads to the session's agent.\<close>

theorem bridge_owner_only:
  assumes "db_ok d" "\<not> env_db_fails e 0"
  shows "Bridge e d ident actor = Inr agent \<longleftrightarrow> ident \<noteq> [] \<and> actor \<noteq> []
    \<and> (\<exists>r \<in> set (ssh_sessions d). s_id r = ident \<and> s_actor r = actor \<and> s_state r = SSH_READY
         \<and> unix_milli (env_clock e 0) < s_expires r \<and> s_agent r = agent)"
proof -
  have "distinct (map s_id (ssh_sessions d))" using assms(1) by (simp add: db_ok_def ssh_ok_def)
  then have uniq: "r \<in> set (ssh_sessions d) \<Longrightarrow> r' \<in> set (ssh_sessions d) \<Longrightarrow> s_id r = s_id r' \<Longrightarrow> r = r'" for r r'
    by (rule distinct_map_inj)
  show ?thesis
  proof (cases "List.find (\<lambda>r. s_id r = ident) (ssh_sessions d)")
    case None
    then have "\<forall>r \<in> set (ssh_sessions d). s_id r \<noteq> ident" by (simp add: find_None_iff)
    then show ?thesis using None by (auto simp: Bridge_def sql_query_row_def)
  next
    case (Some row)
    then have row: "row \<in> set (ssh_sessions d)" "s_id row = ident" by (auto dest: find_Some_mem)
    have "Bridge e d ident actor = Inr agent \<longleftrightarrow> ident \<noteq> [] \<and> actor \<noteq> [] \<and> s_actor row = actor
        \<and> s_state row = SSH_READY \<and> unix_milli (env_clock e 0) < s_expires row \<and> s_agent row = agent"
      using assms(2) Some by (simp add: Bridge_def sql_query_row_def not_le)
    then show ?thesis using row uniq by metis
  qed
qed

theorem bridge_owner_only_witness: "Bridge (calm 0) demo_db ''s'' ''u'' \<noteq> Inr ''a''"
  using bridge_owner_only [OF demo_db_ok, of "calm 0" "''s''" "''u''" "''a''"]
  by (simp add: demo_db_def ssh_state_defs)

section \<open>Ports of expired sessions\<close>

text \<open>The allocation passes over expired sessions, but their rows still hold their port, and
  ports are unique: when the lowest port without a live session is still held by an expired session
  that was not reconciled or closed, creating a session fails with a constraint violation, even if
  other ports of the range are free.\<close>

theorem create_blocked_by_expired:
  assumes "db_ok d" "allocatePort (\<lambda>p. env_db_fails e (4 + unat p)) (unix_milli (env_clock e 0)) d (mg_min m) (mg_max m) = Inr port"
    "r \<in> set (ssh_sessions d)" "s_port r = Some port" "\<And>k. \<not> env_db_fails e k" "\<And>k. \<not> env_rand_fails e k"
    "actor \<noteq> []" "agent \<noteq> []" "key \<noteq> []" "reason \<noteq> []" "0 < ttl" "ttl \<le> hour"
  shows "Create md e m d actor agent key reason ttl = (m, d, Inl Constraint)"
proof -
  have bad: "\<not> db_ok (d\<lparr>ssh_sessions := ssh_sessions d @ [new_session ident actor agent key port t now]\<rparr>)" for ident t now
    using assms(3,4) by (force simp: db_ok_insert_ssh [OF assms(1)] new_session_def)
  then show ?thesis
    using assms(2,5-12) unfolding Create_def Let_def
    by (simp add: random_def randomBytes_def rand_read_def sql_exec_def insert_session_def)
qed

theorem create_blocked_by_expired_witness:
  "Create md (calm (200 * 1000000)) (NewManager 22000 22001) demo_db ''u'' ''a'' ''k'' ''why'' minute
    = (NewManager 22000 22001, demo_db, Inl Constraint)"
proof -
  have "port_count 22000 200 demo_db = 0" by code_simp
  then have al: "allocatePort (\<lambda>p. env_db_fails (calm (200 * 1000000)) (4 + unat p)) (unix_milli (env_clock (calm (200 * 1000000)) 0))
      demo_db (mg_min (NewManager 22000 22001)) (mg_max (NewManager 22000 22001)) = Inr 22000"
    by (subst allocatePort.simps) (simp add: NewManager_def go_time)
  show ?thesis
    by (rule create_blocked_by_expired [OF demo_db_ok al, of "hd (ssh_sessions demo_db)"])
       (simp_all add: demo_db_def go_time)
qed

end
