(* ===== verification/Tunnel.thy ===== *)
theory Tunnel
  imports Api
begin

text \<open>
  \<open>internal/tunnel/relay.go\<close>: the rendezvous of a client's and an agent's tunnel stream, by
  session id and binding token, and the pump that copies frames from one to the other. A
  pending rendezvous is a shared object, named by a reference; the relay's map holds the
  reference under the session id. Streams are named by numbers. \<open>Serve\<close> and \<open>Attach\<close>
  block on channels, so each is cut into the steps between which it can wait.
\<close>

section \<open>Rendezvous\<close>

record Pending =
  pd_session :: string
  pd_token :: bytes
  pd_client :: "nat option"
  pd_done :: bool

record Relay =
  rl_pending :: "string \<Rightarrow> nat option"
  rl_objects :: "nat \<Rightarrow> Pending option"
  rl_next :: nat

definition NewRelay :: Relay where
  "NewRelay = \<lparr>rl_pending = Map.empty, rl_objects = Map.empty, rl_next = 0\<rparr>"

definition Register :: "Relay \<Rightarrow> env \<Rightarrow> nat \<Rightarrow> string \<Rightarrow> Relay \<times> bytes result" where
  "Register r e k sessionID =
    (if sessionID = [] then (r, Inl (Error ''session id required''))
     else case rand_read e k 32 of
       Inl err \<Rightarrow> (r, Inl err)
     | Inr token \<Rightarrow>
        if rl_pending r sessionID \<noteq> None then (r, Inl (Error ''tunnel already registered''))
        else (r\<lparr>rl_pending := (rl_pending r)(sessionID \<mapsto> rl_next r),
                rl_objects := (rl_objects r)(rl_next r \<mapsto> \<lparr>pd_session = sessionID, pd_token = token,
                  pd_client = None, pd_done = False\<rparr>),
                rl_next := rl_next r + 1\<rparr>, Inr token))"

definition get :: "Relay \<Rightarrow> string \<Rightarrow> (nat \<times> Pending) option" where
  "get r sessionID = (case rl_pending r sessionID of
      None \<Rightarrow> None
    | Some p \<Rightarrow> (case rl_objects r p of None \<Rightarrow> None | Some o' \<Rightarrow> Some (p, o')))"

definition remove :: "Relay \<Rightarrow> string \<Rightarrow> Relay" where
  "remove r sessionID = r\<lparr>rl_pending := (rl_pending r)(sessionID := None)\<rparr>"

definition Cancel :: "Relay \<Rightarrow> string \<Rightarrow> Relay" where
  "Cancel r sessionID = remove r sessionID"

text \<open>\<open>Serve\<close>: the client's stream goes into the rendezvous' channel, which holds one.\<close>

definition Serve_put :: "Relay \<Rightarrow> string \<Rightarrow> nat \<Rightarrow> Relay \<times> nat result" where
  "Serve_put r sessionID client = (case get r sessionID of
      None \<Rightarrow> (r, Inl (Error ''unknown tunnel session''))
    | Some (p, o') \<Rightarrow>
       if pd_client o' \<noteq> None then (r, Inl (Error ''tunnel client already attached''))
       else (r\<lparr>rl_objects := (rl_objects r)(p \<mapsto> o'\<lparr>pd_client := Some client\<rparr>)\<rparr>, Inr p))"

text \<open>
  Then \<open>Serve\<close> waits: it returns when the rendezvous is done or the context ends;
  \<open>cancelled\<close> says that it takes the context's branch. No result means it still waits.
\<close>

definition Serve_wait :: "Relay \<Rightarrow> string \<Rightarrow> nat \<Rightarrow> bool \<Rightarrow> (Relay \<times> unit result) option" where
  "Serve_wait r sessionID p cancelled =
    (if cancelled then Some (remove r sessionID, Inl Canceled)
     else case rl_objects r p of
       None \<Rightarrow> None
     | Some o' \<Rightarrow> if pd_done o' then Some (r, Inr ()) else None)"

text \<open>\<open>Attach\<close>: the check of the token, the wait for the client, and the end of the splice.\<close>

definition Attach_check :: "Relay \<Rightarrow> string \<Rightarrow> bytes \<Rightarrow> nat result" where
  "Attach_check r sessionID token = (case get r sessionID of
      None \<Rightarrow> Inl (Error ''unknown tunnel session'')
    | Some (p, o') \<Rightarrow>
       if List.length token = 0 \<or> pd_token o' \<noteq> token then Inl (Error ''tunnel binding mismatch'')
       else Inr p)"

definition Attach_take :: "Relay \<Rightarrow> string \<Rightarrow> nat \<Rightarrow> bool \<Rightarrow> (Relay \<times> nat result) option" where
  "Attach_take r sessionID p cancelled =
    (if cancelled then Some (remove r sessionID, Inl Canceled)
     else case rl_objects r p of
       None \<Rightarrow> None
     | Some o' \<Rightarrow> (case pd_client o' of
         None \<Rightarrow> None
       | Some client \<Rightarrow> Some (r\<lparr>rl_objects := (rl_objects r)(p \<mapsto> o'\<lparr>pd_client := None\<rparr>)\<rparr>, Inr client)))"

definition Attach_end :: "Relay \<Rightarrow> string \<Rightarrow> nat \<Rightarrow> Relay outcome" where
  "Attach_end r sessionID p = (case rl_objects r p of
      None \<Rightarrow> Panic ''nil channel''
    | Some o' \<Rightarrow> if pd_done o' then Panic ''close of closed channel''
        else Ret (remove (r\<lparr>rl_objects := (rl_objects r)(p \<mapsto> o'\<lparr>pd_done := True\<rparr>)\<rparr>) sessionID))"

section \<open>Runs of the relay\<close>

text \<open>
  The handlers in flight: clients that have registered and not yet handed their stream over,
  clients waiting, agents that passed the check, agents splicing with their client's stream.
  A client handler registers and then serves once, as \<open>BridgeSsh\<close> does. \<open>wd_served\<close>
  remembers every stream handed over, with the session it was handed over for.
\<close>

record World =
  wd_relay :: Relay
  wd_registered :: "(string \<times> nat) list"
  wd_waiting :: "(string \<times> nat \<times> nat) list"
  wd_checked :: "(string \<times> nat \<times> bytes) list"
  wd_splicing :: "(string \<times> nat \<times> nat \<times> bytes) list"
  wd_served :: "(string \<times> nat) list"

definition start_world :: World where
  "start_world = \<lparr>wd_relay = NewRelay, wd_registered = [], wd_waiting = [], wd_checked = [], wd_splicing = [],
     wd_served = []\<rparr>"

inductive tunnel_step :: "World \<Rightarrow> World \<Rightarrow> bool" where
  register: "Register (wd_relay w) e k sid = (r', Inr token) \<Longrightarrow>
    tunnel_step w (w\<lparr>wd_relay := r', wd_registered := (sid, rl_next (wd_relay w)) # wd_registered w\<rparr>)"
| cancel: "(sid, p) \<in> set (wd_registered w) \<Longrightarrow>
    tunnel_step w (w\<lparr>wd_relay := Cancel (wd_relay w) sid, wd_registered := remove1 (sid, p) (wd_registered w)\<rparr>)"
| serve: "(sid, q) \<in> set (wd_registered w) \<Longrightarrow> Serve_put (wd_relay w) sid client = (r', Inr p) \<Longrightarrow>
    tunnel_step w (w\<lparr>wd_relay := r', wd_registered := remove1 (sid, q) (wd_registered w),
      wd_waiting := (sid, p, client) # wd_waiting w, wd_served := (sid, client) # wd_served w\<rparr>)"
| serve_fails: "(sid, q) \<in> set (wd_registered w) \<Longrightarrow> Serve_put (wd_relay w) sid client = (r', Inl err) \<Longrightarrow>
    tunnel_step w (w\<lparr>wd_relay := r', wd_registered := remove1 (sid, q) (wd_registered w)\<rparr>)"
| served: "(sid, p, client) \<in> set (wd_waiting w) \<Longrightarrow> Serve_wait (wd_relay w) sid p cancelled = Some (r', res) \<Longrightarrow>
    tunnel_step w (w\<lparr>wd_relay := r', wd_waiting := remove1 (sid, p, client) (wd_waiting w)\<rparr>)"
| attach: "Attach_check (wd_relay w) sid token = Inr p \<Longrightarrow>
    tunnel_step w (w\<lparr>wd_checked := (sid, p, token) # wd_checked w\<rparr>)"
| taken: "(sid, p, token) \<in> set (wd_checked w) \<Longrightarrow> Attach_take (wd_relay w) sid p cancelled = Some (r', Inr client) \<Longrightarrow>
    tunnel_step w (w\<lparr>wd_relay := r', wd_checked := remove1 (sid, p, token) (wd_checked w),
      wd_splicing := (sid, p, client, token) # wd_splicing w\<rparr>)"
| given_up: "(sid, p, token) \<in> set (wd_checked w) \<Longrightarrow> Attach_take (wd_relay w) sid p cancelled = Some (r', Inl err) \<Longrightarrow>
    tunnel_step w (w\<lparr>wd_relay := r', wd_checked := remove1 (sid, p, token) (wd_checked w)\<rparr>)"
| ended: "(sid, p, client, token) \<in> set (wd_splicing w) \<Longrightarrow> Attach_end (wd_relay w) sid p = Ret r' \<Longrightarrow>
    tunnel_step w (w\<lparr>wd_relay := r', wd_splicing := remove1 (sid, p, client, token) (wd_splicing w)\<rparr>)"

inductive_cases tunnel_stepE: "tunnel_step w w'"

text \<open>
  The invariant: the map leads to an object of its own session, a client in a channel was handed
  over for that session, and every handler past the check holds the token of its object.
\<close>

definition relay_ok :: "World \<Rightarrow> bool" where
  "relay_ok w \<longleftrightarrow>
     (\<forall>p. rl_objects (wd_relay w) p \<noteq> None \<longrightarrow> p < rl_next (wd_relay w))
   \<and> (\<forall>sid p. rl_pending (wd_relay w) sid = Some p \<longrightarrow>
        (\<exists>o'. rl_objects (wd_relay w) p = Some o' \<and> pd_session o' = sid))
   \<and> (\<forall>p o' client. rl_objects (wd_relay w) p = Some o' \<longrightarrow> pd_client o' = Some client \<longrightarrow>
        (pd_session o', client) \<in> set (wd_served w))"

definition holds_token :: "Relay \<Rightarrow> string \<Rightarrow> nat \<Rightarrow> bytes \<Rightarrow> bool" where
  "holds_token r sid p token \<longleftrightarrow> token \<noteq> [] \<and> (\<exists>o'. rl_objects r p = Some o' \<and> pd_session o' = sid \<and> pd_token o' = token)"

definition world_ok :: "World \<Rightarrow> bool" where
  "world_ok w \<longleftrightarrow> relay_ok w
   \<and> (\<forall>sid p token. (sid, p, token) \<in> set (wd_checked w) \<longrightarrow> holds_token (wd_relay w) sid p token)
   \<and> (\<forall>sid p client token. (sid, p, client, token) \<in> set (wd_splicing w) \<longrightarrow>
        holds_token (wd_relay w) sid p token \<and> (sid, client) \<in> set (wd_served w))"

text \<open>What every operation keeps of the objects: their session and their token.\<close>

definition objects_kept :: "Relay \<Rightarrow> Relay \<Rightarrow> bool" where
  "objects_kept r r' \<longleftrightarrow> (\<forall>p o'. rl_objects r p = Some o' \<longrightarrow>
     (\<exists>o2. rl_objects r' p = Some o2 \<and> pd_session o2 = pd_session o' \<and> pd_token o2 = pd_token o'))"

lemma holds_token_kept: "objects_kept r r' \<Longrightarrow> holds_token r sid p token \<Longrightarrow> holds_token r' sid p token"
  by (force simp: objects_kept_def holds_token_def)

lemma objects_kept_refl: "objects_kept r r" by (auto simp: objects_kept_def)

lemma world_ok_change:
  assumes "world_ok w" "relay_ok w'" "objects_kept (wd_relay w) (wd_relay w')"
    "set (wd_checked w') \<subseteq> set (wd_checked w)" "set (wd_splicing w') \<subseteq> set (wd_splicing w)"
    "set (wd_served w) \<subseteq> set (wd_served w')"
  shows "world_ok w'"
  using assms holds_token_kept unfolding world_ok_def by (meson subsetD)

lemma relay_ok_remove: "relay_ok w \<Longrightarrow> relay_ok (w\<lparr>wd_relay := remove (wd_relay w) sid\<rparr>)"
  by (auto simp: relay_ok_def remove_def)

lemma relay_ok_cong: "wd_relay w' = wd_relay w \<Longrightarrow> wd_served w' = wd_served w \<Longrightarrow> relay_ok w' = relay_ok w"
  by (simp add: relay_ok_def)

lemma objects_kept_remove: "objects_kept r (remove r sid)"
  by (simp add: objects_kept_def remove_def)

lemma Register_Inr:
  assumes "Register r e k sid = (r', Inr token)"
  shows "sid \<noteq> [] \<and> rl_pending r sid = None \<and> List.length token = 32
    \<and> r' = r\<lparr>rl_pending := (rl_pending r)(sid \<mapsto> rl_next r),
        rl_objects := (rl_objects r)(rl_next r \<mapsto> \<lparr>pd_session = sid, pd_token = token, pd_client = None, pd_done = False\<rparr>),
        rl_next := rl_next r + 1\<rparr>"
  using assms by (auto simp: Register_def dest: rand_read_length split: if_splits sum.splits)

lemma get_Some: "get r sid = Some (p, o') \<longleftrightarrow> rl_pending r sid = Some p \<and> rl_objects r p = Some o'"
  by (auto simp: get_def split: option.splits)

lemma Serve_put_cases: "Serve_put r sid client = (r', res) \<Longrightarrow>
    (\<exists>p o'. get r sid = Some (p, o') \<and> res = Inr p
       \<and> r' = r\<lparr>rl_objects := (rl_objects r)(p \<mapsto> o'\<lparr>pd_client := Some client\<rparr>)\<rparr>) \<or> (r' = r \<and> \<not> ok res)"
  by (auto simp: Serve_put_def split: option.splits if_splits)

lemma relay_ok_object:
  assumes "relay_ok w" "rl_objects (wd_relay w) p = Some o'" "pd_session o2 = pd_session o'"
    "\<And>client. pd_client o2 = Some client \<Longrightarrow> (pd_session o', client) \<in> set (wd_served w')"
    "set (wd_served w) \<subseteq> set (wd_served w')"
    "wd_relay w' = (wd_relay w)\<lparr>rl_objects := (rl_objects (wd_relay w))(p \<mapsto> o2)\<rparr>"
  shows "relay_ok w'"
proof -
  note ok = assms(1) [unfolded relay_ok_def]
  have "p < rl_next (wd_relay w)" using ok assms(2) by blast
  moreover have "pd_session o2 = sid" if "rl_pending (wd_relay w) sid = Some p" for sid
    using ok assms(2,3) that by fastforce
  ultimately show ?thesis
    using ok assms(3-6) unfolding relay_ok_def by (simp add: subset_iff)
qed

lemma objects_kept_object:
  assumes "rl_objects r p = Some o'" "pd_session o2 = pd_session o'" "pd_token o2 = pd_token o'"
  shows "objects_kept r (r\<lparr>rl_objects := (rl_objects r)(p \<mapsto> o2)\<rparr>)"
  using assms by (auto simp: objects_kept_def)

lemma set_remove1_sub: "set (remove1 x xs) \<subseteq> set xs"
  by (rule set_remove1_subset)

lemma world_ok_register:
  assumes "world_ok w" "Register (wd_relay w) e k sid = (r', Inr token)"
  shows "world_ok (w\<lparr>wd_relay := r', wd_registered := xs\<rparr>)"
proof -
  have r': "r' = (wd_relay w)\<lparr>rl_pending := (rl_pending (wd_relay w))(sid \<mapsto> rl_next (wd_relay w)),
      rl_objects := (rl_objects (wd_relay w))(rl_next (wd_relay w) \<mapsto>
        \<lparr>pd_session = sid, pd_token = token, pd_client = None, pd_done = False\<rparr>),
      rl_next := rl_next (wd_relay w) + 1\<rparr>"
    using Register_Inr [OF assms(2)] by blast
  have fresh: "rl_objects (wd_relay w) (rl_next (wd_relay w)) = None"
    using assms(1) unfolding world_ok_def relay_ok_def by blast
  have "relay_ok (w\<lparr>wd_relay := r', wd_registered := xs\<rparr>)"
    using assms(1) fresh unfolding world_ok_def relay_ok_def r' by (auto; force)
  moreover have "objects_kept (wd_relay w) r'"
    using fresh unfolding r' objects_kept_def by auto
  ultimately show ?thesis using world_ok_change [OF assms(1)] by simp
qed

lemma world_ok_same:
  assumes "world_ok w" "wd_relay w' = wd_relay w"
    "set (wd_checked w') \<subseteq> set (wd_checked w)" "set (wd_splicing w') \<subseteq> set (wd_splicing w)"
    "wd_served w' = wd_served w"
  shows "world_ok w'"
proof (rule world_ok_change [OF assms(1)])
  show "relay_ok w'" using assms(1,2,5) by (simp add: world_ok_def relay_ok_def)
qed (use assms objects_kept_refl in simp_all)

lemma world_ok_removed:
  assumes "world_ok w" "wd_relay w' = remove (wd_relay w) sid"
    "set (wd_checked w') \<subseteq> set (wd_checked w)" "set (wd_splicing w') \<subseteq> set (wd_splicing w)"
    "wd_served w' = wd_served w"
  shows "world_ok w'"
proof (rule world_ok_change [OF assms(1)])
  have "relay_ok w" using assms(1) by (simp add: world_ok_def)
  then show "relay_ok w'" using assms(2,5) by (auto simp: relay_ok_def remove_def split: if_splits)
qed (use assms objects_kept_remove in simp_all)

lemma pending_session:
  assumes "relay_ok w" "get (wd_relay w) sid = Some (p, o')"
  shows "pd_session o' = sid"
proof -
  have "rl_pending (wd_relay w) sid = Some p" "rl_objects (wd_relay w) p = Some o'"
    using assms(2) by (simp_all add: get_Some)
  moreover from this obtain o2 where "rl_objects (wd_relay w) p = Some o2" "pd_session o2 = sid"
    using assms(1) unfolding relay_ok_def by blast
  ultimately show ?thesis by simp
qed

lemma world_ok_serve:
  assumes "world_ok w" "Serve_put (wd_relay w) sid client = (r', Inr p)"
  shows "world_ok (w\<lparr>wd_relay := r', wd_registered := xs, wd_waiting := ys, wd_served := (sid, client) # wd_served w\<rparr>)"
proof -
  obtain o' where o': "get (wd_relay w) sid = Some (p, o')"
    "r' = (wd_relay w)\<lparr>rl_objects := (rl_objects (wd_relay w))(p \<mapsto> o'\<lparr>pd_client := Some client\<rparr>)\<rparr>"
    using Serve_put_cases [OF assms(2)] by auto
  have ok: "relay_ok w" using assms(1) by (simp add: world_ok_def)
  then have "pd_session o' = sid" using o'(1) by (rule pending_session)
  then have "relay_ok (w\<lparr>wd_relay := r', wd_registered := xs, wd_waiting := ys, wd_served := (sid, client) # wd_served w\<rparr>)"
    using o' by (intro relay_ok_object [OF ok, of p o' "o'\<lparr>pd_client := Some client\<rparr>"]) (auto simp: get_Some)
  moreover have "objects_kept (wd_relay w) r'"
    unfolding o'(2) using o'(1) by (intro objects_kept_object) (auto simp: get_Some)
  ultimately show ?thesis by (intro world_ok_change [OF assms(1)]) auto
qed

lemma world_ok_attach:
  assumes "world_ok w" "Attach_check (wd_relay w) sid token = Inr p"
  shows "world_ok (w\<lparr>wd_checked := (sid, p, token) # wd_checked w\<rparr>)"
proof -
  obtain o' where o': "get (wd_relay w) sid = Some (p, o')" "token \<noteq> []" "pd_token o' = token"
    using assms(2) by (auto simp: Attach_check_def split: option.splits if_splits)
  moreover have "pd_session o' = sid"
    using assms(1) o'(1) pending_session by (auto simp: world_ok_def)
  ultimately have "holds_token (wd_relay w) sid p token"
    by (auto simp: get_Some holds_token_def)
  then show ?thesis
    using assms(1) relay_ok_cong [of "w\<lparr>wd_checked := (sid, p, token) # wd_checked w\<rparr>" w]
    by (auto simp: world_ok_def)
qed

lemma world_ok_taken:
  assumes "world_ok w" "(sid, p, token) \<in> set (wd_checked w)"
    "Attach_take (wd_relay w) sid p cancelled = Some (r', Inr client)"
  shows "world_ok (w\<lparr>wd_relay := r', wd_checked := remove1 (sid, p, token) (wd_checked w),
      wd_splicing := (sid, p, client, token) # wd_splicing w\<rparr>)" (is "world_ok ?w")
proof -
  obtain o' where o': "rl_objects (wd_relay w) p = Some o'" "pd_client o' = Some client"
    "r' = (wd_relay w)\<lparr>rl_objects := (rl_objects (wd_relay w))(p \<mapsto> o'\<lparr>pd_client := None\<rparr>)\<rparr>"
    using assms(3) by (auto simp: Attach_take_def split: if_splits option.splits)
  have ok: "relay_ok w" using assms(1) by (simp add: world_ok_def)
  have tok: "holds_token (wd_relay w) sid p token" using assms(1,2) by (auto simp: world_ok_def)
  then have served: "(sid, client) \<in> set (wd_served w)"
    using ok o' by (auto simp: holds_token_def relay_ok_def)
  have kept: "objects_kept (wd_relay w) r'"
    unfolding o'(3) by (intro objects_kept_object [OF o'(1)]) auto
  have "relay_ok ?w"
    using o' by (intro relay_ok_object [OF ok o'(1), of "o'\<lparr>pd_client := None\<rparr>"]) auto
  then have "world_ok (?w\<lparr>wd_splicing := wd_splicing w\<rparr>)"
    using world_ok_change [OF assms(1), of "?w\<lparr>wd_splicing := wd_splicing w\<rparr>"] kept
      set_remove1_sub [of "(sid, p, token)" "wd_checked w"] by (simp add: relay_ok_def)
  then show ?thesis
    using served holds_token_kept [OF kept tok] by (auto simp: world_ok_def relay_ok_def)
qed

lemma world_ok_ended:
  assumes "world_ok w" "Attach_end (wd_relay w) sid p = Ret r'" "set ys \<subseteq> set (wd_splicing w)"
  shows "world_ok (w\<lparr>wd_relay := r', wd_splicing := ys\<rparr>)"
proof -
  obtain o' where o': "rl_objects (wd_relay w) p = Some o'"
    "r' = remove ((wd_relay w)\<lparr>rl_objects := (rl_objects (wd_relay w))(p \<mapsto> o'\<lparr>pd_done := True\<rparr>)\<rparr>) sid"
    using assms(2) by (auto simp: Attach_end_def split: option.splits if_splits)
  have ok: "relay_ok w" using assms(1) by (simp add: world_ok_def)
  let ?w = "w\<lparr>wd_relay := (wd_relay w)\<lparr>rl_objects := (rl_objects (wd_relay w))(p \<mapsto> o'\<lparr>pd_done := True\<rparr>)\<rparr>\<rparr>"
  have "relay_ok ?w"
    using ok o'(1) by (intro relay_ok_object [OF ok o'(1), of "o'\<lparr>pd_done := True\<rparr>"]) (auto simp: relay_ok_def)
  then have "world_ok ?w"
    using world_ok_change [OF assms(1), of ?w] objects_kept_object [OF o'(1), of "o'\<lparr>pd_done := True\<rparr>"] by simp
  then show ?thesis
    by (rule world_ok_removed [where sid = sid]) (use o'(2) assms(3) in simp_all)
qed

lemma world_ok_step: "tunnel_step w w' \<Longrightarrow> world_ok w \<Longrightarrow> world_ok w'"
proof (induction rule: tunnel_step.induct)
  case (register w e k sid r' token)
  then show ?case by (rule world_ok_register [rotated])
next
  case (cancel sid p w)
  show ?case by (rule world_ok_removed [OF cancel(2), where sid = sid]) (simp_all add: Cancel_def)
next
  case (serve sid q w client r' p)
  show ?case by (rule world_ok_serve [OF serve(3,2)])
next
  case (serve_fails sid q w client r' err)
  have "r' = wd_relay w" using Serve_put_cases [OF serve_fails(2)] by auto
  then show ?case by (intro world_ok_same [OF serve_fails(3)]) simp_all
next
  case (served sid p client w cancelled r' res)
  have "r' = (if cancelled then remove (wd_relay w) sid else wd_relay w)"
    using served(2) by (simp add: Serve_wait_def split: if_splits option.splits)
  then show ?case
    by (cases cancelled; intro world_ok_same [OF served(3)] world_ok_removed [OF served(3), where sid = sid]) simp_all
next
  case (attach w sid token p)
  show ?case by (rule world_ok_attach [OF attach(2,1)])
next
  case (taken sid p token w cancelled r' client)
  show ?case by (rule world_ok_taken [OF taken(3,1,2)])
next
  case (given_up sid p token w cancelled r' err)
  have "r' = remove (wd_relay w) sid"
    using given_up(2) by (simp add: Attach_take_def split: if_splits option.splits)
  then show ?case
    by (intro world_ok_removed [OF given_up(3), where sid = sid]) (simp_all add: set_remove1_sub)
next
  case (ended sid p client token w r')
  show ?case by (rule world_ok_ended [OF ended(3,2)]) (simp add: set_remove1_sub)
qed

lemma world_ok_start: "world_ok start_world"
  by (simp add: world_ok_def relay_ok_def start_world_def NewRelay_def)

lemma world_ok_reachable: "tunnel_step\<^sup>*\<^sup>* start_world w \<Longrightarrow> world_ok w"
  by (induction rule: rtranclp_induct) (auto intro: world_ok_step world_ok_start)

text \<open>C7. In every run of the relay, an agent's stream is spliced only with a stream that a client
  handed over for the same session, and only after the agent showed the non-empty token that was
  issued when that session was registered.\<close>

theorem tunnel_binding:
  assumes "tunnel_step\<^sup>*\<^sup>* start_world w" "(sid, p, client, token) \<in> set (wd_splicing w)"
  shows "(sid, client) \<in> set (wd_served w) \<and> token \<noteq> []
    \<and> (\<exists>o'. rl_objects (wd_relay w) p = Some o' \<and> pd_session o' = sid \<and> pd_token o' = token)"
  using world_ok_reachable [OF assms(1)] assms(2) unfolding world_ok_def holds_token_def by blast

text \<open>A run in which a client and an agent meet.\<close>

definition demo_token32 :: bytes where
  "demo_token32 = map (\<lambda>i. char_of (i + 1 :: nat)) [0..<32]"

definition demo_relay :: "nat option \<Rightarrow> Relay" where
  "demo_relay c = \<lparr>rl_pending = [''s'' \<mapsto> 0],
     rl_objects = [0 \<mapsto> \<lparr>pd_session = ''s'', pd_token = demo_token32, pd_client = c, pd_done = False\<rparr>],
     rl_next = 1\<rparr>"

definition demo_world :: "nat \<Rightarrow> World" where
  "demo_world i = \<lparr>wd_relay = demo_relay (if i = 1 \<or> i = 2 then Some 7 else None),
     wd_registered = (if i = 0 then [(''s'', 0)] else []),
     wd_waiting = (if i = 0 then [] else [(''s'', 0, 7)]),
     wd_checked = (if i = 2 then [(''s'', 0, demo_token32)] else []),
     wd_splicing = (if i = 3 then [(''s'', 0, 7, demo_token32)] else []),
     wd_served = (if i = 0 then [] else [(''s'', 7)])\<rparr>"

lemma demo_token32_rand: "rand_read (calm 0) 0 32 = Inr demo_token32"
  by (simp add: demo_token32_def del: upt_rec_numeral)

lemma demo_token32_ne: "demo_token32 \<noteq> []"
  by (simp add: demo_token32_def)

lemma demo_run: "tunnel_step\<^sup>*\<^sup>* start_world (demo_world 3)"
proof -
  have "tunnel_step start_world (demo_world 0)"
    using register [of start_world "calm 0" 0 "''s''" "demo_relay None" demo_token32]
    by (simp del: rand_read_calm add: Register_def demo_token32_rand demo_world_def demo_relay_def start_world_def NewRelay_def)
  moreover have "tunnel_step (demo_world 0) (demo_world 1)"
    using serve [of "''s''" 0 "demo_world 0" 7 "demo_relay (Some 7)" 0]
    by (simp add: Serve_put_def get_def demo_world_def demo_relay_def)
  moreover have "tunnel_step (demo_world 1) (demo_world 2)"
    using attach [of "demo_world 1" "''s''" demo_token32 0]
    by (simp add: Attach_check_def get_def demo_world_def demo_relay_def demo_token32_ne)
  moreover have "tunnel_step (demo_world 2) (demo_world 3)"
    using taken [of "''s''" 0 demo_token32 "demo_world 2" False "demo_relay None" 7]
    by (simp add: Attach_take_def demo_world_def demo_relay_def)
  ultimately show ?thesis by (meson converse_rtranclp_into_rtranclp rtranclp.rtrancl_refl)
qed

theorem tunnel_binding_witness: "(''s'', 7) \<in> set (wd_served (demo_world 3)) \<and> demo_token32 \<noteq> []"
  using tunnel_binding [OF demo_run, of "''s''" 0 7 demo_token32] by (simp add: demo_world_def)

text \<open>The client gives up and comes back while the first splice is still running.\<close>

definition demo_again :: World where
  "demo_again = \<lparr>wd_relay = \<lparr>rl_pending = [''s'' \<mapsto> 1],
       rl_objects = [0 \<mapsto> \<lparr>pd_session = ''s'', pd_token = demo_token32, pd_client = None, pd_done = False\<rparr>,
         1 \<mapsto> \<lparr>pd_session = ''s'', pd_token = demo_token32, pd_client = None, pd_done = False\<rparr>],
       rl_next = 2\<rparr>,
     wd_registered = [(''s'', 1)], wd_waiting = [], wd_checked = [],
     wd_splicing = [(''s'', 0, 7, demo_token32)], wd_served = [(''s'', 7)]\<rparr>"

lemma demo_again_reachable: "tunnel_step\<^sup>*\<^sup>* start_world demo_again"
proof -
  have "tunnel_step (demo_world 3) (demo_world 3\<lparr>wd_relay := remove (demo_relay None) ''s'', wd_waiting := []\<rparr>)"
    using served [of "''s''" 0 7 "demo_world 3" True "remove (demo_relay None) ''s''" "Inl Canceled"]
    by (simp add: Serve_wait_def demo_world_def)
  moreover have "tunnel_step (demo_world 3\<lparr>wd_relay := remove (demo_relay None) ''s'', wd_waiting := []\<rparr>) demo_again"
    using register [of "demo_world 3\<lparr>wd_relay := remove (demo_relay None) ''s'', wd_waiting := []\<rparr>" "calm 0" 0 "''s''"
        "wd_relay demo_again" demo_token32]
    by (simp del: rand_read_calm add: Register_def demo_token32_rand demo_world_def demo_relay_def demo_again_def remove_def)
  ultimately show ?thesis using demo_run by (meson rtranclp.rtrancl_into_rtrancl)
qed

text \<open>A rendezvous is removed by its session id, not by its identity: when a client has given up
  and registered the session again while its first splice was still running, the end of that splice
  removes the new registration, and the agent's second attempt then finds no tunnel session.\<close>

theorem splice_end_drops_new_registration:
  "\<exists>w w' p q token. tunnel_step\<^sup>*\<^sup>* start_world w \<and> tunnel_step w w'
    \<and> (''s'', p, 7, token) \<in> set (wd_splicing w) \<and> rl_pending (wd_relay w) ''s'' = Some q \<and> p \<noteq> q
    \<and> (''s'', q) \<in> set (wd_registered w)
    \<and> (\<forall>t. Attach_check (wd_relay w') ''s'' t = Inl (Error ''unknown tunnel session''))"
proof -
  obtain r' where r': "Attach_end (wd_relay demo_again) ''s'' 0 = Ret r'" "rl_pending r' ''s'' = None"
    by (simp add: Attach_end_def demo_again_def remove_def)
  have sp: "(''s'', 0, 7, demo_token32) \<in> set (wd_splicing demo_again)" by (simp add: demo_again_def)
  show ?thesis
  proof (intro exI conjI)
    show "tunnel_step\<^sup>*\<^sup>* start_world demo_again" by (rule demo_again_reachable)
    show "tunnel_step demo_again (demo_again\<lparr>wd_relay := r', wd_splicing := remove1 (''s'', 0, 7, demo_token32) (wd_splicing demo_again)\<rparr>)"
      using sp r'(1) by (rule ended)
    show "rl_pending (wd_relay demo_again) ''s'' = Some 1" by (simp add: demo_again_def)
    show "(0::nat) \<noteq> 1" by simp
  qed (use sp r'(2) in \<open>simp_all add: Attach_check_def get_def demo_again_def\<close>)
qed

section \<open>Splicing\<close>

text \<open>What \<open>Recv\<close> returns on the source, and what a \<open>Send\<close> on the destination returns, in order.\<close>

datatype received = Frame TunnelFrame | RecvEOF | RecvError error

definition data_frame :: "bytes \<Rightarrow> TunnelFrame" where
  "data_frame bs = \<lparr>tf_session = [], tf_token = [], tf_data = bs, tf_close = False\<rparr>"

definition close_frame :: TunnelFrame where
  "close_frame = \<lparr>tf_session = [], tf_token = [], tf_data = [], tf_close = True\<rparr>"

text \<open>
  \<open>pump\<close>: the frames it sends and how it ends; no end while it waits for the next frame.
  \<open>fails k\<close> is the error of the \<open>k\<close>-th send of data, if it fails; the error of sending the
  final close is ignored.
\<close>

fun pump :: "received list \<Rightarrow> (nat \<Rightarrow> error option) \<Rightarrow> nat \<Rightarrow> TunnelFrame list \<times> unit result option" where
  "pump [] fails k = ([], None)"
| "pump (RecvEOF # src) fails k = ([close_frame], Some (Inr ()))"
| "pump (RecvError err # src) fails k = ([], Some (Inl err))"
| "pump (Frame frame # src) fails k =
    (if List.length (tf_data frame) > 0 \<and> fails k \<noteq> None then ([], Some (Inl (the (fails k))))
     else let sent = (if List.length (tf_data frame) > 0 then [data_frame (tf_data frame)] else []);
              k' = (if List.length (tf_data frame) > 0 then Suc k else k)
          in if tf_close frame then (sent @ [close_frame], Some (Inr ()))
             else (case pump src fails k' of (out, end') \<Rightarrow> (sent @ out, end')))"

text \<open>The bytes of a stream up to its close, its end or an error.\<close>

fun payload :: "received list \<Rightarrow> bytes" where
  "payload [] = []"
| "payload (RecvEOF # src) = []"
| "payload (RecvError err # src) = []"
| "payload (Frame frame # src) = tf_data frame @ (if tf_close frame then [] else payload src)"

definition sent_bytes :: "TunnelFrame list \<Rightarrow> bytes" where
  "sent_bytes out = concat (map tf_data out)"

lemma sent_bytes_simps [simp]:
  "sent_bytes [] = []" "sent_bytes (f # out) = tf_data f @ sent_bytes out"
  "sent_bytes (a @ b) = sent_bytes a @ sent_bytes b"
  by (simp_all add: sent_bytes_def)

lemma pump_prefix: "\<exists>rest. payload src = sent_bytes (fst (pump src fails k)) @ rest"
proof (induction src fails k rule: pump.induct)
  case (4 frame src fails k)
  then show ?case
    by (auto simp: Let_def data_frame_def close_frame_def split: prod.splits)
qed (auto simp: close_frame_def)

lemma pump_complete: "snd (pump src fails k) = Some (Inr ()) \<Longrightarrow>
    sent_bytes (fst (pump src fails k)) = payload src
    \<and> (\<exists>out. fst (pump src fails k) = out @ [close_frame] \<and> close_frame \<notin> set out)"
proof (induction src fails k rule: pump.induct)
  case (4 frame src fails k)
  let ?data = "List.length (tf_data frame) > 0"
  let ?k = "if ?data then Suc k else k"
  let ?sent = "if ?data then [data_frame (tf_data frame)] else []"
  have nf: "\<not> (?data \<and> fails k \<noteq> None)" using 4(2) by (cases "?data \<and> fails k \<noteq> None") simp_all
  have sent: "sent_bytes ?sent = tf_data frame" "close_frame \<notin> set ?sent"
    by (auto simp: data_frame_def close_frame_def)
  show ?case
  proof (cases "tf_close frame")
    case True
    then have "fst (pump (Frame frame # src) fails k) = ?sent @ [close_frame]" using nf by auto
    then show ?thesis using sent True by (auto simp: close_frame_def)
  next
    case False
    then have step: "pump (Frame frame # src) fails k = (?sent @ fst (pump src fails ?k), snd (pump src fails ?k))"
      using nf by (auto split: prod.splits)
    then obtain out where "sent_bytes (fst (pump src fails ?k)) = payload src"
      "fst (pump src fails ?k) = out @ [close_frame]" "close_frame \<notin> set out"
      using 4(1) [OF nf refl refl False] 4(2) by auto
    then show ?thesis
      unfolding step using sent False by (intro conjI exI [of _ "?sent @ out"]) simp_all
  qed
qed (auto simp: close_frame_def)

lemma pump_keeps_going: "(\<forall>j. fails j = None) \<Longrightarrow> snd (pump src fails k) = None \<Longrightarrow>
    sent_bytes (fst (pump src fails k)) = payload src"
proof (induction src fails k rule: pump.induct)
  case (4 frame src fails k)
  then show ?case
    by (auto simp: Let_def data_frame_def close_frame_def split: prod.splits if_splits)
qed auto

text \<open>The pump invents and reorders nothing: the bytes it has sent are always a prefix of the
  bytes received before the stream's close. When it ends without an error it has sent all of them,
  followed by exactly one close; and while sends succeed it holds nothing back.\<close>

theorem pump_preserves_bytes:
  "(\<exists>rest. payload src = sent_bytes (fst (pump src fails k)) @ rest)
   \<and> (snd (pump src fails k) = Some (Inr ()) \<longrightarrow> sent_bytes (fst (pump src fails k)) = payload src
        \<and> (\<exists>out. fst (pump src fails k) = out @ [close_frame] \<and> close_frame \<notin> set out))
   \<and> ((\<forall>j. fails j = None) \<longrightarrow> snd (pump src fails k) = None \<longrightarrow>
        sent_bytes (fst (pump src fails k)) = payload src)"
  using pump_prefix pump_complete pump_keeps_going by blast

theorem pump_preserves_bytes_witness:
  "sent_bytes (fst (pump [Frame (data_frame ''ab''), Frame (data_frame ''c''), RecvEOF] (\<lambda>j. None) 0)) = ''abc''"
  using pump_preserves_bytes [of "[Frame (data_frame ''ab''), Frame (data_frame ''c''), RecvEOF]" "\<lambda>j. None" 0]
  by (simp add: data_frame_def Let_def)

text \<open>\<open>splice\<close> returns what the first of its two pumps to end returns.\<close>

definition splice :: "bool \<Rightarrow> unit result \<Rightarrow> unit result \<Rightarrow> unit result" where
  "splice first_a ra rb = (if first_a then ra else rb)"

end
