(* ===== verification/Registry.thy ===== *)
theory Registry
  imports Api
begin

text \<open>
  \<open>internal/registry/registry.go\<close>: the agents that are connected, their sessions with the
  bounded queue of messages for each, and the reconnect backoff of the agent. Sessions are
  shared objects: the registry holds them by their generation, and so does the stream that
  acquired one. The registry's mutex makes every operation one step.
\<close>

section \<open>State\<close>

record Session =
  se_agent :: string
  se_queue :: "ValidatorMessage list"
  se_cap :: nat
  se_closed :: bool
  se_released :: bool

record Entry =
  en_generation :: nat
  en_online :: bool
  en_last_seen :: time
  en_hello :: AgentHello
  en_session :: "nat option"

record Registry =
  rg_entries :: "string \<Rightarrow> Entry option"
  rg_generation :: nat
  rg_version :: u32
  rg_limits :: ProtocolLimits
  rg_timeout :: duration
  rg_sessions :: "nat \<Rightarrow> Session option"

record Snapshot =
  sn_agent :: string
  sn_online :: bool
  sn_last_seen :: time
  sn_hello :: "AgentHello option"

definition ErrDuplicateStream :: error where "ErrDuplicateStream = Error ''duplicate agent stream''"
definition ErrIdentityMismatch :: error where
  "ErrIdentityMismatch = Error ''certificate and hello identity mismatch''"
definition ErrVersionMismatch :: error where "ErrVersionMismatch = Error ''protocol version mismatch''"
definition ErrLimitsExceeded :: error where "ErrLimitsExceeded = Error ''protocol limits exceeded''"
definition ErrAgentOffline :: error where "ErrAgentOffline = Error ''agent offline''"

lemmas registry_errors = ErrDuplicateStream_def ErrIdentityMismatch_def ErrVersionMismatch_def
  ErrLimitsExceeded_def ErrAgentOffline_def

section \<open>Operations\<close>

definition New :: "u32 \<Rightarrow> ProtocolLimits option \<Rightarrow> duration \<Rightarrow> Registry" where
  "New version limits timeout = \<lparr>rg_entries = Map.empty, rg_generation = 0, rg_version = version,
     rg_limits = (case limits of None \<Rightarrow> DefaultLimits | Some l \<Rightarrow> l), rg_timeout = timeout,
     rg_sessions = Map.empty\<rparr>"

definition negotiate :: "ProtocolLimits \<Rightarrow> ProtocolLimits option \<Rightarrow> ProtocolLimits" where
  "negotiate server agent = (case agent of None \<Rightarrow> server | Some a \<Rightarrow>
     let out = server;
         out = (if MaxMessageBytes a > 0 \<and> MaxMessageBytes a < MaxMessageBytes out
                then out\<lparr>MaxMessageBytes := MaxMessageBytes a\<rparr> else out);
         out = (if MaxQueueDepth a > 0 \<and> MaxQueueDepth a < MaxQueueDepth out
                then out\<lparr>MaxQueueDepth := MaxQueueDepth a\<rparr> else out);
         out = (if MaxCapabilities a > 0 \<and> MaxCapabilities a < MaxCapabilities out
                then out\<lparr>MaxCapabilities := MaxCapabilities a\<rparr> else out)
     in out)"

definition Acquire :: "Registry \<Rightarrow> string \<Rightarrow> string \<Rightarrow> AgentHello option \<Rightarrow> time
    \<Rightarrow> Registry \<times> (nat \<times> ConnectionState) result" where
  "Acquire r certID helloID hello now = (case hello of
      None \<Rightarrow> (r, Inl ErrIdentityMismatch)
    | Some h \<Rightarrow>
       if certID = [] \<or> certID \<noteq> helloID \<or> helloID \<noteq> hello_agent_id h then (r, Inl ErrIdentityMismatch)
       else (case hello_protocol h of
         None \<Rightarrow> (r, Inl ErrVersionMismatch)
       | Some p \<Rightarrow>
          if rg_version r < Minimum p \<or> rg_version r > Maximum p then (r, Inl ErrVersionMismatch)
          else if word_of_nat (List.length (hello_capabilities h)) > MaxCapabilities (rg_limits r)
            then (r, Inl ErrLimitsExceeded)
          else if (case rg_entries r certID of None \<Rightarrow> False | Some e \<Rightarrow> en_online e)
            then (r, Inl ErrDuplicateStream)
          else (let g = rg_generation r + 1;
                    depth = (if MaxQueueDepth (rg_limits r) = 0 then 1 else MaxQueueDepth (rg_limits r));
                    s = \<lparr>se_agent = certID, se_queue = [], se_cap = unat depth, se_closed = False, se_released = False\<rparr>;
                    e = \<lparr>en_generation = g, en_online = True, en_last_seen = now, en_hello = h, en_session = Some g\<rparr>
                in (r\<lparr>rg_generation := g, rg_entries := (rg_entries r)(certID \<mapsto> e),
                      rg_sessions := (rg_sessions r)(g \<mapsto> s)\<rparr>,
                    Inr (g, \<lparr>cs_accepted = True, cs_version = rg_version r, cs_stream_policy = REJECT_NEW,
                      cs_job_policy = REJECT, cs_limits = negotiate (rg_limits r) (hello_limits h)\<rparr>)))))"

text \<open>
  Sending on a session's queue. \<open>cancelled\<close> says that the select takes the branch of the
  finished context; a full queue leaves it no other. Sending on a closed channel panics.
\<close>

definition Enqueue :: "Registry \<Rightarrow> nat \<Rightarrow> ValidatorMessage \<Rightarrow> bool \<Rightarrow> (Registry \<times> unit result) outcome" where
  "Enqueue r g m cancelled = (case rg_sessions r g of
      None \<Rightarrow> Panic ''nil session''
    | Some s \<Rightarrow>
       if cancelled then Ret (r, Inl Canceled)
       else if se_closed s then Panic ''send on closed channel''
       else if se_cap s \<le> List.length (se_queue s) then Ret (r, Inl Canceled)
       else Ret (r\<lparr>rg_sessions := (rg_sessions r)(g \<mapsto> s\<lparr>se_queue := se_queue s @ [m]\<rparr>)\<rparr>, Inr ()))"

text \<open>The stream's goroutine takes the oldest message.\<close>

definition Receive :: "Registry \<Rightarrow> nat \<Rightarrow> Registry \<times> ValidatorMessage option" where
  "Receive r g = (case rg_sessions r g of
      None \<Rightarrow> (r, None)
    | Some s \<Rightarrow> (case se_queue s of
        [] \<Rightarrow> (r, None)
      | m # ms \<Rightarrow> (r\<lparr>rg_sessions := (rg_sessions r)(g \<mapsto> s\<lparr>se_queue := ms\<rparr>)\<rparr>, Some m)))"

definition touch :: "Registry \<Rightarrow> string \<Rightarrow> nat \<Rightarrow> time \<Rightarrow> Registry" where
  "touch r ident g now = (case rg_entries r ident of
      None \<Rightarrow> r
    | Some e \<Rightarrow> if en_generation e = g \<and> en_online e
        then r\<lparr>rg_entries := (rg_entries r)(ident \<mapsto> e\<lparr>en_last_seen := now\<rparr>)\<rparr> else r)"

definition release :: "Registry \<Rightarrow> string \<Rightarrow> nat \<Rightarrow> time \<Rightarrow> Registry" where
  "release r ident g now = (case rg_entries r ident of
      None \<Rightarrow> r
    | Some e \<Rightarrow> if en_generation e = g
        then r\<lparr>rg_entries := (rg_entries r)(ident \<mapsto> e\<lparr>en_online := False, en_last_seen := now\<rparr>)\<rparr> else r)"

definition close_queue :: "Registry \<Rightarrow> nat \<Rightarrow> Registry outcome" where
  "close_queue r g = (case rg_sessions r g of
      None \<Rightarrow> Panic ''nil session''
    | Some s \<Rightarrow> if se_closed s then Panic ''close of closed channel''
        else Ret (r\<lparr>rg_sessions := (rg_sessions r)(g \<mapsto> s\<lparr>se_closed := True\<rparr>)\<rparr>))"

definition Heartbeat :: "Registry \<Rightarrow> nat \<Rightarrow> time \<Rightarrow> Registry" where
  "Heartbeat r g now = (case rg_sessions r g of None \<Rightarrow> r | Some s \<Rightarrow> touch r (se_agent s) g now)"

text \<open>\<open>Session.Release\<close>: once only, then the entry and the queue.\<close>

definition Release :: "Registry \<Rightarrow> nat \<Rightarrow> time \<Rightarrow> Registry outcome" where
  "Release r g now = (case rg_sessions r g of
      None \<Rightarrow> Ret r
    | Some s \<Rightarrow>
       if se_released s then Ret r
       else close_queue (release (r\<lparr>rg_sessions := (rg_sessions r)(g \<mapsto> s\<lparr>se_released := True\<rparr>)\<rparr>)
              (se_agent s) g now) g)"

definition Disconnect :: "Registry \<Rightarrow> string \<Rightarrow> time \<Rightarrow> Registry outcome" where
  "Disconnect r ident now = (case rg_entries r ident of
      None \<Rightarrow> Ret r
    | Some e \<Rightarrow> (case en_session e of
        None \<Rightarrow> Ret r
      | Some g \<Rightarrow> (case close_queue r g of
          Panic p \<Rightarrow> Panic p
        | Ret r' \<Rightarrow> Ret (r'\<lparr>rg_entries := (rg_entries r')(ident \<mapsto>
            e\<lparr>en_online := False, en_session := None, en_last_seen := now\<rparr>)\<rparr>))))"

text \<open>The session \<open>Dispatch\<close> finds under the lock, and the send it makes after releasing it.\<close>

definition dispatch_session :: "Registry \<Rightarrow> string \<Rightarrow> nat result" where
  "dispatch_session r ident = (case rg_entries r ident of
      None \<Rightarrow> Inl ErrAgentOffline
    | Some e \<Rightarrow> if \<not> en_online e then Inl ErrAgentOffline
        else (case en_session e of None \<Rightarrow> Inl ErrAgentOffline | Some g \<Rightarrow> Inr g))"

definition Dispatch :: "Registry \<Rightarrow> string \<Rightarrow> ValidatorMessage \<Rightarrow> bool \<Rightarrow> (Registry \<times> unit result) outcome" where
  "Dispatch r ident m cancelled = (case dispatch_session r ident of
      Inl err \<Rightarrow> Ret (r, Inl err)
    | Inr g \<Rightarrow> Enqueue r g m cancelled)"

definition snapshot :: "Registry \<Rightarrow> string \<Rightarrow> Snapshot" where
  "snapshot r ident = (case rg_entries r ident of
      None \<Rightarrow> \<lparr>sn_agent = ident, sn_online = False, sn_last_seen = zero_time, sn_hello = None\<rparr>
    | Some e \<Rightarrow> \<lparr>sn_agent = ident, sn_online = en_online e, sn_last_seen = en_last_seen e,
        sn_hello = Some (en_hello e)\<rparr>)"

definition Expire :: "Registry \<Rightarrow> time \<Rightarrow> Registry" where
  "Expire r now = r\<lparr>rg_entries := (\<lambda>ident. case rg_entries r ident of
      None \<Rightarrow> None
    | Some e \<Rightarrow> Some (if en_online e \<and> time_sub now (en_last_seen e) > rg_timeout r
        then e\<lparr>en_online := False\<rparr> else e))\<rparr>"

section \<open>Negotiated limits\<close>

definition limits_le :: "ProtocolLimits \<Rightarrow> ProtocolLimits \<Rightarrow> bool" where
  "limits_le a b \<longleftrightarrow> MaxMessageBytes a \<le> MaxMessageBytes b \<and> MaxOutputBytes a \<le> MaxOutputBytes b
     \<and> MaxOutputChunkBytes a \<le> MaxOutputChunkBytes b \<and> MaxMetrics a \<le> MaxMetrics b
     \<and> MaxLabelsPerMetric a \<le> MaxLabelsPerMetric b \<and> MaxCapabilities a \<le> MaxCapabilities b
     \<and> MaxQueueDepth a \<le> MaxQueueDepth b \<and> MaxReasonBytes a \<le> MaxReasonBytes b
     \<and> MaxCommandBytes a \<le> MaxCommandBytes b \<and> MaxUnitBytes a \<le> MaxUnitBytes b
     \<and> MaxPathBytes a \<le> MaxPathBytes b \<and> MaxJobTimeoutSeconds a \<le> MaxJobTimeoutSeconds b
     \<and> MaxSshTtlSeconds a \<le> MaxSshTtlSeconds b \<and> MaxPageSize a \<le> MaxPageSize b"

text \<open>Reading one field after the three conditional updates.\<close>

lemma negotiate_message: "MaxMessageBytes (negotiate s (Some a))
    = (if MaxMessageBytes a > 0 \<and> MaxMessageBytes a < MaxMessageBytes s then MaxMessageBytes a else MaxMessageBytes s)"
  by (simp add: negotiate_def Let_def if_distrib cong: if_cong)

lemma negotiate_queue: "MaxQueueDepth (negotiate s (Some a))
    = (if MaxQueueDepth a > 0 \<and> MaxQueueDepth a < MaxQueueDepth s then MaxQueueDepth a else MaxQueueDepth s)"
  by (simp add: negotiate_def Let_def if_distrib cong: if_cong)

lemma negotiate_capabilities: "MaxCapabilities (negotiate s (Some a))
    = (if MaxCapabilities a > 0 \<and> MaxCapabilities a < MaxCapabilities s then MaxCapabilities a else MaxCapabilities s)"
  by (simp add: negotiate_def Let_def if_distrib cong: if_cong)

lemma negotiate_others:
  "MaxOutputBytes (negotiate s (Some a)) = MaxOutputBytes s"
  "MaxOutputChunkBytes (negotiate s (Some a)) = MaxOutputChunkBytes s"
  "MaxMetrics (negotiate s (Some a)) = MaxMetrics s"
  "MaxLabelsPerMetric (negotiate s (Some a)) = MaxLabelsPerMetric s"
  "MaxReasonBytes (negotiate s (Some a)) = MaxReasonBytes s"
  "MaxCommandBytes (negotiate s (Some a)) = MaxCommandBytes s"
  "MaxUnitBytes (negotiate s (Some a)) = MaxUnitBytes s"
  "MaxPathBytes (negotiate s (Some a)) = MaxPathBytes s"
  "MaxJobTimeoutSeconds (negotiate s (Some a)) = MaxJobTimeoutSeconds s"
  "MaxSshTtlSeconds (negotiate s (Some a)) = MaxSshTtlSeconds s"
  "MaxPageSize (negotiate s (Some a)) = MaxPageSize s"
  by (simp_all add: negotiate_def Let_def if_distrib cong: if_cong)

lemmas negotiate_simps = negotiate_message negotiate_queue negotiate_capabilities negotiate_others

lemma lower_le: "(if (x::u32) > 0 \<and> x < y then x else y) \<le> y"
  by (auto intro: less_imp_le)

lemma lower_min: "(if (x::u32) > 0 \<and> x < y then x else y) = (if x = 0 then y else min x y)"
  by (auto simp: min_def word_gt_0)

text \<open>Negotiation never raises a limit of the server's, whatever the agent offers; the three
  limits an agent may lower become the smaller of the two, where zero means no offer.\<close>

theorem negotiate_lowers:
  "limits_le (negotiate server agent) server
   \<and> (case agent of None \<Rightarrow> negotiate server agent = server
      | Some a \<Rightarrow> MaxMessageBytes (negotiate server agent)
            = (if MaxMessageBytes a = 0 then MaxMessageBytes server else min (MaxMessageBytes a) (MaxMessageBytes server))
        \<and> MaxQueueDepth (negotiate server agent)
            = (if MaxQueueDepth a = 0 then MaxQueueDepth server else min (MaxQueueDepth a) (MaxQueueDepth server))
        \<and> MaxCapabilities (negotiate server agent)
            = (if MaxCapabilities a = 0 then MaxCapabilities server else min (MaxCapabilities a) (MaxCapabilities server)))"
proof (cases agent)
  case (Some a)
  have "limits_le (negotiate server (Some a)) server"
    by (simp add: negotiate_simps limits_le_def lower_le split del: if_split)
  then show ?thesis using Some by (simp add: negotiate_simps lower_min split del: if_split)
qed (simp add: negotiate_def limits_le_def)

section \<open>The invariant\<close>

text \<open>
  Every session has a generation already handed out and a queue within its capacity. Every
  entry is about a session of its own agent, holds that session or none, and while it is online
  holds it open.
\<close>

definition session_ok :: "Registry \<Rightarrow> nat \<Rightarrow> Session \<Rightarrow> bool" where
  "session_ok r g s \<longleftrightarrow> 0 < g \<and> g \<le> rg_generation r \<and> List.length (se_queue s) \<le> se_cap s \<and> 1 \<le> se_cap s
     \<and> (se_released s \<longrightarrow> se_closed s)"

definition entry_ok :: "Registry \<Rightarrow> string \<Rightarrow> Entry \<Rightarrow> bool" where
  "entry_ok r ident e \<longleftrightarrow> ident \<noteq> [] \<and> (\<exists>s. rg_sessions r (en_generation e) = Some s \<and> se_agent s = ident
     \<and> (en_session e = None \<or> en_session e = Some (en_generation e))
     \<and> (en_online e \<longrightarrow> en_session e = Some (en_generation e) \<and> \<not> se_closed s))"

definition reg_ok :: "Registry \<Rightarrow> bool" where
  "reg_ok r \<longleftrightarrow> (\<forall>g s. rg_sessions r g = Some s \<longrightarrow> session_ok r g s)
     \<and> (\<forall>ident e. rg_entries r ident = Some e \<longrightarrow> entry_ok r ident e)"

inductive registry_step :: "Registry \<Rightarrow> Registry \<Rightarrow> bool" where
  acquire: "Acquire r certID helloID hello now = (r', res) \<Longrightarrow> registry_step r r'"
| dispatch: "Dispatch r ident m cancelled = Ret (r', res) \<Longrightarrow> registry_step r r'"
| receive: "Receive r g = (r', m) \<Longrightarrow> registry_step r r'"
| heartbeat: "registry_step r (Heartbeat r g now)"
| released: "Release r g now = Ret r' \<Longrightarrow> registry_step r r'"
| disconnect: "Disconnect r ident now = Ret r' \<Longrightarrow> registry_step r r'"
| expire: "registry_step r (Expire r now)"

inductive_cases registry_stepE: "registry_step r r'"

lemma reg_ok_New: "reg_ok (New version limits timeout)"
  by (simp add: reg_ok_def New_def)

lemma reg_okD:
  "reg_ok r \<Longrightarrow> rg_sessions r g = Some s \<Longrightarrow> session_ok r g s"
  "reg_ok r \<Longrightarrow> rg_entries r ident = Some e \<Longrightarrow> entry_ok r ident e"
  by (auto simp: reg_ok_def)

lemma Acquire_cases: "case Acquire r certID helloID hello now of (r', res) \<Rightarrow>
    (case res of
       Inl err \<Rightarrow> r' = r
     | Inr (g, st) \<Rightarrow> g = rg_generation r + 1 \<and> certID \<noteq> [] \<and> (\<exists>h depth. hello = Some h
         \<and> hello_agent_id h = certID \<and> 1 \<le> depth \<and> cs_limits st = negotiate (rg_limits r) (hello_limits h)
         \<and> (\<forall>e. rg_entries r certID = Some e \<longrightarrow> \<not> en_online e)
         \<and> r' = r\<lparr>rg_generation := g,
             rg_entries := (rg_entries r)(certID \<mapsto> \<lparr>en_generation = g, en_online = True,
                en_last_seen = now, en_hello = h, en_session = Some g\<rparr>),
             rg_sessions := (rg_sessions r)(g \<mapsto> \<lparr>se_agent = certID, se_queue = [], se_cap = depth,
                se_closed = False, se_released = False\<rparr>)\<rparr>))"
proof -
  have pos: "1 \<le> unat (if MaxQueueDepth (rg_limits r) = 0 then 1 else MaxQueueDepth (rg_limits r))"
    by (simp add: Suc_le_eq unat_gt_0)
  show ?thesis
    unfolding Acquire_def Let_def using pos
    by (auto split: option.split if_split_asm)
qed

lemma reg_ok_Acquire:
  assumes "reg_ok r" "Acquire r certID helloID hello now = (r', res)"
  shows "reg_ok r'"
proof (cases res)
  case (Inl err)
  then show ?thesis
    using Acquire_cases [where r = r and certID = certID and helloID = helloID and hello = hello and now = now] assms by simp
next
  case (Inr p)
  obtain g st where p: "p = (g, st)" by fastforce
  obtain h depth where r': "g = rg_generation r + 1" "certID \<noteq> []" "1 \<le> depth"
    "r' = r\<lparr>rg_generation := g,
       rg_entries := (rg_entries r)(certID \<mapsto> \<lparr>en_generation = g, en_online = True,
          en_last_seen = now, en_hello = h, en_session = Some g\<rparr>),
       rg_sessions := (rg_sessions r)(g \<mapsto> \<lparr>se_agent = certID, se_queue = [], se_cap = depth,
          se_closed = False, se_released = False\<rparr>)\<rparr>"
    using Acquire_cases [where r = r and certID = certID and helloID = helloID and hello = hello and now = now] assms(2) Inr p by auto
  have fresh: "rg_sessions r g = None"
    using reg_okD(1) [OF assms(1), of g] r'(1) by (cases "rg_sessions r g") (auto simp: session_ok_def)
  show ?thesis
    using assms(1) fresh r' by (force simp: reg_ok_def session_ok_def entry_ok_def)
qed

text \<open>Changing a session in place, and changing an entry in place.\<close>

lemma reg_ok_session:
  assumes "reg_ok r" "rg_sessions r g = Some s" "session_ok r g s'" "se_agent s' = se_agent s"
    "se_closed s' \<Longrightarrow> \<not> se_closed s \<Longrightarrow> (\<forall>e. rg_entries r (se_agent s) = Some e \<longrightarrow> en_generation e = g \<longrightarrow> \<not> en_online e)"
  shows "reg_ok (r\<lparr>rg_sessions := (rg_sessions r)(g \<mapsto> s')\<rparr>)"
  using assms unfolding reg_ok_def session_ok_def entry_ok_def by (auto; metis option.inject)

lemma reg_ok_entry:
  assumes "reg_ok r" "entry_ok r ident e'"
  shows "reg_ok (r\<lparr>rg_entries := (rg_entries r)(ident \<mapsto> e')\<rparr>)"
  using assms by (auto simp: reg_ok_def session_ok_def entry_ok_def)

lemma Enqueue_Ret: "Enqueue r g m cancelled = Ret (r', res) \<longleftrightarrow> (\<exists>s. rg_sessions r g = Some s
    \<and> (if cancelled \<or> \<not> se_closed s \<and> se_cap s \<le> List.length (se_queue s) then r' = r \<and> res = Inl Canceled
       else \<not> se_closed s \<and> res = Inr () \<and> r' = r\<lparr>rg_sessions := (rg_sessions r)(g \<mapsto> s\<lparr>se_queue := se_queue s @ [m]\<rparr>)\<rparr>))"
  by (auto simp: Enqueue_def split: option.splits if_splits)

lemma reg_ok_Enqueue:
  assumes "reg_ok r" "Enqueue r g m cancelled = Ret (r', res)"
  shows "reg_ok r'"
proof -
  obtain s where s: "rg_sessions r g = Some s"
    and r': "r' = r \<or> r' = r\<lparr>rg_sessions := (rg_sessions r)(g \<mapsto> s\<lparr>se_queue := se_queue s @ [m]\<rparr>)\<rparr>
      \<and> List.length (se_queue s) < se_cap s"
    using assms(2) unfolding Enqueue_Ret by (auto split: if_splits)
  have "session_ok r g s" using reg_okD(1) [OF assms(1) s] .
  then show ?thesis
    using r' reg_ok_session [OF assms(1) s, of "s\<lparr>se_queue := se_queue s @ [m]\<rparr>"] assms(1)
    by (auto simp: session_ok_def)
qed

lemma reg_ok_Dispatch: "reg_ok r \<Longrightarrow> Dispatch r ident m cancelled = Ret (r', res) \<Longrightarrow> reg_ok r'"
  by (auto simp: Dispatch_def split: sum.splits intro: reg_ok_Enqueue)

lemma reg_ok_Receive:
  assumes "reg_ok r" "Receive r g = (r', m)"
  shows "reg_ok r'"
proof (cases "r' = r")
  case False
  then obtain s x ms where s: "rg_sessions r g = Some s" "se_queue s = x # ms"
    "r' = r\<lparr>rg_sessions := (rg_sessions r)(g \<mapsto> s\<lparr>se_queue := ms\<rparr>)\<rparr>"
    using assms(2) by (auto simp: Receive_def split: option.splits list.splits)
  have "session_ok r g s" using reg_okD(1) [OF assms(1) s(1)] .
  then show ?thesis
    using s reg_ok_session [OF assms(1) s(1), of "s\<lparr>se_queue := ms\<rparr>"] by (auto simp: session_ok_def)
qed (use assms in simp)

lemma reg_ok_touch: "reg_ok r \<Longrightarrow> reg_ok (touch r ident g now)"
  using reg_okD(2) [of r ident]
  by (auto simp: touch_def entry_ok_def split: option.split intro!: reg_ok_entry)

lemma reg_ok_Heartbeat: "reg_ok r \<Longrightarrow> reg_ok (Heartbeat r g now)"
  by (auto simp: Heartbeat_def reg_ok_touch split: option.split)

lemma reg_ok_release: "reg_ok r \<Longrightarrow> reg_ok (release r ident g now)"
  using reg_okD(2) [of r ident]
  by (auto simp: release_def entry_ok_def split: option.split intro!: reg_ok_entry)

lemma release_frame [simp]:
  "rg_sessions (release r ident g now) = rg_sessions r"
  "release (r\<lparr>rg_sessions := f\<rparr>) ident g now = (release r ident g now)\<lparr>rg_sessions := f\<rparr>"
  by (auto simp: release_def split: option.split)

lemma release_offline: "rg_entries (release r ident g now) ident = Some e \<Longrightarrow> en_generation e = g \<Longrightarrow> \<not> en_online e"
  by (auto simp: release_def split: option.splits if_splits)

lemma Release_Ret: "Release r g now = Ret r' \<longleftrightarrow> (case rg_sessions r g of
      None \<Rightarrow> r' = r
    | Some s \<Rightarrow> if se_released s then r' = r
        else \<not> se_closed s \<and> r' = (release r (se_agent s) g now)\<lparr>rg_sessions :=
          (rg_sessions r)(g \<mapsto> s\<lparr>se_released := True, se_closed := True\<rparr>)\<rparr>)"
  by (auto simp: Release_def close_queue_def split: option.split)

lemma reg_ok_Release:
  assumes "reg_ok r" "Release r g now = Ret r'"
  shows "reg_ok r'"
proof (cases "r' = r")
  case False
  then obtain s where s: "rg_sessions r g = Some s"
    "r' = (release r (se_agent s) g now)\<lparr>rg_sessions := (rg_sessions r)(g \<mapsto> s\<lparr>se_released := True, se_closed := True\<rparr>)\<rparr>"
    using assms(2) by (auto simp: Release_Ret split: option.splits if_splits)
  let ?r = "release r (se_agent s) g now"
  have ok: "reg_ok ?r" using assms(1) by (rule reg_ok_release)
  have s': "rg_sessions ?r g = Some s" using s by simp
  then have "session_ok ?r g s" by (rule reg_okD(1) [OF ok])
  then show ?thesis
    using s reg_ok_session [OF ok s', of "s\<lparr>se_released := True, se_closed := True\<rparr>"]
    by (auto simp: session_ok_def dest: release_offline)
qed (use assms in simp)

lemma reg_ok_Disconnect:
  assumes "reg_ok r" "Disconnect r ident now = Ret r'"
  shows "reg_ok r'"
proof (cases "r' = r")
  case False
  then obtain e g s where e: "rg_entries r ident = Some e" "en_session e = Some g" "rg_sessions r g = Some s"
    "r' = r\<lparr>rg_sessions := (rg_sessions r)(g \<mapsto> s\<lparr>se_closed := True\<rparr>),
       rg_entries := (rg_entries r)(ident \<mapsto> e\<lparr>en_online := False, en_session := None, en_last_seen := now\<rparr>)\<rparr>"
    using assms(2) by (auto simp: Disconnect_def close_queue_def split: option.splits outcome.splits if_splits)
  let ?r = "r\<lparr>rg_entries := (rg_entries r)(ident \<mapsto> e\<lparr>en_online := False, en_session := None, en_last_seen := now\<rparr>)\<rparr>"
  have eok: "entry_ok r ident e" using reg_okD(2) [OF assms(1) e(1)] .
  then have ok: "reg_ok ?r"
    by (intro reg_ok_entry [OF assms(1)]) (auto simp: entry_ok_def)
  have agent: "se_agent s = ident" using eok e by (auto simp: entry_ok_def)
  have "session_ok ?r g s" using reg_okD(1) [OF ok] e(3) by simp
  then have "reg_ok (?r\<lparr>rg_sessions := (rg_sessions ?r)(g \<mapsto> s\<lparr>se_closed := True\<rparr>)\<rparr>)"
    using e(3) agent by (intro reg_ok_session [OF ok]) (auto simp: session_ok_def)
  moreover have "r' = ?r\<lparr>rg_sessions := (rg_sessions ?r)(g \<mapsto> s\<lparr>se_closed := True\<rparr>)\<rparr>"
    unfolding e(4) by simp
  ultimately show ?thesis by simp
qed (use assms in simp)

lemma reg_ok_Expire: "reg_ok r \<Longrightarrow> reg_ok (Expire r now)"
  unfolding reg_ok_def Expire_def session_ok_def entry_ok_def
  by (auto split: option.splits) blast+

lemma reg_ok_step: "registry_step r r' \<Longrightarrow> reg_ok r \<Longrightarrow> reg_ok r'"
  by (erule registry_stepE)
     (auto intro: reg_ok_Acquire reg_ok_Dispatch reg_ok_Receive reg_ok_Heartbeat reg_ok_Release
        reg_ok_Disconnect reg_ok_Expire)

lemma reg_ok_reachable: "registry_step\<^sup>*\<^sup>* r r' \<Longrightarrow> reg_ok r \<Longrightarrow> reg_ok r'"
  by (induction rule: rtranclp_induct) (auto intro: reg_ok_step)


definition demo_hello :: "string \<Rightarrow> AgentHello" where
  "demo_hello ident = \<lparr>hello_agent_id = ident, hello_protocol = Some \<lparr>Minimum = 1, Maximum = 1\<rparr>,
     hello_capabilities = [], hello_hostname = ''h'', hello_boot_id = ''b'', hello_os = [], hello_kernel = [],
     hello_architecture = [], hello_limits = None\<rparr>"

definition demo_registry :: Registry where
  "demo_registry = fst (Acquire (New 1 None minute) ''a'' ''a'' (Some (demo_hello ''a'')) 5)"

lemma demo_registry_entry: "rg_entries demo_registry ''a'' = Some \<lparr>en_generation = 1, en_online = True,
    en_last_seen = 5, en_hello = demo_hello ''a'', en_session = Some 1\<rparr>"
  by (simp add: demo_registry_def Acquire_def New_def demo_hello_def DefaultLimits_def Let_def)

lemma demo_registry_reachable: "registry_step\<^sup>*\<^sup>* (New 1 None minute) demo_registry"
  unfolding demo_registry_def by (metis r_into_rtranclp acquire prod.collapse)


text \<open>A second stream for an agent that is online is refused and changes nothing; a stream
  for an agent that is not online replaces the agent's entry by a new, strictly later session,
  provided certificate, hello and protocol agree.\<close>

theorem acquire_duplicate:
  assumes "Acquire r certID helloID (Some h) now = (r', res)"
    "hello_protocol h = Some p" "Minimum p \<le> rg_version r" "rg_version r \<le> Maximum p"
    "word_of_nat (List.length (hello_capabilities h)) \<le> MaxCapabilities (rg_limits r)"
  shows "(if certID = [] \<or> certID \<noteq> helloID \<or> helloID \<noteq> hello_agent_id h
      then res = Inl ErrIdentityMismatch \<and> r' = r
      else if \<exists>e. rg_entries r certID = Some e \<and> en_online e then res = Inl ErrDuplicateStream \<and> r' = r
      else \<exists>st. res = Inr (rg_generation r + 1, st) \<and> rg_generation r' = rg_generation r + 1
        \<and> (\<exists>e. rg_entries r' certID = Some e \<and> en_online e \<and> en_generation e = rg_generation r + 1)
        \<and> (\<forall>other. other \<noteq> certID \<longrightarrow> rg_entries r' other = rg_entries r other))"
proof -
  have v: "\<not> rg_version r < Minimum p" "\<not> rg_version r > Maximum p"
    "\<not> word_of_nat (List.length (hello_capabilities h)) > MaxCapabilities (rg_limits r)"
    using assms(3-5) by (simp_all add: not_less)
  show ?thesis
    using assms(1,2) v by (auto simp: Acquire_def Let_def split: if_splits option.splits)
qed

theorem acquire_duplicate_witness:
  "snd (Acquire demo_registry ''a'' ''a'' (Some (demo_hello ''a'')) 9) = Inl ErrDuplicateStream"
proof -
  have "rg_version demo_registry = 1" "rg_limits demo_registry = DefaultLimits"
    by (simp_all add: demo_registry_def Acquire_def New_def demo_hello_def DefaultLimits_def Let_def)
  then show ?thesis
    using acquire_duplicate [OF prod.collapse [symmetric], where r = demo_registry and certID = "''a''"
        and helloID = "''a''" and h = "demo_hello ''a''" and now = 9 and p = "\<lparr>Minimum = 1, Maximum = 1\<rparr>"]
      demo_registry_entry by (auto simp: demo_hello_def DefaultLimits_def)
qed

end
