(* ===== verification/RegistryFacts.thy ===== *)
theory RegistryFacts
  imports Registry
begin

text \<open>
  More on \<open>internal/registry/registry.go\<close>: a superseded session has no effect on the agent's
  entry, a session's queue is first in, first out within its capacity, closing a session twice
  panics, and the reconnect backoff.
\<close>

section \<open>Superseded sessions\<close>

text \<open>A session that a later stream of the same agent has replaced can still beat and be
  released, but neither touches the agent's entry, the current session or its queue.\<close>

theorem stale_session_harmless:
  assumes "reg_ok r" "rg_sessions r g = Some s" "rg_entries r (se_agent s) = Some e" "en_generation e \<noteq> g"
  shows "Heartbeat r g now = r
    \<and> (\<forall>r'. Release r g now = Ret r' \<longrightarrow> rg_entries r' = rg_entries r
         \<and> (\<forall>other. other \<noteq> g \<longrightarrow> rg_sessions r' other = rg_sessions r other))"
proof -
  have "Heartbeat r g now = r"
    using assms(2-4) by (simp add: Heartbeat_def touch_def)
  moreover have "release r (se_agent s) g now = r"
    using assms(3,4) by (simp add: release_def)
  then have "\<forall>r'. Release r g now = Ret r' \<longrightarrow> rg_entries r' = rg_entries r
         \<and> (\<forall>other. other \<noteq> g \<longrightarrow> rg_sessions r' other = rg_sessions r other)"
    using assms(2) by (auto simp: Release_Ret split: if_splits)
  ultimately show ?thesis by blast
qed

text \<open>The registry after the agent's first stream expired and a second one replaced it.\<close>

definition demo_second :: Registry where
  "demo_second = fst (Acquire (Expire demo_registry (5 + 2 * minute)) ''a'' ''a'' (Some (demo_hello ''a'')) (5 + 2 * minute))"

lemma demo_second_ok: "reg_ok demo_second"
proof -
  have "registry_step\<^sup>*\<^sup>* demo_registry (Expire demo_registry (5 + 2 * minute))"
    by (rule r_into_rtranclp) (rule expire)
  moreover have "registry_step (Expire demo_registry (5 + 2 * minute)) demo_second"
    unfolding demo_second_def by (metis acquire prod.collapse)
  ultimately show ?thesis
    using demo_registry_reachable reg_ok_reachable [OF _ reg_ok_New]
    by (meson rtranclp.rtrancl_into_rtrancl rtranclp_trans)
qed

lemma demo_second_parts:
  "rg_sessions demo_second 1 = Some \<lparr>se_agent = ''a'', se_queue = [], se_cap = 256, se_closed = False, se_released = False\<rparr>"
  "\<exists>e. rg_entries demo_second ''a'' = Some e \<and> en_generation e = 2"
  by (simp_all add: demo_second_def demo_registry_def Expire_def Acquire_def New_def demo_hello_def
      DefaultLimits_def Let_def time_sub_def minute_def)

theorem stale_session_harmless_witness: "Heartbeat demo_second 1 now = demo_second"
  using demo_second_parts stale_session_harmless [OF demo_second_ok demo_second_parts(1)] by auto

section \<open>A session's queue\<close>

text \<open>What happens to one session's queue: a send, which the context may cancel, or a receive.\<close>

datatype queue_op = Send ValidatorMessage bool | Recv

text \<open>The messages accepted, the messages delivered, and the registry after the operations; no result after a panic.\<close>

fun run_queue :: "nat \<Rightarrow> queue_op list \<Rightarrow> Registry \<Rightarrow> (ValidatorMessage list \<times> ValidatorMessage list \<times> Registry) option" where
  "run_queue g [] r = Some ([], [], r)"
| "run_queue g (Send m c # ops) r = (case Enqueue r g m c of
      Panic p \<Rightarrow> None
    | Ret (r', res) \<Rightarrow> (case run_queue g ops r' of
        None \<Rightarrow> None
      | Some (sent, got, r'') \<Rightarrow> Some (if ok res then m # sent else sent, got, r'')))"
| "run_queue g (Recv # ops) r = (case Receive r g of (r', x) \<Rightarrow> (case run_queue g ops r' of
        None \<Rightarrow> None
      | Some (sent, got, r'') \<Rightarrow> Some (sent, case x of None \<Rightarrow> got | Some m \<Rightarrow> m # got, r'')))"

definition queue_of :: "Registry \<Rightarrow> nat \<Rightarrow> ValidatorMessage list" where
  "queue_of r g = (case rg_sessions r g of None \<Rightarrow> [] | Some s \<Rightarrow> se_queue s)"

definition cap_of :: "Registry \<Rightarrow> nat \<Rightarrow> nat" where
  "cap_of r g = (case rg_sessions r g of None \<Rightarrow> 0 | Some s \<Rightarrow> se_cap s)"

lemma Enqueue_queue:
  assumes "Enqueue r g m c = Ret (r', res)"
  shows "queue_of r' g = queue_of r g @ (if ok res then [m] else []) \<and> cap_of r' g = cap_of r g
    \<and> (List.length (queue_of r g) \<le> cap_of r g \<longrightarrow> List.length (queue_of r' g) \<le> cap_of r g)
    \<and> (rg_sessions r g \<noteq> None \<longrightarrow> rg_sessions r' g \<noteq> None)"
  using assms unfolding Enqueue_Ret by (auto simp: queue_of_def cap_of_def split: if_splits)

lemma Receive_queue:
  assumes "Receive r g = (r', x)"
  shows "queue_of r g = (case x of None \<Rightarrow> [] | Some m \<Rightarrow> [m]) @ queue_of r' g \<and> cap_of r' g = cap_of r g"
  using assms by (auto simp: Receive_def queue_of_def cap_of_def split: option.splits list.splits)

lemma queue_run:
  "run_queue g ops r = Some (sent, got, r') \<Longrightarrow>
   got @ queue_of r' g = queue_of r g @ sent
   \<and> (List.length (queue_of r g) \<le> cap_of r g \<longrightarrow> List.length (queue_of r' g) \<le> cap_of r g)"
proof (induction g ops r arbitrary: sent got r' rule: run_queue.induct)
  case (2 g m c ops r)
  then obtain r1 res sent1 where st: "Enqueue r g m c = Ret (r1, res)"
    "run_queue g ops r1 = Some (sent1, got, r')" "sent = (if ok res then m # sent1 else sent1)"
    by (auto split: outcome.splits option.splits)
  show ?case
    using 2(1) [OF st(1) refl st(2)] Enqueue_queue [OF st(1)] st(3) by auto
next
  case (3 g ops r)
  then obtain r1 x got1 where st: "Receive r g = (r1, x)" "run_queue g ops r1 = Some (sent, got1, r')"
    "got = (case x of None \<Rightarrow> got1 | Some m \<Rightarrow> m # got1)"
    by (auto split: prod.splits option.splits)
  show ?case
    using 3(1) [OF st(1) [symmetric] st(2)] Receive_queue [OF st(1)] st(3) by (auto split: option.splits)
qed simp

text \<open>Messages reach an agent in the order they were accepted, none lost and none repeated:
  after any sends and receives on a session, what was delivered followed by what is still queued
  is what was queued at first followed by what was accepted; and the queue stays in its capacity.\<close>

theorem queue_fifo:
  "run_queue g ops r = Some (sent, got, r') \<Longrightarrow>
   got @ queue_of r' g = queue_of r g @ sent
   \<and> (List.length (queue_of r g) \<le> cap_of r g \<longrightarrow> List.length (queue_of r' g) \<le> cap_of r g)"
  by (rule queue_run)

theorem queue_fifo_witness:
  "\<exists>sent got r'. run_queue 1 [Send (CloseSshMsg ''s'') False, Recv] demo_registry = Some (sent, got, r')
    \<and> got @ queue_of r' 1 = sent"
proof -
  have s: "rg_sessions demo_registry 1 = Some \<lparr>se_agent = ''a'', se_queue = [], se_cap = 256, se_closed = False, se_released = False\<rparr>"
    by (simp add: demo_registry_def Acquire_def New_def demo_hello_def DefaultLimits_def Let_def)
  then have "\<exists>sent got r'. run_queue 1 [Send (CloseSshMsg ''s'') False, Recv] demo_registry = Some (sent, got, r')"
    by (simp add: Enqueue_def Receive_def)
  moreover have "queue_of demo_registry 1 = []" using s by (simp add: queue_of_def)
  ultimately show ?thesis using queue_fifo by fastforce
qed

section \<open>Delivery\<close>

definition receives :: "queue_op list \<Rightarrow> nat" where
  "receives ops = List.length (filter (\<lambda>op. op = Recv) ops)"

lemma receives_simps [simp]: "receives [] = 0" "receives (Recv # ops) = Suc (receives ops)" "receives (Send m c # ops) = receives ops"
  by (simp_all add: receives_def)

lemma Receive_empty: "Receive r g = (r', None) \<Longrightarrow> queue_of r g = [] \<and> r' = r"
  by (auto simp: Receive_def queue_of_def split: option.splits list.splits)

text \<open>Every receive of a session with messages queued delivers one.\<close>

lemma run_queue_delivers:
  "run_queue g ops r = Some (sent, got, r') \<Longrightarrow> min (receives ops) (List.length (queue_of r g)) \<le> List.length got"
proof (induction g ops r arbitrary: sent got r' rule: run_queue.induct)
  case (2 g m c ops r)
  then obtain r1 res sent1 where st: "Enqueue r g m c = Ret (r1, res)" "run_queue g ops r1 = Some (sent1, got, r')"
    by (auto split: outcome.splits option.splits)
  show ?case using 2(1) [OF st(1) refl st(2)] Enqueue_queue [OF st(1)] by auto
next
  case (3 g ops r)
  then obtain r1 x got1 where st: "Receive r g = (r1, x)" "run_queue g ops r1 = Some (sent, got1, r')"
    "got = (case x of None \<Rightarrow> got1 | Some m \<Rightarrow> m # got1)"
    by (auto split: prod.splits option.splits)
  have i: "min (receives ops) (List.length (queue_of r1 g)) \<le> List.length got1" by (rule 3(1) [OF st(1) [symmetric] st(2)])
  show ?case
  proof (cases x)
    case None
    then show ?thesis using Receive_empty st(1) by simp
  next
    case (Some m)
    then have "queue_of r g = m # queue_of r1 g" using Receive_queue [OF st(1)] by simp
    then show ?thesis using i st(3) Some by simp
  qed
qed simp

text \<open>C12. A message the registry has taken for an agent reaches it: whatever is sent and received after it on the
  agent's session, and in whatever order, once the stream has received once more than there were messages before it,
  it has delivered these and the message, in this order.\<close>

theorem dispatched_message_arrives:
  assumes "Dispatch r ident m cancelled = Ret (r1, Inr ())" "dispatch_session r ident = Inr g"
    "run_queue g ops r1 = Some (sent, got, r2)" "List.length (queue_of r g) < receives ops"
  shows "take (Suc (List.length (queue_of r g))) got = queue_of r g @ [m]"
proof -
  have "Enqueue r g m cancelled = Ret (r1, Inr ())" using assms(1,2) by (simp add: Dispatch_def)
  then have q: "queue_of r1 g = queue_of r g @ [m]" using Enqueue_queue by fastforce
  then have "Suc (List.length (queue_of r g)) \<le> List.length got" using run_queue_delivers [OF assms(3)] assms(4) by simp
  moreover have "got @ queue_of r2 g = (queue_of r g @ [m]) @ sent" using queue_run [OF assms(3)] q by simp
  ultimately show ?thesis
    by (metis append_eq_append_conv_if length_append_singleton)
qed

theorem dispatched_message_arrives_witness:
  "\<exists>r1 sent got r2. Dispatch demo_registry ''a'' (CloseSshMsg ''s'') False = Ret (r1, Inr ())
    \<and> run_queue 1 [Send (CloseSshMsg ''t'') False, Recv] r1 = Some (sent, got, r2) \<and> take 1 got = [CloseSshMsg ''s'']"
proof -
  have s: "rg_sessions demo_registry 1 = Some \<lparr>se_agent = ''a'', se_queue = [], se_cap = 256, se_closed = False, se_released = False\<rparr>"
    "dispatch_session demo_registry ''a'' = Inr 1"
    by (simp_all add: demo_registry_def Acquire_def New_def demo_hello_def DefaultLimits_def dispatch_session_def Let_def)
  then obtain r1 where d: "Dispatch demo_registry ''a'' (CloseSshMsg ''s'') False = Ret (r1, Inr ())"
      "rg_sessions r1 1 = Some \<lparr>se_agent = ''a'', se_queue = [CloseSshMsg ''s''], se_cap = 256, se_closed = False, se_released = False\<rparr>"
    by (simp add: Dispatch_def Enqueue_def)
  then obtain sent got r2 where u: "run_queue 1 [Send (CloseSshMsg ''t'') False, Recv] r1 = Some (sent, got, r2)"
    by (simp add: Enqueue_def Receive_def)
  have "queue_of demo_registry 1 = []" using s(1) by (simp add: queue_of_def)
  then show ?thesis using dispatched_message_arrives [OF d(1) s(2) u] d(1) u by auto
qed

section \<open>Closing twice\<close>

text \<open>Revoking an agent disconnects it in the registry. If the agent's last stream has already
  ended and released its session, disconnecting closes the session's queue a second time, which
  panics; and if it is disconnected first, the stream's own release panics in turn.\<close>

theorem close_twice_panics:
  assumes "Acquire r ident helloID hello now = (r1, Inr (g, st))"
  shows "(\<exists>r2. Release r1 g t1 = Ret r2 \<and> Disconnect r2 ident t2 = Panic ''close of closed channel'')
    \<and> (\<exists>r3. Disconnect r1 ident t1 = Ret r3 \<and> Release r3 g t2 = Panic ''close of closed channel'')"
proof -
  obtain h depth where r1: "r1 = r\<lparr>rg_generation := g,
       rg_entries := (rg_entries r)(ident \<mapsto> \<lparr>en_generation = g, en_online = True,
          en_last_seen = now, en_hello = h, en_session = Some g\<rparr>),
       rg_sessions := (rg_sessions r)(g \<mapsto> \<lparr>se_agent = ident, se_queue = [], se_cap = depth,
          se_closed = False, se_released = False\<rparr>)\<rparr>"
    using Acquire_cases [where r = r and certID = ident and helloID = helloID and hello = hello and now = now] assms
    by auto
  then show ?thesis
    by (simp add: Release_def Disconnect_def close_queue_def release_def)
qed

theorem close_twice_panics_witness:
  "\<exists>g r1 r2. Acquire (New 1 None minute) ''a'' ''a'' (Some (demo_hello ''a'')) 5 = (r1, Inr g)
    \<and> Release r1 (fst g) 6 = Ret r2 \<and> Disconnect r2 ''a'' 7 = Panic ''close of closed channel''"
proof -
  obtain r1 g st where a: "Acquire (New 1 None minute) ''a'' ''a'' (Some (demo_hello ''a'')) 5 = (r1, Inr (g, st))"
    by (simp add: Acquire_def New_def demo_hello_def DefaultLimits_def Let_def)
  then show ?thesis using close_twice_panics [OF a, of 6 7] by auto
qed

section \<open>Backoff\<close>

record Backoff =
  bo_min :: duration
  bo_max :: duration
  bo_current :: duration

definition NewBackoff :: "duration \<Rightarrow> duration \<Rightarrow> Backoff" where
  "NewBackoff mn mx = \<lparr>bo_min = mn, bo_max = mx, bo_current = 0\<rparr>"

text \<open>\<open>draw n\<close> is what \<open>rng.Int63n(n)\<close> returns; it panics unless \<open>n\<close> is positive.\<close>

definition Next :: "Backoff \<Rightarrow> (int \<Rightarrow> int) \<Rightarrow> (Backoff \<times> duration) outcome" where
  "Next b draw =
    (let limit = (if bo_current b = 0 then bo_min b
           else (let l = wrap64 (bo_current b * 2) in if l > bo_max b then bo_max b else l));
         b' = b\<lparr>bo_current := limit\<rparr>
     in if limit \<le> 0 then Ret (b', 0)
        else if wrap64 (limit + 1) \<le> 0 then Panic ''invalid argument to Int63n''
        else Ret (b', draw (wrap64 (limit + 1))))"

definition Reset :: "Backoff \<Rightarrow> Backoff" where
  "Reset b = b\<lparr>bo_current := 0\<rparr>"

text \<open>The state and the last delay after some failures in a row.\<close>

fun nexts :: "nat \<Rightarrow> Backoff \<Rightarrow> (int \<Rightarrow> int) \<Rightarrow> (Backoff \<times> duration) outcome" where
  "nexts 0 b draw = Ret (b, 0)"
| "nexts (Suc n) b draw = (case nexts n b draw of Panic p \<Rightarrow> Panic p | Ret (b', t) \<Rightarrow> Next b' draw)"

lemma Next_step:
  assumes "0 < bo_min b" "bo_min b \<le> bo_max b" "bo_max b < 2 ^ 62" "0 \<le> bo_current b" "bo_current b \<le> bo_max b"
  shows "Next b draw = (let limit = (if bo_current b = 0 then bo_min b else min (bo_max b) (2 * bo_current b))
    in Ret (b\<lparr>bo_current := limit\<rparr>, draw (limit + 1)))"
proof (cases "bo_current b = 0")
  case True
  then show ?thesis using assms by (simp add: Next_def Let_def wrap64_id)
next
  case False
  define lim where "lim = min (bo_max b) (2 * bo_current b)"
  have "wrap64 (bo_current b * 2) = 2 * bo_current b"
    using assms by (simp add: wrap64_id)
  then have l: "(if wrap64 (bo_current b * 2) > bo_max b then bo_max b else wrap64 (bo_current b * 2)) = lim"
    unfolding lim_def by auto
  have w: "wrap64 (lim + 1) = lim + 1" "0 < lim"
    using assms False unfolding lim_def by (auto intro!: wrap64_id)
  show ?thesis
    unfolding Next_def Let_def l lim_def [symmetric] using False w by simp
qed

text \<open>After the \<open>n+1\<close>-th failure in a row the delay lies between zero and the minimum doubled
  \<open>n\<close> times, and never above the maximum; doubling does not overflow, and after a reset the
  sequence starts again.\<close>

theorem backoff_bounds:
  assumes "0 < mn" "mn \<le> mx" "mx < 2 ^ 62" "\<And>n. 0 < n \<Longrightarrow> 0 \<le> draw n \<and> draw n < n"
    "Reset b = NewBackoff mn mx"
  shows "\<exists>b' t. nexts (Suc n) (Reset b) draw = Ret (b', t) \<and> bo_current b' = min mx (mn * 2 ^ n)
    \<and> 0 \<le> t \<and> t \<le> min mx (mn * 2 ^ n) \<and> bo_min b' = mn \<and> bo_max b' = mx"
proof (induction n)
  case 0
  then show ?case
    using assms Next_step [of "NewBackoff mn mx" draw] assms(4) [of "mn + 1"]
    by (simp add: NewBackoff_def)
next
  case (Suc n)
  then obtain b1 t1 where b1: "nexts (Suc n) (Reset b) draw = Ret (b1, t1)"
    "bo_current b1 = min mx (mn * 2 ^ n)" "bo_min b1 = mn" "bo_max b1 = mx" by blast
  let ?limit = "min mx (mn * 2 ^ Suc n)"
  have pos: "0 < mn * 2 ^ n" using assms(1) by simp
  have lim: "min mx (2 * min mx (mn * 2 ^ n)) = ?limit" using assms(1,2) by auto
  have cur: "0 < bo_current b1" "bo_current b1 \<le> bo_max b1"
    using b1 assms(1,2) pos by (simp_all add: min_def)
  have "Next b1 draw = Ret (b1\<lparr>bo_current := ?limit\<rparr>, draw (?limit + 1))"
    using Next_step [of b1 draw] b1 assms(1-3) cur lim by (simp add: Let_def)
  moreover have "0 \<le> draw (?limit + 1) \<and> draw (?limit + 1) < ?limit + 1"
    using assms(1,2) by (intro assms(4)) (simp add: min_def)
  ultimately show ?case using b1 by simp
qed

theorem backoff_bounds_witness:
  "\<exists>b' t. nexts (Suc 3) (Reset (NewBackoff second minute)) (\<lambda>n. n - 1) = Ret (b', t) \<and> t \<le> 8 * second"
proof -
  have m: "min minute (second * 2 ^ 3) = 8 * second" by (simp add: go_time)
  show ?thesis
    using backoff_bounds [of second minute "\<lambda>n. n - 1" "NewBackoff second minute" 3] unfolding m
    by (auto simp: go_time Reset_def NewBackoff_def)
qed

end
