(* ===== verification/ServerJobs.thy ===== *)
theory ServerJobs
  imports ServerBase SshSession Tunnel RegistryFacts
begin

text \<open>
  \<open>internal/server/jobs.go\<close>, \<open>unsafe.go\<close>, \<open>cancel.go\<close> and \<open>output.go\<close>: submitting a
  job (recorded with its audit event in one transaction, then dispatched to the agent's queue),
  cancelling it, and reading its output back. A handler runs on the service's shared state
  and may panic, as a send on a closed queue does; the state it had reached then is kept.
\<close>

section \<open>The service's state\<close>

record fleet =
  fl_db :: db
  fl_registry :: "Registry option"
  fl_ssh :: "Manager option"
  fl_relay :: "Relay option"

type_synonym 'a reply = "fleet \<times> 'a result outcome"

definition fail :: "fleet \<Rightarrow> code \<Rightarrow> string \<Rightarrow> 'a reply" where
  "fail s c message = (s, Ret (Inl (Status c message)))"

definition replied :: "'a result outcome \<Rightarrow> bool" where
  "replied x = (case x of Ret r \<Rightarrow> ok r | Panic p \<Rightarrow> False)"

lemma replied_iff: "replied x \<longleftrightarrow> (\<exists>v. x = Ret (Inr v))"
  by (auto simp: replied_def ok_iff split: outcome.split)

lemma fail_simps [simp]: "fst (fail s c m) = s" "\<not> replied (snd (fail s c m))"
  by (simp_all add: fail_def replied_def)

text \<open>A dispatch through the service's registry; a nil registry panics.\<close>

definition dispatch_to :: "fleet \<Rightarrow> string \<Rightarrow> ValidatorMessage \<Rightarrow> bool \<Rightarrow> unit reply" where
  "dispatch_to s ident m cancelled = (case fl_registry s of
      None \<Rightarrow> (s, Panic ''nil registry'')
    | Some r \<Rightarrow> (case Dispatch r ident m cancelled of
        Panic p \<Rightarrow> (s, Panic p)
      | Ret (r', res) \<Rightarrow> (s\<lparr>fl_registry := Some r'\<rparr>, Ret res)))"

lemma dispatch_to_db [simp]: "fl_db (fst (dispatch_to s ident m cancelled)) = fl_db s"
  by (auto simp: dispatch_to_def split: option.split outcome.split prod.split)

section \<open>Submitting\<close>

record JobRequestContext =
  jc_agent :: string
  jc_reason :: string
  jc_key :: string
  jc_timeout :: u32
  jc_confirmed :: bool

definition job_row :: "Job \<Rightarrow> string \<Rightarrow> string \<Rightarrow> JobRow" where
  "job_row job kind reason = \<lparr>j_id = job_id job, j_key = job_idempotency job, j_actor = job_actor job,
     j_agent = job_agent job, j_kind = kind, j_state = job_state job, j_reason = reason,
     j_created = job_created job, j_deadline = job_deadline job, j_attempt = 1,
     j_dispatch = Some (job_dispatch job), j_capture = False, j_output = None, j_truncated = False\<rparr>"

definition insert_job :: "JobRow \<Rightarrow> db \<Rightarrow> db \<times> nat" where
  "insert_job row d = (d\<lparr>jobs := jobs d @ [row]\<rparr>, 1)"

text \<open>Statement 0 is BEGIN, 1 and 2 the inserts, 3 COMMIT; an error rolls back.\<close>

definition submit_tx :: "env \<Rightarrow> db \<Rightarrow> JobRow \<Rightarrow> AuditRow \<Rightarrow> db \<times> unit result" where
  "submit_tx e d row audit =
    (if env_db_fails e 0 then (d, Inl (Status Unavailable ''storage unavailable''))
     else case sql_exec (env_db_fails e 1) (insert_job row) d of
       (d1, Inl err) \<Rightarrow> (d, Inl (Status AlreadyExists ''duplicate job''))
     | (d1, Inr n1) \<Rightarrow> (case sql_exec (env_db_fails e 2) (insert_audit audit) d1 of
         (d2, Inl err) \<Rightarrow> (d, Inl (Status Unavailable ''audit unavailable''))
       | (d2, Inr n2) \<Rightarrow> if env_db_fails e 3 then (d, Inl (Status Unavailable ''storage unavailable''))
           else (d2, Inr ())))"

definition set_job_state :: "string \<Rightarrow> (int \<Rightarrow> bool) \<Rightarrow> int \<Rightarrow> db \<Rightarrow> db \<times> nat" where
  "set_job_state ident from state d =
    (let u = update_rows (\<lambda>r. j_id r = ident \<and> from (j_state r)) (\<lambda>r. r\<lparr>j_state := state\<rparr>) (jobs d)
     in (d\<lparr>jobs := fst u\<rparr>, snd u))"

text \<open>After the commit: dispatch, or mark the job's result unknown (statement 4).\<close>

definition dispatch_job :: "env \<Rightarrow> bool \<Rightarrow> fleet \<Rightarrow> Job \<Rightarrow> Job reply" where
  "dispatch_job e cancelled s job = (case dispatch_to s (job_agent job) (JobMsg job) cancelled of
      (s', Panic p) \<Rightarrow> (s', Panic p)
    | (s', Ret (Inl err)) \<Rightarrow> (s'\<lparr>fl_db := fst (sql_exec (env_db_fails e 4)
          (set_job_state (job_id job) (\<lambda>_. True) JOB_UNKNOWN_RESULT) (fl_db s'))\<rparr>,
        Ret (Inl (Status Unavailable ''agent offline or backpressured'')))
    | (s', Ret (Inr u)) \<Rightarrow> (s', Ret (Inr job)))"

text \<open>
  \<open>md\<close> marshals the audit event's metadata from the job's id, kind and dispatch id. The clock
  is read twice here, once in \<open>submitUnsafe\<close>.
\<close>

definition submitSafe :: "(string \<Rightarrow> string \<Rightarrow> string \<Rightarrow> bytes) \<Rightarrow> env \<Rightarrow> bool \<Rightarrow> fleet \<Rightarrow> ctx \<Rightarrow> JobRequestContext option
    \<Rightarrow> TypedOperation \<Rightarrow> string \<Rightarrow> Job reply" where
  "submitSafe md e cancelled s ctx request operation kind = (case cx_claims ctx of
      None \<Rightarrow> fail s Unauthenticated ''authentication required''
    | Some claims \<Rightarrow> (case request of
        None \<Rightarrow> fail s InvalidArgument ''invalid job context''
      | Some r \<Rightarrow>
         if jc_agent r = [] \<or> jc_reason r = [] \<or> jc_key r = [] \<or> jc_timeout r = 0 \<or> jc_timeout r > 3600
         then fail s InvalidArgument ''invalid job context''
         else if fl_registry s = None then fail s Unavailable ''agent registry unavailable''
         else (case (randomHex e 0 16, randomHex e 1 16) of
           (Inl err, _) \<Rightarrow> fail s Internal ''entropy unavailable''
         | (_, Inl err) \<Rightarrow> fail s Internal ''entropy unavailable''
         | (Inr ident, Inr dispatch) \<Rightarrow>
            (let job = \<lparr>job_id = ident, job_actor = cl_subject claims, job_agent = jc_agent r,
                   job_created = unix_milli (env_clock e 0),
                   job_deadline = unix_milli (env_clock e 1 + int (unat (jc_timeout r)) * second),
                   job_authorization = Some \<lparr>az_role = cl_role claims, az_reason = jc_reason r, az_confirmed = jc_confirmed r\<rparr>,
                   job_operation = SafeOperation (Some operation) SAFE_BEFORE_START,
                   job_state = JOB_DISPATCHED, job_attempt = 1, job_dispatch = dispatch, job_idempotency = jc_key r\<rparr>
             in case randomHex e 2 16 of
               Inl err \<Rightarrow> fail s Internal ''entropy unavailable''
             | Inr auditID \<Rightarrow>
                (case submit_tx e (fl_db s) (job_row job kind (jc_reason r)) (audit_row auditID (cl_subject claims)
                    (jc_agent r) kind (jc_reason r) (job_created job) (md ident kind dispatch)) of
                   (d', Inl err) \<Rightarrow> (s\<lparr>fl_db := d'\<rparr>, Ret (Inl err))
                 | (d', Inr u) \<Rightarrow> dispatch_job e cancelled (s\<lparr>fl_db := d'\<rparr>) job)))))"

definition submitUnsafe :: "(string \<Rightarrow> string \<Rightarrow> string \<Rightarrow> bytes) \<Rightarrow> env \<Rightarrow> bool \<Rightarrow> fleet \<Rightarrow> ctx \<Rightarrow> JobRequestContext option
    \<Rightarrow> UnsafeOperation \<Rightarrow> string \<Rightarrow> bool \<Rightarrow> Job reply" where
  "submitUnsafe md e cancelled s ctx request operation kind adminOnly = (case cx_claims ctx of
      None \<Rightarrow> fail s Unauthenticated ''authentication required''
    | Some claims \<Rightarrow>
       if adminOnly \<and> cl_role claims \<noteq> ROLE_ADMIN then fail s PermissionDenied ''admin required''
       else (case request of
        None \<Rightarrow> fail s InvalidArgument ''confirmed bounded job context required''
      | Some r \<Rightarrow>
         if jc_agent r = [] \<or> jc_reason r = [] \<or> jc_key r = [] \<or> jc_timeout r = 0 \<or> jc_timeout r > 3600
           \<or> \<not> jc_confirmed r
         then fail s InvalidArgument ''confirmed bounded job context required''
         else (case (randomHex e 0 16, randomHex e 1 16, randomHex e 2 16) of
           (Inl err, _, _) \<Rightarrow> fail s Internal ''entropy unavailable''
         | (_, Inl err, _) \<Rightarrow> fail s Internal ''entropy unavailable''
         | (_, _, Inl err) \<Rightarrow> fail s Internal ''entropy unavailable''
         | (Inr ident, Inr dispatch, Inr auditID) \<Rightarrow>
            (let now = env_clock e 0;
                 job = \<lparr>job_id = ident, job_actor = cl_subject claims, job_agent = jc_agent r,
                   job_created = unix_milli now,
                   job_deadline = unix_milli (now + int (unat (jc_timeout r)) * second),
                   job_authorization = Some \<lparr>az_role = cl_role claims, az_reason = jc_reason r, az_confirmed = True\<rparr>,
                   job_operation = UnsafeOperation (Some operation),
                   job_state = JOB_DISPATCHED, job_attempt = 1, job_dispatch = dispatch, job_idempotency = jc_key r\<rparr>
             in case submit_tx e (fl_db s) (job_row job kind (jc_reason r)) (audit_row auditID (cl_subject claims)
                    (jc_agent r) kind (jc_reason r) (job_created job) (md ident kind dispatch)) of
                   (d', Inl err) \<Rightarrow> (s\<lparr>fl_db := d'\<rparr>, Ret (Inl err))
                 | (d', Inr u) \<Rightarrow> dispatch_job e cancelled (s\<lparr>fl_db := d'\<rparr>) job))))"

text \<open>The safe operations. The payload of a request is its fields; an absent one is the zero message.\<close>

definition ListProcesses where
  "ListProcesses md e cancelled s ctx context limit = submitSafe md e cancelled s ctx context (ProcessList limit) ''process_list''"

definition ListServices where
  "ListServices md e cancelled s ctx context limit = submitSafe md e cancelled s ctx context (ServiceList limit) ''service_list''"

definition GetService where
  "GetService md e cancelled s ctx context unit = submitSafe md e cancelled s ctx context (ServiceStatus unit) ''service_status''"

definition StartService where
  "StartService md e cancelled s ctx context unit = submitSafe md e cancelled s ctx context (ServiceStart unit) ''service_start''"

definition StopService where
  "StopService md e cancelled s ctx context unit = submitSafe md e cancelled s ctx context (ServiceStop unit) ''service_stop''"

definition RestartService where
  "RestartService md e cancelled s ctx context unit = submitSafe md e cancelled s ctx context (ServiceRestart unit) ''service_restart''"

definition ReadLogs where
  "ReadLogs md e cancelled s ctx context unit since until limit =
    submitSafe md e cancelled s ctx context (JournalRead unit since until limit) ''journal_read''"

definition PreviewCleanup where
  "PreviewCleanup md e cancelled s ctx context categories =
    submitSafe md e cancelled s ctx context (CleanupPreview categories) ''cleanup_preview''"

text \<open>
  The unsafe ones check their request first, with a clock reading of their own (\<open>env_clock e 1\<close>).
\<close>

definition RunCleanup :: "(string \<Rightarrow> string \<Rightarrow> string \<Rightarrow> bytes) \<Rightarrow> env \<Rightarrow> bool \<Rightarrow> fleet \<Rightarrow> ctx \<Rightarrow> JobRequestContext option
    \<Rightarrow> CleanupRunRequest option \<Rightarrow> Job reply" where
  "RunCleanup md e cancelled s ctx context request = (case request of
      None \<Rightarrow> fail s InvalidArgument ''matching unexpired preview required''
    | Some q \<Rightarrow>
       if cr_preview_id q = [] \<or> cr_preview_hash q = [] \<or> cr_expires q < unix_milli (env_clock e 1)
       then fail s InvalidArgument ''matching unexpired preview required''
       else submitUnsafe md e cancelled s ctx context (CleanupRun q) ''cleanup_run'' False)"

definition Reboot_handler :: "(string \<Rightarrow> string \<Rightarrow> string \<Rightarrow> bytes) \<Rightarrow> env \<Rightarrow> bool \<Rightarrow> fleet \<Rightarrow> ctx \<Rightarrow> JobRequestContext option
    \<Rightarrow> RebootRequest option \<Rightarrow> Job reply" where
  "Reboot_handler md e cancelled s ctx context request = (case request of
      None \<Rightarrow> fail s InvalidArgument ''target-bound unexpired confirmation required''
    | Some q \<Rightarrow>
       if rb_target q \<noteq> (case context of None \<Rightarrow> [] | Some r \<Rightarrow> jc_agent r) \<or> rb_confirmation q = []
         \<or> rb_expires q < unix_milli (env_clock e 1)
       then fail s InvalidArgument ''target-bound unexpired confirmation required''
       else submitUnsafe md e cancelled s ctx context (Reboot q) ''reboot'' False)"

definition Exec :: "(string \<Rightarrow> string \<Rightarrow> string \<Rightarrow> bytes) \<Rightarrow> env \<Rightarrow> bool \<Rightarrow> fleet \<Rightarrow> ctx \<Rightarrow> JobRequestContext option
    \<Rightarrow> ArbitraryCommand option \<Rightarrow> Job reply" where
  "Exec md e cancelled s ctx context request = (case request of
      None \<Rightarrow> fail s InvalidArgument ''command and confirmation required''
    | Some q \<Rightarrow>
       if ac_command q = [] \<or> \<not> (case context of None \<Rightarrow> False | Some r \<Rightarrow> jc_confirmed r)
       then fail s InvalidArgument ''command and confirmation required''
       else submitUnsafe md e cancelled s ctx context (ArbitraryCommand q) ''exec'' True)"

section \<open>What a submission leaves\<close>

lemma submit_tx_cases: "case submit_tx e d row audit of (d', res) \<Rightarrow> (case res of
      Inl err \<Rightarrow> d' = d
    | Inr u \<Rightarrow> db_ok d' \<and> d' = d\<lparr>jobs := jobs d @ [row], audit_events := audit_events d @ [audit]\<rparr>)"
  unfolding submit_tx_def by (simp add: sql_exec_Inr insert_job_def insert_audit_def split: sum.split prod.split)

text \<open>The agent's session before and after a message was queued for it.\<close>

definition queued :: "Registry option \<Rightarrow> Registry option \<Rightarrow> string \<Rightarrow> ValidatorMessage \<Rightarrow> bool" where
  "queued before after ident m \<longleftrightarrow> (\<exists>r r' g sess. before = Some r \<and> after = Some r' \<and> dispatch_session r ident = Inr g
     \<and> rg_sessions r g = Some sess \<and> List.length (se_queue sess) < se_cap sess
     \<and> r' = r\<lparr>rg_sessions := (rg_sessions r)(g \<mapsto> sess\<lparr>se_queue := se_queue sess @ [m]\<rparr>)\<rparr>)"

lemma Dispatch_queued: "Dispatch r ident m cancelled = Ret (r', Inr ()) \<Longrightarrow> queued (Some r) (Some r') ident m"
  by (auto simp: Dispatch_def Enqueue_def queued_def split: sum.splits option.splits if_splits)

lemma dispatch_to_queued: "dispatch_to s ident m cancelled = (s', Ret (Inr u)) \<Longrightarrow>
    queued (fl_registry s) (fl_registry s') ident m"
  by (auto simp: dispatch_to_def dest: Dispatch_queued split: option.splits outcome.splits prod.splits)

lemma dispatch_job_cases: "case dispatch_job e cancelled s job of (s', x) \<Rightarrow>
    (if replied x then x = Ret (Inr job) \<and> fl_db s' = fl_db s \<and> queued (fl_registry s) (fl_registry s') (job_agent job) (JobMsg job)
     else fl_db s' = fl_db s \<or> fl_db s' = fst (set_job_state (job_id job) (\<lambda>_. True) JOB_UNKNOWN_RESULT (fl_db s)))"
proof -
  obtain s1 x where d: "dispatch_to s (job_agent job) (JobMsg job) cancelled = (s1, x)" by fastforce
  then have db: "fl_db s1 = fl_db s" using dispatch_to_db by (metis fst_conv)
  show ?thesis
  proof (cases x)
    case (Panic p)
    then show ?thesis using d db by (simp add: dispatch_job_def replied_def)
  next
    case (Ret res)
    then show ?thesis using d db dispatch_to_queued [of s "job_agent job" "JobMsg job" cancelled s1 "()"]
      by (cases res) (auto simp: dispatch_job_def replied_def sql_exec_def split: prod.split)
  qed
qed

text \<open>What the two submit functions have in common, as one statement about their outcome.\<close>

definition submit_effect :: "fleet \<Rightarrow> string \<Rightarrow> string \<Rightarrow> string \<Rightarrow> string \<Rightarrow> string \<Rightarrow> fleet \<times> Job result outcome \<Rightarrow> bool" where
  "submit_effect s actor agent key reason kind out \<longleftrightarrow> (case out of (s', x) \<Rightarrow>
     (fl_db s' = fl_db s \<and> fl_registry s' = fl_registry s \<and> \<not> replied x)
     \<or> (\<exists>job audit state. job_actor job = actor \<and> job_agent job = agent \<and> job_idempotency job = key
         \<and> job_state job = JOB_DISPATCHED
         \<and> e_actor audit = Some actor \<and> e_agent audit = Some agent \<and> e_action audit = kind \<and> e_reason audit = reason
         \<and> db_ok (fl_db s)
         \<and> fl_db s' = (fl_db s)\<lparr>jobs := jobs (fl_db s) @ [(job_row job kind reason)\<lparr>j_state := state\<rparr>],
              audit_events := audit_events (fl_db s) @ [audit]\<rparr>
         \<and> (if replied x then x = Ret (Inr job) \<and> state = JOB_DISPATCHED
              \<and> queued (fl_registry s) (fl_registry s') agent (JobMsg job)
            else state = JOB_DISPATCHED \<or> state = JOB_UNKNOWN_RESULT)))"

lemma set_job_state_last:
  assumes "db_ok d" "jobs d = rows @ [row]"
  shows "fst (set_job_state (j_id row) (\<lambda>_. True) state d) = d\<lparr>jobs := rows @ [row\<lparr>j_state := state\<rparr>]\<rparr>"
proof -
  have "j_id row \<notin> j_id ` set rows" using assms by (simp add: db_ok_def jobs_ok_def)
  then have "map (\<lambda>r. if j_id r = j_id row then r\<lparr>j_state := state\<rparr> else r) rows = rows"
    by (intro map_idI) (metis image_eqI)
  then show ?thesis using assms(2) by (simp add: set_job_state_def Let_def)
qed

lemma job_row_simps [simp]: "j_id (job_row job kind reason) = job_id job" "j_state (job_row job kind reason) = job_state job"
  by (simp_all add: job_row_def)

lemma job_row_state: "job_state job = x \<Longrightarrow> (job_row job kind reason)\<lparr>j_state := x\<rparr> = job_row job kind reason"
  by (simp add: job_row_def)

lemma submit_common:
  assumes "db_ok (fl_db s)" "job_actor job = actor" "job_agent job = agent" "job_idempotency job = key" "job_state job = JOB_DISPATCHED"
    "e_actor audit = Some actor" "e_agent audit = Some agent" "e_action audit = kind" "e_reason audit = reason"
  shows "submit_effect s actor agent key reason kind (case submit_tx e (fl_db s) (job_row job kind reason) audit of
      (d', Inl err) \<Rightarrow> (s\<lparr>fl_db := d'\<rparr>, Ret (Inl err))
    | (d', Inr u) \<Rightarrow> dispatch_job e cancelled (s\<lparr>fl_db := d'\<rparr>) job)"
proof -
  obtain d' res where tx: "submit_tx e (fl_db s) (job_row job kind reason) audit = (d', res)" by fastforce
  show ?thesis
  proof (cases res)
    case (Inl err)
    then show ?thesis using tx submit_tx_cases [where e = e and d = "fl_db s" and row = "job_row job kind reason" and audit = audit]
      by (simp add: submit_effect_def replied_def)
  next
    case (Inr u)
    let ?d = "(fl_db s)\<lparr>jobs := jobs (fl_db s) @ [job_row job kind reason], audit_events := audit_events (fl_db s) @ [audit]\<rparr>"
    have d': "d' = ?d" "db_ok d'" using tx Inr submit_tx_cases [where e = e and d = "fl_db s" and row = "job_row job kind reason" and audit = audit] by auto
    obtain s' x where out: "dispatch_job e cancelled (s\<lparr>fl_db := d'\<rparr>) job = (s', x)" by fastforce
    have upd: "fst (set_job_state (job_id job) (\<lambda>_. True) JOB_UNKNOWN_RESULT ?d)
        = ?d\<lparr>jobs := jobs (fl_db s) @ [(job_row job kind reason)\<lparr>j_state := JOB_UNKNOWN_RESULT\<rparr>]\<rparr>"
      using set_job_state_last [where d = d' and rows = "jobs (fl_db s)" and row = "job_row job kind reason"] d' by simp
    note c = dispatch_job_cases [where e = e and cancelled = cancelled and s = "s\<lparr>fl_db := d'\<rparr>" and job = job]
    have ex: "\<exists>state. fl_db s' = (fl_db s)\<lparr>jobs := jobs (fl_db s) @ [(job_row job kind reason)\<lparr>j_state := state\<rparr>],
              audit_events := audit_events (fl_db s) @ [audit]\<rparr>
         \<and> (if replied x then x = Ret (Inr job) \<and> state = JOB_DISPATCHED
              \<and> queued (fl_registry s) (fl_registry s') agent (JobMsg job)
            else state = JOB_DISPATCHED \<or> state = JOB_UNKNOWN_RESULT)"
    proof (cases "fl_db s' = d'")
      case True
      then show ?thesis using c out d'(1) assms(3,5)
        by (intro exI [of _ JOB_DISPATCHED]) (auto simp: job_row_state)
    next
      case False
      then show ?thesis using c out d'(1) upd by (intro exI [of _ JOB_UNKNOWN_RESULT]) (auto split: if_splits)
    qed
    show ?thesis unfolding tx Inr prod.case sum.case out submit_effect_def
      by (rule disjI2) (use ex assms in blast)
  qed
qed

lemma submit_nothing: "\<not> replied x \<Longrightarrow> submit_effect s actor agent key reason kind (s, x)"
  by (simp add: submit_effect_def)

lemma submit_fail: "submit_effect s actor agent key reason kind (fail s c message)"
  by (simp add: submit_effect_def fail_def replied_def)

lemma submitSafe_effect:
  assumes "db_ok (fl_db s)"
  shows "submit_effect s (case cx_claims ctx of None \<Rightarrow> [] | Some c \<Rightarrow> cl_subject c) (case request of None \<Rightarrow> [] | Some r \<Rightarrow> jc_agent r)
    (case request of None \<Rightarrow> [] | Some r \<Rightarrow> jc_key r) (case request of None \<Rightarrow> [] | Some r \<Rightarrow> jc_reason r) kind
    (submitSafe md e cancelled s ctx request operation kind)"
  unfolding submitSafe_def Let_def
  by (simp add: submit_fail split: option.split sum.split)
    (intro allI impI conjI submit_common [OF assms]; simp add: audit_row_def)

lemma submitUnsafe_effect:
  assumes "db_ok (fl_db s)"
  shows "submit_effect s (case cx_claims ctx of None \<Rightarrow> [] | Some c \<Rightarrow> cl_subject c) (case request of None \<Rightarrow> [] | Some r \<Rightarrow> jc_agent r)
    (case request of None \<Rightarrow> [] | Some r \<Rightarrow> jc_key r) (case request of None \<Rightarrow> [] | Some r \<Rightarrow> jc_reason r) kind
    (submitUnsafe md e cancelled s ctx request operation kind adminOnly)"
  unfolding submitUnsafe_def Let_def
  by (simp add: submit_fail split: option.split sum.split)
    (intro allI impI conjI submit_common [OF assms]; simp add: audit_row_def)


section \<open>Idempotency\<close>

datatype job_op =
    DoSafe env bool ctx "JobRequestContext option" TypedOperation string
  | DoUnsafe env bool ctx "JobRequestContext option" UnsafeOperation string bool

definition job_step :: "(string \<Rightarrow> string \<Rightarrow> string \<Rightarrow> bytes) \<Rightarrow> job_op \<Rightarrow> fleet \<Rightarrow> fleet \<times> bool" where
  "job_step md a s = (case a of
      DoSafe e cancelled ctx request operation kind \<Rightarrow>
        (case submitSafe md e cancelled s ctx request operation kind of (s', x) \<Rightarrow> (s', replied x))
    | DoUnsafe e cancelled ctx request operation kind adminOnly \<Rightarrow>
        (case submitUnsafe md e cancelled s ctx request operation kind adminOnly of (s', x) \<Rightarrow> (s', replied x)))"

definition request_key :: "JobRequestContext option \<Rightarrow> (string \<times> string) option" where
  "request_key request = map_option (\<lambda>r. (jc_agent r, jc_key r)) request"

definition job_key :: "job_op \<Rightarrow> (string \<times> string) option" where
  "job_key a = (case a of DoSafe e cancelled ctx request operation kind \<Rightarrow> request_key request
     | DoUnsafe e cancelled ctx request operation kind adminOnly \<Rightarrow> request_key request)"

definition key_spent :: "string \<times> string \<Rightarrow> fleet \<Rightarrow> bool" where
  "key_spent k s \<longleftrightarrow> k \<in> (\<lambda>r. (j_agent r, j_key r)) ` set (jobs (fl_db s))"

lemma jobs_snoc_ok:
  assumes "db_ok (d\<lparr>jobs := jobs d @ [row], audit_events := es\<rparr>)"
  shows "(j_agent row, j_key row) \<notin> (\<lambda>r. (j_agent r, j_key r)) ` set (jobs d)"
  using assms by (simp add: db_ok_def jobs_ok_def)

lemma db_ok_job_state:
  assumes "db_ok (d\<lparr>jobs := rows @ [row], audit_events := es\<rparr>)"
  shows "db_ok (d\<lparr>jobs := rows @ [row\<lparr>j_state := x\<rparr>], audit_events := es\<rparr>)"
  using assms by (simp add: db_ok_def table_ok_defs unique_opt_append)

lemma submit_tx_ok: "db_ok d \<Longrightarrow> db_ok (fst (submit_tx e d row audit))"
  using submit_tx_cases [where e = e and d = d and row = row and audit = audit]
  by (cases "submit_tx e d row audit") (auto split: sum.splits)

lemma set_job_state_ok: "db_ok d \<Longrightarrow> db_ok (fst (set_job_state ident from state d))"
  using db_ok_update_jobs [of d "\<lambda>r. j_id r = ident \<and> from (j_state r)" "\<lambda>r. r\<lparr>j_state := state\<rparr>"]
  by (simp add: set_job_state_def Let_def)

lemma dispatch_job_ok: "db_ok (fl_db s) \<Longrightarrow> db_ok (fl_db (fst (dispatch_job e cancelled s job)))"
  using dispatch_job_cases [where e = e and cancelled = cancelled and s = s and job = job] set_job_state_ok
  by (cases "dispatch_job e cancelled s job") (auto split: if_splits)

lemma submit_step_ok:
  "db_ok (fl_db s) \<Longrightarrow> db_ok (fl_db (fst (case submit_tx e (fl_db s) row audit of
      (d', Inl err) \<Rightarrow> (s\<lparr>fl_db := d'\<rparr>, Ret (Inl err))
    | (d', Inr u) \<Rightarrow> dispatch_job e cancelled (s\<lparr>fl_db := d'\<rparr>) job)))"
  using submit_tx_ok [of "fl_db s" e row audit]
  by (auto split: prod.split sum.split intro!: dispatch_job_ok)

lemma submitSafe_ok: "db_ok (fl_db s) \<Longrightarrow> db_ok (fl_db (fst (submitSafe md e cancelled s ctx request operation kind)))"
  unfolding submitSafe_def Let_def
  by (simp split: option.split sum.split) (intro allI impI conjI submit_step_ok)

lemma submitUnsafe_ok: "db_ok (fl_db s) \<Longrightarrow> db_ok (fl_db (fst (submitUnsafe md e cancelled s ctx request operation kind adminOnly)))"
  unfolding submitUnsafe_def Let_def
  by (simp split: option.split sum.split) (intro allI impI conjI submit_step_ok)

lemma effect_spends:
  assumes "submit_effect s actor agent key reason kind out" "db_ok (fl_db (fst out))"
  shows "replied (snd out) \<Longrightarrow> key_spent (agent, key) (fst out)"
    and "key_spent k s \<Longrightarrow> key_spent k (fst out)"
    and "replied (snd out) \<Longrightarrow> \<not> key_spent (agent, key) s"
proof -
  show "replied (snd out) \<Longrightarrow> key_spent (agent, key) (fst out)" "key_spent k s \<Longrightarrow> key_spent k (fst out)"
    using assms(1) by (auto simp: submit_effect_def key_spent_def job_row_def split: prod.splits if_splits)
  assume "replied (snd out)"
  then obtain job audit state where "job_agent job = agent" "job_idempotency job = key"
    "fl_db (fst out) = (fl_db s)\<lparr>jobs := jobs (fl_db s) @ [(job_row job kind reason)\<lparr>j_state := state\<rparr>],
        audit_events := audit_events (fl_db s) @ [audit]\<rparr>"
    using assms(1) by (auto simp: submit_effect_def split: prod.splits if_splits)
  then show "\<not> key_spent (agent, key) s"
    using assms(2) jobs_snoc_ok by (fastforce simp: key_spent_def job_row_def)
qed

interpretation submissions: one_shot "job_step md" job_key key_spent "\<lambda>s. db_ok (fl_db s)"
  for md
proof
  fix s :: fleet and a k
  assume ok: "db_ok (fl_db s)"
  show ok': "db_ok (fl_db (fst (job_step md a s)))"
    using submitSafe_ok [OF ok] submitUnsafe_ok [OF ok] by (cases a) (simp_all add: job_step_def split_beta)
  obtain out actor agent key reason kind where o: "job_step md a s = (fst out, replied (snd out))"
    "submit_effect s actor agent key reason kind out" "\<And>k. job_key a = Some k \<Longrightarrow> k = (agent, key)"
  proof (cases a)
    case (DoSafe e cancelled ctx request operation kind)
    then show ?thesis
      by (intro that [OF _ submitSafe_effect [OF ok, of ctx request kind md e cancelled operation]])
        (auto simp: job_step_def job_key_def request_key_def split_beta)
  next
    case (DoUnsafe e cancelled ctx request operation kind adminOnly)
    then show ?thesis
      by (intro that [OF _ submitUnsafe_effect [OF ok, of ctx request kind md e cancelled operation adminOnly]])
        (auto simp: job_step_def job_key_def request_key_def split_beta)
  qed
  have okout: "db_ok (fl_db (fst out))" using ok' o(1) by simp
  note eff = effect_spends [OF o(2) okout]
  show "key_spent k (fst (job_step md a s))" if "key_spent k s"
    using eff(2) that o(1) by simp
  show "key_spent k (fst (job_step md a s))" if "snd (job_step md a s)" "job_key a = Some k"
    using eff(1) that o(1,3) by auto
  show "\<not> snd (job_step md a s)" if "key_spent k s" "job_key a = Some k"
    using eff(3) that o(1,3) by auto
qed

text \<open>C3. However requests are repeated, at most one job per agent and idempotency key is ever
  accepted, and none once a job with that key was recorded, dispatched or not.\<close>

theorem job_at_most_once:
  assumes "db_ok (fl_db s)"
  shows "wins (job_step md) (\<lambda>a. job_key a = Some (agent, key)) ops s \<le> 1
    \<and> (key_spent (agent, key) s \<longrightarrow> wins (job_step md) (\<lambda>a. job_key a = Some (agent, key)) ops s = 0)"
  using submissions.at_most_once [OF assms] submissions.spent_never_wins [OF assms] by blast

section \<open>Cancelling\<close>

text \<open>The job as \<open>CancelJob\<close> answers it, with the columns it read; statement 0 is the query, 1 the update.\<close>

definition cancel_job :: "JobRow \<Rightarrow> string \<Rightarrow> int \<Rightarrow> Job" where
  "cancel_job row dispatch state = \<lparr>job_id = j_id row, job_actor = [], job_agent = j_agent row, job_created = 0,
     job_deadline = j_deadline row, job_authorization = None, job_operation = NoOperation, job_state = state,
     job_attempt = word_of_int (j_attempt row), job_dispatch = dispatch, job_idempotency = []\<rparr>"

definition job_final :: "int \<Rightarrow> bool" where
  "job_final st \<longleftrightarrow> st \<in> {JOB_SUCCEEDED, JOB_FAILED, JOB_CANCELLED, JOB_TIMED_OUT}"

definition CancelJob :: "env \<Rightarrow> bool \<Rightarrow> fleet \<Rightarrow> string \<Rightarrow> string \<Rightarrow> int \<Rightarrow> Job reply" where
  "CancelJob e cancelled s ident reason deadline =
    (if ident = [] \<or> reason = [] \<or> deadline \<le> unix_milli (env_clock e 0)
     then fail s InvalidArgument ''job, reason, and future deadline required''
     else case sql_query_row (env_db_fails e 0) (\<lambda>r. j_id r = ident) (jobs (fl_db s)) of
       Inl err \<Rightarrow> if err = NoRows then fail s NotFound ''job not found'' else fail s Internal ''job unavailable''
     | Inr row \<Rightarrow> (case j_dispatch row of
         None \<Rightarrow> fail s Internal ''job unavailable''
       | Some dispatch \<Rightarrow>
          if job_final (j_state row)
          then (s, Ret (Inr (cancel_job row dispatch (j_state row))))
          else if fl_registry s = None then fail s Unavailable ''registry unavailable''
          else (case dispatch_to s (j_agent row) (CancelMsg \<lparr>cj_job = j_id row, cj_reason = reason,
                  cj_deadline = deadline, cj_request = dispatch\<rparr>) cancelled of
              (s', Panic p) \<Rightarrow> (s', Panic p)
            | (s', Ret (Inl err)) \<Rightarrow> fail s' Unavailable ''agent offline''
            | (s', Ret (Inr u)) \<Rightarrow>
                (case sql_exec (env_db_fails e 1) (set_job_state (j_id row) (\<lambda>st. st \<in> {2, 3}) JOB_CANCELLED) (fl_db s') of
                   (d', Inl err) \<Rightarrow> fail (s'\<lparr>fl_db := d'\<rparr>) Internal ''cancel persistence failed''
                 | (d', Inr n) \<Rightarrow> (s'\<lparr>fl_db := d'\<rparr>, Ret (Inr (cancel_job row dispatch JOB_CANCELLED)))))))"

lemma CancelJob_db: "case CancelJob e cancelled s ident reason deadline of (s', x) \<Rightarrow>
    fl_db s' = fl_db s \<or> fl_db s' = fst (set_job_state ident (\<lambda>st. st \<in> {2, 3}) JOB_CANCELLED (fl_db s))"
proof -
  have db: "dispatch_to s a m c = (s', x) \<Longrightarrow> fl_db s' = fl_db s" for a m c s' x
    by (metis dispatch_to_db fst_conv)
  show ?thesis
    unfolding CancelJob_def
    by (auto simp: fail_def sql_exec_def sql_query_row_Inr split: sum.split option.split outcome.split prod.split
        dest!: db find_Some_mem)
qed

lemma CancelJob_reply:
  assumes "CancelJob e cancelled s ident reason deadline = (s', Ret (Inr job))"
  obtains row dispatch where "List.find (\<lambda>r. j_id r = ident) (jobs (fl_db s)) = Some row" "j_dispatch row = Some dispatch"
    "job_final (j_state row)" "s' = s" "job = cancel_job row dispatch (j_state row)"
  | row dispatch where "List.find (\<lambda>r. j_id r = ident) (jobs (fl_db s)) = Some row" "j_dispatch row = Some dispatch"
    "\<not> job_final (j_state row)" "job = cancel_job row dispatch JOB_CANCELLED"
    "fl_db s' = fst (set_job_state ident (\<lambda>st. st \<in> {2, 3}) JOB_CANCELLED (fl_db s))"
    "queued (fl_registry s) (fl_registry s') (j_agent row) (CancelMsg \<lparr>cj_job = ident, cj_reason = reason,
                  cj_deadline = deadline, cj_request = dispatch\<rparr>)"
proof -
  obtain row where row: "List.find (\<lambda>r. j_id r = ident) (jobs (fl_db s)) = Some row" "j_id row = ident" "\<not> env_db_fails e 0"
    using assms by (auto simp: CancelJob_def fail_def sql_query_row_Inr dest: find_Some_mem split: if_splits sum.splits)
  obtain dispatch where d: "j_dispatch row = Some dispatch"
    using assms row by (cases "j_dispatch row") (auto simp: CancelJob_def fail_def sql_query_row_def split: if_splits)
  show ?thesis
  proof (cases "job_final (j_state row)")
    case True
    then show ?thesis using assms row d by (intro that(1)) (auto simp: CancelJob_def fail_def sql_query_row_def split: if_splits)
  next
    case False
    let ?m = "CancelMsg \<lparr>cj_job = ident, cj_reason = reason, cj_deadline = deadline, cj_request = dispatch\<rparr>"
    obtain s1 u where s1: "dispatch_to s (j_agent row) ?m cancelled = (s1, Ret (Inr u))"
      using assms row d False
      by (auto simp: CancelJob_def fail_def sql_query_row_def split: if_splits outcome.splits sum.splits prod.splits)
    have q: "fl_db s1 = fl_db s" "queued (fl_registry s) (fl_registry s1) (j_agent row) ?m"
      using s1 dispatch_to_queued dispatch_to_db by (metis fst_conv)+
    show ?thesis
      using assms row d False s1 q
      by (intro that(2)) (auto simp: CancelJob_def fail_def sql_query_row_def sql_exec_Inr split: if_splits sum.splits prod.splits)
  qed
qed

text \<open>Cancelling touches nothing but jobs with the given id that were dispatched or running: those
  become cancelled. When it answers with the job, either the job was already final and is reported
  as it was, or the cancellation was queued for the job's agent, under the job's dispatch id.\<close>

theorem cancel_effect:
  assumes "CancelJob e cancelled s ident reason deadline = (s', x)"
  shows "(\<exists>hit. fl_db s' = (fl_db s)\<lparr>jobs := map (\<lambda>r. if hit \<and> j_id r = ident \<and> j_state r \<in> {2, 3}
        then r\<lparr>j_state := JOB_CANCELLED\<rparr> else r) (jobs (fl_db s))\<rparr>)
    \<and> (\<forall>job. x = Ret (Inr job) \<longrightarrow> (\<exists>row \<in> set (jobs (fl_db s)). j_id row = ident \<and> job_id job = ident
        \<and> (if job_final (j_state row) then s' = s \<and> job_state job = j_state row
           else job_state job = JOB_CANCELLED
             \<and> queued (fl_registry s) (fl_registry s') (j_agent row) (CancelMsg \<lparr>cj_job = ident, cj_reason = reason,
                  cj_deadline = deadline, cj_request = the (j_dispatch row)\<rparr>))))"
proof
  show "\<exists>hit. fl_db s' = (fl_db s)\<lparr>jobs := map (\<lambda>r. if hit \<and> j_id r = ident \<and> j_state r \<in> {2, 3}
        then r\<lparr>j_state := JOB_CANCELLED\<rparr> else r) (jobs (fl_db s))\<rparr>"
    using CancelJob_db [where e = e and cancelled = cancelled and s = s and ident = ident and reason = reason and deadline = deadline]
      assms by (auto simp: set_job_state_def Let_def intro: exI [of _ False] exI [of _ True])
  show "\<forall>job. x = Ret (Inr job) \<longrightarrow> (\<exists>row \<in> set (jobs (fl_db s)). j_id row = ident \<and> job_id job = ident
        \<and> (if job_final (j_state row) then s' = s \<and> job_state job = j_state row
           else job_state job = JOB_CANCELLED
             \<and> queued (fl_registry s) (fl_registry s') (j_agent row) (CancelMsg \<lparr>cj_job = ident, cj_reason = reason,
                  cj_deadline = deadline, cj_request = the (j_dispatch row)\<rparr>)))"
  proof (intro allI impI)
    fix job assume "x = Ret (Inr job)"
    then have "CancelJob e cancelled s ident reason deadline = (s', Ret (Inr job))" using assms by simp
    then show "\<exists>row \<in> set (jobs (fl_db s)). j_id row = ident \<and> job_id job = ident
        \<and> (if job_final (j_state row) then s' = s \<and> job_state job = j_state row
           else job_state job = JOB_CANCELLED
             \<and> queued (fl_registry s) (fl_registry s') (j_agent row) (CancelMsg \<lparr>cj_job = ident, cj_reason = reason,
                  cj_deadline = deadline, cj_request = the (j_dispatch row)\<rparr>))"
    proof (cases rule: CancelJob_reply)
      case (1 row dispatch)
      then show ?thesis by (intro bexI [of _ row]) (auto simp: cancel_job_def dest: find_Some_mem)
    next
      case (2 row dispatch)
      then show ?thesis by (intro bexI [of _ row]) (auto simp: cancel_job_def dest: find_Some_mem)
    qed
  qed
qed

text \<open>A job whose result is unknown is answered as cancelled while its record stays as it was.\<close>

theorem cancel_misreports_unknown:
  assumes "db_ok (fl_db s)" "CancelJob e cancelled s ident reason deadline = (s', Ret (Inr job))"
    "row \<in> set (jobs (fl_db s))" "j_id row = ident" "j_state row = JOB_UNKNOWN_RESULT"
  shows "job_state job = JOB_CANCELLED \<and> jobs (fl_db s') = jobs (fl_db s)"
proof -
  have d: "distinct (map j_id (jobs (fl_db s)))" using assms(1) by (simp add: db_ok_def jobs_ok_def)
  then have f: "List.find (\<lambda>r. j_id r = ident) (jobs (fl_db s)) = Some row"
    using assms(3,4) by (intro find_unique) (auto dest: distinct_map_inj)
  have "(if j_id r = ident \<and> j_state r \<in> {2, 3} then r\<lparr>j_state := JOB_CANCELLED\<rparr> else r) = r" if "r \<in> set (jobs (fl_db s))" for r
  proof (cases "j_id r = ident")
    case True
    then have "r = row" using distinct_map_inj [OF d that assms(3)] assms(4) by simp
    then show ?thesis using assms(5) by (simp add: JOB_UNKNOWN_RESULT_def)
  qed simp
  then have "map (\<lambda>r. if j_id r = ident \<and> j_state r \<in> {2, 3} then r\<lparr>j_state := JOB_CANCELLED\<rparr> else r) (jobs (fl_db s))
      = jobs (fl_db s)" by (intro map_idI) blast
  then have same: "jobs (fst (set_job_state ident (\<lambda>st. st \<in> {2, 3}) JOB_CANCELLED (fl_db s))) = jobs (fl_db s)"
    by (simp add: set_job_state_def Let_def)
  show ?thesis
    using assms(2)
  proof (cases rule: CancelJob_reply)
    case (1 row' dispatch)
    then have "row' = row" using f by simp
    then show ?thesis using 1(3) assms(5) by (simp add: job_final_def job_state_defs)
  next
    case (2 row' dispatch)
    have "job_state job = JOB_CANCELLED" unfolding 2(4) by (simp add: cancel_job_def)
    then show ?thesis unfolding 2(5) using same by blast
  qed
qed

section \<open>Reading the output\<close>

text \<open>
  The loop of \<open>StreamJobOutput\<close> from a position: \<open>fails\<close> says whether sending the chunk at
  that position fails. The chunks sent are returned with the result.
\<close>

definition output_chunk :: nat where
  "output_chunk = 32 * 1024"

function send_chunks :: "(nat \<Rightarrow> bool) \<Rightarrow> string \<Rightarrow> bytes \<Rightarrow> u32 \<Rightarrow> nat \<Rightarrow> OutputChunk list \<times> unit result" where
  "send_chunks fails job out sequence start =
    (if start < List.length out then
       (let stop = min (start + output_chunk) (List.length out);
            chunk = \<lparr>oc_job = job, oc_sequence = ucast sequence, oc_data = take (stop - start) (drop start out),
              oc_final = (stop = List.length out)\<rparr>
        in if fails start then ([], Inl (External ''send''))
           else (case send_chunks fails job out (sequence + 1) (start + output_chunk) of
             (chunks, res) \<Rightarrow> (chunk # chunks, res)))
     else ([], Inr ()))"
  by pat_completeness auto

termination
  by (relation "measure (\<lambda>(fails, job, out, sequence, start). List.length out - start)") (auto simp: output_chunk_def)

declare send_chunks.simps [simp del]

definition StreamJobOutput :: "env \<Rightarrow> (nat \<Rightarrow> bool) \<Rightarrow> db \<Rightarrow> string \<Rightarrow> OutputChunk list \<times> unit result" where
  "StreamJobOutput e fails d ident = (case sql_query_row (env_db_fails e 0) (\<lambda>r. j_id r = ident) (jobs d) of
      Inl err \<Rightarrow> ([], Inl (Status NotFound ''job output not found''))
    | Inr row \<Rightarrow>
       if j_state row = JOB_DISPATCHED \<or> j_state row = JOB_RUNNING
       then ([], Inl (Status FailedPrecondition ''job still running''))
       else (let out = (case j_output row of None \<Rightarrow> [] | Some b \<Rightarrow> b) in
         case send_chunks fails ident out 0 0 of
           (chunks, Inl err) \<Rightarrow> (chunks, Inl err)
         | (chunks, Inr u) \<Rightarrow>
             if out = [] then
               (if fails 0 then (chunks, Inl (External ''send''))
                else (chunks @ [\<lparr>oc_job = ident, oc_sequence = 0, oc_data = [], oc_final = True\<rparr>], Inr ()))
             else (chunks, Inr ())))"

text \<open>A stream of chunks carries the text: in order, consecutively numbered, only the last one final.\<close>

fun carries :: "string \<Rightarrow> OutputChunk list \<Rightarrow> u32 \<Rightarrow> bytes \<Rightarrow> bool" where
  "carries job [] n body = (body = [])"
| "carries job (c # cs) n body = (oc_job c = job \<and> oc_sequence c = ucast n \<and> List.length (oc_data c) \<le> output_chunk
     \<and> (oc_final c \<longleftrightarrow> cs = []) \<and> (\<exists>rest. body = oc_data c @ rest \<and> carries job cs (n + 1) rest))"

lemma send_chunks_none: "List.length out \<le> start \<Longrightarrow> send_chunks fails job out n start = ([], Inr ())"
  by (subst send_chunks.simps) simp

lemma send_chunks_nonempty: "start < List.length out \<Longrightarrow> send_chunks fails job out n start = (cs, Inr u) \<Longrightarrow> cs \<noteq> []"
  by (subst (asm) send_chunks.simps) (auto simp: Let_def split: if_splits prod.splits)

lemma send_chunks_carries:
  "send_chunks fails job out n start = (cs, Inr u) \<Longrightarrow> carries job cs n (drop start out)"
proof (induction fails job out n start arbitrary: cs rule: send_chunks.induct)
  case (1 fails job out n start)
  show ?case
  proof (cases "start < List.length out")
    case False
    then show ?thesis using "1.prems" send_chunks_none by simp
  next
    case True
    let ?stop = "min (start + output_chunk) (List.length out)"
    obtain cs' where cs': "send_chunks fails job out (n + 1) (start + output_chunk) = (cs', Inr u)" "\<not> fails start"
      "cs = \<lparr>oc_job = job, oc_sequence = ucast n, oc_data = take (?stop - start) (drop start out),
              oc_final = (?stop = List.length out)\<rparr> # cs'"
      using True "1.prems" by (subst (asm) (2) send_chunks.simps) (auto simp: Let_def split: if_splits prod.splits)
    have rest: "carries job cs' (n + 1) (drop (start + output_chunk) out)"
      using "1.IH" [OF True refl refl cs'(2,1)] .
    have last: "?stop = List.length out \<longleftrightarrow> cs' = []"
      using cs'(1) send_chunks_none [of out "start + output_chunk" fails job "n + 1"]
        send_chunks_nonempty [of "start + output_chunk" out fails job "n + 1" cs'] by (cases "start + output_chunk < List.length out") auto
    have "drop start out = take (?stop - start) (drop start out) @ drop (start + output_chunk) out"
      using True by (metis append_take_drop_id drop_drop min.commute min_diff add.commute add_diff_cancel_left' length_drop take_all_iff take_take nle_le min_def)
    then show ?thesis using cs'(3) rest last by (auto simp: output_chunk_def)
  qed
qed

lemma carries_concat: "carries job cs n body \<Longrightarrow> concat (map oc_data cs) = body"
  by (induction cs arbitrary: n body) auto

text \<open>A stream that ends without an error has carried the whole recorded output of a job that is no
  longer running, in order, in at least one chunk of at most 32 KiB, the last and only the last
  marked final.\<close>

theorem stream_output_complete:
  assumes "StreamJobOutput e fails d ident = (chunks, Inr ())"
  shows "\<exists>row \<in> set (jobs d). j_id row = ident \<and> j_state row \<notin> {JOB_DISPATCHED, JOB_RUNNING} \<and> chunks \<noteq> []
    \<and> carries ident chunks 0 (case j_output row of None \<Rightarrow> [] | Some b \<Rightarrow> b)
    \<and> concat (map oc_data chunks) = (case j_output row of None \<Rightarrow> [] | Some b \<Rightarrow> b)"
proof -
  obtain row where row: "row \<in> set (jobs d)" "j_id row = ident" "sql_query_row (env_db_fails e 0) (\<lambda>r. j_id r = ident) (jobs d) = Inr row"
    using assms by (auto simp: StreamJobOutput_def dest: sql_query_row_mem split: sum.splits)
  define out where "out = (case j_output row of None \<Rightarrow> [] | Some b \<Rightarrow> b)"
  have st: "j_state row \<notin> {JOB_DISPATCHED, JOB_RUNNING}"
    using assms row(3) by (auto simp: StreamJobOutput_def split: if_splits)
  obtain cs res where cs: "send_chunks fails ident out 0 0 = (cs, res)" by fastforce
  then obtain u where u: "res = Inr u" using assms row(3) st by (cases res) (auto simp: StreamJobOutput_def out_def Let_def)
  have "carries ident chunks 0 out \<and> chunks \<noteq> []"
  proof (cases "out = []")
    case True
    then have "cs = []" using cs send_chunks_none [of out 0 fails ident 0] by simp
    then show ?thesis
      using assms row(3) st cs True u by (auto simp: StreamJobOutput_def out_def Let_def output_chunk_def split: if_splits)
  next
    case False
    then have "chunks = cs" using assms row(3) st cs u by (auto simp: StreamJobOutput_def out_def Let_def split: if_splits)
    then show ?thesis
      using send_chunks_carries [of fails ident out 0 0 cs u] send_chunks_nonempty [of 0 out fails ident 0 cs u] cs u False by simp
  qed
  then show ?thesis using row st carries_concat unfolding out_def by blast
qed

section \<open>Examples\<close>

definition demo_job :: JobRow where
  "demo_job = \<lparr>j_id = ''j'', j_key = ''k'', j_actor = ''u'', j_agent = ''a'', j_kind = ''exec'', j_state = 8, j_reason = ''r'',
     j_created = 0, j_deadline = 1, j_attempt = 1, j_dispatch = Some ''d'', j_capture = False, j_output = Some ''hello'',
     j_truncated = False\<rparr>"

definition demo_fleet :: fleet where
  "demo_fleet = \<lparr>fl_db = demo_db\<lparr>jobs := [demo_job]\<rparr>, fl_registry = Some demo_registry, fl_ssh = Some (NewManager 1 2),
     fl_relay = Some (NewRelay)\<rparr>"

definition demo_request :: JobRequestContext where
  "demo_request = \<lparr>jc_agent = ''a'', jc_reason = ''why'', jc_key = ''once'', jc_timeout = 60, jc_confirmed = True\<rparr>"

definition demo_admin :: ctx where
  "demo_admin = demo_ctx\<lparr>cx_claims := Some \<lparr>cl_subject = ''u'', cl_role = ROLE_ADMIN, cl_issued = 0, cl_expires = 9, cl_nonce = []\<rparr>\<rparr>"

lemma demo_fleet_ok: "db_ok (fl_db demo_fleet)"
  by (simp add: db_ok_def table_ok_defs unique_opt_def List.map_filter_def refers_def demo_fleet_def demo_db_def demo_job_def empty_db_def)


theorem job_at_most_once_witness:
  "wins (job_step (\<lambda>a b c. [])) (\<lambda>a. job_key a = Some (''a'', ''k''))
     [DoSafe (calm 0) False demo_admin (Some (demo_request\<lparr>jc_key := ''k''\<rparr>)) (ProcessList 5) ''process_list''] demo_fleet = 0"
proof -
  have "key_spent (''a'', ''k'') demo_fleet" by (simp add: key_spent_def demo_fleet_def demo_job_def)
  then show ?thesis using job_at_most_once [OF demo_fleet_ok] by blast
qed

lemma demo_registry_session: "rg_sessions demo_registry (Suc 0) = Some \<lparr>se_agent = ''a'', se_queue = [], se_cap = 256,
    se_closed = False, se_released = False\<rparr>"
  by (simp add: demo_registry_def Acquire_def New_def demo_hello_def DefaultLimits_def Let_def)

lemma demo_cancel: "\<exists>s' job. CancelJob (calm 0) False demo_fleet ''j'' ''why'' 10 = (s', Ret (Inr job))"
proof -
  have "\<exists>s'. dispatch_to demo_fleet ''a'' m False = (s', Ret (Inr ())) \<and> fl_db s' = fl_db demo_fleet" for m
    by (simp add: dispatch_to_def demo_fleet_def Dispatch_def dispatch_session_def demo_registry_entry Enqueue_def
      demo_registry_session)
  then obtain s' where d: "dispatch_to demo_fleet ''a'' (CancelMsg \<lparr>cj_job = ''j'', cj_reason = ''why'',
      cj_deadline = 10, cj_request = ''d''\<rparr>) False = (s', Ret (Inr ()))" "fl_db s' = fl_db demo_fleet" by blast
  have row: "sql_query_row False (\<lambda>r. j_id r = ''j'') (jobs (fl_db demo_fleet)) = Inr demo_job"
    by (simp add: sql_query_row_def demo_fleet_def demo_job_def)
  have j: "j_dispatch demo_job = Some ''d''" "j_agent demo_job = ''a''" "j_id demo_job = ''j''" "\<not> job_final (j_state demo_job)"
    by (simp_all add: demo_job_def job_final_def job_state_defs)
  have r: "fl_registry demo_fleet \<noteq> None" by (simp add: demo_fleet_def)
  show ?thesis
    using d row j r set_job_state_ok [OF demo_fleet_ok]
    by (auto simp: CancelJob_def fail_def sql_exec_def go_time split_beta)
qed

theorem cancel_effect_witness:
  "\<exists>s' job. CancelJob (calm 0) False demo_fleet ''j'' ''why'' 10 = (s', Ret (Inr job)) \<and> job_id job = ''j''"
proof -
  obtain s' job where c: "CancelJob (calm 0) False demo_fleet ''j'' ''why'' 10 = (s', Ret (Inr job))" using demo_cancel by blast
  show ?thesis using cancel_effect [OF c] c by auto
qed

theorem cancel_misreports_unknown_witness:
  "\<exists>s' job. CancelJob (calm 0) False demo_fleet ''j'' ''why'' 10 = (s', Ret (Inr job)) \<and> job_state job = JOB_CANCELLED
    \<and> map j_state (jobs (fl_db s')) = [JOB_UNKNOWN_RESULT]"
proof -
  obtain s' job where c: "CancelJob (calm 0) False demo_fleet ''j'' ''why'' 10 = (s', Ret (Inr job))" using demo_cancel by blast
  have "demo_job \<in> set (jobs (fl_db demo_fleet))" "j_id demo_job = ''j''" "j_state demo_job = JOB_UNKNOWN_RESULT"
    by (simp_all add: demo_fleet_def demo_job_def job_state_defs)
  then have "job_state job = JOB_CANCELLED \<and> jobs (fl_db s') = [demo_job]"
    using cancel_misreports_unknown [OF demo_fleet_ok c] by (simp add: demo_fleet_def)
  then show ?thesis using c by (auto simp: demo_job_def job_state_defs)
qed

theorem stream_output_complete_witness:
  "\<exists>chunks. StreamJobOutput (calm 0) (\<lambda>i. False) (fl_db demo_fleet) ''j'' = (chunks, Inr ()) \<and> concat (map oc_data chunks) = ''hello''"
proof -
  have "\<exists>chunks. StreamJobOutput (calm 0) (\<lambda>i. False) (fl_db demo_fleet) ''j'' = (chunks, Inr ())"
    by (simp add: StreamJobOutput_def sql_query_row_def demo_fleet_def demo_job_def job_state_defs send_chunks.simps
      output_chunk_def Let_def)
  then obtain chunks where c: "StreamJobOutput (calm 0) (\<lambda>i. False) (fl_db demo_fleet) ''j'' = (chunks, Inr ())" by blast
  have "jobs (fl_db demo_fleet) = [demo_job]" "j_output demo_job = Some ''hello''"
    by (simp_all add: demo_fleet_def demo_job_def)
  then show ?thesis using stream_output_complete [OF c] c by auto
qed

end
