(* ===== verification/Metrics.thy ===== *)
theory Metrics
  imports Api GoStrings
begin

text \<open>
  \<open>internal/metrics\<close>, the agent's side: parsing \<open>/proc\<close>, the filesystem table, the
  collector and its bounded buffer. Reading files, \<open>statfs\<close> and floating-point arithmetic
  are parameters; everything on bytes and 64-bit counters is defined here.
\<close>

section \<open>Processor time\<close>

record CPU =
  cpu_total :: u64
  cpu_idle :: u64

text \<open>A number as \<open>ParseUint(v, 10, 64)\<close> gives it.\<close>

definition parse_u64 :: "string \<Rightarrow> u64 result" where
  "parse_u64 v = (case parse_uint 64 v of (n, err) \<Rightarrow> if err then Inl (External ''ParseUint'') else Inr (word_of_nat n))"

fun parse_all :: "string list \<Rightarrow> u64 list result" where
  "parse_all [] = Inr []"
| "parse_all (v # vs) = (case parse_u64 v of Inl err \<Rightarrow> Inl err
     | Inr n \<Rightarrow> (case parse_all vs of Inl err \<Rightarrow> Inl err | Inr ns \<Rightarrow> Inr (n # ns)))"

fun add_all :: "u64 \<Rightarrow> u64 list \<Rightarrow> u64 result" where
  "add_all acc [] = Inr acc"
| "add_all acc (v # vs) = (if - 1 - acc < v then Inl (Error ''CPU counter overflow'') else add_all (acc + v) vs)"

text \<open>Indexing the fifth value panics when there are only four.\<close>

definition ParseCPU :: "bytes \<Rightarrow> CPU result outcome" where
  "ParseCPU data =
    (let line = (case cut (CHR 0x0A) data of None \<Rightarrow> data | Some (before, after) \<Rightarrow> before);
         f = Fields line
     in if List.length f < 5 \<or> hd f \<noteq> ''cpu'' then Ret (Inl (Error ''invalid proc stat''))
        else case parse_all (tl f) of
          Inl err \<Rightarrow> Ret (Inl err)
        | Inr values \<Rightarrow> (case add_all 0 values of
            Inl err \<Rightarrow> Ret (Inl err)
          | Inr ticks \<Rightarrow>
              if List.length values \<le> 4 then Panic ''index out of range''
              else Ret (Inr \<lparr>cpu_total = ticks, cpu_idle = values ! 3 + values ! 4\<rparr>)))"

definition Rate :: "(u64 \<Rightarrow> duration \<Rightarrow> float64) \<Rightarrow> u64 \<Rightarrow> u64 \<Rightarrow> duration \<Rightarrow> float64 \<times> bool" where
  "Rate per_second previous current elapsed = (if current < previous \<or> elapsed \<le> 0 then (0, False)
     else (per_second (current - previous) elapsed, True))"

section \<open>Memory\<close>

record Memory =
  mem_total :: u64
  mem_available :: u64
  mem_used :: u64

fun meminfo_lines :: "string list \<Rightarrow> Memory \<Rightarrow> Memory result" where
  "meminfo_lines [] m = Inr m"
| "meminfo_lines (l # ls) m =
    (let f = Fields l in
     if List.length f < 2 then meminfo_lines ls m
     else case parse_u64 (f ! 1) of
       Inl err \<Rightarrow> Inl err
     | Inr v \<Rightarrow>
        if v > (- 1) div 1024 then Inl (Error ''memory overflow'')
        else if trim_suffix (f ! 0) '':'' = ''MemTotal'' then meminfo_lines ls (m\<lparr>mem_total := v * 1024\<rparr>)
        else if trim_suffix (f ! 0) '':'' = ''MemAvailable'' then meminfo_lines ls (m\<lparr>mem_available := v * 1024\<rparr>)
        else meminfo_lines ls m)"

text \<open>The scanner's own error comes with the figures already taken; every caller drops them then.\<close>

definition ParseMeminfo :: "bytes \<Rightarrow> Memory result" where
  "ParseMeminfo data = (case scan_lines data of (ls, too_long) \<Rightarrow>
     (case meminfo_lines ls \<lparr>mem_total = 0, mem_available = 0, mem_used = 0\<rparr> of
        Inl err \<Rightarrow> Inl err
      | Inr m \<Rightarrow>
         if mem_total m = 0 \<or> mem_available m > mem_total m then Inl (Error ''invalid meminfo'')
         else if too_long then Inl (External ''bufio.Scanner: token too long'')
         else Inr (m\<lparr>mem_used := mem_total m - mem_available m\<rparr>)))"

section \<open>Load and uptime\<close>

definition ParseLoad :: "(string \<Rightarrow> float64 result) \<Rightarrow> bytes \<Rightarrow> (float64 \<times> float64 \<times> float64) result" where
  "ParseLoad pf data = (let f = Fields data in
     if List.length f < 3 then Inl (Error ''invalid loadavg'')
     else case (pf (f ! 0), pf (f ! 1), pf (f ! 2)) of
       (Inl err, _, _) \<Rightarrow> Inl err
     | (_, Inl err, _) \<Rightarrow> Inl err
     | (_, _, Inl err) \<Rightarrow> Inl err
     | (Inr a, Inr b, Inr c) \<Rightarrow> Inr (a, b, c))"

definition ParseUptime :: "(string \<Rightarrow> float64 result) \<Rightarrow> bytes \<Rightarrow> float64 result" where
  "ParseUptime pf data = (case Fields data of [] \<Rightarrow> Inl (Error ''invalid uptime'') | f # fs \<Rightarrow> pf f)"

section \<open>Network interfaces\<close>

record Network =
  nw_name :: string
  nw_receive :: u64
  nw_transmit :: u64

fun network_lines :: "nat \<Rightarrow> string list \<Rightarrow> Network list \<Rightarrow> Network list result" where
  "network_lines limit [] out = Inr out"
| "network_lines limit (l # ls) out =
    (let line = trim_space l in
     case cut (CHR '':'') line of
       None \<Rightarrow> network_lines limit ls out
     | Some (name, rest) \<Rightarrow>
        (let f = Fields rest in
         if List.length f < 16 then Inl (Errorf ''invalid network row %q'' [name] None)
         else case (parse_u64 (f ! 0), parse_u64 (f ! 8)) of
           (Inl err, _) \<Rightarrow> Inl err
         | (_, Inl err) \<Rightarrow> Inl err
         | (Inr rx, Inr tx) \<Rightarrow>
            if name = ''lo'' then network_lines limit ls out
            else (let out' = out @ [\<lparr>nw_name = name, nw_receive = rx, nw_transmit = tx\<rparr>] in
              if limit \<le> List.length out' then Inr out' else network_lines limit ls out')))"

text \<open>A line that is too long is an error only when the scanner came to it.\<close>

definition ParseNetwork :: "bytes \<Rightarrow> int \<Rightarrow> Network list result" where
  "ParseNetwork data limit = (if limit \<le> 0 then Inl (Error ''network limit required'')
     else case scan_lines data of (ls, too_long) \<Rightarrow>
       (case network_lines (nat limit) ls [] of
          Inl err \<Rightarrow> Inl err
        | Inr out \<Rightarrow> if too_long \<and> List.length out < nat limit then Inl (External ''bufio.Scanner: token too long'') else Inr out))"

section \<open>Filesystems\<close>

definition pseudo :: "string list" where
  "pseudo = [''proc'', ''sysfs'', ''tmpfs'', ''devtmpfs'', ''devpts'', ''cgroup'', ''cgroup2'', ''overlay'', ''squashfs'',
     ''securityfs'', ''debugfs'', ''tracefs'', ''pstore'', ''configfs'', ''fusectl'', ''mqueue'', ''hugetlbfs'',
     ''rpc_pipefs'', ''autofs'', ''binfmt_misc'']"

definition IncludeFilesystem :: "string \<Rightarrow> bool" where
  "IncludeFilesystem kind \<longleftrightarrow> kind \<notin> set pseudo"

record Mount =
  mt_path :: string
  mt_type :: string

text \<open>The escapes of \<open>/proc/mounts\<close>: backslash and three octal digits for blank, tab, newline and backslash.\<close>

fun decodeMount :: "string \<Rightarrow> string" where
  "decodeMount (a # b # c # d # rest) =
    (if a = CHR 0x5C \<and> [b, c, d] = ''040'' then CHR '' '' # decodeMount rest
     else if a = CHR 0x5C \<and> [b, c, d] = ''011'' then CHR 0x09 # decodeMount rest
     else if a = CHR 0x5C \<and> [b, c, d] = ''012'' then CHR 0x0A # decodeMount rest
     else if a = CHR 0x5C \<and> [b, c, d] = ''134'' then CHR 0x5C # decodeMount rest
     else a # decodeMount (b # c # d # rest))"
| "decodeMount s = s"

fun mount_lines :: "nat \<Rightarrow> string list \<Rightarrow> Mount list \<Rightarrow> Mount list" where
  "mount_lines limit [] out = out"
| "mount_lines limit (l # ls) out =
    (let f = Fields l in
     if List.length f < 3 then mount_lines limit ls out
     else if \<not> IncludeFilesystem (f ! 2) then mount_lines limit ls out
     else (let out' = out @ [\<lparr>mt_path = decodeMount (f ! 1), mt_type = f ! 2\<rparr>] in
       if limit \<le> List.length out' then out' else mount_lines limit ls out'))"

definition ParseMounts :: "bytes \<Rightarrow> int \<Rightarrow> Mount list result" where
  "ParseMounts data limit = (if limit \<le> 0 then Inl (Error ''mount limit required'')
     else case scan_lines data of (ls, too_long) \<Rightarrow>
       (let out = mount_lines (nat limit) ls [] in
        if too_long \<and> List.length out < nat limit then Inl (External ''bufio.Scanner: token too long'') else Inr out))"

record FilesystemUsage =
  fu_path :: string
  fu_type :: string
  fu_total :: u64
  fu_used :: u64

definition UsageFromBlocks :: "u64 \<Rightarrow> u64 \<Rightarrow> u64 \<Rightarrow> FilesystemUsage option" where
  "UsageFromBlocks blocks available blockSize =
    (if available > blocks \<or> blockSize \<noteq> 0 \<and> blocks > (- 1) div blockSize then None
     else (let tot = blocks * blockSize; free = available * blockSize
       in Some \<lparr>fu_path = [], fu_type = [], fu_total = tot, fu_used = tot - free\<rparr>))"

text \<open>\<open>statfs\<close> gives blocks, available blocks and block size of a path.\<close>

fun CollectFilesystems :: "(string \<Rightarrow> (u64 \<times> u64 \<times> u64) result) \<Rightarrow> Mount list \<Rightarrow> int \<Rightarrow> FilesystemUsage list \<Rightarrow> FilesystemUsage list" where
  "CollectFilesystems statfs [] mx out = out"
| "CollectFilesystems statfs (m # ms) mx out =
    (if int (List.length out) \<ge> mx then out
     else case statfs (mt_path m) of
       Inl err \<Rightarrow> CollectFilesystems statfs ms mx out
     | Inr (blocks, available, bsize) \<Rightarrow>
        (case UsageFromBlocks blocks available bsize of
           None \<Rightarrow> CollectFilesystems statfs ms mx out
         | Some u \<Rightarrow> CollectFilesystems statfs ms mx (out @ [u\<lparr>fu_path := mt_path m, fu_type := mt_type m\<rparr>])))"

section \<open>Counters\<close>

lemma unat_max64: "unat (- 1 :: u64) = 2 ^ 64 - 1"
  by (simp add: unsigned_minus_1_eq_mask mask_eq_exp_minus_1)

lemma unat_bound: "unat (x :: u64) < 2 ^ 64"
  using unsigned_less [of x, where ?'a = nat] by simp

lemma le_max_word: "(x :: u64) \<le> - 1 - a \<longleftrightarrow> unat a + unat x < 2 ^ 64"
proof -
  have "unat (- 1 - a) = 2 ^ 64 - 1 - unat a"
    using unat_max64 unat_bound [of a] by (simp add: unat_sub word_le_nat_alt)
  then show ?thesis
    using unat_bound [of a] by (auto simp: word_le_nat_alt)
qed

lemma add_all_Inr: "add_all acc vs = Inr t \<Longrightarrow> unat t = unat acc + sum_list (map unat vs)"
proof (induction vs arbitrary: acc)
  case (Cons v vs)
  then have "unat acc + unat v < 2 ^ 64" using le_max_word [of v acc] by (auto simp: not_less split: if_splits)
  then have "unat (acc + v) = unat acc + unat v" by (simp add: unat_add_lem [THEN iffD1])
  then show ?case using Cons by (auto split: if_splits)
qed simp

lemma parse_all_length: "parse_all vs = Inr ns \<Longrightarrow> List.length ns = List.length vs"
  by (induction vs arbitrary: ns) (auto split: sum.splits)

lemma two_le_sum_list: "i < j \<Longrightarrow> j < List.length (xs :: nat list) \<Longrightarrow> xs ! i + xs ! j \<le> sum_list xs"
proof (induction xs arbitrary: i j)
  case (Cons x xs)
  then show ?case
    by (cases i; cases j) (auto simp: elem_le_sum_list add_le_mono intro: order_trans [OF _ le_add2])
qed simp

text \<open>Reading the processor's counters never wraps around: the total is the sum of the numbers on
  the first line, and the idle figure, which is the sum of the fourth and the fifth, is at most the total.\<close>

theorem cpu_counters_exact:
  assumes "ParseCPU data = Ret (Inr cpu)"
  shows "\<exists>ns. 5 \<le> List.length ns
    \<and> parse_all (tl (Fields (case cut (CHR 0x0A) data of None \<Rightarrow> data | Some (before, after) \<Rightarrow> before))) = Inr ns
    \<and> unat (cpu_total cpu) = sum_list (map unat ns)
    \<and> unat (cpu_idle cpu) = unat (ns ! 3) + unat (ns ! 4) \<and> cpu_idle cpu \<le> cpu_total cpu"
proof -
  let ?f = "Fields (case cut (CHR 0x0A) data of None \<Rightarrow> data | Some (before, after) \<Rightarrow> before)"
  obtain ns t where v: "parse_all (tl ?f) = Inr ns" "add_all 0 ns = Inr t" "5 \<le> List.length ns"
    "cpu = \<lparr>cpu_total = t, cpu_idle = ns ! 3 + ns ! 4\<rparr>"
    using assms by (auto simp: ParseCPU_def Let_def split: if_splits sum.splits)
  have t: "unat t = sum_list (map unat ns)" using add_all_Inr [OF v(2)] by simp
  moreover have le: "unat (ns ! 3) + unat (ns ! 4) \<le> unat t"
    using two_le_sum_list [of 3 4 "map unat ns"] v(3) t by simp
  then have "unat (ns ! 3 + ns ! 4) = unat (ns ! 3) + unat (ns ! 4)"
    using unat_bound [of t] by (intro unat_add_lem [THEN iffD1]) simp
  ultimately show ?thesis using v le by (auto simp: word_le_nat_alt)
qed

lemma parse_digit: "is_ascii_digit c \<Longrightarrow> parse_u64 [c] = Inr (word_of_nat (byte c - 48))"
  by (auto simp: parse_u64_def parse_uint_def dec_value_def is_ascii_digit_def)

text \<open>A line with four numbers passes the check of its length and panics.\<close>

theorem cpu_four_values_panic:
  "ParseCPU ''cpu 1 2 3 4'' = Panic ''index out of range''"
proof -
  have "Fields ''cpu 1 2 3 4'' = [''cpu'', ''1'', ''2'', ''3'', ''4'']" "cut (CHR 0x0A) ''cpu 1 2 3 4'' = None" by code_simp+
  then show ?thesis by (simp add: ParseCPU_def parse_digit is_ascii_digit_def byte_def)
qed

theorem cpu_counters_exact_witness:
  "\<exists>cpu. ParseCPU ''cpu 1 2 3 4 5'' = Ret (Inr cpu) \<and> cpu_idle cpu \<le> cpu_total cpu"
proof -
  have p: "ParseCPU ''cpu 1 2 3 4 5'' = Ret (Inr \<lparr>cpu_total = 15, cpu_idle = 9\<rparr>)"
  proof -
    have "Fields ''cpu 1 2 3 4 5'' = [''cpu'', ''1'', ''2'', ''3'', ''4'', ''5'']" "cut (CHR 0x0A) ''cpu 1 2 3 4 5'' = None"
      by code_simp+
    then show ?thesis by (simp add: ParseCPU_def parse_digit is_ascii_digit_def byte_def)
  qed
  show ?thesis using cpu_counters_exact [OF p] p by auto
qed

lemma div_bound: "v \<le> (- 1) div c \<Longrightarrow> unat v * unat (c :: u64) < 2 ^ 64"
proof -
  assume "v \<le> (- 1) div c"
  then have "unat v \<le> (2 ^ 64 - 1) div unat c"
    by (simp add: word_le_nat_alt unat_div unat_max64)
  then have "unat v * unat c \<le> 2 ^ 64 - 1"
    by (meson div_times_less_eq_dividend le_trans mult_le_mono1)
  then show ?thesis by simp
qed

lemma unat_times: "unat (x :: u64) * unat y < 2 ^ 64 \<Longrightarrow> unat (x * y) = unat x * unat y"
  by (simp add: unat_mult_lem [THEN iffD1])

text \<open>A filesystem's usage is computed without wrap-around: the total is blocks times block size, and
  used and free space add up to it. Figures that would wrap around are rejected.\<close>

theorem usage_exact:
  "case UsageFromBlocks blocks available blockSize of
     Some u \<Rightarrow> unat (fu_total u) = unat blocks * unat blockSize
       \<and> unat (fu_used u) + unat available * unat blockSize = unat (fu_total u)
   | None \<Rightarrow> available > blocks \<or> unat blocks * unat blockSize \<ge> 2 ^ 64"
proof (cases "UsageFromBlocks blocks available blockSize")
  case None
  then have "available > blocks \<or> blockSize \<noteq> 0 \<and> blocks > (- 1) div blockSize"
    by (simp add: UsageFromBlocks_def Let_def split: if_splits)
  moreover have "unat blocks * unat blockSize \<ge> 2 ^ 64" if "blockSize \<noteq> 0" "blocks > (- 1) div blockSize"
  proof -
    have "(2 ^ 64 - 1) div unat blockSize < unat blocks"
      using that(2) by (simp add: word_less_nat_alt unat_div unat_max64)
    moreover have "0 < unat blockSize" using that(1) by (simp add: unat_gt_0)
    ultimately have "2 ^ 64 - 1 < unat blocks * unat blockSize" by (simp add: div_less_iff_less_mult)
    then show ?thesis by simp
  qed
  ultimately show ?thesis using None by auto
next
  case (Some u)
  then have a: "available \<le> blocks" "blockSize = 0 \<or> blocks \<le> (- 1) div blockSize"
    "u = \<lparr>fu_path = [], fu_type = [], fu_total = blocks * blockSize, fu_used = blocks * blockSize - available * blockSize\<rparr>"
    by (auto simp: UsageFromBlocks_def Let_def not_less split: if_splits)
  have b: "unat blocks * unat blockSize < 2 ^ 64" using a(2) div_bound [of blocks blockSize] by auto
  have le: "unat available * unat blockSize \<le> unat blocks * unat blockSize"
    using a(1) by (simp add: word_le_nat_alt)
  then have f: "unat (blocks * blockSize) = unat blocks * unat blockSize" "unat (available * blockSize) = unat available * unat blockSize"
    using b le_less_trans [OF le b] by (simp_all add: unat_times)
  then have "unat (blocks * blockSize - available * blockSize) = unat blocks * unat blockSize - unat available * unat blockSize"
    using le by (simp add: unat_sub word_le_nat_alt)
  then show ?thesis using Some a(3) f le by simp
qed

section \<open>Memory and tables\<close>

text \<open>Whatever is read, an accepted memory reading is coherent: there is memory, and used plus available
  is exactly the total.\<close>

theorem memory_coherent:
  assumes "ParseMeminfo data = Inr m"
  shows "0 < mem_total m \<and> mem_available m \<le> mem_total m \<and> unat (mem_used m) + unat (mem_available m) = unat (mem_total m)"
proof -
  have "0 < mem_total m" "mem_available m \<le> mem_total m" "mem_used m = mem_total m - mem_available m"
    using assms by (auto simp: ParseMeminfo_def word_gt_0 not_less split: prod.splits sum.splits if_splits)
  then show ?thesis by (simp add: unat_sub word_le_nat_alt)
qed

lemma network_lines_length: "network_lines limit ls out = Inr res \<Longrightarrow> List.length out < limit \<Longrightarrow> List.length res \<le> limit"
  by (induction limit ls out rule: network_lines.induct)
    (auto simp: Let_def split: option.splits if_splits sum.splits)

lemma network_lines_names:
  "network_lines limit ls out = Inr res \<Longrightarrow> list_all (\<lambda>n. nw_name n \<noteq> ''lo'') out \<Longrightarrow> list_all (\<lambda>n. nw_name n \<noteq> ''lo'') res"
  by (induction limit ls out rule: network_lines.induct)
    (auto simp: Let_def split: option.splits if_splits sum.splits)

lemma mount_lines_spec: "List.length out < limit \<Longrightarrow> list_all (\<lambda>m. IncludeFilesystem (mt_type m)) out \<Longrightarrow>
    List.length (mount_lines limit ls out) \<le> limit \<and> list_all (\<lambda>m. IncludeFilesystem (mt_type m)) (mount_lines limit ls out)"
  by (induction limit ls out rule: mount_lines.induct) (auto simp: Let_def)

text \<open>The tables are bounded by their limit and filtered: no loopback interface, and no pseudo filesystem.\<close>

theorem tables_bounded:
  "(\<forall>out. ParseNetwork data limit = Inr out \<longrightarrow> int (List.length out) \<le> limit \<and> ''lo'' \<notin> nw_name ` set out)
   \<and> (\<forall>out. ParseMounts data limit = Inr out \<longrightarrow> int (List.length out) \<le> limit \<and> (\<forall>m \<in> set out. mt_type m \<notin> set pseudo))"
proof (intro conjI allI impI)
  fix out assume n: "ParseNetwork data limit = Inr out"
  then have r: "0 < limit" "network_lines (nat limit) (fst (scan_lines data)) [] = Inr out"
    by (auto simp: ParseNetwork_def split: if_splits prod.splits sum.splits)
  show "int (List.length out) \<le> limit" using network_lines_length [OF r(2)] r(1) by simp
  show "''lo'' \<notin> nw_name ` set out" using network_lines_names [OF r(2)] by (auto simp: list_all_iff)
next
  fix out assume n: "ParseMounts data limit = Inr out"
  then have r: "0 < limit" "out = mount_lines (nat limit) (fst (scan_lines data)) []"
    by (auto simp: ParseMounts_def Let_def split: if_splits prod.splits)
  show "int (List.length out) \<le> limit" "\<forall>m \<in> set out. mt_type m \<notin> set pseudo"
    using mount_lines_spec [of "[]" "nat limit" "fst (scan_lines data)"] r
    by (auto simp: list_all_iff IncludeFilesystem_def)
qed

text \<open>How a path is written in \<open>/proc/mounts\<close>, and that reading it back gives the path.\<close>

fun escape_mount :: "string \<Rightarrow> string" where
  "escape_mount [] = []"
| "escape_mount (c # cs) = (if c = CHR '' '' then CHR 0x5C # ''040''
     else if c = CHR 0x09 then CHR 0x5C # ''011''
     else if c = CHR 0x0A then CHR 0x5C # ''012''
     else if c = CHR 0x5C then CHR 0x5C # ''134''
     else [c]) @ escape_mount cs"

lemma decodeMount_Cons: "c \<noteq> CHR 0x5C \<Longrightarrow> decodeMount (c # cs) = c # decodeMount cs"
  by (cases "c # cs" rule: decodeMount.cases) auto

text \<open>Decoding inverts the kernel's escaping of a mount point: whatever bytes the path has, the path written
  in \<open>/proc/mounts\<close> is decoded back to it.\<close>

theorem mount_round_trip: "decodeMount (escape_mount path) = path"
  by (induction path) (simp_all add: decodeMount_Cons)

section \<open>Collecting\<close>

record Inventory =
  iv_hostname :: string
  iv_os :: string
  iv_kernel :: string
  iv_architecture :: string
  iv_boot_id :: string

text \<open>\<open>strings.Trim\<close> of double quotes.\<close>

definition trim_quotes :: "string \<Rightarrow> string" where
  "trim_quotes s = rev (dropWhile (\<lambda>c. c = CHR 0x22) (rev (dropWhile (\<lambda>c. c = CHR 0x22) s)))"

definition osID :: "string \<Rightarrow> string" where
  "osID data = (case List.find (\<lambda>l. has_prefix l ''ID='') (split (CHR 0x0A) data) of
      None \<Rightarrow> ''unknown''
    | Some l \<Rightarrow> trim_quotes (drop 3 l))"

definition metric :: "string \<Rightarrow> float64 \<Rightarrow> Metric" where
  "metric name v = \<lparr>m_name = name, m_value = v, m_labels = None\<rparr>"

definition interface_metrics :: "(u64 \<Rightarrow> float64) \<Rightarrow> Network \<Rightarrow> Metric list" where
  "interface_metrics f64 n =
    [\<lparr>m_name = ''network_receive_bytes'', m_value = f64 (nw_receive n), m_labels = Some [(''interface'', nw_name n)]\<rparr>,
     \<lparr>m_name = ''network_transmit_bytes'', m_value = f64 (nw_transmit n), m_labels = Some [(''interface'', nw_name n)]\<rparr>]"

text \<open>
  \<open>Collect\<close>: \<open>read\<close> reads a file under the collector's root, \<open>pf\<close> is \<open>ParseFloat\<close>,
  \<open>f64\<close> the conversion of a counter, \<open>arch\<close> the architecture the agent was built for. The
  parser of the processor's counters may panic. A file that cannot be read is empty in the inventory.
\<close>

definition read_or_empty :: "(string \<Rightarrow> bytes result) \<Rightarrow> string \<Rightarrow> string" where
  "read_or_empty read name = (case read name of Inl err \<Rightarrow> [] | Inr b \<Rightarrow> b)"

definition Collect :: "(string \<Rightarrow> bytes result) \<Rightarrow> (string \<Rightarrow> float64 result) \<Rightarrow> (u64 \<Rightarrow> float64) \<Rightarrow> string \<Rightarrow> int \<Rightarrow> bool \<Rightarrow> time
    \<Rightarrow> (MetricsSnapshot \<times> Inventory) result outcome" where
  "Collect read pf f64 arch maxInterfaces cancelled now =
    (if cancelled then Ret (Inl Canceled)
     else case read ''proc/stat'' of Inl err \<Rightarrow> Ret (Inl err)
     | Inr stat \<Rightarrow> (case ParseCPU stat of Panic p \<Rightarrow> Panic p
     | Ret (Inl err) \<Rightarrow> Ret (Inl err)
     | Ret (Inr cpu) \<Rightarrow> Ret (case read ''proc/meminfo'' of Inl err \<Rightarrow> Inl err
     | Inr memRaw \<Rightarrow> (case ParseMeminfo memRaw of Inl err \<Rightarrow> Inl err
     | Inr mem \<Rightarrow> (case read ''proc/loadavg'' of Inl err \<Rightarrow> Inl err
     | Inr loadRaw \<Rightarrow> (case ParseLoad pf loadRaw of Inl err \<Rightarrow> Inl err
     | Inr (l1, l5, l15) \<Rightarrow> (case read ''proc/uptime'' of Inl err \<Rightarrow> Inl err
     | Inr uptimeRaw \<Rightarrow> (case ParseUptime pf uptimeRaw of Inl err \<Rightarrow> Inl err
     | Inr uptime \<Rightarrow> (case read ''proc/net/dev'' of Inl err \<Rightarrow> Inl err
     | Inr networkRaw \<Rightarrow> (case ParseNetwork networkRaw maxInterfaces of Inl err \<Rightarrow> Inl err
     | Inr network \<Rightarrow> Inr
        (\<lparr>ms_sampled = unix_milli now, ms_metrics =
           [metric ''cpu_total_ticks'' (f64 (cpu_total cpu)), metric ''cpu_idle_ticks'' (f64 (cpu_idle cpu)),
            metric ''memory_total_bytes'' (f64 (mem_total mem)), metric ''memory_used_bytes'' (f64 (mem_used mem)),
            metric ''load_1'' l1, metric ''load_5'' l5, metric ''load_15'' l15, metric ''uptime_seconds'' uptime]
           @ concat (map (interface_metrics f64) network)\<rparr>,
         \<lparr>iv_hostname = trim_space (read_or_empty read ''etc/hostname''), iv_os = osID (read_or_empty read ''etc/os-release''),
          iv_kernel = trim_space (read_or_empty read ''proc/sys/kernel/osrelease''), iv_architecture = arch,
          iv_boot_id = trim_space (read_or_empty read ''proc/sys/kernel/random/boot_id'')\<rparr>)))))))))))"

text \<open>A collected snapshot has the eight fixed figures and two for each of at most the given number of interfaces.\<close>

theorem collect_bounded:
  assumes "Collect read pf f64 arch maxInterfaces cancelled now = Ret (Inr (snapshot, inventory))"
  shows "\<exists>network. int (List.length network) \<le> maxInterfaces
    \<and> List.length (ms_metrics snapshot) = 8 + 2 * List.length network
    \<and> map m_name (take 8 (ms_metrics snapshot)) = [''cpu_total_ticks'', ''cpu_idle_ticks'', ''memory_total_bytes'',
        ''memory_used_bytes'', ''load_1'', ''load_5'', ''load_15'', ''uptime_seconds'']
    \<and> drop 8 (ms_metrics snapshot) = concat (map (interface_metrics f64) network)
    \<and> ''lo'' \<notin> nw_name ` set network"
proof -
  obtain raw network ms where n: "ParseNetwork raw maxInterfaces = Inr network"
    "ms_metrics snapshot = ms @ concat (map (interface_metrics f64) network)" "List.length ms = 8"
    "map m_name ms = [''cpu_total_ticks'', ''cpu_idle_ticks'', ''memory_total_bytes'',
        ''memory_used_bytes'', ''load_1'', ''load_5'', ''load_15'', ''uptime_seconds'']"
    using assms unfolding Collect_def
    by (auto simp: metric_def split: if_splits sum.splits outcome.splits prod.splits)
  have len: "List.length (concat (map (interface_metrics f64) network)) = 2 * List.length network"
    by (induction network) (simp_all add: interface_metrics_def)
  have pos: "0 < maxInterfaces" using n(1) by (auto simp: ParseNetwork_def split: if_splits)
  have ls: "network_lines (nat maxInterfaces) (fst (scan_lines raw)) [] = Inr network"
    using n(1) by (auto simp: ParseNetwork_def split: if_splits prod.splits sum.splits)
  have "int (List.length network) \<le> maxInterfaces" "''lo'' \<notin> nw_name ` set network"
    using network_lines_length [OF ls] network_lines_names [OF ls] pos by (auto simp: list_all_iff)
  then show ?thesis using n len by (intro exI [of _ network]) simp
qed

section \<open>The buffer\<close>

record 'a Buffer =
  bf_max :: nat
  bf_items :: "'a list"

definition NewBuffer :: "int \<Rightarrow> 'a Buffer" where
  "NewBuffer mx = \<lparr>bf_max = nat (if mx < 1 then 1 else mx), bf_items = []\<rparr>"

definition Push :: "'a \<Rightarrow> 'a Buffer \<Rightarrow> 'a Buffer" where
  "Push v b = (let items = (if List.length (bf_items b) = bf_max b then take (bf_max b - 1) (tl (bf_items b)) else bf_items b)
     in b\<lparr>bf_items := items @ [v]\<rparr>)"

definition Drain :: "'a Buffer \<Rightarrow> 'a Buffer \<times> 'a list" where
  "Drain b = (if bf_items b = [] then (b, []) else (b\<lparr>bf_items := []\<rparr>, bf_items b))"

interpretation buffer: bounded Push "\<lambda>b. if 1 \<le> bf_max b then List.length (bf_items b) else 0" bf_max
  by unfold_locales (auto simp: Push_def Let_def)

lemma Push_simps: "bf_max (Push v b) = bf_max b"
  "bf_items (Push v b) = (if List.length (bf_items b) = bf_max b then take (bf_max b - 1) (tl (bf_items b)) else bf_items b) @ [v]"
  by (simp_all add: Push_def Let_def)

text \<open>A buffer never holds more than its capacity, and what it drains is the newest of what was pushed, in order.\<close>

theorem buffer_keeps_newest:
  "List.length (bf_items (fold Push xs (NewBuffer mx))) \<le> bf_max (NewBuffer mx :: 'a Buffer)
   \<and> snd (Drain (fold Push xs (NewBuffer mx))) = drop (List.length xs - bf_max (NewBuffer mx :: 'a Buffer)) (xs :: 'a list)"
proof
  let ?b = "NewBuffer mx :: 'a Buffer"
  have m: "1 \<le> bf_max ?b" "bf_items ?b = []" by (auto simp: NewBuffer_def Suc_le_eq)
  show len: "List.length (bf_items (fold Push xs ?b)) \<le> bf_max ?b"
    using buffer.size_fold [of ?b xs] m by (simp add: buffer.bound_fold)
  have "bf_items (fold Push xs ?b) = drop (List.length xs - bf_max ?b) xs \<and> bf_max (fold Push xs ?b) = bf_max ?b"
  proof (induction xs rule: rev_induct)
    case (snoc x xs)
    let ?c = "fold Push xs ?b"
    have c: "bf_items ?c = drop (List.length xs - bf_max ?b) xs" "bf_max ?c = bf_max ?b" using snoc by auto
    show ?case
    proof (cases "bf_max ?b \<le> List.length xs")
      case True
      have "tl (drop (List.length xs - bf_max ?b) xs) = drop (Suc (List.length xs) - bf_max ?b) xs"
        using True m(1) by (simp add: Suc_diff_le drop_Suc tl_drop)
      then show ?thesis using c True m(1) by (simp add: Push_simps)
    next
      case False
      then show ?thesis using c m(1) by (simp add: Push_simps)
    qed
  qed (use m in simp)
  then show "snd (Drain (fold Push xs ?b)) = drop (List.length xs - bf_max ?b) xs"
    by (auto simp: Drain_def)
qed

section \<open>Publishing\<close>

text \<open>
  One turn of the publisher's loop sees what collecting gave, whether the send failed, and
  whether the context was done at the select that follows; the loop goes on with the next turn
  when it was the ticker. A run is given by its turns; with no turn left it is still running.
\<close>

record turn =
  tn_collected :: "MetricsSnapshot result"
  tn_send :: "unit result"
  tn_done :: "error option"

fun publish_turns :: "turn list \<Rightarrow> AgentMessage list \<times> error option" where
  "publish_turns [] = ([], None)"
| "publish_turns (t # ts) = (case tn_collected t of
      Inl err \<Rightarrow> ([], Some err)
    | Inr snapshot \<Rightarrow> (case tn_send t of
        Inl err \<Rightarrow> ([MetricsMsg snapshot], Some err)
      | Inr u \<Rightarrow> (case tn_done t of
          Some err \<Rightarrow> ([MetricsMsg snapshot], Some err)
        | None \<Rightarrow> (case publish_turns ts of (sent, res) \<Rightarrow> (MetricsMsg snapshot # sent, res)))))"

definition Publish :: "duration \<Rightarrow> bool \<Rightarrow> bool \<Rightarrow> turn list \<Rightarrow> AgentMessage list \<times> error option" where
  "Publish interval has_collect has_send turns =
    (if interval \<le> 0 \<or> \<not> has_collect \<or> \<not> has_send then ([], Some (Error ''metrics publisher configuration required''))
     else publish_turns turns)"

text \<open>The agent's scheduler, from its selects: \<open>None\<close> a tick, which runs the collection and drops its error.\<close>

fun schedule :: "error option list \<Rightarrow> nat \<times> error option" where
  "schedule [] = (0, None)"
| "schedule (Some err # xs) = (0, Some err)"
| "schedule (None # xs) = (case schedule xs of (n, res) \<Rightarrow> (Suc n, res))"

definition Run_schedule :: "duration \<Rightarrow> error option list \<Rightarrow> nat \<times> error option" where
  "Run_schedule interval xs = (if interval \<le> 0 then (0, Some (Error ''collection interval must be positive'')) else schedule xs)"

definition turn_ok :: "turn \<Rightarrow> bool" where
  "turn_ok t \<longleftrightarrow> ok (tn_collected t) \<and> ok (tn_send t) \<and> tn_done t = None"

definition turn_ends :: "turn \<Rightarrow> error \<Rightarrow> bool" where
  "turn_ends t err \<longleftrightarrow> tn_collected t = Inl err \<or> tn_send t = Inl err \<or> tn_done t = Some err"

lemma publish_turns_ok: "turn_ok t \<Longrightarrow> \<exists>s. publish_turns (t # ts) = (case publish_turns ts of (sent, res) \<Rightarrow> (MetricsMsg s # sent, res))"
  by (auto simp: turn_ok_def ok_iff)

lemma publish_turns_bad: "\<not> turn_ok t \<Longrightarrow> \<exists>err. turn_ends t err
    \<and> (publish_turns (t # ts) = ([], Some err) \<or> (\<exists>s. publish_turns (t # ts) = ([MetricsMsg s], Some err)))"
  by (auto simp: turn_ok_def turn_ends_def ok_def split: sum.splits option.splits)

lemma publish_turns_spec: "publish_turns turns = (sent, res) \<Longrightarrow>
    list_all (\<lambda>m. \<exists>s. m = MetricsMsg s) sent
    \<and> (case res of None \<Rightarrow> List.length sent = List.length turns \<and> list_all turn_ok turns
       | Some err \<Rightarrow> \<exists>n < List.length turns. List.length sent \<in> {n, Suc n} \<and> list_all turn_ok (take n turns) \<and> turn_ends (turns ! n) err)"
proof (induction turns arbitrary: sent res)
  case (Cons t ts)
  show ?case
  proof (cases "turn_ok t")
    case True
    obtain sent' res' where r: "publish_turns ts = (sent', res')" by fastforce
    obtain s where s: "sent = MetricsMsg s # sent'" "res = res'"
      using publish_turns_ok [OF True, of ts] Cons.prems r by auto
    show ?thesis
    proof (cases res)
      case None
      then show ?thesis using Cons.IH [OF r] s True by simp
    next
      case (Some err)
      then obtain n where "n < List.length ts" "List.length sent' \<in> {n, Suc n}" "list_all turn_ok (take n ts)" "turn_ends (ts ! n) err"
        using Cons.IH [OF r] s by auto
      then show ?thesis using Some Cons.IH [OF r] s True by (auto intro!: exI [of _ "Suc n"])
    qed
  next
    case False
    then obtain err where "turn_ends t err" "(sent, res) = ([], Some err) \<or> (\<exists>s. (sent, res) = ([MetricsMsg s], Some err))"
      using publish_turns_bad [OF False, of ts] Cons.prems by metis
    then show ?thesis by (auto intro!: exI [of _ 0])
  qed
qed simp

text \<open>The publisher sends one message per turn it completes, never anything else, and stops at the
  first error of collecting or sending or when its context is done, with that error.\<close>

theorem publisher_stops_at_first_error:
  assumes "Publish interval True True turns = (sent, res)" "0 < interval"
  shows "list_all (\<lambda>m. \<exists>s. m = MetricsMsg s) sent
    \<and> (case res of None \<Rightarrow> List.length sent = List.length turns \<and> list_all turn_ok turns
       | Some err \<Rightarrow> \<exists>n < List.length turns. List.length sent \<in> {n, Suc n} \<and> list_all turn_ok (take n turns) \<and> turn_ends (turns ! n) err)"
  using assms by (intro publish_turns_spec) (simp add: Publish_def)

section \<open>Examples\<close>

theorem publisher_stops_at_first_error_witness:
  "\<exists>n < Suc 0. turn_ends ([\<lparr>tn_collected = Inl EOF, tn_send = Inr (), tn_done = None\<rparr>] ! n) EOF"
  using publisher_stops_at_first_error [of 1 "[\<lparr>tn_collected = Inl EOF, tn_send = Inr (), tn_done = None\<rparr>]" "[]" "Some EOF"]
  by (auto simp: Publish_def)

definition demo_meminfo :: string where
  "demo_meminfo = ''MemTotal: 8'' @ [CHR 0x0A] @ ''MemAvailable: 3 kB''"

lemma demo_meminfo: "ParseMeminfo demo_meminfo = Inr \<lparr>mem_total = 8192, mem_available = 3072, mem_used = 5120\<rparr>"
proof -
  have "scan_lines demo_meminfo = ([''MemTotal: 8'', ''MemAvailable: 3 kB''], False)"
    by (simp add: scan_lines_def raw_lines_def demo_meminfo_def drop_cr_def)
  moreover have "Fields ''MemTotal: 8'' = [''MemTotal:'', ''8'']" "Fields ''MemAvailable: 3 kB'' = [''MemAvailable:'', ''3'', ''kB'']"
    "trim_suffix ''MemTotal:'' '':'' = ''MemTotal''" "trim_suffix ''MemAvailable:'' '':'' = ''MemAvailable''" by code_simp+
  ultimately show ?thesis
    by (simp add: ParseMeminfo_def parse_digit is_ascii_digit_def byte_def)
qed

theorem memory_coherent_witness: "unat (5120 :: u64) + unat (3072 :: u64) = unat (8192 :: u64)"
  using memory_coherent [OF demo_meminfo] by simp

theorem tables_bounded_witness:
  "\<exists>out. ParseMounts ''dev /a ext4'' 1 = Inr out \<and> int (List.length out) \<le> 1"
proof -
  have "Fields ''dev /a ext4'' = [''dev'', ''/a'', ''ext4'']" by code_simp
  moreover have "scan_lines ''dev /a ext4'' = ([''dev /a ext4''], False)"
    by (simp add: scan_lines_def raw_lines_def drop_cr_def)
  ultimately obtain out where "ParseMounts ''dev /a ext4'' 1 = Inr out"
    by (simp add: ParseMounts_def IncludeFilesystem_def pseudo_def)
  then show ?thesis using tables_bounded [of _ 1 ] by blast
qed

definition demo_read :: "string \<Rightarrow> bytes result" where
  "demo_read name = (if name = ''proc/stat'' then Inr ''cpu 1 2 3 4 5''
     else if name = ''proc/meminfo'' then Inr demo_meminfo
     else if name = ''proc/loadavg'' then Inr ''1 1 1'' else if name = ''proc/uptime'' then Inr ''1''
     else if name = ''proc/net/dev'' then Inr [] else Inl (External name))"

theorem collect_bounded_witness:
  "\<exists>snapshot inventory. Collect demo_read (\<lambda>s. Inr 0) (\<lambda>c. c) ''amd64'' 4 False 0 = Ret (Inr (snapshot, inventory))
    \<and> 8 \<le> List.length (ms_metrics snapshot)"
proof -
  have "Fields ''cpu 1 2 3 4 5'' = [''cpu'', ''1'', ''2'', ''3'', ''4'', ''5'']" "cut (CHR 0x0A) ''cpu 1 2 3 4 5'' = None"
    "Fields ''1 1 1'' = [''1'', ''1'', ''1'']" "Fields ''1'' = [''1'']" by code_simp+
  moreover from this have "\<exists>cpu. ParseCPU ''cpu 1 2 3 4 5'' = Ret (Inr cpu)"
    by (simp add: ParseCPU_def parse_digit is_ascii_digit_def byte_def)
  moreover have "ParseNetwork [] 4 = Inr []" by (simp add: ParseNetwork_def scan_lines_def raw_lines_def)
  moreover have "\<exists>a b c. ParseLoad (\<lambda>s. Inr 0) ''1 1 1'' = Inr (a, b, c)" "\<exists>u. ParseUptime (\<lambda>s. Inr 0) ''1'' = Inr u"
    using calculation(3,4) by (simp_all add: ParseLoad_def ParseUptime_def)
  ultimately have "\<exists>snapshot inventory. Collect demo_read (\<lambda>s. Inr 0) (\<lambda>c. c) ''amd64'' 4 False 0 = Ret (Inr (snapshot, inventory))"
    by (auto simp: Collect_def demo_read_def demo_meminfo)
  then obtain snapshot inventory where c: "Collect demo_read (\<lambda>s. Inr 0) (\<lambda>c. c) ''amd64'' 4 False 0 = Ret (Inr (snapshot, inventory))"
    by blast
  show ?thesis using collect_bounded [OF c] c by auto
qed

end
