(* ===== verification/MetricsStore.thy ===== *)
theory MetricsStore
  imports Metrics Store "HOL-Library.Char_ord" "HOL-Library.List_Lexorder"
begin

text \<open>
  \<open>internal/metrics/store.go\<close>: how the validator bounds, stores and reads an agent's
  snapshots. \<open>protojson\<close> is a parameter (a marshalling and an unmarshalling function);
  \<open>json.Marshal\<close> of a label map is defined here.
\<close>

section \<open>Label keys\<close>

text \<open>A JSON string as \<open>encoding/json\<close> writes it, for valid UTF-8 text: HTML-sensitive characters and
  the two Unicode line separators are escaped.\<close>

definition hex_nibble :: "nat \<Rightarrow> char" where
  "hex_nibble n = (if n < 10 then char_of (48 + n) else char_of (87 + n))"

definition json_escape :: "char \<Rightarrow> string" where
  "json_escape c = (let n = byte c in
     if n = 0x22 \<or> n = 0x5C then [CHR 0x5C, c]
     else if n = 8 then CHR 0x5C # ''b'' else if n = 12 then CHR 0x5C # ''f''
     else if n = 10 then CHR 0x5C # ''n'' else if n = 13 then CHR 0x5C # ''r'' else if n = 9 then CHR 0x5C # ''t''
     else if n < 32 \<or> n = 0x3C \<or> n = 0x3E \<or> n = 0x26
       then CHR 0x5C # ''u00'' @ [hex_nibble (n div 16), hex_nibble (n mod 16)]
     else [c])"

fun json_chars :: "string \<Rightarrow> string" where
  "json_chars (a # b # c # rest) =
     (if byte a = 0xE2 \<and> byte b = 0x80 \<and> byte c \<in> {0xA8, 0xA9}
      then CHR 0x5C # ''u202'' @ [hex_nibble (byte c - 0xA0)] @ json_chars rest
      else json_escape a @ json_chars (b # c # rest))"
| "json_chars (a # rest) = json_escape a @ json_chars rest"
| "json_chars [] = []"

definition json_string :: "string \<Rightarrow> string" where
  "json_string s = [CHR 0x22] @ json_chars s @ [CHR 0x22]"

definition labelKey :: "(string \<times> string) list option \<Rightarrow> string" where
  "labelKey labels = (case labels of
      None \<Rightarrow> ''null''
    | Some ls \<Rightarrow> ''{'' @ join '','' (map (\<lambda>(k, v). json_string k @ '':'' @ json_string v) (sort_key fst ls)) @ ''}'')"

section \<open>Merging and bounding\<close>

definition metric_key :: "Metric \<Rightarrow> string" where
  "metric_key m = m_name m @ labelKey (m_labels m)"

text \<open>
  \<open>merge\<close>: the values of each key of both snapshots, and the labels last seen under it.
  \<open>order\<close> is the order in which ranging over the map visits its keys, \<open>avg\<close> the
  floating-point mean of the values in order.
\<close>

definition merge_name :: "string \<Rightarrow> string" where
  "merge_name key = (case index_of (CHR ''{'') key of None \<Rightarrow> key | Some i \<Rightarrow> take i key)"

definition merge_values :: "Metric list \<Rightarrow> string \<Rightarrow> float64 list" where
  "merge_values ms key = map m_value (filter (\<lambda>m. metric_key m = key) ms)"

definition merge_labels :: "Metric list \<Rightarrow> string \<Rightarrow> (string \<times> string) list option" where
  "merge_labels ms key = m_labels (last (filter (\<lambda>m. metric_key m = key) ms))"

definition merge :: "(string list \<Rightarrow> string list) \<Rightarrow> (float64 list \<Rightarrow> float64) \<Rightarrow> MetricsSnapshot \<Rightarrow> MetricsSnapshot \<Rightarrow> MetricsSnapshot" where
  "merge order avg a b = (let ms = ms_metrics a @ ms_metrics b in
     \<lparr>ms_sampled = ms_sampled b,
      ms_metrics = map (\<lambda>key. \<lparr>m_name = merge_name key, m_value = avg (merge_values ms key), m_labels = merge_labels ms key\<rparr>)
        (order (remdups (map metric_key ms)))\<rparr>)"

text \<open>\<open>Bound\<close> copies the first metrics, and of each the first labels the map gives.\<close>

definition Bound :: "MetricsSnapshot \<Rightarrow> nat \<Rightarrow> nat \<Rightarrow> MetricsSnapshot" where
  "Bound snapshot maxMetrics maxLabels =
    \<lparr>ms_sampled = ms_sampled snapshot,
     ms_metrics = map (\<lambda>m. \<lparr>m_name = m_name m, m_value = m_value m,
         m_labels = Some (take maxLabels (case m_labels m of None \<Rightarrow> [] | Some ls \<Rightarrow> ls))\<rparr>)
       (take maxMetrics (ms_metrics snapshot))\<rparr>"

section \<open>Storing and reading\<close>

record codec_json =
  pj_marshal :: "MetricsSnapshot \<Rightarrow> bytes result"
  pj_unmarshal :: "bytes \<Rightarrow> MetricsSnapshot result"

text \<open>Go's remainder, which has the sign of the dividend.\<close>

definition go_rem :: "int \<Rightarrow> int \<Rightarrow> int" where
  "go_rem a b = (if a < 0 then - ((- a) mod b) else a mod b)"

definition bucket_of :: "int \<Rightarrow> int" where
  "bucket_of sampled = sampled - go_rem sampled 60000"

text \<open>The two upserts.\<close>

definition upsert_current :: "string \<Rightarrow> int \<Rightarrow> bytes \<Rightarrow> db \<Rightarrow> db \<times> nat" where
  "upsert_current agent sampled payload d =
    (if agent \<in> mc_agent ` set (metrics_current d)
     then (let u = update_rows (\<lambda>r. mc_agent r = agent \<and> mc_sampled r \<le> sampled)
              (\<lambda>r. r\<lparr>mc_sampled := sampled, mc_payload := payload\<rparr>) (metrics_current d)
           in (d\<lparr>metrics_current := fst u\<rparr>, snd u))
     else (d\<lparr>metrics_current := metrics_current d @ [\<lparr>mc_agent = agent, mc_sampled = sampled, mc_payload = payload\<rparr>]\<rparr>, 1))"

definition upsert_minute :: "string \<Rightarrow> int \<Rightarrow> bytes \<Rightarrow> db \<Rightarrow> db \<times> nat" where
  "upsert_minute agent bucket payload d =
    (if (agent, bucket) \<in> (\<lambda>r. (mm_agent r, mm_bucket r)) ` set (metrics_minute d)
     then (let u = update_rows (\<lambda>r. mm_agent r = agent \<and> mm_bucket r = bucket) (\<lambda>r. r\<lparr>mm_payload := payload\<rparr>) (metrics_minute d)
           in (d\<lparr>metrics_minute := fst u\<rparr>, snd u))
     else (d\<lparr>metrics_minute := metrics_minute d @ [\<lparr>mm_agent = agent, mm_bucket = bucket, mm_payload = payload\<rparr>]\<rparr>, 1))"

text \<open>\<open>Store\<close>: statement 0 is BEGIN, 1 the current upsert, 2 the query, 3 the minute upsert, 4 COMMIT.\<close>

definition aggregate :: "codec_json \<Rightarrow> (string list \<Rightarrow> string list) \<Rightarrow> (float64 list \<Rightarrow> float64) \<Rightarrow> MetricsSnapshot \<Rightarrow> MinuteRow result
    \<Rightarrow> MetricsSnapshot result" where
  "aggregate pj order avg snapshot existing = (case existing of
      Inr row \<Rightarrow> (case pj_unmarshal pj (mm_payload row) of
        Inl err \<Rightarrow> Inl err
      | Inr previous \<Rightarrow> Inr (merge order avg previous snapshot))
    | Inl err \<Rightarrow> if err = NoRows then Inr snapshot else Inl err)"

definition Store_metrics :: "codec_json \<Rightarrow> (string list \<Rightarrow> string list) \<Rightarrow> (float64 list \<Rightarrow> float64) \<Rightarrow> env \<Rightarrow> db
    \<Rightarrow> string \<Rightarrow> MetricsSnapshot option \<Rightarrow> db \<times> unit result" where
  "Store_metrics pj order avg e d agent snapshot = (case snapshot of
      None \<Rightarrow> (d, Inl (Error ''agent and snapshot required''))
    | Some s \<Rightarrow>
       if agent = [] then (d, Inl (Error ''agent and snapshot required''))
       else case pj_marshal pj s of
         Inl err \<Rightarrow> (d, Inl err)
       | Inr payload \<Rightarrow>
          if env_db_fails e 0 then (d, Inl StorageFailure)
          else (case sql_exec (env_db_fails e 1) (upsert_current agent (ms_sampled s) payload) d of
            (d1, Inl err) \<Rightarrow> (d, Inl err)
          | (d1, Inr n1) \<Rightarrow>
             (case aggregate pj order avg s (sql_query_row (env_db_fails e 2)
                  (\<lambda>r. mm_agent r = agent \<and> mm_bucket r = bucket_of (ms_sampled s)) (metrics_minute d1)) of
                Inl err \<Rightarrow> (d, Inl err)
              | Inr merged \<Rightarrow> (case pj_marshal pj merged of
                  Inl err \<Rightarrow> (d, Inl err)
                | Inr mpayload \<Rightarrow>
                   (case sql_exec (env_db_fails e 3) (upsert_minute agent (bucket_of (ms_sampled s)) mpayload) d1 of
                      (d2, Inl err) \<Rightarrow> (d, Inl err)
                    | (d2, Inr n2) \<Rightarrow> if env_db_fails e 4 then (d, Inl StorageFailure) else (d2, Inr ()))))))"

definition Current :: "codec_json \<Rightarrow> env \<Rightarrow> db \<Rightarrow> string \<Rightarrow> MetricsSnapshot result" where
  "Current pj e d agent = (case sql_query_row (env_db_fails e 0) (\<lambda>r. mc_agent r = agent) (metrics_current d) of
      Inl err \<Rightarrow> Inl err
    | Inr row \<Rightarrow> pj_unmarshal pj (mc_payload row))"

section \<open>Properties\<close>

text \<open>Bounding keeps the first metrics, with their names and values, at most as many as allowed, and at
  most the allowed number of labels of each; it never leaves the label map nil.\<close>

theorem bound_limits:
  "List.length (ms_metrics (Bound s n k)) \<le> n
   \<and> map (\<lambda>m. (m_name m, m_value m)) (ms_metrics (Bound s n k)) = take n (map (\<lambda>m. (m_name m, m_value m)) (ms_metrics s))
   \<and> list_all (\<lambda>m. \<exists>ls. m_labels m = Some ls \<and> List.length ls \<le> k) (ms_metrics (Bound s n k))
   \<and> ms_sampled (Bound s n k) = ms_sampled s"
  by (simp add: Bound_def take_map list_all_iff comp_def)

lemma index_of_skip: "c \<notin> set s \<Longrightarrow> index_of c (s @ r) = map_option (\<lambda>i. List.length s + i) (index_of c r)"
  by (cases "index_of c r"; induction s) auto

text \<open>Merging recovers a metric's name from its key only when the metric has a label map: the name of
  one with a nil map, as every metric read back from storage without labels is, gets a suffix.\<close>

theorem merge_name_of_key:
  assumes "CHR ''{'' \<notin> set (m_name m)"
  shows "merge_name (metric_key m) = (case m_labels m of None \<Rightarrow> m_name m @ ''null'' | Some ls \<Rightarrow> m_name m)"
  using assms by (simp add: merge_name_def metric_key_def labelKey_def index_of_skip split: option.split)

theorem merge_name_of_key_witness:
  "merge_name (metric_key \<lparr>m_name = ''load_1'', m_value = 0, m_labels = None\<rparr>) = ''load_1null''"
  using merge_name_of_key [of "\<lparr>m_name = ''load_1'', m_value = 0, m_labels = None\<rparr>"] by simp

lemma db_ok_metrics_current:
  assumes "db_ok d" "\<And>r. P r \<Longrightarrow> mc_agent (f r) = mc_agent r"
  shows "db_ok (d\<lparr>metrics_current := map (\<lambda>r. if P r then f r else r) (metrics_current d)\<rparr>)"
proof -
  have k: "mc_agent (if P r then f r else r) = mc_agent r" for r using assms(2) by auto
  then show ?thesis using assms(1) by (simp add: db_ok_def table_ok_defs table_map)
qed

lemma find_current:
  assumes "db_ok d" "r \<in> set (metrics_current d)"
  shows "List.find (\<lambda>x. mc_agent x = mc_agent r) (metrics_current d) = Some r"
proof -
  have "distinct (map mc_agent (metrics_current d))" using assms(1) by (simp add: db_ok_def metrics_ok_def)
  then show ?thesis using assms(2) by (intro find_unique) (auto dest: distinct_map_inj)
qed

lemma upsert_minute_current: "metrics_current (fst (upsert_minute agent bucket payload d)) = metrics_current d"
  by (simp add: upsert_minute_def Let_def)

lemma Store_cases: "case Store_metrics pj order avg e d agent snapshot of (d', res) \<Rightarrow>
    if ok res then (\<exists>s payload bucket mpayload d1 n. snapshot = Some s \<and> agent \<noteq> [] \<and> pj_marshal pj s = Inr payload
      \<and> upsert_current agent (ms_sampled s) payload d = (d1, n) \<and> d' = fst (upsert_minute agent bucket mpayload d1) \<and> db_ok d')
    else d' = d"
  unfolding Store_metrics_def
  by (simp add: sql_exec_Inr split: option.split sum.split prod.split) (metis fst_conv)

lemma upsert_current_row:
  assumes "db_ok d"
  shows "\<exists>r \<in> set (metrics_current (fst (upsert_current agent sampled payload d))). mc_agent r = agent
    \<and> (if \<exists>r0 \<in> set (metrics_current d). mc_agent r0 = agent \<and> mc_sampled r0 > sampled
       then r \<in> set (metrics_current d) \<and> mc_sampled r > sampled
       else mc_sampled r = sampled \<and> mc_payload r = payload)"
proof (cases "agent \<in> mc_agent ` set (metrics_current d)")
  case True
  then obtain r0 where r0: "r0 \<in> set (metrics_current d)" "mc_agent r0 = agent" by auto
  have uniq: "r1 = r0" if "r1 \<in> set (metrics_current d)" "mc_agent r1 = agent" for r1
    using find_current [OF assms that(1)] find_current [OF assms r0(1)] r0(2) that(2) by simp
  let ?P = "\<lambda>r. mc_agent r = agent \<and> mc_sampled r \<le> sampled" and ?f = "\<lambda>r. r\<lparr>mc_sampled := sampled, mc_payload := payload\<rparr>"
  have rows: "metrics_current (fst (upsert_current agent sampled payload d)) = map (\<lambda>r. if ?P r then ?f r else r) (metrics_current d)"
    using True by (simp add: upsert_current_def Let_def)
  have newer: "(\<exists>r1 \<in> set (metrics_current d). mc_agent r1 = agent \<and> mc_sampled r1 > sampled) \<longleftrightarrow> mc_sampled r0 > sampled"
    using uniq r0 by blast
  have mem: "(if ?P r0 then ?f r0 else r0) \<in> set (map (\<lambda>r. if ?P r then ?f r else r) (metrics_current d))"
    unfolding set_map by (rule image_eqI [OF refl r0(1)])
  show ?thesis unfolding rows newer by (rule bexI [OF _ mem]) (use r0 in auto)
next
  case False
  then show ?thesis by (auto simp: upsert_current_def)
qed

text \<open>C40. Storing a snapshot is all or nothing, and the newest snapshot wins: after a success the agent's
  current row is the stored snapshot, unless a strictly newer one was there, which then stays. Reading
  it back gives the stored snapshot, whenever unmarshalling inverts marshalling on it.\<close>

theorem store_newest_wins:
  assumes "db_ok d" "Store_metrics pj order avg e d agent (Some s) = (d', res)"
    "\<And>b. pj_marshal pj s = Inr b \<Longrightarrow> pj_unmarshal pj b = Inr s"
  shows "case res of
      Inl err \<Rightarrow> d' = d
    | Inr u \<Rightarrow> (if \<exists>r0 \<in> set (metrics_current d). mc_agent r0 = agent \<and> mc_sampled r0 > ms_sampled s
        then \<exists>r \<in> set (metrics_current d). mc_agent r = agent \<and> r \<in> set (metrics_current d')
        else \<forall>e2. \<not> env_db_fails e2 0 \<longrightarrow> Current pj e2 d' agent = Inr s)"
proof (cases res)
  case (Inl err)
  then show ?thesis
    using Store_cases [where pj = pj and order = order and avg = avg and e = e and d = d and agent = agent and snapshot = "Some s"] assms(2)
    by simp
next
  case (Inr u)
  then obtain payload bucket mpayload d1 n where m: "pj_marshal pj s = Inr payload"
    "upsert_current agent (ms_sampled s) payload d = (d1, n)" "d' = fst (upsert_minute agent bucket mpayload d1)" "db_ok d'"
    using Store_cases [where pj = pj and order = order and avg = avg and e = e and d = d and agent = agent and snapshot = "Some s"] assms(2)
    by auto
  have cur: "metrics_current d' = metrics_current (fst (upsert_current agent (ms_sampled s) payload d))"
    using m(2,3) upsert_minute_current by simp
  obtain r where r: "r \<in> set (metrics_current d')" "mc_agent r = agent"
    "if \<exists>r0 \<in> set (metrics_current d). mc_agent r0 = agent \<and> mc_sampled r0 > ms_sampled s
     then r \<in> set (metrics_current d) \<and> mc_sampled r > ms_sampled s
     else mc_sampled r = ms_sampled s \<and> mc_payload r = payload"
    using upsert_current_row [OF assms(1), of agent "ms_sampled s" payload] cur by auto
  have f: "List.find (\<lambda>x. mc_agent x = agent) (metrics_current d') = Some r"
    using find_current [OF m(4) r(1)] r(2) by simp
  show ?thesis
  proof (cases "\<exists>r0 \<in> set (metrics_current d). mc_agent r0 = agent \<and> mc_sampled r0 > ms_sampled s")
    case True
    then have "r \<in> set (metrics_current d)" using r(3) by simp
    then show ?thesis using True Inr r(1,2) by auto
  next
    case False
    then have "mc_payload r = payload" using r(3) by (simp only: if_False)
    then have "\<forall>e2. \<not> env_db_fails e2 0 \<longrightarrow> Current pj e2 d' agent = Inr s"
      using f assms(3) [OF m(1)] by (simp add: Current_def sql_query_row_def)
    then show ?thesis using False Inr by (simp only: sum.case if_False)
  qed
qed

section \<open>Examples\<close>

definition toy_pj :: codec_json where
  "toy_pj = \<lparr>pj_marshal = (\<lambda>s. Inr (dec_of_nat (nat (ms_sampled s)))),
     pj_unmarshal = (\<lambda>b. Inr \<lparr>ms_sampled = int (dec_value b), ms_metrics = []\<rparr>)\<rparr>"

definition demo_agents :: db where
  "demo_agents = empty_db\<lparr>agents := [\<lparr>a_id = ''a'', a_serial = None, a_expires = None, a_revoked = None, a_hostname = [],
     a_boot_id = [], a_metadata = [], a_created = 0\<rparr>]\<rparr>"

lemma demo_agents_ok: "db_ok demo_agents"
  by code_simp

theorem store_newest_wins_witness:
  "\<exists>d'. Store_metrics toy_pj (\<lambda>ks. ks) (\<lambda>vs. 0) (calm 0) demo_agents ''a'' (Some \<lparr>ms_sampled = 5, ms_metrics = []\<rparr>) = (d', Inr ())
    \<and> Current toy_pj (calm 0) d' ''a'' = Inr \<lparr>ms_sampled = 5, ms_metrics = []\<rparr>"
proof -
  let ?s = "\<lparr>ms_sampled = 5, ms_metrics = []\<rparr> :: MetricsSnapshot"
  have "ok (snd (Store_metrics toy_pj (\<lambda>ks. ks) (\<lambda>vs. 0) (calm 0) demo_agents ''a'' (Some ?s)))"
    by (simp add: Store_metrics_def toy_pj_def sql_exec_def upsert_current_def upsert_minute_def demo_agents_def empty_db_def
      db_ok_def table_ok_defs unique_opt_def List.map_filter_def refers_def aggregate_def sql_query_row_def bucket_of_def go_rem_def)
  then obtain d' where st: "Store_metrics toy_pj (\<lambda>ks. ks) (\<lambda>vs. 0) (calm 0) demo_agents ''a'' (Some ?s) = (d', Inr ())"
    by (metis ok_iff old.unit.exhaust prod.collapse)
  have inv: "\<And>b. pj_marshal toy_pj ?s = Inr b \<Longrightarrow> pj_unmarshal toy_pj b = Inr ?s" by (auto simp: toy_pj_def)
  have "metrics_current demo_agents = []" by (simp add: demo_agents_def empty_db_def)
  then show ?thesis using store_newest_wins [OF demo_agents_ok st inv] st by simp
qed

end
