(* ===== verification/RegistryService.thy ===== *)
theory RegistryService
  imports ServerJobs MetricsStore Identity
begin

text \<open>
  \<open>internal/registry/service.go\<close>, \<open>persistence.go\<close> and \<open>messages.go\<close>: an agent's stream from
  its TLS identity to its end, what is persisted of it, and what its messages do.
\<close>

section \<open>Identity and errors\<close>

definition certificateIdentity :: "string \<Rightarrow> string result" where
  "certificateIdentity common_name = (if common_name = [] then Inl (Error ''certificate identity missing'') else Inr common_name)"

definition peerCertificateIdentity :: "ctx \<Rightarrow> (string \<times> string) result" where
  "peerCertificateIdentity ctx =
    (if cx_peer ctx = None then Inl (Error ''missing peer'')
     else case cx_certs ctx of
       None \<Rightarrow> Inl (Error ''mTLS certificate required'')
     | Some certs \<Rightarrow> (case certs of
         [] \<Rightarrow> Inl (Error ''mTLS certificate required'')
       | (common_name, serial) # rest \<Rightarrow> (case certificateIdentity common_name of
           Inl err \<Rightarrow> Inl err
         | Inr ident \<Rightarrow> Inr (ident, serial))))"

definition registryStatus :: "error \<Rightarrow> error" where
  "registryStatus err =
    (if err = ErrDuplicateStream then Status AlreadyExists (error_text err)
     else if err = ErrIdentityMismatch then Status Unauthenticated (error_text err)
     else if err = ErrVersionMismatch then Status FailedPrecondition (error_text err)
     else if err = ErrLimitsExceeded then Status ResourceExhausted (error_text err)
     else Status Internal (error_text err))"

section \<open>Persistence\<close>

definition set_hello :: "string \<Rightarrow> AgentHello \<Rightarrow> bytes \<Rightarrow> db \<Rightarrow> db \<times> nat" where
  "set_hello ident hello metadata d =
    (let u = update_rows (\<lambda>r. a_id r = ident)
       (\<lambda>r. r\<lparr>a_hostname := hello_hostname hello, a_boot_id := hello_boot_id hello, a_metadata := metadata\<rparr>) (agents d)
     in (d\<lparr>agents := fst u\<rparr>, snd u))"

definition upsert_connection :: "string \<Rightarrow> int \<Rightarrow> string \<Rightarrow> db \<Rightarrow> db \<times> nat" where
  "upsert_connection ident now stream d =
    (if ident \<in> c_agent ` set (connections d)
     then (let u = update_rows (\<lambda>r. c_agent r = ident)
              (\<lambda>r. r\<lparr>c_connected := Some now, c_disconnected := None, c_stream := Some stream, c_state := ''online''\<rparr>) (connections d)
           in (d\<lparr>connections := fst u\<rparr>, snd u))
     else (d\<lparr>connections := connections d @ [\<lparr>c_agent = ident, c_connected = Some now, c_disconnected = None,
              c_stream = Some stream, c_state = ''online''\<rparr>]\<rparr>, 1))"

text \<open>\<open>Online\<close>: the four statements are numbered from \<open>k\<close>; \<open>marshal\<close> is \<open>json.Marshal\<close>.\<close>

definition Online :: "(AgentHello \<Rightarrow> bytes result) \<Rightarrow> env \<Rightarrow> nat \<Rightarrow> db \<Rightarrow> string \<Rightarrow> string \<Rightarrow> AgentHello \<Rightarrow> time \<Rightarrow> db \<times> unit result" where
  "Online marshal e k d agent stream hello now = (case marshal hello of
      Inl err \<Rightarrow> (d, Inl err)
    | Inr metadata \<Rightarrow>
       if env_db_fails e k then (d, Inl StorageFailure)
       else (case sql_exec (env_db_fails e (k + 1)) (set_hello agent hello metadata) d of
         (d1, Inl err) \<Rightarrow> (d, Inl err)
       | (d1, Inr n1) \<Rightarrow> (case sql_exec (env_db_fails e (k + 2)) (upsert_connection agent (unix_milli now) stream) d1 of
           (d2, Inl err) \<Rightarrow> (d, Inl err)
         | (d2, Inr n2) \<Rightarrow> if env_db_fails e (k + 3) then (d, Inl StorageFailure) else (d2, Inr ()))))"

definition set_offline :: "(ConnRow \<Rightarrow> bool) \<Rightarrow> int \<Rightarrow> db \<Rightarrow> db \<times> nat" where
  "set_offline P now d =
    (let u = update_rows P (\<lambda>r. r\<lparr>c_disconnected := Some now, c_state := ''offline''\<rparr>) (connections d)
     in (d\<lparr>connections := fst u\<rparr>, snd u))"

definition Offline :: "env \<Rightarrow> nat \<Rightarrow> db \<Rightarrow> string \<Rightarrow> string \<Rightarrow> time \<Rightarrow> db \<times> unit result" where
  "Offline e k d agent stream now = (case sql_exec (env_db_fails e k)
      (set_offline (\<lambda>r. c_agent r = agent \<and> c_stream r = Some stream) (unix_milli now)) d of
     (d', Inl err) \<Rightarrow> (d', Inl err) | (d', Inr n) \<Rightarrow> (d', Inr ()))"

definition MarkAllOffline :: "env \<Rightarrow> db \<Rightarrow> time \<Rightarrow> db \<times> unit result" where
  "MarkAllOffline e d now = (case sql_exec (env_db_fails e 0)
      (set_offline (\<lambda>r. c_state r = ''online'') (unix_milli now)) d of
     (d', Inl err) \<Rightarrow> (d', Inl err) | (d', Inr n) \<Rightarrow> (d', Inr ()))"

section \<open>Messages from agents\<close>

definition set_result :: "string \<Rightarrow> JobResult \<Rightarrow> db \<Rightarrow> db \<times> nat" where
  "set_result agent res d =
    (let u = update_rows (\<lambda>r. j_id r = jr_job res \<and> j_agent r = agent \<and> j_dispatch r = Some (jr_dispatch res)
           \<and> j_attempt r = int (unat (jr_attempt res)) \<and> j_state r \<in> {2, 3})
         (\<lambda>r. r\<lparr>j_state := jr_state res, j_output := Some (jr_output res), j_truncated := jr_truncated res\<rparr>) (jobs d)
     in (d\<lparr>jobs := fst u\<rparr>, snd u))"

text \<open>
  What the handler was built with: whether it has a database, the metrics repository's codec with
  its map order and mean, and the SSH manager through the service's state. Statement 0 is the
  job's update; the others are those of the operation called.
\<close>

record handler =
  hd_db :: bool
  hd_metrics :: "(codec_json \<times> (string list \<Rightarrow> string list) \<times> (float64 list \<Rightarrow> float64)) option"

definition Handle :: "handler \<Rightarrow> env \<Rightarrow> fleet \<Rightarrow> string \<Rightarrow> AgentMessage option \<Rightarrow> fleet \<times> unit result" where
  "Handle h e s agent message = (case message of
      None \<Rightarrow> (s, Inl (Error ''message required''))
    | Some (HeartbeatMsg t) \<Rightarrow> (s, Inr ())
    | Some (MetricsMsg sample) \<Rightarrow> (case hd_metrics h of
        None \<Rightarrow> (s, Inl (Error ''metrics unavailable''))
      | Some (pj, order, avg) \<Rightarrow>
         (case Store_metrics pj order avg e (fl_db s) agent (Some (Bound sample (unat (MaxMetrics DefaultLimits))
              (unat (MaxLabelsPerMetric DefaultLimits)))) of (d', res) \<Rightarrow> (s\<lparr>fl_db := d'\<rparr>, res)))
    | Some (SshReadyMsg ready) \<Rightarrow> (case fl_ssh s of
        None \<Rightarrow> (s, Inl (Error ''SSH unavailable''))
      | Some m \<Rightarrow> (case Ready e m (fl_db s) (sr_session ready) (sr_port ready) (sr_token ready) (sr_host_key ready) of
          (m', d', res) \<Rightarrow> (s\<lparr>fl_db := d', fl_ssh := Some m'\<rparr>, case res of Inl err \<Rightarrow> Inl err | Inr v \<Rightarrow> Inr ())))
    | Some (JobResultMsg res) \<Rightarrow>
        if \<not> hd_db h then (s, Inl (Error ''storage unavailable''))
        else (case sql_exec (env_db_fails e 0) (set_result agent res) (fl_db s) of
            (d', Inl err) \<Rightarrow> (s\<lparr>fl_db := d'\<rparr>, Inl err)
          | (d', Inr n) \<Rightarrow> if n \<noteq> 1 then (s\<lparr>fl_db := d'\<rparr>, Inl (Error ''unknown or stale job result''))
              else (s\<lparr>fl_db := d'\<rparr>, Inr ()))
    | Some _ \<Rightarrow> (s, Inr ()))"

section \<open>The agent's stream\<close>

text \<open>
  What the service was built with. A stream opens in \<open>Connect_open\<close>, which runs up to the
  sending of the connection state; the clock readings are: 0 for the authorization, 1 for
  acquiring, 2 and 5 for the deferred release and going offline (whose arguments Go evaluates at
  the defer statement), 3 for the stream's id, 4 for going online. Authorization uses statement 0,
  going online statements 1 to 4.
\<close>

record agent_server =
  as_persistence :: bool
  as_authorize :: "(env \<Rightarrow> db \<Rightarrow> string \<Rightarrow> string \<Rightarrow> time \<Rightarrow> unit result) option"
  as_handler :: "handler option"
  as_marshal :: "AgentHello \<Rightarrow> bytes result"

record stream =
  st_agent :: string
  st_session :: nat
  st_stream :: string
  st_release_at :: time
  st_offline_at :: time
  st_state :: ConnectionState

definition stream_id :: "string \<Rightarrow> time \<Rightarrow> string" where
  "stream_id certID now = certID @ ''-'' @ dec_of_int now"

definition hello_of :: "AgentMessage \<Rightarrow> AgentHello option" where
  "hello_of m = (case m of HelloMsg h \<Rightarrow> Some h | _ \<Rightarrow> None)"

text \<open>Leaving through the deferred calls, last deferred first; \<open>Offline\<close>'s error is dropped.\<close>

definition Connect_close :: "agent_server \<Rightarrow> env \<Rightarrow> nat \<Rightarrow> fleet \<Rightarrow> stream \<Rightarrow> fleet \<times> unit outcome" where
  "Connect_close a e k s st =
    (let s' = (if as_persistence a
        then s\<lparr>fl_db := fst (Offline e k (fl_db s) (st_agent st) (st_stream st) (st_offline_at st))\<rparr> else s)
     in case fl_registry s' of
       None \<Rightarrow> (s', Panic ''nil registry'')
     | Some r \<Rightarrow> (case Release r (st_session st) (st_release_at st) of
         Panic p \<Rightarrow> (s', Panic p)
       | Ret r' \<Rightarrow> (s'\<lparr>fl_registry := Some r'\<rparr>, Ret ())))"

definition Connect_open :: "agent_server \<Rightarrow> env \<Rightarrow> fleet \<Rightarrow> ctx \<Rightarrow> AgentMessage result \<Rightarrow> fleet \<times> stream result outcome" where
  "Connect_open a e s ctx received = (case fl_registry s of
      None \<Rightarrow> (s, Ret (Inl (Status FailedPrecondition ''registry unavailable'')))
    | Some r \<Rightarrow> (case peerCertificateIdentity ctx of
        Inl err \<Rightarrow> (s, Ret (Inl (Status Unauthenticated (error_text err))))
      | Inr (certID, serial) \<Rightarrow>
         (case (case as_authorize a of None \<Rightarrow> Inr () | Some f \<Rightarrow> f e (fl_db s) certID serial (env_clock e 0)) of
            Inl err \<Rightarrow> (s, Ret (Inl (Status PermissionDenied ''agent certificate rejected'')))
          | Inr u \<Rightarrow> (case received of
              Inl err \<Rightarrow> (s, Ret (Inl err))
            | Inr first \<Rightarrow> (case hello_of first of
                None \<Rightarrow> (s, Ret (Inl (Status InvalidArgument ''first message must be hello'')))
              | Some hello \<Rightarrow> (case Acquire r certID (hello_agent_id hello) (Some hello) (env_clock e 1) of
                  (r1, Inl err) \<Rightarrow> (s\<lparr>fl_registry := Some r1\<rparr>, Ret (Inl (registryStatus err)))
                | (r1, Inr (g, state)) \<Rightarrow>
                   (let s1 = s\<lparr>fl_registry := Some r1\<rparr>;
                        st = \<lparr>st_agent = certID, st_session = g, st_stream = stream_id certID (env_clock e 3),
                          st_release_at = env_clock e 2, st_offline_at = env_clock e 5, st_state = state\<rparr>
                    in if as_persistence a then
                         (case Online (as_marshal a) e 1 (fl_db s1) certID (st_stream st) hello (env_clock e 4) of
                            (d', Inl err) \<Rightarrow>
                              (case Connect_close (a\<lparr>as_persistence := False\<rparr>) e 0 (s1\<lparr>fl_db := d'\<rparr>) st of
                                 (s2, Panic p) \<Rightarrow> (s2, Panic p)
                               | (s2, Ret u) \<Rightarrow> (s2, Ret (Inl (Status Unavailable ''persist connection''))))
                          | (d', Inr u) \<Rightarrow> (s1\<lparr>fl_db := d'\<rparr>, Ret (Inr st)))
                       else (s1, Ret (Inr st)))))))))"

text \<open>
  Once open, the stream's two goroutines interleave: a message from the agent is handled, or the
  oldest queued message is sent. Either may end the stream; then the deferred calls run.
\<close>

datatype stream_event =
    Incoming env "AgentMessage result"
  | Outgoing "unit result"

definition stream_step :: "agent_server \<Rightarrow> stream \<Rightarrow> stream_event \<Rightarrow> fleet \<Rightarrow> fleet \<times> unit result option" where
  "stream_step a st ev s = (case ev of
      Incoming e (Inl err) \<Rightarrow> (s, Some (if err = EOF then Inr () else Inl err))
    | Incoming e (Inr m) \<Rightarrow>
       (let s1 = (case m of HeartbeatMsg t \<Rightarrow>
              s\<lparr>fl_registry := map_option (\<lambda>r. Heartbeat r (st_session st) (env_clock e 0)) (fl_registry s)\<rparr> | _ \<Rightarrow> s)
        in case as_handler a of
          None \<Rightarrow> (s1, None)
        | Some h \<Rightarrow> (case Handle h e s1 (st_agent st) (Some m) of
            (s2, Inl err) \<Rightarrow> (s2, Some (Inl err))
          | (s2, Inr u) \<Rightarrow> (s2, None)))
    | Outgoing sent \<Rightarrow> (case fl_registry s of
        None \<Rightarrow> (s, None)
      | Some r \<Rightarrow> (case Receive r (st_session st) of
          (r', Some m) \<Rightarrow> (s\<lparr>fl_registry := Some r'\<rparr>, case sent of Inl err \<Rightarrow> Some (Inl err) | Inr u \<Rightarrow> None)
        | (r', None) \<Rightarrow> (s, if (case rg_sessions r (st_session st) of None \<Rightarrow> False | Some se \<Rightarrow> se_closed se)
            then Some (Inr ()) else None))))"

fun stream_run :: "agent_server \<Rightarrow> stream \<Rightarrow> stream_event list \<Rightarrow> fleet \<Rightarrow> fleet \<times> unit result option" where
  "stream_run a st [] s = (s, None)"
| "stream_run a st (ev # evs) s = (case stream_step a st ev s of
      (s', Some res) \<Rightarrow> (s', Some res)
    | (s', None) \<Rightarrow> stream_run a st evs s')"

text \<open>\<open>Connect\<close> up to its return: the opening, the send of the state, the events, the deferred calls
  (whose statement is 9). With no result the stream is still open.\<close>

definition Connect :: "agent_server \<Rightarrow> env \<Rightarrow> fleet \<Rightarrow> ctx \<Rightarrow> AgentMessage result \<Rightarrow> unit result \<Rightarrow> stream_event list
    \<Rightarrow> fleet \<times> unit result outcome option" where
  "Connect a e s ctx received sent evs = (case Connect_open a e s ctx received of
      (s1, Panic p) \<Rightarrow> (s1, Some (Panic p))
    | (s1, Ret (Inl err)) \<Rightarrow> (s1, Some (Ret (Inl err)))
    | (s1, Ret (Inr st)) \<Rightarrow>
       (case (case sent of Inl err \<Rightarrow> (s1, Some (Inl err)) | Inr u \<Rightarrow> stream_run a st evs s1) of
          (s2, None) \<Rightarrow> (s2, None)
        | (s2, Some res) \<Rightarrow> (case Connect_close a e 9 s2 st of
            (s3, Panic p) \<Rightarrow> (s3, Some (Panic p))
          | (s3, Ret u) \<Rightarrow> (s3, Some (Ret res)))))"

text \<open>\<open>OpenTunnel\<close> up to the wait in \<open>Attach\<close>, whose steps the tunnel's theory has.\<close>

definition OpenTunnel :: "fleet \<Rightarrow> ctx \<Rightarrow> TunnelFrame result \<Rightarrow> (string \<times> nat) result" where
  "OpenTunnel s ctx received = (case fl_relay s of
      None \<Rightarrow> Inl (Status FailedPrecondition ''relay unavailable'')
    | Some relay \<Rightarrow> (case peerCertificateIdentity ctx of
        Inl err \<Rightarrow> Inl (Status Unauthenticated (error_text err))
      | Inr _ \<Rightarrow> (case received of
          Inl err \<Rightarrow> Inl err
        | Inr first \<Rightarrow>
           if tf_session first = [] \<or> tf_token first = [] then Inl (Status InvalidArgument ''first frame must carry session id and token'')
           else (case Attach_check relay (tf_session first) (tf_token first) of
             Inl err \<Rightarrow> Inl (Status PermissionDenied (error_text err))
           | Inr p \<Rightarrow> Inr (tf_session first, p)))))"

section \<open>Who may open a stream\<close>

lemma peerCertificateIdentity_Inr: "peerCertificateIdentity ctx = Inr (ident, serial) \<longleftrightarrow>
    cx_peer ctx \<noteq> None \<and> ident \<noteq> [] \<and> (\<exists>rest. cx_certs ctx = Some ((ident, serial) # rest))"
  by (auto simp: peerCertificateIdentity_def certificateIdentity_def split: option.splits list.splits if_splits)

lemma Connect_open_Inr: "case Connect_open a e s ctx received of (s', x) \<Rightarrow> (case x of
    Ret (Inr st) \<Rightarrow> (\<exists>r certID serial hello r1 g state. fl_registry s = Some r \<and> peerCertificateIdentity ctx = Inr (certID, serial)
      \<and> (\<forall>f. as_authorize a = Some f \<longrightarrow> f e (fl_db s) certID serial (env_clock e 0) = Inr ())
      \<and> received = Inr (HelloMsg hello)
      \<and> Acquire r certID (hello_agent_id hello) (Some hello) (env_clock e 1) = (r1, Inr (g, state))
      \<and> fl_registry s' = Some r1
      \<and> st = \<lparr>st_agent = certID, st_session = g, st_stream = stream_id certID (env_clock e 3),
                st_release_at = env_clock e 2, st_offline_at = env_clock e 5, st_state = state\<rparr>)
  | _ \<Rightarrow> True)"
proof -
  have hello: "hello_of m = Some h \<Longrightarrow> m = HelloMsg h" for m h
    by (cases m) (simp_all add: hello_of_def)
  have unit: "(case as_authorize a of None \<Rightarrow> Inr () | Some f \<Rightarrow> f e d c se t) = Inr (u :: unit) \<Longrightarrow>
      \<forall>f. as_authorize a = Some f \<longrightarrow> f e d c se t = Inr ()" for d c se t u
    by (cases "as_authorize a") auto
  show ?thesis
    unfolding Connect_open_def Let_def
    by (auto split: option.split sum.split prod.split outcome.split dest: hello unit)
qed

text \<open>C11. A stream opens only for the agent its TLS certificate names: the certificate was authorized, the
  hello names the same agent, no other stream of that agent was online, and now the agent is online
  with this stream's session.\<close>

theorem connect_authenticated:
  assumes "Connect_open a e s ctx received = (s', Ret (Inr st))"
  shows "\<exists>serial rest h. cx_certs ctx = Some ((st_agent st, serial) # rest) \<and> st_agent st \<noteq> []
    \<and> received = Inr (HelloMsg h) \<and> hello_agent_id h = st_agent st
    \<and> (\<forall>f. as_authorize a = Some f \<longrightarrow> f e (fl_db s) (st_agent st) serial (env_clock e 0) = Inr ())
    \<and> (\<exists>r r'. fl_registry s = Some r \<and> fl_registry s' = Some r'
        \<and> \<not> (\<exists>en. rg_entries r (st_agent st) = Some en \<and> en_online en)
        \<and> (\<exists>en. rg_entries r' (st_agent st) = Some en \<and> en_online en \<and> en_session en = Some (st_session st)))"
proof -
  obtain r certID serial hello r1 g state where o: "fl_registry s = Some r" "peerCertificateIdentity ctx = Inr (certID, serial)"
    "\<forall>f. as_authorize a = Some f \<longrightarrow> f e (fl_db s) certID serial (env_clock e 0) = Inr ()"
    "received = Inr (HelloMsg hello)" "Acquire r certID (hello_agent_id hello) (Some hello) (env_clock e 1) = (r1, Inr (g, state))"
    "fl_registry s' = Some r1" "st_agent st = certID" "st_session st = g"
    using Connect_open_Inr [where a = a and e = e and s = s and ctx = ctx and received = received] assms by auto
  show ?thesis
    using o Acquire_cases [where r = r and certID = certID and helloID = "hello_agent_id hello" and hello = "Some hello"
        and now = "env_clock e 1"]
    by (auto simp: peerCertificateIdentity_Inr)
qed

section \<open>How a stream ends\<close>

lemma set_offline_rows: "connections (fst (sql_exec f (set_offline P now) d)) = connections d
    \<or> connections (fst (sql_exec f (set_offline P now) d)) = map (\<lambda>r. if P r
        then r\<lparr>c_disconnected := Some now, c_state := ''offline''\<rparr> else r) (connections d)"
  by (auto simp: sql_exec_def set_offline_def Let_def)

lemma db_ok_offline: "db_ok d \<Longrightarrow> db_ok (fst (set_offline P now d))"
proof -
  assume ok: "db_ok d"
  let ?g = "\<lambda>r. if P r then r\<lparr>c_disconnected := Some now, c_state := ''offline''\<rparr> else r"
  have "c_agent (?g r) = c_agent r" "c_stream (?g r) = c_stream r" for r by auto
  then show ?thesis using ok by (simp add: set_offline_def Let_def db_ok_def table_ok_defs table_map)
qed

text \<open>Whenever and however a stream ends, the time recorded for its end, in the database and in the
  registry, is a clock reading made while it was being opened: the deferred calls' arguments are
  evaluated at the defer statements. The connection of a stream that lasted a year is recorded as
  ended when it began.\<close>

theorem disconnect_time_is_connect_time:
  assumes "Connect_open a e s ctx received = (s1, Ret (Inr st))" "as_persistence a"
    "db_ok (fl_db s2)" "fl_registry s2 = Some r2" "rg_sessions r2 (st_session st) = Some se"
    "\<not> se_released se" "\<not> se_closed se" "se_agent se = st_agent st"
    "rg_entries r2 (st_agent st) = Some en" "en_generation en = st_session st" "\<not> env_db_fails e2 k"
  shows "\<exists>s3 r3. Connect_close a e2 k s2 st = (s3, Ret ())
    \<and> connections (fl_db s3) = map (\<lambda>c. if c_agent c = st_agent st \<and> c_stream c = Some (st_stream st)
        then c\<lparr>c_disconnected := Some (unix_milli (env_clock e 5)), c_state := ''offline''\<rparr> else c) (connections (fl_db s2))
    \<and> fl_registry s3 = Some r3 \<and> rg_entries r3 (st_agent st) = Some (en\<lparr>en_online := False, en_last_seen := env_clock e 2\<rparr>)"
proof -
  have t: "st_offline_at st = env_clock e 5" "st_release_at st = env_clock e 2"
    using Connect_open_Inr [where a = a and e = e and s = s and ctx = ctx and received = received] assms(1) by auto
  let ?P = "\<lambda>r. c_agent r = st_agent st \<and> c_stream r = Some (st_stream st)"
  have "db_ok (fst (set_offline ?P (unix_milli (env_clock e 5)) (fl_db s2)))" using assms(3) by (rule db_ok_offline)
  then have off: "fst (Offline e2 k (fl_db s2) (st_agent st) (st_stream st) (st_offline_at st))
      = fst (set_offline ?P (unix_milli (env_clock e 5)) (fl_db s2))"
    using assms(11) t by (simp add: Offline_def sql_exec_def split_beta)
  obtain r3 where rel: "Release r2 (st_session st) (env_clock e 2) = Ret r3"
    "rg_entries r3 (st_agent st) = Some (en\<lparr>en_online := False, en_last_seen := env_clock e 2\<rparr>)"
    using assms(5-10) by (simp add: Release_def close_queue_def release_def)
  show ?thesis
    using assms(2,4) off rel t by (simp add: Connect_close_def Let_def set_offline_def)
qed

section \<open>Results of jobs\<close>

lemma db_ok_result: "db_ok d \<Longrightarrow> db_ok (fst (set_result agent res d))"
  using db_ok_update_jobs [where d = d and P = "\<lambda>r. j_id r = jr_job res \<and> j_agent r = agent \<and> j_dispatch r = Some (jr_dispatch res)
           \<and> j_attempt r = int (unat (jr_attempt res)) \<and> j_state r \<in> {2, 3}"
      and f = "\<lambda>r. r\<lparr>j_state := jr_state res, j_output := Some (jr_output res), j_truncated := jr_truncated res\<rparr>"]
  by (simp add: set_result_def Let_def)

text \<open>A job's result is accepted from an agent only for a job of that agent which is dispatched or
  running, under the job's dispatch id and attempt; it then replaces that job's state and output and
  nothing else. Any other result is refused and changes nothing.\<close>

theorem job_result_matched:
  assumes "db_ok (fl_db s)" "hd_db h" "\<not> env_db_fails e 0"
  shows "case Handle h e s agent (Some (JobResultMsg res)) of (s', out) \<Rightarrow>
    if \<exists>row \<in> set (jobs (fl_db s)). j_id row = jr_job res \<and> j_agent row = agent \<and> j_dispatch row = Some (jr_dispatch res)
         \<and> j_attempt row = int (unat (jr_attempt res)) \<and> j_state row \<in> {2, 3}
    then out = Inr () \<and> s' = s\<lparr>fl_db := (fl_db s)\<lparr>jobs := map (\<lambda>row. if j_id row = jr_job res
        then row\<lparr>j_state := jr_state res, j_output := Some (jr_output res), j_truncated := jr_truncated res\<rparr> else row) (jobs (fl_db s))\<rparr>\<rparr>
    else out = Inl (Error ''unknown or stale job result'') \<and> s' = s"
proof -
  let ?P = "\<lambda>r. j_id r = jr_job res \<and> j_agent r = agent \<and> j_dispatch r = Some (jr_dispatch res)
      \<and> j_attempt r = int (unat (jr_attempt res)) \<and> j_state r \<in> {2, 3}"
  let ?f = "\<lambda>r. r\<lparr>j_state := jr_state res, j_output := Some (jr_output res), j_truncated := jr_truncated res\<rparr>"
  have d: "distinct (map j_id (jobs (fl_db s)))" using assms(1) by (simp add: db_ok_def jobs_ok_def)
  have ok: "db_ok (fst (set_result agent res (fl_db s)))" using assms(1) by (rule db_ok_result)
  have ex: "sql_exec (env_db_fails e 0) (set_result agent res) (fl_db s) = (fst (set_result agent res (fl_db s)), Inr (snd (set_result agent res (fl_db s))))"
    using ok assms(3) by (simp add: sql_exec_def split_beta)
  show ?thesis
  proof (cases "\<exists>row \<in> set (jobs (fl_db s)). ?P row")
    case True
    then obtain row where row: "row \<in> set (jobs (fl_db s))" "?P row" by blast
    have uniq: "r = row" if "r \<in> set (jobs (fl_db s))" "j_id r = jr_job res" for r
      using distinct_map_inj [OF d that(1) row(1)] row(2) that(2) by simp
    have "List.length (filter ?P (jobs (fl_db s))) = 1"
      using row by (intro length_filter_unique [OF d row(1)]) auto
    moreover have "map (\<lambda>r. if ?P r then ?f r else r) (jobs (fl_db s)) = map (\<lambda>r. if j_id r = jr_job res then ?f r else r) (jobs (fl_db s))"
      using uniq row(2) by (intro map_cong refl) metis
    ultimately show ?thesis using True ex assms(2) by (simp add: Handle_def set_result_def Let_def)
  next
    case False
    then have "(if ?P r then ?f r else r) = r" if "r \<in> set (jobs (fl_db s))" for r using that by auto
    then have "map (\<lambda>r. if ?P r then ?f r else r) (jobs (fl_db s)) = jobs (fl_db s)" by (rule map_idI)
    moreover have "filter ?P (jobs (fl_db s)) = []" using False by (auto simp: filter_empty_conv)
    ultimately show ?thesis using False ex assms(2) by (simp add: Handle_def set_result_def Let_def)
  qed
qed

section \<open>The life of a job\<close>

lemma Store_jobs: "jobs (fst (Store_metrics pj order avg e d agent sample)) = jobs d"
  unfolding Store_metrics_def
  by (auto simp: sql_exec_def upsert_current_def upsert_minute_def Let_def split: option.split sum.split prod.split if_split_asm)

lemma Ready_jobs: "jobs (fst (snd (Ready e m d ident port token hostKey))) = jobs d"
  by (auto simp: Ready_def sql_exec_def mark_ready_def Let_def split: option.split sum.split prod.split)

lemma Ready_db_ok: "db_ok d \<Longrightarrow> db_ok (fst (snd (Ready e m d ident port token hostKey)))"
  using sql_exec_ok [of d "env_db_fails e 0" "mark_ready ident hostKey (unix_milli (env_clock e 0))"]
  by (auto simp: Ready_def split: option.split sum.split prod.split)

lemma Store_db_ok: "db_ok d \<Longrightarrow> db_ok (fst (Store_metrics pj order avg e d agent sample))"
  using Store_cases [where pj = pj and order = order and avg = avg and e = e and d = d and agent = agent and snapshot = sample]
  by (cases "Store_metrics pj order avg e d agent sample") (auto split: if_splits)

lemma Handle_db_ok: "db_ok (fl_db s) \<Longrightarrow> db_ok (fl_db (fst (Handle h e s agent message)))"
proof -
  assume ok: "db_ok (fl_db s)"
  have "db_ok (fst (sql_exec f (set_result agent res) (fl_db s)))" for f res using ok by (rule sql_exec_ok)
  then show ?thesis
    using ok Store_db_ok [OF ok] Ready_db_ok [OF ok]
    by (cases "the message") (auto simp: Handle_def split: option.split prod.split sum.split, (metis fst_conv snd_conv)+)
qed

lemma Handle_jobs: "jobs (fl_db (fst (Handle h e s agent message))) = jobs (fl_db s)
    \<or> (\<exists>P f. (\<forall>r. P r \<longrightarrow> j_state r \<in> {2, 3}) \<and> jobs (fl_db (fst (Handle h e s agent message)))
        = map (\<lambda>r. if P r then f r else r) (jobs (fl_db s)))"
proof (cases "\<exists>res. message = Some (JobResultMsg res)")
  case True
  then obtain res where m: "message = Some (JobResultMsg res)" by blast
  let ?P = "\<lambda>r. j_id r = jr_job res \<and> j_agent r = agent \<and> j_dispatch r = Some (jr_dispatch res)
      \<and> j_attempt r = int (unat (jr_attempt res)) \<and> j_state r \<in> {2, 3}"
  let ?f = "\<lambda>r. r\<lparr>j_state := jr_state res, j_output := Some (jr_output res), j_truncated := jr_truncated res\<rparr>"
  have "jobs (fl_db (fst (Handle h e s agent message))) \<in> {jobs (fl_db s), map (\<lambda>r. if ?P r then ?f r else r) (jobs (fl_db s))}"
    by (simp add: m Handle_def sql_exec_def set_result_def Let_def)
  then show ?thesis
  proof (elim insertE emptyE)
    assume eq: "jobs (fl_db (fst (Handle h e s agent message))) = map (\<lambda>r. if ?P r then ?f r else r) (jobs (fl_db s))"
    show ?thesis by (rule disjI2) (rule exI [of _ ?P], rule exI [of _ ?f], simp add: eq)
  qed simp
next
  case False
  have "jobs (fl_db (fst (Handle h e s agent message))) = jobs (fl_db s)"
  proof (cases message)
    case (Some m)
    then show ?thesis using False Store_jobs Ready_jobs
      by (cases m) (auto simp: Handle_def split: option.split prod.split sum.split, (metis fst_conv snd_conv)+)
  qed (simp add: Handle_def)
  then show ?thesis by blast
qed

inductive job_world :: "fleet \<Rightarrow> fleet \<Rightarrow> bool" where
  safe: "job_world s (fst (submitSafe md e cancelled s ctx request operation kind))"
| unsafe: "job_world s (fst (submitUnsafe md e cancelled s ctx request unsafe kind adminOnly))"
| cancel: "job_world s (fst (CancelJob e cancelled s ident reason deadline))"
| message: "job_world s (fst (Handle h e s agent m))"

lemma job_row_kept:
  assumes "job_world s s'" "db_ok (fl_db s)" "row \<in> set (jobs (fl_db s))" "j_state row \<notin> {2, 3}"
  shows "db_ok (fl_db s') \<and> row \<in> set (jobs (fl_db s'))"
  using assms(1)
proof cases
  case (safe md e cancelled ctx request operation kind)
  then show ?thesis using submitSafe_ok [OF assms(2)] submitSafe_effect [OF assms(2), of ctx request kind md e cancelled operation] assms(3)
    by (auto simp: submit_effect_def split: prod.splits)
next
  case (unsafe md e cancelled ctx request unsafe kind adminOnly)
  then show ?thesis using submitUnsafe_ok [OF assms(2)]
      submitUnsafe_effect [OF assms(2), of ctx request kind md e cancelled unsafe adminOnly] assms(3)
    by (auto simp: submit_effect_def split: prod.splits)
next
  case (cancel e cancelled ident reason deadline)
  have "fl_db s' = fl_db s \<or> fl_db s' = fst (set_job_state ident (\<lambda>st. st \<in> {2, 3}) JOB_CANCELLED (fl_db s))"
    using cancel CancelJob_db [where e = e and cancelled = cancelled and s = s and ident = ident and reason = reason and deadline = deadline]
    by (auto simp: split_beta)
  moreover have "row \<in> set (jobs (fst (set_job_state ident (\<lambda>st. st \<in> {2, 3}) JOB_CANCELLED (fl_db s))))"
    using assms(3,4) by (force simp: set_job_state_def Let_def image_iff)
  ultimately show ?thesis using assms(2,3) set_job_state_ok [OF assms(2)] by auto
next
  case (message h e agent m)
  have "row \<in> set (jobs (fl_db s'))"
    using Handle_jobs [of h e s agent m] assms(3,4) message by (force simp: image_iff)
  then show ?thesis using message Handle_db_ok [OF assms(2)] by simp
qed

text \<open>C13. A job that is neither dispatched nor running is settled: no later submission, cancellation or
  agent message, in whatever order, ever changes its record again.\<close>

theorem settled_job_final:
  assumes "job_world\<^sup>*\<^sup>* s s'" "db_ok (fl_db s)" "row \<in> set (jobs (fl_db s))" "j_state row \<notin> {2, 3}"
  shows "row \<in> set (jobs (fl_db s'))"
proof -
  have "db_ok (fl_db s') \<and> row \<in> set (jobs (fl_db s'))"
    using assms(1) by (induction rule: rtranclp_induct) (use assms(2-4) job_row_kept in blast)+
  then show ?thesis by blast
qed

section \<open>Examples\<close>

definition demo_server :: agent_server where
  "demo_server = \<lparr>as_persistence = True, as_authorize = Some (\<lambda>e d ident serial now. AuthorizeConnection e 0 d ident serial now),
     as_handler = Some \<lparr>hd_db = True, hd_metrics = None\<rparr>, as_marshal = (\<lambda>h. Inr (hello_hostname h))\<rparr>"

definition demo_known :: db where
  "demo_known = empty_db\<lparr>agents := [\<lparr>a_id = ''a'', a_serial = Some ''1f'', a_expires = Some 1000, a_revoked = None,
     a_hostname = [], a_boot_id = [], a_metadata = [], a_created = 0\<rparr>]\<rparr>"

definition demo_start :: fleet where
  "demo_start = \<lparr>fl_db = demo_known, fl_registry = Some (New 1 None minute), fl_ssh = None, fl_relay = None\<rparr>"

definition demo_peer :: ctx where
  "demo_peer = demo_ctx\<lparr>cx_certs := Some [(''a'', ''1f'')]\<rparr>"

lemma demo_known_ok: "db_ok demo_known"
  by (simp add: db_ok_def table_ok_defs unique_opt_def List.map_filter_def refers_def demo_known_def empty_db_def)

lemma demo_online: "\<exists>d'. Online (\<lambda>h. Inr (hello_hostname h)) (calm 5) 1 demo_known ''a'' stream (demo_hello ''a'') 5 = (d', Inr ()) \<and> db_ok d'"
  by (simp add: Online_def sql_exec_def set_hello_def upsert_connection_def demo_known_def empty_db_def update_rows_def
    db_ok_def table_ok_defs unique_opt_def List.map_filter_def refers_def)

lemma demo_acquire: "\<exists>state. Acquire (New 1 None minute) ''a'' (hello_agent_id (demo_hello ''a'')) (Some (demo_hello ''a'')) 5
    = (demo_registry, Inr (1, state))"
  by (simp add: demo_registry_def Acquire_def New_def demo_hello_def DefaultLimits_def Let_def)

lemma demo_open: "\<exists>s1 st. Connect_open demo_server (calm 5) demo_start demo_peer (Inr (HelloMsg (demo_hello ''a''))) = (s1, Ret (Inr st))
    \<and> fl_registry s1 = Some demo_registry \<and> st_agent st = ''a'' \<and> st_session st = 1 \<and> db_ok (fl_db s1)"
proof -
  have "unix_milli 5 = 0" by (simp add: go_time)
  then have auth: "AuthorizeConnection (calm 5) 0 demo_known ''a'' ''1f'' 5 = Inr ()"
    by (simp add: AuthorizeConnection_def sql_query_row_def demo_known_def)
  have peer: "peerCertificateIdentity demo_peer = Inr (''a'', ''1f'')"
    by (simp add: peerCertificateIdentity_def certificateIdentity_def demo_peer_def demo_ctx_def)
  obtain state where acq: "Acquire (New 1 None minute) ''a'' (hello_agent_id (demo_hello ''a'')) (Some (demo_hello ''a'')) 5
    = (demo_registry, Inr (1, state))" using demo_acquire by blast
  obtain d' where on: "Online (\<lambda>h. Inr (hello_hostname h)) (calm 5) 1 demo_known ''a'' (stream_id ''a'' 5) (demo_hello ''a'') 5 = (d', Inr ())"
    "db_ok d'" using demo_online by blast
  show ?thesis
    using auth peer acq on by (simp add: Connect_open_def demo_server_def demo_start_def hello_of_def Let_def)
qed

theorem connect_authenticated_witness:
  "\<exists>s1 st. Connect_open demo_server (calm 5) demo_start demo_peer (Inr (HelloMsg (demo_hello ''a''))) = (s1, Ret (Inr st))
    \<and> st_agent st \<noteq> [] \<and> hello_agent_id (demo_hello ''a'') = st_agent st"
proof -
  obtain s1 st where o: "Connect_open demo_server (calm 5) demo_start demo_peer (Inr (HelloMsg (demo_hello ''a''))) = (s1, Ret (Inr st))"
    using demo_open by blast
  show ?thesis using connect_authenticated [OF o] o by auto
qed

theorem disconnect_time_is_connect_time_witness:
  "\<exists>s1 st s3 r3. Connect_close demo_server (calm 99) 9 s1 st = (s3, Ret ()) \<and> fl_registry s3 = Some r3
    \<and> (\<exists>en. rg_entries r3 ''a'' = Some en \<and> en_last_seen en = 5)"
proof -
  obtain s1 st where o: "Connect_open demo_server (calm 5) demo_start demo_peer (Inr (HelloMsg (demo_hello ''a''))) = (s1, Ret (Inr st))"
    "fl_registry s1 = Some demo_registry" "st_agent st = ''a''" "st_session st = 1" "db_ok (fl_db s1)"
    using demo_open by blast
  have "as_persistence demo_server" by (simp add: demo_server_def)
  then show ?thesis
    using disconnect_time_is_connect_time [OF o(1) _ o(5,2), of _ _ "calm 99" 9] demo_registry_session demo_registry_entry o(3,4)
    by fastforce
qed

definition demo_running :: fleet where
  "demo_running = demo_fleet\<lparr>fl_db := (fl_db demo_fleet)\<lparr>jobs := [demo_job\<lparr>j_state := JOB_DISPATCHED\<rparr>]\<rparr>\<rparr>"

lemma demo_running_ok: "db_ok (fl_db demo_running)"
  using demo_fleet_ok
  by (simp add: db_ok_def table_ok_defs demo_running_def demo_fleet_def demo_job_def unique_opt_def List.map_filter_def)

theorem job_result_matched_witness:
  "\<exists>s'. Handle \<lparr>hd_db = True, hd_metrics = None\<rparr> (calm 0) demo_running ''a'' (Some (JobResultMsg \<lparr>jr_job = ''j'', jr_state = 4,
      jr_exit = 0, jr_error = None, jr_truncated = False, jr_dispatch = ''d'', jr_attempt = 1, jr_output = ''out''\<rparr>)) = (s', Inr ())
    \<and> map j_state (jobs (fl_db s')) = [4]"
proof -
  have j: "jobs (fl_db demo_running) = [demo_job\<lparr>j_state := JOB_DISPATCHED\<rparr>]" by (simp add: demo_running_def)
  show ?thesis
    using job_result_matched [OF demo_running_ok, where h = "\<lparr>hd_db = True, hd_metrics = None\<rparr>" and e = "calm 0" and agent = "''a''"
        and res = "\<lparr>jr_job = ''j'', jr_state = 4, jr_exit = 0, jr_error = None, jr_truncated = False, jr_dispatch = ''d'',
          jr_attempt = 1, jr_output = ''out''\<rparr>"] j
    by (auto simp: demo_job_def job_state_defs split: prod.splits)
qed

theorem settled_job_final_witness:
  "demo_job \<in> set (jobs (fl_db (fst (CancelJob (calm 0) False demo_fleet ''j'' ''why'' 10))))"
proof -
  have "job_world\<^sup>*\<^sup>* demo_fleet (fst (CancelJob (calm 0) False demo_fleet ''j'' ''why'' 10))"
    by (rule r_into_rtranclp) (rule cancel)
  moreover have "demo_job \<in> set (jobs (fl_db demo_fleet))" "j_state demo_job \<notin> {2, 3}"
    by (simp_all add: demo_fleet_def demo_job_def)
  ultimately show ?thesis using settled_job_final demo_fleet_ok by blast
qed

end
