(* ===== verification/ServerAdmin.thy ===== *)
theory ServerAdmin
  imports RegistryService IdentityFacts Invitations
begin

text \<open>
  The administrative and reading handlers of \<open>internal/server\<close>: \<open>fleet.go\<close>, \<open>read.go\<close> and
  \<open>enrollment_admin.go\<close>.
\<close>

section \<open>Agents\<close>

record AgentItem =
  ag_id :: string
  ag_hostname :: string
  ag_revoked :: bool
  ag_online :: bool
  ag_last_seen :: int

text \<open>An agent joined with its connection row, if any.\<close>

definition agent_item :: "db \<Rightarrow> AgentRow \<Rightarrow> AgentItem" where
  "agent_item d a = (let c = List.find (\<lambda>c. c_agent c = a_id a) (connections d) in
     \<lparr>ag_id = a_id a, ag_hostname = a_hostname a, ag_revoked = (a_revoked a \<noteq> None),
      ag_online = (case c of None \<Rightarrow> False | Some r \<Rightarrow> c_state r = ''online''),
      ag_last_seen = (case c of None \<Rightarrow> 0 | Some r \<Rightarrow> (case c_connected r of Some t \<Rightarrow> t
        | None \<Rightarrow> (case c_disconnected r of Some t \<Rightarrow> t | None \<Rightarrow> 0)))\<rparr>)"

definition ListAgents :: "env \<Rightarrow> db \<Rightarrow> u32 \<Rightarrow> AgentItem list result" where
  "ListAgents e d page = (if env_db_fails e 0 then Inl (Status Unavailable ''storage unavailable'')
     else Inr (map (agent_item d) (take (listLimit page) (order_by a_id (agents d)))))"

definition GetAgent :: "env \<Rightarrow> nat \<Rightarrow> db \<Rightarrow> string \<Rightarrow> AgentItem result" where
  "GetAgent e k d ident = (case sql_query_row (env_db_fails e k) (\<lambda>r. a_id r = ident) (agents d) of
      Inl err \<Rightarrow> Inl (Status NotFound ''agent not found'')
    | Inr a \<Rightarrow> Inr (agent_item d a))"

text \<open>\<open>RevokeAgent\<close>: statement 0 revokes, 1 reads the agent back; one clock reading.\<close>

definition RevokeAgent :: "env \<Rightarrow> fleet \<Rightarrow> string \<Rightarrow> string \<Rightarrow> fleet \<times> AgentItem result outcome" where
  "RevokeAgent e s ident reason =
    (if ident = [] \<or> reason = [] then (s, Ret (Inl (Status InvalidArgument ''agent and reason required'')))
     else case sql_exec (env_db_fails e 0) (set_revoked ident (unix_milli (env_clock e 0))) (fl_db s) of
       (d', Inl err) \<Rightarrow> (s\<lparr>fl_db := d'\<rparr>, Ret (Inl (Status Internal ''revoke failed'')))
     | (d', Inr n) \<Rightarrow>
        if n \<noteq> 1 then (s\<lparr>fl_db := d'\<rparr>, Ret (Inl (Status NotFound ''active agent not found'')))
        else (case fl_registry s of
          None \<Rightarrow> (s\<lparr>fl_db := d'\<rparr>, Ret (GetAgent e 1 d' ident))
        | Some r \<Rightarrow> (case Disconnect r ident (env_clock e 0) of
            Panic p \<Rightarrow> (s\<lparr>fl_db := d'\<rparr>, Panic p)
          | Ret r' \<Rightarrow> (s\<lparr>fl_db := d', fl_registry := Some r'\<rparr>, Ret (GetAgent e 1 d' ident)))))"

section \<open>Enrollment tokens\<close>

record EnrollmentToken =
  et_token :: string
  et_id :: string
  et_expires :: int
  et_consumed :: bool
  et_revoked :: bool

text \<open>The clock is read once for the token and once for the answer.\<close>

definition CreateEnrollmentToken :: "crypto \<Rightarrow> env \<Rightarrow> db \<Rightarrow> ctx \<Rightarrow> u32 \<Rightarrow> db \<times> EnrollmentToken result" where
  "CreateEnrollmentToken c e d ctx seconds = (case cx_claims ctx of
      None \<Rightarrow> (d, Inl (Status Unauthenticated ''authentication required''))
    | Some claims \<Rightarrow>
       (let ttl = int (unat seconds) * second in
        if ttl \<le> 0 \<or> ttl > hour then (d, Inl (Status InvalidArgument ''TTL out of range''))
        else (let creator = (if has_prefix (cl_subject claims) ''local:uid:'' then [] else cl_subject claims) in
          case CreateToken c e d creator (env_clock e 0) ttl of
            (d', Inl err) \<Rightarrow> (d', Inl (Status Unavailable ''token creation failed''))
          | (d', Inr token) \<Rightarrow> (d', Inr \<lparr>et_token = token,
              et_id = token_ident c (case hex_decode token of Inl err \<Rightarrow> [] | Inr raw \<Rightarrow> raw),
              et_expires = unix_milli (env_clock e 1 + ttl), et_consumed = False, et_revoked = False\<rparr>))))"

definition ListEnrollmentTokens :: "env \<Rightarrow> db \<Rightarrow> u32 \<Rightarrow> EnrollmentToken list result" where
  "ListEnrollmentTokens e d page = (case ListTokens e d (int (unat page)) of
      Inl err \<Rightarrow> Inl (Status Internal ''join codes unavailable'')
    | Inr items \<Rightarrow> Inr (map (\<lambda>i. \<lparr>et_token = [], et_id = ti_id i, et_expires = ti_expires i,
        et_consumed = ti_consumed i, et_revoked = ti_revoked i\<rparr>) items))"

definition RevokeEnrollmentToken :: "env \<Rightarrow> db \<Rightarrow> string \<Rightarrow> db \<times> EnrollmentToken result" where
  "RevokeEnrollmentToken e d ident = (case RevokeToken e d ident (env_clock e 0) of
      (d', Inl err) \<Rightarrow> (d', Inl (Status NotFound (error_text err)))
    | (d', Inr u) \<Rightarrow> (d', Inr \<lparr>et_token = [], et_id = ident, et_expires = 0, et_consumed = False, et_revoked = True\<rparr>))"

section \<open>Users\<close>

record UserItem =
  us_id :: string
  us_username :: string
  us_role :: int
  us_disabled :: bool

definition user_item :: "UserRow \<Rightarrow> UserItem" where
  "user_item r = \<lparr>us_id = u_id r, us_username = u_username r, us_role = u_role r, us_disabled = u_disabled r\<rparr>"

text \<open>Entropy read 0 is the password's salt, 1 the id.\<close>

definition CreateUser :: "crypto \<Rightarrow> env \<Rightarrow> db \<Rightarrow> string \<Rightarrow> string \<Rightarrow> int \<Rightarrow> db \<times> UserItem result" where
  "CreateUser c e d username password role =
    (if username = [] \<or> role < ROLE_VIEWER \<or> role > ROLE_ADMIN then (d, Inl (Status InvalidArgument ''invalid user''))
     else case HashPassword c e 0 password of
       Inl err \<Rightarrow> (d, Inl (Status InvalidArgument ''invalid password''))
     | Inr hash \<Rightarrow> (case randomHex e 1 16 of
         Inl err \<Rightarrow> (d, Inl (Status Internal ''entropy unavailable''))
       | Inr ident \<Rightarrow>
          (case sql_exec (env_db_fails e 0) (insert_user \<lparr>u_id = ident, u_username = username, u_hash = hash, u_role = role,
                u_disabled = False, u_created = unix_milli (env_clock e 0)\<rparr>) d of
             (d', Inl err) \<Rightarrow> (d', Inl (Status AlreadyExists ''user exists''))
           | (d', Inr n) \<Rightarrow> (d', Inr \<lparr>us_id = ident, us_username = username, us_role = role, us_disabled = False\<rparr>))))"

definition ListUsers :: "env \<Rightarrow> db \<Rightarrow> u32 \<Rightarrow> UserItem list result" where
  "ListUsers e d page = (if env_db_fails e 0 then Inl StorageFailure
     else Inr (map user_item (take (listLimit page) (order_by u_username (users d)))))"

definition set_role :: "string \<Rightarrow> int \<Rightarrow> db \<Rightarrow> db \<times> nat" where
  "set_role ident role d = (let u = update_rows (\<lambda>r. u_id r = ident) (\<lambda>r. r\<lparr>u_role := role\<rparr>) (users d)
     in (d\<lparr>users := fst u\<rparr>, snd u))"

definition SetUserRole :: "env \<Rightarrow> db \<Rightarrow> string \<Rightarrow> int \<Rightarrow> db \<times> UserItem result" where
  "SetUserRole e d ident role =
    (if ident = [] \<or> role < ROLE_VIEWER \<or> role > ROLE_ADMIN then (d, Inl (Status InvalidArgument ''user and valid role required''))
     else case sql_exec (env_db_fails e 0) (set_role ident role) d of
       (d', Inl err) \<Rightarrow> (d', Inl (Status Internal ''update failed''))
     | (d', Inr n) \<Rightarrow>
        if n \<noteq> 1 then (d', Inl (Status NotFound ''user not found''))
        else (case sql_query_row (env_db_fails e 1) (\<lambda>r. u_id r = ident) (users d') of
          Inl err \<Rightarrow> (d', Inl (Status Internal ''read failed''))
        | Inr r \<Rightarrow> (d', Inr (user_item r))))"

section \<open>SSH keys\<close>

record SshKeyItem =
  kk_id :: string
  kk_user :: string
  kk_public_key :: bytes
  kk_label :: string

definition insert_key :: "SshKeyRow \<Rightarrow> db \<Rightarrow> db \<times> nat" where
  "insert_key row d = (d\<lparr>ssh_keys := ssh_keys d @ [row]\<rparr>, 1)"

definition AddSshKey :: "env \<Rightarrow> db \<Rightarrow> ctx \<Rightarrow> bytes \<Rightarrow> string \<Rightarrow> db \<times> SshKeyItem result" where
  "AddSshKey e d ctx key label = (case cx_claims ctx of
      None \<Rightarrow> (d, Inl (Status Unauthenticated ''authentication required''))
    | Some claims \<Rightarrow>
       if key = [] \<or> List.length key > 16384 \<or> label = [] \<or> List.length label > 200
       then (d, Inl (Status InvalidArgument ''public key and label required''))
       else (case randomHex e 0 16 of
         Inl err \<Rightarrow> (d, Inl (Status Internal ''entropy unavailable''))
       | Inr ident \<Rightarrow>
          (case sql_exec (env_db_fails e 0) (insert_key \<lparr>k_id = ident, k_user = cl_subject claims, k_public_key = key,
                k_label = label, k_created = unix_milli (env_clock e 0)\<rparr>) d of
             (d', Inl err) \<Rightarrow> (d', Inl (Status AlreadyExists ''key exists''))
           | (d', Inr n) \<Rightarrow> (d', Inr \<lparr>kk_id = ident, kk_user = cl_subject claims, kk_public_key = key, kk_label = label\<rparr>))))"

definition ListSshKeys :: "env \<Rightarrow> db \<Rightarrow> ctx \<Rightarrow> string \<Rightarrow> u32 \<Rightarrow> SshKeyItem list result" where
  "ListSshKeys e d ctx user page = (case cx_claims ctx of
      None \<Rightarrow> Inl (Status Unauthenticated ''authentication required'')
    | Some claims \<Rightarrow>
       (let who = (if user = [] then cl_subject claims else user) in
        if env_db_fails e 0 then Inl (Status Internal ''list failed'')
        else Inr (map (\<lambda>r. \<lparr>kk_id = k_id r, kk_user = k_user r, kk_public_key = k_public_key r, kk_label = k_label r\<rparr>)
          (take (pageSize page) (order_by k_created (filter (\<lambda>r. k_user r = who) (ssh_keys d)))))))"

definition delete_key :: "string \<Rightarrow> string \<Rightarrow> db \<Rightarrow> db \<times> nat" where
  "delete_key ident user d = (let u = delete_rows (\<lambda>r. k_id r = ident \<and> k_user r = user) (ssh_keys d)
     in (d\<lparr>ssh_keys := fst u\<rparr>, snd u))"

definition DeleteSshKey :: "env \<Rightarrow> db \<Rightarrow> ctx \<Rightarrow> string \<Rightarrow> db \<times> unit result" where
  "DeleteSshKey e d ctx ident = (case cx_claims ctx of
      None \<Rightarrow> (d, Inl (Status Unauthenticated ''authentication required''))
    | Some claims \<Rightarrow> (case sql_exec (env_db_fails e 0) (delete_key ident (cl_subject claims)) d of
        (d', Inl err) \<Rightarrow> (d', Inl (Status Internal ''delete failed''))
      | (d', Inr n) \<Rightarrow> if n \<noteq> 1 then (d', Inl (Status NotFound ''key not found'')) else (d', Inr ())))"

section \<open>Metrics and audit\<close>

definition GetMetrics :: "codec_json \<Rightarrow> env \<Rightarrow> db \<Rightarrow> string \<Rightarrow> MetricsSnapshot list result" where
  "GetMetrics pj e d agent =
    (if agent = [] then Inl (Status InvalidArgument ''agent ID required'')
     else case Current pj e d agent of
       Inl err \<Rightarrow> if err = NoRows then Inr [] else Inl (Status Internal ''metrics unavailable'')
     | Inr s \<Rightarrow> Inr [s])"

record AuditEvent =
  ae_id :: string
  ae_actor :: string
  ae_agent :: string
  ae_action :: string
  ae_reason :: string
  ae_occurred :: int

text \<open>A NULL actor cannot be read into the event.\<close>

definition ListAudit :: "env \<Rightarrow> db \<Rightarrow> string \<Rightarrow> u32 \<Rightarrow> AuditEvent list result" where
  "ListAudit e d agent page =
    (let rows = take (pageSize page) (order_by_desc e_occurred (filter (\<lambda>r. agent = [] \<or> e_agent r = Some agent) (audit_events d)))
     in if env_db_fails e 0 \<or> (\<exists>r \<in> set rows. e_actor r = None) then Inl (Status Internal ''audit unavailable'')
        else Inr (map (\<lambda>r. \<lparr>ae_id = e_id r, ae_actor = the (e_actor r), ae_agent = (case e_agent r of None \<Rightarrow> [] | Some a \<Rightarrow> a),
          ae_action = e_action r, ae_reason = e_reason r, ae_occurred = e_occurred r\<rparr>) rows))"

section \<open>What the handlers promise\<close>

text \<open>A user who was created can log in with the password given, with the role given, as long as the
  rate limiter and the store allow; and nobody with that name could before.\<close>

theorem created_user_logs_in:
  assumes "CreateUser c e d username password role = (d', Inr user)" "db_ok d"
    "\<And>salt. List.length (argon2 c password salt 3 65536 2 32) = 32"
  shows "us_role user = role \<and> username \<notin> u_username ` set (users d)
    \<and> (\<forall>js issuer e2 limiter source. snd (Allow limiter source (env_clock e2 0)) \<and> \<not> env_db_fails e2 0 \<longrightarrow>
        snd (ServiceLogin c js issuer e2 limiter d' source username password)
          = ServiceIssue c js issuer e2 1 0 (us_id user) role)"
proof -
  obtain h ident where h: "HashPassword c e 0 password = Inr h"
    "db_ok d'" "d' = d\<lparr>users := users d @ [\<lparr>u_id = ident, u_username = username, u_hash = h, u_role = role,
                u_disabled = False, u_created = unix_milli (env_clock e 0)\<rparr>]\<rparr>"
    "user = \<lparr>us_id = ident, us_username = username, us_role = role, us_disabled = False\<rparr>"
    using assms(1) by (auto simp: CreateUser_def sql_exec_Inr insert_user_def split: if_splits sum.splits prod.splits)
  let ?r = "\<lparr>u_id = ident, u_username = username, u_hash = h, u_role = role, u_disabled = False, u_created = unix_milli (env_clock e 0)\<rparr>"
  have fresh: "username \<notin> u_username ` set (users d)"
    using h(2) db_ok_insert_user [OF assms(2), of ?r] unfolding h(3) by simp
  have "distinct (map u_username (users d'))" using h(2) by (simp add: db_ok_def users_ok_def)
  then have "List.find (\<lambda>r. u_username r = username) (users d') = Some ?r"
    unfolding h(3) by (intro find_unique) (auto dest: distinct_map_inj)
  then have "sql_query_row False (\<lambda>r. u_username r = username) (users d') = Inr ?r" by (simp add: sql_query_row_def)
  moreover have "VerifyPassword c h password" by (rule HashPassword_accepts [OF h(1) assms(3)])
  ultimately show ?thesis using fresh h(4) by (simp add: ServiceLogin_def split_beta)
qed

text \<open>Setting a role changes that column of that user, and nothing else; otherwise nothing changes.\<close>

theorem set_role_exact:
  assumes "db_ok d" "SetUserRole e d ident role = (d', res)"
  shows "d' = d \<or> (ident \<in> u_id ` set (users d) \<and> role \<in> {ROLE_VIEWER..ROLE_ADMIN}
    \<and> d' = d\<lparr>users := map (\<lambda>r. if u_id r = ident then r\<lparr>u_role := role\<rparr> else r) (users d)\<rparr>
    \<and> (\<forall>user. res = Inr user \<longrightarrow> us_id user = ident \<and> us_role user = role))"
proof -
  have d: "distinct (map u_id (users d))" using assms(1) by (simp add: db_ok_def users_ok_def user_ids_def)
  have none: "map (\<lambda>r. if u_id r = ident then r\<lparr>u_role := role\<rparr> else r) (users d) = users d" if "ident \<notin> u_id ` set (users d)"
    using that by (intro map_idI) auto
  show ?thesis
    using assms(2) none
    by (cases "ident \<in> u_id ` set (users d)")
      (auto simp: SetUserRole_def sql_exec_def set_role_def Let_def user_item_def sql_query_row_Inr
        split: if_splits sum.splits dest!: find_Some_mem)
qed

lemma Disconnect_offline: "Disconnect r ident now = Ret r' \<Longrightarrow> reg_ok r \<Longrightarrow> \<not> (\<exists>en. rg_entries r' ident = Some en \<and> en_online en)"
  using reg_okD(2) [of r ident]
  by (auto simp: Disconnect_def entry_ok_def split: option.splits outcome.splits)

text \<open>An agent whose revocation is answered is revoked and no longer online, and no certificate of its
  is accepted any more.\<close>

theorem revoked_agent_offline:
  assumes "RevokeAgent e s ident reason = (s', Ret (Inr item))" "db_ok (fl_db s)" "fl_registry s = Some r" "reg_ok r"
  shows "agent_revoked ident (fl_db s') \<and> ag_revoked item
    \<and> (\<exists>r'. fl_registry s' = Some r' \<and> \<not> (\<exists>en. rg_entries r' ident = Some en \<and> en_online en))
    \<and> (\<forall>e2 serial now. AuthorizeConnection e2 0 (fl_db s') ident serial now \<noteq> Inr ())"
proof -
  obtain r' where r': "sql_exec (env_db_fails e 0) (set_revoked ident (unix_milli (env_clock e 0))) (fl_db s) = (fl_db s', Inr 1)"
    "Disconnect r ident (env_clock e 0) = Ret r'" "fl_registry s' = Some r'" "GetAgent e 1 (fl_db s') ident = Inr item"
    using assms(1,3) by (auto simp: RevokeAgent_def split: if_splits sum.splits prod.splits outcome.splits)
  let ?P = "\<lambda>r. a_id r = ident \<and> a_revoked r = None"
  have ok: "db_ok (fl_db s')" using sql_exec_ok [OF assms(2)] r'(1) by (metis fst_conv)
  have rows: "agents (fl_db s') = map (\<lambda>r. if ?P r then r\<lparr>a_revoked := Some (unix_milli (env_clock e 0))\<rparr> else r) (agents (fl_db s))"
    "List.length (filter ?P (agents (fl_db s))) = 1"
  proof -
    have "fl_db s' = fst (set_revoked ident (unix_milli (env_clock e 0)) (fl_db s))"
      "snd (set_revoked ident (unix_milli (env_clock e 0)) (fl_db s)) = 1"
      using r'(1) by (auto simp: sql_exec_Inr)
    then show "agents (fl_db s') = map (\<lambda>r. if ?P r then r\<lparr>a_revoked := Some (unix_milli (env_clock e 0))\<rparr> else r) (agents (fl_db s))"
      "List.length (filter ?P (agents (fl_db s))) = 1" by (simp_all add: set_revoked_def Let_def)
  qed
  then have "filter ?P (agents (fl_db s)) \<noteq> []" by auto
  then obtain a where "a \<in> set (filter ?P (agents (fl_db s)))" by (meson list.set_sel(1))
  then have a: "a \<in> set (agents (fl_db s))" "?P a" by auto
  have mem: "a\<lparr>a_revoked := Some (unix_milli (env_clock e 0))\<rparr> \<in> set (agents (fl_db s'))"
    unfolding rows(1)
    by (rule update_mem [where P = ?P and f = "\<lambda>r. r\<lparr>a_revoked := Some (unix_milli (env_clock e 0))\<rparr>", OF a(1) a(2)])
  then have rev: "agent_revoked ident (fl_db s')" using a(2) unfolding agent_revoked_def by (intro bexI) auto
  have f: "List.find (\<lambda>r. a_id r = ident) (agents (fl_db s')) = Some (a\<lparr>a_revoked := Some (unix_milli (env_clock e 0))\<rparr>)"
    using find_agent [OF ok mem] a(2) by simp
  have item: "ag_revoked item"
    using r'(4) f by (auto simp: GetAgent_def sql_query_row_def agent_item_def Let_def split: if_splits)
  have auth: "AuthorizeConnection e2 0 (fl_db s') ident serial now \<noteq> Inr ()" for e2 serial now
    using f by (auto simp: AuthorizeConnection_def sql_query_row_def split: option.splits)
  show ?thesis using rev item auth r'(3) Disconnect_offline [OF r'(2) assms(4)] by blast
qed

lemma db_ok_map_agents:
  assumes "db_ok d" "\<And>r. a_id (g r) = a_id r \<and> a_serial (g r) = a_serial r"
  shows "db_ok (d\<lparr>agents := map g (agents d)\<rparr>)"
  using assms by (simp add: db_ok_def table_ok_defs table_map)

text \<open>Revoking an agent whose stream has already ended panics: the ended stream closed the session's
  queue, and revoking closes it again. The revocation itself is already recorded then.\<close>

theorem revoking_disconnected_agent_panics:
  assumes "fl_registry s = Some r" "rg_entries r ident = Some en" "en_session en = Some g"
    "rg_sessions r g = Some se" "se_closed se" "db_ok (fl_db s)" "a \<in> set (agents (fl_db s))" "a_id a = ident"
    "a_revoked a = None" "\<not> env_db_fails e 0" "ident \<noteq> []" "reason \<noteq> []"
  shows "\<exists>s' p. RevokeAgent e s ident reason = (s', Panic p) \<and> agent_revoked ident (fl_db s')"
proof -
  let ?P = "\<lambda>r. a_id r = ident \<and> a_revoked r = None"
  have d: "distinct (map a_id (agents (fl_db s)))" using assms(6) by (simp add: db_ok_def agents_ok_def agent_ids_def)
  have len: "List.length (filter ?P (agents (fl_db s))) = 1"
    using assms(7-9) by (intro length_filter_unique [OF d assms(7)]) auto
  have ok: "db_ok (fst (set_revoked ident (unix_milli (env_clock e 0)) (fl_db s)))"
    using db_ok_map_agents [OF assms(6), of "\<lambda>r. if ?P r then r\<lparr>a_revoked := Some (unix_milli (env_clock e 0))\<rparr> else r"]
    by (simp add: set_revoked_def Let_def)
  have "a\<lparr>a_revoked := Some (unix_milli (env_clock e 0))\<rparr> \<in> set (agents (fst (set_revoked ident (unix_milli (env_clock e 0)) (fl_db s))))"
    unfolding set_revoked_def Let_def
    using update_mem [OF assms(7), where P = ?P and f = "\<lambda>r. r\<lparr>a_revoked := Some (unix_milli (env_clock e 0))\<rparr>"] assms(8,9)
    by (simp del: set_map)
  then have rev: "agent_revoked ident (fst (set_revoked ident (unix_milli (env_clock e 0)) (fl_db s)))"
    unfolding agent_revoked_def using assms(8) by (intro bexI) auto
  show ?thesis
    using assms ok len rev by (simp add: RevokeAgent_def sql_exec_def split_beta Disconnect_def close_queue_def)
      (simp add: set_revoked_def Let_def)
qed

text \<open>The audit log is listed newest first, at most a page of it, and what is left out is older.\<close>

theorem audit_newest_first:
  assumes "ListAudit e d agent page = Inr out"
  shows "List.length out \<le> pageSize page \<and> sorted_wrt (\<lambda>a b. ae_occurred b \<le> ae_occurred a) out
    \<and> (\<forall>r \<in> set (audit_events d). (agent = [] \<or> e_agent r = Some agent) \<and> e_id r \<notin> ae_id ` set out \<longrightarrow>
        List.length out = pageSize page \<and> (\<forall>a \<in> set out. e_occurred r \<le> ae_occurred a))"
proof -
  define rows where "rows = order_by_desc e_occurred (filter (\<lambda>r. agent = [] \<or> e_agent r = Some agent) (audit_events d))"
  let ?f = "\<lambda>r. \<lparr>ae_id = e_id r, ae_actor = the (e_actor r), ae_agent = (case e_agent r of None \<Rightarrow> [] | Some a \<Rightarrow> a),
          ae_action = e_action r, ae_reason = e_reason r, ae_occurred = e_occurred r\<rparr>"
  have out: "out = map ?f (take (pageSize page) rows)"
    using assms by (auto simp: ListAudit_def Let_def rows_def split: if_splits)
  have srt: "sorted_wrt (\<lambda>a b. e_occurred b \<le> e_occurred a) rows" unfolding rows_def by (rule sorted_order_by_desc)
  then have "sorted_wrt (\<lambda>a b. e_occurred b \<le> e_occurred a) (take (pageSize page) rows)" by (rule sorted_wrt_take)
  then have s: "sorted_wrt (\<lambda>a b. ae_occurred b \<le> ae_occurred a) out" unfolding out by (simp add: sorted_wrt_map)
  have "List.length out = pageSize page \<and> (\<forall>a \<in> set out. e_occurred r \<le> ae_occurred a)"
    if r: "r \<in> set (audit_events d)" "agent = [] \<or> e_agent r = Some agent" "e_id r \<notin> ae_id ` set out" for r
  proof -
    have "r \<in> set rows" using r(1,2) by (simp add: rows_def)
    moreover have "r \<notin> set (take (pageSize page) rows)" using r(3) unfolding out by (auto simp: image_image)
    ultimately have dr: "r \<in> set (drop (pageSize page) rows)" by (metis Un_iff append_take_drop_id set_append)
    then have "pageSize page < List.length rows" by (metis drop_all empty_iff empty_set not_le)
    moreover have "\<forall>a \<in> set (take (pageSize page) rows). e_occurred r \<le> e_occurred a"
      using srt dr sorted_wrt_append [of "\<lambda>a b. e_occurred b \<le> e_occurred a" "take (pageSize page) rows" "drop (pageSize page) rows"]
      by (simp only: append_take_drop_id) blast
    ultimately show ?thesis unfolding out by simp
  qed
  then show ?thesis using s out by auto
qed

text \<open>A user deletes no key but the one named, and only a key of their own.\<close>

theorem delete_only_own_key:
  assumes "DeleteSshKey e d ctx ident = (d', res)"
  shows "(\<forall>r \<in> set (ssh_keys d). r \<in> set (ssh_keys d') \<or> (k_id r = ident \<and> (\<exists>claims. cx_claims ctx = Some claims \<and> k_user r = cl_subject claims)))
    \<and> set (ssh_keys d') \<subseteq> set (ssh_keys d) \<and> d'\<lparr>ssh_keys := []\<rparr> = d\<lparr>ssh_keys := []\<rparr>"
  using assms
  by (auto simp: DeleteSshKey_def sql_exec_def delete_key_def delete_rows_def Let_def split: option.splits if_splits)

text \<open>A token just created enrolls an agent until it expires: presented before then, it is accepted.\<close>

theorem created_token_is_accepted:
  assumes "CreateEnrollmentToken c e d ctx seconds = (d', Inr token)" "db_ok d"
    "unix_milli now \<le> unix_milli (env_clock e 0 + int (unat seconds) * second)" "\<not> env_db_fails e2 k"
  shows "ok (snd (ConsumeToken c e2 k d' (et_token token) now)) \<and> 0 < seconds \<and> uint seconds \<le> 3600"
proof -
  have s: "0 < int (unat seconds) * second" "int (unat seconds) * second \<le> hour"
    using assms(1) by (auto simp: CreateEnrollmentToken_def Let_def split: option.splits if_splits)
  obtain creator t where ct: "CreateToken c e d creator (env_clock e 0) (int (unat seconds) * second) = (d', Inr t)" "et_token token = t"
    using assms(1) by (auto simp: CreateEnrollmentToken_def Let_def split: option.splits if_splits sum.splits prod.splits)
  obtain raw row where r: "List.length raw = 32" "t = hex_encode raw" "d' = d\<lparr>enrollment_tokens := enrollment_tokens d @ [row]\<rparr>"
    "db_ok d'" "t_hash row = token_digest c t raw" "t_expires row = unix_milli (env_clock e 0 + int (unat seconds) * second)"
    "t_consumed row = None" "t_revoked row = None"
    using ct(1) s(1) by (auto simp: CreateToken_def sql_exec_Inr insert_token_def Let_def dest: rand_read_length
        split: if_splits sum.splits prod.splits)
  have p: "presented_digest c t = Some (token_digest c t raw)"
    using r(1,2) by (simp add: presented_digest_def hex.dec_enc)
  have "row \<in> set (enrollment_tokens d')" using r(3) by simp
  moreover have "token_live (token_digest c t raw) (unix_milli now) row"
    using r(5-8) assms(3) by (simp add: token_live_def)
  ultimately have "ok (snd (ConsumeToken c e2 k d' t now))"
    using p assms(4) by (auto simp: ConsumeToken_alt [OF r(4)])
  then show ?thesis using ct(2) s by (auto simp: go_time word_gt_0)
qed

section \<open>Examples\<close>

theorem created_user_logs_in_witness:
  "\<exists>d' user. CreateUser toy_crypto (calm 0) empty_db ''ann'' ''0123456789abcdef'' ROLE_VIEWER = (d', Inr user)
    \<and> us_role user = ROLE_VIEWER"
proof -
  have "ok (snd (CreateUser toy_crypto (calm 0) empty_db ''ann'' ''0123456789abcdef'' ROLE_VIEWER))"
    by (simp add: CreateUser_def role_defs HashPassword_def randomHex_def sql_exec_def insert_user_def users_empty_db db_ok_one_user
      del: upt_rec_numeral)
  then obtain d' user where c: "CreateUser toy_crypto (calm 0) empty_db ''ann'' ''0123456789abcdef'' ROLE_VIEWER = (d', Inr user)"
    by (metis ok_iff prod.collapse)
  have "\<And>salt. List.length (argon2 toy_crypto ''0123456789abcdef'' salt 3 65536 2 32) = 32" by (simp add: toy_crypto_def)
  then show ?thesis using created_user_logs_in [OF c db_ok_empty] c by blast
qed

theorem set_role_exact_witness:
  "fst (SetUserRole (calm 0) demo_db ''nobody'' ROLE_VIEWER) = demo_db"
proof -
  have "''nobody'' \<notin> u_id ` set (users demo_db)" by (simp add: demo_db_def)
  moreover obtain d' res where r: "SetUserRole (calm 0) demo_db ''nobody'' ROLE_VIEWER = (d', res)" by fastforce
  ultimately show ?thesis using set_role_exact [OF demo_db_ok r] by auto
qed

definition demo_known_online :: fleet where
  "demo_known_online = demo_start\<lparr>fl_registry := Some demo_registry\<rparr>"

lemma demo_registry_ok: "reg_ok demo_registry"
  using demo_registry_reachable reg_ok_reachable [OF _ reg_ok_New] by blast

lemma demo_revoke: "\<exists>s' item. RevokeAgent (calm 0) demo_known_online ''a'' ''why'' = (s', Ret (Inr item))"
proof -
  have "db_ok (fst (set_revoked ''a'' 0 demo_known))" "snd (set_revoked ''a'' 0 demo_known) = 1"
    "\<exists>a. List.find (\<lambda>r. a_id r = ''a'') (agents (fst (set_revoked ''a'' 0 demo_known))) = Some a"
    using db_ok_map_agents [OF demo_known_ok, of "\<lambda>r. if a_id r = ''a'' \<and> a_revoked r = None then r\<lparr>a_revoked := Some 0\<rparr> else r"]
    by (simp_all add: set_revoked_def demo_known_def)
  then show ?thesis
    by (auto simp: RevokeAgent_def demo_known_online_def demo_start_def sql_exec_def go_time split_beta Disconnect_def
      demo_registry_entry close_queue_def demo_registry_session GetAgent_def sql_query_row_def)
qed

theorem revoked_agent_offline_witness:
  "\<exists>s' item. RevokeAgent (calm 0) demo_known_online ''a'' ''why'' = (s', Ret (Inr item)) \<and> ag_revoked item"
proof -
  obtain s' item where r: "RevokeAgent (calm 0) demo_known_online ''a'' ''why'' = (s', Ret (Inr item))" using demo_revoke by blast
  have "db_ok (fl_db demo_known_online)" "fl_registry demo_known_online = Some demo_registry"
    by (simp_all add: demo_known_online_def demo_start_def demo_known_ok)
  then show ?thesis using revoked_agent_offline [OF r _ _ demo_registry_ok] r by blast
qed

text \<open>The agent connected, then its stream ended and released its session; now it is revoked.\<close>

definition demo_ended :: fleet where
  "demo_ended = (case Release demo_registry 1 9 of Ret r \<Rightarrow> demo_start\<lparr>fl_registry := Some r\<rparr> | Panic p \<Rightarrow> demo_start)"

theorem revoking_disconnected_agent_panics_witness:
  "\<exists>s' p. RevokeAgent (calm 0) demo_ended ''a'' ''why'' = (s', Panic p)"
proof -
  obtain r en se where r: "fl_registry demo_ended = Some r" "rg_entries r ''a'' = Some en" "en_session en = Some 1"
    "rg_sessions r 1 = Some se" "se_closed se"
    by (simp add: demo_ended_def Release_def close_queue_def release_def demo_registry_session demo_registry_entry)
  have "fl_db demo_ended = demo_known"
    by (simp add: demo_ended_def demo_start_def split: outcome.split)
  moreover have "\<exists>a. a \<in> set (agents demo_known) \<and> a_id a = ''a'' \<and> a_revoked a = None" by (simp add: demo_known_def)
  ultimately have "\<exists>s' p. RevokeAgent (calm 0) demo_ended ''a'' ''why'' = (s', Panic p) \<and> agent_revoked ''a'' (fl_db s')"
    using revoking_disconnected_agent_panics [OF r, of _ "calm 0" "''why''"] demo_known_ok by auto
  then show ?thesis by blast
qed

theorem audit_newest_first_witness: "\<exists>out. ListAudit (calm 0) demo_db [] 0 = Inr out \<and> List.length out \<le> 100"
proof -
  have "ListAudit (calm 0) demo_db [] 0 = Inr []" by (simp add: ListAudit_def demo_db_def empty_db_def order_by_desc_def)
  then show ?thesis using audit_newest_first [of "calm 0" demo_db "[]" 0 "[]"] by (auto simp: pageSize_def)
qed

theorem delete_only_own_key_witness: "set (ssh_keys (fst (DeleteSshKey (calm 0) demo_db demo_admin ''k''))) \<subseteq> set (ssh_keys demo_db)"
  using delete_only_own_key [OF prod.collapse [symmetric], where e = "calm 0" and d = demo_db and ctx = demo_admin and ident = "''k''"] by blast

theorem created_token_is_accepted_witness:
  "\<exists>d' token. CreateEnrollmentToken toy_crypto (calm 0) demo_db demo_admin 60 = (d', Inr token)
    \<and> ok (snd (ConsumeToken toy_crypto (calm 0) 0 d' (et_token token) 0))"
proof -
  have p: "\<not> has_prefix ''u'' ''local:uid:''" "unat (60 :: u32) = 60" by (simp_all add: has_prefix_def)
  have "\<exists>d' token. CreateEnrollmentToken toy_crypto (calm 0) demo_db demo_admin 60 = (d', Inr token)"
    using db_ok_insert_token [OF demo_db_ok] p
    by (simp add: CreateEnrollmentToken_def demo_admin_def CreateToken_def sql_exec_def insert_token_def Let_def go_time
      refers_def user_ids_def del: upt_rec_numeral) (simp add: demo_db_def empty_db_def)
  then obtain d' token where c: "CreateEnrollmentToken toy_crypto (calm 0) demo_db demo_admin 60 = (d', Inr token)" by blast
  have "unix_milli 0 \<le> unix_milli (env_clock (calm 0) 0 + int (unat (60 :: u32)) * second)" by (simp add: go_time)
  then show ?thesis using created_token_is_accepted [OF c demo_db_ok, of 0 "calm 0" 0] c by auto
qed

end
