(* ===== verification/ServerSsh.thy ===== *)
theory ServerSsh
  imports ServerAdmin
begin

text \<open>
  \<open>internal/server/ssh.go\<close>: preparing an SSH session for an agent, reading and closing it, and
  bridging a client's byte stream to the agent through the relay.
\<close>

section \<open>The handlers\<close>

text \<open>\<open>PrepareSsh\<close>: \<open>e\<close> is the environment of the creation, \<open>e'\<close> of the closing after a failed dispatch.\<close>

definition PrepareSsh_handler :: "(string \<Rightarrow> u32 \<Rightarrow> int \<Rightarrow> bytes) \<Rightarrow> env \<Rightarrow> env \<Rightarrow> bool \<Rightarrow> fleet \<Rightarrow> ctx \<Rightarrow> string \<Rightarrow> bytes
    \<Rightarrow> string \<Rightarrow> u32 \<Rightarrow> SshSession reply" where
  "PrepareSsh_handler md e e' cancelled s ctx agent key reason ttl = (case cx_claims ctx of
      None \<Rightarrow> fail s Unauthenticated ''authentication required''
    | Some claims \<Rightarrow>
       if cl_role claims \<noteq> ROLE_ADMIN then fail s PermissionDenied ''admin required''
       else (case fl_ssh s of
         None \<Rightarrow> fail s Unavailable ''SSH unavailable''
       | Some m \<Rightarrow>
          if fl_registry s = None then fail s Unavailable ''SSH unavailable''
          else (case Create md e m (fl_db s) (cl_subject claims) agent key reason (int (unat ttl) * second) of
            (m', d', Inl err) \<Rightarrow> fail (s\<lparr>fl_ssh := Some m', fl_db := d'\<rparr>) InvalidArgument (error_text err)
          | (m', d', Inr (session, prepare)) \<Rightarrow>
             (case dispatch_to (s\<lparr>fl_ssh := Some m', fl_db := d'\<rparr>) agent (PrepareSshMsg prepare) cancelled of
                (s', Panic p) \<Rightarrow> (s', Panic p)
              | (s', Ret (Inl err)) \<Rightarrow>
                 (case Close e' m' d' (ss_id session) ''dispatch failed'' of (m2, d2, res) \<Rightarrow>
                   fail (s'\<lparr>fl_ssh := Some m2, fl_db := d2\<rparr>) Unavailable ''agent offline or backpressured'')
              | (s', Ret (Inr u)) \<Rightarrow> (s', Ret (Inr session))))))"

definition GetSshSession :: "env \<Rightarrow> fleet \<Rightarrow> string \<Rightarrow> SshSession result" where
  "GetSshSession e s ident = (case fl_ssh s of
      None \<Rightarrow> Inl (Status Unavailable ''SSH unavailable'')
    | Some m \<Rightarrow> (case Get e (fl_db s) ident of
        Inl err \<Rightarrow> Inl (Status NotFound ''SSH session not found'')
      | Inr v \<Rightarrow> Inr v))"

text \<open>The error of telling the agent is dropped.\<close>

definition CloseSsh_handler :: "env \<Rightarrow> bool \<Rightarrow> fleet \<Rightarrow> string \<Rightarrow> string \<Rightarrow> SshSession reply" where
  "CloseSsh_handler e cancelled s ident reason = (case fl_ssh s of
      None \<Rightarrow> fail s Unavailable ''SSH unavailable''
    | Some m \<Rightarrow> (case Close e m (fl_db s) ident reason of
        (m', d', Inl err) \<Rightarrow> fail (s\<lparr>fl_ssh := Some m', fl_db := d'\<rparr>) InvalidArgument (error_text err)
      | (m', d', Inr session) \<Rightarrow>
         (let s1 = s\<lparr>fl_ssh := Some m', fl_db := d'\<rparr> in
          if fl_registry s1 = None then (s1, Ret (Inr session))
          else (case dispatch_to s1 (ss_agent session) (CloseSshMsg (ss_id session)) cancelled of
            (s2, Panic p) \<Rightarrow> (s2, Panic p)
          | (s2, Ret res) \<Rightarrow> (s2, Ret (Inr session))))))"

text \<open>
  \<open>BridgeSsh\<close> up to the point where \<open>Serve\<close> waits: the result names the session and the
  rendezvous the client's stream (\<open>client\<close>) was put into. The rest is \<open>Serve_wait\<close>.
\<close>

definition BridgeSsh_open :: "env \<Rightarrow> bool \<Rightarrow> fleet \<Rightarrow> ctx \<Rightarrow> TunnelFrame result \<Rightarrow> nat \<Rightarrow> (string \<times> nat) reply" where
  "BridgeSsh_open e cancelled s ctx received client = (case cx_claims ctx of
      None \<Rightarrow> fail s Unauthenticated ''authentication required''
    | Some claims \<Rightarrow>
       if fl_ssh s = None \<or> fl_registry s = None then fail s Unavailable ''SSH bridge unavailable''
       else (case fl_relay s of
         None \<Rightarrow> fail s Unavailable ''SSH bridge unavailable''
       | Some relay \<Rightarrow> (case received of
           Inl err \<Rightarrow> (s, Ret (Inl err))
         | Inr first \<Rightarrow>
            if tf_session first = [] then fail s InvalidArgument ''first frame must carry session id''
            else (case Bridge e (fl_db s) (tf_session first) (cl_subject claims) of
              Inl err \<Rightarrow> fail s PermissionDenied (error_text err)
            | Inr agent \<Rightarrow> (case Register relay e 0 (tf_session first) of
                (relay1, Inl err) \<Rightarrow> fail (s\<lparr>fl_relay := Some relay1\<rparr>) FailedPrecondition (error_text err)
              | (relay1, Inr token) \<Rightarrow>
                 (case dispatch_to (s\<lparr>fl_relay := Some relay1\<rparr>) agent (OpenTunnelMsg (tf_session first) token) cancelled of
                    (s', Panic p) \<Rightarrow> (s', Panic p)
                  | (s', Ret (Inl err)) \<Rightarrow>
                      fail (s'\<lparr>fl_relay := Some (Tunnel.Cancel relay1 (tf_session first))\<rparr>) Unavailable ''agent offline or backpressured''
                  | (s', Ret (Inr u)) \<Rightarrow>
                      (case Serve_put relay1 (tf_session first) client of
                         (relay2, Inl err) \<Rightarrow> fail (s'\<lparr>fl_relay := Some relay2\<rparr>) Unavailable (error_text err)
                       | (relay2, Inr p) \<Rightarrow> (s'\<lparr>fl_relay := Some relay2\<rparr>, Ret (Inr (tf_session first, p))))))))))"

section \<open>Preparing\<close>

lemma dispatch_to_frame: "dispatch_to s ident m cancelled = (s', x) \<Longrightarrow>
    fl_db s' = fl_db s \<and> fl_ssh s' = fl_ssh s \<and> fl_relay s' = fl_relay s"
  by (auto simp: dispatch_to_def split: option.splits outcome.splits prod.splits)

lemma dispatch_to_ok:
  assumes "dispatch_to (s\<lparr>fl_ssh := Some m', fl_db := d'\<rparr>) a m c = (s', Ret (Inr u))"
  shows "fl_ssh s' = Some m' \<and> fl_db s' = d' \<and> queued (fl_registry s) (fl_registry s') a m"
  using dispatch_to_queued [OF assms] dispatch_to_frame [OF assms] by simp

lemma PrepareSsh_success: "case PrepareSsh_handler md e e' cancelled s ctx agent key reason ttl of (s', x) \<Rightarrow> (case x of
    Ret (Inr session) \<Rightarrow> (\<exists>claims m m' d' prepare. cx_claims ctx = Some claims \<and> cl_role claims = ROLE_ADMIN \<and> fl_ssh s = Some m
      \<and> Create md e m (fl_db s) (cl_subject claims) agent key reason (int (unat ttl) * second) = (m', d', Inr (session, prepare))
      \<and> fl_ssh s' = Some m' \<and> fl_db s' = d' \<and> queued (fl_registry s) (fl_registry s') agent (PrepareSshMsg prepare))
  | _ \<Rightarrow> True)"
  unfolding PrepareSsh_handler_def
  by (auto simp: fail_def split: option.split sum.split prod.split outcome.split dest: dispatch_to_ok)

text \<open>An SSH session is prepared only for an administrator. When the handler answers with it, one
  session of the caller's was recorded for the agent, in the preparing state and with an audit event, a
  binding token of 32 bytes is kept for it, and the agent's queue ends with the request that carries
  that token.\<close>

theorem prepare_ssh_granted:
  assumes "PrepareSsh_handler md e e' cancelled s ctx agent key reason ttl = (s', Ret (Inr session))"
  shows "\<exists>claims row token prepare m'. cx_claims ctx = Some claims \<and> cl_role claims = ROLE_ADMIN
    \<and> s_id row = ss_id session \<and> s_actor row = cl_subject claims \<and> s_agent row = agent \<and> s_public_key row = key
    \<and> s_state row = SSH_PREPARING
    \<and> ssh_sessions (fl_db s') = ssh_sessions (fl_db s) @ [row]
    \<and> (\<exists>audit. audit_events (fl_db s') = audit_events (fl_db s) @ [audit] \<and> e_actor audit = Some (cl_subject claims)
        \<and> e_agent audit = Some agent \<and> e_reason audit = reason)
    \<and> fl_ssh s' = Some m' \<and> mg_tokens m' (ss_id session) = Some token \<and> List.length token = 32
    \<and> ps_session prepare = ss_id session \<and> ps_token prepare = token
    \<and> queued (fl_registry s) (fl_registry s') agent (PrepareSshMsg prepare)"
proof -
  obtain claims m m' d' prepare where c: "cx_claims ctx = Some claims" "cl_role claims = ROLE_ADMIN"
    "Create md e m (fl_db s) (cl_subject claims) agent key reason (int (unat ttl) * second) = (m', d', Inr (session, prepare))"
    "fl_ssh s' = Some m'" "fl_db s' = d'" "queued (fl_registry s) (fl_registry s') agent (PrepareSshMsg prepare)"
    using PrepareSsh_success [where md = md and e = e and e' = e' and cancelled = cancelled and s = s and ctx = ctx and agent = agent
        and key = key and reason = reason and ttl = ttl] assms by auto
  obtain port token auditID where k: "ss_id session = ps_session prepare" "ps_token prepare = token" "List.length token = 32"
    "m' = m\<lparr>mg_tokens := (mg_tokens m)(ss_id session \<mapsto> token)\<rparr>"
    "d' = (fl_db s)\<lparr>ssh_sessions := ssh_sessions (fl_db s) @ [new_session (ss_id session) (cl_subject claims) agent key port
          (env_clock e 0 + int (unat ttl) * second) (env_clock e 0)],
        audit_events := audit_events (fl_db s) @ [audit_row auditID (cl_subject claims) agent ''ssh_session'' reason
          (unix_milli (env_clock e 0)) (md (ss_id session) port (unix_milli (env_clock e 0 + int (unat ttl) * second)))]\<rparr>"
    using Create_cases [where md = md and e = e and m = m and d = "fl_db s" and actor = "cl_subject claims" and agent = agent
        and key = key and reason = reason and ttl = "int (unat ttl) * second"] c(3) by (auto split: prod.splits)
  show ?thesis
    by (intro exI [of _ claims] exI [of _ "new_session (ss_id session) (cl_subject claims) agent key port
          (env_clock e 0 + int (unat ttl) * second) (env_clock e 0)"] exI [of _ token] exI [of _ prepare] exI [of _ m'])
      (use c k in \<open>simp add: new_session_def audit_row_def\<close>)
qed

lemma Close_closes:
  assumes "db_ok d" "reason \<noteq> []" "\<not> env_db_fails e 0"
  shows "fst (snd (Close e m d ident reason)) = d\<lparr>ssh_sessions := map (\<lambda>r. if s_id r = ident \<and> s_state r \<in> {1, 2}
         then r\<lparr>s_state := 3, s_port := None\<rparr> else r) (ssh_sessions d)\<rparr>"
proof -
  have "db_ok (fst (mark_closed ident d))"
    using db_ok_update_ssh [OF assms(1), of "\<lambda>r. s_id r = ident \<and> s_state r \<in> {1, 2}" "\<lambda>r. r\<lparr>s_state := 3, s_port := None\<rparr>"]
    by (simp add: mark_closed_def Let_def)
  then show ?thesis using assms(2,3) by (simp add: Close_def Let_def sql_exec_def split_beta) (simp add: mark_closed_def Let_def)
qed


section \<open>Bridging\<close>

lemma dispatch_relay_ok:
  assumes "dispatch_to (s\<lparr>fl_relay := Some relay1\<rparr>) a m c = (s', Ret (Inr u))"
  shows "fl_db s' = fl_db s \<and> queued (fl_registry s) (fl_registry s') a m"
  using dispatch_to_queued [OF assms] dispatch_to_frame [OF assms] by simp

lemma BridgeSsh_success: "case BridgeSsh_open e cancelled s ctx received client of (s', x) \<Rightarrow> (case x of
    Ret (Inr (sid, p)) \<Rightarrow> (\<exists>claims relay agent relay1 token relay2. cx_claims ctx = Some claims \<and> fl_relay s = Some relay
      \<and> Bridge e (fl_db s) sid (cl_subject claims) = Inr agent \<and> Register relay e 0 sid = (relay1, Inr token)
      \<and> Serve_put relay1 sid client = (relay2, Inr p) \<and> fl_relay s' = Some relay2
      \<and> fl_db s' = fl_db s \<and> queued (fl_registry s) (fl_registry s') agent (OpenTunnelMsg sid token))
  | _ \<Rightarrow> True)"
  unfolding BridgeSsh_open_def
  by (auto simp: fail_def split: option.split sum.split prod.split outcome.split dest: dispatch_relay_ok)

text \<open>C14. A client's stream is put into a rendezvous only when the session named in its first frame is the
  caller's own, ready and unexpired; the agent of the session is then told to open its tunnel with the
  very token of the rendezvous.\<close>

theorem bridge_owner_and_token:
  assumes "BridgeSsh_open e cancelled s ctx received client = (s', Ret (Inr (sid, p)))"
  shows "\<exists>claims row relay relay' obj token. cx_claims ctx = Some claims \<and> row \<in> set (ssh_sessions (fl_db s)) \<and> s_id row = sid
    \<and> s_actor row = cl_subject claims \<and> s_state row = SSH_READY \<and> unix_milli (env_clock e 0) < s_expires row
    \<and> fl_relay s = Some relay \<and> rl_pending relay sid = None
    \<and> fl_relay s' = Some relay' \<and> get relay' sid = Some (p, obj) \<and> pd_token obj = token \<and> List.length token = 32
    \<and> pd_client obj = Some client
    \<and> queued (fl_registry s) (fl_registry s') (s_agent row) (OpenTunnelMsg sid token) \<and> fl_db s' = fl_db s"
proof -
  obtain claims relay agent relay1 token relay2 where b: "cx_claims ctx = Some claims" "fl_relay s = Some relay"
    "Bridge e (fl_db s) sid (cl_subject claims) = Inr agent" "Register relay e 0 sid = (relay1, Inr token)"
    "Serve_put relay1 sid client = (relay2, Inr p)" "fl_relay s' = Some relay2"
    "fl_db s' = fl_db s" "queued (fl_registry s) (fl_registry s') agent (OpenTunnelMsg sid token)"
    using BridgeSsh_success [where e = e and cancelled = cancelled and s = s and ctx = ctx and received = received and client = client]
      assms by auto
  obtain row where row: "row \<in> set (ssh_sessions (fl_db s))" "s_id row = sid" "s_actor row = cl_subject claims"
    "s_state row = SSH_READY" "unix_milli (env_clock e 0) < s_expires row" "s_agent row = agent"
    using b(3) by (auto simp: Bridge_def dest!: sql_query_row_mem split: if_splits sum.splits)
  note reg = Register_Inr [OF b(4)]
  obtain obj where obj: "get relay1 sid = Some (p, obj)" "relay2 = relay1\<lparr>rl_objects := (rl_objects relay1)(p \<mapsto> obj\<lparr>pd_client := Some client\<rparr>)\<rparr>"
    using Serve_put_cases [OF b(5)] by auto
  have t: "pd_token obj = token" "rl_pending relay1 sid = Some p" using obj(1) reg by (auto simp: get_Some)
  have "get relay2 sid = Some (p, obj\<lparr>pd_client := Some client\<rparr>)" using obj(2) t(2) by (simp add: get_Some)
  then show ?thesis
    by (intro exI [of _ claims] exI [of _ row] exI [of _ relay] exI [of _ relay2] exI [of _ "obj\<lparr>pd_client := Some client\<rparr>"] exI [of _ token])
      (use b row reg t in simp)
qed

section \<open>Examples\<close>

lemma demo_create: "\<exists>m' d' session prepare. Create (\<lambda>a b c. []) (calm 0) (NewManager 1 2) (fl_db demo_fleet) ''u'' ''a'' ''key'' ''why'' (60 * second)
    = (m', d', Inr (session, prepare))"
proof -
  let ?ident = "hex_encode (map (env_rand (calm 0) 0) [0..<16])" and ?audit = "hex_encode (map (env_rand (calm 0) 2) [0..<16])"
  let ?d1 = "(fl_db demo_fleet)\<lparr>ssh_sessions := ssh_sessions (fl_db demo_fleet) @ [new_session ?ident ''u'' ''a'' ''key'' 1 (60 * second) 0]\<rparr>"
  have "?ident \<noteq> ''s''" by code_simp
  then have ok1: "db_ok ?d1"
    by (simp add: db_ok_insert_ssh [OF demo_fleet_ok] new_session_def) (simp add: demo_fleet_def demo_db_def user_ids_def agent_ids_def)
  have ok2: "db_ok (?d1\<lparr>audit_events := audit_events ?d1 @ [audit_row ?audit ''u'' ''a'' ''ssh_session'' ''why'' 0 []]\<rparr>)"
    by (subst db_ok_insert_audit [OF ok1])
      (simp add: audit_row_def demo_fleet_def demo_db_def empty_db_def user_ids_def agent_ids_def refers_def)
  have port: "allocatePort (\<lambda>p. False) (unix_milli 0) (fl_db demo_fleet) 1 2 = Inr 1"
    by (simp add: allocatePort.simps port_count_def demo_fleet_def demo_db_def)
  have sec: "0 < 60 * second" "60 * second \<le> hour" "unix_milli 0 = 0" by (simp_all add: go_time)
  have rnd: "random (calm 0) 0 16 = Inr ?ident" "random (calm 0) 2 16 = Inr ?audit" "\<exists>t. randomBytes (calm 0) (Suc 0) 32 = Inr t"
    by (simp_all add: random_def randomBytes_def rand_read_def calm_def del: upt_rec_numeral rand_read_calm)
  then show ?thesis
    using ok1 ok2 port sec
    by (auto simp: Create_def NewManager_def Let_def sql_exec_def insert_session_def insert_audit_def simp del: upt_rec_numeral)
qed

lemma demo_prepare: "\<exists>s' session. PrepareSsh_handler (\<lambda>a b c. []) (calm 0) (calm 0) False demo_fleet demo_admin ''a'' ''key'' ''why'' 60
    = (s', Ret (Inr session))"
proof -
  obtain m' d' session prepare where c: "Create (\<lambda>a b c. []) (calm 0) (NewManager 1 2) (fl_db demo_fleet) ''u'' ''a'' ''key'' ''why'' (60 * second)
    = (m', d', Inr (session, prepare))" using demo_create by blast
  have "\<exists>s'. dispatch_to (demo_fleet\<lparr>fl_ssh := Some m', fl_db := d'\<rparr>) ''a'' (PrepareSshMsg prepare) False = (s', Ret (Inr ()))"
    by (simp add: dispatch_to_def demo_fleet_def Dispatch_def dispatch_session_def demo_registry_entry Enqueue_def
      demo_registry_session)
  moreover have "fl_ssh demo_fleet = Some (NewManager 1 2)" "fl_registry demo_fleet \<noteq> None" by (simp_all add: demo_fleet_def)
  moreover have "cx_claims demo_admin \<noteq> None" "\<And>cl. cx_claims demo_admin = Some cl \<Longrightarrow> cl_role cl = ROLE_ADMIN \<and> cl_subject cl = ''u''"
    by (auto simp: demo_admin_def)
  ultimately show ?thesis using c by (auto simp: PrepareSsh_handler_def)
qed

theorem prepare_ssh_granted_witness:
  "\<exists>s' session token m'. PrepareSsh_handler (\<lambda>a b c. []) (calm 0) (calm 0) False demo_fleet demo_admin ''a'' ''key'' ''why'' 60
      = (s', Ret (Inr session)) \<and> fl_ssh s' = Some m' \<and> mg_tokens m' (ss_id session) = Some token \<and> List.length token = 32"
proof -
  obtain s' session where p: "PrepareSsh_handler (\<lambda>a b c. []) (calm 0) (calm 0) False demo_fleet demo_admin ''a'' ''key'' ''why'' 60
    = (s', Ret (Inr session))" using demo_prepare by blast
  show ?thesis using prepare_ssh_granted [OF p] p by blast
qed


definition demo_ready :: fleet where
  "demo_ready = demo_fleet\<lparr>fl_db := (fl_db demo_fleet)\<lparr>ssh_sessions := [\<lparr>s_id = ''s'', s_actor = ''u'', s_agent = ''a'',
     s_public_key = ''k'', s_state = SSH_READY, s_port = Some 1, s_expires = 9, s_created = 0, s_host_key = None\<rparr>]\<rparr>\<rparr>"

theorem bridge_owner_and_token_witness:
  "\<exists>s' sid p. BridgeSsh_open (calm 0) False demo_ready demo_admin (Inr \<lparr>tf_session = ''s'', tf_token = [], tf_data = [], tf_close = False\<rparr>) 7
      = (s', Ret (Inr (sid, p))) \<and> fl_db s' = fl_db demo_ready"
proof -
  let ?f = "Inr \<lparr>tf_session = ''s'', tf_token = [], tf_data = [], tf_close = False\<rparr> :: TunnelFrame result"
  obtain claims where cl: "cx_claims demo_admin = Some claims" "cl_subject claims = ''u''" by (simp add: demo_admin_def)
  have b: "Bridge (calm 0) (fl_db demo_ready) ''s'' ''u'' = Inr ''a''"
    by (simp add: Bridge_def sql_query_row_def demo_ready_def go_time)
  obtain relay1 token where r: "Register NewRelay (calm 0) 0 ''s'' = (relay1, Inr token)"
    by (simp add: Register_def NewRelay_def del: upt_rec_numeral)
  then have g: "get relay1 ''s'' = Some (0, \<lparr>pd_session = ''s'', pd_token = token, pd_client = None, pd_done = False\<rparr>)"
    using Register_Inr [OF r] by (simp add: get_Some NewRelay_def)
  then obtain relay2 where sp: "Serve_put relay1 ''s'' 7 = (relay2, Inr 0)" by (simp add: Serve_put_def)
  have f: "fl_relay demo_ready = Some NewRelay" "fl_registry demo_ready = Some demo_registry" "fl_ssh demo_ready \<noteq> None"
    by (simp_all add: demo_ready_def demo_fleet_def)
  have "\<exists>s'. dispatch_to (demo_ready\<lparr>fl_relay := Some relay1\<rparr>) ''a'' (OpenTunnelMsg ''s'' token) False = (s', Ret (Inr ()))"
    by (simp add: dispatch_to_def f Dispatch_def dispatch_session_def demo_registry_entry Enqueue_def demo_registry_session)
  then obtain s' where "BridgeSsh_open (calm 0) False demo_ready demo_admin ?f 7 = (s', Ret (Inr (''s'', 0)))"
    using cl b r sp f by (auto simp: BridgeSsh_open_def)
  then show ?thesis using bridge_owner_and_token by blast
qed

end
