(* ===== verification/Retention.thy ===== *)
theory Retention
  imports Store GoStrings
begin

text \<open>
  \<open>internal/store/store.go\<close>: opening and migrating the database, deleting what is older than
  the retention period, checking integrity, and backing the file up.
\<close>

section \<open>Retention\<close>

definition day :: duration where
  "day = 24 * hour"

definition delete_minutes :: "int \<Rightarrow> db \<Rightarrow> db \<times> nat" where
  "delete_minutes cutoff d = (let u = delete_rows (\<lambda>r. mm_bucket r < cutoff) (metrics_minute d)
     in (d\<lparr>metrics_minute := fst u\<rparr>, snd u))"

definition delete_audit :: "int \<Rightarrow> db \<Rightarrow> db \<times> nat" where
  "delete_audit cutoff d = (let u = delete_rows (\<lambda>r. e_occurred r < cutoff) (audit_events d)
     in (d\<lparr>audit_events := fst u\<rparr>, snd u))"

text \<open>Statement 0 is BEGIN, 1 and 2 the deletions, 3 COMMIT.\<close>

definition Cleanup :: "env \<Rightarrow> db \<Rightarrow> time \<Rightarrow> db \<times> unit result" where
  "Cleanup e d now = (let cutoff = unix_milli (now - 7 * day) in
     if env_db_fails e 0 then (d, Inl StorageFailure)
     else case sql_exec (env_db_fails e 1) (delete_minutes cutoff) d of
       (d1, Inl err) \<Rightarrow> (d, Inl err)
     | (d1, Inr n1) \<Rightarrow> (case sql_exec (env_db_fails e 2) (delete_audit cutoff) d1 of
         (d2, Inl err) \<Rightarrow> (d, Inl err)
       | (d2, Inr n2) \<Rightarrow> if env_db_fails e 3 then (d, Inl StorageFailure) else (d2, Inr ())))"

lemma distinct_map_filter_list: "distinct (map f xs) \<Longrightarrow> distinct (map f (filter P xs))"
  by (induction xs) auto

lemma delete_ok: "db_ok d \<Longrightarrow> db_ok (fst (delete_minutes cutoff d))" "db_ok d \<Longrightarrow> db_ok (fst (delete_audit cutoff d))"
  by (auto simp: delete_minutes_def delete_audit_def delete_rows_def Let_def db_ok_def table_ok_defs list_all_iff
      intro: distinct_map_filter_list)

text \<open>The cleanup deletes exactly the minute figures and audit events older than seven days, and
  nothing else, or it changes nothing and fails; it only fails when the store does.\<close>

theorem cleanup_exact:
  assumes "db_ok d"
  shows "case Cleanup e d now of (d', res) \<Rightarrow> (case res of
      Inl err \<Rightarrow> d' = d \<and> (\<exists>k < 4. env_db_fails e k)
    | Inr u \<Rightarrow> db_ok d' \<and> d' = d\<lparr>
        metrics_minute := filter (\<lambda>r. unix_milli (now - 7 * day) \<le> mm_bucket r) (metrics_minute d),
        audit_events := filter (\<lambda>r. unix_milli (now - 7 * day) \<le> e_occurred r) (audit_events d)\<rparr>)"
proof -
  let ?c = "unix_milli (now - 7 * day)"
  have m: "delete_minutes ?c d = (fst (delete_minutes ?c d), snd (delete_minutes ?c d))" by simp
  have ok1: "db_ok (fst (delete_minutes ?c d))" using delete_ok(1) assms by blast
  have ok2: "db_ok (fst (delete_audit ?c (fst (delete_minutes ?c d))))" using delete_ok(2) ok1 by blast
  have e1: "sql_exec f (delete_minutes ?c) d = (if f then (d, Inl StorageFailure)
      else (fst (delete_minutes ?c d), Inr (snd (delete_minutes ?c d))))" for f
    using ok1 by (simp add: sql_exec_def split_beta)
  have e2: "sql_exec f (delete_audit ?c) (fst (delete_minutes ?c d)) = (if f then (fst (delete_minutes ?c d), Inl StorageFailure)
      else (fst (delete_audit ?c (fst (delete_minutes ?c d))), Inr (snd (delete_audit ?c (fst (delete_minutes ?c d))))))" for f
    using ok2 by (simp add: sql_exec_def split_beta)
  have k: "\<And>k. k < 4 \<Longrightarrow> env_db_fails e k \<Longrightarrow> \<exists>k < 4. env_db_fails e k" by blast
  show ?thesis
    using ok2 k [of 0] k [of 1] k [of 2] k [of 3]
    by (simp add: Cleanup_def Let_def e1 e2) (simp add: delete_audit_def delete_minutes_def delete_rows_def Let_def not_less)
qed

theorem cleanup_exact_witness:
  "\<exists>d'. Cleanup (calm 0) empty_db 0 = (d', Inr ()) \<and> db_ok d'"
  using cleanup_exact [OF db_ok_empty, of "calm 0" 0]
  by (cases "Cleanup (calm 0) empty_db 0") (auto split: sum.splits)

section \<open>Migrations\<close>

text \<open>
  What the database holds, abstractly, with the versions recorded as applied. A script is a
  function that may fail. Statement 4 i is version i's query, then BEGIN, the record's
  insertion and COMMIT.
\<close>

record 's schema =
  sc_versions :: "(nat \<times> int) list"
  sc_tables :: 's

fun migrate_from :: "env \<Rightarrow> nat \<Rightarrow> (string \<times> ('s \<Rightarrow> 's result)) list \<Rightarrow> 's schema \<Rightarrow> 's schema \<times> unit result" where
  "migrate_from e version [] s = (s, Inr ())"
| "migrate_from e version ((name, script) # rest) s =
    (if env_db_fails e (4 * version) then (s, Inl StorageFailure)
     else if version \<in> fst ` set (sc_versions s) then migrate_from e (Suc version) rest s
     else if env_db_fails e (4 * version + 1) then (s, Inl StorageFailure)
     else case script (sc_tables s) of
       Inl err \<Rightarrow> (s, Inl (Errorf ''migration %s: %w'' [name] (Some err)))
     | Inr tables \<Rightarrow>
        if env_db_fails e (4 * version + 2) then (s, Inl (Errorf ''migration %s: %w'' [name] (Some StorageFailure)))
        else if env_db_fails e (4 * version + 3) then (s, Inl StorageFailure)
        else migrate_from e (Suc version) rest
          \<lparr>sc_versions = sc_versions s @ [(version, unix_milli (env_clock e version))], sc_tables = tables\<rparr>)"

text \<open>Creating the bookkeeping table is statement 0.\<close>

definition migrate :: "env \<Rightarrow> (string \<times> ('s \<Rightarrow> 's result)) list \<Rightarrow> 's schema \<Rightarrow> 's schema \<times> unit result" where
  "migrate e scripts s = (if env_db_fails e 0 then (s, Inl StorageFailure) else migrate_from e 1 scripts s)"

text \<open>The reference: run, in order, the scripts of the versions that are missing.\<close>

fun apply_missing :: "nat set \<Rightarrow> nat \<Rightarrow> (string \<times> ('s \<Rightarrow> 's result)) list \<Rightarrow> 's \<Rightarrow> 's option" where
  "apply_missing have version [] t = Some t"
| "apply_missing have version ((name, script) # rest) t =
    (if version \<in> have then apply_missing have (Suc version) rest t
     else case script t of Inl err \<Rightarrow> None | Inr t' \<Rightarrow> apply_missing have (Suc version) rest t')"

lemma apply_missing_cong: "(\<And>v. version \<le> v \<Longrightarrow> (v \<in> A) = (v \<in> B)) \<Longrightarrow> apply_missing A version scripts t = apply_missing B version scripts t"
  by (induction A version scripts t rule: apply_missing.induct) (auto split: sum.split)

definition applied_set :: "'s schema \<Rightarrow> nat set" where
  "applied_set s = fst ` set (sc_versions s)"

lemma migrate_from_spec: "migrate_from e version scripts s = (s', res) \<Longrightarrow>
    \<exists>k \<le> List.length scripts. apply_missing (applied_set s) version (take k scripts) (sc_tables s) = Some (sc_tables s')
      \<and> applied_set s' = applied_set s \<union> {version..<version + k} \<and> (ok res \<longrightarrow> k = List.length scripts)"
proof (induction e version scripts s arbitrary: s' res rule: migrate_from.induct)
  case (1 e version s)
  then show ?case by simp
next
  case (2 e version name script rest s)
  consider "env_db_fails e (4 * version)" | "\<not> env_db_fails e (4 * version)" "version \<in> fst ` set (sc_versions s)"
    | "\<not> env_db_fails e (4 * version)" "version \<notin> fst ` set (sc_versions s)" "s' = s" "\<not> ok res"
    | tables where "\<not> env_db_fails e (4 * version)" "version \<notin> fst ` set (sc_versions s)" "script (sc_tables s) = Inr tables"
      "\<not> env_db_fails e (4 * version + 1)" "\<not> env_db_fails e (4 * version + 2)" "\<not> env_db_fails e (4 * version + 3)"
    using "2.prems" by (auto split: if_splits sum.splits)
  then show ?case
  proof cases
    case 1
    then show ?thesis using "2.prems" by (intro exI [of _ 0]) auto
  next
    case 2
    then have "migrate_from e (Suc version) rest s = (s', res)" using "2.prems" by simp
    then obtain k where "k \<le> List.length rest"
      "apply_missing (applied_set s) (Suc version) (take k rest) (sc_tables s) = Some (sc_tables s')"
      "applied_set s' = applied_set s \<union> {Suc version..<Suc version + k}" "ok res \<longrightarrow> k = List.length rest"
      using "2.IH"(1) 2 by blast
    moreover have "{version..<version + Suc k} = insert version {Suc version..<Suc version + k}" by auto
    moreover have "version \<in> applied_set s" using 2(2) by (simp add: applied_set_def)
    ultimately show ?thesis by (intro exI [of _ "Suc k"]) auto
  next
    case 3
    then show ?thesis by (intro exI [of _ 0]) auto
  next
    case (4 tables)
    let ?s = "\<lparr>sc_versions = sc_versions s @ [(version, unix_milli (env_clock e version))], sc_tables = tables\<rparr>"
    have "migrate_from e (Suc version) rest ?s = (s', res)" using "2.prems" 4 by simp
    then obtain k where k: "k \<le> List.length rest"
      "apply_missing (applied_set ?s) (Suc version) (take k rest) tables = Some (sc_tables s')"
      "applied_set s' = applied_set ?s \<union> {Suc version..<Suc version + k}" "ok res \<longrightarrow> k = List.length rest"
      using "2.IH"(2) [OF 4(1,2,4,3) 4(5,6)] by auto
    have set: "applied_set ?s = insert version (applied_set s)" by (auto simp: applied_set_def)
    have "apply_missing (applied_set s) (Suc version) (take k rest) tables = Some (sc_tables s')"
      using k(2) apply_missing_cong [of "Suc version" "applied_set ?s" "applied_set s" "take k rest" tables] set by simp
    moreover have "{version..<version + Suc k} = insert version {Suc version..<Suc version + k}" by auto
    moreover have "version \<notin> applied_set s" using 4(2) by (simp add: applied_set_def)
    ultimately show ?thesis using k 4(3) set by (intro exI [of _ "Suc k"]) auto
  qed
qed

lemma migrate_from_noop:
  "\<forall>k. version \<le> k \<and> k < version + List.length scripts \<longrightarrow> k \<in> applied_set s \<Longrightarrow> \<forall>k. \<not> env_db_fails e k \<Longrightarrow>
    migrate_from e version scripts s = (s, Inr ())"
  by (induction e version scripts s rule: migrate_from.induct) (auto simp: applied_set_def)

lemma migrate_prefix_spec:
  assumes "migrate e scripts s = (s', res)"
  shows "\<exists>k \<le> List.length scripts. apply_missing (applied_set s) 1 (take k scripts) (sc_tables s) = Some (sc_tables s')
      \<and> applied_set s' = applied_set s \<union> {1..<1 + k}
      \<and> (ok res \<longrightarrow> k = List.length scripts \<and> (\<forall>e2. (\<forall>j. \<not> env_db_fails e2 j) \<longrightarrow> migrate e2 scripts s' = (s', Inr ())))"
proof (cases "env_db_fails e 0")
  case True
  then show ?thesis using assms by (intro exI [of _ 0]) (auto simp: migrate_def)
next
  case False
  then have "migrate_from e 1 scripts s = (s', res)" using assms by (simp add: migrate_def)
  then obtain k where k: "k \<le> List.length scripts"
    "apply_missing (applied_set s) 1 (take k scripts) (sc_tables s) = Some (sc_tables s')"
    "applied_set s' = applied_set s \<union> {1..<1 + k}" "ok res \<longrightarrow> k = List.length scripts"
    using migrate_from_spec by blast
  then have "ok res \<Longrightarrow> \<forall>j. \<not> env_db_fails e2 j \<Longrightarrow> migrate e2 scripts s' = (s', Inr ())" for e2
    using migrate_from_noop [of 1 scripts s' e2] by (simp add: migrate_def)
  then show ?thesis using k by blast
qed

text \<open>Migrating applies, in order, a prefix of the missing scripts, each together with its record, and
  all of them when it succeeds; after a success every version is recorded and migrating again does
  nothing.\<close>

theorem migrate_prefix:
  assumes "migrate e scripts s = (s', res)"
  shows "\<exists>k \<le> List.length scripts. apply_missing (applied_set s) 1 (take k scripts) (sc_tables s) = Some (sc_tables s')
      \<and> applied_set s' = applied_set s \<union> {1..<1 + k}
      \<and> (ok res \<longrightarrow> k = List.length scripts \<and> (\<forall>e2. (\<forall>j. \<not> env_db_fails e2 j) \<longrightarrow> migrate e2 scripts s' = (s', Inr ())))"
  by (rule migrate_prefix_spec [OF assms])

theorem migrate_prefix_witness:
  "\<exists>k \<le> (1 :: nat). apply_missing {} 1 (take k [(''001.sql'', \<lambda>n. Inr (Suc n))]) 0 = Some (Suc 0)"
  using migrate_prefix [of "calm 0" "[(''001.sql'', \<lambda>n. Inr (Suc n))]" "\<lparr>sc_versions = [], sc_tables = 0\<rparr>"
      "\<lparr>sc_versions = [(1, 0)], sc_tables = Suc 0\<rparr>" "Inr ()"]
  by (auto simp: migrate_def applied_set_def go_time)

section \<open>Opening\<close>

text \<open>
  The connection pool of \<open>database/sql\<close> as far as the store uses it: its limit, the statements run while
  configuring it, and whether it has been closed. The driver's answers are parameters.
\<close>

record connection =
  cn_max :: nat
  cn_ran :: "string list"
  cn_closed :: bool

record driver =
  dr_mkdir :: "unit result"
  dr_open :: "unit result"
  dr_exec :: "string \<Rightarrow> unit result"

definition pragmas :: "string list" where
  "pragmas = [''PRAGMA journal_mode=WAL'', ''PRAGMA foreign_keys=ON'', ''PRAGMA busy_timeout=5000'', ''PRAGMA synchronous=FULL'']"

fun configure_with :: "(string \<Rightarrow> unit result) \<Rightarrow> string list \<Rightarrow> connection \<Rightarrow> connection \<times> unit result" where
  "configure_with exec [] c = (c, Inr ())"
| "configure_with exec (q # qs) c = (case exec q of
      Inl err \<Rightarrow> (c, Inl (Errorf ''configure sqlite: %w'' [] (Some err)))
    | Inr _ \<Rightarrow> configure_with exec qs (c\<lparr>cn_ran := cn_ran c @ [q]\<rparr>))"

definition configure :: "(string \<Rightarrow> unit result) \<Rightarrow> connection \<Rightarrow> connection \<times> unit result" where
  "configure exec c = configure_with exec pragmas c"

definition Open_store :: "driver \<Rightarrow> env \<Rightarrow> (string \<times> ('s \<Rightarrow> 's result)) list \<Rightarrow> string \<Rightarrow> 's schema
    \<Rightarrow> 's schema \<times> connection option \<times> unit result" where
  "Open_store dr e scripts path s =
    (if path = [] then (s, None, Inl (Error ''database path is required''))
     else case dr_mkdir dr of Inl err \<Rightarrow> (s, None, Inl (Errorf ''create database directory: %w'' [] (Some err)))
     | Inr _ \<Rightarrow> (case dr_open dr of Inl err \<Rightarrow> (s, None, Inl (Errorf ''open sqlite: %w'' [] (Some err)))
     | Inr _ \<Rightarrow> (case configure (dr_exec dr) \<lparr>cn_max = 1, cn_ran = [], cn_closed = False\<rparr> of
         (c, Inl err) \<Rightarrow> (s, Some (c\<lparr>cn_closed := True\<rparr>), Inl err)
       | (c, Inr _) \<Rightarrow> (case migrate e scripts s of
           (s', Inl err) \<Rightarrow> (s', Some (c\<lparr>cn_closed := True\<rparr>), Inl err)
         | (s', Inr _) \<Rightarrow> (s', Some c, Inr ())))))"

lemma configure_with_ran:
  "configure_with exec qs c = (c', res) \<Longrightarrow> cn_max c' = cn_max c \<and> cn_closed c' = cn_closed c \<and> (ok res \<longrightarrow> cn_ran c' = cn_ran c @ qs)"
  by (induction exec qs c rule: configure_with.induct) (auto split: sum.splits)

text \<open>Opening a store that fails leaves no open connection. One that succeeds has a single connection, on which
  all four pragmas were run in order, foreign keys among them, and a database with every version applied.\<close>

theorem open_store:
  assumes "Open_store dr e scripts path s = (s', c, res)"
  shows "(\<not> ok res \<longrightarrow> (\<forall>k. c = Some k \<longrightarrow> cn_closed k))
    \<and> (ok res \<longrightarrow> c = Some \<lparr>cn_max = 1, cn_ran = pragmas, cn_closed = False\<rparr>
        \<and> apply_missing (applied_set s) 1 scripts (sc_tables s) = Some (sc_tables s')
        \<and> applied_set s' = applied_set s \<union> {1..<1 + List.length scripts})"
proof (cases "ok res")
  case False
  then have "res \<noteq> Inr ()" by auto
  then show ?thesis using assms by (auto simp: Open_store_def split: if_splits sum.splits prod.splits)
next
  case True
  then obtain k where k: "configure (dr_exec dr) \<lparr>cn_max = 1, cn_ran = [], cn_closed = False\<rparr> = (k, Inr ())"
    and m: "migrate e scripts s = (s', Inr ())" and c: "c = Some k"
    using assms by (auto simp: Open_store_def split: if_splits sum.splits prod.splits)
  have "cn_max k = 1 \<and> \<not> cn_closed k \<and> cn_ran k = pragmas"
    using configure_with_ran [OF k [unfolded configure_def]] by simp
  moreover obtain n where "n \<le> List.length scripts" "apply_missing (applied_set s) 1 (take n scripts) (sc_tables s) = Some (sc_tables s')"
      "applied_set s' = applied_set s \<union> {1..<1 + n}" "n = List.length scripts"
    using migrate_prefix_spec [OF m] by auto
  ultimately show ?thesis using c True by (cases k) auto
qed

theorem open_store_witness:
  "\<exists>s' c. Open_store \<lparr>dr_mkdir = Inr (), dr_open = Inr (), dr_exec = \<lambda>q. Inr ()\<rparr> (calm 0) [(''001.sql'', \<lambda>n. Inr (Suc n))] ''devops.db''
      \<lparr>sc_versions = [], sc_tables = 0\<rparr> = (s', Some c, Inr ()) \<and> cn_ran c = pragmas \<and> sc_tables s' = Suc 0"
  using open_store [of "\<lparr>dr_mkdir = Inr (), dr_open = Inr (), dr_exec = \<lambda>q. Inr ()\<rparr>" "calm 0" "[(''001.sql'', \<lambda>n. Inr (Suc n))]" "''devops.db''"
      "\<lparr>sc_versions = [], sc_tables = 0\<rparr>" "\<lparr>sc_versions = [(1, 0)], sc_tables = Suc 0\<rparr>"
      "Some \<lparr>cn_max = 1, cn_ran = pragmas, cn_closed = False\<rparr>" "Inr ()"]
  by (simp add: Open_store_def configure_def pragmas_def migrate_def go_time)

section \<open>Integrity and backup\<close>

definition IntegrityCheck :: "string result \<Rightarrow> unit result" where
  "IntegrityCheck answer = (case answer of
      Inl err \<Rightarrow> Inl err
    | Inr r \<Rightarrow> if r \<noteq> ''ok'' then Inl (Errorf ''sqlite integrity check: %s'' [r] None) else Inr ())"

text \<open>
  The files of \<open>Backup\<close>. Opening the source, checkpointing and closing it let SQLite write the
  source's files; making the destination's directory, copying and syncing can each fail.
\<close>

type_synonym files = "string \<Rightarrow> bytes option"

record backup_io =
  bk_open :: "files \<Rightarrow> files \<times> unit result"
  bk_checkpoint :: "files \<Rightarrow> files \<times> unit result"
  bk_close :: "files \<Rightarrow> files"
  bk_mkdir :: "unit result"
  bk_copy :: "unit result"
  bk_sync :: "unit result"

text \<open>The part of \<open>Backup\<close> after the checkpoint, without the deferred closing of the store.\<close>

definition copy_out :: "backup_io \<Rightarrow> files \<Rightarrow> string \<Rightarrow> string \<Rightarrow> files \<times> unit result" where
  "copy_out f fs source destination = (case fs source of
      None \<Rightarrow> (fs, Inl (External ''open''))
    | Some content \<Rightarrow> (case bk_mkdir f of Inl err \<Rightarrow> (fs, Inl err)
    | Inr _ \<Rightarrow>
       if fs destination \<noteq> None then (fs, Inl (External ''file exists''))
       else (case bk_copy f of Inl err \<Rightarrow> (fs(destination := None), Inl err)
       | Inr _ \<Rightarrow> (case bk_sync f of Inl err \<Rightarrow> (fs(destination := None), Inl err)
       | Inr _ \<Rightarrow> (fs(destination \<mapsto> content), Inr ())))))"

definition Backup :: "backup_io \<Rightarrow> files \<Rightarrow> string \<Rightarrow> string \<Rightarrow> files \<times> unit result" where
  "Backup f fs source destination =
    (if trim_space source = [] \<or> trim_space destination = [] then (fs, Inl (Error ''source and destination are required''))
     else case bk_open f fs of (fs1, Inl err) \<Rightarrow> (fs1, Inl err)
     | (fs1, Inr _) \<Rightarrow> (case bk_checkpoint f fs1 of (fs2, Inl err) \<Rightarrow> (bk_close f fs2, Inl err)
     | (fs2, Inr _) \<Rightarrow> (case copy_out f fs2 source destination of (fs3, res) \<Rightarrow> (bk_close f fs3, res))))"

definition writes_only :: "string set \<Rightarrow> backup_io \<Rightarrow> bool" where
  "writes_only S f \<longleftrightarrow> (\<forall>g p. p \<notin> S \<longrightarrow> fst (bk_open f g) p = g p \<and> fst (bk_checkpoint f g) p = g p \<and> bk_close f g p = g p)"

lemma copy_out_spec:
  "case copy_out f fs source destination of (fs', res) \<Rightarrow> (case res of
      Inl err \<Rightarrow> fs' = fs
    | Inr u \<Rightarrow> fs destination = None \<and> fs source \<noteq> None \<and> fs' = fs(destination := fs source))"
  unfolding copy_out_def by (auto split: sum.splits option.splits)

text \<open>As long as SQLite writes the source's files only, a backup never overwrites a file: it makes a new file with
  the source's content after the checkpoint, or leaves every other file as it was.\<close>

theorem backup_atomic:
  assumes "writes_only S f" "destination \<notin> S" "Backup f fs source destination = (fs', res)"
  shows "(\<forall>p. p \<notin> S \<and> p \<noteq> destination \<longrightarrow> fs' p = fs p)
    \<and> (\<not> ok res \<longrightarrow> fs' destination = fs destination)
    \<and> (ok res \<longrightarrow> fs destination = None \<and> fs' destination \<noteq> None
        \<and> fs' destination = fst (bk_checkpoint f (fst (bk_open f fs))) source)"
proof -
  have w: "\<And>g p. p \<notin> S \<Longrightarrow> fst (bk_open f g) p = g p" "\<And>g p. p \<notin> S \<Longrightarrow> fst (bk_checkpoint f g) p = g p" "\<And>g p. p \<notin> S \<Longrightarrow> bk_close f g p = g p"
    using assms(1) by (auto simp: writes_only_def)
  let ?fs2 = "fst (bk_checkpoint f (fst (bk_open f fs)))"
  consider "fs' = fs" "\<not> ok res" | "fs' = fst (bk_open f fs)" "\<not> ok res" | "fs' = bk_close f ?fs2" "\<not> ok res"
    | "fs' = bk_close f (fst (copy_out f ?fs2 source destination))" "res = snd (copy_out f ?fs2 source destination)"
    using assms(3) unfolding Backup_def by (fastforce split: if_splits prod.splits sum.splits)
  then show ?thesis
  proof cases
    case 4
    then show ?thesis using copy_out_spec [where f = f and fs = ?fs2 and source = source and destination = destination] w assms(2)
      by (cases "copy_out f ?fs2 source destination") (auto split: sum.splits)
  qed (use w assms(2) in auto)
qed

definition demo_backup :: "string \<Rightarrow> backup_io" where
  "demo_backup source = \<lparr>bk_open = \<lambda>g. (if g source = None then g(source \<mapsto> []) else g, Inr ()), bk_checkpoint = \<lambda>g. (g, Inr ()), bk_close = id,
    bk_mkdir = Inr (), bk_copy = Inr (), bk_sync = Inr ()\<rparr>"

lemma demo_trim: "trim_space ''a.db'' \<noteq> []" "trim_space ''b.db'' \<noteq> []"
  by code_simp+

theorem backup_atomic_witness:
  "\<exists>fs'. Backup (demo_backup ''a.db'') [''a.db'' \<mapsto> ''data''] ''a.db'' ''b.db'' = (fs', Inr ()) \<and> fs' ''b.db'' = Some ''data''"
proof -
  let ?fs = "[''a.db'' \<mapsto> ''data'']"
  have f: "bk_open (demo_backup ''a.db'') ?fs = (?fs, Inr ())" "bk_checkpoint (demo_backup ''a.db'') ?fs = (?fs, Inr ())"
    "copy_out (demo_backup ''a.db'') ?fs ''a.db'' ''b.db'' = (?fs(''b.db'' \<mapsto> ''data''), Inr ())" "bk_close (demo_backup ''a.db'') = id"
    by (simp_all add: demo_backup_def copy_out_def)
  have x: "Backup (demo_backup ''a.db'') ?fs ''a.db'' ''b.db'' = (?fs(''b.db'' \<mapsto> ''data''), Inr ())"
    unfolding Backup_def f using demo_trim by (simp add: f del: fun_upd_apply)
  have "writes_only {''a.db''} (demo_backup ''a.db'')" by (simp add: writes_only_def demo_backup_def)
  from backup_atomic [OF this _ x] show ?thesis using x by (simp add: f)
qed

text \<open>Opening a database that does not exist creates it, so a backup of a mistyped source succeeds: it makes the
  source and copies it, without any of the data that was to be saved.\<close>

theorem missing_source_backed_up:
  assumes "trim_space source \<noteq> []" "trim_space destination \<noteq> []" "fs source = None" "fs destination = None" "source \<noteq> destination"
    and "bk_open f fs = (fs(source \<mapsto> content), Inr ())" "bk_checkpoint f (fs(source \<mapsto> content)) = (fs(source \<mapsto> content), Inr ())"
    and "bk_mkdir f = Inr ()" "bk_copy f = Inr ()" "bk_sync f = Inr ()"
  shows "Backup f fs source destination = (bk_close f (fs(source \<mapsto> content, destination \<mapsto> content)), Inr ())"
  using assms by (simp add: Backup_def copy_out_def)

theorem missing_source_backed_up_witness:
  "Backup (demo_backup ''a.db'') Map.empty ''a.db'' ''b.db'' = ([''a.db'' \<mapsto> [], ''b.db'' \<mapsto> []], Inr ())"
  using missing_source_backed_up [of "''a.db''" "''b.db''" Map.empty "demo_backup ''a.db''" "[]"]
  by (simp add: demo_backup_def demo_trim)

end
