(* ===== verification/Paths.thy ===== *)
theory Paths
  imports GoStrings
begin

text \<open>
  The functions of Go's \<open>path/filepath\<close> the program uses, on Unix: \<open>Clean\<close>,
  \<open>Join\<close>, \<open>Dir\<close>, \<open>Abs\<close> (with the working directory as an argument) and
  \<open>Rel\<close> between absolute paths. All are lexical: they work on the elements between slashes.
\<close>

definition slash :: char where
  "slash = CHR ''/''"

definition rooted :: "string \<Rightarrow> bool" where
  "rooted path \<longleftrightarrow> has_prefix path ''/''"

text \<open>The elements that remain, the ones before in reverse order.\<close>

fun clean_parts :: "bool \<Rightarrow> string list \<Rightarrow> string list \<Rightarrow> string list" where
  "clean_parts root acc [] = rev acc"
| "clean_parts root acc (p # ps) =
    (if p = [] \<or> p = ''.'' then clean_parts root acc ps
     else if p = ''..'' then (case acc of
        [] \<Rightarrow> clean_parts root (if root then [] else [''..'']) ps
      | q # qs \<Rightarrow> clean_parts root (if q = ''..'' then ''..'' # acc else qs) ps)
     else clean_parts root (p # acc) ps)"

definition path_parts :: "string \<Rightarrow> string list" where
  "path_parts path = clean_parts (rooted path) [] (split slash path)"

definition path_text :: "bool \<Rightarrow> string list \<Rightarrow> string" where
  "path_text root parts = (if root then slash # join ''/'' parts else if parts = [] then ''.'' else join ''/'' parts)"

definition filepath_Clean :: "string \<Rightarrow> string" where
  "filepath_Clean path = path_text (rooted path) (path_parts path)"

definition filepath_Join :: "string list \<Rightarrow> string" where
  "filepath_Join elems = (case dropWhile (\<lambda>s. s = []) elems of [] \<Rightarrow> [] | es \<Rightarrow> filepath_Clean (join ''/'' es))"

text \<open>\<open>os.Getwd\<close> is asked for a relative path only.\<close>

definition filepath_Abs :: "string result \<Rightarrow> string \<Rightarrow> string result" where
  "filepath_Abs cwd path = (if rooted path then Inr (filepath_Clean path)
     else (case cwd of Inl err \<Rightarrow> Inl err | Inr wd \<Rightarrow> Inr (filepath_Join [wd, path])))"

fun drop_common :: "string list \<Rightarrow> string list \<Rightarrow> string list \<times> string list" where
  "drop_common (b # bs) (t # ts) = (if b = t then drop_common bs ts else (b # bs, t # ts))"
| "drop_common bs ts = (bs, ts)"

text \<open>\<open>Rel\<close> for two absolute paths.\<close>

definition filepath_Rel :: "string \<Rightarrow> string \<Rightarrow> string" where
  "filepath_Rel base targ = (if filepath_Clean base = filepath_Clean targ then ''.''
     else (case drop_common (path_parts base) (path_parts targ) of
       (bs, ts) \<Rightarrow> join ''/'' (map (\<lambda>_. ''..'') bs @ ts)))"

section \<open>Clean elements\<close>

definition plain_part :: "string \<Rightarrow> bool" where
  "plain_part p \<longleftrightarrow> p \<noteq> [] \<and> p \<noteq> ''.'' \<and> p \<noteq> ''..'' \<and> slash \<notin> set p"

lemma clean_parts_plain: "list_all plain_part ps \<Longrightarrow> clean_parts root acc ps = rev acc @ ps"
  by (induction ps arbitrary: acc) (auto simp: plain_part_def)

lemma clean_parts_root: "list_all plain_part acc \<Longrightarrow> \<forall>p \<in> set ps. slash \<notin> set p \<Longrightarrow>
    list_all plain_part (clean_parts True acc ps)"
proof (induction ps arbitrary: acc)
  case (Cons p ps)
  consider "p = []" | "p = ''.''" | "p = ''..''" | "plain_part p" using Cons.prems(2) by (auto simp: plain_part_def)
  then show ?case
  proof cases
    case 3
    show ?thesis
    proof (cases acc)
      case Nil
      then show ?thesis using Cons 3 by simp
    next
      case (Cons q qs)
      then have q: "plain_part q" "list_all plain_part qs" using Cons.prems(1) by simp_all
      then have "q \<noteq> ''..''" by (simp add: plain_part_def)
      then show ?thesis using 3 q \<open>acc = q # qs\<close> Cons.IH [of qs] Cons.prems(2) by simp
    qed
  qed (use Cons in \<open>simp_all add: plain_part_def\<close>)
qed simp

lemma path_parts_plain: "rooted path \<Longrightarrow> list_all plain_part (path_parts path)"
  by (simp add: path_parts_def clean_parts_root split_parts_no_sep)

lemma split_join_plain: "list_all plain_part ps \<Longrightarrow> ps \<noteq> [] \<Longrightarrow> split slash (join ''/'' ps) = ps"
proof (induction ps)
  case (Cons x ps)
  then have x: "slash \<notin> set x" by (simp add: plain_part_def)
  show ?case
  proof (cases ps)
    case Nil
    then show ?thesis using x by (simp add: split_no_sep)
  next
    case (Cons y ys)
    then have "join ''/'' (x # ps) = x @ slash # join ''/'' ps" by (simp add: slash_def)
    then show ?thesis using x Cons.IH Cons.prems Cons split_append_sep by simp
  qed
qed simp

text \<open>The text of a clean absolute path reads back as its elements.\<close>

lemma path_parts_text:
  assumes "list_all plain_part ps"
  shows "path_parts (path_text True ps) = ps"
proof (cases "ps = []")
  case True
  then show ?thesis by (simp add: path_parts_def path_text_def rooted_def has_prefix_def slash_def)
next
  case False
  then show ?thesis using assms split_join_plain [OF assms]
    by (simp add: path_parts_def path_text_def rooted_def has_prefix_def slash_def clean_parts_plain)
qed

lemma rooted_text [simp]: "rooted (path_text True ps)"
  by (simp add: rooted_def path_text_def has_prefix_def slash_def)

lemma Clean_rooted: "rooted path \<Longrightarrow> path_parts (filepath_Clean path) = path_parts path"
  by (simp add: filepath_Clean_def path_parts_text path_parts_plain)

lemma rooted_Clean: "rooted path \<Longrightarrow> rooted (filepath_Clean path)"
  by (simp add: filepath_Clean_def)

lemma Clean_idem: "rooted path \<Longrightarrow> filepath_Clean (filepath_Clean path) = filepath_Clean path"
  by (simp add: filepath_Clean_def path_parts_text path_parts_plain)

lemma path_text_inject: "list_all plain_part ps \<Longrightarrow> list_all plain_part qs \<Longrightarrow>
    path_text True ps = path_text True qs \<longleftrightarrow> ps = qs"
  by (metis path_parts_text)

lemma drop_common_spec: "drop_common bs ts = (bs', ts') \<Longrightarrow>
    (\<exists>c. bs = c @ bs' \<and> ts = c @ ts') \<and> (bs' = [] \<or> ts' = [] \<or> hd bs' \<noteq> hd ts')"
proof (induction bs ts arbitrary: bs' ts' rule: drop_common.induct)
  case (1 b bs t ts)
  show ?case
  proof (cases "b = t")
    case True
    then have d: "drop_common bs ts = (bs', ts')" using 1(2) by simp
    then obtain c where "bs = c @ bs'" "ts = c @ ts'" "bs' = [] \<or> ts' = [] \<or> hd bs' \<noteq> hd ts'"
      using 1(1) [OF True d] by blast
    then show ?thesis using True by (intro conjI exI [of _ "b # c"]) simp_all
  next
    case False
    then show ?thesis using 1(2) by auto
  qed
qed auto

lemma join_dotdot: "join ''/'' (''..'' # ps) = ''..'' \<or> has_prefix (join ''/'' (''..'' # ps)) ''../''"
  by (cases ps) (auto simp: has_prefix_def)

lemma join_plain: "list_all plain_part ps \<Longrightarrow> join ''/'' ps \<noteq> ''..'' \<and> \<not> has_prefix (join ''/'' ps) ''../''"
proof (cases ps rule: list.exhaust)
  case (Cons p qs)
  assume a: "list_all plain_part ps"
  then have p: "plain_part p" using Cons by simp
  have hp: "\<not> has_prefix (p @ s) ''../''" if "s = [] \<or> hd s = slash" for s
  proof
    assume "has_prefix (p @ s) ''../''"
    then obtain r where r: "p @ s = ''../'' @ r" by (auto simp: has_prefix_iff)
    show False
    proof (cases "List.length p \<ge> 3")
      case True
      then have "p ! 2 = slash" using arg_cong [OF r, of "\<lambda>x. x ! 2"] by (simp add: nth_append slash_def)
      then show False using p True by (auto simp: plain_part_def in_set_conv_nth)
    next
      case False
      then obtain a b where "p = [a] \<or> p = [a, b]"
        using p by (cases p; cases "tl p"; cases "tl (tl p)") (auto simp: plain_part_def)
      then have "p = ''.'' \<or> p = ''..''" using r by auto
      then show False using p by (simp add: plain_part_def)
    qed
  qed
  show ?thesis
  proof (cases qs)
    case Nil
    then show ?thesis using Cons p hp [of "[]"] by (simp add: plain_part_def)
  next
    case (Cons q rs)
    have e: "join ''/'' ps = p @ (slash # join ''/'' qs)" using Cons \<open>ps = p # qs\<close> by (simp add: slash_def)
    have "join ''/'' ps \<noteq> ''..''"
    proof
      assume "join ''/'' ps = ''..''"
      then have "slash \<in> set ''..''" using e by (metis in_set_conv_decomp)
      then show False by (simp add: slash_def)
    qed
    then show ?thesis using e hp [of "slash # join ''/'' qs"] by simp
  qed
qed (simp add: has_prefix_def)

text \<open>A relative path leads out of its base exactly when the base's elements are no prefix.\<close>

lemma Rel_inside:
  assumes "rooted base" "rooted targ"
  shows "(filepath_Rel base targ \<noteq> ''..'' \<and> \<not> has_prefix (filepath_Rel base targ) ''../'')
    \<longleftrightarrow> (\<exists>rest. path_parts targ = path_parts base @ rest)"
proof -
  note plain = path_parts_plain [OF assms(1)] path_parts_plain [OF assms(2)]
  obtain bs ts where d: "drop_common (path_parts base) (path_parts targ) = (bs, ts)" by force
  obtain c where c: "path_parts base = c @ bs" "path_parts targ = c @ ts" "bs = [] \<or> ts = [] \<or> hd bs \<noteq> hd ts"
    using drop_common_spec [OF d] by blast
  have inside: "(\<exists>rest. path_parts targ = path_parts base @ rest) \<longleftrightarrow> bs = []"
    using c by (cases bs; cases ts) auto
  have same: "filepath_Clean base = filepath_Clean targ \<longleftrightarrow> path_parts base = path_parts targ"
    using assms plain by (simp add: filepath_Clean_def path_text_inject)
  show ?thesis
  proof (cases "path_parts base = path_parts targ")
    case True
    then have "bs = []" using c by (cases bs; cases ts) auto
    then show ?thesis using True same inside by (simp add: filepath_Rel_def has_prefix_def)
  next
    case False
    then have r: "filepath_Rel base targ = join ''/'' (map (\<lambda>_. ''..'') bs @ ts)"
      using same d by (simp add: filepath_Rel_def)
    show ?thesis
    proof (cases bs)
      case Nil
      have "list_all plain_part ts" using plain(2) c(2) by simp
      then show ?thesis using r Nil inside join_plain [of ts] by simp
    next
      case (Cons b bs')
      then show ?thesis using r inside join_dotdot [of "map (\<lambda>_. ''..'') bs' @ ts"] by auto
    qed
  qed
qed

end
