(* ===== verification/Maintenance.thy ===== *)
theory Maintenance
  imports Paths Encoding Api
begin

text \<open>
  What an agent runs (\<open>src/internal/maintenance/\<close>): the checks of unit names and paths, the
  bounded output buffer and the runner, the command lines of the typed operations, the cleanup and
  reboot confirmations, and the dispatcher that turns a job into a result.
\<close>

section \<open>Checks\<close>

text \<open>
  The characters are compared as runes; a rune that is not ASCII is refused, as each byte of its
  encoding is here.
\<close>

definition unit_char :: "char \<Rightarrow> bool" where
  "unit_char c \<longleftrightarrow> (97 \<le> byte c \<and> byte c \<le> 122) \<or> (65 \<le> byte c \<and> byte c \<le> 90) \<or> is_ascii_digit c
     \<or> c \<in> set ''_.@:-''"

definition ValidateUnit :: "string \<Rightarrow> unit result" where
  "ValidateUnit u = (if u = [] \<or> List.length u > 256 \<or> list_ex (\<lambda>c. c \<in> set ''/;|&`$ '' \<or> c \<in> {CHR 0x5C, CHR 0x0A, CHR 0x0D, CHR 0x09}) u
     then Inl (Error ''invalid systemd unit'')
     else if \<not> list_all unit_char u then Inl (Error ''invalid systemd unit'')
     else Inr ())"

fun find_root :: "string result \<Rightarrow> string list \<Rightarrow> string \<Rightarrow> string result" where
  "find_root cwd [] clean = Inl (Error ''path outside allowlist'')"
| "find_root cwd (root # roots) clean = (case filepath_Abs cwd root of
     Inl err \<Rightarrow> find_root cwd roots clean
   | Inr r \<Rightarrow> (let rel = filepath_Rel (filepath_Clean r) clean in
       if rel \<noteq> ''..'' \<and> \<not> has_prefix rel ''../'' then Inr clean else find_root cwd roots clean))"

definition ValidatePath :: "string result \<Rightarrow> string list \<Rightarrow> string \<Rightarrow> string result" where
  "ValidatePath cwd allowed path = (case filepath_Abs cwd path of
     Inl err \<Rightarrow> Inl err
   | Inr p \<Rightarrow> find_root cwd allowed (filepath_Clean p))"

section \<open>Running commands\<close>

record run_result =
  ru_output :: bytes
  ru_exit :: int
  ru_truncated :: bool
  ru_err :: "error option"

definition no_result :: run_result where
  "no_result = \<lparr>ru_output = [], ru_exit = 0, ru_truncated = False, ru_err = None\<rparr>"

record limitedBuffer =
  lb_data :: bytes
  lb_max :: int
  lb_truncated :: bool

text \<open>\<open>Write\<close> always reports that it took everything, so the command is never blocked.\<close>

definition Write :: "bytes \<Rightarrow> limitedBuffer \<Rightarrow> limitedBuffer" where
  "Write p b = (let remaining = lb_max b - int (List.length (lb_data b)) in
     if remaining \<le> 0 then b\<lparr>lb_truncated := True\<rparr>
     else if int (List.length p) > remaining
       then b\<lparr>lb_truncated := True, lb_data := lb_data b @ take (nat remaining) p\<rparr>
     else b\<lparr>lb_data := lb_data b @ p\<rparr>)"

definition new_buffer :: "int \<Rightarrow> limitedBuffer" where
  "new_buffer mx = \<lparr>lb_data = [], lb_max = mx, lb_truncated = False\<rparr>"

text \<open>
  How a command went: it could not be started, it ended by itself after writing some pieces, or the
  context ended first and its process group was killed.
\<close>

datatype process =
    NotStarted error
  | Exited "bytes list" "error option" int
  | Stopped "bytes list" error

definition Run :: "int \<Rightarrow> process \<Rightarrow> run_result" where
  "Run mx proc = (if mx \<le> 0 then no_result\<lparr>ru_err := Some (Error ''output limit required'')\<rparr>
     else (case proc of
       NotStarted err \<Rightarrow> no_result\<lparr>ru_err := Some err\<rparr>
     | Exited pieces err status \<Rightarrow> (let b = fold Write pieces (new_buffer mx) in
         \<lparr>ru_output = lb_data b, ru_exit = status, ru_truncated = lb_truncated b, ru_err = err\<rparr>)
     | Stopped pieces err \<Rightarrow> (let b = fold Write pieces (new_buffer mx) in
         \<lparr>ru_output = lb_data b, ru_exit = - 1, ru_truncated = lb_truncated b, ru_err = Some err\<rparr>)))"

section \<open>Command lines\<close>

definition Processes :: "u32 \<Rightarrow> string list" where
  "Processes limit = (if limit = 0 \<or> limit > 1000 then []
     else [''ps'', ''-eo'', ''pid=,ppid=,user=,stat=,etimes=,comm='', ''--sort=-etimes''])"

definition ListServices_argv :: "u32 \<Rightarrow> string list" where
  "ListServices_argv limit = (if limit = 0 \<or> limit > 1000 then []
     else [''systemctl'', ''list-units'', ''--type=service'', ''--all'', ''--no-legend'', ''--no-pager'', ''--plain''])"

definition Service :: "string \<Rightarrow> string \<Rightarrow> string list" where
  "Service action u = (if \<not> ok (ValidateUnit u) then []
     else if action = ''status''
       then [''systemctl'', ''show'', u, ''--no-pager'', ''--property=Id,LoadState,ActiveState,SubState,Description'']
     else if action \<in> {''start'', ''stop'', ''restart''} then [''systemctl'', action, ''--'', u]
     else [])"

definition Journal :: "string \<Rightarrow> time \<Rightarrow> time \<Rightarrow> u32 \<Rightarrow> string list" where
  "Journal u since until limit =
    (if \<not> ok (ValidateUnit u) \<or> limit = 0 \<or> limit > 10000 \<or> is_zero since \<or> is_zero until \<or> \<not> until > since then []
     else [''journalctl'', ''--unit'', u, ''--since'', CHR ''@'' # dec_of_int (unix since),
       ''--until'', CHR ''@'' # dec_of_int (unix until), ''--lines'', dec_of_nat (unat limit),
       ''--no-pager'', ''--output=short-iso''])"

section \<open>Cleanup previews\<close>

record Preview =
  pv_id :: string
  pv_hash :: bytes
  pv_expires :: time
  pv_paths :: "string list"

record CleanupManager =
  cm_allowed :: "string list"
  cm_ttl :: duration
  cm_previews :: "string \<rightharpoonup> Preview"

definition NewCleanupManager :: "string list \<Rightarrow> duration \<Rightarrow> CleanupManager" where
  "NewCleanupManager allowed ttl = \<lparr>cm_allowed = allowed, cm_ttl = ttl, cm_previews = Map.empty\<rparr>"

fun validate_all :: "string result \<Rightarrow> string list \<Rightarrow> string list \<Rightarrow> string list result" where
  "validate_all cwd allowed [] = Inr []"
| "validate_all cwd allowed (p # ps) = (case ValidatePath cwd allowed p of
     Inl err \<Rightarrow> Inl err
   | Inr v \<Rightarrow> (case validate_all cwd allowed ps of Inl err \<Rightarrow> Inl err | Inr vs \<Rightarrow> Inr (v # vs)))"

text \<open>A failing entropy source is ignored: the identifier's bytes then stay zero.\<close>

definition Preview_paths :: "crypto \<Rightarrow> env \<Rightarrow> string result \<Rightarrow> CleanupManager \<Rightarrow> string list \<Rightarrow> time
    \<Rightarrow> CleanupManager \<times> Preview result" where
  "Preview_paths cr e cwd m paths now =
    (if paths = [] then (m, Inl (Error ''cleanup paths required''))
     else case validate_all cwd (cm_allowed m) paths of
       Inl err \<Rightarrow> (m, Inl err)
     | Inr clean \<Rightarrow>
        (let raw = (case rand_read e 0 16 of Inl err \<Rightarrow> replicate 16 (CHR 0x00) | Inr bs \<Rightarrow> bs);
             ident = hex_encode raw;
             p = \<lparr>pv_id = ident, pv_hash = sha256 cr (join [CHR 0x00] clean), pv_expires = now + cm_ttl m, pv_paths = clean\<rparr>
         in (m\<lparr>cm_previews := (cm_previews m)(ident \<mapsto> p)\<rparr>, Inr p)))"

text \<open>The paths \<open>RemoveAll\<close> was called on successfully, and the error that stopped the loop.\<close>

fun remove_all :: "string result \<Rightarrow> string list \<Rightarrow> (string \<Rightarrow> error option) \<Rightarrow> string list \<Rightarrow> string list \<times> unit result" where
  "remove_all cwd allowed rm [] = ([], Inr ())"
| "remove_all cwd allowed rm (p # ps) = (case ValidatePath cwd allowed p of
     Inl err \<Rightarrow> ([], Inl err)
   | Inr v \<Rightarrow> (case rm p of
       Some err \<Rightarrow> ([], Inl err)
     | None \<Rightarrow> (case remove_all cwd allowed rm ps of (done, res) \<Rightarrow> (p # done, res))))"

definition Execute_cleanup :: "string result \<Rightarrow> (string \<Rightarrow> error option) \<Rightarrow> CleanupManager \<Rightarrow> string \<Rightarrow> bytes \<Rightarrow> time
    \<Rightarrow> CleanupManager \<times> string list \<times> unit result" where
  "Execute_cleanup cwd rm m ident hash now =
    (let m' = m\<lparr>cm_previews := (cm_previews m)(ident := None)\<rparr> in
     case cm_previews m ident of
       None \<Rightarrow> (m, [], Inl (Error ''invalid cleanup preview''))
     | Some p \<Rightarrow>
        if now > pv_expires p \<or> hash \<noteq> pv_hash p then (m', [], Inl (Error ''invalid cleanup preview''))
        else (m', remove_all cwd (cm_allowed m) rm (pv_paths p)))"

section \<open>Reboot confirmations\<close>

record rebootConfirmation =
  rc_agent :: string
  rc_expires :: time

record RebootManager =
  rm_ttl :: duration
  rm_tokens :: "string \<rightharpoonup> rebootConfirmation"

definition NewRebootManager :: "duration \<Rightarrow> RebootManager" where
  "NewRebootManager ttl = \<lparr>rm_ttl = ttl, rm_tokens = Map.empty\<rparr>"

definition Confirm :: "env \<Rightarrow> RebootManager \<Rightarrow> string \<Rightarrow> time \<Rightarrow> RebootManager \<times> string result" where
  "Confirm e m agent now =
    (if agent = [] \<or> rm_ttl m \<le> 0 then (m, Inl (Error ''agent and positive TTL required''))
     else case rand_read e 0 32 of
       Inl err \<Rightarrow> (m, Inl err)
     | Inr raw \<Rightarrow> (m\<lparr>rm_tokens := (rm_tokens m)(hex_encode raw \<mapsto> \<lparr>rc_agent = agent, rc_expires = now + rm_ttl m\<rparr>)\<rparr>,
         Inr (hex_encode raw)))"

definition Consume :: "RebootManager \<Rightarrow> string \<Rightarrow> string \<Rightarrow> time \<Rightarrow> RebootManager \<times> unit result" where
  "Consume m agent token now = (case rm_tokens m token of
     None \<Rightarrow> (m, Inl (Error ''invalid reboot confirmation''))
   | Some c \<Rightarrow>
      if rc_agent c \<noteq> agent then (m, Inl (Error ''invalid reboot confirmation''))
      else (m\<lparr>rm_tokens := (rm_tokens m)(token := None)\<rparr>,
        if now > rc_expires c then Inl (Error ''invalid reboot confirmation'') else Inr ()))"

section \<open>The dispatcher\<close>

record Dispatcher =
  di_max_output :: int
  di_timeout :: duration

definition protocolError :: "int \<Rightarrow> string \<Rightarrow> bool \<Rightarrow> ProtocolError" where
  "protocolError c message retryable = \<lparr>pe_code = c, pe_message = message, pe_retryable = retryable\<rparr>"

text \<open>The command line of a job, or the error that rejects it.\<close>

definition unsafe_argv :: "Job \<Rightarrow> UnsafeOperation option \<Rightarrow> ProtocolError + string list" where
  "unsafe_argv job operation = (case operation of
     Some (ArbitraryCommand c) \<Rightarrow>
      if ac_command c = [] \<or> \<not> (case job_authorization job of None \<Rightarrow> False | Some a \<Rightarrow> az_confirmed a)
      then Inl (protocolError ERR_INVALID_ARGUMENT ''confirmed command required'' False)
      else Inr [''/bin/sh'', ''-c'', ac_command c]
   | Some (Reboot r) \<Rightarrow>
      if rb_target r \<noteq> job_agent job \<or> rb_confirmation r = []
      then Inl (protocolError ERR_INVALID_ARGUMENT ''target confirmation required'' False)
      else Inr [''systemctl'', ''reboot'']
   | _ \<Rightarrow> Inl (protocolError ERR_UNSUPPORTED ''unsupported unsafe operation'' False))"

definition safe_argv :: "TypedOperation \<Rightarrow> ProtocolError + string list" where
  "safe_argv operation = (case operation of
     ProcessList limit \<Rightarrow> Inr (Processes limit)
   | ServiceList limit \<Rightarrow> Inr (ListServices_argv limit)
   | ServiceStatus u \<Rightarrow> Inr (Service ''status'' u)
   | ServiceStart u \<Rightarrow> Inr (Service ''start'' u)
   | ServiceStop u \<Rightarrow> Inr (Service ''stop'' u)
   | ServiceRestart u \<Rightarrow> Inr (Service ''restart'' u)
   | JournalRead u since until limit \<Rightarrow> Inr (Journal u (from_unix_milli since) (from_unix_milli until) limit)
   | _ \<Rightarrow> Inl (protocolError ERR_UNSUPPORTED ''unsupported typed operation'' False))"

definition job_argv :: "Job \<Rightarrow> ProtocolError + string list" where
  "job_argv job = (case job_operation job of
     UnsafeOperation operation \<Rightarrow> unsafe_argv job operation
   | SafeOperation (Some operation) retry \<Rightarrow> safe_argv operation
   | _ \<Rightarrow> Inl (protocolError ERR_UNSUPPORTED ''operation required'' False))"

text \<open>The state and error a finished command gives the result.\<close>

definition run_state :: "error option \<Rightarrow> int \<times> ProtocolError option" where
  "run_state err = (case err of
     None \<Rightarrow> (JOB_SUCCEEDED, None)
   | Some Canceled \<Rightarrow> (JOB_CANCELLED, None)
   | Some DeadlineExceeded \<Rightarrow> (JOB_TIMED_OUT, Some (protocolError ERR_DEADLINE_EXCEEDED (error_text DeadlineExceeded) False))
   | Some other \<Rightarrow> (JOB_FAILED, Some (protocolError ERR_INTERNAL (error_text other) False)))"

text \<open>\<open>proc\<close> says how a command line run with a timeout goes; \<open>cancelled\<close> is the context's error at the call.\<close>

definition Dispatch_job :: "(duration \<Rightarrow> string list \<Rightarrow> process) \<Rightarrow> error option \<Rightarrow> Dispatcher \<Rightarrow> Job \<Rightarrow> JobResult" where
  "Dispatch_job proc cancelled d job =
    (let result = \<lparr>jr_job = job_id job, jr_state = JOB_REJECTED, jr_exit = 0, jr_error = None, jr_truncated = False,
           jr_dispatch = job_dispatch job, jr_attempt = job_attempt job, jr_output = []\<rparr> in
     case cancelled of
       Some err \<Rightarrow> result\<lparr>jr_state := JOB_CANCELLED, jr_error := Some (protocolError ERR_DEADLINE_EXCEEDED (error_text err) False)\<rparr>
     | None \<Rightarrow> (case job_argv job of
         Inl err \<Rightarrow> result\<lparr>jr_error := Some err\<rparr>
       | Inr argv \<Rightarrow>
          if argv = [] then result\<lparr>jr_error := Some (protocolError ERR_INVALID_ARGUMENT ''invalid operation arguments'' False)\<rparr>
          else (let run = Run (di_max_output d) (proc (if di_timeout d \<le> 0 then minute else di_timeout d) argv)
                in result\<lparr>jr_exit := ru_exit run, jr_truncated := ru_truncated run, jr_output := ru_output run,
                     jr_state := fst (run_state (ru_err run)), jr_error := snd (run_state (ru_err run))\<rparr>)))"

section \<open>Paths stay inside the allowed roots\<close>

text \<open>The elements of a path seen from the working directory.\<close>

definition abs_parts :: "string \<Rightarrow> string \<Rightarrow> string list" where
  "abs_parts wd path = clean_parts True [] (split slash (if rooted path then path else wd @ slash # path))"

lemma Abs_parts: "rooted wd \<Longrightarrow> filepath_Abs (Inr wd) path = Inr (path_text True (abs_parts wd path))"
proof -
  assume wd: "rooted wd"
  then have "wd \<noteq> []" "rooted (wd @ slash # path)" by (auto simp: rooted_def has_prefix_iff)
  then show ?thesis
    by (simp add: filepath_Abs_def abs_parts_def filepath_Join_def filepath_Clean_def path_parts_def slash_def)
qed

lemma abs_parts_plain: "list_all plain_part (abs_parts wd path)"
  by (simp add: abs_parts_def clean_parts_root split_parts_no_sep)

lemma find_root_inside:
  assumes "rooted wd" "list_all plain_part ps"
  shows "find_root (Inr wd) roots (path_text True ps) =
    (if \<exists>root \<in> set roots. \<exists>rest. ps = abs_parts wd root @ rest then Inr (path_text True ps)
     else Inl (Error ''path outside allowlist''))"
proof (induction roots)
  case (Cons root roots)
  have "path_parts (filepath_Clean (path_text True (abs_parts wd root))) = abs_parts wd root"
    by (simp add: Clean_rooted path_parts_text abs_parts_plain)
  then have "(filepath_Rel (filepath_Clean (path_text True (abs_parts wd root))) (path_text True ps) \<noteq> ''..''
      \<and> \<not> has_prefix (filepath_Rel (filepath_Clean (path_text True (abs_parts wd root))) (path_text True ps)) ''../'')
    \<longleftrightarrow> (\<exists>rest. ps = abs_parts wd root @ rest)"
    using Rel_inside [of "filepath_Clean (path_text True (abs_parts wd root))" "path_text True ps"] assms
    by (simp add: rooted_Clean path_parts_text)
  then show ?case using Cons assms by (simp add: Abs_parts Let_def)
qed simp

text \<open>C21. A path is accepted exactly when, seen from the working directory and with its dots resolved, it lies
  in one of the allowed roots; what is returned is that clean absolute path.\<close>

theorem validate_path_inside:
  assumes "rooted wd"
  shows "ValidatePath (Inr wd) allowed path =
    (if \<exists>root \<in> set allowed. \<exists>rest. abs_parts wd path = abs_parts wd root @ rest
     then Inr (path_text True (abs_parts wd path)) else Inl (Error ''path outside allowlist''))"
  using assms abs_parts_plain [of wd path]
  by (simp add: ValidatePath_def Abs_parts filepath_Clean_def path_parts_text find_root_inside)

theorem validate_path_inside_witness:
  "ValidatePath (Inr ''/srv'') [''/var/tmp'', ''cache''] ''cache/../cache/a'' = Inr ''/srv/cache/a''
   \<and> ValidatePath (Inr ''/srv'') [''/var/tmp'', ''cache''] ''/var/tmp/../log'' = Inl (Error ''path outside allowlist'')"
proof -
  have r: "rooted ''/srv''" by (simp add: rooted_def has_prefix_def)
  show ?thesis
    unfolding validate_path_inside [OF r]
    by (simp add: abs_parts_def rooted_def has_prefix_def slash_def path_text_def)
qed

section \<open>Output stays within its limit\<close>

interpretation run_buffer: bounded Write "\<lambda>b. List.length (lb_data b)" "\<lambda>b. nat (lb_max b)"
  by unfold_locales (auto simp: Write_def Let_def)

lemma Write_fold:
  assumes "mx > 0" "\<forall>p \<in> set pieces. p \<noteq> []"
  shows "fold Write pieces \<lparr>lb_data = take (nat mx) done, lb_max = mx, lb_truncated = int (List.length done) > mx\<rparr>
    = \<lparr>lb_data = take (nat mx) (done @ concat pieces), lb_max = mx, lb_truncated = int (List.length (done @ concat pieces)) > mx\<rparr>"
  using assms(2)
proof (induction pieces arbitrary: "done")
  case (Cons p ps)
  have "Write p \<lparr>lb_data = take (nat mx) done, lb_max = mx, lb_truncated = int (List.length done) > mx\<rparr>
    = \<lparr>lb_data = take (nat mx) (done @ p), lb_max = mx, lb_truncated = int (List.length (done @ p)) > mx\<rparr>"
    using assms(1) Cons.prems by (cases p) (auto simp: Write_def Let_def min_def nat_diff_distrib)
  then show ?case using Cons.IH [of "done @ p"] Cons.prems by simp
qed simp

definition run_pieces :: "process \<Rightarrow> bytes list" where
  "run_pieces proc = (case proc of NotStarted err \<Rightarrow> [] | Exited ps err status \<Rightarrow> ps | Stopped ps err \<Rightarrow> ps)"

text \<open>Whatever a command writes, and however it ends, its recorded output is the beginning of what it wrote,
  as long as the limit allows, and it is marked as truncated exactly when something was cut off.\<close>

theorem run_output_exact:
  assumes "mx > 0" "\<forall>p \<in> set (run_pieces proc). p \<noteq> []"
  shows "ru_output (Run mx proc) = take (nat mx) (concat (run_pieces proc))
    \<and> (ru_truncated (Run mx proc) \<longleftrightarrow> int (List.length (concat (run_pieces proc))) > mx)"
  using assms Write_fold [of mx "run_pieces proc" "[]"]
  by (cases proc) (simp_all add: Run_def run_pieces_def new_buffer_def no_result_def Let_def)

theorem run_output_exact_witness:
  "ru_output (Run 3 (Exited [''ab'', ''cd''] None 0)) = ''abc'' \<and> ru_truncated (Run 3 (Exited [''ab'', ''cd''] None 0))"
  using run_output_exact [of 3 "Exited [''ab'', ''cd''] None 0"] by (simp add: run_pieces_def)

section \<open>What a job can run\<close>

definition plain_unit :: "string \<Rightarrow> bool" where
  "plain_unit u \<longleftrightarrow> u \<noteq> [] \<and> List.length u \<le> 256 \<and> list_all unit_char u"

lemma unit_char_plain: "unit_char c \<Longrightarrow> c \<notin> set ''/;|&`$ '' \<and> c \<notin> {CHR 0x5C, CHR 0x0A, CHR 0x0D, CHR 0x09}"
  by (auto simp: unit_char_def is_ascii_digit_def byte_def)

lemma ValidateUnit_iff: "ok (ValidateUnit u) \<longleftrightarrow> plain_unit u"
  using unit_char_plain by (auto simp: ValidateUnit_def plain_unit_def list_all_iff list_ex_iff)

text \<open>
  The command lines that typed operations can lead to: a fixed program and fixed options, a plain
  unit name, and decimal numbers.
\<close>

definition typed_argv :: "string list \<Rightarrow> bool" where
  "typed_argv argv \<longleftrightarrow>
     argv = Processes 1 \<or> argv = ListServices_argv 1
   \<or> (\<exists>u. plain_unit u \<and> argv = [''systemctl'', ''show'', u, ''--no-pager'', ''--property=Id,LoadState,ActiveState,SubState,Description''])
   \<or> (\<exists>u action. plain_unit u \<and> action \<in> {''start'', ''stop'', ''restart''} \<and> argv = [''systemctl'', action, ''--'', u])
   \<or> (\<exists>u since until limit. plain_unit u \<and> since < until \<and> 0 < limit \<and> limit \<le> 10000
        \<and> argv = [''journalctl'', ''--unit'', u, ''--since'', CHR ''@'' # dec_of_int (since div 1000), ''--until'',
            CHR ''@'' # dec_of_int (until div 1000), ''--lines'', dec_of_nat limit, ''--no-pager'', ''--output=short-iso''])"

lemma unix_of_milli: "unix (from_unix_milli ms) = ms div 1000"
proof -
  have "ms * 1000000 div (1000000 * 1000) = ms * 1000000 div 1000000 div 1000"
    by (rule zdiv_zmult2_eq) simp
  then show ?thesis by (simp add: go_time)
qed

lemma Processes_cases: "Processes limit \<noteq> [] \<Longrightarrow> typed_argv (Processes limit)"
  by (simp add: Processes_def typed_argv_def split: if_splits)

lemma ListServices_cases: "ListServices_argv limit \<noteq> [] \<Longrightarrow> typed_argv (ListServices_argv limit)"
  by (simp add: ListServices_argv_def typed_argv_def split: if_splits)

lemma Service_cases: "Service action u \<noteq> [] \<Longrightarrow> typed_argv (Service action u)"
  by (auto simp: Service_def typed_argv_def ValidateUnit_iff split: if_splits)

lemma Journal_cases:
  assumes "Journal u (from_unix_milli since) (from_unix_milli til) limit \<noteq> []"
  shows "typed_argv (Journal u (from_unix_milli since) (from_unix_milli til) limit)"
proof -
  have u: "plain_unit u" and l: "limit \<noteq> 0" "limit \<le> 10000" and t: "since < til"
    using assms by (auto simp: Journal_def ValidateUnit_iff from_unix_milli_def split: if_splits)
  have n: "0 < unat limit" "unat limit \<le> 10000"
    using l by (simp_all add: unat_gt_0 word_le_nat_alt)
  have "Journal u (from_unix_milli since) (from_unix_milli til) limit
    = [''journalctl'', ''--unit'', u, ''--since'', CHR ''@'' # dec_of_int (since div 1000), ''--until'',
        CHR ''@'' # dec_of_int (til div 1000), ''--lines'', dec_of_nat (unat limit), ''--no-pager'', ''--output=short-iso'']"
    using assms by (simp add: Journal_def unix_of_milli split: if_splits)
  then show ?thesis using u n t unfolding typed_argv_def by blast
qed

lemma safe_argv_typed: "safe_argv operation = Inr argv \<Longrightarrow> argv \<noteq> [] \<Longrightarrow> typed_argv argv"
  by (cases operation) (auto simp: safe_argv_def intro: Processes_cases ListServices_cases Service_cases Journal_cases)


definition demo_status_job :: Job where
  "demo_status_job = \<lparr>job_id = ''j'', job_actor = ''u'', job_agent = ''a'', job_created = 0, job_deadline = 10,
     job_authorization = None, job_operation = SafeOperation (Some (ServiceStatus ''nginx.service'')) 0,
     job_state = JOB_DISPATCHED, job_attempt = 1, job_dispatch = ''d'', job_idempotency = ''k''\<rparr>"


section \<open>What a result says\<close>

lemma run_state_succeeded: "fst (run_state err) = JOB_SUCCEEDED \<longleftrightarrow> err = None"
  by (auto simp: run_state_def JOB_SUCCEEDED_def JOB_CANCELLED_def JOB_TIMED_OUT_def JOB_FAILED_def
      split: option.split error.split)

lemma run_state_not_rejected: "fst (run_state err) \<noteq> JOB_REJECTED"
  by (auto simp: run_state_def JOB_SUCCEEDED_def JOB_CANCELLED_def JOB_TIMED_OUT_def JOB_FAILED_def JOB_REJECTED_def
      split: option.split error.split)

lemma run_output_bound: "int (List.length (ru_output (Run mx proc))) \<le> max 0 mx"
proof (cases "mx \<le> 0")
  case False
  have "List.length (lb_data (fold Write ps (new_buffer mx))) \<le> nat mx" for ps
    using run_buffer.size_fold [of "new_buffer mx" ps] run_buffer.bound_fold [of ps "new_buffer mx"]
    by (simp add: new_buffer_def)
  then show ?thesis using False by (cases proc) (auto simp: Run_def no_result_def Let_def le_nat_iff)
qed (simp add: Run_def no_result_def)

text \<open>A result names its job, dispatch and attempt. It says that the job succeeded exactly when a process was
  started for it and ended without an error; it says rejected exactly when the job has no acceptable command
  line, and then nothing was run; and its output never exceeds the limit.\<close>

theorem dispatch_result_truthful:
  "case Dispatch_job proc cancelled d job of r \<Rightarrow>
     jr_job r = job_id job \<and> jr_dispatch r = job_dispatch job \<and> jr_attempt r = job_attempt job
   \<and> (jr_state r = JOB_SUCCEEDED \<longleftrightarrow> cancelled = None \<and> (\<exists>argv. job_argv job = Inr argv \<and> argv \<noteq> []
        \<and> ru_err (Run (di_max_output d) (proc (if di_timeout d \<le> 0 then minute else di_timeout d) argv)) = None))
   \<and> (jr_state r = JOB_REJECTED \<longleftrightarrow> cancelled = None \<and> (job_argv job = Inr [] \<or> (\<exists>err. job_argv job = Inl err)))
   \<and> int (List.length (jr_output r)) \<le> max 0 (di_max_output d)"
proof -
  have ne: "JOB_REJECTED \<noteq> JOB_SUCCEEDED" "JOB_CANCELLED \<noteq> JOB_SUCCEEDED" "JOB_CANCELLED \<noteq> JOB_REJECTED"
    by (simp_all add: JOB_SUCCEEDED_def JOB_CANCELLED_def JOB_REJECTED_def)
  show ?thesis
    using run_output_bound [of "di_max_output d"] ne
    by (auto simp: Dispatch_job_def Let_def run_state_succeeded run_state_not_rejected split: option.splits sum.splits)
qed

section \<open>Confirmations\<close>

lemma remove_all_prefix:
  assumes "remove_all cwd allowed rm ps = (removed, res)"
  shows "(\<exists>rest. ps = removed @ rest) \<and> (res = Inr () \<longrightarrow> removed = ps) \<and> (\<forall>p \<in> set removed. ok (ValidatePath cwd allowed p))"
  using assms
  by (induction ps arbitrary: removed res) (auto split: sum.splits option.splits prod.splits)

text \<open>A cleanup removes nothing but paths of the preview it names, in order, with the preview's own hash and
  before its expiry, each of them checked again to lie in the allowed roots; it succeeds only when it removed
  them all. Whatever comes of it, the preview cannot be executed again.\<close>

theorem cleanup_only_previewed:
  assumes "Execute_cleanup cwd rm m ident hash now = (m', removed, res)"
  shows "cm_previews m' ident = None
    \<and> (removed = [] \<and> \<not> ok res \<or> (\<exists>p. cm_previews m ident = Some p \<and> hash = pv_hash p \<and> now \<le> pv_expires p
         \<and> (\<exists>rest. pv_paths p = removed @ rest) \<and> (ok res \<longrightarrow> removed = pv_paths p)
         \<and> (\<forall>q \<in> set removed. ok (ValidatePath cwd (cm_allowed m) q))))"
  using assms remove_all_prefix [of cwd "cm_allowed m" rm _ removed res]
  by (auto simp: Execute_cleanup_def Let_def ok_iff split: option.splits if_splits)

definition demo_preview :: Preview where
  "demo_preview = \<lparr>pv_id = ''01'', pv_hash = sha256 toy_crypto ''/tmp/a'', pv_expires = minute, pv_paths = [''/tmp/a'']\<rparr>"

definition demo_cleanup :: CleanupManager where
  "demo_cleanup = \<lparr>cm_allowed = [''/tmp''], cm_ttl = minute, cm_previews = [''01'' \<mapsto> demo_preview]\<rparr>"

theorem cleanup_only_previewed_witness:
  "case Execute_cleanup (Inr ''/'') (\<lambda>_. None) demo_cleanup ''01'' (sha256 toy_crypto ''/tmp/a'') 5 of (m', removed, res) \<Rightarrow>
    removed = [''/tmp/a''] \<and> ok res \<and> cm_previews m' ''01'' = None"
proof -
  have r: "rooted ''/''" by (simp add: rooted_def has_prefix_def)
  have v: "ValidatePath (Inr ''/'') [''/tmp''] ''/tmp/a'' = Inr ''/tmp/a''"
    unfolding validate_path_inside [OF r]
    by (simp add: abs_parts_def rooted_def has_prefix_def slash_def path_text_def)
  obtain m' removed res where e: "Execute_cleanup (Inr ''/'') (\<lambda>_. None) demo_cleanup ''01'' (sha256 toy_crypto ''/tmp/a'') 5
      = (m', removed, res)" by (metis prod.exhaust)
  moreover have "removed = [''/tmp/a'']" "ok res"
    using e v by (auto simp: Execute_cleanup_def demo_cleanup_def demo_preview_def minute_def Let_def)
  ultimately show ?thesis using cleanup_only_previewed [OF e] by simp
qed

text \<open>How often a token was issued and how often it was accepted over a run of confirmations.\<close>

datatype reboot_op = DoConfirm env string time | DoConsume string string time

fun reboot_counts :: "string \<Rightarrow> reboot_op list \<Rightarrow> RebootManager \<Rightarrow> nat \<times> nat" where
  "reboot_counts token [] m = (0, 0)"
| "reboot_counts token (DoConfirm e agent now # ops) m = (case Confirm e m agent now of (m', res) \<Rightarrow>
     (case reboot_counts token ops m' of (i, c) \<Rightarrow> (if res = Inr token then i + 1 else i, c)))"
| "reboot_counts token (DoConsume agent t now # ops) m = (case Consume m agent t now of (m', res) \<Rightarrow>
     (case reboot_counts token ops m' of (i, c) \<Rightarrow> (i, if t = token \<and> ok res then c + 1 else c)))"

lemma reboot_balance:
  "snd (reboot_counts token ops m) \<le> fst (reboot_counts token ops m) + (if rm_tokens m token = None then 0 else 1)"
proof (induction token ops m rule: reboot_counts.induct)
  case (2 token e agent now ops m)
  obtain m' res where c: "Confirm e m agent now = (m', res)" by force
  have "rm_tokens m' token = rm_tokens m token \<or> res = Inr token"
    using c by (auto simp: Confirm_def split: if_splits sum.splits)
  then show ?case using 2 [OF c [symmetric]] c by (auto split: prod.split if_splits)
next
  case (3 token agent t now ops m)
  obtain m' res where c: "Consume m agent t now = (m', res)" by force
  have "rm_tokens m' token = rm_tokens m token \<and> \<not> (t = token \<and> ok res) \<or> rm_tokens m' token = None"
    "t = token \<Longrightarrow> ok res \<Longrightarrow> rm_tokens m token \<noteq> None"
    using c by (auto simp: Consume_def split: if_splits option.splits)
  then show ?case using 3 [OF c [symmetric]] c by (auto split: prod.split)
qed simp

text \<open>A reboot confirmation is good for one reboot: however confirmations are issued and presented, each token is
  accepted at most as often as it was issued.\<close>

theorem reboot_confirmed_once:
  "snd (reboot_counts token ops (NewRebootManager ttl)) \<le> fst (reboot_counts token ops (NewRebootManager ttl))"
  using reboot_balance [of token ops "NewRebootManager ttl"] by (simp add: NewRebootManager_def)

text \<open>The dispatcher consults neither manager: a cleanup preview or run that the validator accepted and queued is
  always rejected as unsupported, and any non-empty text confirms a reboot.\<close>

theorem confirmations_not_consulted:
  "job_argv (job\<lparr>job_operation := SafeOperation (Some (CleanupPreview categories)) retry\<rparr>)
     = Inl (protocolError ERR_UNSUPPORTED ''unsupported typed operation'' False)
   \<and> job_argv (job\<lparr>job_operation := UnsafeOperation (Some (CleanupRun request))\<rparr>)
     = Inl (protocolError ERR_UNSUPPORTED ''unsupported unsafe operation'' False)
   \<and> job_argv (job\<lparr>job_operation := UnsafeOperation (Some (Reboot \<lparr>rb_target = job_agent job, rb_confirmation = c # cs, rb_expires = t\<rparr>))\<rparr>)
     = Inr [''systemctl'', ''reboot'']"
  by (simp add: job_argv_def safe_argv_def unsafe_argv_def)

text \<open>A unit name that begins with a dash is accepted. Starting, stopping and restarting protect it with \<open>--\<close>;
  asking for its status hands it to \<open>systemctl\<close> as an option, for instance \<open>-H\<close>, which connects to another host.\<close>

theorem status_unit_as_option:
  "Service ''status'' ''-Hroot@example.org''
     = [''systemctl'', ''show'', ''-Hroot@example.org'', ''--no-pager'', ''--property=Id,LoadState,ActiveState,SubState,Description'']
   \<and> Service ''start'' ''-Hroot@example.org'' = [''systemctl'', ''start'', ''--'', ''-Hroot@example.org'']"
proof -
  have "ok (ValidateUnit ''-Hroot@example.org'')"
    by (simp add: ValidateUnit_iff plain_unit_def unit_char_def is_ascii_digit_def byte_def)
  then show ?thesis by (simp add: Service_def)
qed

end
