(* ===== verification/AtomicFile.thy ===== *)
theory AtomicFile
  imports GoStrings
begin

text \<open>
  Files replaced in one step, the pattern of \<open>atomicWrite\<close> in \<open>src/internal/pki/credentials.go\<close>
  and \<open>src/internal/ssh/keys.go\<close> and of \<open>CredentialStore.Save\<close> in
  \<open>src/internal/clientcli/credentials.go\<close>: write a temporary file beside the target, give it its
  mode, sync it, and rename it over the target. The model keeps every state the file system passes
  through, so that it also says what a crash in between can leave behind.
\<close>

text \<open>A regular file's contents and permission bits.\<close>

type_synonym file_system = "string \<Rightarrow> (bytes \<times> nat) option"

text \<open>
  How the system calls go: \<open>CreateTemp\<close> yields a fresh name or fails, a failing write may have
  written a part, and the rest succeed or fail.
\<close>

record write_faults =
  wf_create :: "string result"
  wf_chmod :: "unit result"
  wf_write :: "unit result"
  wf_partial :: bytes
  wf_sync :: "unit result"
  wf_close :: "unit result"
  wf_rename :: "unit result"

text \<open>The states passed through, the last one first, and the result.\<close>

definition atomicWrite :: "write_faults \<Rightarrow> nat \<Rightarrow> file_system \<Rightarrow> string \<Rightarrow> bytes \<Rightarrow> file_system list \<times> unit result" where
  "atomicWrite f mode fs path data = (case wf_create f of
     Inl err \<Rightarrow> ([fs], Inl err)
   | Inr tmp \<Rightarrow>
      (let made = fs(tmp \<mapsto> ([], 384));
           moded = fs(tmp \<mapsto> ([], mode));
           partly = fs(tmp \<mapsto> (wf_partial f, mode));
           written = fs(tmp \<mapsto> (data, mode));
           gone = fs(tmp := None)
       in case wf_chmod f of Inl err \<Rightarrow> ([gone, made, fs], Inl err)
       | Inr _ \<Rightarrow> (case wf_write f of Inl err \<Rightarrow> ([gone, partly, moded, made, fs], Inl err)
       | Inr _ \<Rightarrow> (case wf_sync f of Inl err \<Rightarrow> ([gone, written, moded, made, fs], Inl err)
       | Inr _ \<Rightarrow> (case wf_close f of Inl err \<Rightarrow> ([gone, written, moded, made, fs], Inl err)
       | Inr _ \<Rightarrow> (case wf_rename f of Inl err \<Rightarrow> ([gone, written, moded, made, fs], Inl err)
       | Inr _ \<Rightarrow> ([gone(path \<mapsto> (data, mode)), written, moded, made, fs], Inr ())))))))"

text \<open>What \<open>CreateTemp\<close> promises: the name is new, so it is not an existing file's nor the target's.\<close>

definition fresh_temp :: "write_faults \<Rightarrow> file_system \<Rightarrow> string \<Rightarrow> bool" where
  "fresh_temp f fs path \<longleftrightarrow> (\<forall>tmp. wf_create f = Inr tmp \<longrightarrow> fs tmp = None \<and> tmp \<noteq> path)"

definition written_file :: "file_system \<Rightarrow> string \<Rightarrow> bytes \<Rightarrow> nat \<Rightarrow> file_system" where
  "written_file fs path data mode = fs(path \<mapsto> (data, mode))"

lemma atomicWrite_result:
  assumes "fresh_temp f fs path" "atomicWrite f mode fs path data = (states, res)"
  shows "hd states = (if ok res then written_file fs path data mode else fs)"
  using assms by (auto simp: atomicWrite_def fresh_temp_def written_file_def Let_def fun_upd_idem ok_def split: sum.splits)

lemma atomicWrite_states:
  assumes "fresh_temp f fs path" "atomicWrite f mode fs path data = (states, res)"
  shows "\<forall>s \<in> set states. s path = fs path \<or> s path = Some (data, mode)"
  using assms by (auto simp: atomicWrite_def fresh_temp_def Let_def split: sum.splits)


definition no_faults :: "string \<Rightarrow> write_faults" where
  "no_faults tmp = \<lparr>wf_create = Inr tmp, wf_chmod = Inr (), wf_write = Inr (), wf_partial = [], wf_sync = Inr (),
     wf_close = Inr (), wf_rename = Inr ()\<rparr>"


end
