(* ===== verification/SshKeys.thy ===== *)
theory SshKeys
  imports AtomicFile
begin

text \<open>
  The agent's authorized keys file (\<open>src/internal/ssh/keys.go\<close>): session keys are lines marked
  with the session and its expiry, beside the login user's own lines.
\<close>

section \<open>Lines and markers\<close>

definition marker_prefix :: string where
  "marker_prefix = ''silent-devops:''"

definition removeSession :: "string list \<Rightarrow> string \<Rightarrow> string list" where
  "removeSession lines ident = filter (\<lambda>l. \<not> contains l (marker_prefix @ ident @ '':'')) lines"

definition marker :: "string \<Rightarrow> string" where
  "marker line = (case List.find (\<lambda>f. has_prefix f marker_prefix) (Fields line) of None \<Rightarrow> [] | Some f \<Rightarrow> f)"

text \<open>The lines \<open>Reconcile\<close> keeps.\<close>

definition live_line :: "time \<Rightarrow> string \<Rightarrow> bool" where
  "live_line now line = (if marker line = [] then True
     else let parts = split (CHR '':'') (marker line) in
       if List.length parts \<noteq> 3 then False
       else (case parse_int64 (parts ! 2) of None \<Rightarrow> False | Some expiry \<Rightarrow> expiry > unix now))"

definition key_line :: "string \<Rightarrow> string \<Rightarrow> string \<Rightarrow> time \<Rightarrow> string" where
  "key_line kind key ident expires =
     ''restrict,pty '' @ kind @ '' '' @ key @ '' '' @ marker_prefix @ ident @ '':'' @ dec_of_int (unix expires)"

section \<open>Rewriting the file\<close>

text \<open>Opening fails for another reason than that there is no file, making the directory, and writing.\<close>

record update_faults =
  uf_open :: "error option"
  uf_mkdir :: "unit result"
  uf_write :: write_faults

definition key_lines :: "update_faults \<Rightarrow> file_system \<Rightarrow> string \<Rightarrow> string list result" where
  "key_lines f fs path = (case uf_open f of
     Some err \<Rightarrow> Inl err
   | None \<Rightarrow> (case fs path of None \<Rightarrow> Inr []
     | Some (data, mode) \<Rightarrow> (case scan_lines data of
         (ls, long) \<Rightarrow> if long then Inl (External ''bufio.Scanner: token too long'') else Inr ls)))"

definition update_keys :: "update_faults \<Rightarrow> (string list \<Rightarrow> string list) \<Rightarrow> string \<Rightarrow> file_system \<Rightarrow> file_system \<times> unit result" where
  "update_keys f change path fs =
    (if path = [] then (fs, Inl (Error ''authorized keys path required''))
     else case key_lines f fs path of
       Inl err \<Rightarrow> (fs, Inl err)
     | Inr ls \<Rightarrow> (case uf_mkdir f of
         Inl err \<Rightarrow> (fs, Inl err)
       | Inr u \<Rightarrow> (case atomicWrite (uf_write f) 420 fs path (lines_text (change ls)) of
           (states, res) \<Rightarrow> (hd states, res))))"

definition Install :: "update_faults \<Rightarrow> string \<Rightarrow> string \<Rightarrow> bytes \<Rightarrow> time \<Rightarrow> file_system \<Rightarrow> file_system \<times> unit result" where
  "Install f path ident publicKey expires fs =
    (if ident = [] \<or> is_zero expires then (fs, Inl (Error ''session and expiry required''))
     else case Fields publicKey of
       kind # key # rest \<Rightarrow>
         if \<not> has_prefix kind ''ssh-'' then (fs, Inl (Error ''invalid SSH public key''))
         else update_keys f (\<lambda>ls. removeSession ls ident @ [key_line kind key ident expires]) path fs
     | _ \<Rightarrow> (fs, Inl (Error ''invalid SSH public key'')))"

definition Remove_key :: "update_faults \<Rightarrow> string \<Rightarrow> string \<Rightarrow> file_system \<Rightarrow> file_system \<times> unit result" where
  "Remove_key f path ident fs = update_keys f (\<lambda>ls. removeSession ls ident) path fs"

definition Reconcile_keys :: "update_faults \<Rightarrow> string \<Rightarrow> time \<Rightarrow> file_system \<Rightarrow> file_system \<times> unit result" where
  "Reconcile_keys f path now fs = update_keys f (filter (live_line now)) path fs"

section \<open>The user's own lines\<close>

definition own_line :: "string \<Rightarrow> bool" where
  "own_line l \<longleftrightarrow> \<not> contains l marker_prefix"

text \<open>The file's lines; an unreadable file counts as having none.\<close>

definition file_lines :: "file_system \<Rightarrow> string \<Rightarrow> string list" where
  "file_lines fs path = (case fs path of None \<Rightarrow> [] | Some (data, mode) \<Rightarrow> fst (scan_lines data))"

lemma marker_contains: "marker l \<noteq> [] \<Longrightarrow> contains l marker_prefix"
proof -
  assume "marker l \<noteq> []"
  then obtain f where "f \<in> set (Fields l)" "has_prefix f marker_prefix"
    by (auto simp: marker_def dest: find_Some_mem split: option.splits)
  then obtain a b r where "l = a @ f @ b" "f = marker_prefix @ r" by (meson Fields_piece has_prefix_iff)
  then have "l = a @ marker_prefix @ (r @ b)" by simp
  then show ?thesis unfolding contains_iff by blast
qed

lemma own_line_live: "own_line l \<Longrightarrow> live_line now l"
  using marker_contains by (auto simp: own_line_def live_line_def)

lemma contains_middle: "contains l (p @ q) \<Longrightarrow> contains l p"
  unfolding contains_iff by (metis append.assoc)

lemma own_removeSession: "filter own_line (removeSession ls ident) = filter own_line ls"
  by (auto simp: removeSession_def own_line_def dest: contains_middle intro!: filter_cong)

lemma own_key_line: "\<not> own_line (key_line kind key ident expires)"
proof -
  have "key_line kind key ident expires = (''restrict,pty '' @ kind @ '' '' @ key @ '' '') @ marker_prefix
     @ (ident @ '':'' @ dec_of_int (unix expires))" by (simp add: key_line_def)
  then show ?thesis unfolding own_line_def contains_iff by blast
qed

text \<open>What a successful rewriting leaves, and that a failed one changes nothing.\<close>

lemma update_keys_result:
  assumes "fresh_temp (uf_write f) fs path" "update_keys f change path fs = (fs', res)"
  shows "(\<not> ok res \<longrightarrow> fs' = fs) \<and> (ok res \<longrightarrow> (\<exists>ls. key_lines f fs path = Inr ls \<and> ls = file_lines fs path
      \<and> fs' = fs(path \<mapsto> (lines_text (change ls), 420))))"
proof -
  obtain states r where w: "atomicWrite (uf_write f) 420 fs path (lines_text (change (file_lines fs path))) = (states, r)" by force
  have k: "key_lines f fs path = Inr ls \<Longrightarrow> ls = file_lines fs path" for ls
    by (auto simp: key_lines_def file_lines_def split: option.splits prod.splits if_splits)
  show ?thesis
    using assms(2) k atomicWrite_result [OF assms(1) w] w
    by (auto simp: update_keys_def written_file_def ok_def split: if_splits sum.splits prod.splits)
qed

datatype key_op = DoInstall update_faults string bytes time | DoRemove update_faults string | DoReconcile update_faults time

definition key_step :: "string \<Rightarrow> key_op \<Rightarrow> file_system \<Rightarrow> file_system \<times> unit result" where
  "key_step path a fs = (case a of
     DoInstall f ident publicKey expires \<Rightarrow> Install f path ident publicKey expires fs
   | DoRemove f ident \<Rightarrow> Remove_key f path ident fs
   | DoReconcile f now \<Rightarrow> Reconcile_keys f path now fs)"

text \<open>The steps of a run that are within the bounds the messages have: one-line session names, fresh temporary
  files, and keys that leave the line short.\<close>

definition key_step_ok :: "string \<Rightarrow> key_op \<Rightarrow> file_system \<Rightarrow> bool" where
  "key_step_ok path a fs = (case a of
     DoInstall f ident publicKey expires \<Rightarrow> fresh_temp (uf_write f) fs path \<and> CHR 0x0A \<notin> set ident
       \<and> List.length publicKey + List.length ident < 60000 \<and> - (2 ^ 63) \<le> unix expires \<and> unix expires < 2 ^ 63
   | DoRemove f ident \<Rightarrow> fresh_temp (uf_write f) fs path
   | DoReconcile f now \<Rightarrow> fresh_temp (uf_write f) fs path)"

fun key_run :: "string \<Rightarrow> key_op list \<Rightarrow> file_system \<Rightarrow> file_system" where
  "key_run path [] fs = fs"
| "key_run path (a # as) fs = key_run path as (fst (key_step path a fs))"

fun key_run_ok :: "string \<Rightarrow> key_op list \<Rightarrow> file_system \<Rightarrow> bool" where
  "key_run_ok path [] fs = True"
| "key_run_ok path (a # as) fs = (key_step_ok path a fs \<and> key_run_ok path as (fst (key_step path a fs)))"

lemma Fields_from_length: "sum_list (map List.length (Fields_from cur s)) \<le> List.length cur + List.length s"
proof (induction cur s rule: Fields_from.induct)
  case (2 cur c cs)
  show ?case
  proof (cases "space_len (c # cs)")
    case (Suc n)
    then show ?thesis using 2(2) [OF Suc] by (auto simp: le_diff_conv)
  qed (use 2 in simp)
qed simp

lemma Fields_two_length: "Fields s = k # key # rest \<Longrightarrow> List.length k + List.length key \<le> List.length s"
  using Fields_from_length [of "[]" s] by (simp add: Fields_def)

lemma dec_of_nat_length: "n < 10 ^ k \<Longrightarrow> 0 < k \<Longrightarrow> List.length (dec_of_nat n) \<le> k"
proof (induction k arbitrary: n)
  case (Suc k)
  then show ?case
  proof (cases "n < 10")
    case False
    then have "0 < k" using Suc.prems by (cases k) auto
    moreover have "n div 10 < 10 ^ k" using Suc.prems by (simp add: div_less_iff_less_mult mult.commute)
    ultimately have "List.length (dec_of_nat (n div 10)) \<le> k" using Suc.IH by blast
    then show ?thesis using False by (simp add: dec_of_nat.simps [of n])
  qed (simp add: dec_of_nat.simps [of n])
qed simp

lemma dec_of_int_length: "- (2 ^ 63) \<le> x \<Longrightarrow> x < 2 ^ 63 \<Longrightarrow> List.length (dec_of_int x) \<le> 20"
proof -
  assume x: "- (2 ^ 63) \<le> x" "x < 2 ^ 63"
  show ?thesis
  proof (cases "x < 0")
    case True
    then have "nat (- x) < 10 ^ 19" using x by (simp add: nat_less_iff)
    then show ?thesis using True dec_of_nat_length [of "nat (- x)" 19] by (simp add: dec_of_int_def)
  next
    case False
    then have "nat x < 10 ^ 19" using x by (simp add: nat_less_iff)
    then show ?thesis using False dec_of_nat_length [of "nat x" 19] by (simp add: dec_of_int_def)
  qed
qed

lemma dec_of_int_digit: "dec_of_int x \<noteq> [] \<and> is_ascii_digit (last (dec_of_int x)) \<and> CHR 0x0A \<notin> set (dec_of_int x)"
proof -
  have d: "dec_of_nat n \<noteq> [] \<and> is_ascii_digit (last (dec_of_nat n)) \<and> CHR 0x0A \<notin> set (dec_of_nat n)" for n
  proof -
    have a: "\<forall>c \<in> set (dec_of_nat n). is_ascii_digit c" "dec_of_nat n \<noteq> []"
      using dec_of_nat_digits [of n] by (auto simp: list_all_iff)
    have "\<not> is_ascii_digit (CHR 0x0A)" by (simp add: is_ascii_digit_def byte_def)
    then show ?thesis using a last_in_set by blast
  qed
  then show ?thesis by (auto simp: dec_of_int_def)
qed

lemma plain_key_line:
  assumes "Fields publicKey = kind # key # rest" "CHR 0x0A \<notin> set ident"
    "List.length publicKey + List.length ident < 60000" "- (2 ^ 63) \<le> unix expires" "unix expires < 2 ^ 63"
  shows "plain_line (key_line kind key ident expires)"
proof -
  have "CHR 0x0A \<notin> set kind" "CHR 0x0A \<notin> set key"
    using assms(1) Fields_no_space [of _ publicKey "CHR 0x0A"] by (auto simp: byte_def)
  moreover have "last (key_line kind key ident expires) \<noteq> CHR 0x0D"
    using dec_of_int_digit [of "unix expires"] by (auto simp: key_line_def is_ascii_digit_def byte_def)
  moreover have "List.length (key_line kind key ident expires) < 65536"
    using Fields_two_length [OF assms(1)] assms(3) dec_of_int_length [OF assms(4,5)]
    by (simp add: key_line_def marker_prefix_def)
  ultimately show ?thesis
    using assms(2) dec_of_int_digit [of "unix expires"] by (auto simp: plain_line_def key_line_def marker_prefix_def)
qed

lemma file_lines_written [simp]: "\<forall>l \<in> set ls. plain_line l \<Longrightarrow> file_lines (fs(path \<mapsto> (lines_text ls, 420))) path = ls"
  by (simp add: file_lines_def scan_lines_text)

lemma removeSession_plain: "\<forall>l \<in> set ls. plain_line l \<Longrightarrow> \<forall>l \<in> set (removeSession ls ident). plain_line l"
  by (simp add: removeSession_def)

lemma update_keys_own:
  assumes "fresh_temp (uf_write f) fs path" "\<forall>l \<in> set (file_lines fs path). plain_line l"
    "\<And>ls. \<forall>l \<in> set ls. plain_line l \<Longrightarrow> (\<forall>l \<in> set (change ls). plain_line l) \<and> filter own_line (change ls) = filter own_line ls"
  shows "case update_keys f change path fs of (fs', res) \<Rightarrow> (\<forall>l \<in> set (file_lines fs' path). plain_line l)
    \<and> filter own_line (file_lines fs' path) = filter own_line (file_lines fs path)"
proof -
  obtain fs' res where u: "update_keys f change path fs = (fs', res)" by force
  note r = update_keys_result [OF assms(1) u]
  show ?thesis
  proof (cases "ok res")
    case True
    then have "fs' = fs(path \<mapsto> (lines_text (change (file_lines fs path)), 420))" using r by auto
    then show ?thesis using u assms(3) [OF assms(2)] by simp
  next
    case False
    then show ?thesis using u r assms(2) by simp
  qed
qed

lemma key_step_own:
  assumes "key_step_ok path a fs" "\<forall>l \<in> set (file_lines fs path). plain_line l"
  shows "case key_step path a fs of (fs', res) \<Rightarrow> (\<forall>l \<in> set (file_lines fs' path). plain_line l)
    \<and> filter own_line (file_lines fs' path) = filter own_line (file_lines fs path)"
proof (cases a)
  case (DoInstall f ident publicKey expires)
  show ?thesis
  proof (cases "\<exists>kind key rest. Fields publicKey = kind # key # rest \<and> ident \<noteq> [] \<and> \<not> is_zero expires \<and> has_prefix kind ''ssh-''")
    case True
    then obtain kind key rest where k: "Fields publicKey = kind # key # rest" "ident \<noteq> []" "\<not> is_zero expires" "has_prefix kind ''ssh-''"
      by blast
    then have p: "plain_line (key_line kind key ident expires)"
      using assms(1) DoInstall by (intro plain_key_line) (auto simp: key_step_ok_def)
    show ?thesis using DoInstall k p assms own_key_line
        update_keys_own [of f fs path "\<lambda>ls. removeSession ls ident @ [key_line kind key ident expires]"]
      by (auto simp: key_step_def Install_def key_step_ok_def own_removeSession removeSession_plain)
  next
    case False
    then show ?thesis using DoInstall assms(2) by (auto simp: key_step_def Install_def split: list.splits)
  qed
next
  case (DoRemove f ident)
  then show ?thesis using assms update_keys_own [of f fs path "\<lambda>ls. removeSession ls ident"]
    by (auto simp: key_step_def Remove_key_def key_step_ok_def own_removeSession removeSession_plain)
next
  case (DoReconcile f now)
  have "filter own_line (filter (live_line now) ls) = filter own_line ls" for ls
    by (auto simp: own_line_live intro: filter_cong)
  then show ?thesis using DoReconcile assms update_keys_own [of f fs path "filter (live_line now)"]
    by (auto simp: key_step_def Reconcile_keys_def key_step_ok_def)
qed

lemma key_run_own:
  assumes "key_run_ok path as fs" "\<forall>l \<in> set (file_lines fs path). plain_line l"
  shows "filter own_line (file_lines (key_run path as fs) path) = filter own_line (file_lines fs path)"
  using assms
proof (induction path as fs rule: key_run.induct)
  case (2 path a as fs)
  then show ?case using key_step_own [of path a fs] by (auto split: prod.splits)
qed simp

text \<open>Session keys come and go, but the login user's own lines stay: whatever keys are installed, removed and
  reconciled, in any order and with any faults, the lines that do not mention the program are the
  same afterwards, in the same order.\<close>

theorem own_lines_kept:
  assumes "key_run_ok path as fs" "\<forall>l \<in> set (file_lines fs path). plain_line l"
  shows "filter own_line (file_lines (key_run path as fs) path) = filter own_line (file_lines fs path)"
  using key_run_own [OF assms] .

definition demo_keys :: file_system where
  "demo_keys = [''k'' \<mapsto> (lines_text [''ssh-rsa AAA me''], 384)]"

definition demo_faults :: update_faults where
  "demo_faults = \<lparr>uf_open = None, uf_mkdir = Inr (), uf_write = no_faults ''t''\<rparr>"

lemma demo_faults_simps [simp]: "uf_open demo_faults = None" "uf_mkdir demo_faults = Inr ()" "uf_write demo_faults = no_faults ''t''"
  by (simp_all add: demo_faults_def)

lemma demo_keys_lines: "file_lines demo_keys ''k'' = [''ssh-rsa AAA me'']"
proof -
  have "\<forall>l \<in> set [''ssh-rsa AAA me'']. plain_line l" by (simp add: plain_line_def)
  then show ?thesis unfolding demo_keys_def file_lines_def by (simp add: scan_lines_text)
qed

theorem own_lines_kept_witness:
  "filter own_line (file_lines (key_run ''k'' [DoRemove demo_faults ''s''] demo_keys) ''k'') = [''ssh-rsa AAA me'']"
proof -
  have "key_run_ok ''k'' [DoRemove demo_faults ''s''] demo_keys"
    by (simp add: key_step_ok_def fresh_temp_def no_faults_def demo_keys_def)
  moreover have "\<forall>l \<in> set (file_lines demo_keys ''k''). plain_line l" by (simp add: demo_keys_lines plain_line_def)
  moreover have "own_line ''ssh-rsa AAA me''" by (simp add: own_line_def marker_prefix_def has_prefix_def)
  ultimately show ?thesis using own_lines_kept [of "''k''" "[DoRemove demo_faults ''s'']" demo_keys] by (simp add: demo_keys_lines)
qed

section \<open>Expiry\<close>

lemma marker_key_line:
  assumes "list_all word_char kind" "list_all word_char key" "list_all word_char ident" "has_prefix kind ''ssh-''"
    "key \<noteq> []" "\<not> has_prefix key marker_prefix"
  shows "marker (key_line kind key ident expires) = marker_prefix @ ident @ '':'' @ dec_of_int (unix expires)"
proof -
  let ?m = "marker_prefix @ ident @ '':'' @ dec_of_int (unix expires)"
  have digits: "list_all word_char (dec_of_int x)" for x
  proof -
    have "is_ascii_digit c \<Longrightarrow> word_char c" for c by (auto simp: is_ascii_digit_def word_char_def)
    then have "list_all word_char (dec_of_nat n)" for n
      using dec_of_nat_digits [of n] by (auto simp: list_all_iff)
    then show ?thesis by (auto simp: dec_of_int_def word_char_def byte_def)
  qed
  have m: "list_all word_char ?m" "?m \<noteq> []" using assms(3) digits by (simp_all add: marker_prefix_def word_char_def byte_def)
  have k: "kind \<noteq> []" using assms(4) by (auto simp: has_prefix_def)
  have r: "list_all word_char ''restrict,pty''" by (simp add: word_char_def byte_def)
  have "key_line kind key ident expires = ''restrict,pty'' @ CHR '' '' # (kind @ CHR '' '' # (key @ CHR '' '' # ?m))"
    by (simp add: key_line_def)
  then have "Fields (key_line kind key ident expires) = [''restrict,pty'', kind, key, ?m]"
    using Fields_words [OF r] Fields_words [OF assms(1) k] Fields_words [OF assms(2,5)] Fields_word [OF m]
    by (simp del: append_assoc append.simps)
  moreover have "\<not> has_prefix ''restrict,pty'' marker_prefix" by (simp add: has_prefix_def marker_prefix_def)
  moreover have "\<not> has_prefix kind marker_prefix" using assms(4) by (auto simp: has_prefix_iff marker_prefix_def)
  ultimately show ?thesis using assms(6) by (simp add: marker_def)
qed

text \<open>Reconciling keeps the line of an installed key exactly until the second its session expires.\<close>

theorem session_key_expires:
  assumes "list_all word_char kind" "list_all word_char key" "list_all word_char ident" "has_prefix kind ''ssh-''"
    "key \<noteq> []" "\<not> has_prefix key marker_prefix" "CHR '':'' \<notin> set ident"
    "- (2 ^ 63) \<le> unix expires" "unix expires < 2 ^ 63"
  shows "live_line now (key_line kind key ident expires) \<longleftrightarrow> unix now < unix expires"
proof -
  have m: "marker (key_line kind key ident expires) = ''silent-devops'' @ CHR '':'' # (ident @ CHR '':'' # dec_of_int (unix expires))"
    using marker_key_line [OF assms(1-6)] by (simp add: marker_prefix_def)
  have "CHR '':'' \<notin> set (dec_of_int x)" for x
  proof -
    have "\<not> is_ascii_digit (CHR '':'')" by (simp add: is_ascii_digit_def byte_def)
    then have "CHR '':'' \<notin> set (dec_of_nat n)" for n using dec_of_nat_digits [of n] by (auto simp: list_all_iff)
    then show ?thesis by (auto simp: dec_of_int_def)
  qed
  then have "split (CHR '':'') (marker (key_line kind key ident expires)) = [''silent-devops'', ident, dec_of_int (unix expires)]"
    unfolding m using assms(7) split_append_sep [of "CHR '':''" "''silent-devops''" "ident @ CHR '':'' # dec_of_int (unix expires)"]
      split_append_sep [of "CHR '':''" ident "dec_of_int (unix expires)"] by (simp add: split_no_sep)
  moreover have "marker (key_line kind key ident expires) \<noteq> []" by (simp add: m)
  ultimately show ?thesis using parse_int64_dec [OF assms(8,9)] by (simp add: live_line_def)
qed

theorem session_key_expires_witness:
  "live_line 0 (key_line ''ssh-rsa'' ''AAAA'' ''5e'' second) \<and> \<not> live_line second (key_line ''ssh-rsa'' ''AAAA'' ''5e'' second)"
  using session_key_expires [of "''ssh-rsa''" "''AAAA''" "''5e''" second]
  by (simp add: word_char_def byte_def has_prefix_def marker_prefix_def go_time)

section \<open>A key that cannot be taken back\<close>

lemma long_line_sticks:
  assumes "fs path = Some (data, mode)" "snd (scan_lines data)"
  shows "fst (key_step path a fs) = fs \<and> \<not> ok (snd (key_step path a fs))"
proof -
  have u: "fst (update_keys f change path fs) = fs \<and> \<not> ok (snd (update_keys f change path fs))" for f change
  proof -
    obtain err where "key_lines f fs path = Inl err"
      using assms by (cases "uf_open f"; cases "scan_lines data") (auto simp: key_lines_def)
    then show ?thesis by (simp add: update_keys_def)
  qed
  show ?thesis using u by (auto simp: key_step_def Install_def Remove_key_def Reconcile_keys_def split: key_op.split list.split)
qed

text \<open>Nothing bounds the key of a session. One of 64 KiB or more is installed, but its line is longer than the
  line reader accepts, and from then on every installation, removal and reconciliation fails and
  leaves the file as it is: the key stays authorized beyond the end and the expiry of its session.\<close>

theorem oversized_key_sticks:
  assumes "fresh_temp (uf_write f) fs path" "Install f path ident publicKey expires fs = (fs', Inr u)"
    "Fields publicKey = kind # key # rest" "65536 \<le> List.length key" "CHR 0x0A \<notin> set ident"
  shows "fst (key_step path a fs') = fs' \<and> \<not> ok (snd (key_step path a fs'))"
proof -
  let ?l = "key_line kind key ident expires"
  have i: "update_keys f (\<lambda>ls. removeSession ls ident @ [?l]) path fs = (fs', Inr u)"
    using assms(2,3) by (simp add: Install_def split: if_splits)
  have fs': "fs' = fs(path \<mapsto> (lines_text (removeSession (file_lines fs path) ident @ [?l]), 420))"
    using update_keys_result [OF assms(1) i] by auto
  have "CHR 0x0A \<notin> set kind" "CHR 0x0A \<notin> set key"
    using assms(3) Fields_no_space [of _ publicKey "CHR 0x0A"] by (auto simp: byte_def)
  then have "CHR 0x0A \<notin> set ?l" using assms(5) dec_of_int_digit [of "unix expires"] by (simp add: key_line_def marker_prefix_def)
  moreover have "\<forall>l \<in> set (file_lines fs path). CHR 0x0A \<notin> set l"
    by (auto simp: file_lines_def dest: scan_lines_mem split: option.splits prod.splits)
  ultimately have "snd (scan_lines (lines_text (removeSession (file_lines fs path) ident @ [?l])))"
    using assms(4) by (intro scan_lines_long [where l = ?l]) (auto simp: removeSession_def key_line_def)
  then show ?thesis using long_line_sticks [of fs' path] fs' by simp
qed

definition big_key :: bytes where
  "big_key = replicate 65536 (CHR ''A'')"

lemma big_key_word: "list_all word_char big_key" "List.length big_key = 65536" "big_key \<noteq> []"
proof -
  have "list_all word_char (replicate n (CHR ''A''))" for n by (induction n) (simp_all add: word_char_def byte_def)
  then show "list_all word_char big_key" unfolding big_key_def by blast
  show l: "List.length big_key = 65536" unfolding big_key_def by (rule length_replicate)
  show "big_key \<noteq> []" using l by (metis list.size(3) zero_neq_numeral)
qed

lemma big_key_fields: "Fields (''ssh-rsa'' @ CHR '' '' # big_key) = [''ssh-rsa'', big_key]"
proof -
  have "list_all word_char ''ssh-rsa''" by (simp add: word_char_def byte_def)
  then show ?thesis using big_key_word Fields_words [of "''ssh-rsa''" big_key] Fields_word [of big_key] by simp
qed

theorem oversized_key_sticks_witness:
  "\<exists>fs'. Install demo_faults ''k'' ''5e'' (''ssh-rsa'' @ CHR '' '' # big_key) second demo_keys = (fs', Inr ())
    \<and> \<not> ok (snd (key_step ''k'' (DoRemove demo_faults ''5e'') fs'))"
proof -
  have f: "fresh_temp (uf_write demo_faults) demo_keys ''k''" by (simp add: fresh_temp_def no_faults_def demo_keys_def)
  have k: "key_lines demo_faults demo_keys ''k'' = Inr [''ssh-rsa AAA me'']"
  proof -
    have "\<forall>l \<in> set [''ssh-rsa AAA me'']. plain_line l" by (simp add: plain_line_def)
    then show ?thesis by (simp add: key_lines_def demo_keys_def scan_lines_text)
  qed
  have "\<exists>fs'. Install demo_faults ''k'' ''5e'' (''ssh-rsa'' @ CHR '' '' # big_key) second demo_keys = (fs', Inr ())"
    unfolding Install_def big_key_fields
    by (simp add: update_keys_def k second_def is_zero_def zero_time_def has_prefix_def atomicWrite_def no_faults_def Let_def)
  then obtain fs' where i: "Install demo_faults ''k'' ''5e'' (''ssh-rsa'' @ CHR '' '' # big_key) second demo_keys = (fs', Inr ())" by blast
  show ?thesis
    using oversized_key_sticks [OF f i big_key_fields, of "DoRemove demo_faults ''5e''"] i big_key_word(2) by simp
qed

end
