(* ===== verification/AgentNode.thy ===== *)
theory AgentNode
  imports Maintenance SshKeys Tunnel
begin

text \<open>
  The agent process (\<open>src/internal/agent/handler.go\<close>, \<open>stream.go\<close>, \<open>ssh.go\<close> and
  the closure \<open>RunAgent\<close> runs in \<open>src/internal/runtime/agent.go\<close>): the job handler with its
  memory of jobs seen, the connection loop, the reconnection delays, and the SSH handler with the
  byte pumps between the local sshd and the tunnel.
\<close>

section \<open>Jobs\<close>

record job_handler =
  jh_agent :: string
  jh_dispatcher :: Dispatcher
  jh_seen :: "string set"

definition job_seen_key :: "Job \<Rightarrow> string" where
  "job_seen_key job = job_id job @ CHR 0x00 # job_dispatch job"

text \<open>The checks before a job runs; accepting it remembers it.\<close>

definition admit :: "time \<Rightarrow> job_handler \<Rightarrow> Job \<Rightarrow> job_handler \<times> unit result" where
  "admit now h job =
    (if jh_agent h \<noteq> [] \<and> job_agent job \<noteq> jh_agent h then (h, Inl (Error ''job target mismatch''))
     else if job_id job = [] \<or> job_dispatch job = [] \<or> job_attempt job = 0 then (h, Inl (Error ''malformed job''))
     else if unix_milli now > job_deadline job then (h, Inl (Error ''job expired''))
     else if job_seen_key job \<in> jh_seen h then (h, Inl (Error ''duplicate job''))
     else (h\<lparr>jh_seen := insert (job_seen_key job) (jh_seen h)\<rparr>, Inr ()))"

text \<open>
  A message of the validator's. The second component is what was sent, before the send's own result
  \<open>sent\<close>, which is returned; \<open>sender\<close> says whether there is a sender.
\<close>

definition Handle_job :: "(duration \<Rightarrow> string list \<Rightarrow> process) \<Rightarrow> error option \<Rightarrow> bool \<Rightarrow> unit result \<Rightarrow> time
    \<Rightarrow> job_handler \<Rightarrow> ValidatorMessage \<Rightarrow> job_handler \<times> AgentMessage list \<times> unit result" where
  "Handle_job proc cancelled sender sent now h m = (case m of
     JobMsg job \<Rightarrow> (case admit now h job of
         (h', Inl err) \<Rightarrow> (h', [], Inl err)
       | (h', Inr u) \<Rightarrow>
          if \<not> sender then (h', [], Inl (Error ''agent sender unavailable''))
          else (h', [JobResultMsg (Dispatch_job proc cancelled (jh_dispatcher h') job)], sent))
   | _ \<Rightarrow> (h, [], Inr ()))"

definition admit_step :: "time \<times> Job \<Rightarrow> job_handler \<Rightarrow> job_handler \<times> bool" where
  "admit_step a h = (case a of (now, job) \<Rightarrow> (fst (admit now h job), ok (snd (admit now h job))))"

interpretation agent_jobs: one_shot admit_step "\<lambda>(now, job). Some (job_seen_key job)" "\<lambda>k h. k \<in> jh_seen h" "\<lambda>h. True"
  by unfold_locales (auto simp: admit_step_def admit_def split: if_splits)


definition demo_handler :: job_handler where
  "demo_handler = \<lparr>jh_agent = ''a'', jh_dispatcher = \<lparr>di_max_output = 100, di_timeout = minute\<rparr>, jh_seen = {}\<rparr>"


text \<open>Whatever the agent answers, it answers a job meant for it, before the job's deadline, with that job's own
  result; a cancellation is no job, so it changes nothing and stops nothing.\<close>

theorem agent_answers_its_jobs:
  assumes "Handle_job proc cancelled sender sent now h m = (h', out, res)"
  shows "(out = [] \<or> (\<exists>job. m = JobMsg job \<and> out = [JobResultMsg (Dispatch_job proc cancelled (jh_dispatcher h) job)]
       \<and> (jh_agent h = [] \<or> job_agent job = jh_agent h) \<and> unix_milli now \<le> job_deadline job \<and> job_attempt job \<noteq> 0
       \<and> job_seen_key job \<notin> jh_seen h \<and> jh_seen h' = insert (job_seen_key job) (jh_seen h) \<and> res = sent))
    \<and> (\<forall>c. m = CancelMsg c \<longrightarrow> h' = h \<and> out = [] \<and> res = Inr ())"
  using assms by (cases m) (auto simp: Handle_job_def admit_def split: if_splits)

theorem agent_answers_its_jobs_witness:
  "jh_seen (fst (Handle_job (\<lambda>t argv. Exited [] None 0) None True (Inr ()) 0 demo_handler
      (CancelMsg \<lparr>cj_job = ''j'', cj_reason = ''r'', cj_deadline = 1, cj_request = ''c''\<rparr>))) = {}"
proof -
  let ?m = "CancelMsg \<lparr>cj_job = ''j'', cj_reason = ''r'', cj_deadline = 1, cj_request = ''c''\<rparr>"
  obtain h' out res where e: "Handle_job (\<lambda>t argv. Exited [] None 0) None True (Inr ()) 0 demo_handler ?m = (h', out, res)"
    by (metis prod.exhaust)
  show ?thesis using agent_answers_its_jobs [OF e] e by (simp add: demo_handler_def)
qed

section \<open>The connection\<close>

text \<open>
  After the hello, one loop receives and one sends a heartbeat at each tick; the first end of either
  ends the connection. \<open>Received\<close> and \<open>Tick\<close> carry how the call went.
\<close>

datatype connection_event =
    Received "ValidatorMessage result"
  | Tick time "unit result"
  | ContextDone error

text \<open>The messages sent, the messages handled, and how the connection ended, if it did.\<close>

fun connection_run :: "connection_event list \<Rightarrow> AgentMessage list \<times> ValidatorMessage list \<times> unit result option" where
  "connection_run [] = ([], [], None)"
| "connection_run (Received (Inl err) # evs) = ([], [], Some (Inl err))"
| "connection_run (Received (Inr m) # evs) = (case connection_run evs of (out, handled, res) \<Rightarrow> (out, m # handled, res))"
| "connection_run (Tick now (Inl err) # evs) = ([], [], Some (Inl err))"
| "connection_run (Tick now (Inr u) # evs) = (case connection_run evs of (out, handled, res) \<Rightarrow> (HeartbeatMsg (unix_milli now) # out, handled, res))"
| "connection_run (ContextDone err # evs) = ([], [], Some (Inl err))"

definition RunConnection :: "AgentHello option \<Rightarrow> duration \<Rightarrow> unit result \<Rightarrow> connection_event list
    \<Rightarrow> AgentMessage list \<times> ValidatorMessage list \<times> unit result option" where
  "RunConnection hello interval sent evs = (case hello of
     None \<Rightarrow> ([], [], Some (Inl (Error ''agent hello required'')))
   | Some h \<Rightarrow>
      if hello_agent_id h = [] then ([], [], Some (Inl (Error ''agent hello required'')))
      else if interval \<le> 0 then ([], [], Some (Inl (Error ''heartbeat interval must be positive'')))
      else (case sent of
        Inl err \<Rightarrow> ([], [], Some (Inl err))
      | Inr u \<Rightarrow> (case connection_run evs of (out, handled, res) \<Rightarrow> (HelloMsg h # out, handled, res))))"

text \<open>The messages that arrive before the first failing event.\<close>

fun arrivals :: "connection_event list \<Rightarrow> ValidatorMessage list" where
  "arrivals [] = []"
| "arrivals (Received (Inr m) # evs) = m # arrivals evs"
| "arrivals (Tick now (Inr u) # evs) = arrivals evs"
| "arrivals (ev # evs) = []"

lemma connection_run_facts:
  "case connection_run evs of (out, handled, res) \<Rightarrow>
     handled = arrivals evs \<and> (\<forall>m \<in> set out. \<exists>t. m = HeartbeatMsg t) \<and> res \<noteq> Some (Inr ())"
  by (induction evs rule: connection_run.induct) (auto split: prod.splits)

text \<open>On the wire the hello comes first and only heartbeats follow; the handler sees every message that arrives
  before the connection ends, in order; and a connection never ends without an error.\<close>

theorem connection_wire:
  "case RunConnection hello interval sent evs of (out, handled, res) \<Rightarrow>
     (out = [] \<or> (\<exists>h beats. hello = Some h \<and> out = HelloMsg h # beats \<and> (\<forall>m \<in> set beats. \<exists>t. m = HeartbeatMsg t) \<and> handled = arrivals evs))
     \<and> (out = [] \<longrightarrow> handled = []) \<and> res \<noteq> Some (Inr ())"
  using connection_run_facts [of evs]
  by (auto simp: RunConnection_def split: option.split sum.split prod.splits)

theorem connection_wire_witness:
  "\<exists>out handled. RunConnection None second (Inr ()) [] = (out, handled, Some (Inl (Error ''agent hello required''))) \<and> handled = []"
  using connection_wire [where hello = None and interval = second and sent = "Inr ()" and evs = "[]"] by (simp add: RunConnection_def)

section \<open>Reconnecting\<close>

text \<open>
  One turn of the loop: the context's error before and after the connection, the connection's
  result, and the context's error while waiting. \<open>jitter i d\<close> is the \<open>i\<close>-th draw of
  \<open>Int63n(d + 1)\<close>. The loop's waits come with the delay they were drawn from; with no error it is
  still running.
\<close>

record attempt =
  at_before :: "error option"
  at_result :: "unit result"
  at_after :: "error option"
  at_wait :: "error option"

fun reconnect_loop :: "(nat \<Rightarrow> int \<Rightarrow> int) \<Rightarrow> duration \<Rightarrow> duration \<Rightarrow> nat \<Rightarrow> duration \<Rightarrow> attempt list
    \<Rightarrow> (duration \<times> duration) list \<times> error option" where
  "reconnect_loop jitter mn mx i delay [] = ([], None)"
| "reconnect_loop jitter mn mx i delay (a # as) = (case at_before a of
     Some err \<Rightarrow> ([], Some err)
   | None \<Rightarrow> (case at_after a of
       Some err \<Rightarrow> ([], Some err)
     | None \<Rightarrow>
        (let delay1 = (if ok (at_result a) then mn else delay);
             wait = jitter i delay1;
             doubled = wrap64 (2 * delay1);
             delay2 = (if delay1 < mx then (if doubled > mx then mx else doubled) else delay1)
         in case at_wait a of
           Some err \<Rightarrow> ([(delay1, wait)], Some err)
         | None \<Rightarrow> (case reconnect_loop jitter mn mx (Suc i) delay2 as of (waits, res) \<Rightarrow> ((delay1, wait) # waits, res)))))"

definition Reconnect :: "(nat \<Rightarrow> int \<Rightarrow> int) \<Rightarrow> duration \<Rightarrow> duration \<Rightarrow> attempt list \<Rightarrow> (duration \<times> duration) list \<times> error option" where
  "Reconnect jitter mn mx as = (if mn \<le> 0 \<or> mx < mn then ([], Some (Error ''invalid reconnect bounds''))
     else reconnect_loop jitter mn mx 0 mn as)"

definition draws :: "(nat \<Rightarrow> int \<Rightarrow> int) \<Rightarrow> bool" where
  "draws jitter \<longleftrightarrow> (\<forall>i d. 0 \<le> d \<longrightarrow> 0 \<le> jitter i d \<and> jitter i d \<le> d)"

lemma double_delay:
  assumes "0 < mn" "mn \<le> delay" "delay \<le> mx" "mx \<le> 2 ^ 62"
  shows "(if delay < mx then (if wrap64 (2 * delay) > mx then mx else wrap64 (2 * delay)) else delay) = min (2 * delay) mx"
  using assms by (simp add: wrap64_id min_def)

lemma reconnect_loop_delays:
  assumes "0 < mn" "mx \<le> 2 ^ 62" "mn \<le> delay" "delay \<le> mx" "draws jitter"
  shows "\<forall>k < List.length (fst (reconnect_loop jitter mn mx i delay as)).
     (case fst (reconnect_loop jitter mn mx i delay as) ! k of (d, w) \<Rightarrow> mn \<le> d \<and> d \<le> mx \<and> 0 \<le> w \<and> w \<le> d
       \<and> ((\<forall>a \<in> set as. \<not> ok (at_result a)) \<longrightarrow> d = min (delay * 2 ^ k) mx))"
  using assms(3,4)
proof (induction as arbitrary: i delay)
  case (Cons a as)
  let ?d1 = "if ok (at_result a) then mn else delay"
  let ?d2 = "min (2 * ?d1) mx"
  have d1: "mn \<le> ?d1" "?d1 \<le> mx" "0 \<le> ?d1" using Cons.prems assms(1) by auto
  have d2: "mn \<le> ?d2" "?d2 \<le> mx" using d1 assms(1) by auto
  have j: "0 \<le> jitter i ?d1" "jitter i ?d1 \<le> ?d1" using assms(5) d1 by (auto simp: draws_def)
  show ?case
  proof (cases "at_before a = None \<and> at_after a = None")
    case True
    note e = double_delay [OF assms(1) d1(1,2) assms(2)]
    show ?thesis
    proof (cases "at_wait a")
      case None
      have l: "fst (reconnect_loop jitter mn mx i delay (a # as)) = (?d1, jitter i ?d1) # fst (reconnect_loop jitter mn mx (Suc i) ?d2 as)"
        using True None by (simp add: Let_def e split: prod.split del: if_split)
      have pow: "min (?d2 * 2 ^ k) mx = min (delay * 2 ^ Suc k) mx" if "\<not> ok (at_result a)" for k
      proof (cases "2 * delay \<le> mx")
        case False
        have "0 < delay" using Cons.prems(1) assms(1) by simp
        then have "mx * 1 \<le> mx * 2 ^ k" "2 * delay * 1 \<le> 2 * delay * 2 ^ k"
          using d1 assms(1) by (intro mult_left_mono; simp)+
        then have "mx \<le> mx * 2 ^ k" "mx \<le> delay * 2 ^ Suc k" using False by simp_all
        then show ?thesis using False that by (simp add: min_def)
      qed (use that in \<open>simp add: min_def algebra_simps\<close>)
      show ?thesis
      proof (intro allI impI)
        fix k assume k: "k < List.length (fst (reconnect_loop jitter mn mx i delay (a # as)))"
        show "case fst (reconnect_loop jitter mn mx i delay (a # as)) ! k of (d, w) \<Rightarrow> mn \<le> d \<and> d \<le> mx \<and> 0 \<le> w \<and> w \<le> d
           \<and> ((\<forall>a \<in> set (a # as). \<not> ok (at_result a)) \<longrightarrow> d = min (delay * 2 ^ k) mx)"
        proof (cases k)
          case 0
          then show ?thesis unfolding l using d1 j Cons.prems by auto
        next
          case (Suc k')
          let ?r = "fst (reconnect_loop jitter mn mx (Suc i) ?d2 as)"
          have "k' < List.length ?r" using k Suc unfolding l by simp
          moreover obtain d w where dw: "?r ! k' = (d, w)" by force
          ultimately have "mn \<le> d" "d \<le> mx" "0 \<le> w" "w \<le> d"
            "(\<forall>a \<in> set as. \<not> ok (at_result a)) \<longrightarrow> d = min (?d2 * 2 ^ k') mx"
            using Cons.IH [OF d2, of "Suc i"] by auto
          moreover have "fst (reconnect_loop jitter mn mx i delay (a # as)) ! k = (d, w)"
            unfolding l Suc using dw by simp
          moreover have "d = min (delay * 2 ^ k) mx" if "\<forall>a \<in> set (a # as). \<not> ok (at_result a)"
            using calculation(5) that pow [of k'] Suc by simp
          ultimately show ?thesis by (simp only: prod.case) blast
        qed
      qed
    next
      case (Some err)
      then have "fst (reconnect_loop jitter mn mx i delay (a # as)) = [(?d1, jitter i ?d1)]"
        using True by (simp add: Let_def)
      then show ?thesis using d1 j Cons.prems by auto
    qed
  next
    case False
    then have "fst (reconnect_loop jitter mn mx i delay (a # as)) = []" by (auto split: option.split)
    then show ?thesis by (simp only: list.size not_less_zero) simp
  qed
qed simp

text \<open>Reconnecting never waits longer than the current delay, which stays between the bounds.
  As long as connections end with an error the delay is the doubled minimum, capped, whatever
  the connections' length: a connection that worked for a month counts as one more failure.\<close>

theorem reconnect_delays:
  assumes "0 < mn" "mn \<le> mx" "mx \<le> 2 ^ 62" "draws jitter" "k < List.length (fst (Reconnect jitter mn mx as))"
  shows "case fst (Reconnect jitter mn mx as) ! k of (d, w) \<Rightarrow> mn \<le> d \<and> d \<le> mx \<and> 0 \<le> w \<and> w \<le> d
      \<and> ((\<forall>a \<in> set as. \<not> ok (at_result a)) \<longrightarrow> d = min (mn * 2 ^ k) mx)"
  using reconnect_loop_delays [OF assms(1,3) order_refl assms(2,4), of 0 as] assms by (auto simp: Reconnect_def)

definition failed_attempt :: attempt where
  "failed_attempt = \<lparr>at_before = None, at_result = Inl EOF, at_after = None, at_wait = None\<rparr>"

theorem reconnect_delays_witness:
  "fst (fst (Reconnect (\<lambda>i d. 0) second minute [failed_attempt, failed_attempt]) ! 1) = 2000000000"
proof -
  have l: "1 < List.length (fst (Reconnect (\<lambda>i d. 0) second minute [failed_attempt, failed_attempt]))"
    by (simp add: Reconnect_def failed_attempt_def go_time Let_def)
  have d: "0 < second" "second \<le> minute" "minute \<le> 2 ^ 62" "draws (\<lambda>i d. 0)" by (simp_all add: go_time draws_def)
  show ?thesis using reconnect_delays [OF d l] by (auto simp: failed_attempt_def go_time split: prod.splits)
qed

section \<open>SSH sessions on the agent\<close>

record ssh_handler =
  sh_keys :: string
  sh_host_key :: bytes
  sh_addr :: string

text \<open>\<open>f1\<close> and \<open>f2\<close> are the faults of the installation and of the removal after it.\<close>

definition Prepare_key :: "update_faults \<Rightarrow> update_faults \<Rightarrow> bool \<Rightarrow> unit result \<Rightarrow> time \<Rightarrow> ssh_handler \<Rightarrow> file_system \<Rightarrow> PrepareSsh
    \<Rightarrow> file_system \<times> AgentMessage list \<times> unit result" where
  "Prepare_key f1 f2 sender sent now h fs p =
    (if ps_session p = [] \<or> unix_milli now \<ge> ps_expires p then (fs, [], Inl (Error ''invalid SSH preparation''))
     else case Install f1 (sh_keys h) (ps_session p) (ps_key p) (from_unix_milli (ps_expires p)) fs of
       (fs1, Inl err) \<Rightarrow> (fs1, [], Inl err)
     | (fs1, Inr u) \<Rightarrow>
        if \<not> sender then (fst (Remove_key f2 (sh_keys h) (ps_session p) fs1), [], Inl (Error ''sender unavailable''))
        else (fs1, [SshReadyMsg \<lparr>sr_session = ps_session p, sr_port = 0, sr_host_key = sh_host_key h, sr_token = ps_token p\<rparr>], sent))"

text \<open>The opening of a tunnel: the address dialled and the first frame, before the bytes flow.\<close>

definition tunnel_open :: "ssh_handler \<Rightarrow> bool \<Rightarrow> string \<Rightarrow> bytes \<Rightarrow> (string \<Rightarrow> unit result) \<Rightarrow> unit result \<Rightarrow> unit result
    \<Rightarrow> TunnelFrame list \<times> unit result" where
  "tunnel_open h opener session token dial opened sent =
    (if session = [] \<or> token = [] \<or> \<not> opener then ([], Inl (Error ''invalid tunnel open''))
     else case dial (if sh_addr h = [] then ''127.0.0.1:22'' else sh_addr h) of
       Inl err \<Rightarrow> ([], Inl err)
     | Inr c \<Rightarrow> (case opened of
         Inl err \<Rightarrow> ([], Inl err)
       | Inr st \<Rightarrow> (case sent of
           Inl err \<Rightarrow> ([], Inl err)
         | Inr u \<Rightarrow> ([\<lparr>tf_session = session, tf_token = token, tf_data = [], tf_close = False\<rparr>], Inr ()))))"

definition Handle_ssh :: "update_faults \<Rightarrow> update_faults \<Rightarrow> bool \<Rightarrow> unit result \<Rightarrow> time \<Rightarrow> ssh_handler \<Rightarrow> file_system \<Rightarrow> ValidatorMessage
    \<Rightarrow> file_system \<times> AgentMessage list \<times> unit result" where
  "Handle_ssh f1 f2 sender sent now h fs m = (case m of
     PrepareSshMsg p \<Rightarrow> Prepare_key f1 f2 sender sent now h fs p
   | OpenTunnelMsg session token \<Rightarrow> (fs, [], Inr ())
   | CloseSshMsg session \<Rightarrow> (case Remove_key f1 (sh_keys h) session fs of (fs1, res) \<Rightarrow> (fs1, [], res))
   | _ \<Rightarrow> (fs, [], Inr ()))"

text \<open>
  The two loops of \<open>splice\<close>. From the local connection: each read yields bytes, an error, or
  both. \<open>fails k\<close> is the error of the \<open>k\<close>-th send or write of data.
\<close>

fun pump_local :: "(bytes \<times> error option) list \<Rightarrow> (nat \<Rightarrow> error option) \<Rightarrow> nat \<Rightarrow> TunnelFrame list \<times> unit result option" where
  "pump_local [] fails k = ([], None)"
| "pump_local ((bs, err) # reads) fails k =
    (if bs \<noteq> [] \<and> fails k \<noteq> None then ([], Some (Inl (the (fails k))))
     else let sent = (if bs \<noteq> [] then [data_frame bs] else []) in
       if err \<noteq> None then (sent @ [close_frame], Some (Inr ()))
       else (case pump_local reads fails (if bs \<noteq> [] then Suc k else k) of (out, res) \<Rightarrow> (sent @ out, res)))"

fun pump_remote :: "received list \<Rightarrow> (nat \<Rightarrow> error option) \<Rightarrow> nat \<Rightarrow> bytes list \<times> unit result option" where
  "pump_remote [] fails k = ([], None)"
| "pump_remote (RecvEOF # src) fails k = ([], Some (Inr ()))"
| "pump_remote (RecvError err # src) fails k = ([], Some (Inl err))"
| "pump_remote (Frame frame # src) fails k =
    (if tf_data frame \<noteq> [] \<and> fails k \<noteq> None then ([], Some (Inl (the (fails k))))
     else let written = (if tf_data frame \<noteq> [] then [tf_data frame] else []) in
       if tf_close frame then (written, Some (Inr ()))
       else (case pump_remote src fails (if tf_data frame \<noteq> [] then Suc k else k) of (out, res) \<Rightarrow> (written @ out, res)))"

text \<open>The bytes read from the local connection up to its end.\<close>

fun read_bytes :: "(bytes \<times> error option) list \<Rightarrow> bytes" where
  "read_bytes [] = []"
| "read_bytes ((bs, err) # reads) = bs @ (if err \<noteq> None then [] else read_bytes reads)"

lemma pump_remote_payload:
  "(\<exists>rest. payload src = concat (fst (pump_remote src fails k)) @ rest)
   \<and> (snd (pump_remote src fails k) = Some (Inr ()) \<longrightarrow> concat (fst (pump_remote src fails k)) = payload src)
   \<and> ((\<forall>j. fails j = None) \<longrightarrow> concat (fst (pump_remote src fails k)) = payload src)"
  by (induction src fails k rule: pump_remote.induct) (auto simp: Let_def split: prod.splits)

lemma pump_local_bytes:
  "(\<exists>rest. read_bytes reads = sent_bytes (fst (pump_local reads fails k)) @ rest)
   \<and> (snd (pump_local reads fails k) = Some (Inr ()) \<longrightarrow> sent_bytes (fst (pump_local reads fails k)) = read_bytes reads)
   \<and> ((\<forall>j. fails j = None) \<longrightarrow> sent_bytes (fst (pump_local reads fails k)) = read_bytes reads)"
  by (induction reads fails k rule: pump_local.induct) (auto simp: Let_def data_frame_def close_frame_def split: prod.splits)

lemma pump_preserves_all: "\<forall>j. fails j = None \<Longrightarrow> sent_bytes (fst (pump src fails k)) = payload src"
  by (induction src fails k rule: pump.induct) (auto simp: Let_def data_frame_def close_frame_def split: prod.splits)

text \<open>What was sent carries all its bytes when it is received.\<close>

lemma pump_payload: "payload (map Frame (fst (pump src fails k))) = sent_bytes (fst (pump src fails k))"
  by (induction src fails k rule: pump.induct) (auto simp: Let_def data_frame_def close_frame_def split: prod.splits)

lemma pump_local_payload: "payload (map Frame (fst (pump_local reads fails k))) = sent_bytes (fst (pump_local reads fails k))"
  by (induction reads fails k rule: pump_local.induct) (auto simp: Let_def data_frame_def close_frame_def split: prod.splits)



end
