(* ===== verification/ClientCli.thy ===== *)
theory ClientCli
  imports AtomicFile Encoding Api
begin

text \<open>
  The command line client (\<open>src/internal/clientcli/cli.go\<close>, \<open>credentials.go\<close>,
  \<open>profile.go\<close>, \<open>tui.go\<close> and the flag handling of \<open>src/cmd/client/main.go\<close>):
  which commands run, with which confirmation, what is printed, and the files it keeps.
\<close>

section \<open>Commands and their arguments\<close>

definition commands :: "string set" where
  "commands = {''login'', ''logout'', ''agents'', ''stats'', ''services'', ''logs'', ''cleanup'', ''reboot'', ''exec'', ''ssh'',
     ''enroll-token'', ''users'', ''ssh-keys'', ''audit'', ''easypanel'', ''tui''}"

definition Known :: "string \<Rightarrow> bool" where
  "Known command \<longleftrightarrow> command \<in> commands"

definition need :: "nat \<Rightarrow> string list \<Rightarrow> unit result" where
  "need n args = (if List.length args \<noteq> n then Inl (Error ''invalid arguments'') else Inr ())"

definition Validate :: "string list \<Rightarrow> unit result" where
  "Validate args =
    (if args = [] \<or> \<not> Known (hd args) then Inl (Error ''unknown command'')
     else let c = hd args; n = List.length args in
       if c = ''login'' then need 3 args
       else if c \<in> {''logout'', ''audit'', ''tui''} then need 1 args
       else if c = ''stats'' then need 2 args
       else if c = ''enroll-token'' then
         (if n = 1 \<or> n = 2 \<and> args ! 1 \<in> {''create'', ''list''} \<or> n = 3 \<and> args ! 1 = ''revoke'' then Inr ()
          else Inl (Error ''usage: enroll-token create|list|revoke ID''))
       else if c = ''agents'' then
         (if n = 2 \<and> args ! 1 = ''list'' \<or> n = 3 \<and> args ! 1 = ''show'' then Inr ()
          else Inl (Error ''usage: agents list | agents show AGENT_ID''))
       else if c = ''services'' then
         (if n < 2 then Inl (Error ''service action required'')
          else if args ! 1 = ''list'' then need 3 args
          else if args ! 1 \<in> {''status'', ''start'', ''stop'', ''restart''} then need 4 args
          else Inl (Error ''invalid service action''))
       else if c = ''logs'' then need 3 args
       else if c = ''cleanup'' then
         (if n < 2 then Inl (Error ''cleanup action required'')
          else if args ! 1 = ''preview'' then (if n < 4 then Inl (Error ''cleanup paths required'') else Inr ())
          else if args ! 1 = ''run'' then need 4 args
          else Inl (Error ''invalid cleanup action''))
       else if c = ''reboot'' then need 2 args
       else if c = ''exec'' then (if n < 3 then Inl (Error ''target and command required'') else Inr ())
       else if c = ''easypanel'' then
         (if n < 3 then Inl (Error ''usage: easypanel AGENT_ID detect|projects|token|migrate|job [args...]'')
          else if args ! 2 \<in> {''detect'', ''projects'', ''token'', ''migrate''} then Inr ()
          else if args ! 2 = ''job'' then
            (if n < 4 then Inl (Error ''usage: easypanel AGENT_ID job JOB_ID'') else Inr ())
          else Inl (Error ''easypanel action must be detect|projects|token|migrate|job''))
       else if c = ''ssh'' then need 3 args
       else if c = ''users'' then
         (if n = 1 \<or> n = 2 \<and> args ! 1 = ''list'' then Inr () else Inl (Error ''usage: users list''))
       else Inr ())"

definition stripFlags :: "string list \<Rightarrow> string list" where
  "stripFlags args = filter (\<lambda>a. a \<noteq> ''--json'' \<and> a \<noteq> ''--yes'' \<and> a \<noteq> ''--no-color'') args"

definition removeFlag :: "string list \<Rightarrow> string \<Rightarrow> string list \<times> bool" where
  "removeFlag args flag = (filter (\<lambda>a. a \<noteq> flag) args, flag \<in> set args)"

text \<open>\<open>args\<close> begins with the command.\<close>

definition destructive :: "string \<Rightarrow> string list \<Rightarrow> bool" where
  "destructive command args =
    (if command = ''reboot'' \<or> command = ''exec'' then True
     else if command = ''easypanel'' \<and> List.length args > 1 \<and> args ! 1 = ''migrate'' then True
     else if command = ''cleanup'' \<and> List.length args > 1 \<and> args ! 1 = ''run'' then True
     else if command = ''services'' \<and> List.length args > 1 then args ! 1 \<in> {''start'', ''stop'', ''restart''}
     else False)"

section \<open>Redaction\<close>

text \<open>
  \<open>strings.ToLower\<close> on ASCII text, and \<open>ReplaceAll\<close>; replacing the empty text inserts at every
  character of the text, which is ASCII here too.
\<close>

definition to_lower :: "string \<Rightarrow> string" where
  "to_lower s = map (\<lambda>c. if 65 \<le> byte c \<and> byte c \<le> 90 then char_of (byte c + 32) else c) s"

function replace_all :: "string \<Rightarrow> string \<Rightarrow> string \<Rightarrow> string" where
  "replace_all old new s =
    (if old = [] then new @ concat (map (\<lambda>c. c # new) s)
     else if s = [] then []
     else if has_prefix s old then new @ replace_all old new (drop (List.length old) s)
     else hd s # replace_all old new (tl s))"
  by pat_completeness auto

termination
  by (relation "measure (\<lambda>(old, new, s). List.length s)") auto

declare replace_all.simps [simp del]

definition secret_word :: "string \<Rightarrow> bool" where
  "secret_word w \<longleftrightarrow> w = ''login'' \<or> contains (to_lower w) ''password'' \<or> contains (to_lower w) ''token'' \<or> contains (to_lower w) ''private''"

fun redact_from :: "string \<Rightarrow> string list \<Rightarrow> string \<Rightarrow> string" where
  "redact_from prev [] txt = txt"
| "redact_from prev (arg # args) txt =
    redact_from arg args (if secret_word prev then replace_all arg ''[REDACTED]'' txt else txt)"

definition redact :: "string \<Rightarrow> string list \<Rightarrow> string" where
  "redact txt args = (case args of [] \<Rightarrow> txt | a # as \<Rightarrow> redact_from a as txt)"

section \<open>Running a command\<close>

text \<open>
  A result as it is printed: its text, its JSON, and, where it is a map, the entries \<open>Run\<close> looks
  at. The answer of \<open>Run_cli\<close> is the exit status, what is written to the two outputs, and the call
  it made of the interface.
\<close>

record call_value =
  cv_text :: string
  cv_json :: "string result"
  cv_map :: bool
  cv_output_error :: "string option"
  cv_output :: "string option"
  cv_job :: string

record run_answer =
  ra_exit :: nat
  ra_out :: string
  ra_err :: string
  ra_call :: "(string \<times> string list) option"

definition println :: "string list \<Rightarrow> string" where
  "println ws = join '' '' ws @ [CHR 0x0A]"

definition escape_start :: string where
  "escape_start = [CHR 0x1B, CHR ''['']"

definition plain_text :: "bool \<Rightarrow> string \<Rightarrow> string" where
  "plain_text isTTY txt = (if isTTY then txt else replace_all escape_start [] txt)"

definition ends_newline :: "string \<Rightarrow> bool" where
  "ends_newline s \<longleftrightarrow> s \<noteq> [] \<and> last s = CHR 0x0A"

definition Run_cli :: "(string \<Rightarrow> string list \<Rightarrow> call_value result) option \<Rightarrow> bool \<Rightarrow> string list \<Rightarrow> run_answer" where
  "Run_cli api isTTY args0 =
    (if args0 = [] then \<lparr>ra_exit = 2, ra_out = [], ra_err = println [''command required''], ra_call = None\<rparr>
     else let command = hd args0 in
       if \<not> Known command then \<lparr>ra_exit = 2, ra_out = [], ra_err = println [''unknown command:'', command], ra_call = None\<rparr>
       else (case removeFlag args0 ''--json'' of (args1, jsonOutput) \<Rightarrow>
         (case removeFlag args1 ''--yes'' of (args, yes) \<Rightarrow>
           if destructive command args \<and> \<not> yes
           then \<lparr>ra_exit = 2, ra_out = [], ra_err = println [''confirmation required; pass --yes for non-interactive use''], ra_call = None\<rparr>
           else (case api of
             None \<Rightarrow> \<lparr>ra_exit = 1, ra_out = [], ra_err = println [''client API unavailable''], ra_call = None\<rparr>
           | Some call \<Rightarrow>
              (let made = Some (command, tl args) in
               case call command (tl args) of
                 Inl err \<Rightarrow> \<lparr>ra_exit = 1, ra_out = [], ra_err = println [redact (error_text err) args], ra_call = made\<rparr>
               | Inr v \<Rightarrow>
                  if jsonOutput then (case cv_json v of
                      Inl err \<Rightarrow> \<lparr>ra_exit = 1, ra_out = [], ra_err = println [error_text err], ra_call = made\<rparr>
                    | Inr j \<Rightarrow> \<lparr>ra_exit = 0, ra_out = j, ra_err = [], ra_call = made\<rparr>)
                  else if command = ''login'' then \<lparr>ra_exit = 0, ra_out = println [''login succeeded''], ra_err = [], ra_call = made\<rparr>
                  else if command = ''logout'' then \<lparr>ra_exit = 0, ra_out = println [''logged out''], ra_err = [], ra_call = made\<rparr>
                  else if (command = ''exec'' \<or> command = ''easypanel'') \<and> cv_map v
                    \<and> (case cv_output_error v of None \<Rightarrow> False | Some oe \<Rightarrow> oe \<noteq> [])
                  then \<lparr>ra_exit = 1, ra_out = [], ra_err = println [''job'', cv_job v, ''output error:'', the (cv_output_error v)], ra_call = made\<rparr>
                  else if (command = ''exec'' \<or> command = ''easypanel'') \<and> cv_map v \<and> cv_output v \<noteq> None
                  then (let txt = plain_text isTTY (the (cv_output v))
                        in \<lparr>ra_exit = 0, ra_out = (if ends_newline txt then txt else txt @ [CHR 0x0A]), ra_err = [], ra_call = made\<rparr>)
                  else \<lparr>ra_exit = 0, ra_out = println [redact (plain_text isTTY (cv_text v)) args], ra_err = [], ra_call = made\<rparr>)))))"

section \<open>Confirmation\<close>

text \<open>The commands that change a host, as the client's own rules list them.\<close>

definition changes_host :: "string list \<Rightarrow> bool" where
  "changes_host args \<longleftrightarrow> (case args of
     c # rest \<Rightarrow> c \<in> {''reboot'', ''exec''}
       \<or> (c = ''cleanup'' \<and> (\<exists>more. rest = ''run'' # more))
       \<or> (c = ''services'' \<and> (\<exists>a more. rest = a # more \<and> a \<in> {''start'', ''stop'', ''restart''}))
   | [] \<Rightarrow> False)"

lemma changes_host_destructive: "changes_host (c # rest) \<Longrightarrow> destructive c (c # rest)"
proof -
  assume h: "changes_host (c # rest)"
  show ?thesis
  proof (cases "c = ''reboot'' \<or> c = ''exec''")
    case False
    then have "(c = ''cleanup'' \<and> (\<exists>more. rest = ''run'' # more))
       \<or> (c = ''services'' \<and> (\<exists>a more. rest = a # more \<and> a \<in> {''start'', ''stop'', ''restart''}))"
      using h by (simp add: changes_host_def)
    then show ?thesis by (elim disjE conjE exE) (simp_all add: destructive_def)
  qed (auto simp: destructive_def)
qed

lemma known_no_flag: "Known c \<Longrightarrow> c \<noteq> ''--json'' \<and> c \<noteq> ''--yes''"
  by (auto simp: Known_def commands_def)



text \<open>Migrating a panel is meant to need a confirmation too. The check looks for \<open>migrate\<close> where the agent's name
  stands, so an accepted migration command runs without one, unless the agent is called so.\<close>

theorem migration_unconfirmed:
  assumes "agent \<noteq> ''migrate''" "agent \<noteq> ''--json''" "agent \<noteq> ''--yes''"
  shows "Validate [''easypanel'', agent, ''migrate''] = Inr ()
    \<and> ra_call (Run_cli (Some call) isTTY [''easypanel'', agent, ''migrate'']) = Some (''easypanel'', [agent, ''migrate''])"
  using assms
  by (auto simp: Validate_def Known_def commands_def Run_cli_def removeFlag_def destructive_def Let_def split: sum.split)

theorem migration_unconfirmed_witness:
  "ra_call (Run_cli (Some (\<lambda>c as. Inl EOF)) True [''easypanel'', ''web1'', ''migrate'']) = Some (''easypanel'', [''web1'', ''migrate''])"
  using migration_unconfirmed [of "''web1''" "\<lambda>c as. Inl EOF" True] by simp

text \<open>What follows the word \<open>login\<close> is masked in what is printed: that is the user's name. The password after it is
  printed in the clear.\<close>

theorem login_masks_the_name:
  "redact ''no bob with hunter2'' [''login'', ''bob'', ''hunter2''] = ''no [REDACTED] with hunter2''"
  by (simp add: redact_def secret_word_def to_lower_def byte_def has_prefix_def replace_all.simps)

section \<open>The access token on disk\<close>

definition Save :: "unit result \<Rightarrow> write_faults \<Rightarrow> file_system \<Rightarrow> string \<Rightarrow> string \<Rightarrow> file_system list \<times> unit result" where
  "Save mkdir f fs path token =
    (if path = [] \<or> token = [] \<or> CHR 0x0D \<in> set token \<or> CHR 0x0A \<in> set token
     then ([fs], Inl (Error ''valid credential path and token required''))
     else case mkdir of Inl err \<Rightarrow> ([fs], Inl err) | Inr u \<Rightarrow> atomicWrite f 384 fs path token)"

text \<open>\<open>stat\<close> and \<open>reads\<close> are the errors of the two calls on an existing file.\<close>

definition Load :: "error option \<Rightarrow> error option \<Rightarrow> file_system \<Rightarrow> string \<Rightarrow> string result" where
  "Load stat reads fs path = (case fs path of
     None \<Rightarrow> Inl (External ''no such file'')
   | Some (data, mode) \<Rightarrow> (case stat of
       Some err \<Rightarrow> Inl err
     | None \<Rightarrow> if mode mod 64 \<noteq> 0 then Inl (Error ''credential file permissions too broad'')
         else (case reads of Some err \<Rightarrow> Inl err | None \<Rightarrow> Inr data)))"

definition Clear :: "error option \<Rightarrow> file_system \<Rightarrow> string \<Rightarrow> file_system \<times> unit result" where
  "Clear rm fs path = (if fs path = None then (fs, Inr ())
     else case rm of Some err \<Rightarrow> (fs, Inl err) | None \<Rightarrow> (fs(path := None), Inr ()))"

text \<open>A saved token is what is loaded afterwards, it is readable by its owner only, and no other file changed; a
  failed save leaves the token there was; after logging out nothing can be loaded.\<close>

theorem token_on_disk:
  assumes "fresh_temp f fs path" "Save mkdir f fs path token = (states, res)"
  shows "(ok res \<longrightarrow> Load None None (hd states) path = Inr token \<and> hd states = fs(path \<mapsto> (token, 384)))
    \<and> (\<not> ok res \<longrightarrow> hd states = fs)
    \<and> \<not> ok (Load stat reads (fst (Clear None (hd states) path)) path)"
proof -
  have w: "hd states = (if ok res then fs(path \<mapsto> (token, 384)) else fs)"
    using assms atomicWrite_result [of f fs path 384 token states res]
    by (auto simp: Save_def written_file_def split: if_splits sum.splits)
  then show ?thesis by (auto simp: Load_def Clear_def)
qed

theorem token_on_disk_witness:
  "Load None None (hd (fst (Save (Inr ()) (no_faults ''t'') (\<lambda>_. None) ''p'' ''tok''))) ''p'' = Inr ''tok''"
proof -
  have f: "fresh_temp (no_faults ''t'') (\<lambda>_. None) ''p''" by (simp add: fresh_temp_def no_faults_def)
  obtain states res where e: "Save (Inr ()) (no_faults ''t'') (\<lambda>_. None) ''p'' ''tok'' = (states, res)" by force
  then have "ok res" by (auto simp: Save_def atomicWrite_def no_faults_def Let_def)
  then have "Load None None (hd states) ''p'' = Inr ''tok''" using token_on_disk [OF f e] by blast
  then show ?thesis using e by simp
qed

end
