(* ===== verification/ClientCalls.thy ===== *)
theory ClientCalls
  imports ClientCli Maintenance ServerJobs
begin

text \<open>
  The client's adapter (\<open>src/internal/clientapi/client.go\<close>): how a command becomes requests to the
  validator, how a job's output is followed, and the EasyPanel commands, which run a program on one
  agent with what was read from another.
\<close>

section \<open>Job contexts\<close>

fun base36 :: "nat \<Rightarrow> string" where
  "base36 n = (let d = n mod 36; c = char_of (if d < 10 then 48 + d else 87 + d)
     in if n < 36 then [c] else base36 (n div 36) @ [c])"

declare base36.simps [simp del]

definition format_base36 :: "int \<Rightarrow> string" where
  "format_base36 x = (if x < 0 then CHR ''-'' # base36 (nat (- x)) else base36 (nat x))"

text \<open>The idempotency key is the clock's nanoseconds.\<close>

definition jobContextT :: "time \<Rightarrow> string \<Rightarrow> string \<Rightarrow> bool \<Rightarrow> u32 \<Rightarrow> JobRequestContext" where
  "jobContextT now agent reason confirmed timeout = \<lparr>jc_agent = agent, jc_reason = reason, jc_key = format_base36 now,
     jc_timeout = (if timeout \<le> 0 then 30 else timeout), jc_confirmed = confirmed\<rparr>"

definition jobContext :: "time \<Rightarrow> string \<Rightarrow> string \<Rightarrow> bool \<Rightarrow> JobRequestContext" where
  "jobContext now agent reason confirmed = jobContextT now agent reason confirmed 30"

section \<open>Requests\<close>

datatype rpc =
    ListAgentsRpc nat
  | GetAgentRpc string
  | GetMetricsRpc string int nat
  | TypedJobRpc JobRequestContext TypedOperation
  | RebootRpc JobRequestContext RebootRequest
  | ExecRpc JobRequestContext ArbitraryCommand
  | CreateTokenRpc u32
  | ListTokensRpc nat
  | RevokeTokenRpc string
  | ListUsersRpc nat
  | ListKeysRpc string nat
  | AddKeyRpc bytes string
  | DeleteKeyRpc string
  | ListAuditRpc nat
  | GetSessionRpc string
  | CloseSessionRpc string string
  | PrepareRpc string bytes string u32

definition services :: "time \<Rightarrow> string list \<Rightarrow> rpc result" where
  "services now args =
    (if List.length args < 2 then Inl (Error ''service action and agent ID required'')
     else let a = args ! 0; c = jobContext now (args ! 1) (''service '' @ a) (a \<noteq> ''list'' \<and> a \<noteq> ''status'') in
       if a = ''list'' then Inr (TypedJobRpc c (ServiceList 200))
       else if a \<in> {''status'', ''start'', ''stop'', ''restart''} then
         (if List.length args \<noteq> 3 then Inl (Error ''unit required'')
          else if a = ''status'' then Inr (TypedJobRpc c (ServiceStatus (args ! 2)))
          else if a = ''start'' then Inr (TypedJobRpc c (ServiceStart (args ! 2)))
          else if a = ''stop'' then Inr (TypedJobRpc c (ServiceStop (args ! 2)))
          else Inr (TypedJobRpc c (ServiceRestart (args ! 2))))
       else Inl (Error ''invalid service action''))"

text \<open>
  \<open>Call\<close>, after the token was loaded, for the commands that make one request: the request, an error before any request, or a panic
  where the code indexes past the arguments. \<open>read\<close> reads a file, \<open>now\<close> is the clock. An \<open>exec\<close>
  joins its words with spaces. Login, logout and the EasyPanel commands are separate.
\<close>

definition call_request :: "(string \<Rightarrow> bytes result) \<Rightarrow> time \<Rightarrow> string \<Rightarrow> string list \<Rightarrow> rpc result outcome" where
  "call_request read now command args =
    (let n = List.length args in
     if command = ''agents'' then
       (if n = 2 \<and> args ! 0 = ''show'' then Ret (Inr (GetAgentRpc (args ! 1))) else Ret (Inr (ListAgentsRpc 100)))
     else if command = ''stats'' then
       (if n \<noteq> 1 then Ret (Inl (Error ''agent ID required''))
        else Ret (Inr (GetMetricsRpc (args ! 0) (unix_milli (now - hour)) 100)))
     else if command = ''services'' then Ret (services now args)
     else if command = ''logs'' then
       (if n \<noteq> 2 then Ret (Inl (Error ''agent ID and unit required''))
        else Ret (Inr (TypedJobRpc (jobContext now (args ! 0) ''read logs'' False) (JournalRead (args ! 1) 0 0 200))))
     else if command = ''cleanup'' then
       (if n < 3 then Ret (Inl (Error ''cleanup action, agent ID, and value required''))
        else if args ! 0 = ''preview''
          then Ret (Inr (TypedJobRpc (jobContext now (args ! 1) ''cleanup preview'' False) (CleanupPreview (drop 2 args))))
        else Ret (Inl (Error ''cleanup run requires preview metadata'')))
     else if command = ''reboot'' then
       (if n < 1 then Panic ''index out of range''
        else Ret (Inr (RebootRpc (jobContext now (args ! 0) ''reboot'' True)
          \<lparr>rb_target = args ! 0, rb_confirmation = args ! 0, rb_expires = unix_milli (now + minute)\<rparr>)))
     else if command = ''exec'' then
       (if n < 1 then Panic ''index out of range''
        else Ret (Inr (ExecRpc (jobContextT now (args ! 0) ''admin exec'' True 30)
          \<lparr>ac_command = join '' '' (drop 1 args), ac_capture = True\<rparr>)))
     else if command = ''enroll-token'' then
       (if n = 0 \<or> args ! 0 = ''create'' then Ret (Inr (CreateTokenRpc 300))
        else if args ! 0 = ''list'' then Ret (Inr (ListTokensRpc 100))
        else if n = 2 \<and> args ! 0 = ''revoke'' then Ret (Inr (RevokeTokenRpc (args ! 1)))
        else Ret (Inl (Error ''invalid enroll-token action'')))
     else if command = ''users'' then
       (if n = 0 \<or> args ! 0 = ''list'' then Ret (Inr (ListUsersRpc 100)) else Ret (Inl (Error ''invalid users action'')))
     else if command = ''ssh-keys'' then
       (if n = 0 \<or> args ! 0 = ''list'' then Ret (Inr (ListKeysRpc (if n > 1 then args ! 1 else []) 100))
        else if n = 3 \<and> args ! 0 = ''add'' then
          (case read (args ! 1) of Inl err \<Rightarrow> Ret (Inl err) | Inr key \<Rightarrow> Ret (Inr (AddKeyRpc key (args ! 2))))
        else if n = 2 \<and> args ! 0 = ''delete'' then Ret (Inr (DeleteKeyRpc (args ! 1)))
        else Ret (Inl (Error ''invalid ssh-keys action'')))
     else if command = ''audit'' then Ret (Inr (ListAuditRpc 100))
     else if command = ''ssh'' then
       (if n = 2 \<and> args ! 0 = ''status'' then Ret (Inr (GetSessionRpc (args ! 1)))
        else if n = 2 \<and> args ! 0 = ''close'' then Ret (Inr (CloseSessionRpc (args ! 1) ''client closed''))
        else if n \<noteq> 2 then Ret (Inl (Error ''agent ID and public key required''))
        else (case read (args ! 1) of Inl err \<Rightarrow> Ret (Inl err)
          | Inr key \<Rightarrow> Ret (Inr (PrepareRpc (args ! 0) key ''interactive SSH'' 900))))
     else Ret (Inl (Errorf ''unsupported command %q'' [CHR 0x22 # command @ [CHR 0x22]] None)))"

section \<open>Flags and fields\<close>

fun extract_flag :: "string \<Rightarrow> string list \<Rightarrow> string \<Rightarrow> bool \<Rightarrow> string \<times> string list \<times> bool" where
  "extract_flag name (a # b # rest) v found =
    (if a = name then extract_flag name rest b True
     else (case extract_flag name (b # rest) v found of (v', out, found') \<Rightarrow> (v', a # out, found')))"
| "extract_flag name args v found = (v, args, found)"

definition extractFlag :: "string list \<Rightarrow> string \<Rightarrow> string \<times> string list \<times> bool" where
  "extractFlag args name = extract_flag name args [] False"

definition extractBoolFlag :: "string list \<Rightarrow> string \<Rightarrow> string list \<times> bool" where
  "extractBoolFlag args name = (filter (\<lambda>a. a \<noteq> name) args, name \<in> set args)"

definition parseDetectField :: "string \<Rightarrow> string \<Rightarrow> string" where
  "parseDetectField detect prefix = (case List.find (\<lambda>f. has_prefix f prefix) (Fields detect) of
     None \<Rightarrow> []
   | Some f \<Rightarrow> (let v = drop (List.length prefix) f in if v = ''unknown'' then [] else v))"

definition parseDetectURL :: "string \<Rightarrow> string" where
  "parseDetectURL detect = parseDetectField detect ''url=''"

section \<open>Following a job's output\<close>

datatype chunk_event = Chunk OutputChunk | ChunkEnd | ChunkError error

fun read_chunks :: "chunk_event list \<Rightarrow> bytes result option" where
  "read_chunks [] = None"
| "read_chunks (ChunkEnd # evs) = Some (Inr [])"
| "read_chunks (ChunkError err # evs) = Some (Inl err)"
| "read_chunks (Chunk c # evs) = (if oc_final c then Some (Inr (oc_data c))
     else (case read_chunks evs of None \<Rightarrow> None | Some (Inl err) \<Rightarrow> Some (Inl err) | Some (Inr out) \<Rightarrow> Some (Inr (oc_data c @ out))))"

text \<open>
  The polling loop: each turn has the result of one attempt, the clock after it and the context's
  error while waiting. The wait ends at \<open>deadline\<close>; with no result it is still polling.
\<close>

fun poll_output :: "time \<Rightarrow> (bytes result \<times> time \<times> error option) list \<Rightarrow> bytes result option" where
  "poll_output deadline [] = None"
| "poll_output deadline ((res, now, done) # turns) = (case res of
     Inr out \<Rightarrow> Some (Inr out)
   | Inl err \<Rightarrow>
      if status_code err \<noteq> FailedPrecondition \<or> now > deadline then Some (Inl err)
      else (case done of Some e \<Rightarrow> Some (Inl e) | None \<Rightarrow> poll_output deadline turns))"

definition jobOutputUntil :: "bool \<Rightarrow> time \<Rightarrow> duration \<Rightarrow> (bytes result \<times> time \<times> error option) list \<Rightarrow> bytes result option" where
  "jobOutputUntil loaded now wait turns = (if \<not> loaded then Some (Inl (Error ''login required''))
     else poll_output (now + (if wait \<le> 0 then 40 * second else wait)) turns)"

section \<open>Commands through the shell of an agent\<close>

text \<open>
  The validator as these commands see it: dispatching a command gives a job or an error, following a
  job for a while gives its output or an error, and there is the list of agents with their host
  names. Next to a result the definitions give the commands dispatched: agent, command line, timeout.
\<close>

record remote =
  rm_exec :: "JobRequestContext \<Rightarrow> ArbitraryCommand \<Rightarrow> string result"
  rm_follow :: "string \<Rightarrow> duration \<Rightarrow> bytes result"
  rm_stream :: "string \<Rightarrow> bytes result"
  rm_agents :: "(string \<times> string) list result"
  rm_loaded :: bool

record exec_answer =
  xa_job :: string
  xa_output :: "string option"
  xa_error :: "string option"
  xa_detached :: bool

type_synonym 'a dispatched = "(string \<times> string \<times> u32) list \<times> 'a result"

definition execCaptureT :: "remote \<Rightarrow> time \<Rightarrow> string \<Rightarrow> string \<Rightarrow> string list \<Rightarrow> u32 \<Rightarrow> bool \<Rightarrow> exec_answer dispatched" where
  "execCaptureT rm now agent reason argv timeoutSec detach =
    (let t = (if timeoutSec \<le> 0 then 30 else timeoutSec); line = join '' '' argv in
     case rm_exec rm (jobContextT now agent reason True t) \<lparr>ac_command = line, ac_capture = True\<rparr> of
       Inl err \<Rightarrow> ([(agent, line, t)], Inl err)
     | Inr job \<Rightarrow> ([(agent, line, t)],
        if detach then Inr \<lparr>xa_job = job, xa_output = Some (''dispatched job '' @ job @ '' (detached); check with: easypanel ''
            @ agent @ '' job '' @ job), xa_error = None, xa_detached = True\<rparr>
        else (case rm_follow rm job (int (unat t) * second + 10 * second) of
          Inl err \<Rightarrow> Inr \<lparr>xa_job = job, xa_output = None, xa_error = Some (error_text err), xa_detached = False\<rparr>
        | Inr out \<Rightarrow> Inr \<lparr>xa_job = job, xa_output = Some out, xa_error = None, xa_detached = False\<rparr>)))"

definition easypanelExec :: "remote \<Rightarrow> time \<Rightarrow> string \<Rightarrow> string list \<Rightarrow> string dispatched" where
  "easypanelExec rm now agent argv =
    (case execCaptureT rm now agent (''easypanel '' @ hd argv) (''easypanel-migrate'' # argv) 30 False of
       (log, Inl err) \<Rightarrow> (log, Inl err)
     | (log, Inr a) \<Rightarrow> (log, case xa_error a of
         Some oe \<Rightarrow> if oe \<noteq> [] then Inl (Error oe) else Inr (case xa_output a of None \<Rightarrow> [] | Some out \<Rightarrow> trim_space out)
       | None \<Rightarrow> Inr (case xa_output a of None \<Rightarrow> [] | Some out \<Rightarrow> trim_space out)))"

definition agentHostname :: "remote \<Rightarrow> string \<Rightarrow> string result" where
  "agentHostname rm agent = (if \<not> rm_loaded rm then Inl (Error ''login required'')
     else case rm_agents rm of
       Inl err \<Rightarrow> Inl err
     | Inr ags \<Rightarrow> (case List.find (\<lambda>a. fst a = agent) ags of
         None \<Rightarrow> Inl (Errorf ''target agent %s not found'' [agent] None)
       | Some a \<Rightarrow> if snd a = [] then Inl (Errorf ''target agent %s has no hostname; pass --remote-url'' [agent] None) else Inr (snd a)))"

definition resolveRemotePanel :: "remote \<Rightarrow> time \<Rightarrow> string \<Rightarrow> string \<Rightarrow> (string \<times> string) dispatched" where
  "resolveRemotePanel rm now agent explicitURL =
    (case easypanelExec rm now agent [''detect''] of
       (l1, Inl err) \<Rightarrow> (l1, Inl (Errorf ''detect target panel: %w'' [] (Some err)))
     | (l1, Inr det) \<Rightarrow>
        if parseDetectURL det = [] then (l1, Inl (Errorf ''target agent has no EasyPanel: %s'' [det] None))
        else (let url0 = (if trim_space explicitURL = [] then parseDetectField det ''public_url='' else trim_space explicitURL) in
          case (if url0 \<noteq> [] then Inr url0
                else case agentHostname rm agent of Inl err \<Rightarrow> Inl err | Inr host \<Rightarrow> Inr (''http://'' @ host @ '':3000'')) of
            Inl err \<Rightarrow> (l1, Inl err)
          | Inr url \<Rightarrow> (case easypanelExec rm now agent [''token''] of
              (l2, Inl err) \<Rightarrow> (l1 @ l2, Inl (Errorf ''read target panel token: %w'' [] (Some err)))
            | (l2, Inr token) \<Rightarrow> (l1 @ l2, if token = [] then Inl (Error ''target panel token empty'') else Inr (url, token)))))"

definition jobStatus :: "remote \<Rightarrow> string \<Rightarrow> exec_answer result" where
  "jobStatus rm ident = (if trim_space ident = [] then Inl (Error ''job id required'')
     else if \<not> rm_loaded rm then Inl (Error ''login required'')
     else case rm_stream rm ident of
       Inr out \<Rightarrow> Inr \<lparr>xa_job = ident, xa_output = Some out, xa_error = None, xa_detached = False\<rparr>
     | Inl err \<Rightarrow> if status_code err = FailedPrecondition
         then Inr \<lparr>xa_job = ident, xa_output = Some (''job '' @ ident @ '' is still running; re-run this command to poll''),
                xa_error = None, xa_detached = False\<rparr>
         else Inl err)"

text \<open>The timeout and the words that remain of a migration's arguments.\<close>

definition migrate_options :: "string list \<Rightarrow> (u32 \<times> bool \<times> string list) result" where
  "migrate_options rest = (case extractFlag rest ''--timeout'' of
     (mins, remain, found) \<Rightarrow>
       (case (if found then (case parse_int64 (trim_space mins) of
                 None \<Rightarrow> Inl (Error ''--timeout must be a positive number of minutes'')
               | Some m \<Rightarrow> if m \<le> 0 then Inl (Error ''--timeout must be a positive number of minutes'')
                   else Inr (word_of_int (m * 60), remain))
              else Inr (30 * 60, rest)) of
          Inl err \<Rightarrow> Inl err
        | Inr (t, rest1) \<Rightarrow> (case extractBoolFlag rest1 ''--detach'' of (rest2, detach) \<Rightarrow> Inr (t, detach, rest2))))"

definition easypanel_call :: "remote \<Rightarrow> time \<Rightarrow> string list \<Rightarrow> exec_answer dispatched" where
  "easypanel_call rm now args =
    (if \<not> rm_loaded rm then ([], Inl (Error ''login required''))
     else if List.length args < 2 then ([], Inl (Error ''agent ID and action required''))
     else let rest = tl args in
       if hd rest = ''job'' then
         (if List.length rest < 2 then ([], Inl (Error ''job id required'')) else ([], jobStatus rm (rest ! 1)))
       else (case (if hd rest = ''migrate'' then migrate_options rest else Inr (30, False, rest)) of
         Inl err \<Rightarrow> ([], Inl err)
       | Inr (t, detach, rest1) \<Rightarrow> (case extractFlag rest1 ''--to-agent'' of
           (dst, remain, found) \<Rightarrow>
             if \<not> found then execCaptureT rm now (hd args) (''easypanel '' @ hd rest1) (''easypanel-migrate'' # rest1) t detach
             else (case extractFlag remain ''--remote-url'' of (url, remain2, hasURL) \<Rightarrow>
               (case resolveRemotePanel rm now dst url of
                  (l1, Inl err) \<Rightarrow> (l1, Inl err)
                | (l1, Inr (resolvedURL, tok)) \<Rightarrow>
                   (let rest2 = remain2 @ [''--remote-url'', resolvedURL, ''--remote-token'', tok] in
                    case execCaptureT rm now (hd args) (''easypanel '' @ hd rest2) (''easypanel-migrate'' # rest2) t detach of
                      (l2, res) \<Rightarrow> (l1 @ l2, res)))))))"

section \<open>The whole switch\<close>

text \<open>
  \<open>Call\<close> as a plan: log in and keep the token, forget the token, run an EasyPanel command, or make one
  request; \<open>loaded\<close> says whether the stored token could be read.
\<close>

datatype call_plan = LogIn string string | LogOut | PanelCommand "string list" | Request rpc

definition Call_plan :: "bool \<Rightarrow> (string \<Rightarrow> bytes result) \<Rightarrow> time \<Rightarrow> string \<Rightarrow> string list \<Rightarrow> call_plan result outcome" where
  "Call_plan loaded read now command args =
    (if command = ''login'' then
       (if List.length args \<noteq> 2 then Ret (Inl (Error ''username and password required''))
        else Ret (Inr (LogIn (args ! 0) (args ! 1))))
     else if command = ''logout'' then Ret (Inr LogOut)
     else if \<not> loaded then Ret (Inl (Error ''login required''))
     else if command = ''easypanel'' then Ret (Inr (PanelCommand args))
     else (case call_request read now command args of
       Panic m \<Rightarrow> Panic m
     | Ret (Inl err) \<Rightarrow> Ret (Inl err)
     | Ret (Inr r) \<Rightarrow> Ret (Inr (Request r))))"

section \<open>Every validated command makes its request\<close>

text \<open>Run of the client validates the arguments without its flags and then runs with the flags still
  there; the call it makes never indexes past them.\<close>

lemma validate_arity:
  assumes "Validate (c # args) = Inr ()" "c = ''reboot'' \<or> c = ''exec''"
  shows "args \<noteq> []"
  using assms by (auto simp: Validate_def need_def Let_def split: if_splits)

text \<open>A command line that passes validation without its flags never makes the client index past its
  arguments: the call that Run makes for it gives a request or an error.\<close>

theorem validated_call_never_panics:
  assumes "Validate (stripFlags args0) = Inr ()"
    and "ra_call (Run_cli (Some api) tty args0) = Some (c, args)"
  shows "Call_plan loaded read now c args \<noteq> Panic m"
proof
  assume "Call_plan loaded read now c args = Panic m"
  then have p: "call_request read now c args = Panic m"
    by (auto simp: Call_plan_def split: if_splits outcome.splits sum.splits)
  then have c: "(c = ''reboot'' \<or> c = ''exec'') \<and> args = []"
    by (auto simp: call_request_def Let_def split: if_splits sum.splits)
  have call: "args0 \<noteq> []" "Known (hd args0)" "c = hd args0"
      "args = tl (filter (\<lambda>a. a \<noteq> ''--yes'') (filter (\<lambda>a. a \<noteq> ''--json'') args0))"
    using assms(2) by (auto simp: Run_cli_def removeFlag_def Let_def split: if_splits sum.splits)
  then obtain rest where a: "args0 = c # rest" by (cases args0) auto
  have keep: "c \<noteq> ''--json''" "c \<noteq> ''--yes''" "c \<noteq> ''--no-color''"
    using c by auto
  then have args: "args = filter (\<lambda>a. a \<noteq> ''--yes'') (filter (\<lambda>a. a \<noteq> ''--json'') rest)" using call(4) a by simp
  have "filter (\<lambda>a. a \<noteq> ''--json'' \<and> a \<noteq> ''--yes'' \<and> a \<noteq> ''--no-color'') rest = []"
  proof (rule ccontr)
    assume "\<not> ?thesis"
    then obtain x where "x \<in> set rest" "x \<noteq> ''--json''" "x \<noteq> ''--yes''" by (auto simp: filter_empty_conv)
    then have "x \<in> set args" using args by simp
    then show False using c by simp
  qed
  then have "stripFlags args0 = [c]" using keep a by (simp add: stripFlags_def)
  then show False using validate_arity [of c "[]"] assms(1) c by simp
qed

section \<open>Reading the journal\<close>

text \<open>Whatever agent and unit the client asks the logs of, the agent that gets the operation rejects
  it without running anything: the client leaves the bounds of the time range at zero, which is the
  same instant for both, and the agent wants an increasing range.\<close>

theorem logs_always_rejected:
  assumes "call_request read now ''logs'' args = Ret (Inr (TypedJobRpc c operation))"
    and "job_operation job = SafeOperation (Some operation) retry"
  shows "jr_state (Dispatch_job proc None d job) = JOB_REJECTED \<and> job_argv job = Inr []"
proof -
  have "operation = JournalRead (args ! 1) 0 0 200"
    using assms(1) by (auto simp: call_request_def Let_def split: if_splits)
  then have "job_argv job = Inr []" using assms(2) by (simp add: job_argv_def safe_argv_def Journal_def)
  then show ?thesis by (simp add: Dispatch_job_def)
qed

section \<open>Following a job\<close>

lemma read_chunks_carries:
  "carries ident cs n body \<Longrightarrow> cs \<noteq> [] \<Longrightarrow> read_chunks (map Chunk cs @ evs) = Some (Inr body)"
proof (induction cs arbitrary: n body)
  case (Cons c cs)
  then obtain rest where r: "oc_final c \<longleftrightarrow> cs = []" "body = oc_data c @ rest" "carries ident cs (n + 1) rest" by auto
  then show ?case using Cons.IH [OF r(3)] by (cases "cs = []") auto
qed simp

text \<open>C37. What the client puts together from the chunks of a stream that the validator sent without an
  error is the recorded output of the job, whatever follows the final chunk.\<close>

theorem job_output_round_trip:
  assumes "StreamJobOutput e fails d ident = (chunks, Inr ())"
  shows "\<exists>row \<in> set (jobs d). j_id row = ident
    \<and> read_chunks (map Chunk chunks @ evs) = Some (Inr (case j_output row of None \<Rightarrow> [] | Some b \<Rightarrow> b))"
proof -
  obtain row where row: "row \<in> set (jobs d)" "j_id row = ident" "chunks \<noteq> []"
      "carries ident chunks 0 (case j_output row of None \<Rightarrow> [] | Some b \<Rightarrow> b)"
    using stream_output_complete [OF assms] by blast
  show ?thesis using row(1,2) read_chunks_carries [OF row(4,3)] by blast
qed

lemma poll_output_None:
  "poll_output deadline turns = None \<Longrightarrow> \<forall>(res, now, done) \<in> set turns. now \<le> deadline"
  by (induction turns rule: poll_output.induct) (auto split: sum.splits if_splits option.splits)

text \<open>C38. Following a job ends: when each turn's clock is at least half a second after the one before, the
  loop has its answer before more turns than fit in the wait, whatever the validator answers.\<close>

theorem following_ends:
  assumes "\<forall>i < List.length turns. fst (snd (turns ! i)) \<ge> now + int i * (second div 2)"
    and "int (List.length turns - 1) * (second div 2) > (if wait \<le> 0 then 40 * second else wait)"
  shows "\<exists>res. jobOutputUntil loaded now wait turns = Some res"
proof (rule ccontr)
  assume a: "\<not> ?thesis"
  let ?w = "if wait \<le> 0 then 40 * second else wait"
  let ?n = "List.length turns - 1"
  have n: "poll_output (now + ?w) turns = None" using a by (auto simp: jobOutputUntil_def split: if_splits)
  have ne: "turns \<noteq> []" using assms(2) by (auto simp: second_def split: if_splits)
  then have l: "turns ! ?n \<in> set turns" by simp
  have "fst (snd (turns ! ?n)) \<le> now + ?w" using poll_output_None [OF n] l by fastforce
  moreover have "fst (snd (turns ! ?n)) \<ge> now + int ?n * (second div 2)" using assms(1) ne by simp
  ultimately show False using assms(2) by linarith
qed

section \<open>Migrations between agents\<close>

lemma extract_flag_absent: "name \<notin> set args \<Longrightarrow> extract_flag name args v found = (v, args, found)"
  by (induction name args v found rule: extract_flag.induct) auto

lemma extract_flag_last:
  "name \<notin> set ws \<Longrightarrow> extract_flag name (ws @ [name, x]) v found = (x, ws, True)"
proof (induction ws arbitrary: v)
  case (Cons w ws)
  then show ?case by (cases "ws @ [name, x]") auto
qed simp

lemma extractFlag_absent: "name \<notin> set args \<Longrightarrow> extractFlag args name = ([], args, False)"
  by (simp add: extractFlag_def extract_flag_absent)

lemma extractBoolFlag_absent: "name \<notin> set args \<Longrightarrow> extractBoolFlag args name = (args, False)"
  unfolding extractBoolFlag_def by (simp add: filter_id_conv) metis

text \<open>What one program run through an agent's shell returned.\<close>

definition answered :: "remote \<Rightarrow> time \<Rightarrow> string \<Rightarrow> string \<Rightarrow> string \<Rightarrow> bool" where
  "answered rm now agent action raw \<longleftrightarrow> (\<exists>job. rm_exec rm (jobContextT now agent (''easypanel '' @ action) True 30)
      \<lparr>ac_command = ''easypanel-migrate '' @ action, ac_capture = True\<rparr> = Inr job \<and> rm_follow rm job (40 * second) = Inr raw)"

lemma easypanelExec_answered:
  assumes "easypanelExec rm now agent [action] = (l, Inr out)" "out \<noteq> []"
  shows "\<exists>raw. answered rm now agent action raw \<and> out = trim_space raw"
proof -
  obtain job where j: "rm_exec rm (jobContextT now agent (''easypanel '' @ action) True 30)
      \<lparr>ac_command = ''easypanel-migrate '' @ action, ac_capture = True\<rparr> = Inr job"
    using assms by (auto simp: easypanelExec_def execCaptureT_def Let_def split: sum.splits prod.splits)
  then obtain raw where "rm_follow rm job (40 * second) = Inr raw" "out = trim_space raw"
    using assms by (auto simp: easypanelExec_def execCaptureT_def Let_def second_def split: sum.splits prod.splits if_splits)
  then show ?thesis using j by (auto simp: answered_def)
qed

lemma resolveRemotePanel_token:
  assumes "resolveRemotePanel rm now agent explicitURL = (l, Inr (url, tok))"
  shows "\<exists>raw. answered rm now agent ''token'' raw \<and> tok = trim_space raw"
proof -
  obtain l2 where "easypanelExec rm now agent [''token''] = (l2, Inr tok)" "tok \<noteq> []"
    using assms by (auto simp: resolveRemotePanel_def Let_def split: sum.splits prod.splits if_splits)
  then show ?thesis by (rule easypanelExec_answered)
qed

text \<open>A migration to another agent: the last command dispatched is a shell command of the source agent
  that ends with whatever the target agent answered for its token, as it came. An answer with a
  semicolon or a command substitution in it runs on the source agent.\<close>

theorem remote_token_runs_on_source:
  assumes "easypanel_call rm now (src # ''migrate'' # ws @ [''--to-agent'', dst]) = (log, Inr ans)"
    and "set (dst # ws) \<inter> {''--timeout'', ''--detach'', ''--to-agent'', ''--remote-url''} = {}"
  shows "\<exists>raw url. answered rm now dst ''token'' raw
    \<and> last log = (src, join '' '' ([''easypanel-migrate'', ''migrate''] @ ws @ [''--remote-url'', url, ''--remote-token'', trim_space raw]), 1800)"
proof -
  let ?rest = "''migrate'' # ws @ [''--to-agent'', dst]"
  have opts: "migrate_options ?rest = Inr (1800, False, ?rest)"
    using assms(2) by (auto simp: migrate_options_def extractFlag_absent extractBoolFlag_absent)
  have to: "extractFlag ?rest ''--to-agent'' = (dst, ''migrate'' # ws, True)"
    using assms(2) extract_flag_last [of "''--to-agent''" "''migrate'' # ws" dst] by (auto simp: extractFlag_def)
  have noUrl: "extractFlag (''migrate'' # ws) ''--remote-url'' = ([], ''migrate'' # ws, False)"
    using assms(2) by (intro extractFlag_absent) auto
  obtain l1 url tok where r: "resolveRemotePanel rm now dst [] = (l1, Inr (url, tok))"
    using assms(1) opts to noUrl by (auto simp: easypanel_call_def Let_def split: sum.splits prod.splits if_splits)
  let ?argv = "''easypanel-migrate'' # ''migrate'' # ws @ [''--remote-url'', url, ''--remote-token'', tok]"
  have "\<exists>l2 res. execCaptureT rm now src ''easypanel migrate'' ?argv 1800 False = (l2, res) \<and> log = l1 @ l2"
    using assms(1) opts to noUrl r by (auto simp: easypanel_call_def Let_def split: sum.splits prod.splits if_splits)
  then have "last log = (src, join '' '' ?argv, 1800)"
    by (auto simp: execCaptureT_def Let_def split: sum.splits)
  then show ?thesis using resolveRemotePanel_token [OF r] by auto
qed

text \<open>A migration with a timeout of more than an hour is refused by the validator, whoever asks.\<close>

lemma submitUnsafe_timeout:
  assumes "jc_timeout c > 3600"
  shows "\<exists>code msg. submitUnsafe md e cancelled s ctx (Some c) operation kind adminOnly = fail s code msg"
  using assms by (auto simp: submitUnsafe_def split: option.splits)

theorem long_migration_refused:
  assumes "migrate_options rest = Inr (t, detach, rest')" "t > 3600"
  shows "\<exists>code msg. Exec md e cancelled s ctx (Some (jobContextT now agent reason True t)) (Some request) = fail s code msg"
proof -
  have "jc_timeout (jobContextT now agent reason True t) > 3600" using assms(2) by (auto simp: jobContextT_def)
  then show ?thesis using submitUnsafe_timeout unfolding Exec_def by (auto split: option.splits)
qed

section \<open>Witnesses\<close>

definition demo_remote :: remote where
  "demo_remote = \<lparr>rm_exec = \<lambda>c q. Inr (ac_command q), rm_follow = \<lambda>job wait. Inr (if has_prefix job ''easypanel-migrate detect'' then ''url=u public_url=p''
      else if has_prefix job ''easypanel-migrate token'' then ''$(id)'' else ''done''),
     rm_stream = \<lambda>job. Inr [], rm_agents = Inr [], rm_loaded = True\<rparr>"

theorem validated_call_never_panics_witness:
  "Call_plan True (\<lambda>p. Inr []) 0 ''reboot'' [''a''] \<noteq> Panic ''index out of range''"
proof -
  have v: "Validate (stripFlags [''reboot'', ''a'', ''--yes'']) = Inr ()"
    by (simp add: Validate_def stripFlags_def Known_def commands_def need_def)
  have r: "ra_call (Run_cli (Some (\<lambda>c a. Inl (Error ''x''))) False [''reboot'', ''a'', ''--yes'']) = Some (''reboot'', [''a''])"
    by (simp add: Run_cli_def removeFlag_def Known_def commands_def destructive_def Let_def)
  show ?thesis using validated_call_never_panics [OF v r] .
qed

theorem logs_always_rejected_witness:
  "jr_state (Dispatch_job (\<lambda>t argv. undefined) None \<lparr>di_max_output = 0, di_timeout = 0\<rparr>
     (demo_status_job\<lparr>job_operation := SafeOperation (Some (JournalRead ''sshd'' 0 0 200)) 0\<rparr>)) = JOB_REJECTED"
  using logs_always_rejected [of "\<lambda>p. Inr []" 0 "[''a'', ''sshd'']" "jobContext 0 ''a'' ''read logs'' False" "JournalRead ''sshd'' 0 0 200"
    "demo_status_job\<lparr>job_operation := SafeOperation (Some (JournalRead ''sshd'' 0 0 200)) 0\<rparr>" 0]
  by (simp add: call_request_def Let_def)

theorem job_output_round_trip_witness:
  "\<exists>chunks. StreamJobOutput (calm 0) (\<lambda>i. False) (fl_db demo_fleet) ''j'' = (chunks, Inr ())
    \<and> read_chunks (map Chunk chunks @ [ChunkEnd]) = Some (Inr ''hello'')"
proof -
  have "\<exists>chunks. StreamJobOutput (calm 0) (\<lambda>i. False) (fl_db demo_fleet) ''j'' = (chunks, Inr ())"
    by (simp add: StreamJobOutput_def sql_query_row_def demo_fleet_def demo_job_def job_state_defs send_chunks.simps
      output_chunk_def Let_def)
  then obtain chunks where c: "StreamJobOutput (calm 0) (\<lambda>i. False) (fl_db demo_fleet) ''j'' = (chunks, Inr ())" by blast
  have "jobs (fl_db demo_fleet) = [demo_job]" "j_output demo_job = Some ''hello''"
    by (simp_all add: demo_fleet_def demo_job_def)
  then show ?thesis using job_output_round_trip [OF c, of "[ChunkEnd]"] c by auto
qed

theorem following_ends_witness:
  "\<exists>res. jobOutputUntil True 0 second [(Inl (Status FailedPrecondition []), 0, None), (Inl (Status FailedPrecondition []), second, None),
     (Inl (Status FailedPrecondition []), 2 * second, None), (Inl (Status FailedPrecondition []), 3 * second, None)] = Some res"
  by (rule following_ends) (simp_all add: second_def nth_Cons All_less_Suc)

theorem remote_token_runs_on_source_witness:
  "\<exists>log ans raw url. easypanel_call demo_remote 0 [''src'', ''migrate'', ''svc'', ''--to-agent'', ''dst''] = (log, Inr ans)
    \<and> answered demo_remote 0 ''dst'' ''token'' raw
    \<and> last log = (''src'', ''easypanel-migrate migrate svc --remote-url '' @ url @ '' --remote-token '' @ trim_space raw, 1800)"
proof -
  have "ok (snd (easypanel_call demo_remote 0 (''src'' # ''migrate'' # [''svc''] @ [''--to-agent'', ''dst''])))"
    by code_simp
  then obtain log ans where c: "easypanel_call demo_remote 0 (''src'' # ''migrate'' # [''svc''] @ [''--to-agent'', ''dst'']) = (log, Inr ans)"
    by (cases "easypanel_call demo_remote 0 (''src'' # ''migrate'' # [''svc''] @ [''--to-agent'', ''dst''])") (auto simp: ok_def split: sum.splits)
  show ?thesis using remote_token_runs_on_source [OF c] c by auto
qed

theorem long_migration_refused_witness:
  "\<exists>code msg. Exec (\<lambda>a b c. []) (calm 0) False demo_fleet \<lparr>cx_peer = None, cx_certs = None, cx_auth = None, cx_claims = None\<rparr>
     (Some (jobContextT 0 ''a'' ''migrate'' True 3660)) (Some \<lparr>ac_command = ''x'', ac_capture = True\<rparr>) = fail demo_fleet code msg"
proof (rule long_migration_refused)
  have m: "parse_int64 (trim_space ''61'') = Some 61"
  proof -
    have "trim_space ''61'' = dec_of_int 61" by code_simp
    then show ?thesis using parse_int64_dec [of 61] by simp
  qed
  show "migrate_options [''migrate'', ''--timeout'', ''61''] = Inr (3660, False, [''migrate''])"
    by (simp add: migrate_options_def extractFlag_def extractBoolFlag_def m)
qed simp

end
