(* ===== verification/Dashboard.thy ===== *)
theory Dashboard
  imports ClientCalls
begin

text \<open>
  The dashboard of the client (\<open>src/internal/clientcli/program.go\<close>, \<open>migrate_form.go\<close>,
  \<open>tables.go\<close>, \<open>keys.go\<close>): its state, what each message does to it, and the commands it starts.
  An index past a list, which is a panic in the code, is a panic here.
\<close>

section \<open>State\<close>

text \<open>
  An agent is its id and host name. What a panel shows is what its call returned; users, keys and
  audit events come as the cells of their rows. Of the widgets the state has the texts: a text input
  changes its value in a way of its own, so a key comes with the change it makes.
\<close>

type_synonym agent_ref = "string \<times> string"

datatype dash_value = NoValue | AgentList "agent_ref list" | JobValue string | TextValue string | RowsValue nat "string list list"
  | MapValue "string option" "string option" | OtherValue string

record migrate_form =
  fm_fields :: "string list"
  fm_focus :: nat
  fm_targets :: "agent_ref list"
  fm_target :: nat
  fm_create :: bool
  fm_overwrite :: bool
  fm_detach :: bool
  fm_source :: agent_ref
  fm_confirm :: bool

record dash =
  da_width :: int
  da_height :: int
  da_agents :: "agent_ref list"
  da_selected :: nat
  da_panel :: nat
  da_data :: dash_value
  da_loading :: bool
  da_err :: "error option"
  da_login :: bool
  da_login_field :: nat
  da_user :: string
  da_pass :: string
  da_search :: string
  da_searching :: bool
  da_filter :: string
  da_migrating :: bool
  da_form :: "migrate_form option"
  da_view :: string
  da_rows :: "string list list"

datatype dash_cmd = LoadAgents | TickLater | LoadPanel nat string | LoginCmd string string | MigrateCmd "string list"
  | SshCmd string | QuitCmd | WidgetCmd

datatype dash_msg = WindowSize int int | SpinnerTick | Tick | Result int dash_value "error option"
  | Key string "string \<Rightarrow> string" | LoggedIn

definition panels :: nat where "panels = 9"

definition easypanelPanel :: nat where "easypanelPanel = 7"

definition scrollPanel :: "nat \<Rightarrow> bool" where
  "scrollPanel p \<longleftrightarrow> p = 2 \<or> p = 3 \<or> p = easypanelPanel"

definition tablePanel :: "nat \<Rightarrow> bool" where
  "tablePanel p \<longleftrightarrow> p = 4 \<or> p = 5 \<or> p = 6"

definition NewDashboard :: dash where
  "NewDashboard = \<lparr>da_width = 0, da_height = 0, da_agents = [], da_selected = 0, da_panel = 0, da_data = NoValue, da_loading = True,
     da_err = None, da_login = False, da_login_field = 0, da_user = [], da_pass = [], da_search = [], da_searching = False, da_filter = [],
     da_migrating = False, da_form = None, da_view = [], da_rows = []\<rparr>"

definition Init :: "dash_cmd list" where
  "Init = [LoadAgents, TickLater, WidgetCmd]"

definition nth_or_panic :: "'a list \<Rightarrow> nat \<Rightarrow> 'a outcome" where
  "nth_or_panic xs i = (if i < List.length xs then Ret (xs ! i) else Panic ''index out of range'')"

section \<open>Loading a panel\<close>

definition loadPanel :: "dash \<Rightarrow> dash_cmd list outcome" where
  "loadPanel d = (if da_agents d = [] then Ret []
     else case nth_or_panic (da_agents d) (da_selected d) of
       Panic m \<Rightarrow> Panic m
     | Ret a \<Rightarrow> Ret [LoadPanel (da_panel d) (fst a)])"

text \<open>The call a panel makes for an agent, if it makes one.\<close>

definition panel_call :: "nat \<Rightarrow> string \<Rightarrow> (string \<times> string list) option" where
  "panel_call p ident =
    (if p = 1 then Some (''stats'', [ident])
     else if p = 2 then Some (''services'', [''list'', ident])
     else if p = 3 then Some (''logs'', [ident, ''silent-devops-agent.service''])
     else if p = 4 then Some (''users'', [''list''])
     else if p = 5 then Some (''ssh-keys'', [''list''])
     else if p = 6 then Some (''audit'', [])
     else None)"

text \<open>\<open>print\<close> is \<open>fmt.Sprint\<close>, for a value that is not the map an EasyPanel command returns.\<close>

definition easypanelOutput :: "(dash_value \<Rightarrow> string) \<Rightarrow> dash_value \<Rightarrow> string" where
  "easypanelOutput print v = (case v of
     MapValue out oe \<Rightarrow>
       if oe \<noteq> None \<and> the oe \<noteq> [] then ''error: '' @ the oe @ [CHR 0x0A]
       else (case out of Some s \<Rightarrow> if s = [] then ''(no output)'' @ [CHR 0x0A] else s | None \<Rightarrow> print v)
   | _ \<Rightarrow> print v)"

fun load_actions :: "(dash_value \<Rightarrow> string) \<Rightarrow> (string \<Rightarrow> string list \<Rightarrow> dash_value result) \<Rightarrow> string \<Rightarrow> string list \<Rightarrow> string \<Rightarrow> dash_msg" where
  "load_actions print call ident [] b = Result (int easypanelPanel) (TextValue b) None"
| "load_actions print call ident (action # actions) b = (case call ''easypanel'' [ident, action] of
     Inl err \<Rightarrow> Result (int easypanelPanel) NoValue (Some err)
   | Inr v \<Rightarrow> load_actions print call ident actions (b @ ''$ easypanel-migrate '' @ action @ [CHR 0x0A] @ easypanelOutput print v @ [CHR 0x0A]))"

text \<open>
  Running the load: \<open>outputs\<close> are the answers of the successive requests for a job's output, of which
  at most 50 are made.
\<close>

definition run_load :: "(dash_value \<Rightarrow> string) \<Rightarrow> (string \<Rightarrow> string list \<Rightarrow> dash_value result) \<Rightarrow> (string \<Rightarrow> nat \<Rightarrow> string result) \<Rightarrow> nat \<Rightarrow> string \<Rightarrow> dash_msg" where
  "run_load print call outputs p ident =
    (if p = easypanelPanel then load_actions print call ident [''detect'', ''projects''] []
     else case panel_call p ident of
       None \<Rightarrow> Result (int p) NoValue None
     | Some (c, args) \<Rightarrow> (case call c args of
         Inl err \<Rightarrow> Result (int p) NoValue (Some err)
       | Inr v \<Rightarrow> (case v of
           JobValue job \<Rightarrow> if scrollPanel p
             then (case List.find (\<lambda>i. ok (outputs job i)) [0..<50] of
                 None \<Rightarrow> Result (int p) NoValue (Some (Error ''job output unavailable''))
               | Some i \<Rightarrow> Result (int p) (case outputs job i of Inl err \<Rightarrow> NoValue | Inr txt \<Rightarrow> TextValue txt) None)
             else Result (int p) v None
         | _ \<Rightarrow> Result (int p) v None)))"

section \<open>The table\<close>

definition filterRows :: "string list list \<Rightarrow> string \<Rightarrow> string list list" where
  "filterRows rows query = (let q = to_lower (trim_space query) in
     if q = [] then rows else filter (\<lambda>r. \<exists>cell \<in> set r. contains (to_lower cell) q) rows)"

definition fillTable :: "dash \<Rightarrow> dash" where
  "fillTable d = d\<lparr>da_rows := filterRows (case da_data d of RowsValue p rows \<Rightarrow> if p = da_panel d \<and> tablePanel p then rows else [] | _ \<Rightarrow> []) (da_filter d)\<rparr>"

section \<open>The migration form\<close>

definition mfTimeout :: nat where "mfTimeout = 5"
definition mfTarget :: nat where "mfTarget = 6"
definition mfCreate :: nat where "mfCreate = 7"
definition mfOverwrite :: nat where "mfOverwrite = 8"
definition mfDetach :: nat where "mfDetach = 9"
definition mfSubmit :: nat where "mfSubmit = 10"
definition mfStops :: nat where "mfStops = 11"

lemmas mf_defs = mfTimeout_def mfTarget_def mfCreate_def mfOverwrite_def mfDetach_def mfSubmit_def mfStops_def

definition migrateLabels :: "string list" where
  "migrateLabels = [''local project'', ''local service'', ''remote project'', ''remote service'', ''remote url (opt)'', ''timeout (min)'']"

definition newMigrateForm :: "agent_ref \<Rightarrow> agent_ref list \<Rightarrow> migrate_form" where
  "newMigrateForm source targets = \<lparr>fm_fields = [[], [], [], [], [], ''30''], fm_focus = 0, fm_targets = targets, fm_target = 0,
     fm_create = True, fm_overwrite = False, fm_detach = False, fm_source = source, fm_confirm = False\<rparr>"

definition openMigrate :: "dash \<Rightarrow> dash outcome" where
  "openMigrate d = (if da_agents d = [] then Ret d
     else case nth_or_panic (da_agents d) (da_selected d) of
       Panic m \<Rightarrow> Panic m
     | Ret source \<Rightarrow> (let targets = filter (\<lambda>a. fst a \<noteq> fst source) (da_agents d) in
         if targets = [] then Ret (d\<lparr>da_err := Some (Error ''need a second agent to migrate to'')\<rparr>)
         else Ret (d\<lparr>da_form := Some (newMigrateForm source targets), da_migrating := True, da_err := None\<rparr>)))"

definition closeMigrate :: "dash \<Rightarrow> dash" where
  "closeMigrate d = d\<lparr>da_migrating := False, da_form := None\<rparr>"

definition field :: "migrate_form \<Rightarrow> nat \<Rightarrow> string" where
  "field f i = trim_space (fm_fields f ! i)"

definition validate_form :: "migrate_form \<Rightarrow> unit result" where
  "validate_form f =
    (case List.find (\<lambda>i. i \<noteq> 4 \<and> field f i = []) [0..<List.length (fm_fields f)] of
       Some i \<Rightarrow> Inl (Errorf ''%s is required'' [migrateLabels ! i] None)
     | None \<Rightarrow>
        if (case parse_int64 (field f mfTimeout) of None \<Rightarrow> True | Some m \<Rightarrow> m \<le> 0)
        then Inl (Error ''timeout (min) must be a positive number'')
        else if fm_targets f = [] then Inl (Error ''no target agent'')
        else Inr ())"

definition migrate_args :: "migrate_form \<Rightarrow> string \<Rightarrow> string list" where
  "migrate_args f dst = [fst (fm_source f), ''migrate'', ''--to-agent'', dst,
      ''--local-project'', field f 0, ''--local-service'', field f 1,
      ''--remote-project'', field f 2, ''--remote-service'', field f 3]
    @ (if field f 4 \<noteq> [] then [''--remote-url'', field f 4] else [])
    @ [''--timeout'', field f mfTimeout]
    @ (if fm_create f then [''--create-remote-project''] else [])
    @ (if fm_overwrite f then [''--overwrite-remote-service''] else [])
    @ (if fm_detach f then [''--detach''] else [])"

definition dispatchMigrate :: "dash \<Rightarrow> migrate_form \<Rightarrow> (dash \<times> dash_cmd list) outcome" where
  "dispatchMigrate d f = (case nth_or_panic (fm_targets f) (fm_target f) of
     Panic m \<Rightarrow> Panic m
   | Ret dst \<Rightarrow> Ret ((closeMigrate d)\<lparr>da_loading := True, da_panel := easypanelPanel\<rparr>, [MigrateCmd (migrate_args f (fst dst))]))"

definition setFocus :: "nat \<Rightarrow> migrate_form \<Rightarrow> migrate_form" where
  "setFocus i f = f\<lparr>fm_focus := i\<rparr>"

definition toggle :: "bool \<Rightarrow> migrate_form \<Rightarrow> migrate_form" where
  "toggle left f =
    (if fm_focus f = mfTarget then
       (let n = List.length (fm_targets f) in
        if n = 0 then f else f\<lparr>fm_target := (if left then (fm_target f + n - 1) mod n else (fm_target f + 1) mod n)\<rparr>)
     else if fm_focus f = mfCreate then f\<lparr>fm_create := \<not> fm_create f\<rparr>
     else if fm_focus f = mfOverwrite then f\<lparr>fm_overwrite := \<not> fm_overwrite f\<rparr>
     else if fm_focus f = mfDetach then f\<lparr>fm_detach := \<not> fm_detach f\<rparr>
     else f)"

definition updateMigrate :: "dash \<Rightarrow> string \<Rightarrow> (string \<Rightarrow> string) \<Rightarrow> (dash \<times> dash_cmd list) outcome" where
  "updateMigrate d k edit = (case da_form d of
     None \<Rightarrow> Ret (d\<lparr>da_migrating := False\<rparr>, [])
   | Some f \<Rightarrow>
      (let keep = (\<lambda>f'. Ret (d\<lparr>da_form := Some f'\<rparr>, [])) in
       if k = ''esc'' then Ret (closeMigrate d, [])
       else if k \<in> {''tab'', ''down''} then keep ((setFocus ((fm_focus f + 1) mod mfStops) f)\<lparr>fm_confirm := False\<rparr>)
       else if k \<in> {''shift+tab'', ''up''} then keep ((setFocus ((fm_focus f + mfStops - 1) mod mfStops) f)\<lparr>fm_confirm := False\<rparr>)
       else if k \<in> {''left'', ''right'', '' ''} then keep (toggle (k = ''left'') f)
       else if k = ''enter'' then
         (if fm_focus f \<noteq> mfSubmit then keep (setFocus ((fm_focus f + 1) mod mfStops) f)
          else case validate_form f of
            Inl err \<Rightarrow> Ret (d\<lparr>da_err := Some err\<rparr>, [])
          | Inr u \<Rightarrow> if \<not> fm_confirm f then keep (f\<lparr>fm_confirm := True\<rparr>) else dispatchMigrate d f)
       else if fm_focus f < List.length (fm_fields f)
       then Ret (d\<lparr>da_form := Some (f\<lparr>fm_fields := (fm_fields f)[fm_focus f := edit (fm_fields f ! fm_focus f)]\<rparr>)\<rparr>, [WidgetCmd])
       else Ret (d, [])))"

section \<open>Messages\<close>

text \<open>The code of an error looks through its wrapping.\<close>

fun err_code :: "error \<Rightarrow> code" where
  "err_code (Errorf f args (Some w)) = err_code w"
| "err_code e = status_code e"

definition err_is :: "code \<Rightarrow> error option \<Rightarrow> bool" where
  "err_is c err = (case err of None \<Rightarrow> False | Some e \<Rightarrow> err_code e = c)"

definition on_error :: "dash \<Rightarrow> error option \<Rightarrow> dash" where
  "on_error d err = (let d1 = d\<lparr>da_loading := False, da_err := err\<rparr> in
     if err_is Unauthenticated err then d1\<lparr>da_login := True, da_login_field := 0, da_pass := []\<rparr>
     else if err_is PermissionDenied err then d1\<lparr>da_err := Some (Error ''Access denied: Admin role required'')\<rparr>
     else d1)"

definition on_result :: "dash \<Rightarrow> int \<Rightarrow> dash_value \<Rightarrow> error option \<Rightarrow> dash" where
  "on_result d p v err = (let d1 = on_error d err in
     if p < 0 then (case v of
         AgentList ags \<Rightarrow> d1\<lparr>da_agents := ags, da_selected := (if da_selected d1 \<ge> List.length ags then 0 else da_selected d1)\<rparr>
       | _ \<Rightarrow> d1)
     else if p = int (da_panel d1) then
       (let d2 = d1\<lparr>da_data := v, da_view := (case v of TextValue s \<Rightarrow> s | _ \<Rightarrow> da_view d1)\<rparr>
        in if tablePanel (da_panel d1) then fillTable d2 else d2)
     else d1)"

definition updateSearch :: "dash \<Rightarrow> string \<Rightarrow> (string \<Rightarrow> string) \<Rightarrow> dash" where
  "updateSearch d k edit =
    (if k = ''esc'' then fillTable (d\<lparr>da_searching := False, da_search := [], da_filter := []\<rparr>)
     else if k = ''enter'' then fillTable (d\<lparr>da_searching := False, da_filter := trim_space (da_search d)\<rparr>)
     else fillTable (d\<lparr>da_search := edit (da_search d), da_filter := trim_space (edit (da_search d))\<rparr>))"

definition updateLogin :: "dash \<Rightarrow> string \<Rightarrow> (string \<Rightarrow> string) \<Rightarrow> dash \<times> dash_cmd list" where
  "updateLogin d k edit =
    (if k \<in> {''ctrl+c'', ''esc''} then (d, [QuitCmd])
     else if k \<in> {''tab'', ''down'', ''shift+tab'', ''up''} then (d\<lparr>da_login_field := (da_login_field d + 1) mod 2\<rparr>, [])
     else if k = ''enter'' then
       (if da_user d \<noteq> [] \<and> da_pass d \<noteq> [] then (d\<lparr>da_loading := True\<rparr>, [LoginCmd (da_user d) (da_pass d)]) else (d, []))
     else if da_login_field d = 0 then (d\<lparr>da_user := edit (da_user d)\<rparr>, [WidgetCmd])
     else (d\<lparr>da_pass := edit (da_pass d)\<rparr>, [WidgetCmd]))"

text \<open>\<open>launch\<close> prepares an interactive session on an agent; it is code of another part.\<close>

definition startSSH :: "(string \<Rightarrow> unit result) \<Rightarrow> dash \<Rightarrow> (dash \<times> dash_cmd list) outcome" where
  "startSSH launch d = (if da_agents d = [] then Ret (d, [])
     else case nth_or_panic (da_agents d) (da_selected d) of
       Panic m \<Rightarrow> Panic m
     | Ret a \<Rightarrow> (case launch (fst a) of Inl err \<Rightarrow> Ret (d\<lparr>da_err := Some err\<rparr>, []) | Inr u \<Rightarrow> Ret (d, [SshCmd (fst a)])))"

definition reload :: "dash_cmd list \<Rightarrow> dash \<Rightarrow> (dash \<times> dash_cmd list) outcome" where
  "reload first d = (case loadPanel d of Panic m \<Rightarrow> Panic m | Ret cs \<Rightarrow> Ret (d, first @ cs))"

definition select :: "nat \<Rightarrow> dash \<Rightarrow> (dash \<times> dash_cmd list) outcome" where
  "select i d = reload [] (d\<lparr>da_selected := i, da_data := NoValue\<rparr>)"

definition show_panel :: "nat \<Rightarrow> dash \<Rightarrow> (dash \<times> dash_cmd list) outcome" where
  "show_panel p d = reload [] (d\<lparr>da_panel := p, da_loading := True, da_data := NoValue\<rparr>)"

definition handleKey :: "(string \<Rightarrow> unit result) \<Rightarrow> dash \<Rightarrow> string \<Rightarrow> (dash \<times> dash_cmd list) outcome" where
  "handleKey launch d k =
    (let table = tablePanel (da_panel d); i = da_selected d; more = (i + 1 < List.length (da_agents d));
         up = (k = ''up'' \<or> k = ''k''); down = (k = ''down'' \<or> k = ''j'') in
     if table \<and> (up \<or> down) then Ret (d, [WidgetCmd])
     else if k = ''q'' \<or> k = ''ctrl+c'' then Ret (d, [QuitCmd])
     else if (k = ''['' \<or> up) \<and> i > 0 then select (i - 1) d
     else if (k = '']'' \<or> down) \<and> more then select (i + 1) d
     else if k = ''tab'' \<or> k = ''right'' \<or> k = ''l'' then show_panel ((da_panel d + 1) mod panels) d
     else if k = ''shift+tab'' \<or> k = ''left'' \<or> k = ''h'' then show_panel ((da_panel d + panels - 1) mod panels) d
     else if k = ''r'' then reload [LoadAgents] (d\<lparr>da_loading := True\<rparr>)
     else if k = ''s'' then startSSH launch d
     else if k = ''m'' \<and> da_panel d = easypanelPanel then (case openMigrate d of Panic m \<Rightarrow> Panic m | Ret d' \<Rightarrow> Ret (d', []))
     else if table \<and> k = ''/'' then Ret (d\<lparr>da_searching := True, da_search := da_filter d\<rparr>, [])
     else if table then Ret (d, [WidgetCmd])
     else Ret (d, []))"

definition Update :: "(string \<Rightarrow> unit result) \<Rightarrow> dash \<Rightarrow> dash_msg \<Rightarrow> (dash \<times> dash_cmd list) outcome" where
  "Update launch d msg = (case msg of
     WindowSize w h \<Rightarrow> Ret (d\<lparr>da_width := w, da_height := h\<rparr>, [])
   | SpinnerTick \<Rightarrow> Ret (d, [WidgetCmd])
   | Tick \<Rightarrow> Ret (d, [LoadAgents, TickLater])
   | Result p v err \<Rightarrow> Ret (on_result d p v err, [])
   | LoggedIn \<Rightarrow> Ret (d\<lparr>da_login := False, da_pass := []\<rparr>, [])
   | Key k edit \<Rightarrow>
      if da_login d then Ret (updateLogin d k edit)
      else if da_migrating d then updateMigrate d k edit
      else if da_searching d then Ret (updateSearch d k edit, [])
      else handleKey launch d k)"

text \<open>
  What the view indexes: the selected agent on a panel that is not loading, and the target of an open
  form. \<open>LoggedIn\<close> is what a login that succeeded does to the state from its own goroutine.
\<close>

definition view_indexes :: "dash \<Rightarrow> unit outcome" where
  "view_indexes d =
    (if da_login d then Ret ()
     else case (if da_loading d \<or> da_agents d = [] then Ret ([], []) else nth_or_panic (da_agents d) (da_selected d)) of
       Panic m \<Rightarrow> Panic m
     | Ret a \<Rightarrow> if \<not> da_migrating d then Ret ()
         else (case da_form d of None \<Rightarrow> Ret ()
           | Some f \<Rightarrow> (case nth_or_panic (fm_targets f) (fm_target f) of Panic m \<Rightarrow> Panic m | Ret t \<Rightarrow> Ret ())))"

text \<open>A run of the program over the messages it gets.\<close>

fun run_dash :: "(string \<Rightarrow> unit result) \<Rightarrow> dash \<Rightarrow> dash_msg list \<Rightarrow> dash outcome" where
  "run_dash launch d [] = Ret d"
| "run_dash launch d (m # ms) = (case Update launch d m of Panic s \<Rightarrow> Panic s | Ret (d', cs) \<Rightarrow> run_dash launch d' ms)"

section \<open>Invariant\<close>

text \<open>Every index the dashboard keeps is in range, and a confirmed form is at its submit stop.\<close>

definition form_ok :: "migrate_form \<Rightarrow> bool" where
  "form_ok f \<longleftrightarrow> List.length (fm_fields f) = 6 \<and> fm_focus f < mfStops \<and> fm_target f < List.length (fm_targets f)
     \<and> (fm_confirm f \<longrightarrow> fm_focus f = mfSubmit)"

definition dash_ok :: "dash \<Rightarrow> bool" where
  "dash_ok d \<longleftrightarrow> (da_selected d < List.length (da_agents d) \<or> da_selected d = 0) \<and> da_panel d < panels \<and> da_login_field d < 2
     \<and> (\<forall>f. da_form d = Some f \<longrightarrow> form_ok f) \<and> (da_migrating d \<longrightarrow> da_form d \<noteq> None)"

text \<open>What a handler may answer: no panic, and a state that is well formed again.\<close>

definition keeps_dash :: "(dash \<times> dash_cmd list) outcome \<Rightarrow> bool" where
  "keeps_dash res \<longleftrightarrow> (\<exists>d cs. res = Ret (d, cs) \<and> dash_ok d)"

lemma nth_or_panic_Ret [simp]: "i < List.length xs \<Longrightarrow> nth_or_panic xs i = Ret (xs ! i)"
  by (simp add: nth_or_panic_def)

lemma dash_okD:
  "dash_ok d \<Longrightarrow> da_agents d \<noteq> [] \<Longrightarrow> da_selected d < List.length (da_agents d)"
  by (auto simp: dash_ok_def)

lemma loadPanel_ok: "dash_ok d \<Longrightarrow> \<exists>cs. loadPanel d = Ret cs"
  using dash_okD [of d] by (simp add: loadPanel_def)

lemma reload_ok: "dash_ok d \<Longrightarrow> keeps_dash (reload first d)"
  using loadPanel_ok [of d] by (auto simp: reload_def keeps_dash_def)

lemma newMigrateForm_ok: "targets \<noteq> [] \<Longrightarrow> form_ok (newMigrateForm source targets)"
  by (simp add: form_ok_def newMigrateForm_def mf_defs)

lemma openMigrate_ok:
  assumes "dash_ok d"
  shows "\<exists>d'. openMigrate d = Ret d' \<and> dash_ok d'"
proof (cases "da_agents d = []")
  case False
  then show ?thesis
    using assms dash_okD [OF assms] newMigrateForm_ok
    by (auto simp: openMigrate_def Let_def dash_ok_def)
qed (use assms in \<open>simp add: openMigrate_def\<close>)

lemma startSSH_ok: "dash_ok d \<Longrightarrow> keeps_dash (startSSH launch d)"
  using dash_okD [of d] by (auto simp: startSSH_def keeps_dash_def dash_ok_def split: sum.split)

lemma select_ok: "dash_ok d \<Longrightarrow> i < List.length (da_agents d) \<or> i = 0 \<Longrightarrow> keeps_dash (select i d)"
  unfolding select_def by (rule reload_ok) (simp add: dash_ok_def)

lemma show_panel_ok: "dash_ok d \<Longrightarrow> p < panels \<Longrightarrow> keeps_dash (show_panel p d)"
  unfolding show_panel_def by (rule reload_ok) (simp add: dash_ok_def)

lemma keeps_dashI: "dash_ok d \<Longrightarrow> keeps_dash (Ret (d, cs))"
  by (simp add: keeps_dash_def)

lemma handleKey_ok:
  assumes "dash_ok d"
  shows "keeps_dash (handleKey launch d k)"
proof -
  have prev: "keeps_dash (select (da_selected d - Suc 0) d)"
    by (rule select_ok [OF assms]) (use assms in \<open>auto simp: dash_ok_def\<close>)
  have r: "dash_ok (d\<lparr>da_loading := True\<rparr>)" "dash_ok (d\<lparr>da_searching := True, da_search := da_filter d\<rparr>)"
    using assms by (simp_all add: dash_ok_def)
  have p: "x mod panels < panels" for x by (simp add: panels_def)
  obtain d' where o: "openMigrate d = Ret d'" "dash_ok d'" using openMigrate_ok [OF assms] by blast
  show ?thesis
    unfolding handleKey_def Let_def
    by (simp add: assms o r p prev keeps_dashI select_ok show_panel_ok reload_ok startSSH_ok)
qed

lemma toggle_ok: "form_ok f \<Longrightarrow> form_ok (toggle left f)"
  by (auto simp: toggle_def form_ok_def Let_def mf_defs)

lemma form_ok_keep: "dash_ok d \<Longrightarrow> form_ok f \<Longrightarrow> dash_ok (d\<lparr>da_form := Some f\<rparr>)"
  by (simp add: dash_ok_def)

lemma focus_ok: "form_ok f \<Longrightarrow> i < mfStops \<Longrightarrow> form_ok ((setFocus i f)\<lparr>fm_confirm := False\<rparr>)"
  by (simp add: form_ok_def setFocus_def)

lemma updateMigrate_ok:
  assumes "dash_ok d"
  shows "keeps_dash (updateMigrate d k edit)"
proof (cases "da_form d")
  case None
  then show ?thesis using assms by (simp add: updateMigrate_def keeps_dash_def dash_ok_def)
next
  case (Some f)
  have f: "form_ok f" using assms Some by (simp add: dash_ok_def)
  have m: "x mod mfStops < mfStops" for x by (simp add: mf_defs)
  have c: "dash_ok (closeMigrate d)" "dash_ok ((closeMigrate d)\<lparr>da_loading := True, da_panel := easypanelPanel\<rparr>)"
      "dash_ok (d\<lparr>da_err := e\<rparr>)" for e
    using assms by (simp_all add: dash_ok_def closeMigrate_def easypanelPanel_def panels_def)
  have next': "fm_focus f \<noteq> mfSubmit \<Longrightarrow> form_ok (setFocus (Suc (fm_focus f) mod mfStops) f)"
    using f m by (auto simp: form_ok_def setFocus_def)
  have confirm: "fm_focus f = mfSubmit \<Longrightarrow> form_ok (f\<lparr>fm_confirm := True\<rparr>)"
    and edited: "form_ok (f\<lparr>fm_fields := (fm_fields f)[i := s]\<rparr>)" for i s
    using f by (simp_all add: form_ok_def)
  have "fm_target f < List.length (fm_targets f)" using f by (simp add: form_ok_def)
  then show ?thesis
    unfolding updateMigrate_def Let_def dispatchMigrate_def
    by (simp add: Some assms c f m next' confirm edited focus_ok toggle_ok form_ok_keep keeps_dashI split: sum.split)
qed

lemma fillTable_ok: "dash_ok (fillTable d) = dash_ok d"
  by (simp add: fillTable_def dash_ok_def)

lemma on_result_ok: "dash_ok d \<Longrightarrow> dash_ok (on_result d p v err)"
  by (auto simp: on_result_def on_error_def Let_def fillTable_ok split: dash_value.split) (auto simp: dash_ok_def)

lemma updateSearch_ok: "dash_ok d \<Longrightarrow> dash_ok (updateSearch d k edit)"
  unfolding updateSearch_def by (simp add: fillTable_ok) (simp add: dash_ok_def)

lemma updateLogin_ok: "dash_ok d \<Longrightarrow> keeps_dash (Ret (updateLogin d k edit))"
  unfolding updateLogin_def by (auto simp: keeps_dash_def dash_ok_def)

lemma Update_ok: "dash_ok d \<Longrightarrow> keeps_dash (Update launch d msg)"
  by (cases msg)
    (auto simp: Update_def handleKey_ok updateMigrate_ok updateLogin_ok updateSearch_ok on_result_ok intro!: keeps_dashI,
     auto simp: dash_ok_def)

lemma view_ok: "dash_ok d \<Longrightarrow> view_indexes d = Ret ()"
  using dash_okD [of d] by (auto simp: view_indexes_def dash_ok_def form_ok_def nth_or_panic_def split: option.split)

lemma run_dash_ok: "dash_ok d \<Longrightarrow> \<exists>d'. run_dash launch d ms = Ret d' \<and> dash_ok d'"
proof (induction ms arbitrary: d)
  case (Cons m ms)
  obtain d' cs where "Update launch d m = Ret (d', cs)" "dash_ok d'"
    using Update_ok [OF Cons.prems, of launch m] unfolding keeps_dash_def by blast
  then show ?case using Cons.IH by simp
qed simp

lemma NewDashboard_ok: "dash_ok NewDashboard"
  by (simp add: NewDashboard_def dash_ok_def panels_def)


section \<open>A migration is confirmed as it stands\<close>

lemma run_dash_snoc:
  "run_dash launch d (ms @ [m]) = (case run_dash launch d ms of Panic s \<Rightarrow> Panic s
     | Ret d' \<Rightarrow> (case Update launch d' m of Panic s \<Rightarrow> Panic s | Ret (d'', cs) \<Rightarrow> Ret d''))"
  by (induction ms arbitrary: d) (auto split: outcome.split prod.split)

lemma form_kept [simp]:
  "da_form (fillTable d) = da_form d" "da_form (on_result d p v err) = da_form d" "da_form (updateSearch d k edit) = da_form d"
  "da_form (fst (updateLogin d k edit)) = da_form d"
  by (auto simp: fillTable_def on_result_def on_error_def updateSearch_def updateLogin_def Let_def split: dash_value.split)

text \<open>A step that confirms no form and starts no migration.\<close>

definition quiet :: "dash \<Rightarrow> (dash \<times> dash_cmd list) outcome \<Rightarrow> bool" where
  "quiet d res \<longleftrightarrow> (\<forall>d' cs. res = Ret (d', cs) \<longrightarrow>
     (\<forall>f. da_form d' = Some f \<longrightarrow> fm_confirm f \<longrightarrow> da_form d = Some f) \<and> (\<forall>a. MigrateCmd a \<notin> set cs))"

lemma quiet_Ret: "da_form d' = da_form d \<Longrightarrow> \<forall>a. MigrateCmd a \<notin> set cs \<Longrightarrow> quiet d (Ret (d', cs))"
  by (simp add: quiet_def)

lemma quiet_reload: "da_form d' = da_form d \<Longrightarrow> \<forall>a. MigrateCmd a \<notin> set first \<Longrightarrow> quiet d (reload first d')"
  by (auto simp: quiet_def reload_def loadPanel_def split: outcome.splits if_splits)

lemma quiet_startSSH: "quiet d (startSSH launch d)"
  by (auto simp: quiet_def startSSH_def split: outcome.splits if_splits sum.splits)

lemma quiet_openMigrate: "quiet d (case openMigrate d of Panic m \<Rightarrow> Panic m | Ret d' \<Rightarrow> Ret (d', []))"
  by (auto simp: quiet_def openMigrate_def newMigrateForm_def Let_def split: outcome.splits if_splits)

lemma quiet_handleKey: "quiet d (handleKey launch d k)"
  unfolding handleKey_def Let_def select_def show_panel_def
  by (simp add: quiet_Ret quiet_reload quiet_startSSH quiet_openMigrate)

lemma quiet_updateLogin: "quiet d (Ret (updateLogin d k edit))"
proof -
  have "da_form (fst (updateLogin d k edit)) = da_form d" by simp
  moreover have "MigrateCmd a \<notin> set (snd (updateLogin d k edit))" for a by (simp add: updateLogin_def)
  ultimately show ?thesis by (cases "updateLogin d k edit") (simp add: quiet_def)
qed

lemma Update_quiet:
  assumes "\<not> (\<exists>k e. m = Key k e \<and> \<not> da_login d \<and> da_migrating d)"
  shows "quiet d (Update launch d m)"
proof (cases m)
  case (Key k e)
  then consider "da_login d" | "\<not> da_login d" "\<not> da_migrating d" using assms by blast
  then show ?thesis
    by cases (simp_all add: Key Update_def quiet_updateLogin quiet_handleKey quiet_Ret)
qed (simp_all add: Update_def quiet_Ret)

lemma toggle_submit: "fm_focus f = mfSubmit \<Longrightarrow> toggle left f = f"
  by (simp add: toggle_def mf_defs)

lemma toggle_confirm [simp]: "fm_confirm (toggle left f) = fm_confirm f"
  by (simp add: toggle_def Let_def)

lemma validate_confirm [simp]: "validate_form (f\<lparr>fm_confirm := b\<rparr>) = validate_form f"
  by (simp add: validate_form_def field_def)

lemma confirm_eq: "f\<lparr>fm_confirm := True\<rparr> = g \<Longrightarrow> \<not> fm_confirm f \<Longrightarrow> f = g\<lparr>fm_confirm := False\<rparr>"
  by (cases f, cases g) simp

lemma updateMigrate_confirm:
  assumes "form_ok f0" "da_form d = Some f0" "updateMigrate d k edit = Ret (d', cs)" "da_form d' = Some f" "fm_confirm f"
  shows "f0 = f \<or> k = ''enter'' \<and> f0 = f\<lparr>fm_confirm := False\<rparr>"
proof -
  consider "k = ''esc''" | "k \<in> {''tab'', ''down'', ''shift+tab'', ''up''}" | "k \<in> {''left'', ''right'', '' ''}" | "k = ''enter''"
    | "\<not> (k = ''esc'' \<or> k \<in> {''tab'', ''down'', ''shift+tab'', ''up''} \<or> k \<in> {''left'', ''right'', '' ''} \<or> k = ''enter'')"
    by satx
  then show ?thesis
  proof cases
    case 1
    then show ?thesis using assms by (auto simp: updateMigrate_def closeMigrate_def)
  next
    case 2
    then show ?thesis using assms by (auto simp: updateMigrate_def Let_def)
  next
    case 3
    then have "f = toggle (k = ''left'') f0" using assms by (auto simp: updateMigrate_def Let_def)
    then show ?thesis using assms(1,5) toggle_submit by (auto simp: form_ok_def)
  next
    case 4
    note u = assms(3) [unfolded updateMigrate_def assms(2) Let_def 4, simplified]
    show ?thesis
    proof (cases "fm_focus f0 = mfSubmit")
      case False
      then have "f = setFocus (Suc (fm_focus f0) mod mfStops) f0" using u assms(4) by auto
      then show ?thesis using False assms(1,5) by (simp add: form_ok_def setFocus_def)
    next
      case True
      show ?thesis
      proof (cases "validate_form f0")
        case (Inl err)
        then show ?thesis using u True assms(2,4) by auto
      next
        case (Inr x)
        then show ?thesis
          using u True assms(4) confirm_eq [of f0 f] 4
          by (cases "fm_confirm f0") (auto simp: dispatchMigrate_def closeMigrate_def split: outcome.splits)
      qed
    qed
  next
    case 5
    have "\<not> fm_focus f0 < List.length (fm_fields f0) \<or> \<not> fm_confirm f0" using assms(1) by (auto simp: form_ok_def mf_defs)
    then show ?thesis using assms(2-5) 5 by (cases "fm_focus f0 < List.length (fm_fields f0)") (auto simp: updateMigrate_def Let_def)
  qed
qed

lemma Update_confirm:
  assumes "dash_ok d" "Update launch d m = Ret (d', cs)" "da_form d' = Some f" "fm_confirm f"
  shows "da_form d = Some f \<or> (\<exists>e. m = Key ''enter'' e \<and> da_form d = Some (f\<lparr>fm_confirm := False\<rparr>))"
proof (cases "\<exists>k e. m = Key k e \<and> \<not> da_login d \<and> da_migrating d")
  case True
  then obtain k e where k: "m = Key k e" "updateMigrate d k e = Ret (d', cs)" using assms(2) by (auto simp: Update_def)
  obtain f0 where f0: "da_form d = Some f0" "form_ok f0" using True assms(1) by (auto simp: dash_ok_def)
  show ?thesis using updateMigrate_confirm [OF f0(2,1) k(2) assms(3,4)] f0 k(1) by auto
next
  case False
  then have "quiet d (Update launch d m)" by (rule Update_quiet)
  then show ?thesis using assms(2-4) by (auto simp: quiet_def)
qed

lemma confirmed_before:
  assumes "run_dash launch NewDashboard msgs = Ret d" "da_form d = Some f" "fm_confirm f"
  shows "\<exists>ms1 e ms2 d1. msgs = ms1 @ Key ''enter'' e # ms2 \<and> run_dash launch NewDashboard ms1 = Ret d1 \<and> da_form d1 = Some (f\<lparr>fm_confirm := False\<rparr>)"
  using assms
proof (induction msgs arbitrary: d rule: rev_induct)
  case Nil
  then show ?case by (auto simp: NewDashboard_def)
next
  case (snoc m ms)
  obtain d0 where d0: "run_dash launch NewDashboard ms = Ret d0" "dash_ok d0"
    using run_dash_ok [OF NewDashboard_ok] by blast
  then obtain cs where u: "Update launch d0 m = Ret (d, cs)"
    using snoc.prems(1) by (auto simp: run_dash_snoc split: outcome.splits)
  from Update_confirm [OF d0(2) u snoc.prems(2,3)] show ?case
  proof (elim disjE exE conjE)
    assume "da_form d0 = Some f"
    then obtain ms1 e ms2 d1 where "ms = ms1 @ Key ''enter'' e # ms2" "run_dash launch NewDashboard ms1 = Ret d1" "da_form d1 = Some (f\<lparr>fm_confirm := False\<rparr>)"
      using snoc.IH [OF d0(1) _ snoc.prems(3)] by blast
    then show ?thesis by (intro exI [of _ ms1] exI [of _ e] exI [of _ "ms2 @ [m]"] exI [of _ d1]) simp
  next
    fix e assume "m = Key ''enter'' e" "da_form d0 = Some (f\<lparr>fm_confirm := False\<rparr>)"
    then show ?thesis using d0(1) by (intro exI [of _ ms] exI [of _ e] exI [of _ "[]"] exI [of _ d0]) simp
  qed
qed

lemma Update_dispatch:
  assumes "Update launch d m = Ret (d', cs)" "MigrateCmd args \<in> set cs"
  shows "\<exists>e f. m = Key ''enter'' e \<and> da_form d = Some f \<and> fm_confirm f \<and> validate_form f = Inr ()
    \<and> args = migrate_args f (fst (fm_targets f ! fm_target f))"
proof (cases "\<exists>k e. m = Key k e \<and> \<not> da_login d \<and> da_migrating d")
  case True
  then obtain k e where k: "m = Key k e" "updateMigrate d k e = Ret (d', cs)" using assms(1) by (auto simp: Update_def)
  then obtain f where f: "da_form d = Some f" using assms(2) by (cases "da_form d") (auto simp: updateMigrate_def)
  have "k = ''enter'' \<and> fm_confirm f \<and> validate_form f = Inr () \<and> args = migrate_args f (fst (fm_targets f ! fm_target f))"
    using k(2) f assms(2)
    by (auto simp: updateMigrate_def Let_def dispatchMigrate_def nth_or_panic_def split: if_splits sum.splits)
  then show ?thesis using k(1) f by blast
next
  case False
  then have "quiet d (Update launch d m)" by (rule Update_quiet)
  then show ?thesis using assms by (auto simp: quiet_def)
qed

text \<open>C23. A migration is started by an Enter on a form that passes validation, and by no other message; an
  earlier Enter asked for it, on the very same form: no field, target or option has changed since.\<close>

theorem migration_confirmed:
  assumes "run_dash launch NewDashboard msgs = Ret d" "Update launch d m = Ret (d', cs)" "MigrateCmd args \<in> set cs"
  shows "\<exists>f ms1 e1 ms2 d1 e2. m = Key ''enter'' e2 \<and> da_form d = Some f \<and> validate_form f = Inr ()
    \<and> args = migrate_args f (fst (fm_targets f ! fm_target f))
    \<and> msgs = ms1 @ Key ''enter'' e1 # ms2 \<and> run_dash launch NewDashboard ms1 = Ret d1 \<and> da_form d1 = Some (f\<lparr>fm_confirm := False\<rparr>)"
  using Update_dispatch [OF assms(2,3)] confirmed_before [OF assms(1)] by blast

section \<open>Answers that come late\<close>

lemma load_actions_panel: "\<exists>v err. load_actions print call ident actions b = Result (int easypanelPanel) v err"
  by (induction actions arbitrary: b) (auto split: sum.split)

lemma run_load_panel: "\<exists>v err. run_load print call outputs p ident = Result (int p) v err"
  using load_actions_panel by (auto simp: run_load_def split: option.split sum.split dash_value.split prod.split)

text \<open>A result carries its panel and not its agent: one that was requested for an agent and comes after
  another agent has been selected is shown as that agent's.\<close>

theorem late_answer_of_other_agent:
  assumes "dash_ok d" "\<not> da_login d" "\<not> da_migrating d" "\<not> da_searching d"
    and "da_selected d + 1 < List.length (da_agents d)" "\<not> tablePanel (da_panel d)"
    and "run_load print call outputs (da_panel d) (fst (da_agents d ! da_selected d)) = Result (int (da_panel d)) v None"
  shows "\<exists>d1 d2. Update launch d (Key '']'' e) = Ret (d1, [LoadPanel (da_panel d) (fst (da_agents d ! (da_selected d + 1)))])
    \<and> Update launch d1 (run_load print call outputs (da_panel d) (fst (da_agents d ! da_selected d))) = Ret (d2, [])
    \<and> da_selected d2 = da_selected d + 1 \<and> da_data d2 = v \<and> \<not> da_loading d2"
proof -
  let ?d1 = "d\<lparr>da_selected := da_selected d + 1, da_data := NoValue\<rparr>"
  have "da_agents d \<noteq> []" using assms(5) by auto
  then have u: "Update launch d (Key '']'' e) = Ret (?d1, [LoadPanel (da_panel d) (fst (da_agents d ! (da_selected d + 1)))])"
    using assms(2-6) by (simp add: Update_def handleKey_def select_def reload_def loadPanel_def Let_def)
  have "Update launch ?d1 (Result (int (da_panel d)) v None) = Ret (on_result ?d1 (int (da_panel d)) v None, [])"
    by (simp add: Update_def)
  moreover have "da_selected (on_result ?d1 (int (da_panel d)) v None) = da_selected d + 1"
      "da_data (on_result ?d1 (int (da_panel d)) v None) = v" "\<not> da_loading (on_result ?d1 (int (da_panel d)) v None)"
    using assms(6) by (simp_all add: on_result_def on_error_def err_is_def Let_def)
  ultimately show ?thesis unfolding assms(7) using u by blast
qed

section \<open>Witnesses\<close>

text \<open>Two agents, the EasyPanel panel, a form filled in and left at its submit stop.\<close>

definition demo_agents :: "agent_ref list" where
  "demo_agents = [(''a'', ''ha''), (''b'', ''hb'')]"

definition typed :: "string \<Rightarrow> dash_msg" where
  "typed s = Key ''x'' (\<lambda>v. s)"

definition pressed :: "string \<Rightarrow> dash_msg" where
  "pressed k = Key k (\<lambda>v. v)"

definition demo_msgs :: "dash_msg list" where
  "demo_msgs = [Result (-1) (AgentList demo_agents) None, pressed ''h'', pressed ''h'', pressed ''m'',
     typed ''p'', pressed ''tab'', typed ''s'', pressed ''tab'', typed ''q'', pressed ''tab'', typed ''t'',
     pressed ''tab'', pressed ''tab'', pressed ''tab'', pressed ''tab'', pressed ''tab'', pressed ''tab'', pressed ''tab'']"

definition demo_form :: migrate_form where
  "demo_form = \<lparr>fm_fields = [''p'', ''s'', ''q'', ''t'', [], ''30''], fm_focus = 10, fm_targets = [(''b'', ''hb'')], fm_target = 0,
     fm_create = True, fm_overwrite = False, fm_detach = False, fm_source = (''a'', ''ha''), fm_confirm = False\<rparr>"

definition demo_dash :: dash where
  "demo_dash = NewDashboard\<lparr>da_agents := demo_agents, da_panel := 7, da_loading := True, da_migrating := True, da_form := Some demo_form\<rparr>"

lemma demo_dash_run: "run_dash (\<lambda>a. Inr ()) NewDashboard demo_msgs = Ret demo_dash"
  by code_simp

lemma demo_fields: "field demo_form 0 = ''p''" "field demo_form 1 = ''s''" "field demo_form 2 = ''q''" "field demo_form 3 = ''t''"
    "field demo_form 4 = []" "field demo_form 5 = ''30''" "trim_space ''30'' = dec_of_int 30"
  by code_simp+

lemma demo_timeout: "parse_int64 (trim_space (field demo_form mfTimeout)) = Some 30" "parse_int64 (field demo_form mfTimeout) = Some 30"
proof -
  have p: "parse_int64 (dec_of_int 30) = Some 30" by (rule parse_int64_dec) simp_all
  have d: "''30'' = dec_of_int 30" by code_simp
  show "parse_int64 (trim_space (field demo_form mfTimeout)) = Some 30"
    unfolding mfTimeout_def demo_fields(6,7) by (rule p)
  show "parse_int64 (field demo_form mfTimeout) = Some 30"
    unfolding mfTimeout_def demo_fields(6) d by (rule p)
qed

lemma demo_valid: "validate_form demo_form = Inr ()"
proof -
  have "List.find (\<lambda>i. i \<noteq> 4 \<and> field demo_form i = []) [0..<List.length (fm_fields demo_form)] = None"
    by code_simp
  then show ?thesis using demo_timeout by (simp add: validate_form_def demo_form_def)
qed

definition demo_asked :: dash where
  "demo_asked = demo_dash\<lparr>da_form := Some (demo_form\<lparr>fm_confirm := True\<rparr>)\<rparr>"

lemma demo_confirmed:
  "run_dash (\<lambda>a. Inr ()) NewDashboard (demo_msgs @ [pressed ''enter'']) = Ret demo_asked"
  "\<exists>d'. Update (\<lambda>a. Inr ()) demo_asked (pressed ''enter'') = Ret (d', [MigrateCmd (migrate_args (demo_form\<lparr>fm_confirm := True\<rparr>) ''b'')])"
proof -
  have st: "\<not> da_login demo_dash" "da_migrating demo_dash" "da_form demo_dash = Some demo_form"
    by (simp_all add: demo_dash_def NewDashboard_def)
  have fo: "fm_focus demo_form = mfSubmit" "\<not> fm_confirm demo_form" "fm_targets demo_form = [(''b'', ''hb'')]" "fm_target demo_form = 0"
    by (simp_all add: demo_form_def mf_defs)
  have one: "Update (\<lambda>a. Inr ()) demo_dash (pressed ''enter'') = Ret (demo_asked, [])"
    using st fo by (simp add: Update_def pressed_def updateMigrate_def Let_def demo_valid demo_asked_def)
  show "run_dash (\<lambda>a. Inr ()) NewDashboard (demo_msgs @ [pressed ''enter'']) = Ret demo_asked"
    by (simp add: run_dash_snoc demo_dash_run one)
  show "\<exists>d'. Update (\<lambda>a. Inr ()) demo_asked (pressed ''enter'') = Ret (d', [MigrateCmd (migrate_args (demo_form\<lparr>fm_confirm := True\<rparr>) ''b'')])"
    using st fo by (simp add: demo_asked_def Update_def pressed_def updateMigrate_def Let_def demo_valid dispatchMigrate_def nth_or_panic_def)
qed

theorem migration_confirmed_witness:
  "\<exists>d d' args. run_dash (\<lambda>a. Inr ()) NewDashboard (demo_msgs @ [pressed ''enter'']) = Ret d
    \<and> Update (\<lambda>a. Inr ()) d (pressed ''enter'') = Ret (d', [MigrateCmd args])
    \<and> (\<exists>f. da_form d = Some f \<and> validate_form f = Inr () \<and> args = migrate_args f (fst (fm_targets f ! fm_target f)))"
proof -
  obtain d' where two: "Update (\<lambda>a. Inr ()) demo_asked (pressed ''enter'') = Ret (d', [MigrateCmd (migrate_args (demo_form\<lparr>fm_confirm := True\<rparr>) ''b'')])"
    using demo_confirmed(2) by blast
  show ?thesis using migration_confirmed [OF demo_confirmed(1) two] demo_confirmed(1) two by fastforce
qed

theorem late_answer_of_other_agent_witness:
  "\<exists>d1 (d2 :: dash). Update (\<lambda>a. Inr ()) (NewDashboard\<lparr>da_agents := demo_agents, da_panel := 1\<rparr>) (pressed '']'') = Ret (d1, [LoadPanel 1 ''b''])
    \<and> da_selected d2 = 1 \<and> da_data d2 = OtherValue ''stats of a''"
proof -
  let ?d = "NewDashboard\<lparr>da_agents := demo_agents, da_panel := 1\<rparr>"
  have s: "da_selected ?d = 0" "da_panel ?d = 1" "da_agents ?d = demo_agents" by (simp_all add: NewDashboard_def)
  have r: "run_load (\<lambda>v. []) (\<lambda>c a. Inr (OtherValue (''stats of '' @ hd a))) (\<lambda>j i. Inr []) (da_panel ?d) (fst (da_agents ?d ! da_selected ?d))
      = Result (int (da_panel ?d)) (OtherValue ''stats of a'') None"
    unfolding s by (simp add: demo_agents_def run_load_def easypanelPanel_def panel_call_def)
  have "dash_ok ?d" "\<not> da_login ?d" "\<not> da_migrating ?d" "\<not> da_searching ?d" "da_selected ?d + 1 < List.length (da_agents ?d)"
      "\<not> tablePanel (da_panel ?d)"
    by (simp_all add: NewDashboard_def dash_ok_def panels_def demo_agents_def tablePanel_def)
  from late_answer_of_other_agent [OF this r, of "\<lambda>a. Inr ()" "\<lambda>v. v"]
  obtain d1 and d2 :: dash where u: "Update (\<lambda>a. Inr ()) ?d (Key '']'' (\<lambda>v. v)) = Ret (d1, [LoadPanel 1 (fst (demo_agents ! (0 + 1)))])"
      "da_selected d2 = 0 + 1" "da_data d2 = OtherValue ''stats of a''" unfolding s by blast
  show ?thesis by (rule exI [of _ d1], rule exI [of _ d2]) (use u in \<open>simp add: pressed_def demo_agents_def\<close>)
qed

end
