(* ===== verification/EasyPanel.thy ===== *)
theory EasyPanel
  imports ClientCalls
begin

text \<open>
  The EasyPanel client and the checks before a migration (\<open>src/internal/easypanel/client.go\<close>,
  \<open>preflight.go\<close>): queries that find out which HTTP method a panel wants, the envelopes of its
  answers and of its errors, and the preflight that looks at both panels first.
\<close>

section \<open>JSON values\<close>

text \<open>
  A body is the JSON value it holds, or none where it is not JSON. Decoding into a struct
  (\<open>encoding/json\<close>) matches a member's name up to case and the last member of a name wins; \<open>null\<close>
  leaves the zero value; a value of another type is an error, after which the other fields are
  still decoded. A struct's object has its own members once here.
\<close>

datatype json = JNull | JBool bool | JNum string | JStr string | JArr "json list" | JObj "(string \<times> json) list"

definition json_member :: "string \<Rightarrow> (string \<times> json) list \<Rightarrow> json option" where
  "json_member name kvs = map_option snd (List.find (\<lambda>kv. equal_fold (fst kv) name) (rev kvs))"

text \<open>The value at a path of structs: an error where the path meets a value that is no object.\<close>

fun dig :: "string list \<Rightarrow> json \<Rightarrow> json option option" where
  "dig [] v = Some (Some v)"
| "dig (k # ks) JNull = Some None"
| "dig (k # ks) (JObj kvs) = (case json_member k kvs of None \<Rightarrow> Some None | Some v \<Rightarrow> dig ks v)"
| "dig (k # ks) v = None"

definition dec_str :: "json option \<Rightarrow> string option" where
  "dec_str v = (case v of None \<Rightarrow> Some [] | Some JNull \<Rightarrow> Some [] | Some (JStr s) \<Rightarrow> Some s | _ \<Rightarrow> None)"

text \<open>A string at a path where errors are ignored.\<close>

definition lenient_str :: "string list \<Rightarrow> json \<Rightarrow> string" where
  "lenient_str path v = (case dig path v of Some (Some (JStr s)) \<Rightarrow> s | _ \<Rightarrow> [])"

fun dec_list :: "('a \<Rightarrow> 'b option) \<Rightarrow> 'a list \<Rightarrow> 'b list option" where
  "dec_list f [] = Some []"
| "dec_list f (v # vs) = (case (f v, dec_list f vs) of (Some x, Some xs) \<Rightarrow> Some (x # xs) | _ \<Rightarrow> None)"

record Project =
  pj_name :: string

record Service =
  sv_name :: string
  sv_type :: string
  sv_project :: string

record InspectResult =
  ir_project :: Project
  ir_services :: "Service list"

definition dec_project :: "json \<Rightarrow> Project option" where
  "dec_project v = (case v of JNull \<Rightarrow> Some \<lparr>pj_name = []\<rparr>
     | JObj kvs \<Rightarrow> map_option (\<lambda>n. \<lparr>pj_name = n\<rparr>) (dec_str (json_member ''name'' kvs))
     | _ \<Rightarrow> None)"

definition dec_service :: "json \<Rightarrow> Service option" where
  "dec_service v = (case v of JNull \<Rightarrow> Some \<lparr>sv_name = [], sv_type = [], sv_project = []\<rparr>
     | JObj kvs \<Rightarrow> (case (dec_str (json_member ''name'' kvs), dec_str (json_member ''type'' kvs), dec_str (json_member ''projectName'' kvs)) of
         (Some n, Some t, Some p) \<Rightarrow> Some \<lparr>sv_name = n, sv_type = t, sv_project = p\<rparr> | _ \<Rightarrow> None)
     | _ \<Rightarrow> None)"

definition dec_array :: "(json \<Rightarrow> 'a option) \<Rightarrow> json option \<Rightarrow> 'a list option" where
  "dec_array f v = (case v of None \<Rightarrow> Some [] | Some JNull \<Rightarrow> Some [] | Some (JArr vs) \<Rightarrow> dec_list f vs | _ \<Rightarrow> None)"

definition dec_inspect :: "json \<Rightarrow> InspectResult option" where
  "dec_inspect v = (case v of JNull \<Rightarrow> Some \<lparr>ir_project = \<lparr>pj_name = []\<rparr>, ir_services = []\<rparr>
     | JObj kvs \<Rightarrow> (case (dec_project (case json_member ''project'' kvs of None \<Rightarrow> JNull | Some p \<Rightarrow> p), dec_array dec_service (json_member ''services'' kvs)) of
         (Some p, Some ss) \<Rightarrow> Some \<lparr>ir_project = p, ir_services = ss\<rparr> | _ \<Rightarrow> None)
     | _ \<Rightarrow> None)"

section \<open>Errors\<close>

text \<open>An error of the panel, one of another call, and one wrapped with a text.\<close>

datatype panel_error = APIError nat string string | Plain error | Wrapped string "string list" panel_error

text \<open>\<open>errors.As\<close> looks through the wrapping.\<close>

fun as_api :: "panel_error \<Rightarrow> (nat \<times> string \<times> string) option" where
  "as_api (APIError st c msg) = Some (st, c, msg)"
| "as_api (Plain err) = None"
| "as_api (Wrapped f args err) = as_api err"

definition Not_found :: "panel_error \<Rightarrow> bool" where
  "Not_found err = (case as_api err of None \<Rightarrow> False | Some (st, c, msg) \<Rightarrow> st = 404 \<or> c = ''NOT_FOUND'')"

definition methodNotAllowed :: "panel_error \<Rightarrow> bool" where
  "methodNotAllowed err = (case as_api err of None \<Rightarrow> False | Some (st, c, msg) \<Rightarrow> st = 405)"

definition decodeAPIError :: "nat \<Rightarrow> json option \<Rightarrow> panel_error" where
  "decodeAPIError st body =
    (let v = (case body of None \<Rightarrow> JNull | Some v \<Rightarrow> v);
         nested = lenient_str [''error'', ''json'', ''code''] v = [] \<and> lenient_str [''error'', ''json'', ''message''] v = [];
         at = (\<lambda>ks. lenient_str ((if nested then [''json''] else [''error'', ''json'']) @ ks) v);
         c = (if at [''code''] \<noteq> [] then at [''code''] else at [''data'', ''code'']);
         m1 = (if at [''message''] = [] \<and> lenient_str [''message''] v \<noteq> [] then lenient_str [''message''] v else at [''message'']);
         m2 = (if m1 = [] then lenient_str [''error''] v else m1)
     in APIError st (if c = [] \<and> st = 404 then ''NOT_FOUND'' else c) m2)"

definition unwrapPayload :: "json \<Rightarrow> json" where
  "unwrapPayload v = (case dig [''result'', ''data'', ''json''] v of
     Some (Some p) \<Rightarrow> p
   | _ \<Rightarrow> (case dig [''json''] v of Some (Some p) \<Rightarrow> p | _ \<Rightarrow> v))"

section \<open>Requests\<close>

text \<open>
  The world answers a request with a status and a body, or with an error of the transport, and may
  change. The input of a query is in the URL of a GET and in the body of a POST.
\<close>

datatype http_method = GET | POST

record http_request =
  rq_method :: http_method
  rq_base :: string
  rq_path :: string
  rq_input :: json
  rq_token :: string

type_synonym 'w transport = "'w \<Rightarrow> http_request \<Rightarrow> 'w \<times> (nat \<times> json option) result"

record panel_client =
  pc_base :: string
  pc_token :: string
  pc_method :: "http_method option"

definition trim_slashes :: "string \<Rightarrow> string" where
  "trim_slashes s = rev (dropWhile (\<lambda>c. c = CHR ''/'') (rev s))"

definition New_panel :: "string \<Rightarrow> string \<Rightarrow> panel_client" where
  "New_panel base token = \<lparr>pc_base = trim_slashes base, pc_token = token, pc_method = None\<rparr>"

definition trim_prefix :: "string \<Rightarrow> string \<Rightarrow> string" where
  "trim_prefix s p = (if has_prefix s p then drop (List.length p) s else s)"

definition parseMajorMinor :: "string \<Rightarrow> (int \<times> int) option" where
  "parseMajorMinor version = (case split (CHR ''.'') (trim_prefix (trim_space version) ''v'') of
     a # b # rest \<Rightarrow> (case (parse_int64 a, parse_int64 b) of (Some maj, Some mi) \<Rightarrow> Some (maj, mi) | _ \<Rightarrow> None)
   | _ \<Rightarrow> None)"

definition preferPOSTQuery :: "string \<Rightarrow> bool" where
  "preferPOSTQuery version = (case parseMajorMinor version of
     None \<Rightarrow> False
   | Some (maj, mi) \<Rightarrow> if maj \<noteq> 2 then maj > 2 else mi \<ge> 32)"

definition NewForVersion :: "string \<Rightarrow> string \<Rightarrow> string \<Rightarrow> panel_client" where
  "NewForVersion base token version = (let c = New_panel base token in
     if preferPOSTQuery version then c\<lparr>pc_method := Some POST\<rparr> else c)"

text \<open>Sending a request and decoding the payload of a 2xx answer; \<open>dec\<close> is the type it is decoded into.\<close>

definition do_request :: "'w transport \<Rightarrow> 'w \<Rightarrow> http_request \<Rightarrow> (json \<Rightarrow> 'a option) \<Rightarrow> 'w \<times> (panel_error + 'a)" where
  "do_request http w req dec = (case http w req of
     (w', Inl err) \<Rightarrow> (w', Inl (Plain err))
   | (w', Inr (st, body)) \<Rightarrow> (w',
       if st < 200 \<or> st \<ge> 300 then Inl (decodeAPIError st body)
       else (case body of
         None \<Rightarrow> Inl (Plain (External ''invalid JSON''))
       | Some v \<Rightarrow> (case dec (unwrapPayload v) of None \<Rightarrow> Inl (Plain (External ''json: cannot unmarshal'')) | Some x \<Rightarrow> Inr x))))"

definition proc_request :: "panel_client \<Rightarrow> http_method \<Rightarrow> string \<Rightarrow> json \<Rightarrow> http_request" where
  "proc_request c method proc input = \<lparr>rq_method = method, rq_base = pc_base c, rq_path = ''/api/trpc/'' @ proc,
     rq_input = JObj [(''json'', input)], rq_token = pc_token c\<rparr>"

definition queryVia :: "'w transport \<Rightarrow> 'w \<Rightarrow> panel_client \<Rightarrow> http_method \<Rightarrow> string \<Rightarrow> json \<Rightarrow> (json \<Rightarrow> 'a option) \<Rightarrow> 'w \<times> (panel_error + 'a)" where
  "queryVia http w c method proc input dec = do_request http w (proc_request c method proc input) dec"

definition other_method :: "http_method \<Rightarrow> http_method" where
  "other_method m = (if m = POST then GET else POST)"

definition trpcQuery :: "'w transport \<Rightarrow> 'w \<Rightarrow> panel_client \<Rightarrow> string \<Rightarrow> json \<Rightarrow> (json \<Rightarrow> 'a option) \<Rightarrow> 'w \<times> panel_client \<times> (panel_error + 'a)" where
  "trpcQuery http w c proc input dec =
    (if pc_base c = [] then (w, c, Inl (Plain (Error ''easypanel: base url required'')))
     else let first = (case pc_method c of None \<Rightarrow> GET | Some m \<Rightarrow> m) in
       (case queryVia http w c first proc input dec of
         (w1, Inr x) \<Rightarrow> (w1, c\<lparr>pc_method := Some first\<rparr>, Inr x)
       | (w1, Inl err) \<Rightarrow>
          if \<not> methodNotAllowed err then (w1, c, Inl err)
          else (case queryVia http w1 c (other_method first) proc input dec of
             (w2, Inl err2) \<Rightarrow> (w2, c, Inl err2)
           | (w2, Inr x) \<Rightarrow> (w2, c\<lparr>pc_method := Some (other_method first)\<rparr>, Inr x))))"

text \<open>A mutation; nothing is decoded from its answer.\<close>

definition trpc :: "'w transport \<Rightarrow> 'w \<Rightarrow> panel_client \<Rightarrow> string \<Rightarrow> json \<Rightarrow> 'w \<times> (panel_error + unit)" where
  "trpc http w c proc input =
    (if pc_base c = [] then (w, Inl (Plain (Error ''easypanel: base url required'')))
     else (case http w (proc_request c POST proc input) of
         (w', Inl err) \<Rightarrow> (w', Inl (Plain err))
       | (w', Inr (st, body)) \<Rightarrow> (w', if st < 200 \<or> st \<ge> 300 then Inl (decodeAPIError st body) else Inr ())))"

section \<open>Projects and migrations\<close>

definition ListProjects :: "'w transport \<Rightarrow> 'w \<Rightarrow> panel_client \<Rightarrow> 'w \<times> panel_client \<times> (panel_error + Project list)" where
  "ListProjects http w c = trpcQuery http w c ''projects.listProjects'' (JObj []) (\<lambda>v. dec_array dec_project (Some v))"

definition InspectProject :: "'w transport \<Rightarrow> 'w \<Rightarrow> panel_client \<Rightarrow> string \<Rightarrow> 'w \<times> panel_client \<times> (panel_error + InspectResult)" where
  "InspectProject http w c name = trpcQuery http w c ''projects.inspectProject'' (JObj [(''projectName'', JStr name)]) dec_inspect"

definition ProjectExists :: "'w transport \<Rightarrow> 'w \<Rightarrow> panel_client \<Rightarrow> string \<Rightarrow> 'w \<times> panel_client \<times> (panel_error + bool)" where
  "ProjectExists http w c name = (case InspectProject http w c name of
     (w', c', Inr r) \<Rightarrow> (w', c', Inr True)
   | (w', c', Inl err) \<Rightarrow> (w', c', if Not_found err then Inr False else Inl err))"

definition CreateProject :: "'w transport \<Rightarrow> 'w \<Rightarrow> panel_client \<Rightarrow> string \<Rightarrow> 'w \<times> (panel_error + unit)" where
  "CreateProject http w c name = trpc http w c ''projects.createProject'' (JObj [(''name'', JStr name)])"

record MigrateInput =
  mi_local_project :: string
  mi_local_service :: string
  mi_token :: string
  mi_url :: string
  mi_remote_project :: string
  mi_remote_service :: string

definition migrate_json :: "MigrateInput \<Rightarrow> json" where
  "migrate_json i = JObj [(''localProjectName'', JStr (mi_local_project i)), (''localServiceName'', JStr (mi_local_service i)),
     (''remoteApiToken'', JStr (mi_token i)), (''remoteEasypanelUrl'', JStr (mi_url i)),
     (''remoteProjectName'', JStr (mi_remote_project i)), (''remoteServiceName'', JStr (mi_remote_service i))]"

definition migrate_request :: "panel_client \<Rightarrow> MigrateInput \<Rightarrow> http_request" where
  "migrate_request c i = \<lparr>rq_method = POST, rq_base = pc_base c, rq_path = ''/api/migrate-service'', rq_input = migrate_json i, rq_token = pc_token c\<rparr>"

definition Migrate :: "'w transport \<Rightarrow> 'w \<Rightarrow> panel_client \<Rightarrow> MigrateInput \<Rightarrow> 'w \<times> (panel_error + unit)" where
  "Migrate http w c i = (case http w (migrate_request c i) of
     (w', Inl err) \<Rightarrow> (w', Inl (Plain err))
   | (w', Inr (st, body)) \<Rightarrow> (w',
       if st < 200 \<or> st \<ge> 300 then Inl (decodeAPIError st body)
       else if body \<noteq> None \<and> dig [''success''] (the body) = Some (Some (JBool False)) then Inl (decodeAPIError 502 body)
       else Inr ()))"

section \<open>Preflight\<close>

record MigratePlan =
  mp_local :: panel_client
  mp_remote :: panel_client
  mp_input :: MigrateInput
  mp_created :: bool

record PreflightOptions =
  po_create :: bool
  po_overwrite :: bool

definition hasService :: "Service list \<Rightarrow> string \<Rightarrow> bool" where
  "hasService ss name \<longleftrightarrow> (\<exists>s \<in> set ss. sv_name s = name)"

definition quoted :: "string \<Rightarrow> string" where
  "quoted s = [CHR 0x22] @ s @ [CHR 0x22]"

text \<open>The remote project as the collision check sees it: its services, and whether it was created now.\<close>

definition remote_project :: "'w transport \<Rightarrow> 'w \<Rightarrow> panel_client \<Rightarrow> string \<Rightarrow> bool \<Rightarrow> 'w \<times> panel_client \<times> (panel_error + Service list \<times> bool)" where
  "remote_project http w remote name create = (case InspectProject http w remote name of
     (w1, remote1, Inr r) \<Rightarrow> (w1, remote1, Inr (ir_services r, False))
   | (w1, remote1, Inl err) \<Rightarrow>
      if Not_found err then
        (if \<not> create then (w1, remote1, Inl (Plain (Errorf ''remote project %q not found (use create to auto-create)'' [quoted name] None)))
         else (case CreateProject http w1 remote1 name of
            (w2, Inl err2) \<Rightarrow> (w2, remote1, Inl (Wrapped ''create remote project %q: %w'' [quoted name] err2))
          | (w2, Inr u) \<Rightarrow> (w2, remote1, Inr ([], True))))
      else (w1, remote1, Inl (Wrapped ''inspect remote project: %w'' [] err)))"

definition Preflight :: "'w transport \<Rightarrow> 'w \<Rightarrow> panel_client \<Rightarrow> panel_client \<Rightarrow> MigrateInput \<Rightarrow> PreflightOptions \<Rightarrow> 'w \<times> (panel_error + MigratePlan)" where
  "Preflight http w local remote i opt = (case InspectProject http w local (mi_local_project i) of
     (w1, local1, Inl err) \<Rightarrow> (w1, Inl (if Not_found err then Plain (Errorf ''local project %q not found'' [quoted (mi_local_project i)] None)
        else Wrapped ''inspect local project: %w'' [] err))
   | (w1, local1, Inr r) \<Rightarrow>
      if \<not> hasService (ir_services r) (mi_local_service i)
      then (w1, Inl (Plain (Errorf ''local service %q not found in project %q'' [quoted (mi_local_service i), quoted (mi_local_project i)] None)))
      else (case remote_project http w1 remote (mi_remote_project i) (po_create opt) of
         (w2, remote2, Inl err) \<Rightarrow> (w2, Inl err)
       | (w2, remote2, Inr (svcs, created)) \<Rightarrow>
          if \<not> po_overwrite opt \<and> hasService svcs (mi_remote_service i)
          then (w2, Inl (Plain (Errorf ''remote service %q already exists in project %q (allow overwrite to proceed)''
                  [quoted (mi_remote_service i), quoted (mi_remote_project i)] None)))
          else (w2, Inr \<lparr>mp_local = local1, mp_remote = remote2, mp_input = i, mp_created = created\<rparr>)))"

definition Run_plan :: "'w transport \<Rightarrow> 'w \<Rightarrow> MigratePlan \<Rightarrow> 'w \<times> (panel_error + unit)" where
  "Run_plan http w p = Migrate http w (mp_local p) (mp_input p)"

section \<open>Envelopes\<close>

text \<open>The two envelopes of an answer give the same payload.\<close>

lemma unwrap_v10: "unwrapPayload (JObj [(''result'', JObj [(''data'', JObj [(''json'', v)])])]) = v"
  by (simp add: unwrapPayload_def json_member_def equal_fold_def)

lemma unwrap_bare: "unwrapPayload (JObj [(''json'', v)]) = v"
  by (simp add: unwrapPayload_def json_member_def equal_fold_def fold_case_def byte_def)

lemma dec_list_map: "(\<And>x. x \<in> set xs \<Longrightarrow> f (g x) = Some (h x)) \<Longrightarrow> dec_list f (map g xs) = Some (map h xs)"
  by (induction xs) auto

section \<open>How many requests a query takes\<close>

text \<open>A world that records the requests it was sent.\<close>

definition logged :: "'w transport \<Rightarrow> ('w \<times> http_request list) transport" where
  "logged http = (\<lambda>(w, l) req. case http w req of (w', ans) \<Rightarrow> ((w', l @ [req]), ans))"

definition ok_panel :: "panel_error + 'a \<Rightarrow> bool" where
  "ok_panel r = (case r of Inl err \<Rightarrow> False | Inr x \<Rightarrow> True)"

definition first_method :: "panel_client \<Rightarrow> http_method" where
  "first_method c = (case pc_method c of None \<Rightarrow> GET | Some m \<Rightarrow> m)"

lemma queryVia_logged:
  "queryVia (logged http) (w, l) c m proc input dec = ((w', l'), res) \<Longrightarrow> l' = l @ [proc_request c m proc input]"
  by (auto simp: queryVia_def do_request_def logged_def split: prod.splits sum.splits)

text \<open>A query sends at most two requests: the first with the method remembered from an earlier query,
  or GET, the second only with the other method. A query that is answered remembers the method of its
  last request, so the next one begins with it.\<close>

theorem query_requests:
  assumes "trpcQuery (logged http) (w, l) c proc input dec = ((w', l'), c', res)"
  shows "\<exists>ms. l' = l @ map (\<lambda>m. proc_request c m proc input) ms
    \<and> ms \<in> {[], [first_method c], [first_method c, other_method (first_method c)]}
    \<and> (ok_panel res \<longrightarrow> ms \<noteq> [] \<and> first_method c' = last ms) \<and> pc_base c' = pc_base c \<and> pc_token c' = pc_token c"
proof (cases "pc_base c = []")
  case True
  then show ?thesis using assms by (auto simp: trpcQuery_def ok_panel_def)
next
  case False
  let ?f = "first_method c"
  let ?q = "\<lambda>m w. queryVia (logged http) w c m proc input dec"
  obtain w1 l1 r1 where q1: "?q ?f (w, l) = ((w1, l1), r1)" by (metis prod.exhaust)
  note l1 = queryVia_logged [OF q1]
  have t: "trpcQuery (logged http) (w, l) c proc input dec = (case r1 of
      Inr x \<Rightarrow> ((w1, l1), c\<lparr>pc_method := Some ?f\<rparr>, Inr x)
    | Inl err \<Rightarrow> if \<not> methodNotAllowed err then ((w1, l1), c, Inl err)
        else (case ?q (other_method ?f) (w1, l1) of
           (w2, Inl err2) \<Rightarrow> (w2, c, Inl err2)
         | (w2, Inr x) \<Rightarrow> (w2, c\<lparr>pc_method := Some (other_method ?f)\<rparr>, Inr x)))"
    using False q1 by (auto simp: trpcQuery_def Let_def first_method_def split: sum.splits)
  show ?thesis
  proof (cases "\<exists>err. r1 = Inl err \<and> methodNotAllowed err")
    case True
    obtain w2 l2 r2 where q2: "?q (other_method ?f) (w1, l1) = ((w2, l2), r2)" by (metis prod.exhaust)
    then have "l' = l @ map (\<lambda>m. proc_request c m proc input) [?f, other_method ?f]"
      using assms t True l1 queryVia_logged [OF q2] by (auto split: sum.splits)
    moreover have "(ok_panel res \<longrightarrow> first_method c' = other_method ?f) \<and> pc_base c' = pc_base c \<and> pc_token c' = pc_token c"
      using assms t True q2 by (auto simp: first_method_def ok_panel_def split: sum.splits)
    ultimately show ?thesis by (intro exI [of _ "[?f, other_method ?f]"]) simp
  next
    case no: False
    then have "l' = l @ map (\<lambda>m. proc_request c m proc input) [?f]"
      using assms t l1 by (auto split: sum.splits)
    moreover have "(ok_panel res \<longrightarrow> first_method c' = ?f) \<and> pc_base c' = pc_base c \<and> pc_token c' = pc_token c"
      using assms t no by (auto simp: first_method_def ok_panel_def split: sum.splits)
    ultimately show ?thesis by (intro exI [of _ "[?f]"]) simp
  qed
qed

section \<open>What the preflight decides\<close>

text \<open>
  What a panel does, as far as the preflight relies on it: \<open>view w base p\<close> are the names of the
  services of a project, if the project is there. A panel answers an inspection sent with the method
  it wants and 405 to the other, changing nothing; a creation adds an empty project to that panel.
\<close>

definition inspect_request :: "panel_client \<Rightarrow> http_method \<Rightarrow> string \<Rightarrow> http_request" where
  "inspect_request c m p = proc_request c m ''projects.inspectProject'' (JObj [(''projectName'', JStr p)])"

definition create_request :: "panel_client \<Rightarrow> string \<Rightarrow> http_request" where
  "create_request c p = proc_request c POST ''projects.createProject'' (JObj [(''name'', JStr p)])"

definition serves :: "'w transport \<Rightarrow> ('w \<Rightarrow> string \<Rightarrow> string \<Rightarrow> string set option) \<Rightarrow> (string \<Rightarrow> http_method) \<Rightarrow> bool" where
  "serves http view wants \<longleftrightarrow>
    (\<forall>w c m p. fst (http w (inspect_request c m p)) = w
      \<and> (if m \<noteq> wants (pc_base c) then \<exists>body. snd (http w (inspect_request c m p)) = Inr (405, body)
         else (case view w (pc_base c) p of
           None \<Rightarrow> \<exists>body. snd (http w (inspect_request c m p)) = Inr (404, body)
         | Some ss \<Rightarrow> \<exists>body r. snd (http w (inspect_request c m p)) = Inr (200, Some body)
             \<and> dec_inspect (unwrapPayload body) = Some r \<and> sv_name ` set (ir_services r) = ss)))
    \<and> (\<forall>w c p. \<exists>w' body. http w (create_request c p) = (w', Inr (200, body))
         \<and> view w' = (view w)(pc_base c := (view w (pc_base c))(p \<mapsto> {})))"

lemma servesD:
  assumes "serves http view wants"
  shows "fst (http w (inspect_request c m p)) = w"
    and "m \<noteq> wants (pc_base c) \<Longrightarrow> \<exists>body. http w (inspect_request c m p) = (w, Inr (405, body))"
    and "m = wants (pc_base c) \<Longrightarrow> view w (pc_base c) p = None \<Longrightarrow> \<exists>body. http w (inspect_request c m p) = (w, Inr (404, body))"
    and "m = wants (pc_base c) \<Longrightarrow> view w (pc_base c) p = Some ss \<Longrightarrow> \<exists>body r. http w (inspect_request c m p) = (w, Inr (200, Some body))
       \<and> dec_inspect (unwrapPayload body) = Some r \<and> sv_name ` set (ir_services r) = ss"
    and "\<exists>w' body. http w (create_request c p) = (w', Inr (200, body)) \<and> view w' = (view w)(pc_base c := (view w (pc_base c))(p \<mapsto> {}))"
proof -
  have a: "fst (http w (inspect_request c m p)) = w
      \<and> (if m \<noteq> wants (pc_base c) then \<exists>body. snd (http w (inspect_request c m p)) = Inr (405, body)
         else (case view w (pc_base c) p of
           None \<Rightarrow> \<exists>body. snd (http w (inspect_request c m p)) = Inr (404, body)
         | Some ss \<Rightarrow> \<exists>body r. snd (http w (inspect_request c m p)) = Inr (200, Some body)
             \<and> dec_inspect (unwrapPayload body) = Some r \<and> sv_name ` set (ir_services r) = ss))"
    using assms unfolding serves_def by blast
  then show "fst (http w (inspect_request c m p)) = w" by simp
  show "m \<noteq> wants (pc_base c) \<Longrightarrow> \<exists>body. http w (inspect_request c m p) = (w, Inr (405, body))"
    using a by (cases "http w (inspect_request c m p)") auto
  show "m = wants (pc_base c) \<Longrightarrow> view w (pc_base c) p = None \<Longrightarrow> \<exists>body. http w (inspect_request c m p) = (w, Inr (404, body))"
    using a by (cases "http w (inspect_request c m p)") auto
  show "m = wants (pc_base c) \<Longrightarrow> view w (pc_base c) p = Some ss \<Longrightarrow> \<exists>body r. http w (inspect_request c m p) = (w, Inr (200, Some body))
       \<and> dec_inspect (unwrapPayload body) = Some r \<and> sv_name ` set (ir_services r) = ss"
    using a by (cases "http w (inspect_request c m p)") auto
  show "\<exists>w' body. http w (create_request c p) = (w', Inr (200, body)) \<and> view w' = (view w)(pc_base c := (view w (pc_base c))(p \<mapsto> {}))"
    using assms unfolding serves_def by blast
qed

lemma queryVia_serves:
  assumes "serves http view wants"
  shows "m \<noteq> wants (pc_base c) \<Longrightarrow> \<exists>err. queryVia http w c m ''projects.inspectProject'' (JObj [(''projectName'', JStr p)]) dec_inspect = (w, Inl err) \<and> methodNotAllowed err"
    and "m = wants (pc_base c) \<Longrightarrow> view w (pc_base c) p = None \<Longrightarrow>
       \<exists>err. queryVia http w c m ''projects.inspectProject'' (JObj [(''projectName'', JStr p)]) dec_inspect = (w, Inl err) \<and> Not_found err \<and> \<not> methodNotAllowed err"
    and "m = wants (pc_base c) \<Longrightarrow> view w (pc_base c) p = Some ss \<Longrightarrow>
       \<exists>r. queryVia http w c m ''projects.inspectProject'' (JObj [(''projectName'', JStr p)]) dec_inspect = (w, Inr r) \<and> sv_name ` set (ir_services r) = ss"
  using servesD(2-4) [OF assms, of m c w p]
  by (auto simp: queryVia_def do_request_def inspect_request_def methodNotAllowed_def Not_found_def decodeAPIError_def Let_def)

text \<open>An inspection finds the project whatever method the client starts with.\<close>

lemma InspectProject_serves:
  assumes "serves http view wants" "pc_base c \<noteq> []"
  obtains c' where "pc_base c' = pc_base c"
    and "case view w (pc_base c) p of
        None \<Rightarrow> \<exists>err. InspectProject http w c p = (w, c', Inl err) \<and> Not_found err
      | Some ss \<Rightarrow> \<exists>r. InspectProject http w c p = (w, c', Inr r) \<and> sv_name ` set (ir_services r) = ss"
proof -
  note q = queryVia_serves [OF assms(1)]
  define f where "f = first_method c"
  have t: "InspectProject http w c p = (case queryVia http w c f ''projects.inspectProject'' (JObj [(''projectName'', JStr p)]) dec_inspect of
         (w1, Inr x) \<Rightarrow> (w1, c\<lparr>pc_method := Some f\<rparr>, Inr x)
       | (w1, Inl err) \<Rightarrow>
          if \<not> methodNotAllowed err then (w1, c, Inl err)
          else (case queryVia http w1 c (other_method f) ''projects.inspectProject'' (JObj [(''projectName'', JStr p)]) dec_inspect of
             (w2, Inl err2) \<Rightarrow> (w2, c, Inl err2)
           | (w2, Inr x) \<Rightarrow> (w2, c\<lparr>pc_method := Some (other_method f)\<rparr>, Inr x)))"
    unfolding InspectProject_def trpcQuery_def Let_def f_def first_method_def using assms(2) by simp
  have o: "other_method f = wants (pc_base c)" if "f \<noteq> wants (pc_base c)"
    using that by (cases f; cases "wants (pc_base c)") (auto simp: other_method_def)
  show ?thesis
  proof (cases "f = wants (pc_base c)")
    case True
    show ?thesis
    proof (cases "view w (pc_base c) p")
      case None
      then show ?thesis using q(2) [OF True None] t by (intro that [of c]) auto
    next
      case (Some ss)
      then show ?thesis using q(3) [OF True Some] t by (intro that [of "c\<lparr>pc_method := Some f\<rparr>"]) auto
    qed
  next
    case False
    note bad = q(1) [OF False, of w p]
    show ?thesis
    proof (cases "view w (pc_base c) p")
      case None
      then show ?thesis using q(2) [OF o [OF False] None] bad t by (intro that [of c]) auto
    next
      case (Some ss)
      then show ?thesis using q(3) [OF o [OF False] Some] bad t by (intro that [of "c\<lparr>pc_method := Some (other_method f)\<rparr>"]) auto
    qed
  qed
qed

lemma hasService_iff: "hasService ss name \<longleftrightarrow> name \<in> sv_name ` set ss"
  by (auto simp: hasService_def)

text \<open>Finding or creating the remote project.\<close>

lemma remote_project_serves:
  assumes "serves http view wants" "pc_base c \<noteq> []"
  shows "case view w (pc_base c) p of
      Some ss \<Rightarrow> \<exists>c' svcs. remote_project http w c p create = (w, c', Inr (svcs, False)) \<and> sv_name ` set svcs = ss
    | None \<Rightarrow> if create
        then \<exists>c' w'. remote_project http w c p create = (w', c', Inr ([], True)) \<and> view w' = (view w)(pc_base c := (view w (pc_base c))(p \<mapsto> {}))
        else \<exists>c' err. remote_project http w c p create = (w, c', Inl err)"
proof -
  obtain c' where c': "pc_base c' = pc_base c"
    and i: "case view w (pc_base c) p of
        None \<Rightarrow> \<exists>err. InspectProject http w c p = (w, c', Inl err) \<and> Not_found err
      | Some ss \<Rightarrow> \<exists>r. InspectProject http w c p = (w, c', Inr r) \<and> sv_name ` set (ir_services r) = ss"
    by (rule InspectProject_serves [OF assms])
  obtain w' body where cr: "http w (create_request c' p) = (w', Inr (200, body))" "view w' = (view w)(pc_base c := (view w (pc_base c))(p \<mapsto> {}))"
    using servesD(5) [OF assms(1), of w c' p] c' by auto
  have "CreateProject http w c' p = (w', Inr ())"
    using cr(1) assms(2) c' by (simp add: CreateProject_def trpc_def create_request_def)
  then show ?thesis using i cr(2) by (auto simp: remote_project_def split: option.splits)
qed

text \<open>The preflight passes exactly when the local service is there, the remote project is there or may
  be created, and the remote name is free or may be overwritten. The only thing it ever changes is that
  it adds the missing remote project, and it does so only when it then passes.\<close>

lemma preflight_exact:
  assumes "serves http view wants" "pc_base local \<noteq> []" "pc_base remote \<noteq> []"
    and "Preflight http w local remote i opt = (w', res)"
  defines "missing \<equiv> view w (pc_base remote) (mi_remote_project i) = None"
  shows "(ok_panel res \<longleftrightarrow> (\<exists>ss. view w (pc_base local) (mi_local_project i) = Some ss \<and> mi_local_service i \<in> ss)
      \<and> (case view w (pc_base remote) (mi_remote_project i) of None \<Rightarrow> po_create opt | Some ss \<Rightarrow> po_overwrite opt \<or> mi_remote_service i \<notin> ss))
    \<and> view w' = (if ok_panel res \<and> missing then (view w)(pc_base remote := (view w (pc_base remote))(mi_remote_project i \<mapsto> {})) else view w)
    \<and> (\<forall>plan. res = Inr plan \<longrightarrow> mp_created plan = missing \<and> mp_input plan = i)"
proof -
  obtain c' where c': "case view w (pc_base local) (mi_local_project i) of
        None \<Rightarrow> \<exists>err. InspectProject http w local (mi_local_project i) = (w, c', Inl err) \<and> Not_found err
      | Some ss \<Rightarrow> \<exists>r. InspectProject http w local (mi_local_project i) = (w, c', Inr r) \<and> sv_name ` set (ir_services r) = ss"
    by (rule InspectProject_serves [OF assms(1,2)])
  note rp = remote_project_serves [OF assms(1,3), where w = w and p = "mi_remote_project i" and create = "po_create opt"]
  show ?thesis
  proof (cases "\<exists>ss. view w (pc_base local) (mi_local_project i) = Some ss \<and> mi_local_service i \<in> ss")
    case False
    then have "w' = w \<and> \<not> ok_panel res"
      using c' assms(4) by (auto simp: Preflight_def hasService_iff ok_panel_def split: option.splits if_splits)
    then show ?thesis using False by (auto simp: ok_panel_def)
  next
    case True
    then obtain r where r: "InspectProject http w local (mi_local_project i) = (w, c', Inr r)" "hasService (ir_services r) (mi_local_service i)"
      using c' by (auto simp: hasService_iff split: option.splits)
    show ?thesis
    proof (cases "view w (pc_base remote) (mi_remote_project i)")
      case None
      show ?thesis
      proof (cases "po_create opt")
        case cr: True
        then show ?thesis using rp None r assms(4) True
          by (auto simp: Preflight_def hasService_iff ok_panel_def missing_def)
      next
        case False
        then show ?thesis using rp None r assms(4) True
          by (auto simp: Preflight_def ok_panel_def missing_def)
      qed
    next
      case (Some ss)
      then obtain r' svcs where rr: "remote_project http w remote (mi_remote_project i) (po_create opt) = (w, r', Inr (svcs, False))" "sv_name ` set svcs = ss"
        using rp by auto
      show ?thesis
      proof (cases "\<not> po_overwrite opt \<and> mi_remote_service i \<in> ss")
        case True
        then have "res = Inl (Plain (Errorf ''remote service %q already exists in project %q (allow overwrite to proceed)''
            [quoted (mi_remote_service i), quoted (mi_remote_project i)] None)) \<and> w' = w"
          using rr r assms(4) by (simp add: Preflight_def hasService_iff)
        then show ?thesis using True Some by (simp add: ok_panel_def)
      next
        case False
        then have "res = Inr \<lparr>mp_local = c', mp_remote = r', mp_input = i, mp_created = False\<rparr> \<and> w' = w"
          using rr r assms(4) by (auto simp: Preflight_def hasService_iff)
        then show ?thesis using False Some True by (simp add: ok_panel_def missing_def)
      qed
    qed
  qed
qed

section \<open>Versions\<close>

lemma digit_facts: "is_ascii_digit c \<Longrightarrow> c \<noteq> CHR ''v'' \<and> c \<noteq> CHR ''.'' \<and> word_char c"
  by (auto simp: is_ascii_digit_def byte_def word_char_def)

text \<open>A version of the form \<open>MAJOR.MINOR\<close>, with or without more after another dot, prefers POST exactly
  from 2.32 on.\<close>

theorem version_threshold:
  assumes "maj < 2 ^ 63" "mi < 2 ^ 63" "rest = [] \<or> (\<exists>r. rest = CHR ''.'' # r)"
    and "trim_space version = dec_of_nat maj @ CHR ''.'' # dec_of_nat mi @ rest"
  shows "preferPOSTQuery version \<longleftrightarrow> maj > 2 \<or> maj = 2 \<and> mi \<ge> 32"
proof -
  let ?v = "dec_of_nat maj @ CHR ''.'' # dec_of_nat mi @ rest"
  have dot: "CHR ''.'' \<notin> set (dec_of_nat n)" for n
    using dec_of_nat_digits [of n] digit_facts by (auto simp: list_all_iff)
  have v: "\<not> has_prefix ?v ''v''"
    using dec_of_nat_digits [of maj] digit_facts by (cases "dec_of_nat maj") (auto simp: has_prefix_def)
  have s: "\<exists>t. split (CHR ''.'') ?v = dec_of_nat maj # dec_of_nat mi # t"
  proof (cases rest)
    case Nil
    then show ?thesis using split_append_sep [OF dot] split_no_sep [OF dot] by simp
  next
    case (Cons c r)
    then have "rest = CHR ''.'' # r" using assms(3) by auto
    then show ?thesis using split_append_sep [OF dot [of maj]] split_append_sep [OF dot [of mi], of r] by simp
  qed
  have p: "parse_int64 (dec_of_nat n) = Some (int n)" if "n < 2 ^ 63" for n :: nat
  proof -
    have "int n < int (2 ^ 63)" using that by (simp only: of_nat_less_iff)
    then show ?thesis using parse_int64_dec [of "int n"] by (simp add: dec_of_int_def)
  qed
  have "parseMajorMinor version = Some (int maj, int mi)"
    using s v p [OF assms(1)] p [OF assms(2)] assms(4) by (auto simp: parseMajorMinor_def trim_prefix_def)
  then show ?thesis by (auto simp: preferPOSTQuery_def)
qed

section \<open>Witnesses\<close>

text \<open>Panels that keep the names of each project's services; those at \<open>old\<close> want GET.\<close>

definition demo_services :: "string list \<Rightarrow> json" where
  "demo_services ss = JObj [(''project'', JObj []), (''services'', JArr (map (\<lambda>n. JObj [(''name'', JStr n)]) ss))]"

definition demo_wants :: "string \<Rightarrow> http_method" where
  "demo_wants base = (if base = ''old'' then GET else POST)"

definition demo_http :: "(string \<Rightarrow> string \<Rightarrow> string list option) transport" where
  "demo_http w req =
    (if rq_path req = ''/api/trpc/projects.createProject'' then
       (case rq_input req of JObj [(j, JObj [(n, JStr p)])] \<Rightarrow> (w(rq_base req := (w (rq_base req))(p \<mapsto> [])), Inr (200, None)) | _ \<Rightarrow> (w, Inr (400, None)))
     else if rq_method req \<noteq> demo_wants (rq_base req) then (w, Inr (405, None))
     else (case rq_input req of JObj [(j, JObj [(n, JStr p)])] \<Rightarrow> (case w (rq_base req) p of None \<Rightarrow> (w, Inr (404, None))
          | Some ss \<Rightarrow> (w, Inr (200, Some (JObj [(''json'', demo_services ss)])))) | _ \<Rightarrow> (w, Inr (400, None))))"

definition demo_view :: "(string \<Rightarrow> string \<Rightarrow> string list option) \<Rightarrow> string \<Rightarrow> string \<Rightarrow> string set option" where
  "demo_view w b p = map_option set (w b p)"

lemma demo_dec: "\<exists>r. dec_inspect (demo_services ss) = Some r \<and> sv_name ` set (ir_services r) = set ss"
proof -
  have l: "dec_list dec_service (map (\<lambda>n. JObj [(''name'', JStr n)]) ss) = Some (map (\<lambda>n. \<lparr>sv_name = n, sv_type = [], sv_project = []\<rparr>) ss)"
    by (rule dec_list_map) (simp add: dec_service_def dec_str_def json_member_def equal_fold_def fold_case_def byte_def)
  have m: "json_member ''project'' [(''project'', a), (''services'', b)] = Some a" "json_member ''services'' [(''project'', a), (''services'', b)] = Some b" for a b
    by (simp_all add: json_member_def equal_fold_def fold_case_def byte_def)
  have none: "json_member n [] = None" for n by (simp add: json_member_def)
  show ?thesis
    using l by (simp add: dec_inspect_def demo_services_def m dec_array_def dec_project_def dec_str_def none image_image)
qed

lemma demo_serves: "serves demo_http demo_view demo_wants"
proof -
  have u: "demo_view (w(b := (w b)(p \<mapsto> []))) = (demo_view w)(b := (demo_view w b)(p \<mapsto> {}))" for w b p
    by (rule ext)+ (simp add: demo_view_def)
  show ?thesis
    unfolding serves_def
  proof (intro conjI allI)
    fix w :: "string \<Rightarrow> string \<Rightarrow> string list option" and c m p
    show "fst (demo_http w (inspect_request c m p)) = w"
      by (simp add: demo_http_def inspect_request_def proc_request_def split: option.split)
    show "if m \<noteq> demo_wants (pc_base c) then \<exists>body. snd (demo_http w (inspect_request c m p)) = Inr (405, body)
         else (case demo_view w (pc_base c) p of
           None \<Rightarrow> \<exists>body. snd (demo_http w (inspect_request c m p)) = Inr (404, body)
         | Some ss \<Rightarrow> \<exists>body r. snd (demo_http w (inspect_request c m p)) = Inr (200, Some body)
             \<and> dec_inspect (unwrapPayload body) = Some r \<and> sv_name ` set (ir_services r) = ss)"
      using demo_dec by (auto simp: demo_http_def inspect_request_def proc_request_def unwrap_bare demo_view_def split: option.split)
  next
    fix w :: "string \<Rightarrow> string \<Rightarrow> string list option" and c p
    show "\<exists>w' body. demo_http w (create_request c p) = (w', Inr (200, body))
         \<and> demo_view w' = (demo_view w)(pc_base c := (demo_view w (pc_base c))(p \<mapsto> {}))"
      by (simp add: demo_http_def create_request_def proc_request_def u)
  qed
qed

theorem query_requests_witness:
  "\<exists>w' l' c' res ms. ListProjects (logged demo_http) ((\<lambda>b. Map.empty), []) (New_panel ''new'' ''t'') = ((w', l'), c', res) \<and> List.length l' = List.length ms
    \<and> ms \<in> {[], [GET], [GET, POST]}"
proof -
  obtain w' l' c' res where p: "ListProjects (logged demo_http) ((\<lambda>b. Map.empty), []) (New_panel ''new'' ''t'') = ((w', l'), c', res)"
    by (metis prod.exhaust)
  show ?thesis
    using query_requests [OF p [unfolded ListProjects_def]] p
    by (auto simp: New_panel_def first_method_def other_method_def intro: exI [of _ "[]"] exI [of _ "[GET]"] exI [of _ "[GET, POST]"])
qed

theorem version_threshold_witness: "preferPOSTQuery ''2.32.2''"
proof -
  have t: "trim_space ''2.32.2'' = dec_of_nat 2 @ CHR ''.'' # dec_of_nat 32 @ ''.2''" by code_simp
  show ?thesis using version_threshold [OF _ _ _ t] by simp
qed

end
