(* ===== verification/EasyPanelCmd.thy ===== *)
theory EasyPanelCmd
  imports EasyPanel
begin

text \<open>
  The program that runs on an agent for the client's EasyPanel commands
  (\<open>src/internal/easypanel/detect.go\<close>, \<open>src/cmd/easypanel-migrate/main.go\<close>): finding the panel's
  container and its token through Docker, the flags, and the subcommands with their output and exit
  status.
\<close>

section \<open>Finding the panel\<close>

text \<open>
  The Docker commands it runs: the list of container names, and Node scripts inside the panel's
  container that print its version, its public URL and its token. \<open>env\<close> has the two environment
  variables that override what is found.
\<close>

datatype node_script = VersionScript | SettingsScript | TokenScript

datatype docker_command = DockerPs | DockerNode string node_script

type_synonym runner = "docker_command \<Rightarrow> string result"

datatype exec_end = Exited | ExitFailure string | NotRun error

definition ExecRun :: "bytes \<Rightarrow> exec_end \<Rightarrow> string result" where
  "ExecRun out e = (case e of
     Exited \<Rightarrow> Inr (trim_space out)
   | ExitFailure stderr \<Rightarrow> if stderr \<noteq> [] then Inl (Error (trim_space stderr)) else Inl (External ''exit status'')
   | NotRun err \<Rightarrow> Inl err)"

record panel_env =
  ev_url :: string
  ev_container :: string

record Detection =
  dt_present :: bool
  dt_container :: string
  dt_base :: string
  dt_version :: string
  dt_public :: string

definition localURL :: "panel_env \<Rightarrow> string" where
  "localURL env = (if trim_space (ev_url env) \<noteq> [] then trim_slashes (trim_space (ev_url env)) else ''http://127.0.0.1:3000'')"

definition is_panel :: "string \<Rightarrow> bool" where
  "is_panel name \<longleftrightarrow> has_prefix name ''easypanel.1.'' \<or> name = ''easypanel'' \<or> name = ''easypanel-app''"

definition panelContainer :: "string \<Rightarrow> string" where
  "panelContainer ps = (case List.find is_panel (map trim_space (split (CHR 0x0A) ps)) of None \<Rightarrow> [] | Some name \<Rightarrow> name)"

definition PanelVersion :: "runner \<Rightarrow> string \<Rightarrow> string result" where
  "PanelVersion run container = (if container = [] then Inl (Error ''easypanel: no panel container'')
     else case run (DockerNode container VersionScript) of Inl err \<Rightarrow> Inl err | Inr out \<Rightarrow> Inr (trim_space out))"

definition PanelPublicURL :: "runner \<Rightarrow> string \<Rightarrow> string result" where
  "PanelPublicURL run container = (if container = [] then Inl (Error ''easypanel: no panel container'')
     else case run (DockerNode container SettingsScript) of Inl err \<Rightarrow> Inl err | Inr out \<Rightarrow> Inr (trim_space out))"

definition or_empty :: "string result \<Rightarrow> string" where
  "or_empty r = (case r of Inl err \<Rightarrow> [] | Inr s \<Rightarrow> s)"

definition no_detection :: Detection where
  "no_detection = \<lparr>dt_present = False, dt_container = [], dt_base = [], dt_version = [], dt_public = []\<rparr>"

definition Detect :: "runner \<Rightarrow> panel_env \<Rightarrow> Detection result" where
  "Detect run env =
    (if trim_space (ev_container env) \<noteq> []
     then Inr \<lparr>dt_present = True, dt_container = trim_space (ev_container env), dt_base = localURL env, dt_version = [], dt_public = []\<rparr>
     else case run DockerPs of
       Inl err \<Rightarrow> Inl err
     | Inr names \<Rightarrow> (let container = panelContainer names in
         if container = [] then Inr no_detection
         else Inr \<lparr>dt_present = True, dt_container = container, dt_base = localURL env,
           dt_version = or_empty (PanelVersion run container), dt_public = or_empty (PanelPublicURL run container)\<rparr>))"

definition ExtractToken :: "runner \<Rightarrow> string \<Rightarrow> string result" where
  "ExtractToken run container = (if container = [] then Inl (Error ''easypanel: no panel container'')
     else case run (DockerNode container TokenScript) of
       Inl err \<Rightarrow> Inl err
     | Inr out \<Rightarrow> if trim_space out = [] then Inl (Error ''easypanel: no admin apiToken found in store'') else Inr (trim_space out))"

definition DetectAndToken :: "runner \<Rightarrow> panel_env \<Rightarrow> (panel_client \<times> Detection) result" where
  "DetectAndToken run env = (case Detect run env of
     Inl err \<Rightarrow> Inl err
   | Inr det \<Rightarrow> if \<not> dt_present det then Inl (Error ''easypanel: not detected on host'')
       else (case ExtractToken run (dt_container det) of
         Inl err \<Rightarrow> Inl err
       | Inr token \<Rightarrow> Inr (NewForVersion (dt_base det) token (dt_version det), det)))"

section \<open>Flags\<close>

text \<open>
  \<open>flag.Parse\<close> with \<open>ExitOnError\<close>: the flags that were set, the last setting first, or an exit status.
  A flag is given with its name and whether it is boolean.
\<close>

definition parse_bool :: "string \<Rightarrow> bool option" where
  "parse_bool s = (if s \<in> {''1'', ''t'', ''T'', ''TRUE'', ''true'', ''True''} then Some True
     else if s \<in> {''0'', ''f'', ''F'', ''FALSE'', ''false'', ''False''} then Some False else None)"

datatype flag_value = StrFlag string | BoolFlag bool

fun parse_flags :: "(string \<times> bool) list \<Rightarrow> string list \<Rightarrow> (string \<times> flag_value) list \<Rightarrow> nat + (string \<times> flag_value) list" where
  "parse_flags spec [] fl = Inr fl"
| "parse_flags spec (a # rest) fl =
    (if List.length a < 2 \<or> hd a \<noteq> CHR ''-'' then Inr fl
     else if a = ''--'' then Inr fl
     else (let name0 = drop (if a ! 1 = CHR ''-'' then 2 else 1) a in
       if name0 = [] \<or> hd name0 = CHR ''-'' \<or> hd name0 = CHR ''='' then Inl 2
       else (let (name, given) = (case cut (CHR ''='') name0 of None \<Rightarrow> (name0, None) | Some (n, v) \<Rightarrow> (n, Some v)) in
         (case map_of spec name of
            None \<Rightarrow> Inl (if name = ''help'' \<or> name = ''h'' then 0 else 2)
          | Some True \<Rightarrow> (case given of
               None \<Rightarrow> parse_flags spec rest ((name, BoolFlag True) # fl)
             | Some v \<Rightarrow> (case parse_bool v of None \<Rightarrow> Inl 2 | Some b \<Rightarrow> parse_flags spec rest ((name, BoolFlag b) # fl)))
          | Some False \<Rightarrow> (case given of
               Some v \<Rightarrow> parse_flags spec rest ((name, StrFlag v) # fl)
             | None \<Rightarrow> (case rest of [] \<Rightarrow> Inl 2 | v # rest' \<Rightarrow> parse_flags spec rest' ((name, StrFlag v) # fl)))))))"

definition str_flag :: "(string \<times> flag_value) list \<Rightarrow> string \<Rightarrow> string" where
  "str_flag fl name = (case map_of fl name of Some (StrFlag s) \<Rightarrow> s | _ \<Rightarrow> [])"

definition bool_flag :: "(string \<times> flag_value) list \<Rightarrow> string \<Rightarrow> bool" where
  "bool_flag fl name = (case map_of fl name of Some (BoolFlag b) \<Rightarrow> b | _ \<Rightarrow> False)"

section \<open>The subcommands\<close>

text \<open>How a subcommand ends: with an exit status of its own, or by returning, perhaps with an error.\<close>

datatype cmd_end = Exit nat | Done | Failed panel_error

definition newline :: string where
  "newline = [CHR 0x0A]"

definition or_unknown :: "string \<Rightarrow> string" where
  "or_unknown s = (if s = [] then ''unknown'' else s)"

definition detect_line :: "Detection \<Rightarrow> string" where
  "detect_line det = ''easypanel: detected container='' @ dt_container det @ '' url='' @ dt_base det
     @ '' version='' @ or_unknown (dt_version det) @ '' public_url='' @ or_unknown (dt_public det) @ newline"

definition cmdDetect :: "runner \<Rightarrow> panel_env \<Rightarrow> string \<times> cmd_end" where
  "cmdDetect run env = (case Detect run env of
     Inl err \<Rightarrow> ([], Failed (Plain err))
   | Inr det \<Rightarrow> if \<not> dt_present det then (''easypanel: not detected'' @ newline, Exit 3) else (detect_line det, Done))"

definition cmdToken :: "runner \<Rightarrow> panel_env \<Rightarrow> string \<times> cmd_end" where
  "cmdToken run env = (case DetectAndToken run env of
     Inl err \<Rightarrow> ([], Failed (Plain err))
   | Inr (c, det) \<Rightarrow> (pc_token c @ newline, Done))"

definition remoteClient :: "runner \<Rightarrow> string \<Rightarrow> string \<Rightarrow> string \<Rightarrow> panel_client result" where
  "remoteClient run url token container =
    (if url = [] then Inl (Error ''--remote-url required'')
     else case (if token = [] \<and> container \<noteq> [] then ExtractToken run container else Inr token) of
       Inl err \<Rightarrow> Inl (Errorf ''extract remote token: %w'' [] (Some err))
     | Inr tok \<Rightarrow> if tok = [] then Inl (Error ''--remote-token or --remote-container required'') else Inr (New_panel url tok))"

definition selectPanel :: "runner \<Rightarrow> panel_env \<Rightarrow> string \<Rightarrow> string \<Rightarrow> string \<Rightarrow> panel_client result" where
  "selectPanel run env url token container = (if url = [] \<and> container = []
     then (case DetectAndToken run env of Inl err \<Rightarrow> Inl err | Inr (c, det) \<Rightarrow> Inr c)
     else remoteClient run url token container)"

definition remote_flags :: "(string \<times> bool) list" where
  "remote_flags = [(''remote-url'', False), (''remote-token'', False), (''remote-container'', False)]"

definition cmdProjects :: "'w transport \<Rightarrow> 'w \<Rightarrow> runner \<Rightarrow> panel_env \<Rightarrow> string list \<Rightarrow> 'w \<times> string \<times> cmd_end" where
  "cmdProjects http w run env args = (case parse_flags remote_flags args [] of
     Inl status \<Rightarrow> (w, [], Exit status)
   | Inr fl \<Rightarrow> (case selectPanel run env (str_flag fl ''remote-url'') (str_flag fl ''remote-token'') (str_flag fl ''remote-container'') of
       Inl err \<Rightarrow> (w, [], Failed (Plain err))
     | Inr c \<Rightarrow> (case ListProjects http w c of
         (w', c', Inl err) \<Rightarrow> (w', [], Failed err)
       | (w', c', Inr ps) \<Rightarrow> (w', concat (map (\<lambda>p. pj_name p @ newline) ps), Done))))"

definition migrate_flags :: "(string \<times> bool) list" where
  "migrate_flags = [(''local-project'', False), (''local-service'', False)] @ remote_flags
     @ [(''remote-project'', False), (''remote-service'', False), (''create-remote-project'', True), (''overwrite-remote-service'', True)]"

definition migrate_input :: "(string \<times> flag_value) list \<Rightarrow> string \<Rightarrow> MigrateInput" where
  "migrate_input fl token = \<lparr>mi_local_project = str_flag fl ''local-project'', mi_local_service = str_flag fl ''local-service'',
     mi_token = token, mi_url = str_flag fl ''remote-url'',
     mi_remote_project = str_flag fl ''remote-project'', mi_remote_service = str_flag fl ''remote-service''\<rparr>"

definition migrate_opts :: "(string \<times> flag_value) list \<Rightarrow> PreflightOptions" where
  "migrate_opts fl = \<lparr>po_create = bool_flag fl ''create-remote-project'', po_overwrite = bool_flag fl ''overwrite-remote-service''\<rparr>"

definition run_migration :: "'w transport \<Rightarrow> 'w \<Rightarrow> MigratePlan \<Rightarrow> string \<Rightarrow> 'w \<times> string \<times> cmd_end" where
  "run_migration http w plan out =
    (let i = mp_input plan;
         out1 = out @ (if mp_created plan then ''created remote project '' @ quoted (mi_remote_project i) @ newline else []);
         out2 = out1 @ ''migrating '' @ mi_local_project i @ ''/'' @ mi_local_service i @ '' -> '' @ mi_url i @ '' ''
           @ mi_remote_project i @ ''/'' @ mi_remote_service i @ '' ...'' @ newline
     in case Run_plan http w plan of
       (w', Inl err) \<Rightarrow> (w', out2, Failed err)
     | (w', Inr u) \<Rightarrow> (w', out2 @ ''migrate: ok'' @ newline, Done))"

definition cmdMigrate :: "'w transport \<Rightarrow> 'w \<Rightarrow> runner \<Rightarrow> panel_env \<Rightarrow> string list \<Rightarrow> 'w \<times> string \<times> cmd_end" where
  "cmdMigrate http w run env args = (case parse_flags migrate_flags args [] of
     Inl status \<Rightarrow> (w, [], Exit status)
   | Inr fl \<Rightarrow>
      if str_flag fl ''local-project'' = [] \<or> str_flag fl ''local-service'' = [] \<or> str_flag fl ''remote-project'' = [] \<or> str_flag fl ''remote-service'' = []
      then (w, [], Failed (Plain (Error ''local/remote project and service names are required'')))
      else (case DetectAndToken run env of
        Inl err \<Rightarrow> (w, [], Failed (Plain err))
      | Inr (local, det) \<Rightarrow> (let out = ''detected local panel: '' @ dt_container det @ newline in
          case remoteClient run (str_flag fl ''remote-url'') (str_flag fl ''remote-token'') (str_flag fl ''remote-container'') of
            Inl err \<Rightarrow> (w, out, Failed (Plain err))
          | Inr remote \<Rightarrow> (case Preflight http w local remote (migrate_input fl (pc_token remote)) (migrate_opts fl) of
              (w', Inl err) \<Rightarrow> (w', out, Failed err)
            | (w', Inr plan) \<Rightarrow> run_migration http w' plan out))))"

fun panel_text :: "panel_error \<Rightarrow> string" where
  "panel_text (APIError st c msg) = (if msg \<noteq> [] then ''easypanel '' @ dec_of_nat st @ '' '' @ c @ '': '' @ msg else ''easypanel http '' @ dec_of_nat st)"
| "panel_text (Plain err) = error_text err"
| "panel_text (Wrapped f args err) = fill_format f (args @ [panel_text err])"

text \<open>The process: its exit status and its two outputs (the usage text apart); \<open>args\<close> comes after the program's name.\<close>

definition main_migrate :: "'w transport \<Rightarrow> 'w \<Rightarrow> runner \<Rightarrow> panel_env \<Rightarrow> string list \<Rightarrow> 'w \<times> nat \<times> string \<times> string" where
  "main_migrate http w run env args =
    (let finish = (\<lambda>(w', out, e). case e of
           Exit status \<Rightarrow> (w', status, out, [])
         | Done \<Rightarrow> (w', 0, out, [])
         | Failed err \<Rightarrow> (w', 1, out, ''error: '' @ panel_text err @ newline))
     in case args of
       [] \<Rightarrow> (w, 2, [], [])
     | c # rest \<Rightarrow>
        if c = ''detect'' then finish (w, cmdDetect run env)
        else if c = ''token'' then finish (w, cmdToken run env)
        else if c = ''projects'' then finish (cmdProjects http w run env rest)
        else if c = ''migrate'' then finish (cmdMigrate http w run env rest)
        else if c \<in> {''-h'', ''--help'', ''help''} then (w, 0, [], [])
        else (w, 2, [], ''unknown command '' @ quoted c @ newline))"

section \<open>What the client reads of a detection\<close>

text \<open>Characters that are printed as one byte and are not white space.\<close>

definition ascii_word :: "char \<Rightarrow> bool" where
  "ascii_word c \<longleftrightarrow> 33 \<le> byte c \<and> byte c < 127"

lemma ascii_word_char: "ascii_word c \<Longrightarrow> word_char c"
  by (auto simp: ascii_word_def word_char_def)

lemma space_len_ascii: "ascii_word c \<Longrightarrow> space_len [c] \<noteq> 1 \<and> space_len [a, c] \<noteq> 2 \<and> space_len [a, b, c] \<noteq> 3"
  by (auto simp: space_len_def ascii_word_def)

lemma space_suffix_ascii:
  assumes "ascii_word c"
  shows "space_suffix (s @ [c]) = 0"
proof -
  have "\<not> (k \<le> List.length (s @ [c]) \<and> space_len (drop (List.length (s @ [c]) - k) (s @ [c])) = k)" if "k \<in> {1, 2, 3}" for k
  proof (cases s rule: rev_cases)
    case Nil
    then show ?thesis using that space_len_ascii [OF assms] by auto
  next
    case (snoc s' a)
    then show ?thesis
      using that space_len_ascii [OF assms] by (cases s' rule: rev_cases) auto
  qed
  then have "List.find (\<lambda>k. k \<le> List.length (s @ [c]) \<and> space_len (drop (List.length (s @ [c]) - k) (s @ [c])) = k) [1, 2, 3] = None"
    unfolding find_None_iff by (metis list.set(1) list.simps(15))
  then show ?thesis by (simp add: space_suffix_def)
qed

lemma trim_right_ascii: "ascii_word c \<Longrightarrow> trim_right (s @ [c]) = s @ [c]"
  by (subst trim_right.simps) (simp add: space_suffix_ascii)

lemma trim_right_newline: "ascii_word c \<Longrightarrow> trim_right (s @ [c] @ newline) = s @ [c]"
proof -
  assume c: "ascii_word c"
  have "space_suffix (s @ [c] @ newline) = 1"
    by (simp add: space_suffix_def newline_def space_len_def byte_def)
  then have "trim_right (s @ [c] @ newline) = trim_right (s @ [c])"
    by (subst trim_right.simps) (simp add: newline_def)
  then show ?thesis using trim_right_ascii [OF c] by simp
qed

lemma trim_space_line:
  assumes "ascii_word (hd s)" "ascii_word (last s)" "s \<noteq> []"
  shows "trim_space (s @ newline) = s"
proof -
  have "trim_left (s @ newline) = s @ newline"
    using assms ascii_word_char by (cases s) auto
  moreover obtain s0 c where "s = s0 @ [c]" using assms(3) by (cases s rule: rev_cases) auto
  ultimately show ?thesis using trim_right_newline [of c s0] assms(2) by (simp add: trim_space_def)
qed

lemma Fields_join: "\<forall>w \<in> set ws. list_all word_char w \<and> w \<noteq> [] \<Longrightarrow> Fields (join '' '' ws) = ws"
proof (induction ws)
  case (Cons x ws)
  then show ?case
  proof (cases ws)
    case Nil
    then show ?thesis using Cons.prems by (simp add: Fields_word)
  next
    case (Cons y ys)
    then show ?thesis using Cons.IH Cons.prems Fields_words [of x "join '' '' ws"] by simp
  qed
qed (simp add: Fields_def)

text \<open>A value as \<open>cmdDetect\<close> prints it: printable characters without white space.\<close>

definition printable :: "string \<Rightarrow> bool" where
  "printable s \<longleftrightarrow> list_all ascii_word s"

lemma printable_words: "printable s \<Longrightarrow> list_all word_char s"
  by (auto simp: printable_def list_all_iff ascii_word_char)

lemma parseDetectField_cons:
  "parseDetectField s p = (case List.find (\<lambda>f. has_prefix f p) (Fields s) of None \<Rightarrow> [] | Some f \<Rightarrow>
     if drop (List.length p) f = ''unknown'' then [] else drop (List.length p) f)"
  by (simp add: parseDetectField_def Let_def split: option.split)

lemma detect_fields:
  assumes "printable (dt_container det)" "printable (dt_base det)" "printable (dt_version det)" "printable (dt_public det)"
  shows "Fields (trim_space (detect_line det)) = [''easypanel:'', ''detected'', ''container='' @ dt_container det, ''url='' @ dt_base det,
     ''version='' @ or_unknown (dt_version det), ''public_url='' @ or_unknown (dt_public det)]"
proof -
  let ?s = "''easypanel: detected container='' @ dt_container det @ '' url='' @ dt_base det
     @ '' version='' @ or_unknown (dt_version det) @ '' public_url='' @ or_unknown (dt_public det)"
  have pr: "printable (or_unknown s)" "or_unknown s \<noteq> []" if "printable s" for s
    using that by (auto simp: or_unknown_def printable_def ascii_word_def byte_def)
  have "last ?s = last (or_unknown (dt_public det))" using pr(2) [OF assms(4)] by simp
  then have "ascii_word (last ?s)"
    using pr [OF assms(4)] by (auto simp: printable_def list_all_iff)
  moreover have "ascii_word (hd ?s)" by (simp add: ascii_word_def byte_def)
  ultimately have t: "trim_space (detect_line det) = ?s"
    using trim_space_line [of ?s] by (simp add: detect_line_def)
  have w: "list_all word_char ''easypanel:''" "list_all word_char ''detected''" "list_all word_char (''container='' @ dt_container det)"
      "list_all word_char (''url='' @ dt_base det)" "list_all word_char (''version='' @ or_unknown (dt_version det))"
      "list_all word_char (''public_url='' @ or_unknown (dt_public det))"
    using printable_words [OF assms(1)] printable_words [OF assms(2)] printable_words [OF pr(1) [OF assms(3)]]
      printable_words [OF pr(1) [OF assms(4)]]
    by (simp_all add: word_char_def byte_def)
  have "?s = join '' '' [''easypanel:'', ''detected'', ''container='' @ dt_container det, ''url='' @ dt_base det,
     ''version='' @ or_unknown (dt_version det), ''public_url='' @ or_unknown (dt_public det)]"
    by simp
  then show ?thesis unfolding t by (simp only:) (rule Fields_join, simp add: w [simplified])
qed

text \<open>What the agent's program prints of a panel it found is what the client reads of it: the panel's
  URL, and its public URL where it has one. Of a host without a panel the client reads no URL.\<close>

theorem detection_round_trip:
  assumes "Detect run env = Inr det" "dt_present det"
    and "printable (dt_container det)" "printable (dt_base det)" "printable (dt_version det)" "printable (dt_public det)"
    and "dt_base det \<noteq> ''unknown''"
  shows "parseDetectURL (trim_space (fst (cmdDetect run env))) = dt_base det
    \<and> parseDetectField (trim_space (fst (cmdDetect run env))) ''public_url='' = (if dt_public det = ''unknown'' then [] else dt_public det)"
proof -
  have f: "fst (cmdDetect run env) = detect_line det" using assms(1,2) by (simp add: cmdDetect_def)
  note d = detect_fields [OF assms(3-6)]
  have u: "\<not> has_prefix (''container='' @ x) ''url=''" "\<not> has_prefix (''container='' @ x) ''public_url=''"
      "\<not> has_prefix (''url='' @ x) ''public_url=''" "\<not> has_prefix (''version='' @ x) ''public_url=''" for x
    by (simp_all add: has_prefix_def)
  show ?thesis
    using assms(7) u by (simp add: f parseDetectURL_def parseDetectField_cons d or_unknown_def has_prefix_def)
qed

section \<open>A migration is checked before it starts\<close>

text \<open>Whether the flags name a service that is there and a place for it that is free, as the panels are.\<close>

definition may_migrate :: "(string \<Rightarrow> string \<Rightarrow> string set option) \<Rightarrow> string \<Rightarrow> string \<Rightarrow> (string \<times> flag_value) list \<Rightarrow> bool" where
  "may_migrate projects from to fl \<longleftrightarrow>
    (\<exists>ss. projects from (str_flag fl ''local-project'') = Some ss \<and> str_flag fl ''local-service'' \<in> ss)
    \<and> (case projects to (str_flag fl ''remote-project'') of
         None \<Rightarrow> bool_flag fl ''create-remote-project''
       | Some ss \<Rightarrow> bool_flag fl ''overwrite-remote-service'' \<or> str_flag fl ''remote-service'' \<notin> ss)"

definition add_project :: "(string \<Rightarrow> string \<Rightarrow> string set option) \<Rightarrow> string \<Rightarrow> string \<Rightarrow> (string \<Rightarrow> string \<Rightarrow> string set option)" where
  "add_project projects base p = (if projects base p = None then projects(base := (projects base)(p \<mapsto> {})) else projects)"

lemma run_migration_done: "run_migration http w plan out = (w', out', e) \<Longrightarrow> fst (Run_plan http w plan) = w'"
  by (auto simp: run_migration_def Let_def split: prod.splits sum.splits)

lemma remoteClient_base: "remoteClient run url token container = Inr c \<Longrightarrow> pc_base c = trim_slashes url"
  by (auto simp: remoteClient_def New_panel_def split: sum.splits if_splits)


section \<open>Witnesses\<close>

definition demo_runner :: runner where
  "demo_runner c = (case c of
     DockerPs \<Rightarrow> Inr ''db.1.x''
   | DockerNode container script \<Rightarrow> (case script of VersionScript \<Rightarrow> Inr ''2.30.1'' | SettingsScript \<Rightarrow> Inr ''https://panel'' | TokenScript \<Rightarrow> Inr ''tok''))"

definition demo_panel_env :: panel_env where
  "demo_panel_env = \<lparr>ev_url = ''old'', ev_container = ''easypanel.1.a''\<rparr>"

theorem detection_round_trip_witness:
  "parseDetectURL (trim_space (fst (cmdDetect demo_runner demo_panel_env))) = ''old''
   \<and> parseDetectField (trim_space (fst (cmdDetect demo_runner demo_panel_env))) ''public_url='' = []"
proof -
  have t: "trim_space ''old'' = ''old''" "trim_space ''easypanel.1.a'' = ''easypanel.1.a''" by code_simp+
  have d: "Detect demo_runner demo_panel_env = Inr \<lparr>dt_present = True, dt_container = ''easypanel.1.a'', dt_base = ''old'', dt_version = [], dt_public = []\<rparr>"
    by (simp add: Detect_def demo_panel_env_def localURL_def t trim_slashes_def)
  show ?thesis
    using detection_round_trip [OF d] by (simp add: printable_def ascii_word_def byte_def)
qed


end
