(* ===== verification/MigrationFlow.thy ===== *)
theory MigrationFlow
  imports Dashboard EasyPanelCmd
begin

text \<open>
  A migration on its way through the program: from the dashboard's form to the arguments of the
  client's call, to the command line that the source agent's shell gets, to the flags that
  \<open>easypanel-migrate\<close> parses there.
\<close>

section \<open>Words\<close>

text \<open>Characters that mean themselves to a shell, which then splits words only at spaces.\<close>

definition shell_safe :: "char \<Rightarrow> bool" where
  "shell_safe c \<longleftrightarrow> (let b = byte c in 48 \<le> b \<and> b \<le> 57 \<or> 65 \<le> b \<and> b \<le> 90 \<or> 97 \<le> b \<and> b \<le> 122 \<or> b \<in> {45, 46, 47, 58, 95})"

definition safe_word :: "string \<Rightarrow> bool" where
  "safe_word w \<longleftrightarrow> w \<noteq> [] \<and> list_all shell_safe w"

text \<open>A word that is no flag.\<close>

definition plain_word :: "string \<Rightarrow> bool" where
  "plain_word w \<longleftrightarrow> safe_word w \<and> hd w \<noteq> CHR ''-''"

lemma safe_no_space: "list_all shell_safe w \<Longrightarrow> CHR '' '' \<notin> set w"
  by (auto simp: list_all_iff shell_safe_def byte_def)

lemma plain_not_flag [simp]: "plain_word w \<Longrightarrow> w \<noteq> CHR ''-'' # cs" "plain_word w \<Longrightarrow> CHR ''-'' # cs \<noteq> w"
  by (auto simp: plain_word_def)

lemma split_join: "\<forall>w \<in> set ws. c \<notin> set w \<Longrightarrow> ws \<noteq> [] \<Longrightarrow> split c (join [c] ws) = ws"
proof (induction ws)
  case (Cons w ws)
  then show ?case by (cases ws) (simp_all add: split_no_sep split_append_sep)
qed simp

lemma extract_flag_middle:
  "name \<notin> set ws1 \<Longrightarrow> name \<notin> set ws2 \<Longrightarrow> extract_flag name (ws1 @ name # x # ws2) v found = (x, ws1 @ ws2, True)"
proof (induction ws1 arbitrary: v)
  case (Cons w ws1)
  then show ?case by (cases "ws1 @ name # x # ws2") auto
qed (simp add: extract_flag_absent)

lemma extractFlag_middle:
  "name \<notin> set ws1 \<Longrightarrow> name \<notin> set ws2 \<Longrightarrow> extractFlag (ws1 @ name # x # ws2) name = (x, ws1 @ ws2, True)"
  by (simp add: extractFlag_def extract_flag_middle)

section \<open>The words of a form\<close>

definition form_names :: "migrate_form \<Rightarrow> string list" where
  "form_names f = [''--local-project'', field f 0, ''--local-service'', field f 1, ''--remote-project'', field f 2, ''--remote-service'', field f 3]"

definition form_url :: "migrate_form \<Rightarrow> string list" where
  "form_url f = (if field f 4 \<noteq> [] then [''--remote-url'', field f 4] else [])"

definition form_toggles :: "migrate_form \<Rightarrow> string list" where
  "form_toggles f = (if fm_create f then [''--create-remote-project''] else []) @ (if fm_overwrite f then [''--overwrite-remote-service''] else [])"

definition form_detach :: "migrate_form \<Rightarrow> string list" where
  "form_detach f = (if fm_detach f then [''--detach''] else [])"

text \<open>A form with names that are plain words and a URL that is one, if it is given.\<close>

definition plain_form :: "migrate_form \<Rightarrow> bool" where
  "plain_form f \<longleftrightarrow> (\<forall>i < 4. plain_word (field f i)) \<and> (field f 4 \<noteq> [] \<longrightarrow> plain_word (field f 4))"

lemma migrate_args_eq:
  "migrate_args f dst = fst (fm_source f) # ''migrate'' # ''--to-agent'' # dst # form_names f @ form_url f
     @ ''--timeout'' # field f mfTimeout # form_toggles f @ form_detach f"
  by (simp add: migrate_args_def form_names_def form_url_def form_toggles_def form_detach_def)

lemma plain_fields: "plain_form f \<Longrightarrow> plain_word (field f 0)" "plain_form f \<Longrightarrow> plain_word (field f (Suc 0))"
    "plain_form f \<Longrightarrow> plain_word (field f 2)" "plain_form f \<Longrightarrow> plain_word (field f 3)"
    "plain_form f \<Longrightarrow> field f 4 \<noteq> [] \<Longrightarrow> plain_word (field f 4)"
  by (auto simp: plain_form_def)

lemma names_flags:
  assumes "plain_form f"
  shows "set (form_names f) \<inter> {''--timeout'', ''--detach'', ''--to-agent'', ''--remote-url''} = {}"
    and "set (form_url f) \<inter> {''--timeout'', ''--detach'', ''--to-agent''} = {}"
    and "set (form_toggles f) \<inter> {''--timeout'', ''--detach'', ''--to-agent'', ''--remote-url''} = {}"
    and "set (form_detach f) \<inter> {''--timeout'', ''--to-agent'', ''--remote-url''} = {}"
  using plain_fields [OF assms] by (auto simp: form_names_def form_url_def form_toggles_def form_detach_def)

lemma extractBoolFlag_last:
  assumes "''--detach'' \<notin> set ws"
  shows "extractBoolFlag (ws @ form_detach f) ''--detach'' = (ws, fm_detach f)"
proof -
  have "filter (\<lambda>a. a \<noteq> ''--detach'') ws = ws" by (rule filter_True) (use assms in blast)
  then show ?thesis using assms by (simp add: extractBoolFlag_def form_detach_def)
qed

text \<open>What the client's flag handling makes of the words.\<close>

lemma form_options:
  assumes "plain_form f" "plain_word dst" "parse_int64 (trim_space (field f mfTimeout)) = Some m" "m > 0"
  shows "migrate_options (tl (migrate_args f dst)) = Inr (word_of_int (m * 60), fm_detach f,
      ''migrate'' # ''--to-agent'' # dst # form_names f @ form_url f @ form_toggles f)"
proof -
  note n = names_flags [OF assms(1)]
  let ?a = "''migrate'' # ''--to-agent'' # dst # form_names f @ form_url f"
  let ?b = "form_toggles f @ form_detach f"
  have "extractFlag (?a @ ''--timeout'' # field f mfTimeout # ?b) ''--timeout'' = (field f mfTimeout, ?a @ ?b, True)"
    by (rule extractFlag_middle) (use n assms(2) in auto)
  moreover have "extractBoolFlag ((?a @ form_toggles f) @ form_detach f) ''--detach'' = (?a @ form_toggles f, fm_detach f)"
    by (rule extractBoolFlag_last) (use n assms(2) in auto)
  ultimately show ?thesis
    using assms(3,4) by (simp add: migrate_args_eq migrate_options_def)
qed

lemma form_agents:
  assumes "plain_form f" "plain_word dst"
  shows "extractFlag (''migrate'' # ''--to-agent'' # dst # form_names f @ form_url f @ form_toggles f) ''--to-agent''
      = (dst, ''migrate'' # form_names f @ form_url f @ form_toggles f, True)"
  using extractFlag_middle [of "''--to-agent''" "[''migrate'']" "form_names f @ form_url f @ form_toggles f" dst] names_flags [OF assms(1)]
  by auto

lemma form_remote_url:
  assumes "plain_form f"
  shows "\<exists>found. extractFlag (''migrate'' # form_names f @ form_url f @ form_toggles f) ''--remote-url''
      = (field f 4, ''migrate'' # form_names f @ form_toggles f, found)"
proof (cases "field f 4 = []")
  case True
  then show ?thesis using extractFlag_absent [of "''--remote-url''" "''migrate'' # form_names f @ form_toggles f"] names_flags [OF assms]
    by (auto simp: form_url_def)
next
  case False
  then show ?thesis
    using extractFlag_middle [of "''--remote-url''" "''migrate'' # form_names f" "form_toggles f" "field f 4"] names_flags [OF assms]
    by (auto simp: form_url_def)
qed

text \<open>What the program on the agent parses.\<close>

definition flag_name :: "string \<Rightarrow> bool" where
  "flag_name n \<longleftrightarrow> n \<noteq> [] \<and> hd n \<noteq> CHR ''-'' \<and> CHR ''='' \<notin> set n"

lemma parse_str_flag:
  assumes "flag_name n" "map_of spec n = Some False"
  shows "parse_flags spec ((CHR ''-'' # CHR ''-'' # n) # v # rest) fl = parse_flags spec rest ((n, StrFlag v) # fl)"
proof -
  have "cut (CHR ''='') n = None" using assms(1) index_of_None [of "CHR ''=''" n] by (simp add: cut_def flag_name_def)
  moreover have "hd n \<noteq> CHR ''=''" using assms(1) by (cases n) (auto simp: flag_name_def)
  ultimately show ?thesis using assms by (subst parse_flags.simps(2)) (simp add: flag_name_def del: parse_flags.simps)
qed

lemma parse_bool_flag:
  assumes "flag_name n" "map_of spec n = Some True"
  shows "parse_flags spec ((CHR ''-'' # CHR ''-'' # n) # rest) fl = parse_flags spec rest ((n, BoolFlag True) # fl)"
proof -
  have "cut (CHR ''='') n = None" using assms(1) index_of_None [of "CHR ''=''" n] by (simp add: cut_def flag_name_def)
  moreover have "hd n \<noteq> CHR ''=''" using assms(1) by (cases n) (auto simp: flag_name_def)
  ultimately show ?thesis using assms by (subst parse_flags.simps(2)) (simp add: flag_name_def del: parse_flags.simps)
qed

lemma migrate_flags_spec:
  "map_of migrate_flags ''local-project'' = Some False" "map_of migrate_flags ''local-service'' = Some False"
  "map_of migrate_flags ''remote-project'' = Some False" "map_of migrate_flags ''remote-service'' = Some False"
  "map_of migrate_flags ''remote-url'' = Some False" "map_of migrate_flags ''remote-token'' = Some False"
  "map_of migrate_flags ''create-remote-project'' = Some True" "map_of migrate_flags ''overwrite-remote-service'' = Some True"
  by (simp_all add: migrate_flags_def remote_flags_def)

lemma flag_names:
  "flag_name ''local-project''" "flag_name ''local-service''" "flag_name ''remote-project''" "flag_name ''remote-service''"
  "flag_name ''remote-url''" "flag_name ''remote-token''" "flag_name ''create-remote-project''" "flag_name ''overwrite-remote-service''"
  by (simp_all add: flag_name_def)

lemmas parse_one =
  parse_str_flag [OF flag_names(1) migrate_flags_spec(1)] parse_str_flag [OF flag_names(2) migrate_flags_spec(2)]
  parse_str_flag [OF flag_names(3) migrate_flags_spec(3)] parse_str_flag [OF flag_names(4) migrate_flags_spec(4)]
  parse_str_flag [OF flag_names(5) migrate_flags_spec(5)] parse_str_flag [OF flag_names(6) migrate_flags_spec(6)]
  parse_bool_flag [OF flag_names(7) migrate_flags_spec(7)] parse_bool_flag [OF flag_names(8) migrate_flags_spec(8)]

lemma parse_form_flags:
  "\<exists>fl. parse_flags migrate_flags (form_names f @ form_toggles f @ [''--remote-url'', url, ''--remote-token'', tok]) [] = Inr fl
    \<and> str_flag fl ''remote-token'' = tok \<and> str_flag fl ''remote-container'' = []
    \<and> migrate_input fl t = \<lparr>mi_local_project = field f 0, mi_local_service = field f 1, mi_token = t, mi_url = url,
        mi_remote_project = field f 2, mi_remote_service = field f 3\<rparr>
    \<and> migrate_opts fl = \<lparr>po_create = fm_create f, po_overwrite = fm_overwrite f\<rparr>"
proof -
  let ?names = "[(''remote-service'', StrFlag (field f 3)), (''remote-project'', StrFlag (field f 2)),
      (''local-service'', StrFlag (field f 1)), (''local-project'', StrFlag (field f 0))]"
  let ?fl = "(''remote-token'', StrFlag tok) # (''remote-url'', StrFlag url)
      # (if fm_overwrite f then [(''overwrite-remote-service'', BoolFlag True)] else [])
      @ (if fm_create f then [(''create-remote-project'', BoolFlag True)] else []) @ ?names"
  have "parse_flags migrate_flags (form_names f @ form_toggles f @ [''--remote-url'', url, ''--remote-token'', tok]) []
      = parse_flags migrate_flags (form_toggles f @ [''--remote-url'', url, ''--remote-token'', tok]) ?names"
    by (simp only: form_names_def append_Cons append_Nil parse_one)
  also have "\<dots> = Inr ?fl"
    by (cases "fm_create f"; cases "fm_overwrite f")
      (simp_all only: form_toggles_def if_True if_False append_Cons append_Nil parse_one parse_flags.simps(1))
  finally have p: "parse_flags migrate_flags (form_names f @ form_toggles f @ [''--remote-url'', url, ''--remote-token'', tok]) [] = Inr ?fl" .
  show ?thesis
    by (rule exI [of _ ?fl], rule conjI [OF p]) (simp add: migrate_input_def migrate_opts_def str_flag_def bool_flag_def)
qed

section \<open>From the form to the flags\<close>


section \<open>Witness\<close>


end
