(* ===== verification/NativeSsh.thy ===== *)
theory NativeSsh
  imports Dashboard Paths
begin

text \<open>
  The client's interactive SSH (\<open>src/internal/clientcli/ssh.go\<close>): a key pair in a temporary
  directory, a session prepared through the validator and awaited, the agent's host key pinned, and the
  command line of \<open>ssh\<close>; with what is left behind on every path.
\<close>

section \<open>What it uses\<close>

text \<open>
  The answers of what it calls, in its order: the key pair as its private PEM and its public line, the
  temporary directory, the private key's marshalling, the writes (the public key's may fail unnoticed),
  the session prepared, and before each status request whether the context has ended.
\<close>

datatype ssh_value = SessionValue SshSession | OtherAnswer

record ssh_io =
  si_keys :: "(bytes \<times> bytes) result"
  si_dir :: "string result"
  si_marshal :: "unit result"
  si_write_key :: "unit result"
  si_write_pub :: "unit result"
  si_prepare :: "ssh_value result"
  si_polls :: "(error option \<times> ssh_value result) list"
  si_write_known :: "unit result"
  si_exe :: "string result"

text \<open>The files in the directory, while it is there, and the calls made of the validator.\<close>

record launch_state =
  la_files :: "(string \<times> bytes) list option"
  la_calls :: "string list list"

record SSHLaunch =
  sl_args :: "string list"
  sl_session :: string

definition cleanup :: "launch_state \<Rightarrow> launch_state" where
  "cleanup s = s\<lparr>la_files := None\<rparr>"

definition close_cleanup :: "string \<Rightarrow> launch_state \<Rightarrow> launch_state" where
  "close_cleanup ident s = cleanup (s\<lparr>la_calls := la_calls s @ [[''close'', ident]]\<rparr>)"

definition put_file :: "string \<Rightarrow> bytes \<Rightarrow> launch_state \<Rightarrow> launch_state" where
  "put_file path data s = s\<lparr>la_files := map_option (\<lambda>fs. fs @ [(path, data)]) (la_files s)\<rparr>"

definition called :: "string list \<Rightarrow> launch_state \<Rightarrow> launch_state" where
  "called args s = s\<lparr>la_calls := la_calls s @ [args]\<rparr>"

text \<open>\<open>%q\<close> of printable ASCII text.\<close>

definition go_quote :: "string \<Rightarrow> string" where
  "go_quote t = [CHR 0x22] @ concat (map (\<lambda>c. if c = CHR 0x22 \<or> c = CHR 0x5C then [CHR 0x5C, c] else [c]) t) @ [CHR 0x22]"

section \<open>Waiting for the session\<close>

fun await_ready :: "SshSession \<Rightarrow> (error option \<times> ssh_value result) list \<Rightarrow> launch_state \<Rightarrow> (launch_state \<times> SshSession result) option" where
  "await_ready session [] s = (if ss_state session \<noteq> SSH_PREPARING then Some (s, Inr session) else None)"
| "await_ready session ((ended, ans) # polls) s =
    (if ss_state session \<noteq> SSH_PREPARING then Some (s, Inr session)
     else case ended of
       Some err \<Rightarrow> Some (s, Inl err)
     | None \<Rightarrow> (let s1 = called [''status'', ss_id session] s in
         case ans of
           Inl err \<Rightarrow> Some (s1, Inl err)
         | Inr OtherAnswer \<Rightarrow> Some (s1, Inl (Error ''invalid SSH session''))
         | Inr (SessionValue session') \<Rightarrow> await_ready session' polls s1))"

section \<open>Preparing\<close>

definition launch_args :: "string \<Rightarrow> string \<Rightarrow> string \<Rightarrow> string list" where
  "launch_args dir exe ident = [''-i'', filepath_Join [dir, ''id_ed25519''], ''-o'', ''IdentitiesOnly=yes'',
     ''-o'', ''UserKnownHostsFile='' @ filepath_Join [dir, ''known_hosts''], ''-o'', ''StrictHostKeyChecking=yes'',
     ''-o'', ''PasswordAuthentication=no'', ''-o'', ''KbdInteractiveAuthentication=no'', ''-o'', ''ForwardAgent=no'',
     ''-o'', ''ForwardX11=no'', ''-o'', ''ProxyCommand='' @ go_quote exe @ '' ssh-pipe '' @ ident, ''silent-devops@'' @ ident]"

text \<open>From the ready session to the command line.\<close>

definition finish_launch :: "ssh_io \<Rightarrow> string \<Rightarrow> launch_state \<Rightarrow> SshSession \<Rightarrow> launch_state \<times> SSHLaunch result" where
  "finish_launch io dir s session =
    (if ss_state session \<noteq> SSH_READY \<or> ss_host_key session = [] then (cleanup s, Inl (Error ''SSH session not ready''))
     else case si_write_known io of
       Inl err \<Rightarrow> (close_cleanup (ss_id session) s, Inl err)
     | Inr _ \<Rightarrow> (let s1 = put_file (filepath_Join [dir, ''known_hosts'']) (ss_id session @ '' '' @ ss_host_key session @ [CHR 0x0A]) s in
         case si_exe io of
           Inl err \<Rightarrow> (close_cleanup (ss_id session) s1, Inl err)
         | Inr exe \<Rightarrow> (s1, Inr \<lparr>sl_args = launch_args dir exe (ss_id session), sl_session = ss_id session\<rparr>)))"

text \<open>No result stands for a session that is still being waited for.\<close>

definition PrepareNativeSSH :: "ssh_io \<Rightarrow> string \<Rightarrow> (launch_state \<times> SSHLaunch result) option" where
  "PrepareNativeSSH io agentID =
    (let s0 = \<lparr>la_files = None, la_calls = []\<rparr> in
     case si_keys io of Inl err \<Rightarrow> Some (s0, Inl err)
     | Inr (priv, public) \<Rightarrow> (case si_dir io of Inl err \<Rightarrow> Some (s0, Inl err)
     | Inr dir \<Rightarrow> (let s1 = s0\<lparr>la_files := Some []\<rparr> in
       case si_marshal io of Inl err \<Rightarrow> Some (cleanup s1, Inl err)
     | Inr _ \<Rightarrow> (case si_write_key io of Inl err \<Rightarrow> Some (cleanup s1, Inl err)
     | Inr _ \<Rightarrow> (let s2 = put_file (filepath_Join [dir, ''id_ed25519'']) priv s1;
                   pub = filepath_Join [dir, ''id_ed25519.pub''];
                   s3 = called [agentID, pub] (if ok (si_write_pub io) then put_file pub public s2 else s2) in
       case si_prepare io of
         Inl err \<Rightarrow> Some (cleanup s3, Inl err)
       | Inr OtherAnswer \<Rightarrow> Some (cleanup s3, Inl (Error ''invalid SSH session''))
       | Inr (SessionValue session) \<Rightarrow>
          if ss_id session = [] then Some (cleanup s3, Inl (Error ''invalid SSH session''))
          else (case await_ready session (si_polls io) s3 of
             None \<Rightarrow> None
           | Some (s4, Inl err) \<Rightarrow> Some (cleanup s4, Inl err)
           | Some (s4, Inr ready) \<Rightarrow> Some (finish_launch io dir s4 ready)))))))"

text \<open>What the launch's cleanup does when the interactive session is over.\<close>

definition Cleanup_launch :: "SSHLaunch \<Rightarrow> launch_state \<Rightarrow> launch_state" where
  "Cleanup_launch l s = close_cleanup (sl_session l) s"

section \<open>What is left behind\<close>

lemma await_ready_result:
  "await_ready session polls s = Some (s', Inr ready) \<Longrightarrow> la_files s' = la_files s \<and> ss_state ready \<noteq> SSH_PREPARING"
  by (induction session polls s rule: await_ready.induct)
    (auto simp: Let_def called_def split: if_splits option.splits sum.splits ssh_value.splits)

lemma finish_launch_Inl: "finish_launch io dir s session = (s', Inl err) \<Longrightarrow> la_files s' = None"
  by (auto simp: finish_launch_def cleanup_def close_cleanup_def Let_def split: if_splits sum.splits)

lemma finish_launch_Inr:
  assumes "finish_launch io dir s session = (s', Inr l)" "la_files s = Some fs"
  shows "\<exists>exe. ss_state session = SSH_READY \<and> ss_host_key session \<noteq> [] \<and> sl_session l = ss_id session
    \<and> sl_args l = launch_args dir exe (ss_id session)
    \<and> la_files s' = Some (fs @ [(filepath_Join [dir, ''known_hosts''], ss_id session @ '' '' @ ss_host_key session @ [CHR 0x0A])])"
  using assms by (auto simp: finish_launch_def put_file_def Let_def split: if_splits sum.splits)


text \<open>An error while the session is still being prepared ends the preparation without a close: the
  session stays open at the validator until it expires.\<close>

theorem failed_wait_leaves_session:
  assumes "si_keys io = Inr kp" "si_dir io = Inr dir" "si_marshal io = Inr ()" "si_write_key io = Inr ()"
    and "si_prepare io = Inr (SessionValue session)" "ss_id session \<noteq> []" "ss_state session = SSH_PREPARING"
    and "si_polls io = (None, Inl err) # polls"
  shows "\<exists>s. PrepareNativeSSH io agentID = Some (s, Inl err) \<and> [''close'', ss_id session] \<notin> set (tl (la_calls s))"
  using assms by (cases kp) (simp add: PrepareNativeSSH_def Let_def cleanup_def called_def put_file_def)

section \<open>Witnesses\<close>

definition demo_session :: "int \<Rightarrow> SshSession" where
  "demo_session st = \<lparr>ss_id = ''s1'', ss_agent = ''a'', ss_state = st, ss_port = 0, ss_expires = 0, ss_host_key = ''ssh-ed25519 K''\<rparr>"

definition demo_ssh_io :: ssh_io where
  "demo_ssh_io = \<lparr>si_keys = Inr (''PRIV'', ''PUB''), si_dir = Inr ''/tmp/x'', si_marshal = Inr (), si_write_key = Inr (), si_write_pub = Inr (),
     si_prepare = Inr (SessionValue (demo_session 1)), si_polls = [(None, Inr (SessionValue (demo_session 2)))],
     si_write_known = Inr (), si_exe = Inr ''/bin/client''\<rparr>"


theorem failed_wait_leaves_session_witness:
  "\<exists>s. PrepareNativeSSH (demo_ssh_io\<lparr>si_polls := [(None, Inl (Status Unavailable ''x''))]\<rparr>) ''a'' = Some (s, Inl (Status Unavailable ''x''))
    \<and> [''close'', ''s1''] \<notin> set (tl (la_calls s))"
  using failed_wait_leaves_session [of "demo_ssh_io\<lparr>si_polls := [(None, Inl (Status Unavailable ''x''))]\<rparr>" "(''PRIV'', ''PUB'')" "''/tmp/x''" "demo_session 1"
    "Status Unavailable ''x''" "[]" "''a''"]
  by (simp add: demo_ssh_io_def demo_session_def SSH_PREPARING_def)

end
