(* ===== verification/CertFiles.thy ===== *)
theory CertFiles
  imports Identity AtomicFile Paths
begin

text \<open>
  Keys and certificates on disk: the agents' certificate authority of \<open>src/internal/pki/pki.go\<close>
  (\<open>CreateCA\<close>, \<open>LoadCA\<close>) and an agent's credentials of
  \<open>src/internal/pki/credentials.go\<close> (\<open>SaveAgentCredentials\<close>,
  \<open>LoadAgentCredentials\<close>). PEM, PKCS#8 and X.509 are parameters.
\<close>

section \<open>Files\<close>

text \<open>
  \<open>os.WriteFile\<close>: an existing file keeps its mode; a file that cannot be opened stays as it is,
  and one whose write fails has been truncated and holds what was written so far.
\<close>

datatype write_fault = OpenFails error | WriteFails bytes error

definition write_file :: "write_fault option \<Rightarrow> file_system \<Rightarrow> string \<Rightarrow> bytes \<Rightarrow> nat \<Rightarrow> file_system \<times> unit result" where
  "write_file fault fs path data mode =
    (let mode' = (case fs path of None \<Rightarrow> mode | Some (old, m) \<Rightarrow> m) in
     case fault of
       None \<Rightarrow> (fs(path \<mapsto> (data, mode')), Inr ())
     | Some (OpenFails err) \<Rightarrow> (fs, Inl err)
     | Some (WriteFails part err) \<Rightarrow> (fs(path \<mapsto> (part, mode')), Inl err))"

definition read_file :: "(string \<Rightarrow> error option) \<Rightarrow> file_system \<Rightarrow> string \<Rightarrow> bytes result" where
  "read_file faults fs path = (case faults path of Some err \<Rightarrow> Inl err
     | None \<Rightarrow> (case fs path of None \<Rightarrow> Inl (External ''no such file or directory'') | Some (data, m) \<Rightarrow> Inr data))"

text \<open>The mode of a file; \<open>mode AND 0077\<close> is what others than the owner may do.\<close>

definition stat_mode :: "error option \<Rightarrow> file_system \<Rightarrow> string \<Rightarrow> nat result" where
  "stat_mode fault fs path = (case fault of Some err \<Rightarrow> Inl err
     | None \<Rightarrow> (case fs path of None \<Rightarrow> Inl (External ''no such file or directory'') | Some (data, m) \<Rightarrow> Inr m))"

fun oct_of_nat :: "nat \<Rightarrow> string" where
  "oct_of_nat n = (if n < 8 then [char_of (48 + n)] else oct_of_nat (n div 8) @ [char_of (48 + n mod 8)])"

declare oct_of_nat.simps [simp del]

definition too_broad :: "nat \<Rightarrow> bool" where
  "too_broad mode \<longleftrightarrow> mode mod 64 \<noteq> 0"

section \<open>PEM, keys and certificates\<close>

record pem_block =
  pb_type :: string
  pb_headers :: "(string \<times> string) list"
  pb_bytes :: bytes

datatype private_key = Ed25519 bytes | OtherKey bytes

record x509_cert =
  xc_common_name :: string
  xc_der :: bytes

record ca_template =
  tm_serial :: "string option"
  tm_common_name :: string
  tm_not_before :: time
  tm_not_after :: time

text \<open>
  \<open>cb_verify\<close> is the verification of a certificate for client authentication against the roots
  of a PEM text, and \<open>cb_pool\<close> whether that text holds a root at all. \<open>cb_certify\<close> signs
  itself a template whose constant fields (an authority, the two signing uses) the record leaves out.
\<close>

record cert_lib =
  cb_pem :: "pem_block \<Rightarrow> bytes"
  cb_unpem :: "bytes \<Rightarrow> (pem_block \<times> bytes) option"
  cb_encrypt :: "bytes \<Rightarrow> bytes \<Rightarrow> pem_block result"
  cb_decrypt :: "pem_block \<Rightarrow> bytes \<Rightarrow> bytes result"
  cb_marshal :: "bytes \<Rightarrow> bytes result"
  cb_parse_key :: "bytes \<Rightarrow> private_key result"
  cb_certify :: "ca_template \<Rightarrow> bytes \<Rightarrow> bytes \<Rightarrow> bytes result"
  cb_parse_cert :: "bytes \<Rightarrow> x509_cert result"
  cb_pool :: "bytes \<Rightarrow> bool"
  cb_verify :: "bytes \<Rightarrow> x509_cert \<Rightarrow> unit result"

definition cert_block :: "bytes \<Rightarrow> pem_block" where
  "cert_block der = \<lparr>pb_type = ''CERTIFICATE'', pb_headers = [], pb_bytes = der\<rparr>"

definition key_block :: "bytes \<Rightarrow> pem_block" where
  "key_block der = \<lparr>pb_type = ''PRIVATE KEY'', pb_headers = [], pb_bytes = der\<rparr>"

text \<open>What the libraries document: a written block is read back with what follows it, a marshalled
  key is parsed to itself, an encrypted block has the type asked for and opens with its passphrase.\<close>

definition readable :: "cert_lib \<Rightarrow> pem_block \<Rightarrow> bool" where
  "readable l b \<longleftrightarrow> (\<forall>rest. cb_unpem l (cb_pem l b @ rest) = Some (b, rest))"

definition pem_reads :: "cert_lib \<Rightarrow> bool" where
  "pem_reads l \<longleftrightarrow> (\<forall>der. readable l (cert_block der) \<and> readable l (key_block der))"

definition keys_read :: "cert_lib \<Rightarrow> bool" where
  "keys_read l \<longleftrightarrow> (\<forall>key der. cb_marshal l key = Inr der \<longrightarrow> cb_parse_key l der = Inr (Ed25519 key))"

definition encryption_opens :: "cert_lib \<Rightarrow> bool" where
  "encryption_opens l \<longleftrightarrow> (\<forall>data pass b. cb_encrypt l data pass = Inr b \<longrightarrow>
     readable l b \<and> pb_type b = ''ENCRYPTED PRIVATE KEY'' \<and> cb_decrypt l b pass = Inr data)"

lemma readable_end: "readable l b \<Longrightarrow> cb_unpem l (cb_pem l b) = Some (b, [])"
  unfolding readable_def by (drule spec [of _ "[]"]) simp

section \<open>The authority\<close>

text \<open>The certificate is missing when the library cannot parse what it has just created.\<close>

record CA =
  ca_cert :: "x509_cert option"
  ca_key :: bytes
  ca_pem :: bytes

text \<open>The answers of a creation: the key pair, public part first, the serial number unless entropy failed,
  \<open>AddDate(10, 0, 0)\<close> in the local time zone, and the write.\<close>

record ca_io =
  co_keys :: "(bytes \<times> bytes) result"
  co_serial :: "string option"
  co_ten_years :: "time \<Rightarrow> time"
  co_write :: "write_fault option"

definition ca_name :: string where
  "ca_name = ''Silent DevOps Agent CA''"

definition CreateCA :: "cert_lib \<Rightarrow> ca_io \<Rightarrow> file_system \<Rightarrow> string \<Rightarrow> bytes \<Rightarrow> time \<Rightarrow> file_system \<times> CA result" where
  "CreateCA l io fs path passphrase now =
    (if List.length passphrase < 16 then (fs, Inl (Error ''CA passphrase must be at least 16 bytes''))
     else case co_keys io of Inl err \<Rightarrow> (fs, Inl err)
     | Inr (pub, key) \<Rightarrow> (case cb_certify l \<lparr>tm_serial = co_serial io, tm_common_name = ca_name,
           tm_not_before = now - minute, tm_not_after = co_ten_years io now\<rparr> pub key of Inl err \<Rightarrow> (fs, Inl err)
     | Inr der \<Rightarrow> (case cb_marshal l key of Inl err \<Rightarrow> (fs, Inl err)
     | Inr keyDER \<Rightarrow> (case cb_encrypt l keyDER passphrase of Inl err \<Rightarrow> (fs, Inl err)
     | Inr encrypted \<Rightarrow>
        (case write_file (co_write io) fs path (cb_pem l (cert_block der) @ cb_pem l encrypted) 384 of
           (fs', Inl err) \<Rightarrow> (fs', Inl err)
         | (fs', Inr _) \<Rightarrow> (fs', Inr \<lparr>ca_cert = (case cb_parse_cert l der of Inl err \<Rightarrow> None | Inr c \<Rightarrow> Some c),
              ca_key = key, ca_pem = cb_pem l (cert_block der)\<rparr>))))))"

definition LoadCA :: "cert_lib \<Rightarrow> error option \<Rightarrow> (string \<Rightarrow> error option) \<Rightarrow> file_system \<Rightarrow> string \<Rightarrow> bytes \<Rightarrow> CA result" where
  "LoadCA l stat reads fs path passphrase = (case stat_mode stat fs path of Inl err \<Rightarrow> Inl err
     | Inr mode \<Rightarrow>
      (if too_broad mode then Inl (Errorf ''CA key permissions %o: require 0600 or stricter'' [oct_of_nat mode] None)
       else case read_file reads fs path of Inl err \<Rightarrow> Inl err
       | Inr data \<Rightarrow> (case cb_unpem l data of None \<Rightarrow> Inl (Error ''invalid encrypted CA file'')
       | Some (certBlock, rest) \<Rightarrow> (case cb_unpem l rest of None \<Rightarrow> Inl (Error ''invalid encrypted CA file'')
       | Some (keyBlock, end) \<Rightarrow>
         (if pb_type keyBlock \<noteq> ''ENCRYPTED PRIVATE KEY'' then Inl (Error ''invalid encrypted CA file'')
          else case cb_parse_cert l (pb_bytes certBlock) of Inl err \<Rightarrow> Inl err
          | Inr cert \<Rightarrow> (case cb_decrypt l keyBlock passphrase of Inl err \<Rightarrow> Inl err
          | Inr keyDER \<Rightarrow> (case cb_parse_key l keyDER of Inl err \<Rightarrow> Inl err
          | Inr (OtherKey k) \<Rightarrow> Inl (Error ''unsupported CA key'')
          | Inr (Ed25519 key) \<Rightarrow> Inr \<lparr>ca_cert = Some cert, ca_key = key, ca_pem = cb_pem l certBlock\<rparr>)))))))"

lemma ca_effect:
  assumes "pem_reads l" "keys_read l" "encryption_opens l"
    and "CreateCA l io fs path passphrase now = (fs', res)"
  shows "(\<forall>p. p \<noteq> path \<longrightarrow> fs' p = fs p)
    \<and> (\<forall>ca cert. res = Inr ca \<longrightarrow> ca_cert ca = Some cert \<longrightarrow>
        LoadCA l None (\<lambda>_. None) fs' path passphrase =
          (case fs path of
             Some (old, mode) \<Rightarrow> if too_broad mode then Inl (Errorf ''CA key permissions %o: require 0600 or stricter'' [oct_of_nat mode] None) else Inr ca
           | None \<Rightarrow> Inr ca))"
proof
  show "\<forall>p. p \<noteq> path \<longrightarrow> fs' p = fs p"
    using assms(4) by (auto simp: CreateCA_def write_file_def Let_def split: if_splits sum.splits option.splits write_fault.splits)
  show "\<forall>ca cert. res = Inr ca \<longrightarrow> ca_cert ca = Some cert \<longrightarrow>
        LoadCA l None (\<lambda>_. None) fs' path passphrase =
          (case fs path of
             Some (old, mode) \<Rightarrow> if too_broad mode then Inl (Errorf ''CA key permissions %o: require 0600 or stricter'' [oct_of_nat mode] None) else Inr ca
           | None \<Rightarrow> Inr ca)"
  proof (intro allI impI)
    fix ca cert assume r: "res = Inr ca" "ca_cert ca = Some cert"
    then obtain pub key der keyDER enc where e: "co_keys io = Inr (pub, key)" "cb_marshal l key = Inr keyDER"
        "cb_encrypt l keyDER passphrase = Inr enc" "cb_parse_cert l der = Inr cert"
        "ca = \<lparr>ca_cert = Some cert, ca_key = key, ca_pem = cb_pem l (cert_block der)\<rparr>"
        "write_file None fs path (cb_pem l (cert_block der) @ cb_pem l enc) 384 = (fs', Inr ())"
      using assms(4) by (auto simp: CreateCA_def write_file_def Let_def split: if_splits sum.splits option.splits write_fault.splits)
    have k: "cb_parse_key l keyDER = Inr (Ed25519 key)" using assms(2) e(2) by (simp add: keys_read_def)
    have n: "readable l enc" "pb_type enc = ''ENCRYPTED PRIVATE KEY''" "cb_decrypt l enc passphrase = Inr keyDER"
      using assms(3) e(3) by (auto simp: encryption_opens_def)
    have p: "cb_unpem l (cb_pem l (cert_block der) @ cb_pem l enc) = Some (cert_block der, cb_pem l enc)"
        "cb_unpem l (cb_pem l enc) = Some (enc, [])"
      using assms(1) readable_end [OF n(1)] by (simp_all add: pem_reads_def readable_def)
    show "LoadCA l None (\<lambda>_. None) fs' path passphrase =
          (case fs path of
             Some (old, mode) \<Rightarrow> if too_broad mode then Inl (Errorf ''CA key permissions %o: require 0600 or stricter'' [oct_of_nat mode] None) else Inr ca
           | None \<Rightarrow> Inr ca)"
      using e(6) k n p e(4,5)
      by (auto simp: LoadCA_def stat_mode_def read_file_def write_file_def too_broad_def cert_block_def Let_def split: option.splits)
  qed
qed

text \<open>A created authority is loaded again as it was made, with the passphrase it was made with, when its
  certificate parses. Only its file has changed; a failed creation leaves every other file, and this one
  too unless its write began. A file that others can read is refused, which is what becomes of a file that
  was there before with such a mode.\<close>

theorem ca_round_trip:
  assumes "pem_reads l" "keys_read l" "encryption_opens l"
    and "CreateCA l io fs path passphrase now = (fs', res)"
  shows "(\<forall>p. p \<noteq> path \<longrightarrow> fs' p = fs p)
    \<and> (\<forall>ca cert. res = Inr ca \<longrightarrow> ca_cert ca = Some cert \<longrightarrow>
        LoadCA l None (\<lambda>_. None) fs' path passphrase =
          (case fs path of
             Some (old, mode) \<Rightarrow> if too_broad mode then Inl (Errorf ''CA key permissions %o: require 0600 or stricter'' [oct_of_nat mode] None) else Inr ca
           | None \<Rightarrow> Inr ca))"
  by (rule ca_effect [OF assms])

lemma LoadCA_cong: "fs path = fs2 path \<Longrightarrow> LoadCA l stat reads fs path pass = LoadCA l stat reads fs2 path pass"
  by (simp only: LoadCA_def stat_mode_def read_file_def)

section \<open>An agent's credentials\<close>

record AgentCredentials =
  cr_agent :: string
  cr_key :: bytes
  cr_cert :: bytes
  cr_ca :: bytes

definition credential_files :: "cert_lib \<Rightarrow> bytes \<Rightarrow> AgentCredentials \<Rightarrow> string \<Rightarrow> bytes option" where
  "credential_files l keyDER cr = [''agent.key'' \<mapsto> cb_pem l (key_block keyDER), ''agent.crt'' \<mapsto> cr_cert cr,
     ''validator-ca.crt'' \<mapsto> cr_ca cr, ''agent-id'' \<mapsto> cr_agent cr @ [CHR 0x0A]]"

definition credential_names :: "string list" where
  "credential_names = [''agent.key'', ''agent.crt'', ''validator-ca.crt'', ''agent-id'']"

text \<open>Go visits a map in any order: \<open>names\<close> is the order of this run.\<close>

fun save_files :: "(string \<Rightarrow> write_faults) \<Rightarrow> string \<Rightarrow> (string \<Rightarrow> bytes option) \<Rightarrow> string list \<Rightarrow> file_system \<Rightarrow> file_system \<times> unit result" where
  "save_files faults dir files [] fs = (fs, Inr ())"
| "save_files faults dir files (n # ns) fs =
    (case atomicWrite (faults n) 384 fs (filepath_Join [dir, n]) (case files n of None \<Rightarrow> [] | Some data \<Rightarrow> data) of
       (states, Inl err) \<Rightarrow> (hd states, Inl err)
     | (states, Inr _) \<Rightarrow> save_files faults dir files ns (hd states))"

definition SaveAgentCredentials :: "cert_lib \<Rightarrow> unit result \<Rightarrow> (string \<Rightarrow> write_faults) \<Rightarrow> string list \<Rightarrow> string \<Rightarrow> AgentCredentials
    \<Rightarrow> file_system \<Rightarrow> file_system \<times> unit result" where
  "SaveAgentCredentials l mkdir faults names dir cr fs =
    (if cr_agent cr = [] \<or> List.length (cr_key cr) \<noteq> 64 \<or> cr_cert cr = [] \<or> cr_ca cr = []
     then (fs, Inl (Error ''incomplete agent credentials''))
     else case mkdir of Inl err \<Rightarrow> (fs, Inl err)
     | Inr _ \<Rightarrow> (case cb_marshal l (cr_key cr) of Inl err \<Rightarrow> (fs, Inl err)
     | Inr keyDER \<Rightarrow> save_files faults dir (credential_files l keyDER cr) names fs))"

definition strip_newline :: "string \<Rightarrow> string" where
  "strip_newline s = (if s \<noteq> [] \<and> last s = CHR 0x0A then butlast s else s)"

definition LoadAgentCredentials :: "cert_lib \<Rightarrow> (string \<Rightarrow> error option) \<Rightarrow> file_system \<Rightarrow> string \<Rightarrow> AgentCredentials result" where
  "LoadAgentCredentials l reads fs dir =
    (case read_file reads fs (filepath_Join [dir, ''agent-id'']) of Inl err \<Rightarrow> Inl err
     | Inr ident \<Rightarrow> (case read_file reads fs (filepath_Join [dir, ''agent.key'']) of Inl err \<Rightarrow> Inl err
     | Inr keyPEM \<Rightarrow> (case cb_unpem l keyPEM of None \<Rightarrow> Inl (Error ''invalid private key'')
     | Some (block, rest) \<Rightarrow> (case cb_parse_key l (pb_bytes block) of Inl err \<Rightarrow> Inl err
     | Inr (OtherKey k) \<Rightarrow> Inl (Error ''unsupported private key'')
     | Inr (Ed25519 key) \<Rightarrow> (case read_file reads fs (filepath_Join [dir, ''agent.crt'']) of Inl err \<Rightarrow> Inl err
     | Inr cert \<Rightarrow> (case read_file reads fs (filepath_Join [dir, ''validator-ca.crt'']) of Inl err \<Rightarrow> Inl err
     | Inr ca \<Rightarrow> Inr \<lparr>cr_agent = strip_newline ident, cr_key = key, cr_cert = cert, cr_ca = ca\<rparr>))))))"

text \<open>The files of one directory have paths of their own.\<close>

lemma clean_parts_snoc: "plain_part n \<Longrightarrow> clean_parts root acc (ps @ [n]) = clean_parts root acc ps @ [n]"
proof (induction root acc ps rule: clean_parts.induct)
  case (2 root acc p ps)
  then show ?case by (auto split: list.split)
qed (simp add: plain_part_def)

lemma split_snoc: "split c (xs @ c # ys) = split c xs @ split c ys"
proof (induction xs)
  case (Cons x xs)
  then show ?case by (cases "split c xs") auto
qed simp

lemma join_snoc: "join sep (ps @ [n]) = (if ps = [] then n else join sep ps @ sep @ n)"
  by (induction sep ps rule: join.induct) auto

lemma Join_name:
  assumes "plain_part n"
  shows "\<exists>pre. \<forall>n. plain_part n \<longrightarrow> filepath_Join [dir, n] = pre @ n"
proof (cases "dir = []")
  case True
  have "filepath_Join [dir, n] = [] @ n" if "plain_part n" for n
  proof -
    have "\<not> rooted n" using that by (auto simp: rooted_def has_prefix_iff plain_part_def slash_def)
    then show ?thesis
      using True that by (simp add: filepath_Join_def filepath_Clean_def path_parts_def plain_part_def split_no_sep path_text_def)
  qed
  then show ?thesis by blast
next
  case False
  let ?root = "rooted dir" and ?ps = "clean_parts (rooted dir) [] (split slash dir)"
  have "filepath_Join [dir, n] = ((if ?root then [slash] else []) @ (if ?ps = [] then [] else join ''/'' ?ps @ [slash])) @ n"
    if n: "plain_part n" for n
  proof -
    have "filepath_Join [dir, n] = filepath_Clean (dir @ slash # n)"
      using False by (simp add: filepath_Join_def slash_def)
    moreover have "rooted (dir @ slash # n) = ?root" using False by (cases dir) (auto simp: rooted_def has_prefix_def)
    moreover have "clean_parts ?root [] (split slash (dir @ slash # n)) = ?ps @ [n]"
      using n by (simp add: split_snoc split_no_sep clean_parts_snoc plain_part_def [of n])
    ultimately have "filepath_Join [dir, n] = path_text ?root (?ps @ [n])"
      by (simp only: filepath_Clean_def path_parts_def)
    moreover have "''/'' = [slash]" by (simp add: slash_def)
    ultimately show ?thesis by (simp add: path_text_def join_snoc)
  qed
  then show ?thesis by blast
qed

lemma Join_inject: "plain_part m \<Longrightarrow> plain_part n \<Longrightarrow> filepath_Join [dir, m] = filepath_Join [dir, n] \<longleftrightarrow> m = n"
  using Join_name [of m dir] by auto

text \<open>A saving that stops has written the files up to the one that failed, whatever their order.\<close>

definition file_data :: "(string \<Rightarrow> bytes option) \<Rightarrow> string \<Rightarrow> bytes" where
  "file_data files n = (case files n of None \<Rightarrow> [] | Some data \<Rightarrow> data)"

definition with_files :: "string \<Rightarrow> (string \<Rightarrow> bytes option) \<Rightarrow> string list \<Rightarrow> file_system \<Rightarrow> file_system" where
  "with_files dir files ns fs = (\<lambda>p. case List.find (\<lambda>n. p = filepath_Join [dir, n]) ns of
     Some n \<Rightarrow> Some (file_data files n, 384) | None \<Rightarrow> fs p)"

text \<open>What \<open>CreateTemp\<close> promises of the whole run.\<close>

definition temps_fresh :: "(string \<Rightarrow> write_faults) \<Rightarrow> string \<Rightarrow> string list \<Rightarrow> file_system \<Rightarrow> bool" where
  "temps_fresh faults dir names fs \<longleftrightarrow> (\<forall>n \<in> set names. \<forall>tmp. wf_create (faults n) = Inr tmp \<longrightarrow>
     fs tmp = None \<and> (\<forall>m \<in> set names. tmp \<noteq> filepath_Join [dir, m]))"

lemma with_files_mem:
  "n \<in> set ns \<Longrightarrow> \<forall>m \<in> set ns. plain_part m \<Longrightarrow> with_files dir files ns fs (filepath_Join [dir, n]) = Some (file_data files n, 384)"
  by (subst with_files_def, subst find_unique [of n]) (auto simp: Join_inject)

lemma with_files_other: "\<forall>n \<in> set ns. p \<noteq> filepath_Join [dir, n] \<Longrightarrow> with_files dir files ns fs p = fs p"
  by (auto simp: with_files_def find_None_iff' split: option.split dest!: find_Some_mem)

lemma save_files_prefix:
  assumes "distinct names" "\<forall>n \<in> set names. plain_part n" "temps_fresh faults dir names fs"
    and "save_files faults dir files names fs = (fs', res)"
  shows "\<exists>ns rest. names = ns @ rest \<and> (ok res \<longleftrightarrow> rest = []) \<and> fs' = with_files dir files ns fs"
  using assms
proof (induction names arbitrary: fs)
  case Nil
  then show ?case by (auto simp: with_files_def ok_def)
next
  case (Cons n names)
  obtain states r where w: "atomicWrite (faults n) 384 fs (filepath_Join [dir, n]) (file_data files n) = (states, r)" by force
  have "fresh_temp (faults n) fs (filepath_Join [dir, n])"
    using Cons.prems(3) by (auto simp: temps_fresh_def fresh_temp_def)
  from atomicWrite_result [OF this w]
  have h: "hd states = (if ok r then fs(filepath_Join [dir, n] \<mapsto> (file_data files n, 384)) else fs)"
    by (simp add: written_file_def)
  show ?case
  proof (cases r)
    case (Inl err)
    then have "fs' = fs \<and> res = Inl err" using Cons.prems(4) w h by (simp add: file_data_def)
    then show ?thesis by (intro exI [of _ "[]"] exI [of _ "n # names"]) (simp add: with_files_def)
  next
    case (Inr u)
    let ?fs = "fs(filepath_Join [dir, n] \<mapsto> (file_data files n, 384))"
    have s: "save_files faults dir files names ?fs = (fs', res)" using Cons.prems(4) w h Inr by (simp add: file_data_def)
    have "temps_fresh faults dir names ?fs" using Cons.prems(3) by (auto simp: temps_fresh_def)
    then obtain ns rest where i: "names = ns @ rest" "ok res \<longleftrightarrow> rest = []" "fs' = with_files dir files ns ?fs"
      using Cons.IH [OF _ _ _ s] Cons.prems(1,2) by (simp only: distinct.simps list.set ball_simps) blast
    have "with_files dir files ns ?fs p = with_files dir files (n # ns) fs p" for p
    proof (cases "p = filepath_Join [dir, n]")
      case True
      then have "\<forall>m \<in> set ns. p \<noteq> filepath_Join [dir, m]" using Cons.prems(1,2) i(1) by (auto simp: Join_inject)
      then show ?thesis using True with_files_other [of ns p dir files ?fs] by (simp add: with_files_def [of dir files "n # ns"])
    next
      case False
      then show ?thesis by (simp add: with_files_def split: option.split)
    qed
    then show ?thesis using i by (intro exI [of _ "n # ns"] exI [of _ rest]) auto
  qed
qed

lemma plain_credential_names: "n \<in> set credential_names \<Longrightarrow> plain_part n"
  by (auto simp: credential_names_def plain_part_def slash_def)

lemma save_effect:
  assumes "pem_reads l" "keys_read l" "set names = set credential_names" "distinct names" "temps_fresh faults dir names fs"
    and "SaveAgentCredentials l mkdir faults names dir cr fs = (fs', res)"
  shows "(\<forall>p. (\<forall>n \<in> set credential_names. p \<noteq> filepath_Join [dir, n]) \<longrightarrow> fs' p = fs p)
    \<and> (ok res \<longrightarrow> LoadAgentCredentials l (\<lambda>_. None) fs' dir = Inr cr)"
proof (cases "\<exists>keyDER. cb_marshal l (cr_key cr) = Inr keyDER \<and> save_files faults dir (credential_files l keyDER cr) names fs = (fs', res)")
  case True
  then obtain keyDER where k: "cb_marshal l (cr_key cr) = Inr keyDER"
    "save_files faults dir (credential_files l keyDER cr) names fs = (fs', res)" by blast
  note n = assms(3,4)
  obtain ns rest where i: "names = ns @ rest" "ok res \<longleftrightarrow> rest = []" "fs' = with_files dir (credential_files l keyDER cr) ns fs"
    using save_files_prefix [OF n(2) _ assms(5) k(2)] plain_credential_names n(1) by blast
  have "fs' p = fs p" if "\<forall>n \<in> set credential_names. p \<noteq> filepath_Join [dir, n]" for p
  proof -
    have "set ns \<subseteq> set credential_names" using i(1) n(1) by auto
    then have "\<forall>n \<in> set ns. p \<noteq> filepath_Join [dir, n]" using that by blast
    then show ?thesis by (simp only: i(3) with_files_other)
  qed
  moreover have "LoadAgentCredentials l (\<lambda>_. None) fs' dir = Inr cr" if o: "ok res"
  proof -
    have r: "fs' (filepath_Join [dir, m]) = Some (file_data (credential_files l keyDER cr) m, 384)" if "m \<in> set credential_names" for m
    proof -
      have "ns = names" using o i(1,2) by simp
      moreover have "m \<in> set names" "\<forall>k \<in> set names. plain_part k" using that n(1) plain_credential_names by auto
      ultimately show ?thesis by (simp only: i(3) with_files_mem)
    qed
    have "cb_parse_key l keyDER = Inr (Ed25519 (cr_key cr))" using assms(2) k(1) by (simp add: keys_read_def)
    moreover have "readable l (key_block keyDER)" using assms(1) by (simp add: pem_reads_def)
    ultimately show ?thesis
      using r [of "''agent.key''"] r [of "''agent.crt''"] r [of "''validator-ca.crt''"] r [of "''agent-id''"] readable_end
      by (simp add: LoadAgentCredentials_def read_file_def credential_names_def file_data_def credential_files_def key_block_def strip_newline_def)
  qed
  ultimately show ?thesis by blast
next
  case False
  then have "fs' = fs \<and> \<not> ok res" using assms(6) by (auto simp: SaveAgentCredentials_def split: if_splits sum.splits)
  then show ?thesis by simp
qed

lemma LoadAgentCredentials_files: "ok (LoadAgentCredentials l reads fs dir) \<Longrightarrow> n \<in> set credential_names \<Longrightarrow>
    fs (filepath_Join [dir, n]) \<noteq> None"
  by (auto simp: LoadAgentCredentials_def read_file_def credential_names_def split: sum.splits option.splits private_key.splits)

text \<open>A saving that failed in a directory without credentials leaves incomplete ones.\<close>

lemma failed_save_incomplete:
  assumes "set names = set credential_names" "distinct names" "temps_fresh faults dir names fs"
    and "\<forall>n \<in> set credential_names. fs (filepath_Join [dir, n]) = None"
    and "SaveAgentCredentials l mkdir faults names dir cr fs = (fs', Inl err)"
  shows "\<not> ok (LoadAgentCredentials l reads fs' dir)"
proof -
  have "\<exists>n \<in> set credential_names. fs' (filepath_Join [dir, n]) = None"
  proof (cases "\<exists>keyDER. save_files faults dir (credential_files l keyDER cr) names fs = (fs', Inl err)")
    case True
    then obtain keyDER where k: "save_files faults dir (credential_files l keyDER cr) names fs = (fs', Inl err)" by blast
    obtain ns rest where i: "names = ns @ rest" "rest \<noteq> []" "fs' = with_files dir (credential_files l keyDER cr) ns fs"
      using save_files_prefix [OF assms(2) _ assms(3) k] plain_credential_names assms(1) by auto
    then obtain n where n: "n \<in> set rest" by (cases rest) auto
    have m: "n \<in> set credential_names" "n \<notin> set ns" "set ns \<subseteq> set credential_names"
      using n i(1) assms(1,2) by auto
    then have "\<forall>m \<in> set ns. filepath_Join [dir, n] \<noteq> filepath_Join [dir, m]"
      using plain_credential_names by (metis Join_inject subsetD)
    then have "fs' (filepath_Join [dir, n]) = fs (filepath_Join [dir, n])" by (simp only: i(3) with_files_other)
    then show ?thesis using m(1) assms(4) by auto
  next
    case False
    then have "fs' = fs" using assms(5) by (auto simp: SaveAgentCredentials_def split: if_splits sum.splits)
    then show ?thesis using assms(4) by (simp add: credential_names_def)
  qed
  then show ?thesis using LoadAgentCredentials_files by blast
qed

lemmas save_then_load = save_effect [THEN conjunct2, rule_format]

text \<open>Credentials that were saved, in whatever order, load again as they were. A saving that fails has
  written some of the four files and left every other file as it was.\<close>

theorem credentials_round_trip:
  assumes "pem_reads l" "keys_read l" "set names = set credential_names" "distinct names" "temps_fresh faults dir names fs"
    and "SaveAgentCredentials l mkdir faults names dir cr fs = (fs', res)"
  shows "(\<forall>p. (\<forall>n \<in> set credential_names. p \<noteq> filepath_Join [dir, n]) \<longrightarrow> fs' p = fs p)
    \<and> (ok res \<longrightarrow> LoadAgentCredentials l (\<lambda>_. None) fs' dir = Inr cr)"
  by (rule save_effect [OF assms])

section \<open>Witnesses\<close>

text \<open>A small PEM: a letter for the type, then each byte after a dot, and a semicolon.\<close>

fun demo_unpem_body :: "bytes \<Rightarrow> (bytes \<times> bytes) option" where
  "demo_unpem_body (d # x # rest) = (if d = CHR ''.'' then map_option (\<lambda>(b, r). (x # b, r)) (demo_unpem_body rest)
     else if d = CHR '';'' then Some ([], x # rest) else None)"
| "demo_unpem_body [d] = (if d = CHR '';'' then Some ([], []) else None)"
| "demo_unpem_body [] = None"

definition demo_pem :: "pem_block \<Rightarrow> bytes" where
  "demo_pem b = hd (pb_type b) # concat (map (\<lambda>x. [CHR ''.'', x]) (pb_bytes b)) @ '';''"

definition demo_type :: "char \<Rightarrow> string" where
  "demo_type t = (if t = CHR ''C'' then ''CERTIFICATE'' else if t = CHR ''P'' then ''PRIVATE KEY'' else ''ENCRYPTED PRIVATE KEY'')"

definition demo_lib :: cert_lib where
  "demo_lib = \<lparr>cb_pem = demo_pem,
     cb_unpem = (\<lambda>s. case s of [] \<Rightarrow> None
       | t # r \<Rightarrow> map_option (\<lambda>(b, rest). (\<lparr>pb_type = demo_type t, pb_headers = [], pb_bytes = b\<rparr>, rest)) (demo_unpem_body r)),
     cb_encrypt = (\<lambda>data pass. Inr \<lparr>pb_type = ''ENCRYPTED PRIVATE KEY'', pb_headers = [], pb_bytes = pass @ data\<rparr>),
     cb_decrypt = (\<lambda>b pass. if has_prefix (pb_bytes b) pass then Inr (drop (List.length pass) (pb_bytes b)) else Inl (External ''x509: decryption password incorrect'')),
     cb_marshal = Inr, cb_parse_key = (\<lambda>der. Inr (Ed25519 der)), cb_certify = (\<lambda>t pub key. Inr (tm_common_name t @ pub)),
     cb_parse_cert = (\<lambda>der. Inr \<lparr>xc_common_name = der, xc_der = der\<rparr>), cb_pool = (\<lambda>pem. pem \<noteq> []), cb_verify = (\<lambda>roots c. Inr ())\<rparr>"

lemma demo_lib_sel:
  "cb_pem demo_lib = demo_pem" "cb_marshal demo_lib = Inr" "cb_pool demo_lib = (\<lambda>pem. pem \<noteq> [])"
  "cb_parse_cert demo_lib = (\<lambda>der. Inr \<lparr>xc_common_name = der, xc_der = der\<rparr>)" "cb_verify demo_lib = (\<lambda>roots c. Inr ())"
  by (simp_all add: demo_lib_def)

lemma demo_unpem: "demo_unpem_body (concat (map (\<lambda>x. [CHR ''.'', x]) b) @ CHR '';'' # rest) = Some (b, rest)"
  by (induction b) (cases rest; simp)+

lemma demo_readable: "demo_type (hd (pb_type b)) = pb_type b \<Longrightarrow> pb_headers b = [] \<Longrightarrow> readable demo_lib b"
  by (simp add: readable_def demo_lib_def demo_pem_def demo_unpem)

lemma demo_lib_laws: "pem_reads demo_lib" "keys_read demo_lib" "encryption_opens demo_lib"
proof -
  show "pem_reads demo_lib"
    by (simp add: pem_reads_def demo_readable cert_block_def key_block_def demo_type_def)
  show "keys_read demo_lib" by (simp add: keys_read_def demo_lib_def)
  have "readable demo_lib b" if "cb_encrypt demo_lib data pass = Inr b" for data pass b
    by (rule demo_readable) (use that in \<open>auto simp: demo_lib_def demo_type_def\<close>)
  then show "encryption_opens demo_lib"
    by (auto simp: encryption_opens_def) (auto simp: demo_lib_def has_prefix_def)
qed

definition demo_ca_io :: ca_io where
  "demo_ca_io = \<lparr>co_keys = Inr (''pub'', ''key''), co_serial = Some ''1'', co_ten_years = (\<lambda>t. t), co_write = None\<rparr>"

theorem ca_round_trip_witness:
  "\<exists>fs ca. CreateCA demo_lib demo_ca_io (\<lambda>_. None) ''ca'' ''0123456789abcdef'' 0 = (fs, Inr ca)
    \<and> LoadCA demo_lib None (\<lambda>_. None) fs ''ca'' ''0123456789abcdef'' = Inr ca"
proof -
  obtain fs ca cert where c: "CreateCA demo_lib demo_ca_io (\<lambda>_. None) ''ca'' ''0123456789abcdef'' 0 = (fs, Inr ca)" "ca_cert ca = Some cert"
    by (simp add: CreateCA_def demo_lib_def demo_ca_io_def write_file_def)
  show ?thesis using ca_round_trip [OF demo_lib_laws c(1)] c by auto
qed

definition demo_credentials :: AgentCredentials where
  "demo_credentials = \<lparr>cr_agent = ''a'', cr_key = replicate 64 (CHR ''k''), cr_cert = ''cert'', cr_ca = ''ca''\<rparr>"

theorem credentials_round_trip_witness:
  "\<exists>fs. SaveAgentCredentials demo_lib (Inr ()) (\<lambda>n. no_faults ''/t'') [''agent-id'', ''agent.crt'', ''validator-ca.crt'', ''agent.key''] ''/d'' demo_credentials (\<lambda>_. None) = (fs, Inr ())
    \<and> LoadAgentCredentials demo_lib (\<lambda>_. None) fs ''/d'' = Inr demo_credentials"
proof -
  let ?names = "[''agent-id'', ''agent.crt'', ''validator-ca.crt'', ''agent.key'']"
  have "list_all (\<lambda>n. ''/t'' \<noteq> filepath_Join [''/d'', n]) ?names" by code_simp
  then have t: "temps_fresh (\<lambda>n. no_faults ''/t'') ''/d'' ?names (\<lambda>_. None)"
    unfolding temps_fresh_def list_all_iff by (simp add: no_faults_def del: list.set)
  obtain fs where s: "SaveAgentCredentials demo_lib (Inr ()) (\<lambda>n. no_faults ''/t'') ?names ''/d'' demo_credentials (\<lambda>_. None) = (fs, Inr ())"
    by (simp add: SaveAgentCredentials_def demo_lib_def demo_credentials_def atomicWrite_def no_faults_def)
  show ?thesis using credentials_round_trip [OF demo_lib_laws(1,2) _ _ t s] s by (auto simp: credential_names_def)
qed

end
