(* ===== verification/AgentJoin.thy ===== *)
theory AgentJoin
  imports CertFiles IdentityFacts EasyPanelCmd
begin

text \<open>
  A host joining as an agent: \<open>src/internal/agentjoin/join.go\<close> and the join command of
  \<open>src/cmd/agent/main.go\<close>. The connection to the validator and key generation are parameters.
\<close>

section \<open>The transport\<close>

text \<open>
  How the first connection goes: the client, the certificates the validator presented if the
  handshake came that far, and the outcome of the login request sent to force it.
\<close>

record dial_io =
  di_client :: "unit result"
  di_certs :: "bytes list option"
  di_invoke :: "unit result"

text \<open>\<open>VerifyConnection\<close>: what it records as presented, and its verdict.\<close>

definition verify_connection :: "crypto \<Rightarrow> string \<Rightarrow> bytes list \<Rightarrow> bytes \<times> unit result" where
  "verify_connection c pin certs = (case certs of
     [] \<Rightarrow> ([], Inl (Error ''validator certificate missing''))
   | raw # rest \<Rightarrow> (raw, VerifyCertificatePin c raw pin))"

text \<open>A certificate that was presented is returned even if the handshake then failed on its pin.\<close>

definition probe_validator :: "crypto \<Rightarrow> string \<Rightarrow> dial_io \<Rightarrow> bytes result" where
  "probe_validator c pin io = (case di_client io of Inl err \<Rightarrow> Inl err
   | Inr _ \<Rightarrow> (let presented = (case di_certs io of None \<Rightarrow> [] | Some certs \<Rightarrow> fst (verify_connection c pin certs)) in
       case di_invoke io of
         Inl err \<Rightarrow> if presented = [] then Inl err else Inr presented
       | Inr _ \<Rightarrow> Inr presented))"

section \<open>Joining\<close>

record EnrollRequest =
  eq_token :: string
  eq_csr :: bytes
  eq_pin :: string
  eq_hostname :: string

record JoinOptions =
  jo_address :: string
  jo_token :: string
  jo_pin :: string
  jo_dir :: string
  jo_hostname :: string
  jo_no_start :: bool

text \<open>
  The answers of one attempt: the failure of the test for a key other than its absence, the transport, the
  new key and its request, and the file system while saving, with the order in which the files are visited.
\<close>

record join_io =
  ji_stat :: "error option"
  ji_probe :: "(string \<Rightarrow> bytes result) option"
  ji_enroll :: "(string \<Rightarrow> EnrollRequest \<Rightarrow> EnrollResponse option result) option"
  ji_key :: "bytes result"
  ji_csr :: "bytes \<Rightarrow> bytes result"
  ji_mkdir :: "unit result"
  ji_faults :: "string \<Rightarrow> write_faults"
  ji_order :: "string list"

definition validateResponse :: "cert_lib \<Rightarrow> EnrollResponse option \<Rightarrow> unit result" where
  "validateResponse l response = (case response of None \<Rightarrow> Inl (Error ''invalid enrollment response'')
   | Some r \<Rightarrow>
     (if er_agent r = [] then Inl (Error ''invalid enrollment response'')
      else case cb_unpem l (er_certificate r) of None \<Rightarrow> Inl (Error ''invalid agent certificate'')
      | Some (block, rest) \<Rightarrow> (case cb_parse_cert l (pb_bytes block) of Inl err \<Rightarrow> Inl err
      | Inr cert \<Rightarrow>
         (if xc_common_name cert \<noteq> er_agent r then Inl (Error ''agent certificate identity mismatch'')
          else if \<not> cb_pool l (er_ca r) then Inl (Error ''invalid agent CA'')
          else cb_verify l (er_ca r) cert))))"

text \<open>The files afterwards, the request that was sent if one was, and the result.\<close>

definition Join :: "crypto \<Rightarrow> cert_lib \<Rightarrow> join_io \<Rightarrow> JoinOptions \<Rightarrow> file_system \<Rightarrow> file_system \<times> EnrollRequest option \<times> unit result" where
  "Join c l io opts fs =
    (if jo_address opts = [] \<or> jo_token opts = [] \<or> jo_pin opts = [] \<or> jo_dir opts = []
     then (fs, None, Inl (Error ''validator, token, pin, and credential directory required''))
     else case ji_stat io of Some err \<Rightarrow> (fs, None, Inl err)
     | None \<Rightarrow>
      (if fs (filepath_Join [jo_dir opts, ''agent.key'']) \<noteq> None then (fs, None, Inl (Error ''agent credentials already exist''))
       else case (ji_probe io, ji_enroll io) of
         (Some probe, Some enroll) \<Rightarrow>
          (case probe (jo_address opts) of Inl err \<Rightarrow> (fs, None, Inl err)
           | Inr certificate \<Rightarrow> (case VerifyCertificatePin c certificate (jo_pin opts) of Inl err \<Rightarrow> (fs, None, Inl err)
           | Inr _ \<Rightarrow> (case ji_key io of Inl err \<Rightarrow> (fs, None, Inl err)
           | Inr key \<Rightarrow> (case ji_csr io key of Inl err \<Rightarrow> (fs, None, Inl err)
           | Inr csr \<Rightarrow>
              (let request = \<lparr>eq_token = jo_token opts, eq_csr = csr, eq_pin = jo_pin opts, eq_hostname = jo_hostname opts\<rparr> in
               case enroll (jo_address opts) request of Inl err \<Rightarrow> (fs, Some request, Inl err)
               | Inr response \<Rightarrow> (case validateResponse l response of Inl err \<Rightarrow> (fs, Some request, Inl err)
               | Inr _ \<Rightarrow> (case response of None \<Rightarrow> (fs, Some request, Inl (Error ''invalid enrollment response''))
               | Some r \<Rightarrow>
                  (case SaveAgentCredentials l (ji_mkdir io) (ji_faults io) (ji_order io) (jo_dir opts)
                      \<lparr>cr_agent = er_agent r, cr_key = key, cr_cert = er_certificate r, cr_ca = er_ca r\<rparr> fs of
                     (fs', res) \<Rightarrow> (fs', Some request, res)))))))))
       | _ \<Rightarrow> (fs, None, Inl (Error ''join transport unavailable''))))"

section \<open>The join command\<close>

definition join_flags :: "(string \<times> bool) list" where
  "join_flags = [(''pin'', False), (''credential-dir'', False), (''hostname'', False), (''no-start'', True)]"

definition str_flag_or :: "(string \<times> flag_value) list \<Rightarrow> string \<Rightarrow> string \<Rightarrow> string" where
  "str_flag_or fl name unset = (case map_of fl name of Some (StrFlag s) \<Rightarrow> s | _ \<Rightarrow> unset)"

text \<open>No result when the command is another one. The text of a flag error is the flag package's.\<close>

definition parseJoin :: "string list \<Rightarrow> JoinOptions result option" where
  "parseJoin args = (case args of [] \<Rightarrow> None
   | a # rest \<Rightarrow>
     (if a \<noteq> ''join'' then None
      else case rest of
        address # token # flags \<Rightarrow> Some (case parse_flags join_flags flags [] of
            Inl st \<Rightarrow> Inl (External ''flag'')
          | Inr fl \<Rightarrow> if str_flag fl ''pin'' = [] then Inl (Error ''--pin required'')
              else Inr \<lparr>jo_address = address, jo_token = token, jo_pin = str_flag fl ''pin'',
                jo_dir = str_flag_or fl ''credential-dir'' ''/var/lib/silent-devops/agent'',
                jo_hostname = str_flag fl ''hostname'', jo_no_start = bool_flag fl ''no-start''\<rparr>)
      | _ \<Rightarrow> Some (Inl (Error ''usage: agent join VALIDATOR TOKEN --pin sha256/...''))))"

text \<open>The command: the files, whether the service was started, and the exit status.\<close>

definition join_command :: "crypto \<Rightarrow> cert_lib \<Rightarrow> join_io \<Rightarrow> string \<Rightarrow> unit result \<Rightarrow> string list \<Rightarrow> file_system
    \<Rightarrow> (file_system \<times> bool \<times> nat) option" where
  "join_command c l io hostname start args fs = (case parseJoin args of None \<Rightarrow> None
   | Some (Inl err) \<Rightarrow> Some (fs, False, 1)
   | Some (Inr opts) \<Rightarrow>
      (let opts' = (if jo_hostname opts = [] then opts\<lparr>jo_hostname := hostname\<rparr> else opts) in
       case Join c l io opts' fs of
         (fs', sent, Inl err) \<Rightarrow> Some (fs', False, 1)
       | (fs', sent, Inr _) \<Rightarrow>
          if jo_no_start opts' then Some (fs', False, 0)
          else Some (fs', True, if ok start then 0 else 1)))"

section \<open>What a join does\<close>

text \<open>How an attempt that sent a request went before it, and after.\<close>

definition join_request :: "JoinOptions \<Rightarrow> bytes \<Rightarrow> EnrollRequest" where
  "join_request opts csr = \<lparr>eq_token = jo_token opts, eq_csr = csr, eq_pin = jo_pin opts, eq_hostname = jo_hostname opts\<rparr>"

lemma Join_sent: "case Join c l io opts fs of (fs', sent, res) \<Rightarrow>
    (case sent of None \<Rightarrow> fs' = fs \<and> \<not> ok res
     | Some request \<Rightarrow> fs (filepath_Join [jo_dir opts, ''agent.key'']) = None
        \<and> (\<exists>probe certificate enroll key csr. ji_probe io = Some probe \<and> probe (jo_address opts) = Inr certificate
            \<and> VerifyCertificatePin c certificate (jo_pin opts) = Inr ()
            \<and> ji_enroll io = Some enroll \<and> ji_key io = Inr key \<and> ji_csr io key = Inr csr \<and> request = join_request opts csr
            \<and> (fs' = fs \<or> (\<exists>cr. SaveAgentCredentials l (ji_mkdir io) (ji_faults io) (ji_order io) (jo_dir opts) cr fs = (fs', res)))
            \<and> (ok res \<longrightarrow> (\<exists>r. enroll (jo_address opts) request = Inr (Some r) \<and> validateResponse l (Some r) = Inr ()
                \<and> SaveAgentCredentials l (ji_mkdir io) (ji_faults io) (ji_order io) (jo_dir opts)
                    \<lparr>cr_agent = er_agent r, cr_key = key, cr_cert = er_certificate r, cr_ca = er_ca r\<rparr> fs = (fs', res)))))"
  unfolding Join_def Let_def join_request_def by (simp del: not_None_eq split: option.split sum.split prod.split) (auto simp: validateResponse_def)

text \<open>C9. The one-time token is sent only when no agent's key is in the directory and the validator has
  presented the certificate of the given pin; and until it is sent no file has changed.\<close>

theorem join_sends_to_pinned:
  assumes "Join c l io opts fs = (fs', sent, res)"
  shows "(case sent of None \<Rightarrow> fs' = fs \<and> \<not> ok res
    | Some request \<Rightarrow> eq_token request = jo_token opts \<and> fs (filepath_Join [jo_dir opts, ''agent.key'']) = None
       \<and> (\<exists>probe certificate. ji_probe io = Some probe \<and> probe (jo_address opts) = Inr certificate
            \<and> CertificatePin c certificate = jo_pin opts))"
  using Join_sent [where c = c and l = l and io = io and opts = opts and fs = fs] assms
  by (auto simp: join_request_def VerifyCertificatePin_def Let_def split: option.splits if_splits)

lemma validateResponse_ok: "validateResponse l (Some r) = Inr () \<longleftrightarrow>
    er_agent r \<noteq> [] \<and> cb_pool l (er_ca r) \<and> (\<exists>block rest cert. cb_unpem l (er_certificate r) = Some (block, rest)
      \<and> cb_parse_cert l (pb_bytes block) = Inr cert \<and> xc_common_name cert = er_agent r \<and> cb_verify l (er_ca r) cert = Inr ())"
  by (auto simp: validateResponse_def split: option.splits sum.splits)

lemma join_effect:
  assumes "pem_reads l" "keys_read l" "set (ji_order io) = set credential_names" "distinct (ji_order io)"
    and "temps_fresh (ji_faults io) (jo_dir opts) (ji_order io) fs" "db_ok d"
    and "ji_enroll io = Some (\<lambda>address r. map_sum id Some (snd (Enroll c x caPEM e configured d (eq_csr r) (eq_token r) (eq_hostname r))))"
    and "Join c l io opts fs = (fs', sent, Inr ())"
  shows "\<exists>request cr r h serial d'. sent = Some request
    \<and> Enroll c x caPEM e configured d (eq_csr request) (jo_token opts) (jo_hostname opts) = (d', Inr r)
    \<and> cr_agent cr = er_agent r \<and> cr_agent cr \<notin> set (agent_ids d) \<and> cr_agent cr \<in> set (agent_ids d')
    \<and> presented_digest c (jo_token opts) = Some h \<and> \<not> token_spent h d \<and> token_spent h d'
    \<and> LoadAgentCredentials l (\<lambda>_. None) fs' (jo_dir opts) = Inr cr \<and> cr_ca cr = caPEM
    \<and> (\<forall>e2 now. \<not> env_db_fails e2 0 \<longrightarrow> (AuthorizeConnection e2 0 d' (cr_agent cr) serial now = Inr ()
          \<longleftrightarrow> unix_milli now \<le> unix_milli (env_clock e 2 + default_validity configured)))"
proof -
  obtain request where sent: "sent = Some request" using Join_sent [where c = c and l = l and io = io and opts = opts and fs = fs] assms(8) by (cases sent) auto
  then obtain key csr r where j: "ji_key io = Inr key" "request = join_request opts csr"
      "map_sum id Some (snd (Enroll c x caPEM e configured d (eq_csr request) (eq_token request) (eq_hostname request))) = Inr (Some r)"
      "SaveAgentCredentials l (ji_mkdir io) (ji_faults io) (ji_order io) (jo_dir opts)
        \<lparr>cr_agent = er_agent r, cr_key = key, cr_cert = er_certificate r, cr_ca = er_ca r\<rparr> fs = (fs', Inr ())"
    using Join_sent [where c = c and l = l and io = io and opts = opts and fs = fs] assms(7,8) by auto
  obtain d' where d: "Enroll c x caPEM e configured d csr (jo_token opts) (jo_hostname opts) = (d', Inr r)"
    using j(2,3) by (cases "Enroll c x caPEM e configured d csr (jo_token opts) (jo_hostname opts)"; cases "snd (Enroll c x caPEM e configured d csr (jo_token opts) (jo_hostname opts))")
      (auto simp: join_request_def)
  have ca: "er_ca r = caPEM"
    using Enroll_success [where c = c and x = x and caPEM = caPEM and e = e and configured = configured and d = d
      and csrDER = csr and token = "jo_token opts" and hostname = "jo_hostname opts"] d by auto
  obtain h serial where "presented_digest c (jo_token opts) = Some h" "\<not> token_spent h d" "token_spent h d'"
      "er_agent r \<notin> set (agent_ids d)" "er_agent r \<in> set (agent_ids d')"
      "\<forall>e2 now. \<not> env_db_fails e2 0 \<longrightarrow> (AuthorizeConnection e2 0 d' (er_agent r) serial now = Inr ()
          \<longleftrightarrow> unix_milli now \<le> unix_milli (env_clock e 2 + default_validity configured))"
    using enroll_effect [OF assms(6) d] by (auto simp: agent_ids_def new_agent_def)
  moreover have "LoadAgentCredentials l (\<lambda>_. None) fs' (jo_dir opts) = Inr \<lparr>cr_agent = er_agent r, cr_key = key, cr_cert = er_certificate r, cr_ca = er_ca r\<rparr>"
    using save_then_load [OF assms(1-5) j(4)] by simp
  ultimately show ?thesis
    using sent j(2) d ca by (intro exI [of _ request] exI [of _ "\<lparr>cr_agent = er_agent r, cr_key = key, cr_cert = er_certificate r, cr_ca = er_ca r\<rparr>"]
      exI [of _ r] exI [of _ h] exI [of _ serial] exI [of _ d']) (simp add: join_request_def)
qed

text \<open>Joining against the validator's enrollment: when it succeeds, the token was live and is used up,
  and the credentials that the agent will load are those of an agent the validator has just registered:
  it accepts connections under their identity, with one serial number, until the certificate expires.\<close>

theorem join_then_connect:
  assumes "pem_reads l" "keys_read l" "set (ji_order io) = set credential_names" "distinct (ji_order io)"
    and "temps_fresh (ji_faults io) (jo_dir opts) (ji_order io) fs" "db_ok d"
    and "ji_enroll io = Some (\<lambda>address r. map_sum id Some (snd (Enroll c x caPEM e configured d (eq_csr r) (eq_token r) (eq_hostname r))))"
    and "Join c l io opts fs = (fs', sent, Inr ())"
  shows "\<exists>request cr r h serial d'. sent = Some request
    \<and> Enroll c x caPEM e configured d (eq_csr request) (jo_token opts) (jo_hostname opts) = (d', Inr r)
    \<and> cr_agent cr = er_agent r \<and> cr_agent cr \<notin> set (agent_ids d) \<and> cr_agent cr \<in> set (agent_ids d')
    \<and> presented_digest c (jo_token opts) = Some h \<and> \<not> token_spent h d \<and> token_spent h d'
    \<and> LoadAgentCredentials l (\<lambda>_. None) fs' (jo_dir opts) = Inr cr \<and> cr_ca cr = caPEM
    \<and> (\<forall>e2 now. \<not> env_db_fails e2 0 \<longrightarrow> (AuthorizeConnection e2 0 d' (cr_agent cr) serial now = Inr ()
          \<longleftrightarrow> unix_milli now \<le> unix_milli (env_clock e 2 + default_validity configured)))"
  using join_effect [OF assms] .


section \<open>Witnesses\<close>

definition demo_x509 :: x509 where
  "demo_x509 = toy_x509\<lparr>x_create := (\<lambda>ct. Inr (ct_common_name ct)), x_pem := (\<lambda>der. demo_pem (cert_block der))\<rparr>"

definition demo_opts :: JoinOptions where
  "demo_opts = \<lparr>jo_address = ''v:1'', jo_token = demo_join, jo_pin = CertificatePin toy_crypto ''cert'', jo_dir = ''/d'',
     jo_hostname = ''host'', jo_no_start = True\<rparr>"

definition demo_order :: "string list" where
  "demo_order = [''agent.key'', ''agent-id'', ''agent.crt'', ''validator-ca.crt'']"

definition demo_join_with :: "bytes \<Rightarrow> duration \<Rightarrow> (string \<Rightarrow> write_faults) \<Rightarrow> join_io" where
  "demo_join_with ca configured faults = \<lparr>ji_stat = None, ji_probe = Some (\<lambda>a. Inr ''cert''),
     ji_enroll = Some (\<lambda>address r. map_sum id Some (snd (Enroll toy_crypto demo_x509 ca (calm 0) configured demo_tokens (eq_csr r) (eq_token r) (eq_hostname r)))),
     ji_key = Inr (replicate 64 (CHR ''k'')), ji_csr = (\<lambda>k. Inr ''key''), ji_mkdir = Inr (), ji_faults = faults, ji_order = demo_order\<rparr>"

abbreviation demo_join_io :: "(string \<Rightarrow> write_faults) \<Rightarrow> join_io" where
  "demo_join_io \<equiv> demo_join_with ''CA'' hour"

lemma demo_order_facts: "set demo_order = set credential_names" "distinct demo_order"
  by (auto simp: demo_order_def credential_names_def)

lemma demo_temps: "\<forall>n. wf_create (faults n) = Inr ''/t'' \<Longrightarrow> temps_fresh faults ''/d'' demo_order (\<lambda>_. None)"
proof -
  assume f: "\<forall>n. wf_create (faults n) = Inr ''/t''"
  have "list_all (\<lambda>n. ''/t'' \<noteq> filepath_Join [''/d'', n]) demo_order" by code_simp
  then show ?thesis using f unfolding temps_fresh_def list_all_iff by (simp del: list.set)
qed

text \<open>The example's join comes as far as saving the new agent's credentials.\<close>

lemma demo_join_saves: "ca \<noteq> [] \<Longrightarrow> \<exists>cr request. cr_agent cr \<noteq> [] \<and> cr_key cr = replicate 64 (CHR ''k'') \<and> cr_cert cr \<noteq> [] \<and> cr_ca cr = ca
    \<and> Join toy_crypto demo_lib (demo_join_with ca configured faults) demo_opts (\<lambda>_. None) =
      (case SaveAgentCredentials demo_lib (Inr ()) faults demo_order ''/d'' cr (\<lambda>_. None) of (fs', res) \<Rightarrow> (fs', Some request, res))"
proof -
  assume ca: "ca \<noteq> []"
  have "ok (x_create demo_x509 ct)" for ct by (simp add: demo_x509_def)
  moreover have p: "x_parse_csr demo_x509 ''key'' = Inr \<lparr>csr_common_name = [], csr_signature_ok = True, csr_public_key = ''key''\<rparr>"
    using demo_csr by (simp add: demo_x509_def)
  ultimately obtain d' r where e: "Enroll toy_crypto demo_x509 ca (calm 0) configured demo_tokens ''key'' demo_join ''host'' = (d', Inr r)"
    using demo_enroll by blast
  then obtain pem serial where s: "SignAgentCSR demo_x509 (calm 0) 1 ''key'' (er_agent r) (env_clock (calm 0) 1) (default_validity configured) = Inr (pem, serial)"
      "er_certificate r = pem" "er_ca r = ca"
    using Enroll_success [where c = toy_crypto and x = demo_x509 and caPEM = ca and e = "calm 0" and configured = configured and d = demo_tokens
        and csrDER = "''key''" and token = demo_join and hostname = "''host''"] by auto
  have a: "er_agent r \<noteq> []" "er_certificate r = demo_pem (cert_block (er_agent r))"
    using s p by (auto simp: SignAgentCSR_def demo_x509_def split: if_splits option.splits)
  have "cb_unpem demo_lib (er_certificate r) = Some (cert_block (er_agent r), [])"
    using readable_end [of demo_lib "cert_block (er_agent r)"] demo_lib_laws(1) a(2) by (simp add: pem_reads_def demo_lib_sel)
  then have v: "validateResponse demo_lib (Some r) = Inr ()"
    using a(1) s(3) ca by (simp add: validateResponse_ok demo_lib_sel cert_block_def)
  have n: "er_certificate r \<noteq> []" using a(2) by (simp add: demo_pem_def)
  have t: "demo_join \<noteq> []" "CertificatePin toy_crypto ''cert'' \<noteq> []" by (simp_all add: demo_join_def hex_encode_def CertificatePin_def)
  show ?thesis
    by (rule exI [of _ "\<lparr>cr_agent = er_agent r, cr_key = replicate 64 (CHR ''k''), cr_cert = er_certificate r, cr_ca = er_ca r\<rparr>"],
        rule exI [of _ "join_request demo_opts ''key''"])
      (use a(1) n s(3) v e t ca in \<open>simp add: Join_def demo_join_with_def demo_opts_def join_request_def VerifyCertificatePin_def Let_def\<close>)
qed

lemma demo_CA_saves: "\<exists>cr request. cr_agent cr \<noteq> [] \<and> cr_key cr = replicate 64 (CHR ''k'') \<and> cr_cert cr \<noteq> [] \<and> cr_ca cr = ''CA''
    \<and> Join toy_crypto demo_lib (demo_join_io faults) demo_opts (\<lambda>_. None) =
      (case SaveAgentCredentials demo_lib (Inr ()) faults demo_order ''/d'' cr (\<lambda>_. None) of (fs', res) \<Rightarrow> (fs', Some request, res))"
  by (rule demo_join_saves) simp

theorem join_then_connect_witness:
  "\<exists>fs' sent cr. Join toy_crypto demo_lib (demo_join_io (\<lambda>n. no_faults ''/t'')) demo_opts (\<lambda>_. None) = (fs', sent, Inr ())
    \<and> LoadAgentCredentials demo_lib (\<lambda>_. None) fs' ''/d'' = Inr cr \<and> cr_ca cr = ''CA''"
proof -
  let ?io = "demo_join_io (\<lambda>n. no_faults ''/t'')"
  obtain fs' sent where j: "Join toy_crypto demo_lib ?io demo_opts (\<lambda>_. None) = (fs', sent, Inr ())"
    using demo_CA_saves [of "\<lambda>n. no_faults ''/t''"]
    by (auto simp: SaveAgentCredentials_def demo_lib_sel atomicWrite_def no_faults_def demo_order_def)
  have o: "set (ji_order ?io) = set credential_names" "distinct (ji_order ?io)"
      "temps_fresh (ji_faults ?io) (jo_dir demo_opts) (ji_order ?io) (\<lambda>_. None)"
    using demo_order_facts demo_temps by (simp_all add: demo_join_with_def demo_opts_def no_faults_def)
  have en: "ji_enroll ?io = Some (\<lambda>address r. map_sum id Some (snd (Enroll toy_crypto demo_x509 ''CA'' (calm 0) hour demo_tokens (eq_csr r) (eq_token r) (eq_hostname r))))"
    by (simp add: demo_join_with_def)
  show ?thesis using join_then_connect [OF demo_lib_laws(1,2) o demo_tokens_ok en j] j by (auto simp: demo_opts_def)
qed

definition demo_no_space :: "string \<Rightarrow> write_faults" where
  "demo_no_space n = (if n = ''agent-id'' then (no_faults ''/t'')\<lparr>wf_write := Inl (External ''no space left on device'')\<rparr> else no_faults ''/t'')"


theorem join_sends_to_pinned_witness:
  "\<exists>fs' request res. Join toy_crypto demo_lib (demo_join_io (\<lambda>n. no_faults ''/t'')) demo_opts (\<lambda>_. None) = (fs', Some request, res)
    \<and> eq_token request = demo_join"
proof -
  obtain fs' request res where j: "Join toy_crypto demo_lib (demo_join_io (\<lambda>n. no_faults ''/t'')) demo_opts (\<lambda>_. None) = (fs', Some request, res)"
    using demo_CA_saves [of "\<lambda>n. no_faults ''/t''"] by (elim exE conjE) (simp split: prod.splits)
  show ?thesis using join_sends_to_pinned [OF j] j by (simp add: demo_opts_def)
qed

end
