(* ===== verification/ValidatorSetup.thy ===== *)
theory ValidatorSetup
  imports AgentJoin
begin

text \<open>
  Setting programs up: \<open>src/internal/validatorinit/init.go\<close> writes a validator's certificate,
  authority and environment file, \<open>src/internal/runtime/config.go\<close> reads the environment back, and
  \<open>src/internal/app/app.go\<close>, \<open>src/cmd/validator/main.go\<close> choose what a command line does.
  \<open>src/internal/clientapi/pin.go\<close> fetches the certificate to a client.
\<close>

section \<open>Configuration\<close>

record ValidatorConfig =
  vc_listen :: string
  vc_db :: string
  vc_tls_cert :: string
  vc_tls_key :: string
  vc_client_ca :: string
  vc_agent_ca :: string
  vc_passphrase :: string
  vc_token_key :: bytes
  vc_policies :: EndpointPolicies
  vc_bootstrap_user :: string
  vc_bootstrap_password :: string
  vc_socket :: string

definition split_list :: "string \<Rightarrow> string list" where
  "split_list value = filter (\<lambda>v. v \<noteq> []) (map trim_space (split (CHR '','') value))"

text \<open>\<open>pp\<close> parses one prefix.\<close>

definition ParseValidatorConfig :: "(string \<Rightarrow> Prefix result) \<Rightarrow> (string \<Rightarrow> string) \<Rightarrow> ValidatorConfig result" where
  "ParseValidatorConfig pp getenv =
    (let listen = getenv ''SILENT_DEVOPS_LISTEN''; database = getenv ''SILENT_DEVOPS_DB''; cert = getenv ''SILENT_DEVOPS_TLS_CERT'';
         key = getenv ''SILENT_DEVOPS_TLS_KEY''; clientCA = getenv ''SILENT_DEVOPS_CLIENT_CA''; agentCA = getenv ''SILENT_DEVOPS_AGENT_CA'';
         pass = getenv ''SILENT_DEVOPS_AGENT_CA_PASSPHRASE''; token = getenv ''SILENT_DEVOPS_TOKEN_KEY'';
         sock = getenv ''SILENT_DEVOPS_LOCAL_SOCKET''
     in if listen = [] \<or> database = [] \<or> cert = [] \<or> key = [] \<or> clientCA = [] \<or> agentCA = []
          \<or> List.length pass < 16 \<or> List.length token < 32
        then Inl (Error ''validator listen, DB, TLS certificate/key, client CA, encrypted agent CA/passphrase, and 32-byte token key required'')
        else case ParseCIDRs pp (split_list (getenv ''SILENT_DEVOPS_ENROLL_CIDRS'')) of Inl err \<Rightarrow> Inl err
        | Inr enrollment \<Rightarrow> (case ParseCIDRs pp (split_list (getenv ''SILENT_DEVOPS_AGENT_CIDRS'')) of Inl err \<Rightarrow> Inl err
        | Inr agent \<Rightarrow> (case ParseCIDRs pp (split_list (getenv ''SILENT_DEVOPS_CLIENT_CIDRS'')) of Inl err \<Rightarrow> Inl err
        | Inr client \<Rightarrow> Inr \<lparr>vc_listen = listen, vc_db = database, vc_tls_cert = cert, vc_tls_key = key, vc_client_ca = clientCA,
            vc_agent_ca = agentCA, vc_passphrase = pass, vc_token_key = token,
            vc_policies = \<lparr>ep_enrollment = enrollment, ep_agent = agent, ep_client = client\<rparr>,
            vc_bootstrap_user = getenv ''SILENT_DEVOPS_BOOTSTRAP_USER'', vc_bootstrap_password = getenv ''SILENT_DEVOPS_BOOTSTRAP_PASSWORD'',
            vc_socket = (if sock = [] then ''/run/silent-devops/validator.sock'' else sock)\<rparr>)))"

record AgentConfig =
  ac_validator :: string
  ac_credential_dir :: string
  ac_tunnel_host :: string
  ac_tunnel_user :: string
  ac_tunnel_key :: string
  ac_tunnel_known_hosts :: string
  ac_authorized_keys :: string
  ac_host_key :: string
  ac_ssh_local :: string
  ac_heartbeat :: duration

definition ParseAgentConfig :: "(string \<Rightarrow> string) \<Rightarrow> AgentConfig result" where
  "ParseAgentConfig getenv =
    (let validator = getenv ''SILENT_DEVOPS_VALIDATOR''; dir = getenv ''SILENT_DEVOPS_CREDENTIAL_DIR''; key = getenv ''SILENT_DEVOPS_HOST_KEY''
     in if validator = [] \<or> dir = [] then Inl (Error ''validator address and credential directory required'')
        else Inr \<lparr>ac_validator = validator, ac_credential_dir = dir, ac_tunnel_host = getenv ''SILENT_DEVOPS_TUNNEL_HOST'',
          ac_tunnel_user = getenv ''SILENT_DEVOPS_TUNNEL_USER'', ac_tunnel_key = getenv ''SILENT_DEVOPS_TUNNEL_KEY'',
          ac_tunnel_known_hosts = getenv ''SILENT_DEVOPS_TUNNEL_KNOWN_HOSTS'', ac_authorized_keys = getenv ''SILENT_DEVOPS_AUTHORIZED_KEYS'',
          ac_host_key = (if key = [] then ''/etc/ssh/ssh_host_ed25519_key.pub'' else key),
          ac_ssh_local = getenv ''SILENT_DEVOPS_SSH_LOCAL_ADDR'', ac_heartbeat = 15 * second\<rparr>)"

section \<open>Initialising a validator\<close>

record InitOptions =
  io_address :: string
  io_dir :: string
  io_cidrs :: string

text \<open>The server's certificate, less its constant fields: serial number 1, digital signatures, server authentication.\<close>

record server_template =
  sv_common_name :: string
  sv_not_before :: time
  sv_not_after :: time
  sv_ips :: "bytes list"
  sv_dns :: "string list"

text \<open>
  The answers of a run: the test for an environment file, the new directory, the server's key pair with
  its public part first, \<open>AddDate(1, 0, 0)\<close> in the local time zone, reading an address, signing the
  certificate, the writes by file name, whether Go's map yields the certificate before the key, and the authority's creation.
\<close>

record init_io =
  ni_stat :: "error option"
  ni_mkdir :: "unit result"
  ni_keys :: "(bytes \<times> bytes) result"
  ni_now :: time
  ni_one_year :: "time \<Rightarrow> time"
  ni_parse_ip :: "string \<Rightarrow> bytes option"
  ni_certify :: "server_template \<Rightarrow> bytes \<Rightarrow> bytes \<Rightarrow> bytes result"
  ni_faults :: "string \<Rightarrow> write_fault option"
  ni_cert_first :: bool
  ni_ca :: ca_io

definition random_text :: "env \<Rightarrow> nat \<Rightarrow> nat \<Rightarrow> string result" where
  "random_text e k n = (case rand_read e k n of Inl err \<Rightarrow> Inl err | Inr raw \<Rightarrow> Inr (raw_url_encode raw))"

definition server_cert :: "init_io \<Rightarrow> string \<Rightarrow> server_template" where
  "server_cert io host = \<lparr>sv_common_name = host, sv_not_before = ni_now io - minute, sv_not_after = ni_one_year io (ni_now io),
     sv_ips = (case ni_parse_ip io host of Some ip \<Rightarrow> [ip] | None \<Rightarrow> []),
     sv_dns = (case ni_parse_ip io host of Some ip \<Rightarrow> [] | None \<Rightarrow> [host])\<rparr>"

definition env_lines :: "string \<Rightarrow> string \<Rightarrow> string \<Rightarrow> string \<Rightarrow> string \<Rightarrow> (string \<times> string) list" where
  "env_lines dir port caPass tokenKey cidrs = [(''SILENT_DEVOPS_LISTEN'', ''0.0.0.0:'' @ port),
     (''SILENT_DEVOPS_DB'', ''/var/lib/silent-devops/devops.db''),
     (''SILENT_DEVOPS_TLS_CERT'', filepath_Join [dir, ''server.crt'']), (''SILENT_DEVOPS_TLS_KEY'', filepath_Join [dir, ''server.key'']),
     (''SILENT_DEVOPS_CLIENT_CA'', filepath_Join [dir, ''server.crt'']), (''SILENT_DEVOPS_AGENT_CA'', filepath_Join [dir, ''agent-ca.key'']),
     (''SILENT_DEVOPS_AGENT_CA_PASSPHRASE'', caPass), (''SILENT_DEVOPS_TOKEN_KEY'', tokenKey),
     (''SILENT_DEVOPS_ENROLL_CIDRS'', cidrs), (''SILENT_DEVOPS_AGENT_CIDRS'', cidrs), (''SILENT_DEVOPS_CLIENT_CIDRS'', ''127.0.0.1/32,::1/128'')]"

definition env_text :: "(string \<times> string) list \<Rightarrow> string" where
  "env_text kvs = lines_text (map (\<lambda>(k, v). k @ ''='' @ v) kvs)"

fun write_files :: "(string \<Rightarrow> write_fault option) \<Rightarrow> string \<Rightarrow> (string \<times> bytes) list \<Rightarrow> file_system \<Rightarrow> file_system \<times> unit result" where
  "write_files faults dir [] fs = (fs, Inr ())"
| "write_files faults dir ((n, data) # rest) fs =
    (case write_file (faults n) fs (filepath_Join [dir, n]) data 384 of
       (fs', Inl err) \<Rightarrow> (fs', Inl err)
     | (fs', Inr _) \<Rightarrow> write_files faults dir rest fs')"

definition server_files :: "init_io \<Rightarrow> cert_lib \<Rightarrow> bytes \<Rightarrow> bytes \<Rightarrow> (string \<times> bytes) list" where
  "server_files io l der raw = (let files = [(''server.crt'', cb_pem l (cert_block der)), (''server.key'', cb_pem l (key_block raw))]
     in if ni_cert_first io then files else rev files)"

definition init_cidrs :: "InitOptions \<Rightarrow> string" where
  "init_cidrs opts = (if io_cidrs opts = [] then ''0.0.0.0/0,::/0'' else io_cidrs opts)"

definition write_validator :: "crypto \<Rightarrow> cert_lib \<Rightarrow> init_io \<Rightarrow> string \<Rightarrow> string \<Rightarrow> bytes \<Rightarrow> bytes \<Rightarrow> string \<Rightarrow> string \<Rightarrow> string
    \<Rightarrow> file_system \<Rightarrow> file_system \<times> string result" where
  "write_validator c l io dir port der raw caPass tokenKey cidrs fs =
    (case write_files (ni_faults io) dir (server_files io l der raw) fs of
       (fs1, Inl err) \<Rightarrow> (fs1, Inl err)
     | (fs1, Inr _) \<Rightarrow>
       (case CreateCA l ((ni_ca io)\<lparr>co_write := ni_faults io ''agent-ca.key''\<rparr>) fs1 (filepath_Join [dir, ''agent-ca.key'']) caPass (ni_now io) of
          (fs2, Inl err) \<Rightarrow> (fs2, Inl err)
        | (fs2, Inr ca) \<Rightarrow>
          (case write_file (ni_faults io ''validator.env'') fs2 (filepath_Join [dir, ''validator.env''])
              (env_text (env_lines dir port caPass tokenKey cidrs)) 384 of
             (fs3, Inl err) \<Rightarrow> (fs3, Inl err)
           | (fs3, Inr _) \<Rightarrow> (fs3, Inr (CertificatePin c der)))))"

text \<open>A private key that cannot be marshalled is written as an empty block.\<close>

definition init_raw :: "cert_lib \<Rightarrow> bytes \<Rightarrow> bytes" where
  "init_raw l key = (case cb_marshal l key of Inl err \<Rightarrow> [] | Inr raw \<Rightarrow> raw)"

text \<open>Success yields the printed pin.\<close>

definition Init_validator :: "crypto \<Rightarrow> cert_lib \<Rightarrow> env \<Rightarrow> init_io \<Rightarrow> InitOptions \<Rightarrow> file_system \<Rightarrow> file_system \<times> string result" where
  "Init_validator c l e io opts fs =
    (let dir = io_dir opts; cidrs = init_cidrs opts in
     if io_address opts = [] \<or> dir = [] then (fs, Inl (Error ''public address and directory required''))
     else if ok (stat_mode (ni_stat io) fs (filepath_Join [dir, ''validator.env''])) then (fs, Inl (Error ''validator already initialized''))
     else case ni_mkdir io of Inl err \<Rightarrow> (fs, Inl err)
     | Inr _ \<Rightarrow> (case split_host_port (io_address opts) of None \<Rightarrow> (fs, Inl (External ''address''))
     | Some (host, port) \<Rightarrow> (case ni_keys io of Inl err \<Rightarrow> (fs, Inl err)
     | Inr (pub, key) \<Rightarrow> (case ni_certify io (server_cert io host) pub key of Inl err \<Rightarrow> (fs, Inl err)
     | Inr der \<Rightarrow>
       (let raw = init_raw l key in case random_text e 0 32 of Inl err \<Rightarrow> (fs, Inl err)
        | Inr caPass \<Rightarrow> (case random_text e 1 32 of Inl err \<Rightarrow> (fs, Inl err)
        | Inr tokenKey \<Rightarrow>
          write_validator c l io dir port der raw caPass tokenKey cidrs fs))))))"

section \<open>The programs' command lines\<close>

text \<open>What is printed to the two streams and the exit status; \<open>start\<close> is the program proper.\<close>

definition app_Run :: "string \<Rightarrow> string \<times> string \<times> string \<Rightarrow> unit result \<Rightarrow> string list \<Rightarrow> string \<times> string \<times> nat" where
  "app_Run name build start args = (case args of
     [] \<Rightarrow> (case start of Inl err \<Rightarrow> ([], error_text err @ [CHR 0x0A], 1) | Inr _ \<Rightarrow> ([], [], 0))
   | a # rest \<Rightarrow>
      (if a \<in> {''help'', ''-h'', ''--help''} then (''Usage: '' @ name @ '' [help|version]'' @ [CHR 0x0A], [], 0)
       else if a \<in> {''version'', ''-v'', ''--version''}
       then (case build of (version, commit, date) \<Rightarrow> (name @ '' '' @ version @ '' (commit '' @ commit @ '', built '' @ date @ '')'' @ [CHR 0x0A], [], 0))
       else ([], ''unknown argument: '' @ a @ [CHR 0x0A], 2)))"

datatype validator_action = InitCommand InitOptions | LocalCommand "string list" string | AppCommand "string list" | ExitCommand nat

definition init_flags :: "(string \<times> bool) list" where
  "init_flags = [(''public-address'', False), (''dir'', False), (''agent-cidrs'', False)]"

definition validator_command :: "(string \<Rightarrow> string) \<Rightarrow> string list \<Rightarrow> validator_action" where
  "validator_command getenv args = (case args of [] \<Rightarrow> AppCommand args
   | a # rest \<Rightarrow>
      (if a = ''init'' then (case parse_flags init_flags rest [] of
           Inl st \<Rightarrow> ExitCommand st
         | Inr fl \<Rightarrow> InitCommand \<lparr>io_address = str_flag fl ''public-address'', io_dir = str_flag_or fl ''dir'' ''/etc/silent-devops'',
             io_cidrs = str_flag_or fl ''agent-cidrs'' ''0.0.0.0/0,::/0''\<rparr>)
       else if a \<notin> {''help'', ''version'', ''-h'', ''--help'', ''-v'', ''--version''}
       then LocalCommand args (if getenv ''SILENT_DEVOPS_LOCAL_SOCKET'' = [] then ''/run/silent-devops/validator.sock'' else getenv ''SILENT_DEVOPS_LOCAL_SOCKET'')
       else AppCommand args))"

section \<open>The client's pinned certificate\<close>

text \<open>The connection: dialling, the handshake, and the certificates presented. An empty list panics.\<close>

record fetch_io =
  fi_dial :: "unit result"
  fi_handshake :: "unit result"
  fi_certs :: "bytes list"
  fi_mkdir :: "unit result"
  fi_write :: "write_fault option"

definition certPEM :: "bytes \<Rightarrow> bytes" where
  "certPEM der = ''-----BEGIN CERTIFICATE-----'' @ [CHR 0x0A] @ padded_encode std_alphabet der @ [CHR 0x0A] @ ''-----END CERTIFICATE-----'' @ [CHR 0x0A]"

definition FetchPinnedCertificate :: "crypto \<Rightarrow> fetch_io \<Rightarrow> string \<Rightarrow> string \<Rightarrow> string \<Rightarrow> file_system \<Rightarrow> (file_system \<times> unit result) outcome" where
  "FetchPinnedCertificate c io address pin path fs =
    (if address = [] \<or> \<not> has_prefix pin ''sha256/'' then Ret (fs, Inl (Error ''address and sha256 pin required''))
     else case fi_dial io of Inl err \<Rightarrow> Ret (fs, Inl err)
     | Inr _ \<Rightarrow> (case fi_handshake io of Inl err \<Rightarrow> Ret (fs, Inl err)
     | Inr _ \<Rightarrow> (case fi_certs io of [] \<Rightarrow> Panic ''index out of range''
     | cert # rest \<Rightarrow>
        (if client_pin c cert \<noteq> pin then Ret (fs, Inl (Error ''validator certificate pin mismatch''))
         else case fi_mkdir io of Inl err \<Rightarrow> Ret (fs, Inl err)
         | Inr _ \<Rightarrow> Ret (write_file (fi_write io) fs path (certPEM cert) 384)))))"

section \<open>The environment of a service\<close>

text \<open>
  What systemd documents of an environment file: a line \<open>NAME=value\<close> whose value needs no quoting sets the
  variable, if it is the only line for that name.
\<close>

definition env_char :: "char \<Rightarrow> bool" where
  "env_char ch \<longleftrightarrow> 33 \<le> byte ch \<and> byte ch \<le> 126 \<and> byte ch \<notin> {34, 35, 36, 37, 39, 59, 92, 96}"

definition env_name :: "string \<Rightarrow> bool" where
  "env_name k \<longleftrightarrow> list_all (\<lambda>ch. 65 \<le> byte ch \<and> byte ch \<le> 90 \<or> ch = CHR ''_'') k"

definition service_env :: "(string \<Rightarrow> string) \<Rightarrow> string \<Rightarrow> bool" where
  "service_env getenv content \<longleftrightarrow> (\<forall>k v. let ls = split (CHR 0x0A) content; line = k @ ''='' @ v in
     line \<in> set ls \<and> env_name k \<and> list_all env_char v \<and> (\<forall>l \<in> set ls. has_prefix l (k @ ''='') \<longrightarrow> l = line) \<longrightarrow> getenv k = v)"

lemma env_name_no_equals: "env_name k \<Longrightarrow> CHR ''='' \<notin> set k"
  by (auto simp: env_name_def list_all_iff byte_def)

lemma env_char_no_newline: "list_all env_char v \<Longrightarrow> CHR 0x0A \<notin> set v"
  by (auto simp: env_char_def list_all_iff byte_def)

lemma env_name_no_newline: "env_name k \<Longrightarrow> CHR 0x0A \<notin> set k"
  by (auto simp: env_name_def list_all_iff byte_def)

lemma equals_prefix:
  assumes "CHR ''='' \<notin> set k" "CHR ''='' \<notin> set k2" "has_prefix (k2 @ ''='' @ v2) (k @ ''='')"
  shows "k = k2"
proof -
  obtain r where "k2 @ CHR ''='' # v2 = k @ CHR ''='' # r" using assms(3) by (auto simp: has_prefix_iff)
  then have "takeWhile (\<lambda>ch. ch \<noteq> CHR ''='') (k2 @ CHR ''='' # v2) = takeWhile (\<lambda>ch. ch \<noteq> CHR ''='') (k @ CHR ''='' # r)" by simp
  moreover have "takeWhile (\<lambda>ch. ch \<noteq> CHR ''='') (x @ CHR ''='' # y) = x" if "CHR ''='' \<notin> set x" for x y
    using that by (induction x) auto
  ultimately show ?thesis using assms(1,2) by simp
qed

lemma service_env_lookup:
  assumes "service_env getenv (env_text ls)" "distinct (map fst ls)" "\<forall>(k, v) \<in> set ls. env_name k \<and> list_all env_char v"
    and "(k, v) \<in> set ls"
  shows "getenv k = v"
proof -
  let ?lines = "map (\<lambda>(k, v). k @ ''='' @ v) ls"
  have "\<forall>l \<in> set ?lines. CHR 0x0A \<notin> set l"
    using assms(3) env_char_no_newline env_name_no_newline by fastforce
  then have sp: "split (CHR 0x0A) (env_text ls) = ?lines @ [[]]" by (simp add: env_text_def split_lines_text)
  have "l = k @ ''='' @ v" if l: "l \<in> set (?lines @ [[]])" "has_prefix l (k @ ''='')" for l
  proof (cases "l = []")
    case True
    then show ?thesis using l(2) by (simp add: has_prefix_def)
  next
    case False
    then obtain k2 v2 where kv: "(k2, v2) \<in> set ls" "l = k2 @ ''='' @ v2" using l(1) by auto
    have "k = k2"
      using equals_prefix [of k k2 v2] l(2) kv assms(3,4) env_name_no_equals by fastforce
    then show ?thesis using kv assms(2,4) by (simp add: eq_key_imp_eq_value)
  qed
  then have "\<forall>l \<in> set (?lines @ [[]]). has_prefix l (k @ ''='') \<longrightarrow> l = k @ ''='' @ v" by blast
  moreover have "k @ ''='' @ v \<in> set (?lines @ [[]])" using assms(4) by force
  moreover have "env_name k" "list_all env_char v" using assms(3,4) by auto
  ultimately show ?thesis using assms(1) unfolding service_env_def sp Let_def by blast
qed

text \<open>The characters of the values.\<close>

lemma clean_parts_chars: "p \<in> set (clean_parts root acc ps) \<Longrightarrow> p \<in> set acc \<union> set ps \<union> {''..''}"
  by (induction root acc ps rule: clean_parts.induct) (auto split: if_splits list.splits)

lemma split_chars: "p \<in> set (split c s) \<Longrightarrow> set p \<subseteq> set s"
proof (induction s arbitrary: p)
  case (Cons a s)
  obtain q qs where q: "split c s = q # qs" by (cases "split c s") auto
  then have "set q \<subseteq> set s" "\<forall>x \<in> set qs. set x \<subseteq> set s" using Cons.IH by auto
  then show ?case using Cons.prems q by (auto split: if_splits)
qed simp

lemma join_chars: "set (join sep ps) \<subseteq> set sep \<union> \<Union> (set ` set ps)"
  by (induction sep ps rule: join.induct) auto

lemma Clean_chars: "set (filepath_Clean path) \<subseteq> set path \<union> {slash, CHR ''.''}"
proof -
  have "\<Union> (set ` set (path_parts path)) \<subseteq> set path \<union> {CHR ''.''}"
    unfolding path_parts_def using clean_parts_chars split_chars by fastforce
  then show ?thesis
    using join_chars [of "''/''" "path_parts path"] unfolding filepath_Clean_def path_text_def slash_def
    by (simp del: UN_simps) blast
qed

lemma Join_chars: "set (filepath_Join [dir, n]) \<subseteq> set dir \<union> set n \<union> {slash, CHR ''.''}"
proof -
  consider "dir = []" "n = []" | "dir = []" "n \<noteq> []" | "dir \<noteq> []" by blast
  then show ?thesis
  proof cases
    case 2
    then show ?thesis using Clean_chars [of n] by (simp add: filepath_Join_def)
  next
    case 3
    then show ?thesis using Clean_chars [of "dir @ ''/'' @ n"] by (auto simp: filepath_Join_def slash_def)
  qed (simp add: filepath_Join_def)
qed

lemma split_host_port_chars: "split_host_port s = Some (h, p) \<Longrightarrow> set p \<subseteq> set s"
  by (auto simp: split_host_port_def split: option.splits if_splits dest: in_set_dropD)

lemma random_text_facts: "random_text e k 32 = Inr t \<Longrightarrow> List.length t = 43 \<and> list_all env_char t"
proof -
  assume "random_text e k 32 = Inr t"
  then obtain raw where r: "List.length raw = 32" "t = raw_url_encode raw"
    by (auto simp: random_text_def dest: rand_read_length split: sum.splits)
  have "list_all env_char (map (\<lambda>k. url_alphabet ! k) [0..<64])" by code_simp
  then have "list_all env_char t"
    using raw_encode_chars [of url_alphabet raw] r(2) by (auto simp: list_all_iff)
  then show ?thesis using r by (simp add: raw_encode_def sextets_length)
qed

section \<open>An initialised validator starts\<close>

lemma write_validator_result:
  assumes "write_validator c l io dir port der raw caPass tokenKey cidrs fs = (fs', Inr pin)"
  shows "pin = CertificatePin c der \<and> (\<exists>fs1 fs2 ca.
      write_files (ni_faults io) dir (server_files io l der raw) fs = (fs1, Inr ())
    \<and> CreateCA l ((ni_ca io)\<lparr>co_write := ni_faults io ''agent-ca.key''\<rparr>) fs1 (filepath_Join [dir, ''agent-ca.key'']) caPass (ni_now io) = (fs2, Inr ca)
    \<and> write_file (ni_faults io ''validator.env'') fs2 (filepath_Join [dir, ''validator.env''])
        (env_text (env_lines dir port caPass tokenKey cidrs)) 384 = (fs', Inr ()))"
  using assms unfolding write_validator_def by (auto split: sum.splits prod.splits)

text \<open>The certificate and the key that a run makes for a host.\<close>

definition init_pair :: "cert_lib \<Rightarrow> init_io \<Rightarrow> string \<Rightarrow> bytes \<Rightarrow> bytes \<Rightarrow> bool" where
  "init_pair l io host der raw \<longleftrightarrow> (\<exists>pub key. ni_keys io = Inr (pub, key) \<and> ni_certify io (server_cert io host) pub key = Inr der
     \<and> raw = init_raw l key)"

lemma Init_result:
  assumes "Init_validator c l e io opts fs = (fs', Inr pin)"
  shows "\<exists>host port der raw caPass tokenKey. split_host_port (io_address opts) = Some (host, port) \<and> init_pair l io host der raw
    \<and> random_text e 0 32 = Inr caPass \<and> random_text e 1 32 = Inr tokenKey \<and> io_dir opts \<noteq> []
    \<and> write_validator c l io (io_dir opts) port der raw caPass tokenKey (init_cidrs opts) fs = (fs', Inr pin)"
  using assms unfolding Init_validator_def Let_def init_pair_def by (auto split: if_splits sum.splits option.splits prod.splits)

definition certified_parses :: "cert_lib \<Rightarrow> bool" where
  "certified_parses l \<longleftrightarrow> (\<forall>t pub key der. cb_certify l t pub key = Inr der \<longrightarrow> ok (cb_parse_cert l der))"

lemma CreateCA_cert: "certified_parses l \<Longrightarrow> CreateCA l io fs path pass now = (fs', Inr ca) \<Longrightarrow>
    ca_cert ca \<noteq> None \<and> (\<exists>der. ca_pem ca = cb_pem l (cert_block der) \<and> ok (cb_parse_cert l der))"
  by (fastforce simp: CreateCA_def certified_parses_def ok_iff write_file_def Let_def split: if_splits sum.splits option.splits write_fault.splits)

lemma write_file_Inr: "write_file fault fs path data mode = (fs', Inr ()) \<Longrightarrow>
    (\<exists>m. fs' path = Some (data, m)) \<and> (\<forall>p. p \<noteq> path \<longrightarrow> fs' p = fs p)"
  by (auto simp: write_file_def Let_def split: option.splits write_fault.splits)

lemma Join_not_empty: "plain_part n \<Longrightarrow> filepath_Join [dir, n] \<noteq> []"
proof -
  assume n: "plain_part n"
  then obtain pre where "filepath_Join [dir, n] = pre @ n" using Join_name [of n dir] by blast
  then show ?thesis using n by (simp add: plain_part_def)
qed

lemma init_names: "plain_part ''server.crt''" "plain_part ''server.key''" "plain_part ''agent-ca.key''" "plain_part ''validator.env''"
  by (simp_all add: plain_part_def slash_def)

lemma write_server_files:
  assumes "write_files faults dir (server_files io l der key) fs = (fs', Inr ())"
  shows "(\<exists>m. fs' (filepath_Join [dir, ''server.crt'']) = Some (cb_pem l (cert_block der), m))
    \<and> (\<exists>m. fs' (filepath_Join [dir, ''server.key'']) = Some (cb_pem l (key_block key), m))
    \<and> (\<forall>p. p \<noteq> filepath_Join [dir, ''server.crt''] \<longrightarrow> p \<noteq> filepath_Join [dir, ''server.key''] \<longrightarrow> fs' p = fs p)"
proof -
  have ne: "filepath_Join [dir, ''server.crt''] \<noteq> filepath_Join [dir, ''server.key'']"
    using init_names by (simp add: Join_inject)
  show ?thesis
  proof (cases "ni_cert_first io")
    case True
    then obtain fs1 where w: "write_file (faults ''server.crt'') fs (filepath_Join [dir, ''server.crt'']) (cb_pem l (cert_block der)) 384 = (fs1, Inr ())"
        "write_file (faults ''server.key'') fs1 (filepath_Join [dir, ''server.key'']) (cb_pem l (key_block key)) 384 = (fs', Inr ())"
      using assms by (auto simp: server_files_def split: prod.splits sum.splits)
    show ?thesis using write_file_Inr [OF w(1)] write_file_Inr [OF w(2)] ne by auto
  next
    case False
    then obtain fs1 where w: "write_file (faults ''server.key'') fs (filepath_Join [dir, ''server.key'']) (cb_pem l (key_block key)) 384 = (fs1, Inr ())"
        "write_file (faults ''server.crt'') fs1 (filepath_Join [dir, ''server.crt'']) (cb_pem l (cert_block der)) 384 = (fs', Inr ())"
      using assms by (auto simp: server_files_def split: prod.splits sum.splits)
    show ?thesis using write_file_Inr [OF w(1)] write_file_Inr [OF w(2)] ne by auto
  qed
qed

lemma env_lines_plain:
  assumes "list_all env_char dir" "list_all env_char port" "list_all env_char cidrs" "list_all env_char caPass" "list_all env_char tokenKey"
  shows "\<forall>(k, v) \<in> set (env_lines dir port caPass tokenKey cidrs). env_name k \<and> list_all env_char v"
proof -
  have j: "list_all env_char (filepath_Join [dir, n])" if "list_all env_char n" for n
  proof -
    have "env_char slash" "env_char (CHR ''.'')" by (simp_all add: env_char_def slash_def byte_def)
    then show ?thesis using Join_chars [of dir n] assms(1) that by (auto simp: list_all_iff)
  qed
  have n: "list_all env_char ''server.crt''" "list_all env_char ''server.key''" "list_all env_char ''agent-ca.key''"
      "list_all env_char ''0.0.0.0:''" "list_all env_char ''/var/lib/silent-devops/devops.db''" "list_all env_char ''127.0.0.1/32,::1/128''"
    by code_simp+
  have k: "list_all env_name (map fst (env_lines dir port caPass tokenKey cidrs))"
    by (simp add: env_lines_def) code_simp
  show ?thesis using j [OF n(1)] j [OF n(2)] j [OF n(3)] n(4-6) assms k by (simp add: env_lines_def)
qed

lemma env_lines_distinct: "distinct (map fst (env_lines dir port caPass tokenKey cidrs))"
  by (simp add: env_lines_def)

lemma init_files:
  assumes "pem_reads l" "keys_read l" "encryption_opens l" "certified_parses l"
    and "Init_validator c l e io opts fs = (fs', Inr pin)" "fs (filepath_Join [io_dir opts, ''agent-ca.key'']) = None"
    and "cidrs = init_cidrs opts"
  shows "\<exists>host port caPass tokenKey der raw ca m m2 m3. split_host_port (io_address opts) = Some (host, port)
    \<and> random_text e 0 32 = Inr caPass \<and> random_text e 1 32 = Inr tokenKey \<and> pin = CertificatePin c der \<and> init_pair l io host der raw
    \<and> fs' (filepath_Join [io_dir opts, ''server.crt'']) = Some (cb_pem l (cert_block der), m)
    \<and> fs' (filepath_Join [io_dir opts, ''server.key'']) = Some (cb_pem l (key_block raw), m3)
    \<and> fs' (filepath_Join [io_dir opts, ''validator.env'']) = Some (env_text (env_lines (io_dir opts) port caPass tokenKey cidrs), m2)
    \<and> LoadCA l None (\<lambda>_. None) fs' (filepath_Join [io_dir opts, ''agent-ca.key'']) caPass = Inr ca
    \<and> (\<exists>der2. ca_pem ca = cb_pem l (cert_block der2) \<and> ok (cb_parse_cert l der2))"
proof -
  let ?dir = "io_dir opts"
  obtain host port der key caPass tokenKey where i0: "split_host_port (io_address opts) = Some (host, port)"
      "random_text e 0 32 = Inr caPass" "random_text e 1 32 = Inr tokenKey" "init_pair l io host der key"
    and wv: "write_validator c l io ?dir port der key caPass tokenKey cidrs fs = (fs', Inr pin)"
    using Init_result [OF assms(5)] unfolding assms(7) by blast
  obtain fs1 fs2 ca where i: "pin = CertificatePin c der"
    and files: "write_files (ni_faults io) ?dir (server_files io l der key) fs = (fs1, Inr ())"
    and authority: "CreateCA l ((ni_ca io)\<lparr>co_write := ni_faults io ''agent-ca.key''\<rparr>) fs1 (filepath_Join [?dir, ''agent-ca.key'']) caPass (ni_now io) = (fs2, Inr ca)"
    and env: "write_file (ni_faults io ''validator.env'') fs2 (filepath_Join [?dir, ''validator.env''])
        (env_text (env_lines ?dir port caPass tokenKey cidrs)) 384 = (fs', Inr ())"
    using write_validator_result [OF wv] by blast
  have ne: "filepath_Join [?dir, ''agent-ca.key''] \<noteq> filepath_Join [?dir, ''server.crt'']" "filepath_Join [?dir, ''agent-ca.key''] \<noteq> filepath_Join [?dir, ''server.key'']"
      "filepath_Join [?dir, ''validator.env''] \<noteq> filepath_Join [?dir, ''agent-ca.key'']" "filepath_Join [?dir, ''validator.env''] \<noteq> filepath_Join [?dir, ''server.crt'']"
      "filepath_Join [?dir, ''validator.env''] \<noteq> filepath_Join [?dir, ''server.key'']"
    using init_names by (simp_all add: Join_inject)
  note w = write_server_files [OF files] and ca = ca_effect [OF assms(1-3) authority] and v = write_file_Inr [OF env]
  obtain cert where cert: "ca_cert ca = Some cert" using CreateCA_cert [OF assms(4) authority] by blast
  have "fs1 (filepath_Join [?dir, ''agent-ca.key'']) = None" using w ne(1,2) assms(6) by simp
  then have "LoadCA l None (\<lambda>_. None) fs2 (filepath_Join [?dir, ''agent-ca.key'']) caPass = Inr ca" using ca cert by auto
  moreover have "LoadCA l None (\<lambda>_. None) fs' (filepath_Join [?dir, ''agent-ca.key'']) caPass = LoadCA l None (\<lambda>_. None) fs2 (filepath_Join [?dir, ''agent-ca.key'']) caPass"
    using v [THEN conjunct2, rule_format, OF ne(3) [symmetric]] by (rule LoadCA_cong)
  ultimately have load: "LoadCA l None (\<lambda>_. None) fs' (filepath_Join [?dir, ''agent-ca.key'']) caPass = Inr ca" by simp
  obtain m where crt: "fs' (filepath_Join [?dir, ''server.crt'']) = Some (cb_pem l (cert_block der), m)"
  proof -
    have "fs' (filepath_Join [?dir, ''server.crt'']) = fs1 (filepath_Join [?dir, ''server.crt''])"
      using ca [THEN conjunct1, rule_format, OF ne(1) [symmetric]] v [THEN conjunct2, rule_format, OF ne(4) [symmetric]] by simp
    then show ?thesis using w that by auto
  qed
  obtain m3 where key: "fs' (filepath_Join [?dir, ''server.key'']) = Some (cb_pem l (key_block key), m3)"
  proof -
    have "fs' (filepath_Join [?dir, ''server.key'']) = fs1 (filepath_Join [?dir, ''server.key''])"
      using ca [THEN conjunct1, rule_format, OF ne(2) [symmetric]] v [THEN conjunct2, rule_format, OF ne(5) [symmetric]] by simp
    then show ?thesis using w that by auto
  qed
  have "\<exists>der2. ca_pem ca = cb_pem l (cert_block der2) \<and> ok (cb_parse_cert l der2)" using CreateCA_cert [OF assms(4) authority] by blast
  then show ?thesis using i0 i load crt key v by blast
qed

lemma init_config:
  assumes "service_env getenv (env_text (env_lines dir port caPass tokenKey cidrs))" "list_all env_char dir" "list_all env_char port"
    and "list_all env_char cidrs" "random_text e 0 32 = Inr caPass" "random_text e 1 32 = Inr tokenKey"
    and "ParseCIDRs pp (split_list cidrs) = Inr agentPolicy" "ParseCIDRs pp [''127.0.0.1/32'', ''::1/128''] = Inr clientPolicy"
  shows "\<exists>cfg. ParseValidatorConfig pp getenv = Inr cfg \<and> vc_listen cfg = ''0.0.0.0:'' @ port
    \<and> vc_tls_cert cfg = filepath_Join [dir, ''server.crt''] \<and> vc_tls_key cfg = filepath_Join [dir, ''server.key'']
    \<and> vc_client_ca cfg = filepath_Join [dir, ''server.crt''] \<and> vc_agent_ca cfg = filepath_Join [dir, ''agent-ca.key'']
    \<and> vc_bootstrap_user cfg = getenv ''SILENT_DEVOPS_BOOTSTRAP_USER'' \<and> vc_bootstrap_password cfg = getenv ''SILENT_DEVOPS_BOOTSTRAP_PASSWORD''
    \<and> vc_passphrase cfg = caPass \<and> ok (NewIssuer (vc_token_key cfg) (15 * minute))
    \<and> vc_policies cfg = \<lparr>ep_enrollment = agentPolicy, ep_agent = agentPolicy, ep_client = clientPolicy\<rparr>"
proof -
  have r: "List.length caPass = 43" "List.length tokenKey = 43" "list_all env_char caPass" "list_all env_char tokenKey"
    using random_text_facts [OF assms(5)] random_text_facts [OF assms(6)] by auto
  note g = service_env_lookup [OF assms(1) env_lines_distinct env_lines_plain [OF assms(2-4) r(3,4)]]
  have all: "\<forall>kv \<in> set (env_lines dir port caPass tokenKey cidrs). getenv (fst kv) = snd kv" using g by (metis prod.collapse)
  have get: "getenv ''SILENT_DEVOPS_LISTEN'' = ''0.0.0.0:'' @ port
    \<and> getenv ''SILENT_DEVOPS_DB'' = ''/var/lib/silent-devops/devops.db''
    \<and> getenv ''SILENT_DEVOPS_TLS_CERT'' = filepath_Join [dir, ''server.crt'']
    \<and> getenv ''SILENT_DEVOPS_TLS_KEY'' = filepath_Join [dir, ''server.key'']
    \<and> getenv ''SILENT_DEVOPS_CLIENT_CA'' = filepath_Join [dir, ''server.crt'']
    \<and> getenv ''SILENT_DEVOPS_AGENT_CA'' = filepath_Join [dir, ''agent-ca.key'']
    \<and> getenv ''SILENT_DEVOPS_AGENT_CA_PASSPHRASE'' = caPass
    \<and> getenv ''SILENT_DEVOPS_TOKEN_KEY'' = tokenKey
    \<and> getenv ''SILENT_DEVOPS_ENROLL_CIDRS'' = cidrs
    \<and> getenv ''SILENT_DEVOPS_AGENT_CIDRS'' = cidrs
    \<and> getenv ''SILENT_DEVOPS_CLIENT_CIDRS'' = ''127.0.0.1/32,::1/128''"
    using all unfolding env_lines_def list.set ball_simps fst_conv snd_conv simp_thms .
  note ns = Join_not_empty [of _ dir]
  have sp: "split_list ''127.0.0.1/32,::1/128'' = [''127.0.0.1/32'', ''::1/128'']" by code_simp
  let ?cfg = "\<lparr>vc_listen = ''0.0.0.0:'' @ port, vc_db = ''/var/lib/silent-devops/devops.db'', vc_tls_cert = filepath_Join [dir, ''server.crt''],
      vc_tls_key = filepath_Join [dir, ''server.key''], vc_client_ca = filepath_Join [dir, ''server.crt''], vc_agent_ca = filepath_Join [dir, ''agent-ca.key''],
      vc_passphrase = caPass, vc_token_key = tokenKey, vc_policies = \<lparr>ep_enrollment = agentPolicy, ep_agent = agentPolicy, ep_client = clientPolicy\<rparr>,
      vc_bootstrap_user = getenv ''SILENT_DEVOPS_BOOTSTRAP_USER'', vc_bootstrap_password = getenv ''SILENT_DEVOPS_BOOTSTRAP_PASSWORD'',
      vc_socket = (if getenv ''SILENT_DEVOPS_LOCAL_SOCKET'' = [] then ''/run/silent-devops/validator.sock'' else getenv ''SILENT_DEVOPS_LOCAL_SOCKET'')\<rparr>"
  have "ParseValidatorConfig pp getenv = Inr ?cfg"
    unfolding ParseValidatorConfig_def Let_def
    by (simp only: get) (simp add: r(1,2) ns [OF init_names(1)] ns [OF init_names(2)] ns [OF init_names(3)] assms(7,8) sp)
  moreover have "ok (NewIssuer tokenKey (15 * minute))" using r(2) by (simp add: NewIssuer_def go_time)
  ultimately show ?thesis by (intro exI [of _ ?cfg]) simp
qed

text \<open>What a validator initialised in a directory without an older authority writes is enough to start it: its
  service reads back a valid configuration with the port and the address policies that were asked for, a
  token key that can issue tokens, the certificate whose pin was printed, and an authority that opens
  with the passphrase of the environment file.\<close>

theorem initialised_validator_starts:
  assumes "pem_reads l" "keys_read l" "encryption_opens l" "certified_parses l"
    and "Init_validator c l e io opts fs = (fs', Inr pin)" "fs (filepath_Join [io_dir opts, ''agent-ca.key'']) = None"
    and "fs' (filepath_Join [io_dir opts, ''validator.env'']) = Some (content, mode)" "service_env getenv content"
    and "list_all env_char (io_dir opts)" "list_all env_char (io_address opts)" "list_all env_char cidrs"
    and "cidrs = init_cidrs opts"
    and "ParseCIDRs pp (split_list cidrs) = Inr agentPolicy" "ParseCIDRs pp [''127.0.0.1/32'', ''::1/128''] = Inr clientPolicy"
  shows "\<exists>cfg host port ca der m. split_host_port (io_address opts) = Some (host, port)
    \<and> ParseValidatorConfig pp getenv = Inr cfg \<and> vc_listen cfg = ''0.0.0.0:'' @ port
    \<and> vc_policies cfg = \<lparr>ep_enrollment = agentPolicy, ep_agent = agentPolicy, ep_client = clientPolicy\<rparr>
    \<and> ok (NewIssuer (vc_token_key cfg) (15 * minute))
    \<and> fs' (vc_tls_cert cfg) = Some (cb_pem l (cert_block der), m) \<and> pin = CertificatePin c der
    \<and> LoadCA l None (\<lambda>_. None) fs' (vc_agent_ca cfg) (vc_passphrase cfg) = Inr ca"
proof -
  obtain host port caPass tokenKey der ca m m2 where i: "split_host_port (io_address opts) = Some (host, port)"
      "random_text e 0 32 = Inr caPass" "random_text e 1 32 = Inr tokenKey" "pin = CertificatePin c der"
    and f: "fs' (filepath_Join [io_dir opts, ''server.crt'']) = Some (cb_pem l (cert_block der), m)"
      "fs' (filepath_Join [io_dir opts, ''validator.env'']) = Some (env_text (env_lines (io_dir opts) port caPass tokenKey cidrs), m2)"
      "LoadCA l None (\<lambda>_. None) fs' (filepath_Join [io_dir opts, ''agent-ca.key'']) caPass = Inr ca"
    using init_files [OF assms(1-6,12)] by blast
  have t: "content = env_text (env_lines (io_dir opts) port caPass tokenKey cidrs)" using f(2) assms(7) by simp
  have "list_all env_char port" using split_host_port_chars [OF i(1)] assms(10) by (auto simp: list_all_iff)
  from init_config [OF assms(8) [unfolded t] assms(9) this assms(11) i(2,3) assms(13,14)] i f(1,3)
  show ?thesis by fastforce
qed

text \<open>The two sides write the digest of a certificate differently, without and with base64 padding. So the
  pin that an initialised validator prints is refused by every client, whatever certificate is presented,
  and the pin that the installation guide computes is refused by every agent, which sends nothing.\<close>

theorem published_pins_refused:
  assumes "\<And>m. List.length (sha256 c m) = 32"
  shows "(FetchPinnedCertificate c io address (CertificatePin c der) path fs = Ret (fs', res) \<longrightarrow> fs' = fs \<and> \<not> ok res)
    \<and> (jo_pin opts = client_pin c der \<longrightarrow> fst (snd (Join c l jio opts fs)) = None)"
proof (rule conjI; rule impI)
  show "fs' = fs \<and> \<not> ok res" if "FetchPinnedCertificate c io address (CertificatePin c der) path fs = Ret (fs', res)"
    using that client_pin_never_matches [OF assms]
    by (auto simp: FetchPinnedCertificate_def ok_def split: if_splits sum.splits list.splits)
  assume p: "jo_pin opts = client_pin c der"
  obtain fs2 sent res2 where j: "Join c l jio opts fs = (fs2, sent, res2)" by (metis prod.exhaust)
  show "fst (snd (Join c l jio opts fs)) = None"
  proof (cases sent)
    case (Some request)
    then obtain certificate where "VerifyCertificatePin c certificate (jo_pin opts) = Inr ()"
      using Join_sent [where c = c and l = l and io = jio and opts = opts and fs = fs] j by auto
    then show ?thesis
      using p client_pin_never_matches [OF assms, of der certificate] by (auto simp: VerifyCertificatePin_def Let_def split: if_splits)
  qed (simp add: j)
qed

section \<open>Witnesses\<close>

definition demo_getenv :: "string \<Rightarrow> string \<Rightarrow> string" where
  "demo_getenv content k = (case List.find (\<lambda>l. has_prefix l (k @ ''='')) (split (CHR 0x0A) content) of
     None \<Rightarrow> [] | Some l \<Rightarrow> drop (List.length k + 1) l)"

lemma demo_service_env: "service_env (demo_getenv content) content"
  unfolding service_env_def Let_def
proof (intro allI impI)
  fix k v
  let ?line = "k @ ''='' @ v"
  assume a: "?line \<in> set (split (CHR 0x0A) content) \<and> env_name k \<and> list_all env_char v
    \<and> (\<forall>l \<in> set (split (CHR 0x0A) content). has_prefix l (k @ ''='') \<longrightarrow> l = ?line)"
  have "has_prefix ?line (k @ ''='')" by (auto simp: has_prefix_iff)
  then have "List.find (\<lambda>l. has_prefix l (k @ ''='')) (split (CHR 0x0A) content) = Some ?line"
    using a by (intro find_unique) auto
  then show "demo_getenv content k = v" by (simp add: demo_getenv_def)
qed

definition demo_init :: init_io where
  "demo_init = \<lparr>ni_stat = None, ni_mkdir = Inr (), ni_keys = Inr (''pub'', ''key''), ni_now = 0, ni_one_year = (\<lambda>t. t + 8766 * hour),
     ni_parse_ip = (\<lambda>h. None), ni_certify = (\<lambda>t pub key. Inr (sv_common_name t @ pub)), ni_faults = (\<lambda>n. None),
     ni_cert_first = False, ni_ca = demo_ca_io\<rparr>"

definition demo_init_opts :: InitOptions where
  "demo_init_opts = \<lparr>io_address = ''v:8443'', io_dir = ''/etc/sd'', io_cidrs = []\<rparr>"

lemma demo_certified_parses: "certified_parses demo_lib"
  by (simp add: certified_parses_def demo_lib_sel)

lemma demo_init_succeeds: "\<exists>fs pin. Init_validator toy_crypto demo_lib (calm 0) demo_init demo_init_opts (\<lambda>_. None) = (fs, Inr pin)"
proof -
  obtain caPass tokenKey where r: "random_text (calm 0) 0 32 = Inr caPass" "random_text (calm 0) (Suc 0) 32 = Inr tokenKey"
    by (simp add: random_text_def del: upt_rec_numeral)
  have "\<not> List.length caPass < 16" using random_text_facts [OF r(1)] by simp
  moreover have "split_host_port ''v:8443'' = Some (''v'', ''8443'')" by code_simp
  ultimately show ?thesis using r
    by (simp add: Init_validator_def init_raw_def write_validator_def server_files_def demo_init_def demo_init_opts_def demo_ca_io_def
        stat_mode_def write_file_def CreateCA_def demo_lib_def Let_def)
qed

theorem initialised_validator_starts_witness:
  "\<exists>fs pin content mode cfg. Init_validator toy_crypto demo_lib (calm 0) demo_init demo_init_opts (\<lambda>_. None) = (fs, Inr pin)
    \<and> fs (filepath_Join [''/etc/sd'', ''validator.env'']) = Some (content, mode)
    \<and> ParseValidatorConfig (\<lambda>v. Inr \<lparr>p_addr = V4 0, p_bits = 0\<rparr>) (demo_getenv content) = Inr cfg \<and> vc_listen cfg = ''0.0.0.0:8443''"
proof -
  let ?pp = "\<lambda>v. Inr \<lparr>p_addr = V4 0, p_bits = 0\<rparr>"
  obtain fs pin where i: "Init_validator toy_crypto demo_lib (calm 0) demo_init demo_init_opts (\<lambda>_. None) = (fs, Inr pin)"
    using demo_init_succeeds by blast
  have o: "io_dir demo_init_opts = ''/etc/sd''" "io_address demo_init_opts = ''v:8443''" "init_cidrs demo_init_opts = ''0.0.0.0/0,::/0''"
    by (simp_all add: demo_init_opts_def init_cidrs_def)
  obtain content mode where t: "fs (filepath_Join [io_dir demo_init_opts, ''validator.env'']) = Some (content, mode)"
    using init_files [OF demo_lib_laws demo_certified_parses i _ refl] by auto
  have c: "list_all env_char (io_dir demo_init_opts)" "list_all env_char (io_address demo_init_opts)" "list_all env_char ''0.0.0.0/0,::/0''"
    unfolding o by code_simp+
  have "split_list ''0.0.0.0/0,::/0'' = [''0.0.0.0/0'', ''::/0'']" by code_simp
  then obtain agentPolicy clientPolicy where p: "ParseCIDRs ?pp (split_list ''0.0.0.0/0,::/0'') = Inr agentPolicy"
      "ParseCIDRs ?pp [''127.0.0.1/32'', ''::1/128''] = Inr clientPolicy"
    by (simp add: ParseCIDRs_def)
  have h: "split_host_port ''v:8443'' = Some (''v'', ''8443'')" by code_simp
  show ?thesis
    using initialised_validator_starts [OF demo_lib_laws demo_certified_parses i _ t demo_service_env c o(3) [symmetric] p] i t h o(1,2)
    by fastforce
qed

theorem published_pins_refused_witness:
  "FetchPinnedCertificate toy_crypto \<lparr>fi_dial = Inr (), fi_handshake = Inr (), fi_certs = [''cert''], fi_mkdir = Inr (), fi_write = None\<rparr>
      ''v:1'' (CertificatePin toy_crypto ''cert'') ''p'' (\<lambda>_. None) = Ret (\<lambda>_. None, Inl (Error ''validator certificate pin mismatch''))
    \<and> fst (snd (Join toy_crypto demo_lib (demo_join_io (\<lambda>n. no_faults ''/t'')) (demo_opts\<lparr>jo_pin := client_pin toy_crypto ''cert''\<rparr>) (\<lambda>_. None))) = None"
proof -
  have s: "\<And>m. List.length (sha256 toy_crypto m) = 32" by (simp add: toy_crypto_def)
  let ?io = "\<lparr>fi_dial = Inr (), fi_handshake = Inr (), fi_certs = [''cert''], fi_mkdir = Inr (), fi_write = None\<rparr>"
  have "has_prefix (CertificatePin toy_crypto ''cert'') ''sha256/''" by (simp add: CertificatePin_def has_prefix_def)
  then have f: "FetchPinnedCertificate toy_crypto ?io ''v:1'' (CertificatePin toy_crypto ''cert'') ''p'' (\<lambda>_. None) =
      Ret (if client_pin toy_crypto ''cert'' = CertificatePin toy_crypto ''cert'' then write_file None (\<lambda>_. None) ''p'' (certPEM ''cert'') 384
        else (\<lambda>_. None, Inl (Error ''validator certificate pin mismatch'')))"
    by (simp add: FetchPinnedCertificate_def)
  show ?thesis
    using published_pins_refused [OF s, where io = ?io and address = "''v:1''" and der = "''cert''" and path = "''p''" and fs = "\<lambda>_. None"
        and opts = "demo_opts\<lparr>jo_pin := client_pin toy_crypto ''cert''\<rparr>" and l = demo_lib and jio = "demo_join_io (\<lambda>n. no_faults ''/t'')"]
      f client_pin_never_matches [OF s] by simp
qed

end
