(* ===== verification/LocalControl.thy ===== *)
theory LocalControl
  imports ServerAdmin ValidatorSetup
begin

text \<open>
  Administration on the validator's own host: the interceptor of the Unix socket
  (\<open>src/internal/localcontrol\<close>), the commands of \<open>src/cmd/validator/local.go\<close> against
  the fleet service's handlers, and the code of a client invitation, which
  \<open>src/internal/clientcli/profile.go\<close> decodes. JSON is a parameter.
\<close>

section \<open>The socket's interceptor\<close>

datatype auth_info = UnixPeer u32 u32 | OtherAuth

text \<open>\<open>ServerHandshake\<close>: the raw connection, running the control function on it, and the socket option.\<close>

definition ServerHandshake :: "unit result \<Rightarrow> unit result \<Rightarrow> (u32 \<times> u32) result \<Rightarrow> auth_info result" where
  "ServerHandshake raw control cred = (case raw of Inl err \<Rightarrow> Inl err
   | Inr _ \<Rightarrow> (case control of Inl err \<Rightarrow> Inl err
   | Inr _ \<Rightarrow> (case cred of Inl err \<Rightarrow> Inl err | Inr (uid, gid) \<Rightarrow> Inr (UnixPeer uid gid))))"

text \<open>The user of the context, and its peer with the authentication information, when it has them.\<close>

record local_ctx =
  lc_uid :: "u32 option"
  lc_peer :: "auth_info option option"
  lc_ctx :: ctx

definition local_subject :: "u32 \<Rightarrow> string" where
  "local_subject uid = ''local:uid:'' @ dec_of_nat (unat uid)"

definition local_claims :: "u32 \<Rightarrow> Claims" where
  "local_claims uid = \<lparr>cl_subject = local_subject uid, cl_role = ROLE_ADMIN, cl_issued = 0, cl_expires = 0, cl_nonce = []\<rparr>"

definition local_uid :: "local_ctx \<Rightarrow> u32 option" where
  "local_uid x = (case lc_uid x of Some uid \<Rightarrow> Some uid
   | None \<Rightarrow> (case lc_peer x of Some (Some (UnixPeer uid gid)) \<Rightarrow> Some uid | _ \<Rightarrow> None))"

definition LocalInterceptor :: "local_ctx \<Rightarrow> (ctx \<Rightarrow> 'r result) \<Rightarrow> 'r result" where
  "LocalInterceptor x handler = (case local_uid x of
     None \<Rightarrow> Inl (Status PermissionDenied ''local peer identity required'')
   | Some uid \<Rightarrow>
      if uid \<noteq> 0 \<and> (case lc_peer x of None \<Rightarrow> True | Some info \<Rightarrow> info = None)
      then Inl (Status PermissionDenied ''local admin required'')
      else handler (ContextWithClaims (lc_ctx x) (local_claims uid)))"

section \<open>Invitation codes\<close>

record Invitation =
  in_address :: string
  in_pin :: string
  in_secret :: string

text \<open>Writing the three strings as a JSON object, and reading one; strings of printable ASCII read back.\<close>

record invitation_json =
  ij_marshal :: "string \<Rightarrow> string \<Rightarrow> string \<Rightarrow> bytes result"
  ij_unmarshal :: "bytes \<Rightarrow> Invitation result"

definition ascii_text :: "string \<Rightarrow> bool" where
  "ascii_text s \<longleftrightarrow> list_all (\<lambda>ch. 32 \<le> byte ch \<and> byte ch \<le> 126) s"

definition invitation_reads :: "invitation_json \<Rightarrow> bool" where
  "invitation_reads j \<longleftrightarrow> (\<forall>address pin secret data. ascii_text address \<and> ascii_text pin \<and> ascii_text secret
     \<and> ij_marshal j address pin secret = Inr data \<longrightarrow> ij_unmarshal j data = Inr \<lparr>in_address = address, in_pin = pin, in_secret = secret\<rparr>)"

definition encodeClientInvitation :: "invitation_json \<Rightarrow> ClientInvitation \<Rightarrow> string result" where
  "encodeClientInvitation j v = (case ij_marshal j (ci_address v) (ci_pin v) (ci_secret v) of
     Inl err \<Rightarrow> Inl err | Inr data \<Rightarrow> Inr (''SDC1_'' @ raw_url_encode data))"

definition DecodeInvitation :: "invitation_json \<Rightarrow> string \<Rightarrow> Invitation result" where
  "DecodeInvitation j code =
    (if \<not> has_prefix code ''SDC1_'' then Inl (Error ''invalid client invitation'')
     else case raw_url_decode (drop 5 code) of Inl err \<Rightarrow> Inl (Error ''invalid client invitation'')
     | Inr raw \<Rightarrow> (case ij_unmarshal j raw of Inl err \<Rightarrow> Inl (Error ''invalid client invitation'')
     | Inr v \<Rightarrow> if in_address v = [] \<or> in_pin v = [] \<or> in_secret v = [] then Inl (Error ''invalid client invitation'') else Inr v))"

section \<open>Local commands\<close>

definition parseRole :: "string \<Rightarrow> int result" where
  "parseRole value = (if value = ''viewer'' then Inr ROLE_VIEWER else if value = ''operator'' then Inr ROLE_OPERATOR
     else if value = ''admin'' then Inr ROLE_ADMIN else Inl (Error ''role must be viewer, operator, or admin''))"

definition generatedPassword :: "env \<Rightarrow> string result" where
  "generatedPassword e = (case rand_read e 0 24 of Inl err \<Rightarrow> Inl err | Inr raw \<Rightarrow> Inr (raw_url_encode raw))"

datatype local_call = CallListAgents u32 | CallGetAgent string | CallGetMetrics string | CallListTokens u32 | CallRevokeToken string
  | CallRevokeAgent string string | CallCreateToken u32 | CallListAudit u32 | CallListInvitations | CallRevokeInvitation string
  | CallInvite CreateClientInvitationRequest | CallCreateUser string string int

text \<open>The request a command line becomes; \<open>e\<close> is the client's own environment.\<close>

definition parse_u32 :: "string \<Rightarrow> u32 result" where
  "parse_u32 s = (case parse_uint 32 s of (v, bad) \<Rightarrow> if bad then Inl (External ''strconv'') else Inr (word_of_nat v))"

definition local_request :: "env \<Rightarrow> string list \<Rightarrow> local_call result" where
  "local_request e args = (case args of
     [] \<Rightarrow> Inl (Error ''local command required'')
   | [a, b] \<Rightarrow>
      if a = ''agents'' \<and> b = ''list'' then Inr (CallListAgents 100)
      else if a = ''metrics'' then Inr (CallGetMetrics b)
      else if a = ''join-code'' \<and> b = ''list'' then Inr (CallListTokens 100)
      else if (a = ''enroll-token'' \<or> a = ''join-code'') \<and> b = ''create'' then Inr (CallCreateToken 600)
      else if a = ''audit'' \<and> b = ''list'' then Inr (CallListAudit 100)
      else if a = ''client-invite'' \<and> b = ''list'' then Inr CallListInvitations
      else Inl (Error ''unknown local command'')
   | [a, b, x] \<Rightarrow>
      if a = ''agents'' \<and> b = ''show'' then Inr (CallGetAgent x)
      else if a = ''join-code'' \<and> b = ''revoke'' then Inr (CallRevokeToken x)
      else if (a = ''enroll-token'' \<or> a = ''join-code'') \<and> b = ''create'' then map_sum id CallCreateToken (parse_u32 x)
      else if a = ''client-invite'' \<and> b = ''revoke'' then Inr (CallRevokeInvitation x)
      else Inl (Error ''unknown local command'')
   | a # b # rest \<Rightarrow>
      if List.length args = 4 \<and> a = ''agents'' \<and> b = ''revoke'' then Inr (CallRevokeAgent (args ! 2) (args ! 3))
      else if (a = ''enroll-token'' \<or> a = ''join-code'') \<and> b = ''create'' then Inr (CallCreateToken 600)
      else if List.length args = 7 \<and> a = ''client-invite'' \<and> b = ''create'' then
        (case parseRole (args ! 3) of Inl err \<Rightarrow> Inl err
         | Inr role \<Rightarrow> (case parse_u32 (args ! 6) of Inl err \<Rightarrow> Inl err
         | Inr ttl \<Rightarrow> Inr (CallInvite \<lparr>iq_username = args ! 2, iq_role = role, iq_ttl = ttl, iq_address = args ! 4, iq_pin = args ! 5\<rparr>)))
      else if List.length args = 4 \<and> a = ''users'' \<and> b = ''create'' then
        (case parseRole (args ! 3) of Inl err \<Rightarrow> Inl err
         | Inr role \<Rightarrow> (case generatedPassword e of Inl err \<Rightarrow> Inl err | Inr password \<Rightarrow> Inr (CallCreateUser (args ! 2) password role)))
      else Inl (Error ''unknown local command'')
   | _ \<Rightarrow> Inl (Error ''unknown local command''))"

datatype local_answer = AnsAgents "AgentItem list" | AnsAgent AgentItem | AnsMetrics "MetricsSnapshot list" | AnsTokens "EnrollmentToken list"
  | AnsToken EnrollmentToken | AnsAudit "AuditEvent list" | AnsInvitations "ClientInvitation list" | AnsInvitation ClientInvitation
  | AnsUser UserItem

text \<open>The service's side, with \<open>e\<close> the validator's environment. Reading handlers leave the state alone.\<close>

definition on_db :: "fleet \<Rightarrow> ('a \<Rightarrow> local_answer) \<Rightarrow> db \<times> 'a result \<Rightarrow> fleet \<times> local_answer result outcome" where
  "on_db s f r = (s\<lparr>fl_db := fst r\<rparr>, Ret (map_sum id f (snd r)))"

definition serve_local :: "crypto \<Rightarrow> codec_json \<Rightarrow> env \<Rightarrow> ctx \<Rightarrow> fleet \<Rightarrow> local_call \<Rightarrow> fleet \<times> local_answer result outcome" where
  "serve_local c pj e ctx s call = (let d = fl_db s in case call of
     CallListAgents page \<Rightarrow> (s, Ret (map_sum id AnsAgents (ListAgents e d page)))
   | CallGetAgent ident \<Rightarrow> (s, Ret (map_sum id AnsAgent (GetAgent e 0 d ident)))
   | CallGetMetrics ident \<Rightarrow> (s, Ret (map_sum id AnsMetrics (GetMetrics pj e d ident)))
   | CallListTokens page \<Rightarrow> (s, Ret (map_sum id AnsTokens (ListEnrollmentTokens e d page)))
   | CallRevokeToken ident \<Rightarrow> on_db s AnsToken (RevokeEnrollmentToken e d ident)
   | CallRevokeAgent ident reason \<Rightarrow> (case RevokeAgent e s ident reason of
       (s', Panic p) \<Rightarrow> (s', Panic p) | (s', Ret r) \<Rightarrow> (s', Ret (map_sum id AnsAgent r)))
   | CallCreateToken ttl \<Rightarrow> on_db s AnsToken (CreateEnrollmentToken c e d ctx ttl)
   | CallListAudit page \<Rightarrow> (s, Ret (map_sum id AnsAudit (ListAudit e d [] page)))
   | CallListInvitations \<Rightarrow> (s, Ret (map_sum id AnsInvitations (ListClientInvitations e d)))
   | CallRevokeInvitation ident \<Rightarrow> on_db s AnsInvitation (RevokeClientInvitation e ident d)
   | CallInvite r \<Rightarrow> on_db s AnsInvitation (CreateClientInvitation c e ctx r d)
   | CallCreateUser name password role \<Rightarrow> on_db s AnsUser (CreateUser c e d name password role))"

datatype local_output = OutAnswer local_answer | OutCode string string int | OutUser UserItem string

text \<open>A command: the request, the interceptor, the handler, and what is printed as JSON.\<close>

definition local_print :: "invitation_json \<Rightarrow> local_call \<Rightarrow> local_answer \<Rightarrow> local_output result" where
  "local_print j call answer = (case call of
     CallInvite r \<Rightarrow> (case answer of
         AnsInvitation v \<Rightarrow> (case encodeClientInvitation j v of Inl err \<Rightarrow> Inl err
           | Inr code \<Rightarrow> Inr (OutCode (ci_id v) code (ci_expires v)))
       | _ \<Rightarrow> Inr (OutAnswer answer))
   | CallCreateUser name password role \<Rightarrow> (case answer of AnsUser u \<Rightarrow> Inr (OutUser u password) | _ \<Rightarrow> Inr (OutAnswer answer))
   | _ \<Rightarrow> Inr (OutAnswer answer))"

definition runLocal :: "crypto \<Rightarrow> codec_json \<Rightarrow> invitation_json \<Rightarrow> env \<Rightarrow> env \<Rightarrow> local_ctx \<Rightarrow> string list \<Rightarrow> fleet
    \<Rightarrow> fleet \<times> local_output result outcome" where
  "runLocal c pj j mine theirs x args s = (case local_request mine args of Inl err \<Rightarrow> (s, Ret (Inl err))
   | Inr call \<Rightarrow> (case LocalInterceptor x Inr of Inl err \<Rightarrow> (s, Ret (Inl err))
   | Inr ctx \<Rightarrow> (case serve_local c pj theirs ctx s call of
       (s', Panic p) \<Rightarrow> (s', Panic p)
     | (s', Ret (Inl err)) \<Rightarrow> (s', Ret (Inl err))
     | (s', Ret (Inr answer)) \<Rightarrow> (s', Ret (local_print j call answer)))))"

section \<open>Only the host's administrators\<close>

text \<open>A handler behind the socket runs only for a caller whose user the kernel reported, or one set in the
  context as root, and then as an administrator under that user's name.\<close>

theorem local_handler_identity:
  assumes "LocalInterceptor x handler = Inr v"
  shows "\<exists>uid. local_uid x = Some uid \<and> (uid \<noteq> 0 \<longrightarrow> (\<exists>info. lc_peer x = Some (Some info)))
    \<and> handler (ContextWithClaims (lc_ctx x) \<lparr>cl_subject = local_subject uid, cl_role = ROLE_ADMIN, cl_issued = 0, cl_expires = 0, cl_nonce = []\<rparr>) = Inr v"
  using assms by (auto simp: LocalInterceptor_def local_claims_def split: option.splits if_splits)

section \<open>Codes\<close>

lemma code_round_trip:
  assumes "invitation_reads j" "encodeClientInvitation j v = Inr code" "ascii_text (ci_address v)" "ascii_text (ci_pin v)" "ascii_text (ci_secret v)"
    and "ci_address v \<noteq> []" "ci_pin v \<noteq> []" "ci_secret v \<noteq> []"
  shows "DecodeInvitation j code = Inr \<lparr>in_address = ci_address v, in_pin = ci_pin v, in_secret = ci_secret v\<rparr>"
  using assms by (auto simp: encodeClientInvitation_def DecodeInvitation_def invitation_reads_def b64url.dec_enc has_prefix_def split: sum.splits)

lemma invitations_ok_cong:
  assumes "map i_id (client_invitations d) = map i_id (client_invitations d2)" "map i_hash (client_invitations d) = map i_hash (client_invitations d2)"
    and "map i_created_by (client_invitations d) = map i_created_by (client_invitations d2)" "users d = users d2"
  shows "invitations_ok d \<longleftrightarrow> invitations_ok d2"
proof -
  have "list_all (\<lambda>r. refers (i_created_by r) ids) rows = list_all (\<lambda>c. refers c ids) (map i_created_by rows)" for ids rows
    by (simp add: list_all_iff)
  then show ?thesis unfolding invitations_ok_def user_ids_def using assms by metis
qed

text \<open>A live invitation redeems when nothing fails and its name is free.\<close>

lemma live_redeem:
  assumes "db_ok d" "r \<in> set (client_invitations d)" "invitation_live h (unix_milli now) r"
    and "\<And>k. \<not> env_db_fails e k" "randomHex e 1 16 = Inr userID" "userID \<notin> set (user_ids d)" "i_username r \<notin> u_username ` set (users d)"
  shows "\<exists>d'. redeem_tx e h hash now d = (d', Inr (userID, i_role r))
    \<and> users d' = users d @ [new_user userID (i_username r) hash (i_role r) (unix_milli now)]"
proof -
  let ?row = "new_user userID (i_username r) hash (i_role r) (unix_milli now)"
  let ?d1 = "d\<lparr>users := users d @ [?row]\<rparr>"
  let ?d2 = "?d1\<lparr>client_invitations := map (\<lambda>q. if i_id q = i_id r \<and> i_consumed q = None then q\<lparr>i_consumed := Some (unix_milli now)\<rparr> else q) (client_invitations d)\<rparr>"
  have ok: "distinct (map i_id (client_invitations d))" "distinct (map i_hash (client_invitations d))"
    using assms(1) by (simp_all add: db_ok_def invitations_ok_def)
  have f: "List.find (invitation_live h (unix_milli now)) (client_invitations d) = Some r"
    using assms(2,3) ok(2) by (intro find_unique) (auto simp: invitation_live_def dest: distinct_map_inj)
  have d1: "db_ok ?d1" using db_ok_insert_user [OF assms(1)] assms(6,7) by (simp add: new_user_def)
  have k: "map g (client_invitations ?d2) = map g (client_invitations d)" if "\<And>q v. g (q\<lparr>i_consumed := v\<rparr>) = g q" for g :: "InvitationRow \<Rightarrow> 'b"
    using update_rows_key [where g = g and P = "\<lambda>q. i_id q = i_id r \<and> i_consumed q = None"] that by simp
  have "invitations_ok ?d2"
    by (rule invitations_ok_cong [of ?d1, THEN iffD1]) (use d1 k [of i_id] k [of i_hash] k [of i_created_by] in \<open>simp_all add: db_ok_def\<close>)
  then have d2: "db_ok ?d2"
    using d1 by (simp add: db_ok_def table_ok_defs)
  have "List.length (filter (\<lambda>q. i_id q = i_id r \<and> i_consumed q = None) (client_invitations d)) = 1"
    using assms(2,3) ok(1) by (intro length_filter_unique [of i_id]) (auto simp: invitation_live_def)
  then have u: "consume_invitation (unix_milli now) (i_id r) ?d1 = (?d2, 1)"
    by (simp add: consume_invitation_def Let_def)
  show ?thesis
    using f assms(4,5) d1 d2 u by (intro exI [of _ ?d2]) (simp add: redeem_tx_def sql_query_row_def sql_exec_def insert_user_def)
qed

text \<open>What \<open>client-invite create\<close> does when it prints a code.\<close>

lemma Invite_row:
  assumes "CreateClientInvitation c e ctx r d = (d', Inr v)"
  shows "\<exists>secret row. rand_read e 0 32 = Inr secret \<and> d' = d\<lparr>client_invitations := client_invitations d @ [row]\<rparr> \<and> db_ok d'
    \<and> i_hash row = sha256 c secret \<and> ci_secret v = hex_encode secret \<and> i_username row = iq_username r \<and> i_role row = iq_role r
    \<and> i_consumed row = None \<and> i_revoked row = None \<and> i_expires row = ci_expires v
    \<and> ci_address v = iq_address r \<and> ci_pin v = iq_pin r \<and> iq_address r \<noteq> [] \<and> iq_pin r \<noteq> []"
  using assms by (auto simp: CreateClientInvitation_def Let_def sql_exec_def split: option.splits sum.splits if_splits prod.splits)

lemma local_print_code: "local_print j call answer = Inr (OutCode ident code expires) \<Longrightarrow>
    \<exists>q v. call = CallInvite q \<and> answer = AnsInvitation v \<and> encodeClientInvitation j v = Inr code \<and> ident = ci_id v \<and> expires = ci_expires v"
  unfolding local_print_def by (cases call; simp split: local_answer.split_asm sum.split_asm)

lemma on_db_Inr: "on_db s f r = (s', Ret (Inr a)) \<Longrightarrow> \<exists>v. r = (fl_db s', Inr v) \<and> a = f v \<and> s' = s\<lparr>fl_db := fl_db s'\<rparr>"
  by (cases r; cases "snd r") (auto simp: on_db_def)

lemma runLocal_invite:
  assumes "runLocal c pj j mine theirs x args s = (s', Ret (Inr (OutCode ident code expires)))"
  shows "\<exists>ctx r v d'. local_request mine args = Inr (CallInvite r) \<and> CreateClientInvitation c theirs ctx r (fl_db s) = (d', Inr v)
    \<and> s' = s\<lparr>fl_db := d'\<rparr> \<and> encodeClientInvitation j v = Inr code \<and> ident = ci_id v \<and> expires = ci_expires v"
proof -
  obtain call ctx answer where r: "local_request mine args = Inr call" "serve_local c pj theirs ctx s call = (s', Ret (Inr answer))"
      "local_print j call answer = Inr (OutCode ident code expires)"
    using assms by (auto simp: runLocal_def split: sum.splits prod.splits outcome.splits)
  then obtain q v where p: "call = CallInvite q" "answer = AnsInvitation v" "encodeClientInvitation j v = Inr code" "ident = ci_id v" "expires = ci_expires v"
    using local_print_code by blast
  then have "on_db s AnsInvitation (CreateClientInvitation c theirs ctx q (fl_db s)) = (s', Ret (Inr (AnsInvitation v)))"
    using r(2) by (simp add: serve_local_def Let_def)
  from on_db_Inr [OF this] have "CreateClientInvitation c theirs ctx q (fl_db s) = (fl_db s', Inr v)" "s' = s\<lparr>fl_db := fl_db s'\<rparr>"
    by auto
  then show ?thesis using r(1) p by blast
qed

lemma hex_ascii: "ascii_text (hex_encode bs)"
proof -
  have "list_all (\<lambda>n. 32 \<le> byte (hex_digit n) \<and> byte (hex_digit n) \<le> 126) [0..<16]" by code_simp
  then have d: "32 \<le> byte (hex_digit n) \<and> byte (hex_digit n) \<le> 126" if "n < 16" for n
    using that by (simp only: list_all_iff set_upt atLeastLessThan_iff) simp
  have "byte b div 16 < 16" "byte b mod 16 < 16" for b using byte_div [of b] by simp_all
  then show ?thesis using d by (induction bs) (simp_all add: ascii_text_def)
qed

text \<open>C26. The code printed for a new invitation tells the client the address and the pin that were given, and its
  secret redeems the invitation: until it expires, as long as the store and the entropy source work and no
  user has taken the name, any password of at least 16 bytes makes one new user with the invited name and role.\<close>

theorem printed_code_redeems:
  assumes "runLocal c pj j mine theirs x args s = (s', Ret (Inr (OutCode ident code expires)))" "invitation_reads j"
    and "local_request mine args = Inr (CallInvite r)" "ascii_text (iq_address r)" "ascii_text (iq_pin r)"
  shows "\<exists>v. DecodeInvitation j code = Inr v \<and> in_address v = iq_address r \<and> in_pin v = iq_pin r
    \<and> (\<forall>js issuer e password userID. (\<forall>k. \<not> env_db_fails e k) \<and> (\<forall>k. \<not> env_rand_fails e k) \<and> 16 \<le> List.length password
        \<and> unix_milli (env_clock e 0) < expires \<and> iq_username r \<notin> u_username ` set (users (fl_db s'))
        \<and> randomHex e 1 16 = Inr userID \<and> userID \<notin> set (user_ids (fl_db s'))
        \<longrightarrow> (\<exists>row. users (fst (RedeemClientInvitation c js issuer e (in_secret v) password (fl_db s'))) = users (fl_db s') @ [row]
            \<and> u_username row = iq_username r \<and> u_role row = iq_role r \<and> HashPassword c e 0 password = Inr (u_hash row)))"
proof -
  obtain ctx v d' where i: "CreateClientInvitation c theirs ctx r (fl_db s) = (d', Inr v)" "s' = s\<lparr>fl_db := d'\<rparr>"
      "encodeClientInvitation j v = Inr code" "expires = ci_expires v"
    using runLocal_invite [OF assms(1)] assms(3) by auto
  obtain secret row where w: "rand_read theirs 0 32 = Inr secret" "d' = (fl_db s)\<lparr>client_invitations := client_invitations (fl_db s) @ [row]\<rparr>" "db_ok d'"
      "i_hash row = sha256 c secret" "ci_secret v = hex_encode secret" "i_username row = iq_username r" "i_role row = iq_role r"
      "i_consumed row = None" "i_revoked row = None" "i_expires row = ci_expires v"
      "ci_address v = iq_address r" "ci_pin v = iq_pin r" "iq_address r \<noteq> []" "iq_pin r \<noteq> []"
    using Invite_row [OF i(1)] by blast
  have len: "List.length secret = 32" using rand_read_length [OF w(1)] .
  then have "hex_encode secret \<noteq> []" by (cases secret) simp_all
  then have dec: "DecodeInvitation j code = Inr \<lparr>in_address = iq_address r, in_pin = iq_pin r, in_secret = hex_encode secret\<rparr>"
    using code_round_trip [OF assms(2) i(3)] assms(4,5) w(5,11-14) hex_ascii by simp
  have m: "row \<in> set (client_invitations d')" using w(2) by simp
  have "\<exists>u. users (fst (RedeemClientInvitation c js issuer e (hex_encode secret) password d')) = users d' @ [u]
      \<and> u_username u = iq_username r \<and> u_role u = iq_role r \<and> HashPassword c e 0 password = Inr (u_hash u)"
    if a: "\<forall>k. \<not> env_db_fails e k" "\<forall>k. \<not> env_rand_fails e k" "16 \<le> List.length password" "unix_milli (env_clock e 0) < expires"
      "iq_username r \<notin> u_username ` set (users d')" "randomHex e 1 16 = Inr userID" "userID \<notin> set (user_ids d')"
    for js issuer e password userID
  proof -
    obtain hash where h: "HashPassword c e 0 password = Inr hash" using a(2,3) by (simp add: HashPassword_def rand_read_def)
    have "invitation_live (sha256 c secret) (unix_milli (env_clock e 0)) row"
      using w(4,8-10) a(4) i(4) by (simp add: invitation_live_def)
    from live_redeem [OF w(3) m this _ a(6,7), of hash] a(1,5) w(6,7)
    obtain d2 where t: "redeem_tx e (sha256 c secret) hash (env_clock e 0) d' = (d2, Inr (userID, iq_role r))"
        "users d2 = users d' @ [new_user userID (iq_username r) hash (iq_role r) (unix_milli (env_clock e 0))]" by auto
    then have "fst (RedeemClientInvitation c js issuer e (hex_encode secret) password d') = d2"
      using h len by (simp add: RedeemClientInvitation_def hex.dec_enc)
    then show ?thesis using t(2) h by (simp add: new_user_def)
  qed
  then show ?thesis using dec i(2) by (intro exI [of _ "\<lparr>in_address = iq_address r, in_pin = iq_pin r, in_secret = hex_encode secret\<rparr>"]) simp
qed

section \<open>Witnesses\<close>

definition demo_root :: local_ctx where
  "demo_root = \<lparr>lc_uid = None, lc_peer = Some (Some (UnixPeer 0 0)), lc_ctx = \<lparr>cx_peer = None, cx_certs = None, cx_auth = None, cx_claims = None\<rparr>\<rparr>"

theorem local_handler_identity_witness:
  "\<exists>v. LocalInterceptor demo_root (\<lambda>ctx. Inr (cx_claims ctx)) = Inr v \<and> v \<noteq> None"
proof -
  obtain v where i: "LocalInterceptor demo_root (\<lambda>ctx. Inr (cx_claims ctx)) = Inr v"
    by (simp add: LocalInterceptor_def demo_root_def local_uid_def)
  show ?thesis using local_handler_identity [OF i] i by (auto simp: ContextWithClaims_def)
qed

definition demo_invitation_json :: invitation_json where
  "demo_invitation_json = \<lparr>ij_marshal = (\<lambda>a p s. Inr (a @ [CHR 0x0A] @ p @ [CHR 0x0A] @ s)),
     ij_unmarshal = (\<lambda>b. case split (CHR 0x0A) b of [a, p, s] \<Rightarrow> Inr \<lparr>in_address = a, in_pin = p, in_secret = s\<rparr> | _ \<Rightarrow> Inl (External ''json''))\<rparr>"

lemma demo_invitation_reads: "invitation_reads demo_invitation_json"
proof -
  have "CHR 0x0A \<notin> set t" if "ascii_text t" for t using that by (auto simp: ascii_text_def list_all_iff byte_def)
  then show ?thesis by (auto simp: invitation_reads_def demo_invitation_json_def split_append_sep split_no_sep)
qed

definition demo_invite_args :: "string list" where
  "demo_invite_args = [''client-invite'', ''create'', ''ann'', ''viewer'', ''v:1'', ''sha256/x'', ''60'']"

definition demo_invite_request :: CreateClientInvitationRequest where
  "demo_invite_request = \<lparr>iq_username = ''ann'', iq_role = ROLE_VIEWER, iq_ttl = 60, iq_address = ''v:1'', iq_pin = ''sha256/x''\<rparr>"

lemma demo_invite_call: "local_request (calm 0) demo_invite_args = Inr (CallInvite demo_invite_request)"
proof -
  have "dec_of_nat 60 = ''60''" by code_simp
  then have "parse_u32 ''60'' = Inr 60" using parse_uint_dec [of 60 32] by (simp add: parse_u32_def)
  then show ?thesis by (simp add: local_request_def demo_invite_args_def parseRole_def demo_invite_request_def)
qed

definition demo_host :: fleet where
  "demo_host = \<lparr>fl_db = empty_db, fl_registry = None, fl_ssh = None, fl_relay = None\<rparr>"

lemma demo_invite_runs: "\<exists>s' ident code. runLocal toy_crypto pj demo_invitation_json (calm 0) (calm 0) demo_root demo_invite_args demo_host
    = (s', Ret (Inr (OutCode ident code 60000))) \<and> users (fl_db s') = []"
proof -
  have i: "LocalInterceptor demo_root Inr = Inr (ContextWithClaims (lc_ctx demo_root) (local_claims 0))"
    by (simp add: LocalInterceptor_def demo_root_def local_uid_def)
  have h: "has_prefix (local_subject 0) ''local:uid:''" by (simp add: local_subject_def has_prefix_def)
  obtain ident where r: "randomHex (calm 0) 1 16 = Inr ident" by (simp add: randomHex_def del: upt_rec_numeral)
  have "unat (60 :: u32) = 60" by simp
  then have "snd (CreateClientInvitation toy_crypto (calm 0) (ContextWithClaims (lc_ctx demo_root) (local_claims 0)) demo_invite_request empty_db)
      = Inr v \<Longrightarrow> ci_expires v = 60000" for v
    using r h by (simp add: CreateClientInvitation_def ContextWithClaims_def local_claims_def demo_invite_request_def role_defs sql_exec_def
        go_time Let_def split: if_splits del: upt_rec_numeral) (auto simp: go_time)
  moreover have "ok (snd (CreateClientInvitation toy_crypto (calm 0) (ContextWithClaims (lc_ctx demo_root) (local_claims 0)) demo_invite_request empty_db))"
    using r h db_ok_insert_invitation [OF db_ok_empty]
    by (simp add: CreateClientInvitation_def ContextWithClaims_def local_claims_def demo_invite_request_def role_defs sql_exec_def Let_def
        creator_column_def refers_def empty_db_def del: upt_rec_numeral)
  ultimately obtain d' v where v: "CreateClientInvitation toy_crypto (calm 0) (ContextWithClaims (lc_ctx demo_root) (local_claims 0)) demo_invite_request empty_db = (d', Inr v)"
      "ci_expires v = 60000" by (metis ok_iff prod.collapse)
  then have "users d' = []" using Invite_row [OF v(1)] by (auto simp: empty_db_def)
  then show ?thesis
    using v by (simp add: runLocal_def demo_invite_call i serve_local_def on_db_def demo_host_def local_print_def encodeClientInvitation_def demo_invitation_json_def)
qed

theorem printed_code_redeems_witness:
  "\<exists>s' ident code v row. runLocal toy_crypto toy_pj demo_invitation_json (calm 0) (calm 0) demo_root demo_invite_args demo_host
      = (s', Ret (Inr (OutCode ident code 60000)))
    \<and> DecodeInvitation demo_invitation_json code = Inr v \<and> in_address v = ''v:1''
    \<and> users (fst (RedeemClientInvitation toy_crypto (toy_json demo_claims) demo_issuer (calm 0) (in_secret v) ''0123456789abcdef'' (fl_db s'))) = [row]
    \<and> u_username row = ''ann''"
proof -
  obtain s' ident code where r: "runLocal toy_crypto toy_pj demo_invitation_json (calm 0) (calm 0) demo_root demo_invite_args demo_host
      = (s', Ret (Inr (OutCode ident code 60000)))" "users (fl_db s') = []" using demo_invite_runs by blast
  have a: "ascii_text (iq_address demo_invite_request)" "ascii_text (iq_pin demo_invite_request)" by code_simp+
  obtain userID where u: "randomHex (calm 0) 1 16 = Inr userID" by (simp add: randomHex_def del: upt_rec_numeral)
  have t: "unix_milli (env_clock (calm 0) 0) < 60000" by (simp add: go_time)
  obtain v where v: "DecodeInvitation demo_invitation_json code = Inr v" "in_address v = iq_address demo_invite_request"
    and redeem: "\<And>js issuer e password userID. (\<forall>k. \<not> env_db_fails e k) \<and> (\<forall>k. \<not> env_rand_fails e k) \<and> 16 \<le> List.length password
        \<and> unix_milli (env_clock e 0) < 60000 \<and> iq_username demo_invite_request \<notin> u_username ` set (users (fl_db s'))
        \<and> randomHex e 1 16 = Inr userID \<and> userID \<notin> set (user_ids (fl_db s'))
        \<Longrightarrow> (\<exists>row. users (fst (RedeemClientInvitation toy_crypto js issuer e (in_secret v) password (fl_db s'))) = users (fl_db s') @ [row]
            \<and> u_username row = iq_username demo_invite_request \<and> u_role row = iq_role demo_invite_request \<and> HashPassword toy_crypto e 0 password = Inr (u_hash row))"
    using printed_code_redeems [OF r(1) demo_invitation_reads demo_invite_call a] by metis
  obtain row where "users (fst (RedeemClientInvitation toy_crypto (toy_json demo_claims) demo_issuer (calm 0) (in_secret v) ''0123456789abcdef'' (fl_db s'))) = [] @ [row]"
      "u_username row = iq_username demo_invite_request"
    using redeem [of "calm 0" "''0123456789abcdef''" userID "toy_json demo_claims" demo_issuer] u t r(2) by (auto simp: user_ids_def)
  then show ?thesis using r(1) v by (intro exI) (auto simp: demo_invite_request_def)
qed

end
