(* ===== verification/ClientJoin.thy ===== *)
theory ClientJoin
  imports LocalControl ClientCalls
begin

text \<open>
  How a client is set up and started: the profile of \<open>src/internal/clientcli/profile.go\<close>, the
  connection and the SSH pipe of \<open>src/internal/clientapi/client.go\<close>, and the command line of
  \<open>src/cmd/client/main.go\<close> with its join.
\<close>

section \<open>Profiles\<close>

record Profile =
  pr_address :: string
  pr_server_name :: string
  pr_ca_path :: string
  pr_username :: string

record profile_json =
  pf_marshal :: "Profile \<Rightarrow> bytes result"
  pf_unmarshal :: "bytes \<Rightarrow> Profile result"

definition SaveProfile :: "profile_json \<Rightarrow> unit result \<Rightarrow> write_fault option \<Rightarrow> file_system \<Rightarrow> string \<Rightarrow> Profile \<Rightarrow> file_system \<times> unit result" where
  "SaveProfile j mkdir fault fs path p =
    (if pr_address p = [] \<or> pr_ca_path p = [] then (fs, Inl (Error ''invalid profile''))
     else case mkdir of Inl err \<Rightarrow> (fs, Inl err)
     | Inr _ \<Rightarrow> (case pf_marshal j p of Inl err \<Rightarrow> (fs, Inl err)
     | Inr data \<Rightarrow> write_file fault fs path data 384))"

definition LoadProfile :: "profile_json \<Rightarrow> error option \<Rightarrow> (string \<Rightarrow> error option) \<Rightarrow> file_system \<Rightarrow> string \<Rightarrow> Profile result" where
  "LoadProfile j stat reads fs path = (case stat_mode stat fs path of Inl err \<Rightarrow> Inl err
   | Inr mode \<Rightarrow>
      (if too_broad mode then Inl (Error ''profile permissions too broad'')
       else case read_file reads fs path of Inl err \<Rightarrow> Inl err | Inr data \<Rightarrow> pf_unmarshal j data))"

section \<open>The connection\<close>

definition Dial :: "cert_lib \<Rightarrow> (string \<Rightarrow> error option) \<Rightarrow> file_system \<Rightarrow> unit result \<Rightarrow> string \<Rightarrow> string \<Rightarrow> bool \<Rightarrow> unit result" where
  "Dial l reads fs client address caPath store =
    (if address = [] \<or> caPath = [] \<or> \<not> store then Inl (Error ''address, CA, and credential store required'')
     else case read_file reads fs caPath of Inl err \<Rightarrow> Inl err
     | Inr ca \<Rightarrow> if \<not> cb_pool l ca then Inl (Error ''invalid validator CA'') else client)"

text \<open>The redemption's answer is stored; the saving is \<open>CredentialStore.Save\<close>.\<close>

definition Redeem_client :: "(string \<Rightarrow> string \<Rightarrow> LoginResponse result) \<Rightarrow> unit result \<Rightarrow> write_faults \<Rightarrow> string \<Rightarrow> string \<Rightarrow> string \<Rightarrow> file_system
    \<Rightarrow> file_system \<times> LoginResponse result" where
  "Redeem_client redeem mkdir faults tokenPath secret password fs = (case redeem secret password of Inl err \<Rightarrow> (fs, Inl err)
   | Inr r \<Rightarrow> (case Save mkdir faults fs tokenPath (lr_token r) of
       (states, Inl err) \<Rightarrow> (hd states, Inl err)
     | (states, Inr _) \<Rightarrow> (hd states, Inr r)))"

section \<open>The pipe of an SSH session\<close>

text \<open>
  Two goroutines share a stream. One reads the input in blocks of at most 32 KiB and sends them; the end of
  the input, or an error reading it, is sent as a close. The other writes out what it receives. The first
  to report ends the pipe. A read yields its bytes and whether it was the last; \<open>send\<close> says which sends
  fail, by the number sent before, and \<open>put\<close> which writes do, by the bytes written before, and after how much.
\<close>

datatype receipt = Frame bytes bool | Ended | Broken error

record pipe_state =
  pi_reads :: "(bytes \<times> bool) list"
  pi_recvs :: "receipt list"
  pi_sent :: "TunnelFrame list"
  pi_written :: bytes
  pi_result :: "unit result option"

definition pipe_frame :: "string \<Rightarrow> bytes \<Rightarrow> bool \<Rightarrow> TunnelFrame" where
  "pipe_frame ident data closing = \<lparr>tf_session = ident, tf_token = [], tf_data = data, tf_close = closing\<rparr>"

definition report :: "unit result \<Rightarrow> pipe_state \<Rightarrow> pipe_state" where
  "report r s = s\<lparr>pi_result := Some r\<rparr>"

definition close_input :: "(nat \<Rightarrow> error option) \<Rightarrow> pipe_state \<Rightarrow> pipe_state" where
  "close_input send s = report (Inr ()) (if send (List.length (pi_sent s)) = None then s\<lparr>pi_sent := pi_sent s @ [pipe_frame [] [] True]\<rparr> else s)"

definition pipe_in :: "(nat \<Rightarrow> error option) \<Rightarrow> pipe_state \<Rightarrow> pipe_state" where
  "pipe_in send s = (case pi_reads s of [] \<Rightarrow> s
   | (data, final) # rest \<Rightarrow>
      (let s1 = s\<lparr>pi_reads := rest\<rparr> in
       if data = [] then (if final then close_input send s1 else s1)
       else case send (List.length (pi_sent s)) of Some err \<Rightarrow> report (Inl err) s1
       | None \<Rightarrow> (let s2 = s1\<lparr>pi_sent := pi_sent s @ [pipe_frame [] data False]\<rparr> in if final then close_input send s2 else s2)))"

definition pipe_out :: "(bytes \<Rightarrow> (nat \<times> error) option) \<Rightarrow> pipe_state \<Rightarrow> pipe_state" where
  "pipe_out put s = (case pi_recvs s of [] \<Rightarrow> s
   | Ended # rest \<Rightarrow> report (Inr ()) s
   | Broken err # rest \<Rightarrow> report (Inl err) s
   | Frame data closing # rest \<Rightarrow>
      (let s1 = s\<lparr>pi_recvs := rest\<rparr> in
       if data = [] then (if closing then report (Inr ()) s1 else s1)
       else case put (pi_written s) of Some (n, err) \<Rightarrow> report (Inl err) (s1\<lparr>pi_written := pi_written s @ take n data\<rparr>)
       | None \<Rightarrow> (let s2 = s1\<lparr>pi_written := pi_written s @ data\<rparr> in if closing then report (Inr ()) s2 else s2)))"

text \<open>A schedule says whose turn it is; nothing happens after the first report.\<close>

fun pipe_run :: "(nat \<Rightarrow> error option) \<Rightarrow> (bytes \<Rightarrow> (nat \<times> error) option) \<Rightarrow> bool list \<Rightarrow> pipe_state \<Rightarrow> pipe_state" where
  "pipe_run send put [] s = s"
| "pipe_run send put (b # bs) s = (if pi_result s \<noteq> None then s else pipe_run send put bs (if b then pipe_in send s else pipe_out put s))"

text \<open>The whole of \<open>Pipe\<close>: the stored token goes into the call, the first frame names the session.\<close>

definition Pipe :: "(string result) \<Rightarrow> (string \<Rightarrow> unit result) \<Rightarrow> (nat \<Rightarrow> error option) \<Rightarrow> (bytes \<Rightarrow> (nat \<times> error) option) \<Rightarrow> bool list
    \<Rightarrow> string \<Rightarrow> (bytes \<times> bool) list \<Rightarrow> receipt list \<Rightarrow> pipe_state" where
  "Pipe load connect send put turns ident reads recvs =
    (let s0 = \<lparr>pi_reads = reads, pi_recvs = recvs, pi_sent = [], pi_written = [], pi_result = None\<rparr> in
     case load of Inl err \<Rightarrow> report (Inl err) s0
     | Inr token \<Rightarrow> (case connect (''Bearer '' @ token) of Inl err \<Rightarrow> report (Inl err) s0
     | Inr _ \<Rightarrow> (case send 0 of Some err \<Rightarrow> report (Inl err) s0
     | None \<Rightarrow> pipe_run send put turns (s0\<lparr>pi_sent := [pipe_frame ident [] False]\<rparr>))))"

section \<open>The command line\<close>

datatype client_action = ShowHelp | ShowVersion | Refused error | JoinClient "string list" | PipeSession string | OpenTui bool | RunCommand "string list"

definition client_command :: "string list \<Rightarrow> client_action" where
  "client_command args = (if args \<noteq> [] \<and> hd args \<in> {''help'', ''-h'', ''--help''} then ShowHelp
   else if args \<noteq> [] \<and> hd args \<in> {''version'', ''-v'', ''--version''} then ShowVersion
   else let tui = (args = [] \<or> hd args = ''tui''); joining = (args \<noteq> [] \<and> hd args = ''join'');
            piping = (List.length args = 2 \<and> hd args = ''ssh-pipe'')
        in if \<not> tui \<and> \<not> joining \<and> \<not> piping \<and> \<not> ok (Validate (stripFlags args))
           then (case Validate (stripFlags args) of Inl err \<Rightarrow> Refused err | Inr _ \<Rightarrow> RunCommand args)
           else if joining then JoinClient args
           else if piping then PipeSession (args ! 1)
           else if tui then OpenTui (''--no-color'' \<in> set args)
           else RunCommand args)"

text \<open>The address, the authority's file and the server's name, from the environment or else the profile.\<close>

definition client_settings :: "(string \<Rightarrow> string) \<Rightarrow> Profile result \<Rightarrow> string \<times> string \<times> string" where
  "client_settings getenv profile =
    (let setting = (\<lambda>name sel. if getenv name \<noteq> [] then getenv name else case profile of Inl err \<Rightarrow> [] | Inr p \<Rightarrow> sel p)
     in (setting ''SILENT_DEVOPS_VALIDATOR'' pr_address, setting ''SILENT_DEVOPS_VALIDATOR_CA'' pr_ca_path, setting ''SILENT_DEVOPS_SERVER_NAME'' pr_server_name))"

section \<open>Joining\<close>

record client_io =
  cj_fetch :: fetch_io
  cj_reads :: "string \<Rightarrow> error option"
  cj_client :: "unit result"
  cj_redeem :: "string \<Rightarrow> string \<Rightarrow> LoginResponse result"
  cj_token_mkdir :: "unit result"
  cj_token :: write_faults
  cj_profile_mkdir :: "unit result"
  cj_profile :: "write_fault option"

text \<open>The files, the exit status, and what is printed. The password is the fourth argument.\<close>

definition client_join :: "invitation_json \<Rightarrow> profile_json \<Rightarrow> cert_lib \<Rightarrow> crypto \<Rightarrow> client_io \<Rightarrow> string \<Rightarrow> string list \<Rightarrow> file_system
    \<Rightarrow> (file_system \<times> nat \<times> string) outcome" where
  "client_join ij pj l c io dir args fs =
    (if List.length args \<noteq> 4 then Ret (fs, 2, ''usage: client join INVITATION USERNAME PASSWORD'')
     else let certPath = filepath_Join [dir, ''validator-ca.crt''] in
      case DecodeInvitation ij (args ! 1) of Inl err \<Rightarrow> Ret (fs, 1, error_text err)
      | Inr invite \<Rightarrow> (case FetchPinnedCertificate c (cj_fetch io) (in_address invite) (in_pin invite) certPath fs of
          Panic p \<Rightarrow> Panic p
        | Ret (fs1, Inl err) \<Rightarrow> Ret (fs1, 1, error_text err)
        | Ret (fs1, Inr _) \<Rightarrow> (case split_host_port (in_address invite) of None \<Rightarrow> Ret (fs1, 1, ''address'')
        | Some (host, port) \<Rightarrow> (case Dial l (cj_reads io) fs1 (cj_client io) (in_address invite) certPath True of Inl err \<Rightarrow> Ret (fs1, 1, error_text err)
        | Inr _ \<Rightarrow> (case Redeem_client (cj_redeem io) (cj_token_mkdir io) (cj_token io) (filepath_Join [dir, ''token'']) (in_secret invite) (args ! 3) fs1 of
            (fs2, Inl err) \<Rightarrow> Ret (fs2, 1, error_text err)
          | (fs2, Inr r) \<Rightarrow> (case SaveProfile pj (cj_profile_mkdir io) (cj_profile io) fs2 (filepath_Join [dir, ''config.json''])
                \<lparr>pr_address = in_address invite, pr_server_name = host, pr_ca_path = certPath, pr_username = args ! 2\<rparr> of
              (fs3, Inl err) \<Rightarrow> Ret (fs3, 1, error_text err)
            | (fs3, Inr _) \<Rightarrow> Ret (fs3, 0, ''client joined; run silent-devops-client'')))))))"

section \<open>What the pipe carries\<close>

text \<open>The bytes of an input up to its end, and those of a stream up to its end or its first close.\<close>

fun input_bytes :: "(bytes \<times> bool) list \<Rightarrow> bytes" where
  "input_bytes [] = []"
| "input_bytes ((data, final) # rest) = data @ (if final then [] else input_bytes rest)"

fun output_bytes :: "receipt list \<Rightarrow> bytes" where
  "output_bytes (Frame data closing # rest) = data @ (if closing then [] else output_bytes rest)"
| "output_bytes _ = []"

definition sent_data :: "pipe_state \<Rightarrow> bytes" where
  "sent_data s = concat (map tf_data (pi_sent s))"

definition carries_pipe :: "bytes \<Rightarrow> bytes \<Rightarrow> pipe_state \<Rightarrow> bool" where
  "carries_pipe input output s \<longleftrightarrow> (case pi_result s of
     None \<Rightarrow> input = sent_data s @ input_bytes (pi_reads s) \<and> output = pi_written s @ output_bytes (pi_recvs s)
   | Some r \<Rightarrow> has_prefix input (sent_data s) \<and> has_prefix output (pi_written s) \<and> (r = Inr () \<longrightarrow> input = sent_data s \<or> output = pi_written s))"

lemma sent_data_simps [simp]:
  "sent_data (s\<lparr>pi_reads := x\<rparr>) = sent_data s" "sent_data (s\<lparr>pi_recvs := y\<rparr>) = sent_data s" "sent_data (s\<lparr>pi_written := z\<rparr>) = sent_data s"
  "sent_data (s\<lparr>pi_result := r\<rparr>) = sent_data s" "sent_data (s\<lparr>pi_sent := pi_sent s @ [pipe_frame ident data closing]\<rparr>) = sent_data s @ data"
  by (simp_all add: sent_data_def pipe_frame_def)

lemma close_input_simps [simp]:
  "pi_result (close_input send t) = Some (Inr ())" "pi_written (close_input send t) = pi_written t" "sent_data (close_input send t) = sent_data t"
  by (simp_all add: close_input_def report_def)

lemmas close_input_data = close_input_simps(3) [unfolded sent_data_def]

lemma has_prefix_self [simp]: "has_prefix s s" "has_prefix s []" "has_prefix (a @ b @ r) (a @ b)"
  by (auto simp: has_prefix_iff)

lemma carries_pipe_in:
  assumes "carries_pipe input output s" "pi_result s = None"
  shows "carries_pipe input output (pipe_in send s)"
proof (cases "pi_reads s")
  case (Cons r rest)
  obtain data final where r: "r = (data, final)" by fastforce
  have c: "input = sent_data s @ data @ (if final then [] else input_bytes rest)" "output = pi_written s @ output_bytes (pi_recvs s)"
    using assms Cons r by (simp_all add: carries_pipe_def)
  show ?thesis
  proof (cases "data = []")
    case True
    then show ?thesis using c assms(2) Cons r by (simp add: pipe_in_def Let_def carries_pipe_def)
  next
    case False
    then show ?thesis using c assms(2) Cons r
      by (cases "send (List.length (pi_sent s))") (auto simp: pipe_in_def Let_def report_def carries_pipe_def sent_data_def pipe_frame_def close_input_data)
  qed
qed (use assms in \<open>simp add: pipe_in_def\<close>)

lemma carries_pipe_out:
  assumes "carries_pipe input output s" "pi_result s = None"
  shows "carries_pipe input output (pipe_out put s)"
proof (cases "pi_recvs s")
  case (Cons r rest)
  have c: "input = sent_data s @ input_bytes (pi_reads s)" "output = pi_written s @ output_bytes (r # rest)"
    using assms Cons by (simp_all add: carries_pipe_def)
  have t: "has_prefix (a @ data @ b) (a @ take n data)" for a data b :: bytes and n
    by (simp add: has_prefix_iff) (metis append_assoc append_take_drop_id)
  show ?thesis
  proof (cases r)
    case (Frame data closing)
    then show ?thesis using c assms(2) Cons t t [where b = "[]"]
      by (cases "data = []"; cases "put (pi_written s)") (auto simp: pipe_out_def Let_def report_def carries_pipe_def)
  qed (use c assms(2) Cons in \<open>simp_all add: pipe_out_def report_def carries_pipe_def\<close>)
qed (use assms in \<open>simp add: pipe_out_def\<close>)

lemma carries_pipe_run: "carries_pipe input output s \<Longrightarrow> carries_pipe input output (pipe_run send put turns s)"
  by (induction turns arbitrary: s) (auto simp: carries_pipe_in carries_pipe_out)

text \<open>C35. However the two directions of a pipe interleave and whatever fails, what was sent is a prefix of the
  input and what was written a prefix of what the other side sent, both in order; and a pipe that ends without
  an error has carried the whole of one direction. It may have cut the other one off.\<close>

theorem pipe_carries:
  assumes "Pipe load connect send put turns ident reads recvs = s"
  shows "has_prefix (input_bytes reads) (sent_data s) \<and> has_prefix (output_bytes recvs) (pi_written s)
    \<and> (pi_result s = Some (Inr ()) \<longrightarrow> sent_data s = input_bytes reads \<or> pi_written s = output_bytes recvs)"
proof -
  let ?s0 = "\<lparr>pi_reads = reads, pi_recvs = recvs, pi_sent = [], pi_written = [], pi_result = None\<rparr>"
  have "carries_pipe (input_bytes reads) (output_bytes recvs) (?s0\<lparr>pi_sent := [pipe_frame ident [] False]\<rparr>)"
    by (simp add: carries_pipe_def sent_data_def pipe_frame_def)
  then have r: "carries_pipe (input_bytes reads) (output_bytes recvs) (pipe_run send put turns (?s0\<lparr>pi_sent := [pipe_frame ident [] False]\<rparr>))"
    by (rule carries_pipe_run)
  have e: "carries_pipe (input_bytes reads) (output_bytes recvs) (report (Inl err) ?s0)" for err
    by (simp add: carries_pipe_def report_def sent_data_def)
  have "carries_pipe (input_bytes reads) (output_bytes recvs) s"
    using assms r e by (auto simp: Pipe_def Let_def split: sum.splits option.splits)
  then show ?thesis by (auto simp: carries_pipe_def split: option.splits)
qed

section \<open>A joined client\<close>

definition profile_reads :: "profile_json \<Rightarrow> bool" where
  "profile_reads j \<longleftrightarrow> (\<forall>p data. pf_marshal j p = Inr data \<longrightarrow> pf_unmarshal j data = Inr p)"

lemma SaveProfile_Inr:
  assumes "SaveProfile j mkdir fault fs path p = (fs', Inr ())" "profile_reads j" "fs path = None"
  shows "LoadProfile j None (\<lambda>_. None) fs' path = Inr p \<and> (\<forall>q. q \<noteq> path \<longrightarrow> fs' q = fs q)"
  using assms by (auto simp: SaveProfile_def LoadProfile_def profile_reads_def stat_mode_def read_file_def write_file_def too_broad_def Let_def
      split: if_splits sum.splits option.splits write_fault.splits)

lemma Redeem_client_Inr:
  assumes "Redeem_client redeem mkdir faults path secret password fs = (fs', Inr r)" "fresh_temp faults fs path"
  shows "redeem secret password = Inr r \<and> fs' = fs(path \<mapsto> (lr_token r, 384))"
  using assms atomicWrite_result [of faults fs path 384 "lr_token r"]
  by (fastforce simp: Redeem_client_def Save_def written_file_def split: sum.splits prod.splits if_splits)

lemma Fetch_Ret:
  assumes "FetchPinnedCertificate c io address pin path fs = Ret (fs', Inr ())"
  shows "\<exists>cert m. client_pin c cert = pin \<and> fs' path = Some (certPEM cert, m) \<and> (\<forall>q. q \<noteq> path \<longrightarrow> fs' q = fs q)"
  using assms by (auto simp: FetchPinnedCertificate_def write_file_def Let_def split: if_splits sum.splits list.splits option.splits write_fault.splits)

lemma client_join_done: "case client_join ij pj l c io dir args fs of Panic p \<Rightarrow> True | Ret (fs', st, message) \<Rightarrow> st = 0 \<longrightarrow>
    (\<exists>invite fs1 host port fs2 r. DecodeInvitation ij (args ! 1) = Inr invite
      \<and> FetchPinnedCertificate c (cj_fetch io) (in_address invite) (in_pin invite) (filepath_Join [dir, ''validator-ca.crt'']) fs = Ret (fs1, Inr ())
      \<and> split_host_port (in_address invite) = Some (host, port)
      \<and> Redeem_client (cj_redeem io) (cj_token_mkdir io) (cj_token io) (filepath_Join [dir, ''token'']) (in_secret invite) (args ! 3) fs1 = (fs2, Inr r)
      \<and> SaveProfile pj (cj_profile_mkdir io) (cj_profile io) fs2 (filepath_Join [dir, ''config.json''])
          \<lparr>pr_address = in_address invite, pr_server_name = host, pr_ca_path = filepath_Join [dir, ''validator-ca.crt''], pr_username = args ! 2\<rparr> = (fs', Inr ()))"
  unfolding client_join_def Let_def by (simp split: outcome.split sum.split option.split prod.split)

lemma client_names: "plain_part ''validator-ca.crt''" "plain_part ''token''" "plain_part ''config.json''"
  by (simp_all add: plain_part_def slash_def)

text \<open>A join that succeeds has fetched the certificate of the invitation's pin, redeemed its secret with the
  password given and kept the token for the owner only; later runs find in the profile the invitation's
  address, its host name and that certificate, unless the environment says otherwise.\<close>

theorem joined_client_settings:
  assumes "client_join ij pj l c io dir args fs = Ret (fs', 0, message)" "profile_reads pj" "fs (filepath_Join [dir, ''config.json'']) = None"
    and "\<And>tmp. wf_create (cj_token io) = Inr tmp \<Longrightarrow> fs tmp = None \<and> tmp \<noteq> filepath_Join [dir, ''token''] \<and> tmp \<noteq> filepath_Join [dir, ''validator-ca.crt'']"
  shows "\<exists>invite cert m host port r. DecodeInvitation ij (args ! 1) = Inr invite \<and> client_pin c cert = in_pin invite
    \<and> fs' (filepath_Join [dir, ''validator-ca.crt'']) = Some (certPEM cert, m)
    \<and> split_host_port (in_address invite) = Some (host, port)
    \<and> cj_redeem io (in_secret invite) (args ! 3) = Inr r \<and> Load None None fs' (filepath_Join [dir, ''token'']) = Inr (lr_token r)
    \<and> client_settings (\<lambda>_. []) (LoadProfile pj None (\<lambda>_. None) fs' (filepath_Join [dir, ''config.json'']))
        = (in_address invite, filepath_Join [dir, ''validator-ca.crt''], host)"
proof -
  let ?ca = "filepath_Join [dir, ''validator-ca.crt'']" and ?token = "filepath_Join [dir, ''token'']" and ?config = "filepath_Join [dir, ''config.json'']"
  obtain invite fs1 host port fs2 r where j: "DecodeInvitation ij (args ! 1) = Inr invite" "split_host_port (in_address invite) = Some (host, port)"
    and fetch: "FetchPinnedCertificate c (cj_fetch io) (in_address invite) (in_pin invite) ?ca fs = Ret (fs1, Inr ())"
    and redeem: "Redeem_client (cj_redeem io) (cj_token_mkdir io) (cj_token io) ?token (in_secret invite) (args ! 3) fs1 = (fs2, Inr r)"
    and save: "SaveProfile pj (cj_profile_mkdir io) (cj_profile io) fs2 ?config
          \<lparr>pr_address = in_address invite, pr_server_name = host, pr_ca_path = ?ca, pr_username = args ! 2\<rparr> = (fs', Inr ())"
    using client_join_done [where ij = ij and pj = pj and l = l and c = c and io = io and dir = dir and args = args and fs = fs] assms(1) by auto
  have ne: "?ca \<noteq> ?token" "?config \<noteq> ?ca" "?config \<noteq> ?token" using client_names by (simp_all add: Join_inject)
  obtain cert m where f: "client_pin c cert = in_pin invite" "fs1 ?ca = Some (certPEM cert, m)" "\<forall>q. q \<noteq> ?ca \<longrightarrow> fs1 q = fs q"
    using Fetch_Ret [OF fetch] by blast
  have "fresh_temp (cj_token io) fs1 ?token" using assms(4) f(3) by (auto simp: fresh_temp_def)
  note t = Redeem_client_Inr [OF redeem this]
  have "fs2 ?config = None" using t f(3) ne assms(3) by simp
  note p = SaveProfile_Inr [OF save assms(2) this]
  have "fs' ?ca = Some (certPEM cert, m)" "fs' ?token = Some (lr_token r, 384)" using p t f(2) ne by auto
  then show ?thesis using j f(1) t p by (intro exI conjI) (auto simp: Load_def client_settings_def Let_def)
qed

section \<open>Witnesses\<close>

theorem pipe_carries_witness:
  "\<exists>s. Pipe (Inr ''t'') (\<lambda>_. Inr ()) (\<lambda>_. None) (\<lambda>_. None) [True, False, True, True] ''i'' [(''ab'', False), ([], True)] [Frame ''x'' False] = s
    \<and> pi_result s = Some (Inr ()) \<and> pi_written s = ''x'' \<and> sent_data s = input_bytes [(''ab'', False), ([], True)]"
proof -
  obtain s where s: "Pipe (Inr ''t'') (\<lambda>_. Inr ()) (\<lambda>_. None) (\<lambda>_. None) [True, False, True, True] ''i'' [(''ab'', False), ([], True)] [Frame ''x'' False] = s"
    by blast
  then have "pi_result s = Some (Inr ())" "pi_written s = ''x''" "List.length (pi_sent s) = 3" "sent_data s = ''ab''"
    by (auto simp: Pipe_def pipe_in_def pipe_out_def close_input_def report_def pipe_frame_def sent_data_def)
  then show ?thesis using pipe_carries [OF s] s by auto
qed

definition demo_profile_json :: profile_json where
  "demo_profile_json = \<lparr>pf_marshal = (\<lambda>p. Inr (raw_url_encode (pr_address p) @ CHR ''.'' # raw_url_encode (pr_server_name p) @ CHR ''.''
         # raw_url_encode (pr_ca_path p) @ CHR ''.'' # raw_url_encode (pr_username p))),
     pf_unmarshal = (\<lambda>data. case map raw_url_decode (split (CHR ''.'') data) of
         [Inr a, Inr n, Inr k, Inr u] \<Rightarrow> Inr \<lparr>pr_address = a, pr_server_name = n, pr_ca_path = k, pr_username = u\<rparr>
       | _ \<Rightarrow> Inl (Error ''invalid profile''))\<rparr>"

lemma demo_profile_reads: "profile_reads demo_profile_json"
proof -
  have "split (CHR ''.'') (raw_url_encode a @ CHR ''.'' # raw_url_encode n @ CHR ''.'' # raw_url_encode k @ CHR ''.'' # raw_url_encode u)
      = [raw_url_encode a, raw_url_encode n, raw_url_encode k, raw_url_encode u]" for a n k u
    by (simp only: split_append_sep [OF no_dot_url] split_no_sep [OF no_dot_url])
  then show ?thesis by (simp add: profile_reads_def demo_profile_json_def b64url.dec_enc)
qed

definition demo_client_io :: client_io where
  "demo_client_io = \<lparr>cj_fetch = \<lparr>fi_dial = Inr (), fi_handshake = Inr (), fi_certs = [''cert''], fi_mkdir = Inr (), fi_write = None\<rparr>,
     cj_reads = (\<lambda>_. None), cj_client = Inr (), cj_redeem = (\<lambda>secret password. Inr \<lparr>lr_token = ''token'', lr_expires = 1, lr_role = 1\<rparr>),
     cj_token_mkdir = Inr (), cj_token = no_faults ''/t'', cj_profile_mkdir = Inr (), cj_profile = None\<rparr>"

definition demo_code :: string where
  "demo_code = ''SDC1_'' @ raw_url_encode (''v:1'' @ [CHR 0x0A] @ client_pin toy_crypto ''cert'' @ [CHR 0x0A] @ ''s'')"

lemma demo_code_decodes: "DecodeInvitation demo_invitation_json demo_code = Inr \<lparr>in_address = ''v:1'', in_pin = client_pin toy_crypto ''cert'', in_secret = ''s''\<rparr>"
proof -
  have "ascii_text ''v:1''" "ascii_text (client_pin toy_crypto ''cert'')" "ascii_text ''s''" by code_simp+
  moreover have "ij_marshal demo_invitation_json ''v:1'' (client_pin toy_crypto ''cert'') ''s'' = Inr (''v:1'' @ [CHR 0x0A] @ client_pin toy_crypto ''cert'' @ [CHR 0x0A] @ ''s'')"
    by (simp add: demo_invitation_json_def)
  ultimately have "ij_unmarshal demo_invitation_json (''v:1'' @ [CHR 0x0A] @ client_pin toy_crypto ''cert'' @ [CHR 0x0A] @ ''s'')
      = Inr \<lparr>in_address = ''v:1'', in_pin = client_pin toy_crypto ''cert'', in_secret = ''s''\<rparr>"
    using demo_invitation_reads unfolding invitation_reads_def by blast
  then show ?thesis by (simp add: DecodeInvitation_def demo_code_def has_prefix_def b64url.dec_enc client_pin_def)
qed

theorem joined_client_settings_witness:
  "\<exists>fs' message. client_join demo_invitation_json demo_profile_json demo_lib toy_crypto demo_client_io ''/d'' [''join'', demo_code, ''ann'', ''secret''] (\<lambda>_. None)
      = Ret (fs', 0, message) \<and> Load None None fs' (filepath_Join [''/d'', ''token'']) = Inr ''token''"
proof -
  let ?args = "[''join'', demo_code, ''ann'', ''secret'']"
  have t: "''/t'' \<noteq> filepath_Join [''/d'', ''token'']" "''/t'' \<noteq> filepath_Join [''/d'', ''validator-ca.crt'']" by code_simp+
  have n: "filepath_Join [''/d'', ''token''] \<noteq> []" "filepath_Join [''/d'', ''validator-ca.crt''] \<noteq> []" using client_names Join_not_empty by blast+
  have h: "split_host_port ''v:1'' = Some (''v'', ''1'')" "has_prefix (client_pin toy_crypto ''cert'') ''sha256/''"
    by code_simp (simp add: client_pin_def has_prefix_def)
  obtain fs' message where j: "client_join demo_invitation_json demo_profile_json demo_lib toy_crypto demo_client_io ''/d'' ?args (\<lambda>_. None) = Ret (fs', 0, message)"
    using t n h by (simp add: client_join_def demo_code_decodes demo_client_io_def FetchPinnedCertificate_def write_file_def Dial_def read_file_def
        demo_lib_sel Redeem_client_def Save_def atomicWrite_def no_faults_def SaveProfile_def demo_profile_json_def certPEM_def Let_def)
  show ?thesis
    using joined_client_settings [OF j demo_profile_reads refl] t j by (auto simp: demo_client_io_def no_faults_def)
qed

end
