(* ===== verification/AdminExec.thy ===== *)
theory AdminExec
  imports ServerJobs Maintenance MetricsStore
begin

text \<open>
  Arbitrary commands run on the validator's side for an administrator: \<open>src/internal/adminexec/adminexec.go\<close>.
  The store has a single connection (\<open>SetMaxOpenConns(1)\<close> in \<open>store.go\<close>), so a transaction that
  is neither committed nor rolled back keeps every later one waiting.
\<close>

section \<open>Requests\<close>

record exec_request =
  xr_actor :: string
  xr_role :: int
  xr_agent :: string
  xr_reason :: string
  xr_command :: string
  xr_timeout :: duration
  xr_confirmed :: bool
  xr_capture :: bool

definition ValidateExec :: "exec_request \<Rightarrow> unit result" where
  "ValidateExec r =
    (if xr_role r \<noteq> ROLE_ADMIN then Inl (Error ''admin role required'')
     else if xr_actor r = [] \<or> xr_agent r = [] then Inl (Error ''actor and target required'')
     else if xr_reason r = [] \<or> List.length (xr_reason r) > 2048 then Inl (Error ''bounded reason required'')
     else if xr_command r = [] \<or> List.length (xr_command r) > 65536 then Inl (Error ''bounded command required'')
     else if xr_timeout r \<le> 0 \<or> xr_timeout r > hour then Inl (Error ''bounded timeout required'')
     else if \<not> xr_confirmed r then Inl (Error ''confirmation required'')
     else Inr ())"

section \<open>Execution\<close>

text \<open>The runner's limit, the shell if one is configured, and what the driver stores for an empty slice.\<close>

record executor =
  ex_max :: int
  ex_shell :: string
  ex_empty :: "bytes option"

text \<open>The database as committed, and whether a transaction was left open on the connection.\<close>

record exec_store =
  es_db :: db
  es_open :: bool

definition randomID :: "env \<Rightarrow> nat \<Rightarrow> string result" where
  "randomID e k = (case rand_read e k 16 of Inl err \<Rightarrow> Inl err | Inr raw \<Rightarrow> Inr (hex_encode raw))"

definition exec_metadata :: "exec_request \<Rightarrow> bytes" where
  "exec_metadata r = ''{'' @ json_string ''capture'' @ '':'' @ (if xr_capture r then ''true'' else ''false'') @ '',''
     @ json_string ''command'' @ '':'' @ json_string (xr_command r) @ '','' @ json_string ''timeout_ms'' @ '':''
     @ dec_of_int (xr_timeout r div 1000000) @ ''}''"

definition exec_row :: "exec_request \<Rightarrow> time \<Rightarrow> string \<Rightarrow> JobRow" where
  "exec_row r created ident = \<lparr>j_id = ident, j_key = ident, j_actor = xr_actor r, j_agent = xr_agent r, j_kind = ''arbitrary'',
     j_state = JOB_RUNNING, j_reason = xr_reason r, j_created = unix_milli created, j_deadline = unix_milli (created + xr_timeout r),
     j_attempt = 0, j_dispatch = None, j_capture = xr_capture r, j_output = None, j_truncated = False\<rparr>"

definition exec_audit :: "exec_request \<Rightarrow> time \<Rightarrow> string \<Rightarrow> AuditRow" where
  "exec_audit r created ident = \<lparr>e_id = ident, e_actor = Some (xr_actor r), e_agent = Some (xr_agent r), e_action = ''arbitrary_command'',
     e_reason = xr_reason r, e_occurred = unix_milli created, e_metadata = exec_metadata r\<rparr>"

definition exec_state :: "run_result \<Rightarrow> int" where
  "exec_state res = (case ru_err res of None \<Rightarrow> JOB_SUCCEEDED
   | Some err \<Rightarrow> if err = DeadlineExceeded then JOB_TIMED_OUT else if err = Canceled then JOB_CANCELLED else JOB_FAILED)"

definition exec_done :: "executor \<Rightarrow> exec_request \<Rightarrow> run_result \<Rightarrow> JobRow \<Rightarrow> JobRow" where
  "exec_done x r res row = row\<lparr>j_state := exec_state res,
     j_output := (if xr_capture r then if ru_output res = [] then ex_empty x else Some (ru_output res) else None),
     j_truncated := xr_capture r \<and> ru_truncated res\<rparr>"

definition exec_argv :: "executor \<Rightarrow> exec_request \<Rightarrow> string list" where
  "exec_argv x r = [if ex_shell x = [] then ''/bin/sh'' else ex_shell x, ''-c'', xr_command r]"

definition record_done :: "executor \<Rightarrow> exec_request \<Rightarrow> run_result \<Rightarrow> string \<Rightarrow> db \<Rightarrow> db \<times> nat" where
  "record_done x r res ident d =
    (let u = update_rows (\<lambda>row. j_id row = ident) (exec_done x r res) (jobs d) in (d\<lparr>jobs := fst u\<rparr>, snd u))"

text \<open>
  Statements 0 to 3 are the transaction's, 4 the final update; \<open>proc\<close> is how the command line goes.
  The result is the store, the command line that was run if one was, the run's result and the error.
  There is none when the call waits for the connection for as long as its context lives.
\<close>

definition Execute :: "env \<Rightarrow> executor \<Rightarrow> (string list \<Rightarrow> process) \<Rightarrow> exec_request \<Rightarrow> exec_store
    \<Rightarrow> (exec_store \<times> string list option \<times> run_result \<times> error option) option" where
  "Execute e x proc r s = (case ValidateExec r of Inl err \<Rightarrow> Some (s, None, no_result, Some err)
   | Inr _ \<Rightarrow> (case randomID e 0 of Inl err \<Rightarrow> Some (s, None, no_result, Some err)
   | Inr ident \<Rightarrow>
     (if es_open s then None
      else let created = env_clock e 0; d = es_db s in
        if env_db_fails e 0 then Some (s, None, no_result, Some StorageFailure)
        else case sql_exec (env_db_fails e 1) (insert_job (exec_row r created ident)) d of
          (d1, Inl err) \<Rightarrow> Some (s, None, no_result, Some err)
        | (d1, Inr n1) \<Rightarrow> (case randomID e 1 of
            Inl err \<Rightarrow> Some (s\<lparr>es_open := True\<rparr>, None, no_result, Some err)
          | Inr auditID \<Rightarrow> (case sql_exec (env_db_fails e 2) (insert_audit (exec_audit r created auditID)) d1 of
              (d2, Inl err) \<Rightarrow> Some (s, None, no_result, Some err)
            | (d2, Inr n2) \<Rightarrow>
                if env_db_fails e 3 then Some (s, None, no_result, Some StorageFailure)
                else let res = Run (ex_max x) (proc (exec_argv x r)) in
                  case sql_exec (env_db_fails e 4) (record_done x r res ident) d2 of
                    (d3, Inl err) \<Rightarrow> Some (s\<lparr>es_db := d3\<rparr>, Some (exec_argv x r), res, Some err)
                  | (d3, Inr n3) \<Rightarrow> Some (s\<lparr>es_db := d3\<rparr>, Some (exec_argv x r), res, None))))))"

section \<open>What a run leaves\<close>

lemma Execute_ran:
  assumes "Execute e x proc r s = Some (s', Some argv, res, err)"
  shows "\<exists>ident auditID d2. ValidateExec r = Inr () \<and> argv = exec_argv x r \<and> res = Run (ex_max x) (proc argv) \<and> db_ok d2
    \<and> d2 = (es_db s)\<lparr>jobs := jobs (es_db s) @ [exec_row r (env_clock e 0) ident],
         audit_events := audit_events (es_db s) @ [exec_audit r (env_clock e 0) auditID]\<rparr>
    \<and> (err \<noteq> None \<and> s' = s\<lparr>es_db := d2\<rparr> \<or> err = None \<and> s' = s\<lparr>es_db := fst (record_done x r res ident d2)\<rparr>)"
proof -
  obtain ident auditID d1 d2 n1 n2 where v: "ValidateExec r = Inr ()"
    and d: "sql_exec (env_db_fails e 1) (insert_job (exec_row r (env_clock e 0) ident)) (es_db s) = (d1, Inr n1)"
      "sql_exec (env_db_fails e 2) (insert_audit (exec_audit r (env_clock e 0) auditID)) d1 = (d2, Inr n2)"
    and r: "argv = exec_argv x r" "res = Run (ex_max x) (proc argv)"
    and u: "case sql_exec (env_db_fails e 4) (record_done x r res ident) d2 of
       (d3, Inl er) \<Rightarrow> s' = s\<lparr>es_db := d3\<rparr> \<and> err = Some er | (d3, Inr n) \<Rightarrow> s' = s\<lparr>es_db := d3\<rparr> \<and> err = None"
    using assms unfolding Execute_def Let_def by (auto split: sum.splits if_splits prod.splits)
  have "err \<noteq> None \<and> s' = s\<lparr>es_db := d2\<rparr> \<or> err = None \<and> s' = s\<lparr>es_db := fst (record_done x r res ident d2)\<rparr>"
    using u by (cases "sql_exec (env_db_fails e 4) (record_done x r res ident) d2"; cases "snd (sql_exec (env_db_fails e 4) (record_done x r res ident) d2)")
      (auto simp: sql_exec_Inr dest: sql_exec_Inl)
  moreover have "db_ok d2" "d2 = (es_db s)\<lparr>jobs := jobs (es_db s) @ [exec_row r (env_clock e 0) ident],
         audit_events := audit_events (es_db s) @ [exec_audit r (env_clock e 0) auditID]\<rparr>"
    using d by (auto simp: sql_exec_Inr insert_job_def insert_audit_def)
  ultimately show ?thesis using v r by blast
qed

lemma record_done_last:
  assumes "ident \<notin> j_id ` set rows" "jobs d = rows @ [row]" "j_id row = ident"
  shows "fst (record_done x r res ident d) = d\<lparr>jobs := rows @ [exec_done x r res row]\<rparr>"
proof -
  have "map (\<lambda>q. if j_id q = ident then exec_done x r res q else q) rows = rows"
    using assms(1) by (intro map_idI) auto
  then show ?thesis using assms(2,3) by (simp add: record_done_def update_rows_def Let_def)
qed


section \<open>A transaction left open\<close>


section \<open>Witnesses\<close>

definition demo_exec :: exec_request where
  "demo_exec = \<lparr>xr_actor = ''u'', xr_role = ROLE_ADMIN, xr_agent = ''a'', xr_reason = ''why'', xr_command = ''true'', xr_timeout = minute,
     xr_confirmed = True, xr_capture = True\<rparr>"

definition demo_executor :: executor where
  "demo_executor = \<lparr>ex_max = 4, ex_shell = [], ex_empty = None\<rparr>"

lemma demo_exec_valid: "ValidateExec demo_exec = Inr ()"
  by (simp add: ValidateExec_def demo_exec_def go_time)

lemma demo_exec_inserts: "db_ok (demo_db\<lparr>jobs := [exec_row demo_exec now ident]\<rparr>)"
    "db_ok (demo_db\<lparr>jobs := [exec_row demo_exec now ident], audit_events := [exec_audit demo_exec now ident2]\<rparr>)"
    "jobs demo_db = []" "audit_events demo_db = []"
  by (simp_all add: db_ok_def table_ok_defs unique_opt_def List.map_filter_def refers_def demo_db_def empty_db_def exec_row_def exec_audit_def demo_exec_def)



end
