(* ===== verification/ValidatorRun.thy ===== *)
theory ValidatorRun
  imports LocalControl RegistryService RegistryFacts
begin

text \<open>
  Starting the validator: \<open>RunValidator\<close> of \<open>src/internal/runtime/validator.go\<close> from its configuration
  and database to the servers it serves, with the services and interceptors it registers. Opening files,
  sockets and the store are parameters; the servers' own loops are gRPC's.
\<close>

section \<open>Starting\<close>

text \<open>How the calls to the outside go: the store, the test for the authority's file, reading files, pairing a
  certificate with a key, the two listeners, the socket's directory, the group's number, and its file's owner and mode.\<close>

record run_io =
  ri_store :: "unit result"
  ri_stat :: "error option"
  ri_reads :: "string \<Rightarrow> error option"
  ri_pair :: "bytes \<Rightarrow> bytes \<Rightarrow> unit result"
  ri_listen :: "unit result"
  ri_mkdir :: "unit result"
  ri_socket :: "unit result"
  ri_group :: "string result"
  ri_chown :: "unit result"
  ri_chmod :: "unit result"

text \<open>A validator that serves: the state its services share, and what its servers were built with.\<close>

record validator =
  va_fleet :: fleet
  va_limiter :: RateLimiter
  va_issuer :: Issuer
  va_policies :: EndpointPolicies
  va_ca :: CA
  va_validity :: duration
  va_certificate :: "bytes \<times> bytes"
  va_roots :: "bytes list"
  va_socket :: "string \<times> int \<times> nat"

text \<open>The first administrator, when the environment names one; that there are users already is no error.\<close>

definition bootstrap_step :: "crypto \<Rightarrow> env \<Rightarrow> ValidatorConfig \<Rightarrow> db \<Rightarrow> db \<times> unit result" where
  "bootstrap_step c e cfg d =
    (if vc_bootstrap_user cfg = [] \<and> vc_bootstrap_password cfg = [] then (d, Inr ())
     else case BootstrapAdmin c e d (vc_bootstrap_user cfg) (vc_bootstrap_password cfg) (env_clock e 0) of
       (d', Inl err) \<Rightarrow> if error_text err = ''bootstrap already completed'' then (d', Inr ()) else (d', Inl err)
     | (d', Inr u) \<Rightarrow> (d', Inr ()))"

text \<open>The certificate with its key, the roots for client certificates, and the agents' authority.\<close>

definition load_pair :: "run_io \<Rightarrow> file_system \<Rightarrow> ValidatorConfig \<Rightarrow> (bytes \<times> bytes) result" where
  "load_pair io fs cfg = (case read_file (ri_reads io) fs (vc_tls_cert cfg) of Inl err \<Rightarrow> Inl err
   | Inr cert \<Rightarrow> (case read_file (ri_reads io) fs (vc_tls_key cfg) of Inl err \<Rightarrow> Inl err
   | Inr key \<Rightarrow> (case ri_pair io cert key of Inl err \<Rightarrow> Inl err | Inr u \<Rightarrow> Inr (cert, key))))"

definition load_tls :: "cert_lib \<Rightarrow> run_io \<Rightarrow> file_system \<Rightarrow> ValidatorConfig \<Rightarrow> ((bytes \<times> bytes) \<times> bytes list \<times> CA) result" where
  "load_tls l io fs cfg = (case load_pair io fs cfg of Inl err \<Rightarrow> Inl (Errorf ''load validator TLS identity: %w'' [] (Some err))
   | Inr cert \<Rightarrow> (case read_file (ri_reads io) fs (vc_client_ca cfg) of Inl err \<Rightarrow> Inl (Errorf ''read client CA: %w'' [] (Some err))
   | Inr caPEM \<Rightarrow>
     (if \<not> cb_pool l caPEM then Inl (Error ''invalid client CA'')
      else case LoadCA l (ri_stat io) (ri_reads io) fs (vc_agent_ca cfg) (vc_passphrase cfg) of
        Inl err \<Rightarrow> Inl (Errorf ''load agent CA: %w'' [] (Some err))
      | Inr agentCA \<Rightarrow> if \<not> cb_pool l (ca_pem agentCA) then Inl (Error ''invalid agent CA'')
          else Inr (cert, [caPEM, ca_pem agentCA], agentCA))))"

text \<open>The local socket: the group's number is read by \<open>strconv.Atoi\<close>; the mode is 0660.\<close>

definition open_socket :: "run_io \<Rightarrow> string \<Rightarrow> (string \<times> int \<times> nat) result" where
  "open_socket io path = (case ri_mkdir io of Inl err \<Rightarrow> Inl err
   | Inr _ \<Rightarrow> (case ri_socket io of Inl err \<Rightarrow> Inl err
   | Inr _ \<Rightarrow> (case ri_group io of Inl err \<Rightarrow> Inl err
   | Inr gid \<Rightarrow> (case parse_int64 gid of None \<Rightarrow> Inl (External ''strconv'')
   | Some g \<Rightarrow> (case ri_chown io of Inl err \<Rightarrow> Inl err
   | Inr _ \<Rightarrow> (case ri_chmod io of Inl err \<Rightarrow> Inl err
   | Inr _ \<Rightarrow> Inr (path, g, 432)))))))"

text \<open>
  The whole start, with an environment for each of the three calls to the store. A start that fails leaves
  what those calls have committed.
\<close>

definition RunValidator :: "crypto \<Rightarrow> cert_lib \<Rightarrow> run_io \<Rightarrow> env \<Rightarrow> env \<Rightarrow> env \<Rightarrow> ValidatorConfig \<Rightarrow> file_system \<Rightarrow> db \<Rightarrow> db \<times> validator result" where
  "RunValidator c l io e1 e2 e3 cfg fs d = (case ri_store io of Inl err \<Rightarrow> (d, Inl err)
   | Inr _ \<Rightarrow> (case bootstrap_step c e1 cfg d of (d1, Inl err) \<Rightarrow> (d1, Inl err)
   | (d1, Inr _) \<Rightarrow> (case MarkAllOffline e2 d1 (env_clock e2 0) of (d2, Inl err) \<Rightarrow> (d2, Inl err)
   | (d2, Inr _) \<Rightarrow> (case load_tls l io fs cfg of Inl err \<Rightarrow> (d2, Inl err)
   | Inr (cert, roots, agentCA) \<Rightarrow> (case ri_listen io of Inl err \<Rightarrow> (d2, Inl err)
   | Inr _ \<Rightarrow> (case NewIssuer (vc_token_key cfg) (15 * minute) of Inl err \<Rightarrow> (d2, Inl err)
   | Inr issuer \<Rightarrow> (case Reconcile e3 (NewManager 22000 22999) d2 (env_clock e3 0) of (m, d3, Inl err) \<Rightarrow> (d3, Inl err)
   | (m, d3, Inr _) \<Rightarrow> (case open_socket io (vc_socket cfg) of Inl err \<Rightarrow> (d3, Inl err)
   | Inr sock \<Rightarrow> (d3, Inr \<lparr>va_fleet = \<lparr>fl_db = d3, fl_registry = Some (New 1 (Some DefaultLimits) (45 * second)), fl_ssh = Some m,
          fl_relay = Some NewRelay\<rparr>,
        va_limiter = NewRateLimiter 5 minute, va_issuer = issuer, va_policies = vc_policies cfg, va_ca = agentCA,
        va_validity = 24 * hour, va_certificate = cert, va_roots = roots, va_socket = sock\<rparr>)))))))))"

section \<open>Serving\<close>

text \<open>The interceptors of the two servers, and the services as they were built.\<close>

definition serve_unary :: "crypto \<Rightarrow> claims_json \<Rightarrow> (string \<Rightarrow> Addr option) \<Rightarrow> env \<Rightarrow> validator \<Rightarrow> ctx \<Rightarrow> string \<Rightarrow> (ctx \<Rightarrow> 'r result) \<Rightarrow> 'r result" where
  "serve_unary c js pa e v ctx method handler = EndpointUnaryInterceptor c js (va_issuer v) (va_policies v) pa e ctx method handler"

definition serve_stream :: "crypto \<Rightarrow> claims_json \<Rightarrow> (string \<Rightarrow> Addr option) \<Rightarrow> env \<Rightarrow> validator \<Rightarrow> ctx \<Rightarrow> string \<Rightarrow> (ctx \<Rightarrow> 'r result) \<Rightarrow> 'r result" where
  "serve_stream c js pa e v ctx method handler = StreamInterceptor c js (va_issuer v) (va_policies v) pa e ctx method handler"

definition serve_enrollment :: "crypto \<Rightarrow> x509 \<Rightarrow> env \<Rightarrow> validator \<Rightarrow> bytes \<Rightarrow> string \<Rightarrow> string \<Rightarrow> validator \<times> EnrollResponse result" where
  "serve_enrollment c x e v csr token hostname =
    (case Enroll c x (ca_pem (va_ca v)) e (va_validity v) (fl_db (va_fleet v)) csr token hostname of
       (d', r) \<Rightarrow> (v\<lparr>va_fleet := (va_fleet v)\<lparr>fl_db := d'\<rparr>\<rparr>, r))"

definition agent_service :: "codec_json \<Rightarrow> (string list \<Rightarrow> string list) \<Rightarrow> (float64 list \<Rightarrow> float64) \<Rightarrow> (AgentHello \<Rightarrow> bytes result) \<Rightarrow> agent_server" where
  "agent_service pj order avg marshal = \<lparr>as_persistence = True,
     as_authorize = Some (\<lambda>e d ident serial now. AuthorizeConnection e 0 d ident serial now),
     as_handler = Some \<lparr>hd_db = True, hd_metrics = Some (pj, order, avg)\<rparr>, as_marshal = marshal\<rparr>"

section \<open>A validator starts from a clean state\<close>

lemma RunValidator_Inr:
  assumes "RunValidator c l io e1 e2 e3 cfg fs d = (d', Inr v)"
  shows "\<exists>d1 d2 m. bootstrap_step c e1 cfg d = (d1, Inr ()) \<and> MarkAllOffline e2 d1 (env_clock e2 0) = (d2, Inr ())
    \<and> Reconcile e3 (NewManager 22000 22999) d2 (env_clock e3 0) = (m, d', Inr ())
    \<and> load_tls l io fs cfg = Inr (va_certificate v, va_roots v, va_ca v) \<and> NewIssuer (vc_token_key cfg) (15 * minute) = Inr (va_issuer v)
    \<and> va_fleet v = \<lparr>fl_db = d', fl_registry = Some (New 1 (Some DefaultLimits) (45 * second)), fl_ssh = Some m, fl_relay = Some NewRelay\<rparr>"
  using assms unfolding RunValidator_def by (auto split: sum.splits prod.splits)

lemma bootstrap_step_Inr:
  assumes "bootstrap_step c e cfg d = (d', Inr ())" "db_ok d"
  shows "db_ok d' \<and> (d' = d \<or> users d = [] \<and> (\<exists>row. d' = d\<lparr>users := [row]\<rparr> \<and> u_role row = ROLE_ADMIN \<and> u_username row = vc_bootstrap_user cfg \<and> u_username row \<noteq> []))"
proof -
  have "d' = d \<or> BootstrapAdmin c e d (vc_bootstrap_user cfg) (vc_bootstrap_password cfg) (env_clock e 0) = (d', Inr ())"
    using assms(1) by (auto simp: bootstrap_step_def BootstrapAdmin_def split: if_splits sum.splits prod.splits dest: sql_exec_Inl)
  then show ?thesis
    using assms(2) by (auto simp: BootstrapAdmin_def sql_exec_Inr role_defs split: if_splits sum.splits prod.splits)
qed

lemma MarkAllOffline_Inr:
  assumes "MarkAllOffline e d now = (d', Inr ())"
  shows "db_ok d' \<and> (\<exists>rows. d' = d\<lparr>connections := rows\<rparr>) \<and> (\<forall>r \<in> set (connections d'). c_state r \<noteq> ''online'')"
  using assms by (auto simp: MarkAllOffline_def sql_exec_Inr set_offline_def update_rows_def Let_def split: sum.splits prod.splits if_splits)

lemma Reconcile_Inr:
  assumes "Reconcile e m d now = (m', d', Inr ())"
  shows "db_ok d' \<and> (\<exists>rows. d' = d\<lparr>ssh_sessions := rows\<rparr>) \<and> m' = m\<lparr>mg_tokens := Map.empty\<rparr>
    \<and> (\<forall>r \<in> set (ssh_sessions d'). s_state r \<in> {1, 2} \<longrightarrow> unix_milli now < s_expires r)"
  using assms by (auto simp: Reconcile_def sql_exec_Inr mark_expired_def update_rows_def Let_def split: sum.splits prod.splits if_splits)

text \<open>C19. A validator that serves has a consistent store in which no agent counts as connected and no live SSH session
  has expired, with the jobs and agents it had; its registry and its bindings are empty, its token key is long
  enough, and a user it did not have before is the administrator named by its environment.\<close>

theorem validator_starts_clean:
  assumes "db_ok d" "RunValidator c l io e1 e2 e3 cfg fs d = (d', Inr v)"
  shows "fl_db (va_fleet v) = d' \<and> db_ok d' \<and> jobs d' = jobs d \<and> agents d' = agents d
    \<and> (\<forall>r \<in> set (connections d'). c_state r \<noteq> ''online'')
    \<and> (\<forall>r \<in> set (ssh_sessions d'). s_state r \<in> {1, 2} \<longrightarrow> unix_milli (env_clock e3 0) < s_expires r)
    \<and> (\<exists>reg m. fl_registry (va_fleet v) = Some reg \<and> reg_ok reg \<and> rg_entries reg = Map.empty
          \<and> fl_ssh (va_fleet v) = Some m \<and> mg_tokens m = Map.empty)
    \<and> (users d' = users d \<or> users d = [] \<and> (\<exists>row. users d' = [row] \<and> u_role row = ROLE_ADMIN \<and> u_username row = vc_bootstrap_user cfg \<and> u_username row \<noteq> []))
    \<and> 32 \<le> List.length (iss_key (va_issuer v))"
proof -
  obtain d1 d2 m where r: "bootstrap_step c e1 cfg d = (d1, Inr ())" "MarkAllOffline e2 d1 (env_clock e2 0) = (d2, Inr ())"
      "Reconcile e3 (NewManager 22000 22999) d2 (env_clock e3 0) = (m, d', Inr ())" "NewIssuer (vc_token_key cfg) (15 * minute) = Inr (va_issuer v)"
    and f: "va_fleet v = \<lparr>fl_db = d', fl_registry = Some (New 1 (Some DefaultLimits) (45 * second)), fl_ssh = Some m, fl_relay = Some NewRelay\<rparr>"
    using RunValidator_Inr [OF assms(2)] by blast
  note b = bootstrap_step_Inr [OF r(1) assms(1)] and o = MarkAllOffline_Inr [OF r(2)] and c = Reconcile_Inr [OF r(3)]
  obtain rows1 where d2: "d2 = d1\<lparr>connections := rows1\<rparr>" using o by blast
  obtain rows2 where d': "d' = d2\<lparr>ssh_sessions := rows2\<rparr>" using c by blast
  have "connections d' = connections d2" "users d' = users d1" "jobs d' = jobs d1" "agents d' = agents d1" using d2 d' by simp_all
  moreover have "32 \<le> List.length (iss_key (va_issuer v))" using r(4) by (auto simp: NewIssuer_def split: if_splits dest!: sym [of _ "va_issuer v"])
  moreover have "rg_entries (New 1 (Some DefaultLimits) (45 * second)) = Map.empty" by (simp add: New_def)
  moreover have "mg_tokens m = Map.empty" using c by auto
  ultimately show ?thesis using b o c f reg_ok_New by auto
qed

section \<open>An initialised validator serves\<close>

text \<open>What the libraries document: a certificate that parses makes a root of its PEM text, and the certificate of a run of
  the initialisation parses and belongs to its key. The calls to the outside succeed.\<close>

definition pool_reads :: "cert_lib \<Rightarrow> bool" where
  "pool_reads l \<longleftrightarrow> (\<forall>der. ok (cb_parse_cert l der) \<longrightarrow> cb_pool l (cb_pem l (cert_block der)))"

definition pairs_made :: "cert_lib \<Rightarrow> init_io \<Rightarrow> run_io \<Rightarrow> bool" where
  "pairs_made l io ri \<longleftrightarrow> (\<forall>host der raw. init_pair l io host der raw \<longrightarrow>
     ok (cb_parse_cert l der) \<and> ri_pair ri (cb_pem l (cert_block der)) (cb_pem l (key_block raw)) = Inr ())"

definition opens_all :: "run_io \<Rightarrow> bool" where
  "opens_all ri \<longleftrightarrow> ri_store ri = Inr () \<and> ri_stat ri = None \<and> ri_reads ri = (\<lambda>_. None) \<and> ri_listen ri = Inr () \<and> (\<forall>path. ok (open_socket ri path))"

lemma store_calls_quiet:
  assumes "db_ok d" "\<not> env_db_fails e2 0" "\<not> env_db_fails e3 0"
  shows "\<exists>d2 d3 m2. MarkAllOffline e2 d now2 = (d2, Inr ()) \<and> Reconcile e3 m d2 now3 = (m2, d3, Inr ())"
proof -
  obtain d2 n2 where s2: "set_offline (\<lambda>r. c_state r = ''online'') (unix_milli now2) d = (d2, n2)" by fastforce
  then have ok2: "db_ok d2" using db_ok_offline [OF assms(1), of "\<lambda>r. c_state r = ''online''" "unix_milli now2"] by simp
  obtain d3 n3 where s3: "mark_expired (unix_milli now3) d2 = (d3, n3)" by fastforce
  have "db_ok (d2\<lparr>ssh_sessions := map (\<lambda>r. if s_state r \<in> {1, 2} \<and> s_expires r \<le> unix_milli now3 then r\<lparr>s_state := 4, s_port := None\<rparr> else r) (ssh_sessions d2)\<rparr>)"
    by (rule db_ok_update_ssh [OF ok2]) simp
  then have "db_ok d3" using s3 by (auto simp: mark_expired_def update_rows_def Let_def)
  then show ?thesis using assms(2,3) s2 s3 ok2 by (simp add: MarkAllOffline_def Reconcile_def sql_exec_def)
qed

lemma RunValidator_quiet:
  assumes "opens_all ri" "db_ok d" "\<not> env_db_fails e2 0" "\<not> env_db_fails e3 0"
    and "bootstrap_step c e1 cfg d = (d, Inr ())" "load_tls l ri fs cfg = Inr (cert, roots, ca)" "ok (NewIssuer (vc_token_key cfg) (15 * minute))"
  shows "\<exists>d' v. RunValidator c l ri e1 e2 e3 cfg fs d = (d', Inr v) \<and> va_certificate v = cert \<and> va_roots v = roots \<and> va_ca v = ca
    \<and> va_policies v = vc_policies cfg"
proof -
  obtain sock where "open_socket ri (vc_socket cfg) = Inr sock" using assms(1) unfolding opens_all_def ok_iff by blast
  moreover obtain issuer where "NewIssuer (vc_token_key cfg) (15 * minute) = Inr issuer" using assms(7) by (auto simp: ok_iff)
  moreover obtain d2 d3 m2 where "MarkAllOffline e2 d (env_clock e2 0) = (d2, Inr ())"
      "Reconcile e3 (NewManager 22000 22999) d2 (env_clock e3 0) = (m2, d3, Inr ())"
    using store_calls_quiet [OF assms(2-4)] by blast
  ultimately show ?thesis using assms(1,5,6) by (simp add: RunValidator_def opens_all_def)
qed

lemma init_serves:
  assumes "pem_reads l" "keys_read l" "encryption_opens l" "certified_parses l" "pool_reads l" "pairs_made l io ri" "opens_all ri"
    and "Init_validator c l e io opts fs = (fs', Inr pin)" "fs (filepath_Join [io_dir opts, ''agent-ca.key'']) = None"
    and "fs' (filepath_Join [io_dir opts, ''validator.env'']) = Some (content, mode)" "service_env getenv content"
    and "getenv ''SILENT_DEVOPS_BOOTSTRAP_USER'' = []" "getenv ''SILENT_DEVOPS_BOOTSTRAP_PASSWORD'' = []"
    and "list_all env_char (io_dir opts)" "list_all env_char (io_address opts)" "list_all env_char (init_cidrs opts)"
    and "ParseCIDRs pp (split_list (init_cidrs opts)) = Inr agentPolicy" "ParseCIDRs pp [''127.0.0.1/32'', ''::1/128''] = Inr clientPolicy"
    and "\<not> env_db_fails e2 0" "\<not> env_db_fails e3 0"
  shows "\<exists>cfg d' v der. ParseValidatorConfig pp getenv = Inr cfg \<and> RunValidator c l ri e1 e2 e3 cfg fs' empty_db = (d', Inr v)
    \<and> va_policies v = \<lparr>ep_enrollment = agentPolicy, ep_agent = agentPolicy, ep_client = clientPolicy\<rparr>
    \<and> fst (va_certificate v) = cb_pem l (cert_block der) \<and> pin = CertificatePin c der
    \<and> LoadCA l None (\<lambda>_. None) fs' (vc_agent_ca cfg) (vc_passphrase cfg) = Inr (va_ca v)
    \<and> va_roots v = [fst (va_certificate v), ca_pem (va_ca v)] \<and> users d' = []"
proof -
  obtain host port caPass tokenKey der raw ca m m2 m3 der2 where i: "split_host_port (io_address opts) = Some (host, port)"
      "random_text e 0 32 = Inr caPass" "random_text e 1 32 = Inr tokenKey" "pin = CertificatePin c der" "init_pair l io host der raw"
    and f: "fs' (filepath_Join [io_dir opts, ''server.crt'']) = Some (cb_pem l (cert_block der), m)"
      "fs' (filepath_Join [io_dir opts, ''server.key'']) = Some (cb_pem l (key_block raw), m3)"
      "fs' (filepath_Join [io_dir opts, ''validator.env'']) = Some (env_text (env_lines (io_dir opts) port caPass tokenKey (init_cidrs opts)), m2)"
      "LoadCA l None (\<lambda>_. None) fs' (filepath_Join [io_dir opts, ''agent-ca.key'']) caPass = Inr ca"
      "ca_pem ca = cb_pem l (cert_block der2)" "ok (cb_parse_cert l der2)"
    using init_files [OF assms(1-4,8,9) refl] by blast
  have t: "content = env_text (env_lines (io_dir opts) port caPass tokenKey (init_cidrs opts))" using f(3) assms(10) by simp
  have "list_all env_char port" using split_host_port_chars [OF i(1)] assms(15) by (auto simp: list_all_iff)
  from init_config [OF assms(11) [unfolded t] assms(14) this assms(16) i(2,3) assms(17,18)]
  obtain cfg where cfg: "ParseValidatorConfig pp getenv = Inr cfg" "vc_tls_cert cfg = filepath_Join [io_dir opts, ''server.crt'']"
      "vc_tls_key cfg = filepath_Join [io_dir opts, ''server.key'']" "vc_client_ca cfg = filepath_Join [io_dir opts, ''server.crt'']"
      "vc_agent_ca cfg = filepath_Join [io_dir opts, ''agent-ca.key'']" "vc_passphrase cfg = caPass"
      "vc_bootstrap_user cfg = []" "vc_bootstrap_password cfg = []" "ok (NewIssuer (vc_token_key cfg) (15 * minute))"
      "vc_policies cfg = \<lparr>ep_enrollment = agentPolicy, ep_agent = agentPolicy, ep_client = clientPolicy\<rparr>"
    using assms(12,13) by auto
  have p: "cb_pool l (cb_pem l (cert_block der))" "cb_pool l (ca_pem ca)"
      "ri_pair ri (cb_pem l (cert_block der)) (cb_pem l (key_block raw)) = Inr ()"
    using assms(5,6) i(5) f(5,6) unfolding pool_reads_def pairs_made_def by auto
  have r: "ri_reads ri = (\<lambda>_. None)" "ri_stat ri = None" using assms(7) by (simp_all add: opens_all_def)
  have tls: "load_tls l ri fs' cfg = Inr ((cb_pem l (cert_block der), cb_pem l (key_block raw)), [cb_pem l (cert_block der), ca_pem ca], ca)"
    by (simp add: load_tls_def load_pair_def read_file_def r cfg(2-6) f(1,2,4) p)
  have b: "bootstrap_step c e1 cfg empty_db = (empty_db, Inr ())" using cfg(7,8) by (simp add: bootstrap_step_def)
  obtain d' v where v: "RunValidator c l ri e1 e2 e3 cfg fs' empty_db = (d', Inr v)"
      "va_certificate v = (cb_pem l (cert_block der), cb_pem l (key_block raw))" "va_roots v = [cb_pem l (cert_block der), ca_pem ca]" "va_ca v = ca"
      "va_policies v = vc_policies cfg"
    using RunValidator_quiet [OF assms(7) db_ok_empty assms(19,20) b tls cfg(9)] by blast
  obtain d2 m4 where "MarkAllOffline e2 empty_db (env_clock e2 0) = (d2, Inr ())" "Reconcile e3 (NewManager 22000 22999) d2 (env_clock e3 0) = (m4, d', Inr ())"
    using RunValidator_Inr [OF v(1)] b by auto
  then have "users d' = users empty_db" using MarkAllOffline_Inr Reconcile_Inr by fastforce
  then show ?thesis using cfg v i(4) f(4) users_empty_db by (intro exI [of _ cfg] exI [of _ d'] exI [of _ v] exI [of _ der]) simp
qed


section \<open>Witnesses\<close>

definition demo_run :: run_io where
  "demo_run = \<lparr>ri_store = Inr (), ri_stat = None, ri_reads = (\<lambda>_. None), ri_pair = (\<lambda>cert key. Inr ()), ri_listen = Inr (), ri_mkdir = Inr (),
     ri_socket = Inr (), ri_group = Inr (dec_of_int 7), ri_chown = Inr (), ri_chmod = Inr ()\<rparr>"

lemma demo_run_opens: "opens_all demo_run"
  by (simp add: opens_all_def demo_run_def open_socket_def parse_int64_dec)

lemma demo_run_laws: "pool_reads demo_lib" "pairs_made demo_lib demo_init demo_run"
  by (simp_all add: pool_reads_def pairs_made_def demo_lib_sel demo_pem_def demo_run_def)

lemma demo_getenv_missing:
  assumes "\<forall>(k, v) \<in> set ls. env_name k \<and> list_all env_char v" "env_name k" "k \<notin> fst ` set ls"
  shows "demo_getenv (env_text ls) k = []"
proof -
  let ?lines = "map (\<lambda>(k, v). k @ ''='' @ v) ls"
  have "\<forall>l \<in> set ?lines. CHR 0x0A \<notin> set l"
    using assms(1) env_char_no_newline env_name_no_newline by fastforce
  then have sp: "split (CHR 0x0A) (env_text ls) = ?lines @ [[]]" by (simp add: env_text_def split_lines_text)
  have "\<not> has_prefix l (k @ ''='')" if l: "l \<in> set (?lines @ [[]])" for l
  proof (cases "l = []")
    case False
    then obtain k2 v2 where kv: "(k2, v2) \<in> set ls" "l = k2 @ ''='' @ v2" using l by auto
    then have "k \<noteq> k2" "env_name k2" using assms(1,3) by force+
    then show ?thesis using equals_prefix [of k k2 v2] kv(2) assms(2) env_name_no_equals by blast
  qed (simp add: has_prefix_def)
  then have "List.find (\<lambda>l. has_prefix l (k @ ''='')) (?lines @ [[]]) = None" by (auto simp: find_None_iff)
  then show ?thesis by (simp add: demo_getenv_def sp)
qed

lemma demo_init_facts:
  "\<exists>fs pin content mode agentPolicy clientPolicy. Init_validator toy_crypto demo_lib (calm 0) demo_init demo_init_opts (\<lambda>_. None) = (fs, Inr pin)
    \<and> fs (filepath_Join [io_dir demo_init_opts, ''validator.env'']) = Some (content, mode)
    \<and> demo_getenv content ''SILENT_DEVOPS_BOOTSTRAP_USER'' = [] \<and> demo_getenv content ''SILENT_DEVOPS_BOOTSTRAP_PASSWORD'' = []
    \<and> list_all env_char (io_dir demo_init_opts) \<and> list_all env_char (io_address demo_init_opts) \<and> list_all env_char (init_cidrs demo_init_opts)
    \<and> ParseCIDRs (\<lambda>v. Inr \<lparr>p_addr = V4 0, p_bits = 0\<rparr>) (split_list (init_cidrs demo_init_opts)) = Inr agentPolicy
    \<and> ParseCIDRs (\<lambda>v. Inr \<lparr>p_addr = V4 0, p_bits = 0\<rparr>) [''127.0.0.1/32'', ''::1/128''] = Inr clientPolicy"
proof -
  obtain fs pin where i: "Init_validator toy_crypto demo_lib (calm 0) demo_init demo_init_opts (\<lambda>_. None) = (fs, Inr pin)"
    using demo_init_succeeds by blast
  have o: "io_dir demo_init_opts = ''/etc/sd''" "io_address demo_init_opts = ''v:8443''" "init_cidrs demo_init_opts = ''0.0.0.0/0,::/0''"
    by (simp_all add: demo_init_opts_def init_cidrs_def)
  have c: "list_all env_char (io_dir demo_init_opts)" "list_all env_char (io_address demo_init_opts)" "list_all env_char (init_cidrs demo_init_opts)"
    unfolding o by code_simp+
  obtain host port caPass tokenKey mode where t: "split_host_port (io_address demo_init_opts) = Some (host, port)"
      "random_text (calm 0) 0 32 = Inr caPass" "random_text (calm 0) 1 32 = Inr tokenKey"
      "fs (filepath_Join [io_dir demo_init_opts, ''validator.env'']) = Some (env_text (env_lines (io_dir demo_init_opts) port caPass tokenKey (init_cidrs demo_init_opts)), mode)"
    using init_files [OF demo_lib_laws demo_certified_parses i _ refl] by auto
  have "list_all env_char port" using split_host_port_chars [OF t(1)] c(2) by (auto simp: list_all_iff)
  note plain = env_lines_plain [OF c(1) this c(3) random_text_facts [OF t(2), THEN conjunct2] random_text_facts [OF t(3), THEN conjunct2]]
  have n: "env_name ''SILENT_DEVOPS_BOOTSTRAP_USER''" "env_name ''SILENT_DEVOPS_BOOTSTRAP_PASSWORD''" by code_simp+
  have "''SILENT_DEVOPS_BOOTSTRAP_USER'' \<notin> fst ` set (env_lines dir p a b x)" "''SILENT_DEVOPS_BOOTSTRAP_PASSWORD'' \<notin> fst ` set (env_lines dir p a b x)"
    for dir p a b x by (simp_all add: env_lines_def)
  note m = demo_getenv_missing [OF plain n(1) this(1)] demo_getenv_missing [OF plain n(2) this(2)]
  have "split_list ''0.0.0.0/0,::/0'' = [''0.0.0.0/0'', ''::/0'']" by code_simp
  then have "ok (ParseCIDRs (\<lambda>v. Inr \<lparr>p_addr = V4 0, p_bits = 0\<rparr>) (split_list (init_cidrs demo_init_opts)))"
      "ok (ParseCIDRs (\<lambda>v. Inr \<lparr>p_addr = V4 0, p_bits = 0\<rparr>) [''127.0.0.1/32'', ''::1/128''])"
    by (simp_all add: ParseCIDRs_def o(3))
  then show ?thesis using i t(4) m c unfolding ok_iff by blast
qed


definition demo_cfg :: ValidatorConfig where
  "demo_cfg = \<lparr>vc_listen = '':1'', vc_db = ''db'', vc_tls_cert = ''c'', vc_tls_key = ''k'', vc_client_ca = ''c'', vc_agent_ca = ''a'',
     vc_passphrase = ''0123456789abcdef'', vc_token_key = replicate 32 (CHR ''x''),
     vc_policies = \<lparr>ep_enrollment = [], ep_agent = [], ep_client = []\<rparr>, vc_bootstrap_user = [], vc_bootstrap_password = [], vc_socket = ''s''\<rparr>"

lemma demo_starts: "db_ok d \<Longrightarrow> \<exists>fs d' v. RunValidator toy_crypto demo_lib demo_run (calm 0) (calm 0) (calm 0) demo_cfg fs d = (d', Inr v) \<and> ca_pem (va_ca v) \<noteq> []"
proof -
  assume d: "db_ok d"
  obtain fs0 ca where a: "CreateCA demo_lib demo_ca_io (\<lambda>_. None) ''a'' ''0123456789abcdef'' 0 = (fs0, Inr ca)" "ca_cert ca \<noteq> None" "ca_pem ca \<noteq> []" "fs0 ''c'' = None" "fs0 ''k'' = None"
    by (simp add: CreateCA_def demo_lib_def demo_ca_io_def write_file_def demo_pem_def)
  let ?fs = "fs0(''c'' \<mapsto> (''cert'', 384), ''k'' \<mapsto> (''key'', 384))"
  have "LoadCA demo_lib None (\<lambda>_. None) ?fs ''a'' ''0123456789abcdef'' = LoadCA demo_lib None (\<lambda>_. None) fs0 ''a'' ''0123456789abcdef''"
    by (rule LoadCA_cong) simp
  then have "LoadCA demo_lib None (\<lambda>_. None) ?fs ''a'' ''0123456789abcdef'' = Inr ca"
    using ca_effect [OF demo_lib_laws a(1)] a(2) by auto
  then have t: "load_tls demo_lib demo_run ?fs demo_cfg = Inr ((''cert'', ''key''), [''cert'', ca_pem ca], ca)"
    using a(3) by (simp add: load_tls_def load_pair_def read_file_def demo_run_def demo_cfg_def demo_lib_sel)
  have "bootstrap_step toy_crypto (calm 0) demo_cfg d = (d, Inr ())" "ok (NewIssuer (vc_token_key demo_cfg) (15 * minute))"
    by (simp_all add: bootstrap_step_def demo_cfg_def NewIssuer_def go_time)
  then show ?thesis
    using RunValidator_quiet [OF demo_run_opens d _ _ _ t, of "calm 0" "calm 0" toy_crypto "calm 0"] a(3) by auto
qed

theorem validator_starts_clean_witness:
  "\<exists>fs d' v. RunValidator toy_crypto demo_lib demo_run (calm 0) (calm 0) (calm 0) demo_cfg fs empty_db = (d', Inr v) \<and> users d' = []"
proof -
  obtain fs d' v where v: "RunValidator toy_crypto demo_lib demo_run (calm 0) (calm 0) (calm 0) demo_cfg fs empty_db = (d', Inr v)"
    using demo_starts [OF db_ok_empty] by blast
  show ?thesis using validator_starts_clean [OF db_ok_empty v] v users_empty_db by (auto simp: demo_cfg_def)
qed

end
