(* ===== verification/AgentRun.thy ===== *)
theory AgentRun
  imports ValidatorRun AgentNode
begin

text \<open>
  The agent's process: \<open>RunAgent\<close> of \<open>src/internal/runtime/agent.go\<close> from the stored credentials to
  the connection loop, with the handlers it builds for each connection and the messages it gives them. The
  metrics publisher, which sends on the same stream, is in the metrics' theory.
\<close>

section \<open>Starting\<close>

text \<open>The system's answers: reading files, pairing the certificate with the key, the host's name and the architecture.\<close>

record agent_io =
  ag_reads :: "string \<Rightarrow> error option"
  ag_pair :: "bytes \<Rightarrow> bytes \<Rightarrow> unit result"
  ag_hostname :: string
  ag_arch :: string

definition pemPrivateKey :: "cert_lib \<Rightarrow> bytes \<Rightarrow> bytes" where
  "pemPrivateKey l key = (case cb_marshal l key of Inl err \<Rightarrow> [] | Inr der \<Rightarrow> cb_pem l (key_block der))"

definition run_hello :: "agent_io \<Rightarrow> string \<Rightarrow> AgentHello" where
  "run_hello io ident = \<lparr>hello_agent_id = ident, hello_protocol = Some \<lparr>Minimum = 1, Maximum = 1\<rparr>, hello_capabilities = [],
     hello_hostname = ag_hostname io, hello_boot_id = [], hello_os = [], hello_kernel = [], hello_architecture = ag_arch io,
     hello_limits = Some DefaultLimits\<rparr>"

text \<open>What a started agent connects with; a host key that cannot be read is empty.\<close>

record agent_identity =
  ai_credentials :: AgentCredentials
  ai_host_key :: bytes
  ai_hello :: AgentHello

definition agent_start :: "cert_lib \<Rightarrow> agent_io \<Rightarrow> AgentConfig \<Rightarrow> file_system \<Rightarrow> agent_identity result" where
  "agent_start l io cfg fs = (case LoadAgentCredentials l (ag_reads io) fs (ac_credential_dir cfg) of Inl err \<Rightarrow> Inl err
   | Inr cr \<Rightarrow> (case ag_pair io (cr_cert cr) (pemPrivateKey l (cr_key cr)) of Inl err \<Rightarrow> Inl err
   | Inr u \<Rightarrow>
      if \<not> cb_pool l (cr_ca cr) then Inl (Error ''invalid validator CA'')
      else Inr \<lparr>ai_credentials = cr,
        ai_host_key = (case read_file (ag_reads io) fs (ac_host_key cfg) of Inl err \<Rightarrow> [] | Inr key \<Rightarrow> key),
        ai_hello = run_hello io (cr_agent cr)\<rparr>))"

section \<open>Messages\<close>

text \<open>The handlers of one connection and the files they work on.\<close>

record agent_node =
  an_jobs :: job_handler
  an_ssh :: ssh_handler
  an_fs :: file_system

definition new_node :: "AgentConfig \<Rightarrow> agent_identity \<Rightarrow> file_system \<Rightarrow> agent_node" where
  "new_node cfg ident fs = \<lparr>an_jobs = \<lparr>jh_agent = cr_agent (ai_credentials ident),
       jh_dispatcher = \<lparr>di_max_output = uint (MaxOutputBytes DefaultLimits), di_timeout = hour\<rparr>, jh_seen = {}\<rparr>,
     an_ssh = \<lparr>sh_keys = ac_authorized_keys cfg, sh_host_key = ai_host_key ident, sh_addr = ac_ssh_local cfg\<rparr>, an_fs = fs\<rparr>"

text \<open>How the handling of one message goes: the processes it starts, a cancelled context, the answer's
  sending, the time, and the faults of the authorized keys' file.\<close>

record message_io =
  mi_proc :: "duration \<Rightarrow> string list \<Rightarrow> process"
  mi_cancelled :: "error option"
  mi_sent :: "unit result"
  mi_now :: time
  mi_install :: update_faults
  mi_remove :: update_faults

text \<open>Jobs go to the job handler and everything else to the SSH handler; the errors of both are dropped.\<close>

definition route_message :: "message_io \<Rightarrow> ValidatorMessage \<Rightarrow> agent_node \<Rightarrow> agent_node \<times> AgentMessage list" where
  "route_message i m n = (case m of
     JobMsg job \<Rightarrow> (case Handle_job (mi_proc i) (mi_cancelled i) True (mi_sent i) (mi_now i) (an_jobs n) m of
         (h, out, res) \<Rightarrow> (n\<lparr>an_jobs := h\<rparr>, out))
   | _ \<Rightarrow> (case Handle_ssh (mi_install i) (mi_remove i) True (mi_sent i) (mi_now i) (an_ssh n) (an_fs n) m of
         (fs, out, res) \<Rightarrow> (n\<lparr>an_fs := fs\<rparr>, out)))"

fun route_all :: "(message_io \<times> ValidatorMessage) list \<Rightarrow> agent_node \<Rightarrow> agent_node \<times> AgentMessage list" where
  "route_all [] n = (n, [])"
| "route_all ((i, m) # rest) n = (case route_message i m n of (n1, out1) \<Rightarrow>
     (case route_all rest n1 of (n2, out2) \<Rightarrow> (n2, out1 @ out2)))"

section \<open>Connections\<close>

text \<open>One turn of the reconnection loop: the context before, the client, the stream, the reconciliation of the keys,
  the hello, the connection's events and the handling of its messages by number, and the context after it and while waiting.\<close>

record connect_io =
  co_before :: "error option"
  co_client :: "unit result"
  co_stream :: "unit result"
  co_faults :: update_faults
  co_now :: time
  co_sent :: "unit result"
  co_events :: "connection_event list"
  co_handling :: "nat \<Rightarrow> message_io"
  co_after :: "error option"
  co_wait :: "error option"

text \<open>The files afterwards, the messages of the connection's own loops, those of the handlers, and the connection's
  result; with none it is still open.\<close>

definition agent_connect :: "AgentConfig \<Rightarrow> agent_identity \<Rightarrow> connect_io \<Rightarrow> file_system
    \<Rightarrow> file_system \<times> AgentMessage list \<times> AgentMessage list \<times> unit result option" where
  "agent_connect cfg ident x fs = (case co_client x of Inl err \<Rightarrow> (fs, [], [], Some (Inl err))
   | Inr _ \<Rightarrow> (case co_stream x of Inl err \<Rightarrow> (fs, [], [], Some (Inl err))
   | Inr _ \<Rightarrow>
     (let fs1 = (if ac_authorized_keys cfg = [] then fs else fst (Reconcile_keys (co_faults x) (ac_authorized_keys cfg) (co_now x) fs)) in
      case RunConnection (Some (ai_hello ident)) (ac_heartbeat cfg) (co_sent x) (co_events x) of
        (out, handled, res) \<Rightarrow> (case route_all (zip (map (co_handling x) [0..<List.length handled]) handled) (new_node cfg ident fs1) of
          (n, answers) \<Rightarrow> (an_fs n, out, answers, res)))))"

text \<open>The turns of the loop until the context ends or a connection stays open.\<close>

fun agent_turns :: "AgentConfig \<Rightarrow> agent_identity \<Rightarrow> connect_io list \<Rightarrow> file_system \<Rightarrow> file_system \<times> attempt list" where
  "agent_turns cfg ident [] fs = (fs, [])"
| "agent_turns cfg ident (x # xs) fs =
    (if co_before x \<noteq> None then (fs, [\<lparr>at_before = co_before x, at_result = Inr (), at_after = None, at_wait = None\<rparr>])
     else case agent_connect cfg ident x fs of
       (fs1, out, answers, None) \<Rightarrow> (fs1, [])
     | (fs1, out, answers, Some res) \<Rightarrow>
         (let a = \<lparr>at_before = None, at_result = res, at_after = co_after x, at_wait = co_wait x\<rparr> in
          if co_after x \<noteq> None \<or> co_wait x \<noteq> None then (fs1, [a])
          else case agent_turns cfg ident xs fs1 of (fs2, as) \<Rightarrow> (fs2, a # as)))"

definition RunAgent :: "cert_lib \<Rightarrow> agent_io \<Rightarrow> (nat \<Rightarrow> int \<Rightarrow> int) \<Rightarrow> AgentConfig \<Rightarrow> connect_io list \<Rightarrow> file_system
    \<Rightarrow> file_system \<times> (duration \<times> duration) list \<times> error option" where
  "RunAgent l io jitter cfg xs fs = (case agent_start l io cfg fs of Inl err \<Rightarrow> (fs, [], Some err)
   | Inr ident \<Rightarrow> (case agent_turns cfg ident xs fs of (fs', as) \<Rightarrow>
       (case Reconnect jitter second minute as of (waits, err) \<Rightarrow> (fs', waits, err))))"

section \<open>What an agent does to the files\<close>

text \<open>The operations on the session keys that messages stand for, and those of a connection.\<close>

definition message_ops :: "message_io \<Rightarrow> ValidatorMessage \<Rightarrow> key_op list" where
  "message_ops i m = (case m of
     PrepareSshMsg p \<Rightarrow> if ps_session p = [] \<or> unix_milli (mi_now i) \<ge> ps_expires p then []
       else [DoInstall (mi_install i) (ps_session p) (ps_key p) (from_unix_milli (ps_expires p))]
   | CloseSshMsg session \<Rightarrow> [DoRemove (mi_install i) session]
   | _ \<Rightarrow> [])"

definition connection_ops :: "AgentConfig \<Rightarrow> agent_identity \<Rightarrow> connect_io \<Rightarrow> key_op list" where
  "connection_ops cfg ident x = (if ac_authorized_keys cfg = [] then [] else [DoReconcile (co_faults x) (co_now x)])
     @ (case RunConnection (Some (ai_hello ident)) (ac_heartbeat cfg) (co_sent x) (co_events x) of
         (out, handled, res) \<Rightarrow> concat (map (\<lambda>(i, m). message_ops i m) (zip (map (co_handling x) [0..<List.length handled]) handled)))"

lemma key_run_append: "key_run path (as @ bs) fs = key_run path bs (key_run path as fs)"
  by (induction path as fs rule: key_run.induct) simp_all

lemma route_message_files:
  "an_fs (fst (route_message i m n)) = key_run (sh_keys (an_ssh n)) (message_ops i m) (an_fs n)
   \<and> an_ssh (fst (route_message i m n)) = an_ssh n"
  by (cases m) (auto simp: route_message_def message_ops_def Handle_ssh_def Prepare_key_def key_step_def split: prod.splits sum.splits)

lemma route_all_files:
  "an_fs (fst (route_all ms n)) = key_run (sh_keys (an_ssh n)) (concat (map (\<lambda>(i, m). message_ops i m) ms)) (an_fs n)"
proof (induction ms n rule: route_all.induct)
  case (2 i m rest n)
  obtain n1 out1 where r: "route_message i m n = (n1, out1)" by force
  obtain n2 out2 where a: "route_all rest n1 = (n2, out2)" by force
  show ?case using 2 [OF r [symmetric]] route_message_files [of i m n] r a by (simp add: key_run_append)
qed simp


section \<open>From the start of the validator to a connected agent\<close>

lemma Enroll_db:
  assumes "db_ok d" "Enroll c x caPEM e configured d csr token hostname = (d', Inr r)"
  shows "db_ok d' \<and> connections d' = connections d \<and> er_agent r \<noteq> []"
proof -
  obtain d1 pem serial where s: "ConsumeToken c e 0 d token (env_clock e 0) = (d1, Inr ())"
      "RegisterWithMetadata e 1 d1 (er_agent r) serial hostname (env_clock e 2 + default_validity configured) (env_clock e 3) = (d', Inr ())"
    using Enroll_success [where c = c and x = x and caPEM = caPEM and e = e and configured = configured and d = d
        and csrDER = csr and token = token and hostname = hostname] assms(2) by auto
  have "connections d1 = connections d" using s(1) ConsumeToken_alt [OF assms(1)] by (auto split: option.splits if_splits)
  then show ?thesis using RegisterWithMetadata_Inr [OF s(2)] by auto
qed

lemma db_ok_set_hello: "db_ok d \<Longrightarrow> db_ok (fst (set_hello ident hello md d))"
  using db_ok_map_agents [of d "\<lambda>r. if a_id r = ident then r\<lparr>a_hostname := hello_hostname hello, a_boot_id := hello_boot_id hello, a_metadata := md\<rparr> else r"]
  by (simp add: set_hello_def Let_def)

lemma db_ok_insert_connection:
  assumes "db_ok d"
  shows "db_ok (d\<lparr>connections := connections d @ [r]\<rparr>) \<longleftrightarrow> c_agent r \<notin> c_agent ` set (connections d)
    \<and> (\<forall>k. c_stream r = Some k \<longrightarrow> Some k \<notin> c_stream ` set (connections d)) \<and> c_agent r \<in> set (agent_ids d)"
  using assms by (auto simp: db_ok_def table_ok_defs unique_opt_append)

text \<open>A new agent's first connection is recorded, when the name of its stream is new.\<close>

lemma Online_new:
  assumes "db_ok d" "ident \<in> set (agent_ids d)" "ident \<notin> c_agent ` set (connections d)" "Some stream \<notin> c_stream ` set (connections d)"
    and "marshal hello = Inr md" "\<forall>k. \<not> env_db_fails e k"
  shows "\<exists>d'. Online marshal e k d ident stream hello now = (d', Inr ()) \<and> c_state (last (connections d')) = ''online'' \<and> c_agent (last (connections d')) = ident"
proof -
  obtain d1 n1 where h: "set_hello ident hello md d = (d1, n1)" by fastforce
  then have d1: "db_ok d1" "connections d1 = connections d" "agent_ids d1 = agent_ids d"
    using db_ok_set_hello [OF assms(1), of ident hello md] by (auto simp: set_hello_def update_rows_def Let_def agent_ids_def)
  let ?row = "\<lparr>c_agent = ident, c_connected = Some (unix_milli now), c_disconnected = None, c_stream = Some stream, c_state = ''online''\<rparr>"
  have u: "upsert_connection ident (unix_milli now) stream d1 = (d1\<lparr>connections := connections d1 @ [?row]\<rparr>, 1)"
    using assms(3) d1(2) by (simp add: upsert_connection_def)
  have "db_ok (d1\<lparr>connections := connections d1 @ [?row]\<rparr>)"
    unfolding db_ok_insert_connection [OF d1(1)] using d1(2,3) assms(2-4) by simp
  then show ?thesis using assms(5,6) h u d1(1) by (simp add: Online_def sql_exec_def)
qed


section \<open>Witnesses\<close>

definition demo_agent_cfg :: "string \<Rightarrow> AgentConfig" where
  "demo_agent_cfg keys = \<lparr>ac_validator = ''v:1'', ac_credential_dir = ''/d'', ac_tunnel_host = [], ac_tunnel_user = [], ac_tunnel_key = [],
     ac_tunnel_known_hosts = [], ac_authorized_keys = keys, ac_host_key = ''/h'', ac_ssh_local = [], ac_heartbeat = 15 * second\<rparr>"

definition demo_agent_io :: agent_io where
  "demo_agent_io = \<lparr>ag_reads = (\<lambda>_. None), ag_pair = (\<lambda>cert key. Inr ()), ag_hostname = ''host'', ag_arch = ''amd64''\<rparr>"

definition demo_identity :: agent_identity where
  "demo_identity = \<lparr>ai_credentials = \<lparr>cr_agent = ''a'', cr_key = [], cr_cert = [], cr_ca = []\<rparr>, ai_host_key = [], ai_hello = run_hello demo_agent_io ''a''\<rparr>"

definition demo_connect :: connect_io where
  "demo_connect = \<lparr>co_before = None, co_client = Inr (), co_stream = Inr (), co_faults = demo_faults, co_now = 0, co_sent = Inr (), co_events = [],
     co_handling = (\<lambda>_. \<lparr>mi_proc = (\<lambda>t argv. NotStarted EOF), mi_cancelled = None, mi_sent = Inr (), mi_now = 0, mi_install = demo_faults, mi_remove = demo_faults\<rparr>),
     co_after = None, co_wait = None\<rparr>"


lemma demo_tokens_start:
  assumes "RunValidator toy_crypto demo_lib demo_run (calm 0) (calm 0) (calm 0) demo_cfg fs demo_tokens = (d, Inr v)"
  shows "d = demo_tokens \<and> fl_db (va_fleet v) = demo_tokens \<and> va_validity v = 24 * hour"
proof -
  have e: "connections demo_tokens = []" "ssh_sessions demo_tokens = []" by (simp_all add: demo_tokens_def empty_db_def)
  obtain d1 d2 m where r: "bootstrap_step toy_crypto (calm 0) demo_cfg demo_tokens = (d1, Inr ())" "MarkAllOffline (calm 0) d1 (env_clock (calm 0) 0) = (d2, Inr ())"
      "Reconcile (calm 0) (NewManager 22000 22999) d2 (env_clock (calm 0) 0) = (m, d, Inr ())" "fl_db (va_fleet v) = d"
    using RunValidator_Inr [OF assms] by auto
  have "d1 = demo_tokens" using r(1) by (simp add: bootstrap_step_def demo_cfg_def)
  moreover from this have "d2 = demo_tokens"
    using r(2) e by (auto simp: MarkAllOffline_def sql_exec_def set_offline_def Let_def split: if_splits)
  ultimately have "d = demo_tokens"
    using r(3) e by (auto simp: Reconcile_def sql_exec_def mark_expired_def Let_def split: if_splits)
  moreover have "va_validity v = 24 * hour" using assms unfolding RunValidator_def by (auto split: sum.splits prod.splits)
  ultimately show ?thesis using r(4) by simp
qed


end
