(* ===== verification/Tables.thy ===== *)
theory Tables
  imports Dashboard ServerAdmin "HOL-Library.Multiset"
begin

text \<open>
  What the dashboard's tables show (\<open>src/internal/clientcli/tables.go\<close>, \<open>view.go\<close>), the key bindings of
  \<open>keys.go\<close>, and the list model of \<open>tui.go\<close>. A text is its UTF-8 bytes. The width of a column is the
  given share of the whole, rounded down, and a parameter here; so is the layout of a local time.
\<close>

section \<open>Characters\<close>

text \<open>
  The lead byte of a character gives its length and the range of its second byte, as in \<open>unicode/utf8\<close>; the other
  bytes are between 80 and BF. The length of the well-formed character a text starts with is 0 if there is none.
\<close>

definition rune_shape :: "nat \<Rightarrow> nat \<times> nat \<times> nat" where
  "rune_shape n =
    (if n < 0x80 then (1, 0, 0)
     else if 0xC2 \<le> n \<and> n \<le> 0xDF then (2, 0x80, 0xBF)
     else if 0xE0 \<le> n \<and> n \<le> 0xEF then (3, if n = 0xE0 then 0xA0 else 0x80, if n = 0xED then 0x9F else 0xBF)
     else if 0xF0 \<le> n \<and> n \<le> 0xF4 then (4, if n = 0xF0 then 0x90 else 0x80, if n = 0xF4 then 0x8F else 0xBF)
     else (0, 0, 0))"

definition rune_trail :: "nat \<times> nat \<times> nat \<Rightarrow> string \<Rightarrow> bool" where
  "rune_trail shape s = (case shape of (k, lo, hi) \<Rightarrow> k \<le> List.length s \<and> (1 < k \<longrightarrow> lo \<le> byte (s ! 1) \<and> byte (s ! 1) \<le> hi)
     \<and> list_all (\<lambda>j. 0x80 \<le> byte (s ! j) \<and> byte (s ! j) \<le> 0xBF) [2..<k])"

definition rune_len :: "string \<Rightarrow> nat" where
  "rune_len s = (if s = [] then 0 else let shape = rune_shape (byte (hd s)) in if rune_trail shape s then fst shape else 0)"

text \<open>\<open>[]rune(s)\<close>, each character as the bytes it is written as: a byte outside of any becomes U+FFFD.\<close>

definition rune_error :: string where
  "rune_error = [CHR 0xEF, CHR 0xBF, CHR 0xBD]"

fun runes :: "string \<Rightarrow> string list" where
  "runes [] = []"
| "runes (c # cs) = (case rune_len (c # cs) of
      0 \<Rightarrow> rune_error # runes cs
    | Suc k \<Rightarrow> (c # take k cs) # runes (drop k cs))"

definition ellipsis :: string where
  "ellipsis = [CHR 0xE2, CHR 0x80, CHR 0xA6]"

definition cut_text :: "string \<Rightarrow> nat \<Rightarrow> string" where
  "cut_text s n = (if List.length (runes s) \<le> n then s else concat (take (n - 1) (runes s)) @ ellipsis)"

definition is_rune :: "string \<Rightarrow> bool" where
  "is_rune r \<longleftrightarrow> r \<noteq> [] \<and> rune_len r = List.length r"

lemma rune_trail_append: "rune_trail (k, p) r \<Longrightarrow> rune_trail (k, p) (r @ t)"
  by (cases p) (auto simp: rune_trail_def nth_append list_all_iff)

lemma rune_trail_take: "rune_trail (k, p) s \<Longrightarrow> rune_trail (k, p) (take k s)"
  by (cases p) (auto simp: rune_trail_def list_all_iff)

lemma rune_len_append:
  assumes "is_rune r"
  shows "rune_len (r @ t) = List.length r"
proof -
  obtain k p where s: "rune_shape (byte (hd r)) = (k, p)" by (rule prod.exhaust)
  then have k: "rune_trail (k, p) r" "k = List.length r" "r \<noteq> []"
    using assms by (auto simp: is_rune_def rune_len_def Let_def split: if_splits)
  then show ?thesis using rune_trail_append [OF k(1)] s by (simp add: rune_len_def Let_def)
qed

lemma runes_append: "is_rune r \<Longrightarrow> runes (r @ t) = r # runes t"
proof (cases r)
  case (Cons c cs)
  assume "is_rune r"
  then have "rune_len (c # cs @ t) = Suc (List.length cs)" using rune_len_append [of r t] Cons by simp
  then show ?thesis using Cons by simp
qed (simp add: is_rune_def)

lemma runes_concat: "\<forall>r \<in> set rs. is_rune r \<Longrightarrow> runes (concat rs) = rs"
  by (induction rs) (auto simp: runes_append)

lemma take_rune:
  assumes "rune_len s \<noteq> 0"
  shows "is_rune (take (rune_len s) s)"
proof -
  obtain k p where s: "rune_shape (byte (hd s)) = (k, p)" by (rule prod.exhaust)
  then have k: "rune_trail (k, p) s" "rune_len s = k" "k \<noteq> 0" "s \<noteq> []"
    using assms by (auto simp: rune_len_def Let_def split: if_splits)
  moreover have "k \<le> List.length s" using k(1) by (cases p) (simp add: rune_trail_def)
  ultimately show ?thesis using rune_trail_take [OF k(1)] s by (simp add: is_rune_def rune_len_def Let_def)
qed

lemma is_rune_literals: "is_rune rune_error" "is_rune ellipsis"
  by (simp_all add: is_rune_def rune_error_def ellipsis_def rune_len_def rune_shape_def rune_trail_def upt_rec Let_def byte_def)

lemma runes_are_runes: "r \<in> set (runes s) \<Longrightarrow> is_rune r"
proof (induction s rule: runes.induct)
  case (2 c cs)
  show ?case
  proof (cases "rune_len (c # cs)")
    case 0
    then show ?thesis using 2 is_rune_literals by auto
  next
    case (Suc k)
    then show ?thesis using 2 take_rune [of "c # cs"] by auto
  qed
qed simp

text \<open>A text that is cut never has more than the given number of characters: one that fits is left as it is, of
  another the first are kept, whole, and an ellipsis follows.\<close>

theorem cut_characters:
  assumes "0 < n"
  shows "List.length (runes (cut_text s n)) \<le> n
    \<and> (List.length (runes s) \<le> n \<longrightarrow> cut_text s n = s)
    \<and> (n < List.length (runes s) \<longrightarrow> runes (cut_text s n) = take (n - 1) (runes s) @ [ellipsis])"
proof -
  have "runes (concat (take (n - 1) (runes s) @ [ellipsis])) = take (n - 1) (runes s) @ [ellipsis]"
    using runes_are_runes [of _ s] is_rune_literals by (intro runes_concat) (auto dest: in_set_takeD)
  then show ?thesis using assms by (auto simp: cut_text_def)
qed

theorem cut_characters_witness:
  "runes (cut_text ''silent-devops'' 3) = [''s'', ''i'', ellipsis]"
proof -
  have r: "runes ''silent-devops'' = [''s'', ''i'', ''l'', ''e'', ''n'', ''t'', ''-'', ''d'', ''e'', ''v'', ''o'', ''p'', ''s'']"
    by (simp add: rune_len_def rune_shape_def rune_trail_def byte_def)
  show ?thesis using cut_characters [of 3 "''silent-devops''"] unfolding r by simp
qed

section \<open>Cells\<close>

definition dash_sign :: string where
  "dash_sign = [CHR 0xE2, CHR 0x80, CHR 0x94]"

definition role_string :: "int \<Rightarrow> string" where
  "role_string r = (if r = ROLE_UNSPECIFIED then ''ROLE_UNSPECIFIED'' else if r = ROLE_VIEWER then ''ROLE_VIEWER''
     else if r = ROLE_OPERATOR then ''ROLE_OPERATOR'' else if r = ROLE_ADMIN then ''ROLE_ADMIN'' else dec_of_int r)"

definition roleLabel :: "int \<Rightarrow> string" where
  "roleLabel r = to_lower (if has_prefix (role_string r) ''ROLE_'' then drop 5 (role_string r) else role_string r)"

definition enabledLabel :: "bool \<Rightarrow> string" where
  "enabledLabel disabled = (if disabled then ''disabled'' else ''active'')"

definition orDash :: "string \<Rightarrow> string" where
  "orDash s = (if trim_space s = [] then dash_sign else s)"

text \<open>Base64 with padding: as many equals signs at the end as complete the last group, and none elsewhere.\<close>

definition padded_decode :: "string \<Rightarrow> string \<Rightarrow> bytes result" where
  "padded_decode alpha s = (let t = filter (\<lambda>c. byte c \<noteq> 10 \<and> byte c \<noteq> 13) s; p = List.length (takeWhile (\<lambda>c. c = CHR ''='') (rev t)) in
     if List.length t mod 4 \<noteq> 0 \<or> 2 < p then Inl (External ''base64'') else raw_decode alpha (take (List.length t - p) t))"

definition fingerprint :: "crypto \<Rightarrow> bytes \<Rightarrow> string" where
  "fingerprint c pub =
    (if pub = [] then dash_sign
     else let fields = Fields pub;
       blob = (if List.length fields \<ge> 2 then case padded_decode std_alphabet (fields ! 1) of Inl _ \<Rightarrow> pub | Inr b \<Rightarrow> b else pub)
     in ''SHA256:'' @ rev (dropWhile (\<lambda>ch. ch = CHR ''='') (rev (padded_encode std_alphabet (sha256 c blob)))))"

definition auditTime :: "(int \<Rightarrow> string) \<Rightarrow> int \<Rightarrow> string" where
  "auditTime layout ms = (if ms \<le> 0 then dash_sign else layout ms)"

definition formatTime :: "(int \<Rightarrow> string) \<Rightarrow> int \<Rightarrow> string" where
  "formatTime layout ms = (if ms \<le> 0 then ''never'' else layout ms)"

lemma std_no_equals: "CHR ''='' \<notin> set (raw_std_encode bs)"
proof -
  have "\<forall>k \<in> set [0..<64]. std_alphabet ! k \<noteq> CHR ''=''" by code_simp
  then show ?thesis using raw_encode_chars [of std_alphabet bs] by fastforce
qed

lemma std_chars: "\<forall>ch \<in> set (raw_std_encode bs). word_char ch \<and> byte ch \<noteq> 10 \<and> byte ch \<noteq> 13"
proof -
  have "list_all (\<lambda>ch. word_char ch \<and> byte ch \<noteq> 10 \<and> byte ch \<noteq> 13) std_alphabet" "List.length std_alphabet = 64" by code_simp+
  then show ?thesis using raw_encode_chars [of std_alphabet bs] by (fastforce simp: list_all_length)
qed

lemma padding_prefix:
  assumes "ch \<notin> set t"
  shows "takeWhile (\<lambda>x. x = ch) (replicate n ch @ t) = replicate n ch \<and> dropWhile (\<lambda>x. x = ch) (replicate n ch @ t) = t"
proof (induction n)
  case 0
  show ?case using assms by (cases t) auto
qed simp

lemma padding_completes:
  "\<exists>n \<le> 2. padded_encode std_alphabet bs = raw_std_encode bs @ replicate n (CHR ''='') \<and> (List.length (raw_std_encode bs) + n) mod 4 = 0"
proof -
  let ?m = "List.length bs"
  consider "?m mod 3 = 0" | "?m mod 3 = 1" | "?m mod 3 = 2" by linarith
  then show ?thesis
  proof cases
    case 1
    have "(4 * ?m + 2) div 3 mod 4 = 0" using 1 by presburger
    then show ?thesis using 1 by (intro exI [of _ 0]) (simp add: padded_encode_def raw_encode_def sextets_length)
  next
    case 2
    have "((4 * ?m + 2) div 3 + 2) mod 4 = 0" using 2 by presburger
    then show ?thesis using 2 by (intro exI [of _ 2]) (simp add: padded_encode_def raw_encode_def sextets_length)
  next
    case 3
    have "((4 * ?m + 2) div 3 + 1) mod 4 = 0" using 3 by presburger
    then show ?thesis using 3 by (intro exI [of _ 1]) (simp add: padded_encode_def raw_encode_def sextets_length numeral_2_eq_2)
  qed
qed

lemma padded_decode_encode: "padded_decode std_alphabet (padded_encode std_alphabet bs) = Inr bs"
proof -
  obtain n where n: "n \<le> 2" "padded_encode std_alphabet bs = raw_std_encode bs @ replicate n (CHR ''='')"
      "(List.length (raw_std_encode bs) + n) mod 4 = 0"
    using padding_completes [of bs] by - (elim exE conjE, rule that)
  have f: "filter (\<lambda>c. byte c \<noteq> 10 \<and> byte c \<noteq> 13) (padded_encode std_alphabet bs) = padded_encode std_alphabet bs"
    unfolding n(2) using std_chars by (intro filter_True) (auto simp: byte_def)
  have "takeWhile (\<lambda>c. c = CHR ''='') (rev (padded_encode std_alphabet bs)) = replicate n (CHR ''='')"
    unfolding n(2) using padding_prefix [of "CHR ''=''" "rev (raw_std_encode bs)" n] std_no_equals by simp
  then show ?thesis using n f by (simp add: padded_decode_def Let_def b64.dec_enc)
qed

interpretation b64padded: codec "padded_encode std_alphabet" "padded_decode std_alphabet"
  by unfold_locales (rule padded_decode_encode)

text \<open>The fingerprint of a line of \<open>authorized_keys\<close> is the digest of the key itself: neither the key's type nor
  a comment after it matters, and it has no padding.\<close>

theorem fingerprint_of_line:
  assumes "list_all word_char kind" "kind \<noteq> []" "blob \<noteq> []"
  shows "fingerprint c (kind @ CHR '' '' # padded_encode std_alphabet blob @ CHR '' '' # comment) = ''SHA256:'' @ raw_std_encode (sha256 c blob)"
proof -
  let ?b = "padded_encode std_alphabet blob"
  have "list_all word_char ?b"
    using padding_completes [of blob] std_chars [of blob] by (auto simp: list_all_iff word_char_def byte_def)
  moreover have "?b \<noteq> []" using assms(3) by (cases blob rule: sextets.cases) (simp_all add: padded_encode_def raw_encode_def)
  ultimately have "Fields (kind @ CHR '' '' # ?b @ CHR '' '' # comment) = kind # ?b # Fields comment"
    using assms(1,2) by (simp add: Fields_words)
  moreover obtain n where "padded_encode std_alphabet (sha256 c blob) = raw_std_encode (sha256 c blob) @ replicate n (CHR ''='')"
    using padding_completes by blast
  then have "dropWhile (\<lambda>ch. ch = CHR ''='') (rev (padded_encode std_alphabet (sha256 c blob))) = rev (raw_std_encode (sha256 c blob))"
    using padding_prefix [of "CHR ''=''" "rev (raw_std_encode (sha256 c blob))" n] std_no_equals by simp
  ultimately show ?thesis using assms(2) by (simp add: fingerprint_def Let_def padded_decode_encode)
qed

theorem fingerprint_of_line_witness:
  "fingerprint toy_crypto (''ssh-ed25519'' @ CHR '' '' # padded_encode std_alphabet ''key'' @ CHR '' '' # ''ops'')
    = ''SHA256:'' @ raw_std_encode (sha256 toy_crypto ''key'')"
proof -
  have "list_all word_char ''ssh-ed25519''" by (simp add: word_char_def byte_def)
  then show ?thesis using fingerprint_of_line [of "''ssh-ed25519''" "''key''" toy_crypto "''ops''"] by simp
qed

section \<open>Tables\<close>

datatype table_data = Users "UserItem list" | Keys "SshKeyItem list" | Events "AuditEvent list" | NoRowsData

definition colw :: "(nat \<Rightarrow> int) \<Rightarrow> nat \<Rightarrow> int \<Rightarrow> int" where
  "colw share percent least = (if share percent < least then least else share percent)"

definition panel_columns :: "(nat \<Rightarrow> int) \<Rightarrow> nat \<Rightarrow> (string \<times> int) list" where
  "panel_columns share p =
    (if p = 4 then [(''Username'', colw share 35 12), (''Role'', colw share 25 8), (''Status'', colw share 20 8), (''ID'', colw share 20 8)]
     else if p = 5 then [(''Label'', colw share 30 10), (''User'', colw share 25 10), (''Fingerprint'', colw share 45 16)]
     else if p = 6 then [(''Time'', colw share 24 16), (''Actor'', colw share 18 8), (''Action'', colw share 28 10), (''Reason'', colw share 30 8)]
     else [])"

definition user_row :: "UserItem \<Rightarrow> string list" where
  "user_row u = [us_username u, roleLabel (us_role u), enabledLabel (us_disabled u), cut_text (us_id u) 12]"

definition key_row :: "crypto \<Rightarrow> SshKeyItem \<Rightarrow> string list" where
  "key_row c k = [orDash (kk_label k), cut_text (kk_user k) 12, fingerprint c (kk_public_key k)]"

definition event_row :: "(int \<Rightarrow> string) \<Rightarrow> AuditEvent \<Rightarrow> string list" where
  "event_row layout e = [auditTime layout (ae_occurred e), cut_text (ae_actor e) 10, cut_text (ae_action e) 18, cut_text (ae_reason e) 20]"

definition panel_rows :: "crypto \<Rightarrow> (int \<Rightarrow> string) \<Rightarrow> nat \<Rightarrow> table_data \<Rightarrow> string list list" where
  "panel_rows c layout p data = (case data of
     Users us \<Rightarrow> if p = 4 then map user_row us else []
   | Keys ks \<Rightarrow> if p = 5 then map (key_row c) ks else []
   | Events es \<Rightarrow> if p = 6 then map (event_row layout) es else []
   | NoRowsData \<Rightarrow> [])"

text \<open>The table's widget as its columns and rows; it draws its rows at each change of either.\<close>

record table =
  tb_cols :: "(string \<times> int) list"
  tb_rows :: "string list list"

definition fill_steps :: "crypto \<Rightarrow> (int \<Rightarrow> string) \<Rightarrow> (nat \<Rightarrow> int) \<Rightarrow> nat \<Rightarrow> table_data \<Rightarrow> string \<Rightarrow> table \<Rightarrow> table list" where
  "fill_steps c layout share p data query t =
    (let cols = panel_columns share p; rows = filterRows (panel_rows c layout p data) query;
         t1 = t\<lparr>tb_rows := []\<rparr>; t2 = t1\<lparr>tb_cols := cols\<rparr>; t3 = t2\<lparr>tb_rows := rows\<rparr> in [t1, t2, t3])"

definition rows_fit :: "table \<Rightarrow> bool" where
  "rows_fit t \<longleftrightarrow> list_all (\<lambda>r. List.length r = List.length (tb_cols t)) (tb_rows t)"

text \<open>What the call of a panel gives the dashboard.\<close>

definition shown :: "crypto \<Rightarrow> (int \<Rightarrow> string) \<Rightarrow> nat \<Rightarrow> table_data \<Rightarrow> dash_value" where
  "shown c layout p data = RowsValue p (panel_rows c layout p data)"

lemma set_filterRows: "set (filterRows rows query) \<subseteq> set rows"
  by (auto simp: filterRows_def Let_def)

text \<open>Filling the table, whatever it showed before and whatever came from the server, draws only rows with as many
  cells as there are columns, at every step; in the end it has the rows the dashboard keeps for its panel.\<close>

theorem table_always_fits:
  assumes "tablePanel (da_panel d)"
  shows "list_all rows_fit (fill_steps c layout share (da_panel d) data (da_filter d) t)
    \<and> tb_rows (last (fill_steps c layout share (da_panel d) data (da_filter d) t))
        = da_rows (fillTable (d\<lparr>da_data := shown c layout (da_panel d) data\<rparr>))"
proof -
  have "r \<in> set (panel_rows c layout p data) \<Longrightarrow> List.length r = List.length (panel_columns share p)" for r p
    by (auto simp: panel_rows_def panel_columns_def user_row_def key_row_def event_row_def split: table_data.splits if_splits)
  then have "r \<in> set (filterRows (panel_rows c layout p data) query) \<Longrightarrow> List.length r = List.length (panel_columns share p)" for r p query
    using set_filterRows by blast
  then show ?thesis using assms by (simp add: fill_steps_def rows_fit_def list_all_iff fillTable_def shown_def Let_def)
qed

theorem table_always_fits_witness:
  "list_all rows_fit (fill_steps toy_crypto (\<lambda>ms. ''now'') (\<lambda>percent. 10) 5 (Keys [\<lparr>kk_id = ''k'', kk_user = ''u'', kk_public_key = [], kk_label = []\<rparr>]) []
      \<lparr>tb_cols = [(''Time'', 16)], tb_rows = [[''a''], [''b'']]\<rparr>)"
  using table_always_fits [of "NewDashboard\<lparr>da_panel := 5\<rparr>" toy_crypto "\<lambda>ms. ''now''" "\<lambda>percent. 10"
      "Keys [\<lparr>kk_id = ''k'', kk_user = ''u'', kk_public_key = [], kk_label = []\<rparr>]" "\<lparr>tb_cols = [(''Time'', 16)], tb_rows = [[''a''], [''b'']]\<rparr>"]
  by (simp add: tablePanel_def NewDashboard_def)

section \<open>Key bindings\<close>

record binding =
  bi_keys :: "string list"
  bi_help :: string
  bi_text :: string

definition up_arrow :: string where "up_arrow = [CHR 0xE2, CHR 0x86, CHR 0x91]"
definition down_arrow :: string where "down_arrow = [CHR 0xE2, CHR 0x86, CHR 0x93]"

definition defaultKeys :: "(string \<times> binding) list" where
  "defaultKeys =
    [(''Up'', \<lparr>bi_keys = [''up'', ''k''], bi_help = up_arrow @ ''/k'', bi_text = ''up''\<rparr>),
     (''Down'', \<lparr>bi_keys = [''down'', ''j''], bi_help = down_arrow @ ''/j'', bi_text = ''down''\<rparr>),
     (''AgentPrev'', \<lparr>bi_keys = [''[''], bi_help = ''['', bi_text = ''agent prev''\<rparr>),
     (''AgentNext'', \<lparr>bi_keys = ['']''], bi_help = '']'', bi_text = ''agent next''\<rparr>),
     (''Next'', \<lparr>bi_keys = [''tab'', ''right'', ''l''], bi_help = ''tab'', bi_text = ''next panel''\<rparr>),
     (''Prev'', \<lparr>bi_keys = [''shift+tab'', ''left'', ''h''], bi_help = ''shift+tab'', bi_text = ''prev panel''\<rparr>),
     (''Scroll'', \<lparr>bi_keys = [''pgup'', ''pgdown'', ''g'', ''G''], bi_help = ''pgup/pgdn'', bi_text = ''scroll''\<rparr>),
     (''Search'', \<lparr>bi_keys = [''/''], bi_help = ''/'', bi_text = ''filter''\<rparr>),
     (''SSH'', \<lparr>bi_keys = [''s''], bi_help = ''s'', bi_text = ''ssh''\<rparr>),
     (''Migrate'', \<lparr>bi_keys = [''m''], bi_help = ''m'', bi_text = ''migrate (easypanel)''\<rparr>),
     (''Refresh'', \<lparr>bi_keys = [''r''], bi_help = ''r'', bi_text = ''refresh''\<rparr>),
     (''Quit'', \<lparr>bi_keys = [''q'', ''ctrl+c''], bi_help = ''q'', bi_text = ''quit''\<rparr>)]"

definition binding_of :: "string \<Rightarrow> binding" where
  "binding_of name = the (map_of defaultKeys name)"

definition ShortHelp :: "binding list" where
  "ShortHelp = map binding_of [''Next'', ''Up'', ''Down'', ''Search'', ''SSH'', ''Refresh'', ''Quit'']"

definition FullHelp :: "binding list list" where
  "FullHelp = map (map binding_of) [[''Next'', ''Prev''], [''Up'', ''Down''], [''AgentPrev'', ''AgentNext''], [''Scroll'', ''Search''],
     [''SSH'', ''Migrate'', ''Refresh'', ''Quit'']]"

lemma full_keys: "concat (map bi_keys (concat FullHelp)) =
    [''tab'', ''right'', ''l'', ''shift+tab'', ''left'', ''h'', ''up'', ''k'', ''down'', ''j'', ''['', '']'', ''pgup'', ''pgdown'', ''g'', ''G'', ''/'',
     ''s'', ''m'', ''r'', ''q'', ''ctrl+c'']"
  by (simp add: FullHelp_def binding_of_def defaultKeys_def)

text \<open>The help names every key the dashboard reacts to, each once: any other key leaves the dashboard as it is, starts
  no call, and is at most passed on to the table. The short help is part of it.\<close>

theorem help_is_complete:
  assumes "k \<notin> set (concat (map bi_keys (concat FullHelp)))"
  shows "handleKey launch d k = Ret (d, if tablePanel (da_panel d) then [WidgetCmd] else [])
    \<and> distinct (concat (map bi_keys (concat FullHelp))) \<and> set ShortHelp \<subseteq> set (concat FullHelp)"
proof -
  have "handleKey launch d k = Ret (d, if tablePanel (da_panel d) then [WidgetCmd] else [])"
    using assms unfolding full_keys by (simp add: handleKey_def Let_def)
  moreover have "distinct (concat (map bi_keys (concat FullHelp)))" unfolding full_keys by simp
  moreover have "set ShortHelp \<subseteq> set (concat FullHelp)" by (simp add: ShortHelp_def FullHelp_def)
  ultimately show ?thesis by blast
qed

theorem help_is_complete_witness: "handleKey (\<lambda>a. Inr ()) NewDashboard ''x'' = Ret (NewDashboard, [])"
  using help_is_complete [of "''x''" "\<lambda>a. Inr ()" NewDashboard] by (simp add: full_keys tablePanel_def NewDashboard_def)

section \<open>The list model\<close>

datatype View = ViewLogin | ViewFleet | ViewHost | ViewMetrics | ViewServices | ViewLogs | ViewActions | ViewSSH | ViewAudit | ViewHelp

record Model =
  md_role :: int
  md_no_color :: bool
  md_agents :: "string list"
  md_filter :: string
  md_dialog :: string

definition NewModel :: "int \<Rightarrow> bool \<Rightarrow> Model" where
  "NewModel role plain = \<lparr>md_role = role, md_no_color = plain, md_agents = [], md_filter = [], md_dialog = []\<rparr>"

definition CanView :: "Model \<Rightarrow> View \<Rightarrow> bool" where
  "CanView m v = (if v = ViewAudit then md_role m \<ge> ROLE_OPERATOR
     else if v = ViewActions \<or> v = ViewSSH then md_role m \<ge> ROLE_OPERATOR else True)"

definition SetAgents :: "Model \<Rightarrow> string list \<Rightarrow> Model" where
  "SetAgents m names = m\<lparr>md_agents := names\<rparr>"

definition Filter_agents :: "Model \<Rightarrow> string \<Rightarrow> Model" where
  "Filter_agents m value = m\<lparr>md_filter := to_lower value\<rparr>"

definition VisibleAgents :: "Model \<Rightarrow> string list" where
  "VisibleAgents m = sort (filter (\<lambda>a. md_filter m = [] \<or> contains (to_lower a) (md_filter m)) (md_agents m))"

definition Confirm_dialog :: "Model \<Rightarrow> string \<Rightarrow> Model" where
  "Confirm_dialog m action = m\<lparr>md_dialog := action\<rparr>"

definition DialogOpen :: "Model \<Rightarrow> bool" where
  "DialogOpen m \<longleftrightarrow> md_dialog m \<noteq> []"

definition AcceptDialog :: "Model \<Rightarrow> Model \<times> string" where
  "AcceptDialog m = (m\<lparr>md_dialog := []\<rparr>, md_dialog m)"

definition CancelDialog :: "Model \<Rightarrow> Model" where
  "CancelDialog m = m\<lparr>md_dialog := []\<rparr>"

lemma to_lower_idem: "to_lower (to_lower s) = to_lower s"
  using byte_less by (auto simp: to_lower_def mod_less less_trans [where y = 123])

text \<open>The list shows exactly the agents whose name has the filter's text in it, in alphabetical order and whatever
  the case of the filter; an action that is confirmed can be accepted once.\<close>

theorem visible_agents:
  "mset (VisibleAgents (Filter_agents m value)) = filter_mset (\<lambda>a. value = [] \<or> contains (to_lower a) (to_lower value)) (mset (md_agents m))
    \<and> sorted (VisibleAgents m) \<and> VisibleAgents (Filter_agents m (to_lower value)) = VisibleAgents (Filter_agents m value)
    \<and> AcceptDialog (fst (AcceptDialog (Confirm_dialog m action))) = (fst (AcceptDialog (Confirm_dialog m action)), [])"
  by (simp add: VisibleAgents_def Filter_agents_def to_lower_idem AcceptDialog_def Confirm_def)
    (simp add: to_lower_def)

end
