(* ===== verification/Screen.thy ===== *)
theory Screen
  imports Tables
begin

text \<open>
  The text of the dashboard's screen (\<open>src/internal/clientcli/view.go\<close> and the view of \<open>migrate_form.go\<close>). The
  styles, the joining and placing of blocks, and each widget's own view are the terminal libraries' and parameters
  here; so are the metrics panel's numbers, which are floating point. Whether the help is expanded is part of the
  dashboard's state, which drawing the help panel changes.
\<close>

section \<open>Parameters\<close>

record drawing =
  dw_style :: "string \<Rightarrow> string \<Rightarrow> string"
  dw_beside :: "int \<Rightarrow> string \<Rightarrow> string \<Rightarrow> string"
  dw_tabs :: "string list \<Rightarrow> string"
  dw_card :: "int \<Rightarrow> string \<Rightarrow> string"
  dw_place :: "int \<Rightarrow> int \<Rightarrow> string \<Rightarrow> string"
  dw_width :: "string \<Rightarrow> int"
  dw_height :: "string \<Rightarrow> int"
  dw_help :: "bool \<Rightarrow> string"
  dw_input :: "string \<Rightarrow> string \<Rightarrow> string"
  dw_spinner :: string
  dw_percent :: string
  dw_viewport :: string
  dw_table :: string
  dw_metrics :: "dash_value \<Rightarrow> string"
  dw_quote :: "string \<Rightarrow> string"
  dw_sprint :: "dash_value \<Rightarrow> string"
  dw_time :: "int \<Rightarrow> string"

text \<open>What is drawn: the dashboard, the agents as the server listed them, the rows of the table and whether the
  help is expanded.\<close>

record screen =
  sn_dash :: dash
  sn_agents :: "AgentItem list"
  sn_show_all :: bool

definition screen_ok :: "screen \<Rightarrow> bool" where
  "screen_ok s \<longleftrightarrow> da_agents (sn_dash s) = map (\<lambda>a. (ag_id a, ag_hostname a)) (sn_agents s)"

section \<open>Pieces\<close>

definition newline :: string where "newline = [CHR 0x0A]"
definition full_dot :: string where "full_dot = [CHR 0xE2, CHR 0x97, CHR 0x8F]"
definition empty_dot :: string where "empty_dot = [CHR 0xE2, CHR 0x97, CHR 0x8B]"
definition pointer :: string where "pointer = [CHR 0xE2, CHR 0x96, CHR 0xB8, CHR '' '']"
definition middle_dot :: string where "middle_dot = [CHR 0xC2, CHR 0xB7]"
definition left_right :: string where
  "left_right = [CHR 0xE2, CHR 0x86, CHR 0x90, CHR ''/'', CHR 0xE2, CHR 0x86, CHR 0x92]"

definition panel_names :: "string list" where
  "panel_names = [''Overview'', ''Metrics'', ''Services'', ''Logs'', ''Users'', ''SSH Keys'', ''Audit'', ''EasyPanel'', ''Help'']"

definition to_upper :: "string \<Rightarrow> string" where
  "to_upper s = map (\<lambda>c. if 97 \<le> byte c \<and> byte c \<le> 122 then char_of (byte c - 32) else c) s"

text \<open>\<open>%-ns\<close>, which pads to a number of characters.\<close>

definition pad :: "nat \<Rightarrow> string \<Rightarrow> string" where
  "pad n s = s @ replicate (n - List.length (runes s)) (CHR '' '')"

definition blank_lines :: "int \<Rightarrow> string" where
  "blank_lines n = replicate (nat n) (CHR 0x0A)"

definition headerView :: "drawing \<Rightarrow> screen \<Rightarrow> string" where
  "headerView D s =
    (let online = List.length (filter ag_online (sn_agents s)); total = List.length (sn_agents s);
         pill = dw_style D ''statPill'';
         stats = join '' '' [pill (''fleet '' @ dec_of_nat total), pill (''online '' @ dec_of_nat online), pill (''offline '' @ dec_of_nat (total - online))];
         title = dw_style D ''title'' (full_dot @ '' Silent DevOps'');
         gap = max 1 (da_width (sn_dash s) - dw_width D title - dw_width D stats)
     in title @ replicate (nat gap) (CHR '' '') @ stats)"

definition tabsView :: "drawing \<Rightarrow> dash \<Rightarrow> string" where
  "tabsView D d = dw_tabs D (map (\<lambda>i. dw_style D (if i = da_panel d then ''tabActive'' else ''tab'') (panel_names ! i)) [0..<List.length panel_names])"

definition sidebar_row :: "drawing \<Rightarrow> bool \<Rightarrow> AgentItem \<Rightarrow> string" where
  "sidebar_row D chosen a =
    (let dot = (if ag_online a then dw_style D ''okDot'' full_dot else dw_style D ''offDot'' empty_dot); name = cut_text (ag_hostname a) 20
     in if chosen then dw_style D ''cursor'' pointer @ dot @ '' '' @ dw_style D ''value'' name
        else ''  '' @ dot @ '' '' @ dw_style D ''subtle'' name)"

definition sidebar :: "drawing \<Rightarrow> screen \<Rightarrow> string" where
  "sidebar D s = join newline ([dw_style D ''heading'' ''AGENTS'', []]
     @ map (\<lambda>(i, a). sidebar_row D (i = da_selected (sn_dash s)) a) (List.enumerate 0 (sn_agents s))
     @ (if sn_agents s = [] then [dw_style D ''subtle'' ''No agents''] else []))"

definition overview :: "drawing \<Rightarrow> AgentItem \<Rightarrow> string" where
  "overview D a =
    (let row = (\<lambda>l v. dw_style D ''label'' (pad 10 l) @ dw_style D ''value'' v);
         status = (if ag_online a then dw_style D ''okDot'' ''online'' else dw_style D ''offDot'' ''offline'')
     in dw_style D ''heading'' ''HOST OVERVIEW'' @ newline @ newline @ row ''Hostname'' (ag_hostname a) @ newline @ row ''ID'' (ag_id a) @ newline
       @ dw_style D ''label'' (pad 10 ''Status'') @ status @ newline @ row ''Last seen'' (formatTime (dw_time D) (ag_last_seen a)))"

text \<open>The panel of the selected agent, and whether the help is expanded afterwards.\<close>

definition panelView :: "drawing \<Rightarrow> screen \<Rightarrow> (string \<times> bool) outcome" where
  "panelView D s =
    (let d = sn_dash s; all = sn_show_all s; p = da_panel d in
     if da_loading d then Ret (dw_spinner D @ dw_style D ''subtle'' (''loading'' @ ellipsis), all)
     else if sn_agents s = [] then Ret (dw_style D ''subtle'' ''No fleet data'', all)
     else case nth_or_panic (sn_agents s) (da_selected d) of
       Panic m \<Rightarrow> Panic m
     | Ret a \<Rightarrow>
        let head = dw_style D ''heading'' (to_upper (panel_names ! p)) in
        Ret (if p = 0 then (overview D a, all)
         else if p = 1 then (dw_metrics D (da_data d), all)
         else if scrollPanel p then (head @ ''  '' @ dw_style D ''subtle'' (dw_percent D) @ newline @ newline @ dw_viewport D, all)
         else if tablePanel p
         then (head @ ''  '' @ dw_style D ''subtle'' (dec_of_nat (List.length (da_rows d)) @ '' rows''
                @ (if da_filter d = [] then [] else CHR '' '' # middle_dot @ '' filter '' @ dw_quote D (da_filter d)))
              @ newline @ newline @ dw_table D, all)
         else if p = 8
         then (dw_style D ''heading'' ''KEY BINDINGS'' @ newline @ newline @ dw_help D True @ newline @ newline
              @ dw_style D ''subtle'' ''Live dashboard refreshes every 15 seconds.'', True)
         else (head @ newline @ newline @ dw_sprint D (da_data d), all)))"

definition loginView :: "drawing \<Rightarrow> dash \<Rightarrow> string" where
  "loginView D d =
    (let body = dw_style D ''title'' (full_dot @ '' SILENT DEVOPS'') @ newline @ newline @ dw_style D ''subtle'' ''Session expired. Sign in to continue.''
           @ newline @ newline @ dw_style D ''label'' ''Username'' @ newline @ dw_input D ''user'' (da_user d) @ newline @ newline
           @ dw_style D ''label'' ''Password'' @ newline @ dw_input D ''pass'' (da_pass d) @ newline @ newline
           @ dw_style D ''footer'' (''tab field '' @ middle_dot @ '' enter connect '' @ middle_dot @ '' esc quit'');
         card = dw_card D (max 48 (da_width d div 2)) body
     in if 0 < da_width d \<and> 0 < da_height d then dw_place D (da_width d) (da_height d) card else card)"

section \<open>The migration form\<close>

definition agentName :: "agent_ref \<Rightarrow> string" where
  "agentName a = (if snd a = [] then fst a else snd a) @ '' ('' @ fst a @ '')''"

definition boolText :: "bool \<Rightarrow> string" where
  "boolText b = (if b then ''yes'' else ''no'')"

definition toggleLine :: "drawing \<Rightarrow> bool \<Rightarrow> string \<Rightarrow> string \<Rightarrow> string" where
  "toggleLine D focused label val = (if focused then dw_style D ''cursor'' pointer else ''  '') @ dw_style D ''label'' (pad 22 label) @ dw_style D ''value'' val"

definition confirm_line :: "drawing \<Rightarrow> string" where
  "confirm_line D = newline @ dw_style D ''offDot'' ''Press Enter again to CONFIRM this migration.'' @ newline"

definition migrate_head :: "drawing \<Rightarrow> migrate_form \<Rightarrow> string" where
  "migrate_head D f = dw_style D ''heading'' ''MIGRATE EASYPANEL SERVICE'' @ newline @ newline
     @ dw_style D ''label'' ''source agent  '' @ dw_style D ''value'' (agentName (fm_source f)) @ newline @ newline
     @ concat (map (\<lambda>(i, v). (if fm_focus f = i then dw_style D ''cursor'' pointer else ''  '')
          @ dw_style D ''label'' (pad 15 (migrateLabels ! i)) @ dw_input D ''field'' v @ newline) (List.enumerate 0 (fm_fields f)))
     @ newline"

definition migrate_target :: "drawing \<Rightarrow> migrate_form \<Rightarrow> agent_ref \<Rightarrow> string" where
  "migrate_target D f target = toggleLine D (fm_focus f = mfTarget) ''target agent'' (agentName target @ ''  ('' @ left_right @ '')'')"

definition migrate_toggles :: "drawing \<Rightarrow> migrate_form \<Rightarrow> string" where
  "migrate_toggles D f = newline
     @ toggleLine D (fm_focus f = mfCreate) ''create remote project'' (boolText (fm_create f) @ ''  (space)'') @ newline
     @ toggleLine D (fm_focus f = mfOverwrite) ''overwrite remote svc'' (boolText (fm_overwrite f) @ ''  (space)'') @ newline
     @ toggleLine D (fm_focus f = mfDetach) ''detach (run in background)'' (boolText (fm_detach f) @ ''  (space)'') @ newline @ newline
     @ (if fm_focus f = mfSubmit then dw_style D ''cursor'' pointer @ dw_style D ''value'' ''[ run migrate ]'' else ''  [ run migrate ]'') @ newline"

definition migrate_legend :: "drawing \<Rightarrow> string" where
  "migrate_legend D = newline @ dw_style D ''subtle'' (''tab/'' @ up_arrow @ down_arrow @ '' move '' @ middle_dot @ '' '' @ left_right
     @ ''/space toggle '' @ middle_dot @ '' enter next/confirm '' @ middle_dot @ '' esc cancel'') @ newline"

definition migrateView :: "drawing \<Rightarrow> migrate_form option \<Rightarrow> string outcome" where
  "migrateView D form = (case form of None \<Rightarrow> Ret []
   | Some f \<Rightarrow> (case nth_or_panic (fm_targets f) (fm_target f) of
       Panic m \<Rightarrow> Panic m
     | Ret target \<Rightarrow> Ret (migrate_head D f @ migrate_target D f target @ migrate_toggles D f
         @ (if fm_confirm f then confirm_line D else []) @ migrate_legend D)))"

section \<open>The whole screen\<close>

definition footerView :: "drawing \<Rightarrow> dash \<Rightarrow> bool \<Rightarrow> string" where
  "footerView D d all =
    (if da_searching d
     then dw_style D ''footer'' ''search: '' @ dw_input D ''search'' (da_search d) @ ''  '' @ dw_style D ''subtle'' (''enter apply '' @ middle_dot @ '' esc cancel'')
     else case da_err d of
       Some err \<Rightarrow> dw_style D ''errText'' (''Error: '' @ error_text err) @ newline @ dw_help D all
     | None \<Rightarrow> dw_help D all @ (if tablePanel (da_panel d) then dw_style D ''subtle'' (''  '' @ middle_dot @ '' / filter'') else []))"

definition top_view :: "drawing \<Rightarrow> screen \<Rightarrow> string \<Rightarrow> string" where
  "top_view D s body =
    (let d = sn_dash s; side = dw_style D ''sidebar'' (sidebar D s); main = dw_style D ''panel'' body;
         content = (if 90 \<le> da_width d then dw_beside D (max 40 (da_width d - 40)) side main else side @ newline @ main)
     in headerView D s @ newline @ tabsView D d @ newline @ newline @ content)"

definition stick :: "drawing \<Rightarrow> int \<Rightarrow> string \<Rightarrow> string \<Rightarrow> string" where
  "stick D height upper footer =
    (let gap = height - dw_height D upper - dw_height D footer
     in (if 0 < height \<and> 0 < gap then upper @ blank_lines gap else upper) @ newline @ footer)"

definition View_screen :: "drawing \<Rightarrow> screen \<Rightarrow> (string \<times> screen) outcome" where
  "View_screen D s =
    (let d = sn_dash s in
     if da_login d then Ret (loginView D d, s)
     else case panelView D s of
       Panic m \<Rightarrow> Panic m
     | Ret (body, all) \<Rightarrow> (case (if da_migrating d then migrateView D (da_form d) else Ret body) of
         Panic m \<Rightarrow> Panic m
       | Ret drawn \<Rightarrow> Ret (stick D (da_height d) (top_view D s drawn) (footerView D d all), s\<lparr>sn_show_all := all\<rparr>)))"

text \<open>Drawing never indexes past a list, whatever the dashboard went through.\<close>

lemma View_screen_returns:
  assumes "dash_ok (sn_dash s)" "screen_ok s"
  shows "\<exists>out all. View_screen D s = Ret (out, s\<lparr>sn_show_all := all\<rparr>) \<and> (sn_show_all s \<longrightarrow> all)"
proof -
  have n: "List.length (sn_agents s) = List.length (da_agents (sn_dash s))"
    using assms(2) by (simp add: screen_ok_def)
  have p: "\<exists>out all. panelView D s = Ret (out, all) \<and> (sn_show_all s \<longrightarrow> all)"
  proof (cases "sn_agents s = []")
    case False
    then have "da_selected (sn_dash s) < List.length (sn_agents s)" using assms(1) n by (auto simp: dash_ok_def)
    then show ?thesis by (auto simp: panelView_def Let_def nth_or_panic_def)
  qed (simp add: panelView_def Let_def)
  have m: "\<exists>out. migrateView D (da_form (sn_dash s)) = Ret out"
    using assms(1) by (cases "da_form (sn_dash s)") (auto simp: migrateView_def nth_or_panic_def dash_ok_def form_ok_def)
  show ?thesis
  proof (cases "da_login (sn_dash s)")
    case True
    then show ?thesis by (intro exI [of _ "loginView D (sn_dash s)"] exI [of _ "sn_show_all s"]) (simp add: View_screen_def Let_def)
  next
    case False
    then show ?thesis using p m by (auto simp: View_screen_def Let_def)
  qed
qed

lemma View_screen_text:
  assumes "View_screen D s = Ret (out, s')" "\<not> da_login (sn_dash s)"
  shows "\<exists>body. out = stick D (da_height (sn_dash s)) (top_view D s body) (footerView D (sn_dash s) (sn_show_all s')) \<and> s' = s\<lparr>sn_show_all := sn_show_all s'\<rparr>"
  using assms by (auto simp: View_screen_def Let_def split: outcome.splits prod.splits)

section \<open>The footer\<close>

definition lines_of :: "string \<Rightarrow> int" where
  "lines_of s = 1 + int (List.length (filter (\<lambda>ch. ch = CHR 0x0A) s))"

lemma lines_of_append: "lines_of (s @ t) = lines_of s + lines_of t - 1"
  by (simp add: lines_of_def)

lemma lines_of_blank: "0 \<le> n \<Longrightarrow> lines_of (blank_lines n) = n + 1"
  by (simp add: lines_of_def blank_lines_def)

lemma lines_of_newline: "lines_of newline = 2"
  by (simp add: lines_of_def newline_def)

lemma stick_lines:
  assumes "\<And>t. dw_height D t = lines_of t" "0 < height"
  shows "lines_of (stick D height upper footer) = max height (lines_of upper + lines_of footer)"
  using assms by (auto simp: stick_def Let_def lines_of_append lines_of_blank lines_of_newline)

text \<open>The help bar is on the last row of a terminal of known height as long as everything above it fits; otherwise
  the screen is taller than the terminal.\<close>

theorem footer_sticks:
  assumes "\<And>t. dw_height D t = lines_of t" "View_screen D s = Ret (out, s')" "\<not> da_login (sn_dash s)" "0 < da_height (sn_dash s)"
  shows "\<exists>body front. out = front @ newline @ footerView D (sn_dash s) (sn_show_all s')
    \<and> lines_of out = max (da_height (sn_dash s)) (lines_of (top_view D s body) + lines_of (footerView D (sn_dash s) (sn_show_all s')))"
proof -
  obtain body where b: "out = stick D (da_height (sn_dash s)) (top_view D s body) (footerView D (sn_dash s) (sn_show_all s'))"
    using View_screen_text [OF assms(2,3)] by blast
  obtain front where "out = front @ newline @ footerView D (sn_dash s) (sn_show_all s')"
    unfolding b stick_def Let_def by blast
  moreover have "lines_of out = max (da_height (sn_dash s)) (lines_of (top_view D s body) + lines_of (footerView D (sn_dash s) (sn_show_all s')))"
    unfolding b by (rule stick_lines [OF assms(1,4)])
  ultimately show ?thesis by (intro exI conjI)
qed

text \<open>Drawing the help panel expands the help, and nothing shortens it again: in every later screen, of any panel,
  the footer's legend is the full one.\<close>

theorem help_stays_expanded:
  assumes "View_screen D s = Ret (out, s1)" "\<not> da_login (sn_dash s)" "\<not> da_loading (sn_dash s)" "sn_agents s \<noteq> []" "da_panel (sn_dash s) = 8"
    and "View_screen D (s1\<lparr>sn_dash := d, sn_agents := listed\<rparr>) = Ret (out2, s2)" "\<not> da_login d" "\<not> da_searching d"
  shows "sn_show_all s2 \<and> (\<exists>front hint. out2 = front @ dw_help D True @ hint)"
proof -
  have "sn_show_all s1"
    using assms(1-5) by (auto simp: View_screen_def panelView_def Let_def scrollPanel_def tablePanel_def easypanelPanel_def split: outcome.splits)
  then have a: "sn_show_all s2"
    using assms(6,7) by (auto simp: View_screen_def panelView_def Let_def split: outcome.splits if_splits)
  obtain front where "out2 = front @ newline @ footerView D d True"
    using View_screen_text [OF assms(6)] a assms(7) by (auto simp: stick_def Let_def)
  moreover obtain front2 hint where "footerView D d True = front2 @ dw_help D True @ hint"
  proof (cases "da_err d")
    case None
    then show ?thesis using assms(8) that [of "[]"] by (simp add: footerView_def)
  next
    case (Some err)
    then show ?thesis using assms(8) that [of "dw_style D ''errText'' (''Error: '' @ error_text err) @ newline" "[]"] by (simp add: footerView_def)
  qed
  ultimately have "out2 = (front @ newline @ front2) @ dw_help D True @ hint" by simp
  then show ?thesis using a by blast
qed

section \<open>Drawing after any run\<close>

text \<open>After whatever messages, the dashboard's screen can be drawn, and drawing it never shortens the help.\<close>

theorem screen_always_drawn:
  assumes "run_dash launch NewDashboard msgs = Ret (sn_dash s)" "screen_ok s"
  shows "\<exists>out all. View_screen D s = Ret (out, s\<lparr>sn_show_all := all\<rparr>) \<and> (sn_show_all s \<longrightarrow> all)"
  using run_dash_ok [OF NewDashboard_ok, of launch msgs] assms View_screen_returns by auto

text \<open>What is run is what the screen has asked to confirm: when a key starts a migration, the form on the screen shows
  the request to confirm it, and above it the name and the id of the agent that is its target.\<close>

theorem confirmed_on_screen:
  assumes "run_dash launch NewDashboard msgs = Ret d" "Update launch d m = Ret (d', cs)" "MigrateCmd args \<in> set cs"
  shows "\<exists>f target front middle rest. da_form d = Some f \<and> target \<in> set (fm_targets f) \<and> args = migrate_args f (fst target)
    \<and> migrateView D (da_form d) = Ret (front @ migrate_target D f target @ middle @ confirm_line D @ rest)"
proof -
  have "dash_ok d" using run_dash_ok [OF NewDashboard_ok, of launch msgs] assms(1) by auto
  moreover obtain f where f: "da_form d = Some f" "fm_confirm f" "args = migrate_args f (fst (fm_targets f ! fm_target f))"
    using Update_dispatch [OF assms(2,3)] by blast
  ultimately have "nth_or_panic (fm_targets f) (fm_target f) = Ret (fm_targets f ! fm_target f)" "fm_targets f ! fm_target f \<in> set (fm_targets f)"
    by (auto simp: dash_ok_def form_ok_def nth_or_panic_def)
  then show ?thesis using f by (intro exI [of _ f] exI [of _ "fm_targets f ! fm_target f"]) (auto simp: migrateView_def)
qed

section \<open>Examples\<close>

definition demo_drawing :: drawing where
  "demo_drawing = \<lparr>dw_style = \<lambda>style t. t, dw_beside = \<lambda>w a b. a @ newline @ b, dw_tabs = concat, dw_card = \<lambda>w t. t, dw_place = \<lambda>w h t. t,
     dw_width = \<lambda>t. int (List.length t), dw_height = lines_of, dw_help = \<lambda>all. if all then ''all keys'' else ''keys'', dw_input = \<lambda>name t. t,
     dw_spinner = [], dw_percent = ''0%'', dw_viewport = [], dw_table = [], dw_metrics = \<lambda>v. [], dw_quote = id, dw_sprint = \<lambda>v. [], dw_time = \<lambda>t. []\<rparr>"

definition demo_screen :: screen where
  "demo_screen = \<lparr>sn_dash = NewDashboard\<lparr>da_agents := [(''a'', ''ha'')], da_panel := 8, da_loading := False, da_height := 50\<rparr>,
     sn_agents = [\<lparr>ag_id = ''a'', ag_hostname = ''ha'', ag_revoked = False, ag_online = True, ag_last_seen = 0\<rparr>], sn_show_all = False\<rparr>"

lemma demo_screen_simps [simp]:
  "da_login (sn_dash demo_screen) = False" "da_loading (sn_dash demo_screen) = False" "da_panel (sn_dash demo_screen) = 8" "da_height (sn_dash demo_screen) = 50"
  "sn_agents demo_screen \<noteq> []" "dash_ok (sn_dash demo_screen)" "screen_ok demo_screen" "dw_height demo_drawing = lines_of"
  by (simp_all add: demo_screen_def NewDashboard_def dash_ok_def screen_ok_def demo_drawing_def panels_def)

theorem footer_sticks_witness:
  "\<exists>out s' body front. View_screen demo_drawing demo_screen = Ret (out, s') \<and> out = front @ newline @ footerView demo_drawing (sn_dash demo_screen) (sn_show_all s')
    \<and> lines_of out = max 50 (lines_of (top_view demo_drawing demo_screen body) + lines_of (footerView demo_drawing (sn_dash demo_screen) (sn_show_all s')))"
proof -
  obtain out full where v: "View_screen demo_drawing demo_screen = Ret (out, demo_screen\<lparr>sn_show_all := full\<rparr>)"
    using View_screen_returns [of demo_screen demo_drawing] by auto
  show ?thesis using footer_sticks [OF _ v] v by fastforce
qed

theorem help_stays_expanded_witness:
  "\<exists>out s1 out2 s2 front hint. View_screen demo_drawing demo_screen = Ret (out, s1)
    \<and> View_screen demo_drawing (s1\<lparr>sn_dash := NewDashboard, sn_agents := []\<rparr>) = Ret (out2, s2) \<and> out2 = front @ ''all keys'' @ hint"
proof -
  obtain out full where v: "View_screen demo_drawing demo_screen = Ret (out, demo_screen\<lparr>sn_show_all := full\<rparr>)"
    using View_screen_returns [of demo_screen demo_drawing] by auto
  let ?s = "demo_screen\<lparr>sn_show_all := full, sn_dash := NewDashboard, sn_agents := []\<rparr>"
  have "dash_ok (sn_dash ?s)" "screen_ok ?s" by (simp_all add: NewDashboard_ok screen_ok_def, simp add: NewDashboard_def)
  then obtain out2 s2 where w: "View_screen demo_drawing ?s = Ret (out2, s2)"
    using View_screen_returns [of ?s demo_drawing] by blast
  have d: "\<not> da_login NewDashboard" "\<not> da_searching NewDashboard" "dw_help demo_drawing True = ''all keys''"
    by (simp_all add: NewDashboard_def demo_drawing_def)
  show ?thesis using help_stays_expanded [OF v _ _ _ _ w] v w d by fastforce
qed

theorem screen_always_drawn_witness:
  "\<exists>out s'. View_screen demo_drawing \<lparr>sn_dash = NewDashboard, sn_agents = [], sn_show_all = True\<rparr> = Ret (out, s') \<and> sn_show_all s'"
proof -
  have "screen_ok \<lparr>sn_dash = NewDashboard, sn_agents = [], sn_show_all = True\<rparr>" by (simp add: screen_ok_def NewDashboard_def)
  then show ?thesis
    using screen_always_drawn [of "\<lambda>a. Inr ()" "[]" "\<lparr>sn_dash = NewDashboard, sn_agents = [], sn_show_all = True\<rparr>" demo_drawing] by fastforce
qed

theorem confirmed_on_screen_witness:
  "\<exists>d d' args f front middle rest. run_dash (\<lambda>a. Inr ()) NewDashboard (demo_msgs @ [pressed ''enter'']) = Ret d
    \<and> Update (\<lambda>a. Inr ()) d (pressed ''enter'') = Ret (d', [MigrateCmd args])
    \<and> migrateView demo_drawing (da_form d) = Ret (front @ migrate_target demo_drawing f (''b'', ''hb'') @ middle @ confirm_line demo_drawing @ rest)"
proof -
  obtain d' where two: "Update (\<lambda>a. Inr ()) demo_asked (pressed ''enter'') = Ret (d', [MigrateCmd (migrate_args (demo_form\<lparr>fm_confirm := True\<rparr>) ''b'')])"
    using demo_confirmed(2) by blast
  have f: "da_form demo_asked = Some (demo_form\<lparr>fm_confirm := True\<rparr>)" "fm_targets demo_form = [(''b'', ''hb'')]"
    by (simp_all add: demo_asked_def demo_form_def)
  obtain front middle rest where "migrateView demo_drawing (da_form demo_asked)
      = Ret (front @ migrate_target demo_drawing (demo_form\<lparr>fm_confirm := True\<rparr>) (''b'', ''hb'') @ middle @ confirm_line demo_drawing @ rest)"
    using confirmed_on_screen [OF demo_confirmed(1) two, of _ demo_drawing] f by fastforce
  then show ?thesis using demo_confirmed(1) two by blast
qed

end
