(* ===== verification/Spec2Isabelle.thy ===== *)
theory Spec2Isabelle
  imports AuthService Invitations IdentityFacts ServerJobs ServerAdmin ServerSsh RegistryService
    RegistryFacts Tunnel Metrics MetricsStore Retention Maintenance SshKeys AgentNode MigrationFlow NativeSsh ClientJoin AdminExec AgentRun Screen
begin

text \<open>
  Silent DevOps, a control plane for a fleet of hosts, in Go.

  A \<^bold>\<open>validator\<close> (\<open>src/cmd/validator\<close>) keeps users, agents, jobs, SSH sessions, metrics and an audit trail in
  SQLite and serves gRPC over TLS. An \<^bold>\<open>agent\<close> (\<open>src/cmd/agent\<close>) runs as root on each host, joins with a
  one-time token and a pinned certificate, keeps one bidirectional stream to the validator open, runs the jobs it
  gets and installs session keys for SSH. A \<^bold>\<open>client\<close> (\<open>src/cmd/client\<close>) is a command line and a terminal
  dashboard for the operators. A client reaches a host by a tunnel: the validator joins the client's stream with one
  the agent opens on request. \<open>easypanel-migrate\<close> runs on the agents and moves services between EasyPanel
  installations.

  The model is a shallow embedding. A handler is a function from its arguments, its state and an environment to the new
  state and an answer. \<open>'a result\<close> is \<open>error + 'a\<close>, and every returned error of the source is a value of it.
  \<open>'a outcome\<close> is \<open>Ret\<close> or \<open>Panic\<close>; a nil pointer that is used, a closed channel that is sent to or
  closed again, and an index past a list are panics. An \<open>env\<close> (Prelude) says what the clock reads, which bytes the
  entropy source gives and which of the call's statements the database fails; every theorem holds for all of them
  unless it says otherwise. Strings are byte lists, as in Go.

  \<^bold>\<open>Shared theories\<close>

  \<^item> Prelude: bytes, machine words, instants, errors, the environment, and the interfaces \<open>one_shot\<close> (a step that
    can be taken once for a key: in any run of any length it succeeds at most once) and \<open>bounded\<close> (an operation that
    keeps a measure below its limit).
  \<^item> GoStrings, Paths, Encoding: \<open>strings\<close>, \<open>strconv\<close>, \<open>path/filepath\<close>, hexadecimal and base64 as the
    program uses them, with the interface \<open>codec\<close>, and the cryptographic primitives as parameters (record \<open>crypto\<close>).
  \<^item> Api: the messages of \<open>src/api/devops/v1\<close> as records and datatypes, with \<open>limits.go\<close>. Store: the tables
    of \<open>src/internal/store/migrations\<close>, one record per table; \<open>db_ok\<close> is every PRIMARY KEY, UNIQUE and
    REFERENCES constraint, and a statement that would break it fails and changes nothing. AtomicFile: files replaced in
    one step.

  \<^bold>\<open>The validator\<close>

  \<^item> AuthPolicy, AuthToken, AuthService, Invitations (\<open>src/internal/auth\<close>, \<open>server/auth.go\<close>): address lists, rate
    limits, passwords, access tokens, the interceptors, login and client invitations.
  \<^item> Pki, Identity, IdentityFacts, CertFiles (\<open>src/internal/pki\<close>, \<open>server/enrollment.go\<close>): enrollment tokens,
    agents' identities, renewal and revocation, pins, certificates and credentials on disk.
  \<^item> Registry, RegistryFacts, RegistryService (\<open>src/internal/registry\<close>): sessions of the connected agents with their
    bounded queues; the stream's service, its message handler and the connection rows.
  \<^item> Tunnel, SshSession, ServerSsh (\<open>src/internal/tunnel\<close>, \<open>ssh/session.go\<close>, \<open>server/ssh.go\<close>): the rendezvous of
    two streams as a step relation, the life of an SSH session, and its handlers.
  \<^item> ServerBase, ServerJobs, ServerAdmin (\<open>src/internal/server\<close>): jobs, output and cancellation; agents, tokens,
    users, keys, metrics and audit. AdminExec (\<open>src/internal/adminexec\<close>): audited commands, with the store's single
    connection and the transaction that may stay open on it.
  \<^item> MetricsStore, Retention (\<open>src/internal/metrics/store.go\<close>, \<open>store/store.go\<close>): stored snapshots; opening,
    migrating, cleaning and backing up the database.
  \<^item> ValidatorSetup, LocalControl, ValidatorRun (\<open>src/internal/validatorinit\<close>, \<open>runtime\<close>, \<open>localcontrol\<close>,
    \<open>src/cmd/validator\<close>): initialisation, configuration, the commands on the validator's own host, and the start of
    the process from its files and database to the servers.

  \<^bold>\<open>The agent\<close>

  \<^item> Metrics, Maintenance, SshKeys (\<open>src/internal/metrics\<close>, \<open>maintenance\<close>, \<open>ssh/keys.go\<close>): what it measures,
    what it runs, and the session keys it installs.
  \<^item> AgentNode (\<open>src/internal/agent\<close>): jobs, the connection and its back-off, SSH preparation, and its end of a tunnel.
  \<^item> AgentJoin, AgentRun (\<open>src/internal/agentjoin\<close>, \<open>runtime/agent.go\<close>, \<open>src/cmd/agent\<close>): joining, and the
    process from the stored credentials to the turns of its reconnection loop.

  \<^bold>\<open>The client\<close>

  \<^item> ClientCli, ClientCalls, ClientJoin, NativeSsh (\<open>src/internal/clientcli\<close>, \<open>clientapi\<close>, \<open>src/cmd/client\<close>): the
    command line, the requests a command becomes, joining, the pipe and the interactive SSH session.
  \<^item> Dashboard, Tables, Screen: the dashboard's state and messages, its tables and keys, and the text it draws.
  \<^item> EasyPanel, EasyPanelCmd, MigrationFlow (\<open>src/internal/easypanel\<close>, \<open>src/cmd/easypanel-migrate\<close>): the panel's
    client, the program, and the way of a migration from the dashboard's form through a shell to the program's flags.
\<close>

text \<open>
  \<^bold>\<open>What is shown\<close>

  \<^item> Once only. An invitation, an enrollment token, a job's idempotency key, a session's readiness and a job on an agent
    are used once in every run, whatever else happens in between. Each follows from an interpretation of \<open>one_shot\<close>
    on the handlers' own step function, so the argument over runs is made once.
  \<^item> Who may. No unary or streaming handler runs without the interceptor's authentication and role; the agents' stream
    needs a certificate of a known, unexpired, unrevoked identity; a revoked one never connects again; a tunnel's two
    ends need the session's owner and the agent with its one-time token; the local socket's caller is the kernel's.
  \<^item> Invariants. \<open>reg_ok\<close> of the registry, \<open>db_ok\<close> and the states of SSH sessions and jobs, \<open>dash_ok\<close> of the
    dashboard are kept by every operation; a settled job's row never changes.
  \<^item> All or nothing. Submitting a job, redeeming an invitation, replacing a file, cleaning up, migrating and backing up
    leave either the whole effect or none, for each point at which the store or the file system can fail; where the code
    does not have this property, the theorem says what is left (an interrupted join, a failed audit identifier).
  \<^item> Delivery. What the registry has taken for an agent arrives after as many receptions as messages were before it; the
    queue, the tunnel's pumps, the pipe and the output's chunks carry bytes in order and unchanged; following a job ends.
  \<^item> References. The paths an agent accepts are those inside its roots; the files an agent changes are runs over its
    authorized keys; the queue is a list; the migrations applied are a prefix of the missing ones.
  \<^item> End to end. A validator that has been initialised serves with the certificate whose pin was printed; the code printed
    for an invitation redeems; a host that joined is let in and appears online; a migration is the one that was
    confirmed on the screen, and its values reach the flags of the program on the other side of a shell.

  \<^bold>\<open>Bounds and loops\<close>

  Counters, sizes, limits and deadlines of the protocol are machine words or integers with the conversions of the code
  written out. Structural loops are \<open>fun\<close>; the others have a measure. A loop that waits for the outside has the
  answers it gets as a list: polling an SSH session or a job ends when the list does, and a list that is too short is
  the value \<open>None\<close> or a state that is not final, which no theorem counts as success. \<open>AdminExec.Execute\<close> is \<open>None\<close> when
  it waits for a connection that is never given back. Concurrent parts are interleavings: of registry operations
  (\<open>RegistryFacts.run_queue\<close>), of the relay's select points (a step relation in Tunnel), of the two directions of a pipe
  (a list of turns), of the agent's job handler (its critical sections).

  \<^bold>\<open>Parameters\<close>

  Code that is not in the repository is an argument: hashes, signatures, X.509, PEM and PKCS#8 (\<open>crypto\<close>,
  \<open>cert_lib\<close>), JSON, the operating system's calls and processes, the terminal libraries, SQLite's driver, EasyPanel and
  the scripts run in its container. What a theorem needs of them is a named hypothesis that states documented behaviour:
  \<open>pem_reads\<close>, \<open>keys_read\<close>, \<open>encryption_opens\<close>, \<open>certified_parses\<close>, \<open>profile_reads\<close>,
  \<open>invitation_reads\<close> (what was written reads back), \<open>temps_fresh\<close> (a temporary file is new), the length of a digest;
  each is shown to hold of a concrete instance by a witness. The TLS handshake is gRPC's: a stream's service gets the
  certificates the peer presented, and that an agent trusts the validator's certificate is not part of the model (it
  does not trust the one \<open>Init\<close> writes).

  \<^bold>\<open>Not modelled\<close>

  \<^item> The generated protocol code (\<open>*.pb.go\<close>) and gRPC's servers, their loops and their shutdown: services are the
    handlers they call.
  \<^item> Colours and styles (\<open>clientcli/theme.go\<close>), the widgets of the terminal libraries, and the metrics panel's
    floating-point percentages. \<open>strings.ToLower\<close> is the one for ASCII.
  \<^item> \<open>localcontrol.Dial\<close>, \<open>agentjoin.DefaultTransport\<close> beyond its pin check, and the contexts' deadlines except where a
    handler reads them; the locks, which make the interleaved sections atomic as they are here.
  \<^item> \<open>src/cmd/integration-helper\<close>, a program that drives the tests; \<open>src/internal/command\<close>, which no program calls.
\<close>

end
